(* ===== verification/Prelude.thy ===== *)
theory Prelude imports Main "HOL-Library.Word" begin

text \<open>
  Shared vocabulary of the development: the machine types of the payment driver, the
  state-and-error computations in which its handlers are written, and generic lemmas on lists
  and computations that every component uses.

  A Rust function returning \<open>Result<T, PaymentError>\<close> that changes a state \<open>'s\<close> is a
  function \<open>'s \<Rightarrow> (failure + 'a) \<times> 's\<close>: the state is returned on the error path too, because
  the effects that happened before an early \<open>return Err(..)\<close> (or a \<open>?\<close>) stay. Effects inside
  a database transaction that is not committed are undone: that is \<open>atomically\<close>.
\<close>

named_theorems monad_simps \<open>unfolding equations of the computation combinators\<close>
named_theorems preserves_intro \<open>introduction rules for invariants of computations\<close>

section \<open>Machine types\<close>

type_synonym u256 = "256 word"
type_synonym address = "160 word"
type_synonym h256 = "256 word"
type_synonym byte = "8 word"
type_synonym bytes = "8 word list"

text \<open>Columns of type i64 and timestamps (seconds since the epoch) are integers.\<close>

type_synonym i64 = int
type_synonym timestamp = int

section \<open>Computations with state and errors\<close>

type_synonym ('s, 'f, 'a) prog = "'s \<Rightarrow> ('f + 'a) \<times> 's"

definition ret :: "'a \<Rightarrow> ('s, 'f, 'a) prog" where
  "ret a s = (Inr a, s)"

definition throw :: "'f \<Rightarrow> ('s, 'f, 'a) prog" where
  "throw e s = (Inl e, s)"

definition bindM :: "('s, 'f, 'a) prog \<Rightarrow> ('a \<Rightarrow> ('s, 'f, 'b) prog) \<Rightarrow> ('s, 'f, 'b) prog" where
  "bindM m f s = (case m s of (Inl e, s') \<Rightarrow> (Inl e, s') | (Inr a, s') \<Rightarrow> f a s')"

definition gets :: "('s \<Rightarrow> 'a) \<Rightarrow> ('s, 'f, 'a) prog" where
  "gets f s = (Inr (f s), s)"

definition modify :: "('s \<Rightarrow> 's) \<Rightarrow> ('s, 'f, unit) prog" where
  "modify f s = (Inr (), f s)"

definition liftR :: "'f + 'a \<Rightarrow> ('s, 'f, 'a) prog" where
  "liftR r s = (r, s)"

definition require :: "'f \<Rightarrow> 'a option \<Rightarrow> ('s, 'f, 'a) prog" where
  "require e x = (case x of None \<Rightarrow> throw e | Some a \<Rightarrow> ret a)"

definition whenM :: "bool \<Rightarrow> ('s, 'f, unit) prog \<Rightarrow> ('s, 'f, unit) prog" where
  "whenM c m = (if c then m else ret ())"

fun forM :: "'a list \<Rightarrow> ('a \<Rightarrow> ('s, 'f, unit) prog) \<Rightarrow> ('s, 'f, unit) prog" where
  "forM [] f = ret ()"
| "forM (x # xs) f = bindM (f x) (\<lambda>_. forM xs f)"

fun foldM :: "('b \<Rightarrow> 'a \<Rightarrow> ('s, 'f, 'b) prog) \<Rightarrow> 'b \<Rightarrow> 'a list \<Rightarrow> ('s, 'f, 'b) prog" where
  "foldM f b [] = ret b"
| "foldM f b (x # xs) = bindM (f b x) (\<lambda>b'. foldM f b' xs)"

text \<open>A database transaction: committed when the body succeeds, rolled back when it fails.\<close>

definition atomically :: "('s, 'f, 'a) prog \<Rightarrow> ('s, 'f, 'a) prog" where
  "atomically m s = (case m s of (Inl e, s') \<Rightarrow> (Inl e, s) | (Inr a, s') \<Rightarrow> (Inr a, s'))"

text \<open>\<open>catchM m h\<close> runs the handler from the state the failing computation left behind.\<close>

definition catchM :: "('s, 'f, 'a) prog \<Rightarrow> ('f \<Rightarrow> ('s, 'f, 'a) prog) \<Rightarrow> ('s, 'f, 'a) prog" where
  "catchM m h s = (case m s of (Inl e, s') \<Rightarrow> h e s' | (Inr a, s') \<Rightarrow> (Inr a, s'))"

text \<open>Running a computation on one component of a larger state.\<close>

definition zoom :: "('w \<Rightarrow> 's) \<Rightarrow> ('s \<Rightarrow> 'w \<Rightarrow> 'w) \<Rightarrow> ('s, 'f, 'a) prog \<Rightarrow> ('w, 'f, 'a) prog" where
  "zoom get put m w = (case m (get w) of (r, s') \<Rightarrow> (r, put s' w))"

lemmas prog_defs =
  ret_def throw_def bindM_def gets_def modify_def liftR_def require_def whenM_def
  atomically_def catchM_def zoom_def

lemma bindM_ret [simp, monad_simps]: "bindM (ret a) f = f a"
  by (rule ext) (simp add: bindM_def ret_def)

lemma bindM_throw [simp, monad_simps]: "bindM (throw e) f = throw e"
  by (rule ext) (simp add: bindM_def throw_def)

lemma bindM_assoc: "bindM (bindM m f) g = bindM m (\<lambda>x. bindM (f x) g)"
  by (rule ext) (simp add: bindM_def split: prod.splits sum.splits)

lemma bindM_InrD:
  assumes "bindM m f s = (Inr b, t)"
  obtains a s' where "m s = (Inr a, s')" and "f a s' = (Inr b, t)"
  using assms by (auto simp: bindM_def split: prod.splits sum.splits)

lemma bindM_eq_Inr_iff [monad_simps]:
  "bindM m f s = (Inr b, t) \<longleftrightarrow> (\<exists>a s'. m s = (Inr a, s') \<and> f a s' = (Inr b, t))"
  by (auto simp: bindM_def split: prod.splits sum.splits)

lemma bindM_step: "m s = (Inr a, s') \<Longrightarrow> bindM m f s = f a s'"
  by (simp add: bindM_def)

lemma bindM_fail: "m s = (Inl e, s') \<Longrightarrow> bindM m f s = (Inl e, s')"
  by (simp add: bindM_def)

lemma ret_apply [simp]: "ret a s = (Inr a, s)" by (simp add: ret_def)
lemma throw_apply [simp]: "throw e s = (Inl e, s)" by (simp add: throw_def)
lemma gets_apply [simp]: "gets f s = (Inr (f s), s)" by (simp add: gets_def)
lemma modify_apply [simp]: "modify f s = (Inr (), f s)" by (simp add: modify_def)
lemma liftR_apply [simp]: "liftR r s = (r, s)" by (simp add: liftR_def)

lemma bindM_gets [simp]: "bindM (gets g) f s = f (g s) s" by (simp add: bindM_def)
lemma bindM_modify [simp]: "bindM (modify g) f s = f () (g s)" by (simp add: bindM_def)
lemma bindM_liftR_Inr [simp]: "bindM (liftR (Inr a)) f = f a"
  by (rule ext) (simp add: bindM_def)
lemma bindM_liftR_Inl [simp]: "bindM (liftR (Inl e)) f = throw e"
  by (rule ext) (simp add: bindM_def)
lemma require_Some [simp]: "require e (Some a) = ret a" by (simp add: require_def)
lemma require_None [simp]: "require e None = throw e" by (simp add: require_def)
lemma whenM_True [simp]: "whenM True m = m" by (simp add: whenM_def)
lemma whenM_False [simp]: "whenM False m = ret ()" by (simp add: whenM_def)

text \<open>Reading a successful run backwards.\<close>

lemma require_eq_Inr [monad_simps]: "require e x s = (Inr a, t) \<longleftrightarrow> x = Some a \<and> t = s"
  by (cases x) auto

lemma liftR_eq_Inr [monad_simps]: "liftR r s = (Inr a, t) \<longleftrightarrow> r = Inr a \<and> t = s"
  by auto

lemma ret_eq_Inr [monad_simps]: "ret a s = (Inr b, t) \<longleftrightarrow> a = b \<and> t = s"
  by auto

lemma if_throw_eq_Inr [monad_simps]:
  "(if c then throw e else m) s = (Inr a, t) \<longleftrightarrow> \<not> c \<and> m s = (Inr a, t)"
  by simp

lemma atomically_Inl_state: "atomically m s = (Inl e, t) \<Longrightarrow> t = s"
  by (auto simp: atomically_def split: prod.splits sum.splits)

lemma atomically_Inr_iff: "atomically m s = (Inr a, t) \<longleftrightarrow> m s = (Inr a, t)"
  by (auto simp: atomically_def split: prod.splits sum.splits)

section \<open>Results\<close>

text \<open>A pure function returning a \<open>Result\<close>: the \<open>?\<close> operator and \<open>ok_or\<close>.\<close>

definition bindE :: "'f + 'a \<Rightarrow> ('a \<Rightarrow> 'f + 'b) \<Rightarrow> 'f + 'b" where
  "bindE r f = (case r of Inl e \<Rightarrow> Inl e | Inr a \<Rightarrow> f a)"

definition ok_or :: "'f \<Rightarrow> 'a option \<Rightarrow> 'f + 'a" where
  "ok_or e x = (case x of None \<Rightarrow> Inl e | Some a \<Rightarrow> Inr a)"

lemma bindE_simps [simp]: "bindE (Inr a) f = f a" "bindE (Inl e) f = Inl e"
  by (simp_all add: bindE_def)

lemma bindE_Inr_iff [monad_simps]: "bindE r f = Inr b \<longleftrightarrow> (\<exists>a. r = Inr a \<and> f a = Inr b)"
  by (cases r) simp_all

lemma ok_or_simps [simp]: "ok_or e (Some a) = Inr a" "ok_or e None = Inl e"
  by (simp_all add: ok_or_def)

lemma ok_or_Inr_iff [monad_simps]: "ok_or e x = Inr a \<longleftrightarrow> x = Some a"
  by (cases x) simp_all

section \<open>Invariants of computations\<close>

text \<open>
  \<open>preserves I m\<close>: the computation keeps the invariant on every path, also when it fails.
\<close>

definition preserves :: "('s \<Rightarrow> bool) \<Rightarrow> ('s, 'f, 'a) prog \<Rightarrow> bool" where
  "preserves I m \<longleftrightarrow> (\<forall>s. I s \<longrightarrow> I (snd (m s)))"

lemma preservesI: "(\<And>s. I s \<Longrightarrow> I (snd (m s))) \<Longrightarrow> preserves I m"
  by (simp add: preserves_def)

lemma preservesD: "preserves I m \<Longrightarrow> I s \<Longrightarrow> m s = (r, t) \<Longrightarrow> I t"
  by (metis preserves_def snd_conv)

lemma preserves_ret [preserves_intro]: "preserves I (ret a)"
  by (simp add: preserves_def)

lemma preserves_throw [preserves_intro]: "preserves I (throw e)"
  by (simp add: preserves_def)

lemma preserves_Pair [simp, preserves_intro]: "preserves I (Pair r)"
  by (simp add: preserves_def)

lemma preserves_gets [preserves_intro]: "preserves I (gets f)"
  by (simp add: preserves_def)

lemma preserves_liftR [preserves_intro]: "preserves I (liftR r)"
  by (simp add: preserves_def)

lemma preserves_require [preserves_intro]: "preserves I (require e x)"
  by (cases x) (simp_all add: preserves_ret preserves_throw)

lemma preserves_modify: "(\<And>s. I s \<Longrightarrow> I (f s)) \<Longrightarrow> preserves I (modify f)"
  by (simp add: preserves_def)

lemma preserves_bindM [preserves_intro]:
  assumes "preserves I m" and "\<And>a. preserves I (f a)"
  shows "preserves I (bindM m f)"
  using assms by (auto simp: preserves_def bindM_def split: prod.splits sum.splits)

lemma preserves_if [preserves_intro]:
  "(c \<Longrightarrow> preserves I m) \<Longrightarrow> (\<not> c \<Longrightarrow> preserves I n) \<Longrightarrow> preserves I (if c then m else n)"
  by simp

lemma preserves_whenM [preserves_intro]: "(c \<Longrightarrow> preserves I m) \<Longrightarrow> preserves I (whenM c m)"
  by (simp add: whenM_def preserves_ret)

lemma preserves_case_option [preserves_intro]:
  "(x = None \<Longrightarrow> preserves I m) \<Longrightarrow> (\<And>a. x = Some a \<Longrightarrow> preserves I (f a)) \<Longrightarrow>
    preserves I (case x of None \<Rightarrow> m | Some a \<Rightarrow> f a)"
  by (cases x) simp_all

lemma preserves_forM [preserves_intro]:
  "(\<And>x. x \<in> set xs \<Longrightarrow> preserves I (f x)) \<Longrightarrow> preserves I (forM xs f)"
  by (induction xs) (auto intro!: preserves_intro)

lemma preserves_foldM [preserves_intro]:
  "(\<And>b x. x \<in> set xs \<Longrightarrow> preserves I (f b x)) \<Longrightarrow> preserves I (foldM f b xs)"
  by (induction xs arbitrary: b) (auto intro!: preserves_intro)

lemma preserves_atomically [preserves_intro]: "preserves I m \<Longrightarrow> preserves I (atomically m)"
  by (auto simp: preserves_def atomically_def split: prod.splits sum.splits)

lemma preserves_catchM [preserves_intro]:
  "preserves I m \<Longrightarrow> (\<And>e. preserves I (h e)) \<Longrightarrow> preserves I (catchM m h)"
  by (auto simp: preserves_def catchM_def split: prod.splits sum.splits)

section \<open>Lists\<close>

lemma sum_list_map_add:
  "sum_list (map (\<lambda>x. f x + g x) xs) = sum_list (map f xs) + sum_list (map g xs)"
  for f g :: "'a \<Rightarrow> 'b::comm_monoid_add"
  by (induction xs) (auto simp: ac_simps)

lemma drop_while_append_all:
  "(\<And>x. x \<in> set xs \<Longrightarrow> P x) \<Longrightarrow> dropWhile P (xs @ ys) = dropWhile P ys"
  by (induction xs) auto

lemma distinct_map_filter_neq:
  "distinct (map f xs) \<Longrightarrow> distinct (map f (filter P xs))"
  by (induction xs) auto

lemma find_append: "find P (xs @ ys) = (case find P xs of None \<Rightarrow> find P ys | Some x \<Rightarrow> Some x)"
  by (induction xs) auto

end
