(* ===== verification/Errors.thy ===== *)
theory Errors imports Prelude begin

text \<open>
  The error values of the library (\<open>error/bag.rs\<close>, \<open>custom.rs\<close>, \<open>allowance.rs\<close>). The macros
  \<open>err_create!\<close>, \<open>err_custom_create!\<close> and \<open>err_from!\<close> wrap an \<open>ErrorBag\<close> with the source
  location; the location is not part of the model, the inner value is. Formatted messages are
  kept as their constant text. A handler can also panic (\<open>unwrap\<close>, integer overflow of U256)
  and a loop that may run forever is given fuel: both are failures beside the returned errors.
\<close>

datatype sql_error =
    RowNotFound | ForeignKeyViolation | UniqueViolation | NotNullViolation | SqlSyntaxError

datatype web3_error = Unreachable | Rpc string | OtherWeb3Error string

record allowance_request =
  ar_owner :: string
  ar_token_addr :: string
  ar_spender_addr :: string
  ar_chain_id :: i64
  ar_amount :: u256

datatype error_bag =
    ParseError
  | IoError
  | CustomError string
  | TransactionFailedError string
  | SQLxError sql_error
  | SQLxMigrateError
  | EthAbiError
  | Web3Error web3_error
  | ConversionError string
  | FromHexError
  | NoAllowanceFound allowance_request
  | FromDecStrErr
  | TimeLimitReached nat

datatype failure = Err error_bag | Panic string | OutOfFuel

abbreviation err_custom :: "string \<Rightarrow> failure" where
  "err_custom msg \<equiv> Err (CustomError msg)"

abbreviation err_tx_failed :: "string \<Rightarrow> failure" where
  "err_tx_failed msg \<equiv> Err (TransactionFailedError msg)"

text \<open>\<open>map_err(err_from!())\<close> on the result of a database operation.\<close>

definition sqlx :: "('s, sql_error, 'a) prog \<Rightarrow> ('s, failure, 'a) prog" where
  "sqlx m s = (case m s of (Inl e, s') \<Rightarrow> (Inl (Err (SQLxError e)), s') | (Inr a, s') \<Rightarrow> (Inr a, s'))"

lemma sqlx_Inr_iff [monad_simps]: "sqlx m s = (Inr a, t) \<longleftrightarrow> m s = (Inr a, t)"
  by (auto simp: sqlx_def split: prod.splits sum.splits)

lemma preserves_sqlx [preserves_intro]: "preserves I m \<Longrightarrow> preserves I (sqlx m)"
  by (auto simp: preserves_def sqlx_def split: prod.splits sum.splits)

lemma sqlx_ret [simp]: "sqlx (ret a) = ret a"
  by (rule ext) (simp add: sqlx_def)

section \<open>Checked arithmetic on U256\<close>

text \<open>
  \<open>+\<close>, \<open>-\<close> and \<open>*\<close> of U256 panic when the result does not fit.
\<close>

definition u256_add :: "u256 \<Rightarrow> u256 \<Rightarrow> failure + u256" where
  "u256_add a b = (if unat a + unat b < 2 ^ 256 then Inr (a + b)
     else Inl (Panic ''arithmetic operation overflow''))"

definition u256_sub :: "u256 \<Rightarrow> u256 \<Rightarrow> failure + u256" where
  "u256_sub a b = (if b \<le> a then Inr (a - b)
     else Inl (Panic ''arithmetic operation overflow''))"

definition u256_mul :: "u256 \<Rightarrow> u256 \<Rightarrow> failure + u256" where
  "u256_mul a b = (if unat a * unat b < 2 ^ 256 then Inr (a * b)
     else Inl (Panic ''arithmetic operation overflow''))"

text \<open>\<open>U256::as_u64\<close> panics when the value does not fit.\<close>

definition as_u64 :: "u256 \<Rightarrow> failure + nat" where
  "as_u64 a = (if unat a < 2 ^ 64 then Inr (unat a)
     else Inl (Panic ''Integer overflow when casting to u64''))"

lemma u256_add_Inr: "u256_add a b = Inr c \<Longrightarrow> unat c = unat a + unat b"
  by (auto simp: u256_add_def unat_word_ariths split: if_splits)

lemma u256_sub_Inr: "u256_sub a b = Inr c \<Longrightarrow> unat c = unat a - unat b \<and> unat b \<le> unat a"
  by (auto simp: u256_sub_def unat_sub word_le_nat_alt split: if_splits)

lemma u256_mul_Inr: "u256_mul a b = Inr c \<Longrightarrow> unat c = unat a * unat b"
  by (auto simp: u256_mul_def unat_word_ariths split: if_splits)

lemma as_u64_Inr: "as_u64 a = Inr n \<Longrightarrow> n = unat a \<and> n < 2 ^ 64"
  by (auto simp: as_u64_def split: if_splits)

definition u256_max :: u256 where
  "u256_max = - 1"

lemma unat_u256_max: "unat u256_max = 2 ^ 256 - 1"
  by (simp add: u256_max_def unsigned_minus_1_eq_mask mask_eq_exp_minus_1)

end
