(* ===== verification/External.thy ===== *)
theory External imports Errors begin

text \<open>
  What the driver takes from crates outside the repository, as one record of functions that the
  definitions receive as an argument: the textual forms of addresses and integers
  (\<open>ethereum_types\<close>: \<open>from_str\<close>, \<open>from_dec_str\<close>, \<open>to_string\<close>, \<open>{:#x}\<close>), \<open>hex::encode\<close> and
  \<open>hex::decode\<close>, and the ABI encoder \<open>encode_input\<close> of \<open>ethabi\<close>. The locale \<open>external\<close> states
  the documented laws the driver relies on; the second half of the theory gives an executable
  instance of all of them and discharges the laws for it.
\<close>

datatype contract_template = ERC20_CONTRACT | FAUCET_CONTRACT | MULTI_CONTRACT | LOCK_CONTRACT

datatype abi_token =
    TokAddress address
  | TokUint u256
  | TokInt int
  | TokAddresses "address list"
  | TokUints "u256 list"
  | TokBytes32s "bytes list"

record externals =
  addr_of_str :: "string \<Rightarrow> address option"
  str_of_addr :: "address \<Rightarrow> string"
  u256_of_dec :: "string \<Rightarrow> u256 option"
  dec_of_u256 :: "u256 \<Rightarrow> string"
  u256_of_hex :: "string \<Rightarrow> u256 option"
  hex_of_u256 :: "u256 \<Rightarrow> string"
  h256_of_str :: "string \<Rightarrow> h256 option"
  str_of_h256 :: "h256 \<Rightarrow> string"
  hex_encode :: "bytes \<Rightarrow> string"
  hex_decode :: "string \<Rightarrow> bytes option"
  encode_input :: "contract_template \<Rightarrow> string \<Rightarrow> abi_token list \<Rightarrow> bytes"

lemma unat_bound: "unat (w :: 'a::len word) < 2 ^ LENGTH('a)"
  by (rule unsigned_less)

lemma word_unat_of_nat_id: "of_nat (unat w) = (w :: 'a::len word)"
  by simp

lemma unat_of_nat_small: "n < 2 ^ LENGTH('a) \<Longrightarrow> unat (of_nat n :: 'a::len word) = n"
  by (simp add: unsigned_of_nat take_bit_nat_eq_self)

section \<open>Positional numerals\<close>

definition digit_chars :: string where
  "digit_chars = ''0123456789abcdef''"

definition digit_char :: "nat \<Rightarrow> char" where
  "digit_char d = digit_chars ! d"

definition char_digit :: "char \<Rightarrow> nat option" where
  "char_digit c = map_of (zip ''0123456789abcdefABCDEF'' ([0..<16] @ [10..<16])) c"

function to_base :: "nat \<Rightarrow> nat \<Rightarrow> nat list" where
  "to_base b n = (if b < 2 \<or> n < b then [n] else to_base b (n div b) @ [n mod b])"
  by pat_completeness auto
termination
  by (relation "measure snd") auto

declare to_base.simps [simp del]

definition of_base :: "nat \<Rightarrow> nat list \<Rightarrow> nat" where
  "of_base b ds = foldl (\<lambda>a d. a * b + d) 0 ds"

lemma of_base_Nil [simp]: "of_base b [] = 0" by (simp add: of_base_def)

lemma of_base_snoc [simp]: "of_base b (ds @ [d]) = of_base b ds * b + d"
  by (simp add: of_base_def)

lemma of_base_append: "of_base b (xs @ ys) = of_base b xs * b ^ length ys + of_base b ys"
  by (induction ys rule: rev_induct) (simp_all flip: append_assoc add: algebra_simps)

lemma of_base_single [simp]: "of_base b [d] = d"
  by (simp add: of_base_def)

lemma of_base_Cons: "of_base b (d # ds) = d * b ^ length ds + of_base b ds"
  using of_base_append [of b "[d]" ds] by simp

lemma of_base_zeros [simp]: "of_base b (replicate k 0 @ ds) = of_base b ds"
  by (induction k) (simp_all add: of_base_Cons)

lemma of_base_to_base [simp]: "of_base b (to_base b n) = n"
proof (induction b n rule: to_base.induct)
  case (1 b n)
  show ?case
  proof (cases "b < 2 \<or> n < b")
    case True
    then show ?thesis by (subst to_base.simps) simp
  next
    case False
    with 1 show ?thesis by (subst to_base.simps) simp
  qed
qed

lemma to_base_less: "2 \<le> b \<Longrightarrow> d \<in> set (to_base b n) \<Longrightarrow> d < b"
proof (induction b n rule: to_base.induct)
  case (1 b n)
  then show ?case
    by (cases "n < b") (auto simp: to_base.simps [of b n] split: if_splits)
qed

lemma to_base_nonempty [simp]: "to_base b n \<noteq> []"
  by (subst to_base.simps) simp

lemma to_base_hd: "2 \<le> b \<Longrightarrow> 0 < n \<Longrightarrow> hd (to_base b n) \<noteq> 0"
proof (induction b n rule: to_base.induct)
  case (1 b n)
  then show ?case
    by (cases "n < b") (auto simp: to_base.simps [of b n] div_greater_zero_iff)
qed

lemma to_base_0 [simp]: "to_base b 0 = [0]"
  by (subst to_base.simps) auto

lemma of_base_less: "2 \<le> b \<Longrightarrow> (\<And>d. d \<in> set ds \<Longrightarrow> d < b) \<Longrightarrow> of_base b ds < b ^ length ds"
proof (induction ds)
  case (Cons d ds)
  then have "of_base b ds < b ^ length ds" and "d + 1 \<le> b" by force+
  then have "of_base b (d # ds) < (d + 1) * b ^ length ds" by (simp add: of_base_Cons)
  also have "\<dots> \<le> b * b ^ length ds" using \<open>d + 1 \<le> b\<close> by (rule mult_le_mono1)
  finally show ?case by simp
qed simp

lemma to_base_length: "2 \<le> b \<Longrightarrow> n < b ^ k \<Longrightarrow> 0 < k \<Longrightarrow> length (to_base b n) \<le> k"
proof (induction b n arbitrary: k rule: to_base.induct)
  case (1 b n)
  show ?case
  proof (cases "n < b")
    case True
    with 1 show ?thesis by (subst to_base.simps) simp
  next
    case False
    with 1 have "k \<noteq> 1" by auto
    with 1 obtain j where k: "k = Suc j" "0 < j" by (cases k) auto
    with 1 False have "n div b < b ^ j" by (simp add: less_mult_imp_div_less mult.commute)
    with 1 False k have "length (to_base b (n div b)) \<le> j" by simp
    with False 1 k show ?thesis by (subst to_base.simps) simp
  qed
qed

lemma char_digit_table: "list_all (\<lambda>d. char_digit (digit_char d) = Some d) [0..<16]"
  by code_simp

lemma char_digit_digit_char [simp]: "d < 16 \<Longrightarrow> char_digit (digit_char d) = Some d"
  using char_digit_table by (simp add: list_all_iff)

definition text_of_digits :: "nat list \<Rightarrow> string" where
  "text_of_digits ds = map digit_char ds"

definition parse_base :: "nat \<Rightarrow> string \<Rightarrow> nat option" where
  "parse_base b s = (if s = [] then None else
     (case those (map char_digit s) of None \<Rightarrow> None
      | Some ds \<Rightarrow> if list_all (\<lambda>d. d < b) ds then Some (of_base b ds) else None))"

lemma those_char_digit_text:
  "(\<And>d. d \<in> set ds \<Longrightarrow> d < 16) \<Longrightarrow> those (map char_digit (text_of_digits ds)) = Some ds"
  by (induction ds) (auto simp: text_of_digits_def)

lemma parse_base_text:
  "ds \<noteq> [] \<Longrightarrow> (\<And>d. d \<in> set ds \<Longrightarrow> d < b) \<Longrightarrow> b \<le> 16 \<Longrightarrow>
    parse_base b (text_of_digits ds) = Some (of_base b ds)"
  by (subst parse_base_def, subst those_char_digit_text)
    (force simp: list_all_iff text_of_digits_def)+

section \<open>The laws\<close>

locale external =
  fixes E :: externals
  assumes addr_law: "addr_of_str E (str_of_addr E a) = Some a"
    and dec_law: "dec_of_u256 E v = text_of_digits (to_base 10 (unat v))"
    and dec_parse_law: "u256_of_dec E (dec_of_u256 E v) = Some v"
    and hex_law: "u256_of_hex E (hex_of_u256 E v) = Some v"
    and h256_law: "h256_of_str E (str_of_h256 E h) = Some h"
    and bytes_law: "hex_decode E (hex_encode E bs) = Some bs"
begin

lemma str_of_addr_inj [simp]: "str_of_addr E a = str_of_addr E b \<longleftrightarrow> a = b"
  using addr_law by (metis option.inject)

lemma dec_of_u256_inj [simp]: "dec_of_u256 E v = dec_of_u256 E w \<longleftrightarrow> v = w"
  using dec_parse_law by (metis option.inject)

lemma hex_of_u256_inj [simp]: "hex_of_u256 E v = hex_of_u256 E w \<longleftrightarrow> v = w"
  using hex_law by (metis option.inject)

lemma dec_parse_0 [simp]: "u256_of_dec E ''0'' = Some 0"
  using dec_parse_law [of 0] by (simp add: dec_law text_of_digits_def digit_char_def digit_chars_def)

end

section \<open>An executable instance\<close>

definition strip_0x :: "string \<Rightarrow> string" where
  "strip_0x s = (case s of c # d # r \<Rightarrow> if c = CHR ''0'' \<and> d = CHR ''x'' then r else s | _ \<Rightarrow> s)"

definition fixed_hex :: "nat \<Rightarrow> nat \<Rightarrow> string" where
  "fixed_hex k n = (let ds = to_base 16 n in text_of_digits (replicate (k - length ds) 0 @ ds))"

definition ref_hash_of_str :: "nat \<Rightarrow> string \<Rightarrow> nat option" where
  "ref_hash_of_str k s = (let r = strip_0x s in if length r = k then parse_base 16 r else None)"

definition ref_u256_of :: "nat \<Rightarrow> string \<Rightarrow> u256 option" where
  "ref_u256_of b s = (case parse_base b s of None \<Rightarrow> None
     | Some n \<Rightarrow> if n < 2 ^ 256 then Some (of_nat n) else None)"

fun pairs_of :: "'a list \<Rightarrow> ('a \<times> 'a) list option" where
  "pairs_of [] = Some []"
| "pairs_of [x] = None"
| "pairs_of (x # y # r) = map_option ((#) (x, y)) (pairs_of r)"

definition ref_hex_encode :: "bytes \<Rightarrow> string" where
  "ref_hex_encode bs = concat (map (\<lambda>b. [digit_char (unat b div 16), digit_char (unat b mod 16)]) bs)"

definition ref_hex_decode :: "string \<Rightarrow> bytes option" where
  "ref_hex_decode s = (case pairs_of s of None \<Rightarrow> None
     | Some ps \<Rightarrow> those (map (\<lambda>(c, d). case (char_digit c, char_digit d) of
         (Some h, Some l) \<Rightarrow> Some (of_nat (16 * h + l)) | _ \<Rightarrow> None) ps))"

definition ref_externals :: externals where
  "ref_externals = \<lparr>
     addr_of_str = (\<lambda>s. map_option of_nat (ref_hash_of_str 40 s)),
     str_of_addr = (\<lambda>a. ''0x'' @ fixed_hex 40 (unat a)),
     u256_of_dec = ref_u256_of 10,
     dec_of_u256 = (\<lambda>v. text_of_digits (to_base 10 (unat v))),
     u256_of_hex = (\<lambda>s. ref_u256_of 16 (strip_0x s)),
     hex_of_u256 = (\<lambda>v. ''0x'' @ text_of_digits (to_base 16 (unat v))),
     h256_of_str = (\<lambda>s. map_option of_nat (ref_hash_of_str 64 s)),
     str_of_h256 = (\<lambda>h. ''0x'' @ fixed_hex 64 (unat h)),
     hex_encode = ref_hex_encode,
     hex_decode = ref_hex_decode,
     encode_input = (\<lambda>t f toks. [])\<rparr>"

lemma strip_0x_prefix [simp]: "strip_0x (CHR ''0'' # CHR ''x'' # s) = s"
  by (simp add: strip_0x_def)

lemma fixed_hex_parse:
  assumes "n < 16 ^ k" "0 < k"
  shows "length (fixed_hex k n) = k \<and> parse_base 16 (fixed_hex k n) = Some n"
proof -
  have len: "length (to_base 16 n) \<le> k" using assms by (intro to_base_length) auto
  have "parse_base 16 (fixed_hex k n) = Some n"
    unfolding fixed_hex_def Let_def
    by (subst parse_base_text) (auto dest: to_base_less [of 16, rotated])
  with len show ?thesis by (simp add: fixed_hex_def text_of_digits_def Let_def)
qed

lemma ref_hash_roundtrip:
  "n < 16 ^ k \<Longrightarrow> 0 < k \<Longrightarrow> ref_hash_of_str k (''0x'' @ fixed_hex k n) = Some n"
  by (simp add: ref_hash_of_str_def fixed_hex_parse)

lemma ref_u256_roundtrip:
  "2 \<le> b \<Longrightarrow> b \<le> 16 \<Longrightarrow> ref_u256_of b (text_of_digits (to_base b (unat v))) = Some v"
  using unat_bound [of v]
  by (simp add: ref_u256_of_def parse_base_text to_base_less)

lemma pairs_of_concat: "pairs_of (concat (map (\<lambda>b. [f b, g b]) bs)) = Some (map (\<lambda>b. (f b, g b)) bs)"
  by (induction bs) auto

lemma byte_split: "of_nat (16 * (unat b div 16) + unat b mod 16) = (b :: 8 word)"
  by (simp only: mult_div_mod_eq word_unat_of_nat_id)

lemma ref_hex_roundtrip: "ref_hex_decode (ref_hex_encode bs) = Some bs"
proof -
  have d: "unat b div 16 < 16" for b :: byte
    using unat_bound [of b] by (simp add: less_mult_imp_div_less)
  have "those (map (\<lambda>b. Some (of_nat (16 * (unat b div 16) + unat b mod 16))) bs) = Some bs"
    unfolding byte_split by (induction bs) auto
  with d show ?thesis
    by (simp add: ref_hex_decode_def ref_hex_encode_def pairs_of_concat comp_def del: of_nat_add of_nat_mult)
qed

interpretation ref: external ref_externals
proof
  fix a :: address
  show "addr_of_str ref_externals (str_of_addr ref_externals a) = Some a"
    using unat_bound [of a] ref_hash_roundtrip [of "unat a" 40]
    by (simp add: ref_externals_def)
next
  fix h :: h256
  show "h256_of_str ref_externals (str_of_h256 ref_externals h) = Some h"
    using unat_bound [of h] ref_hash_roundtrip [of "unat h" 64]
    by (simp add: ref_externals_def)
qed (simp_all add: ref_externals_def ref_u256_roundtrip ref_hex_roundtrip)

end
