(* ===== verification/Amounts.thy ===== *)
theory Amounts imports External Complex_Main begin

text \<open>
  Amount conversions of \<open>erc20_payment_lib_common/src/utils.rs\<close>: the decimal rendering of a U256
  with a fixed number of decimals, character by character as the code does it, and the
  conversions between U256 and \<open>rust_decimal::Decimal\<close>. A Decimal is read as its rational value;
  the crate's checked multiplication is an argument of the definition that uses it.
\<close>

section \<open>Rendering a U256 with decimals\<close>

datatype decimals = Zero | Six | Nine | Eighteen

fun decimals_as_usize :: "decimals \<Rightarrow> nat" where
  "decimals_as_usize Zero = 0"
| "decimals_as_usize Six = 6"
| "decimals_as_usize Nine = 9"
| "decimals_as_usize Eighteen = 18"

definition trim_end :: "char \<Rightarrow> string \<Rightarrow> string" where
  "trim_end c s = rev (dropWhile (\<lambda>x. x = c) (rev s))"

definition trim_matches :: "char \<Rightarrow> string \<Rightarrow> string" where
  "trim_matches c s = trim_end c (dropWhile (\<lambda>x. x = c) s)"

definition find_char :: "char \<Rightarrow> string \<Rightarrow> nat option" where
  "find_char c s = (if c \<in> set s then Some (length (takeWhile (\<lambda>x. x \<noteq> c) s)) else None)"

definition apply_precision :: "nat option \<Rightarrow> string \<Rightarrow> string" where
  "apply_precision precision str =
     (let idx_of_dot = int (case find_char CHR ''.'' str of Some i \<Rightarrow> i | None \<Rightarrow> length str);
          number_of_digit_at_right = int (length str) - idx_of_dot - 1
      in case precision of None \<Rightarrow> str
         | Some p \<Rightarrow>
             (let add_zeroes = int p - number_of_digit_at_right
              in if add_zeroes > 0 then str @ replicate (nat add_zeroes) CHR ''0''
                 else take (length str - nat (- add_zeroes)) str))"

definition u256_to_decimal_string ::
    "externals \<Rightarrow> u256 \<Rightarrow> decimals \<Rightarrow> nat option \<Rightarrow> string" where
  "u256_to_decimal_string E amount decimals precision =
     (let n = decimals_as_usize decimals;
          precision = map_option (\<lambda>p. min p n) precision;
          str_rev = rev (dec_of_u256 E amount) @ replicate n CHR ''0'';
          str_rev = take n str_rev @ [CHR ''.''] @ drop n str_rev;
          str = trim_matches CHR ''0'' (rev str_rev);
          str = (if take 1 str = ''.'' then ''0'' @ str else str)
      in trim_end CHR ''.'' (apply_precision precision str))"

definition to_gwei_str :: "externals \<Rightarrow> u256 \<Rightarrow> string" where
  "to_gwei_str E v = u256_to_decimal_string E v Nine None"

definition to_eth_str :: "externals \<Rightarrow> u256 \<Rightarrow> string" where
  "to_eth_str E v = u256_to_decimal_string E v Eighteen None"

definition to_gwei_str_with_precision :: "externals \<Rightarrow> u256 \<Rightarrow> nat \<Rightarrow> string" where
  "to_gwei_str_with_precision E v p = u256_to_decimal_string E v Nine (Some p)"

definition to_eth_str_with_precision :: "externals \<Rightarrow> u256 \<Rightarrow> nat \<Rightarrow> string" where
  "to_eth_str_with_precision E v p = u256_to_decimal_string E v Eighteen (Some p)"

section \<open>Reading a decimal text\<close>

text \<open>The specification: a text \<open>I\<close> or \<open>I.F\<close> with at most \<open>n\<close> decimals, in units of 10^-n.\<close>

definition digits_value :: "string \<Rightarrow> nat" where
  "digits_value s = of_base 10 (map (\<lambda>c. the (char_digit c)) s)"

definition is_dec_digit :: "char \<Rightarrow> bool" where
  "is_dec_digit c = (case char_digit c of Some d \<Rightarrow> d < 10 | None \<Rightarrow> False)"

definition fraction_of :: "string \<Rightarrow> string" where
  "fraction_of s = tl (dropWhile (\<lambda>c. c \<noteq> CHR ''.'') s)"

definition fixed_parse :: "nat \<Rightarrow> string \<Rightarrow> nat option" where
  "fixed_parse n s =
     (let i = takeWhile (\<lambda>c. c \<noteq> CHR ''.'') s; f = fraction_of s
      in if i \<noteq> [] \<and> list_all is_dec_digit i \<and> list_all is_dec_digit f \<and> length f \<le> n
         then Some (digits_value i * 10 ^ n + digits_value f * 10 ^ (n - length f))
         else None)"

lemma dot_not_digit: "\<not> is_dec_digit CHR ''.''"
  by code_simp

lemma zero_digit: "is_dec_digit CHR ''0''" "char_digit CHR ''0'' = Some 0"
  by code_simp+

lemma digit_no_dot: "list_all is_dec_digit s \<Longrightarrow> c \<in> set s \<Longrightarrow> c \<noteq> CHR ''.''"
  using dot_not_digit by (auto simp: list_all_iff)

lemma list_all_dropWhile [simp]: "list_all P s \<Longrightarrow> list_all P (dropWhile Q s)"
  by (auto simp: list_all_iff dest: set_dropWhileD)

lemma list_all_take [simp]: "list_all P s \<Longrightarrow> list_all P (take k s)"
  by (auto simp: list_all_iff dest: in_set_takeD)

lemma list_all_drop [simp]: "list_all P s \<Longrightarrow> list_all P (drop k s)"
  by (auto simp: list_all_iff dest: in_set_dropD)

lemma list_all_trim_end [simp]: "list_all P s \<Longrightarrow> list_all P (trim_end c s)"
  by (auto simp: trim_end_def list_all_iff dest: set_dropWhileD)

lemma digits_value_append:
  "digits_value (s @ t) = digits_value s * 10 ^ length t + digits_value t"
  by (simp add: digits_value_def of_base_append)

lemma digits_value_zeros [simp]: "digits_value (replicate k CHR ''0'') = 0"
  by (induction k) (simp_all add: digits_value_def zero_digit of_base_Cons)

lemma digits_value_drop_zeros [simp]:
  "digits_value (dropWhile (\<lambda>x. x = CHR ''0'') s) = digits_value s"
  by (induction s) (simp_all add: digits_value_def zero_digit of_base_Cons)

lemma trim_end_split:
  "\<exists>k. s = trim_end c s @ replicate k c \<and> (trim_end c s = [] \<or> last (trim_end c s) \<noteq> c)"
proof (induction s rule: rev_induct)
  case Nil
  show ?case by (simp add: trim_end_def)
next
  case (snoc x s)
  show ?case
  proof (cases "x = c")
    case True
    then have t: "trim_end c (s @ [x]) = trim_end c s" by (simp add: trim_end_def)
    from snoc obtain k where
      k: "s = trim_end c s @ replicate k c" "trim_end c s = [] \<or> last (trim_end c s) \<noteq> c" by blast
    have "s @ [x] = trim_end c s @ replicate (Suc k) c"
      using k(1) True by (metis append_assoc replicate_append_same replicate_Suc)
    with k(2) show ?thesis unfolding t by blast
  next
    case False
    then have "trim_end c (s @ [x]) = s @ [x]" by (simp add: trim_end_def)
    with False show ?thesis by (intro exI [of _ 0]) simp
  qed
qed

lemma trim_end_dot:
  "list_all is_dec_digit i \<Longrightarrow> list_all is_dec_digit f \<Longrightarrow> i \<noteq> [] \<Longrightarrow>
    trim_end CHR ''.'' (i @ CHR ''.'' # f) = (if f = [] then i else i @ CHR ''.'' # f)"
proof (induction f rule: rev_induct)
  case Nil
  then obtain j x where "i = j @ [x]" by (metis rev_exhaust)
  with Nil show ?case using dot_not_digit by (auto simp: trim_end_def)
next
  case (snoc x f)
  then have "x \<noteq> CHR ''.''" using dot_not_digit by auto
  then show ?case by (simp add: trim_end_def)
qed

lemma trim_matches_split:
  assumes "list_all is_dec_digit i" "list_all is_dec_digit f"
  shows "trim_matches CHR ''0'' (i @ CHR ''.'' # f) =
    dropWhile (\<lambda>x. x = CHR ''0'') i @ CHR ''.'' # trim_end CHR ''0'' f"
proof -
  have "dropWhile (\<lambda>x. x = CHR ''0'') (i @ CHR ''.'' # f) =
      dropWhile (\<lambda>x. x = CHR ''0'') i @ CHR ''.'' # f"
    by (induction i) auto
  moreover have "dropWhile (\<lambda>x. x = CHR ''0'') (xs @ CHR ''.'' # ys) =
      dropWhile (\<lambda>x. x = CHR ''0'') xs @ CHR ''.'' # ys" for xs ys
    by (induction xs) auto
  ultimately show ?thesis by (simp add: trim_matches_def trim_end_def)
qed

text \<open>Both branches of the precision step cut or pad the fraction to exactly p digits.\<close>

lemma apply_precision_split:
  assumes "list_all is_dec_digit i"
  shows "apply_precision (Some p) (i @ CHR ''.'' # f) =
    i @ CHR ''.'' # take p (f @ replicate (p - length f) CHR ''0'')"
proof -
  have "takeWhile (\<lambda>x. x \<noteq> CHR ''.'') (i @ CHR ''.'' # f) = i"
    using digit_no_dot [OF assms] by (simp add: takeWhile_append2)
  then have idx: "find_char CHR ''.'' (i @ CHR ''.'' # f) = Some (length i)"
    by (simp add: find_char_def)
  show ?thesis
  proof (cases "length f < p")
    case True
    then have "nat (int p - int (length f)) = p - length f" by simp
    with True show ?thesis by (simp add: apply_precision_def idx)
  next
    case False
    then have "Suc (length f) - nat (int (length f) - int p) = Suc p" by simp
    with False show ?thesis by (simp add: apply_precision_def idx)
  qed
qed

lemma fixed_parse_split:
  assumes "list_all is_dec_digit i" "list_all is_dec_digit f" "i \<noteq> []" "length f \<le> n"
  shows "fixed_parse n (trim_end CHR ''.'' (i @ CHR ''.'' # f)) =
    Some (digits_value i * 10 ^ n + digits_value f * 10 ^ (n - length f))"
proof -
  have nd: "\<And>x. x \<in> set i \<Longrightarrow> x \<noteq> CHR ''.''" using digit_no_dot [OF assms(1)] .
  then have tw: "takeWhile (\<lambda>x. x \<noteq> CHR ''.'') (i @ CHR ''.'' # f) = i"
    "dropWhile (\<lambda>x. x \<noteq> CHR ''.'') (i @ CHR ''.'' # f) = CHR ''.'' # f"
    by (simp_all add: takeWhile_append2 dropWhile_append2)
  from nd have "takeWhile (\<lambda>x. x \<noteq> CHR ''.'') i = i \<and> dropWhile (\<lambda>x. x \<noteq> CHR ''.'') i = []"
    by (induction i) auto
  note tw = tw this
  have "digits_value f = 0" if "f = []" using that by (simp add: digits_value_def)
  with assms tw show ?thesis
    by (cases "f = []") (simp_all add: fixed_parse_def fraction_of_def trim_end_dot Let_def
      del: takeWhile_eq_all_conv dropWhile_eq_Nil_conv)
qed

text \<open>The padded digit string: its last n digits are the fraction.\<close>

lemma insert_dot:
  assumes "n \<le> length str"
  shows "rev (take n (rev str) @ [c] @ drop n (rev str)) =
    take (length str - n) str @ c # drop (length str - n) str"
  using assms by (simp add: rev_take rev_drop)

lemma digits_value_take_drop:
  assumes "n \<le> length s" "list_all is_dec_digit s"
  shows "digits_value (take (length s - n) s) = digits_value s div 10 ^ n"
    and "digits_value (drop (length s - n) s) = digits_value s mod 10 ^ n"
proof -
  let ?a = "take (length s - n) s" and ?b = "drop (length s - n) s"
  have "digits_value ?b < 10 ^ length ?b"
    unfolding digits_value_def
    using list_all_drop [OF assms(2), of "length s - n"]
      of_base_less [of 10 "map (\<lambda>c. the (char_digit c)) ?b"]
    by (force simp: list_all_iff is_dec_digit_def split: option.splits)
  then have "digits_value ?b < 10 ^ n" using assms by simp
  moreover have "digits_value s = digits_value ?a * 10 ^ n + digits_value ?b"
    using digits_value_append [of ?a ?b] assms(1) by simp
  ultimately show "digits_value ?a = digits_value s div 10 ^ n"
    and "digits_value ?b = digits_value s mod 10 ^ n"
    by simp_all
qed

lemma digits_value_trim_end:
  "digits_value (trim_end CHR ''0'' f) * 10 ^ (length f - length (trim_end CHR ''0'' f)) = digits_value f"
  using trim_end_split [of f "CHR ''0''"] digits_value_append
  by (metis add.right_neutral digits_value_zeros length_append length_replicate diff_add_inverse)

lemma take_trim_end:
  assumes "p \<le> length f"
  shows "take p (trim_end c f @ replicate (p - length (trim_end c f)) c) = take p f"
proof -
  obtain k where f: "f = trim_end c f @ replicate k c" using trim_end_split by blast
  define t where "t = trim_end c f"
  have "take (p - length t) (replicate (p - length t) c) = take (p - length t) (replicate k c)"
    using arg_cong [OF f, of length] assms by (simp add: t_def)
  then have "take p (t @ replicate (p - length t) c) = take p (t @ replicate k c)" by simp
  with f show ?thesis by (simp add: t_def)
qed

definition int_part :: "nat \<Rightarrow> string \<Rightarrow> string" where
  "int_part n s = (let i = dropWhile (\<lambda>x. x = CHR ''0'') (take (length s - n) s)
     in if i = [] then ''0'' else i)"

lemma int_part_props:
  assumes "n \<le> length s" "list_all is_dec_digit s"
  shows "list_all is_dec_digit (int_part n s)" "int_part n s \<noteq> []"
    "digits_value (int_part n s) = digits_value s div 10 ^ n"
proof -
  have "digits_value ''0'' = 0" by (simp add: digits_value_def zero_digit of_base_Cons)
  moreover have "digits_value (dropWhile (\<lambda>x. x = CHR ''0'') (take (length s - n) s)) = 0"
    if "dropWhile (\<lambda>x. x = CHR ''0'') (take (length s - n) s) = []"
    unfolding that by (simp add: digits_value_def)
  ultimately show "digits_value (int_part n s) = digits_value s div 10 ^ n"
    using digits_value_take_drop(1) [OF assms] by (auto simp: int_part_def Let_def)
  show "list_all is_dec_digit (int_part n s)" "int_part n s \<noteq> []"
    using assms by (simp_all add: int_part_def Let_def zero_digit del: dropWhile_eq_Nil_conv)
qed

lemma u256_to_decimal_string_split:
  assumes "n = decimals_as_usize d" "s = replicate n CHR ''0'' @ dec_of_u256 E v"
    "list_all is_dec_digit (dec_of_u256 E v)"
  shows "u256_to_decimal_string E v d precision =
    trim_end CHR ''.'' (apply_precision (map_option (\<lambda>p. min p n) precision)
      (int_part n s @ CHR ''.'' # trim_end CHR ''0'' (drop (length s - n) s)))"
proof -
  have s: "n \<le> length s" "list_all is_dec_digit s" using assms zero_digit
    by (auto simp: list_all_iff)
  have rs: "rev (dec_of_u256 E v) @ replicate n CHR ''0'' = rev s" using assms by simp
  have nodot: "list_all is_dec_digit (dropWhile (\<lambda>x. x = CHR ''0'') (take (length s - n) s))"
    using s by simp
  let ?t = "take n (rev s) @ [CHR ''.''] @ drop n (rev s)"
  have tm: "trim_matches CHR ''0'' (rev ?t) = dropWhile (\<lambda>x. x = CHR ''0'') (take (length s - n) s)
      @ CHR ''.'' # trim_end CHR ''0'' (drop (length s - n) s)"
    unfolding insert_dot [OF s(1)] using s(2) by (intro trim_matches_split) simp_all
  show ?thesis
    unfolding u256_to_decimal_string_def Let_def assms(1) [symmetric] rs tm
    using nodot dot_not_digit
    by (cases "dropWhile (\<lambda>x. x = CHR ''0'') (take (length s - n) s)")
      (auto simp: int_part_def simp del: dropWhile_eq_Nil_conv)
qed

context external begin

lemma dec_digits [simp]: "list_all is_dec_digit (dec_of_u256 E v)"
  using to_base_less [of 10 _ "unat v"]
  by (force simp: dec_law list_all_iff text_of_digits_def is_dec_digit_def)

lemma digits_value_dec [simp]: "digits_value (dec_of_u256 E v) = unat v"
proof -
  have "map (\<lambda>c. the (char_digit c)) (text_of_digits ds) = ds" if "list_all (\<lambda>d. d < 16) ds" for ds
    using that by (induction ds) (auto simp: text_of_digits_def)
  moreover have "list_all (\<lambda>d. d < 16) (to_base 10 (unat v))"
    using to_base_less [of 10 _ "unat v"] by (force simp: list_all_iff)
  ultimately show ?thesis by (simp add: digits_value_def dec_law)
qed

lemma fixed_parse_decimal_string:
  fixes v :: u256 and p :: nat and d :: decimals
  defines "n \<equiv> decimals_as_usize d"
  shows "fixed_parse n (u256_to_decimal_string E v d None) = Some (unat v)"
    and "fixed_parse n (u256_to_decimal_string E v d (Some p)) =
      Some (unat v - unat v mod 10 ^ (n - min p n))"
proof -
  define s where "s = replicate n CHR ''0'' @ dec_of_u256 E v"
  define f where "f = drop (length s - n) s"
  have s: "n \<le> length s" "list_all is_dec_digit s" "digits_value s = unat v"
    using zero_digit dec_digits [of v]
    by (simp_all add: s_def digits_value_append list_all_iff ball_Un)
  have f: "length f = n" "list_all is_dec_digit f" "digits_value f = unat v mod 10 ^ n"
    using s digits_value_take_drop(2) [OF s(1,2)] by (simp_all add: f_def)
  note i = int_part_props [OF s(1,2), unfolded s(3)]
  note split = u256_to_decimal_string_split [OF n_def [THEN meta_eq_to_obj_eq] s_def dec_digits, folded f_def]
  have tlen: "length (trim_end CHR ''0'' f) \<le> n"
    using trim_end_split [of f "CHR ''0''"] f(1) by (metis length_append le_add1)
  show "fixed_parse n (u256_to_decimal_string E v d None) = Some (unat v)"
    using i f tlen digits_value_trim_end [of f]
    by (simp add: split apply_precision_def fixed_parse_split div_mult_mod_eq)
  define q where "q = min p n"
  have "q \<le> n" by (simp add: q_def)
  have "apply_precision (Some q) (int_part n s @ CHR ''.'' # trim_end CHR ''0'' f) =
      int_part n s @ CHR ''.'' # take q f"
    using i f \<open>q \<le> n\<close> take_trim_end [of q f "CHR ''0''"] by (simp add: apply_precision_split)
  then have "fixed_parse n (u256_to_decimal_string E v d (Some p)) =
      Some (unat v div 10 ^ n * 10 ^ n + digits_value (take q f) * 10 ^ (n - q))"
    using i f \<open>q \<le> n\<close> by (simp add: split q_def [symmetric] fixed_parse_split)
  also have "digits_value (take q f) = unat v mod 10 ^ n div 10 ^ (n - q)"
    using digits_value_take_drop(1) [of "n - q" f] f \<open>q \<le> n\<close> by simp
  also have "unat v div 10 ^ n * 10 ^ n + unat v mod 10 ^ n div 10 ^ (n - q) * 10 ^ (n - q) =
      unat v - unat v mod 10 ^ (n - q)"
  proof -
    have "unat v mod 10 ^ n mod 10 ^ (n - q) = unat v mod 10 ^ (n - q)"
      by (simp add: mod_mod_cancel le_imp_power_dvd)
    then show ?thesis
      by (metis add_diff_assoc div_mult_mod_eq minus_mod_eq_div_mult mod_less_eq_dividend)
  qed
  finally show "fixed_parse n (u256_to_decimal_string E v d (Some p)) =
      Some (unat v - unat v mod 10 ^ (n - min p n))" by (simp add: q_def)
qed

end

section \<open>Conversions to and from Decimal\<close>

definition max_rust_decimal :: nat where
  "max_rust_decimal = 79228162514264337593543950336"

definition compute_base :: "nat \<Rightarrow> rat" where
  "compute_base num_decimals =
     (if num_decimals = 18 then 1000000000000000000
      else if num_decimals = 6 then 1000000 else 10 ^ num_decimals)"

definition rust_dec_to_u256_strict ::
    "(rat \<Rightarrow> rat \<Rightarrow> rat option) \<Rightarrow> rat \<Rightarrow> nat option \<Rightarrow> failure + u256" where
  "rust_dec_to_u256_strict checked_mul dec_amount decimals =
     (let num_decimals = (case decimals of None \<Rightarrow> 18 | Some n \<Rightarrow> n)
      in if num_decimals > 18
         then Inl (Err (ConversionError ''Decimals: cannot be greater than 18''))
         else (case checked_mul dec_amount (compute_base num_decimals) of
             None \<Rightarrow> Inl (Err (ConversionError ''Overflow during conversion''))
           | Some dec_mul \<Rightarrow>
               if dec_mul \<noteq> of_int \<lfloor>dec_mul\<rfloor>
               then Inl (Err (ConversionError ''Number cannot have a fractional part''))
               else if dec_mul < 0 \<or> 2 ^ 128 \<le> dec_mul
               then Inl (Err (ConversionError ''Number cannot be converted to u128''))
               else Inr (of_int \<lfloor>dec_mul\<rfloor>)))"

definition to_u256_from_gwei :: "(rat \<Rightarrow> rat \<Rightarrow> rat option) \<Rightarrow> rat \<Rightarrow> failure + u256" where
  "to_u256_from_gwei cm d = rust_dec_to_u256_strict cm d (Some 9)"

definition to_u256_from_eth :: "(rat \<Rightarrow> rat \<Rightarrow> rat option) \<Rightarrow> rat \<Rightarrow> failure + u256" where
  "to_u256_from_eth cm d = rust_dec_to_u256_strict cm d (Some 18)"

definition u256_to_rust_dec :: "u256 \<Rightarrow> nat option \<Rightarrow> failure + rat" where
  "u256_to_rust_dec amount decimals =
     (let num_decimals = (case decimals of None \<Rightarrow> 18 | Some n \<Rightarrow> n)
      in if num_decimals > 18
         then Inl (Err (ConversionError ''Decimals: cannot be greater than 18''))
         else if unat amount \<ge> max_rust_decimal
         then Inl (Err (ConversionError ''Amount greater than max rust_decimal''))
         else Inr (of_nat (unat amount) / compute_base num_decimals))"

definition u256_to_gwei :: "u256 \<Rightarrow> failure + rat" where
  "u256_to_gwei amount = u256_to_rust_dec amount (Some 9)"

definition u256_to_eth :: "u256 \<Rightarrow> failure + rat" where
  "u256_to_eth amount = u256_to_rust_dec amount (Some 18)"

definition to_gwei_saturate :: "u256 \<Rightarrow> rat" where
  "to_gwei_saturate a = (case u256_to_gwei a of Inl _ \<Rightarrow> 10000000000000 | Inr d \<Rightarrow> d)"

definition to_eth_saturate :: "u256 \<Rightarrow> rat" where
  "to_eth_saturate a = (case u256_to_eth a of Inl _ \<Rightarrow> 10000000000 | Inr d \<Rightarrow> d)"

definition str_to_u256 :: "externals \<Rightarrow> string \<Rightarrow> failure + u256" where
  "str_to_u256 E s = (case u256_of_dec E s of
       None \<Rightarrow> Inl (Err (ConversionError ''Invalid string when converting'')) | Some v \<Rightarrow> Inr v)"

definition str_to_gwei :: "externals \<Rightarrow> string \<Rightarrow> failure + rat" where
  "str_to_gwei E s = (case str_to_u256 E s of Inl e \<Rightarrow> Inl e | Inr v \<Rightarrow> u256_to_gwei v)"

definition str_to_eth :: "externals \<Rightarrow> string \<Rightarrow> failure + rat" where
  "str_to_eth E s = (case str_to_u256 E s of Inl e \<Rightarrow> Inl e | Inr v \<Rightarrow> u256_to_eth v)"

definition u256_eth_from_str :: "externals \<Rightarrow> string \<Rightarrow> failure + u256 \<times> rat" where
  "u256_eth_from_str E s = (case str_to_u256 E s of Inl e \<Rightarrow> Inl e
     | Inr v \<Rightarrow> (case u256_to_eth v of Inl e \<Rightarrow> Inl e | Inr d \<Rightarrow> Inr (v, d)))"

definition u256_gwei_from_str :: "externals \<Rightarrow> string \<Rightarrow> failure + u256 \<times> rat" where
  "u256_gwei_from_str E s = (case str_to_u256 E s of Inl e \<Rightarrow> Inl e
     | Inr v \<Rightarrow> (case u256_to_gwei v of Inl e \<Rightarrow> Inl e | Inr d \<Rightarrow> Inr (v, d)))"

lemma compute_base_eq: "compute_base n = 10 ^ n"
  by (simp add: compute_base_def)

lemma u256_to_rust_dec_InrD:
  "u256_to_rust_dec a n = Inr d \<Longrightarrow>
    unat a < 2 ^ 96 \<and> of_nat (unat a) = d * compute_base (case n of None \<Rightarrow> 18 | Some k \<Rightarrow> k)"
  by (auto simp: u256_to_rust_dec_def Let_def max_rust_decimal_def compute_base_eq split: if_splits)


lemma rust_dec_to_u256_strict_exact:
  assumes "num = (case n of None \<Rightarrow> 18 | Some k \<Rightarrow> k)" "num \<le> 18"
    "cm d (compute_base num) = Some (of_nat (unat a))" "unat a < 2 ^ 128"
  shows "rust_dec_to_u256_strict cm d n = Inr a"
proof -
  obtain k where k: "k = unat a" by simp
  have "(of_nat k :: rat) < of_nat (2 ^ 128)" using assms(4) by (simp only: of_nat_less_iff k)
  moreover have "\<lfloor>of_nat k :: rat\<rfloor> = int k" by simp
  moreover have "of_int (int k) = a" by (simp add: k)
  ultimately show ?thesis using assms(1-3) by (simp add: rust_dec_to_u256_strict_def Let_def k [symmetric])
qed

section \<open>Properties\<close>

text \<open>C9. Rendering an amount with all its decimals loses nothing: the text has the form
  \<open>I\<close> or \<open>I.F\<close> and reads back as exactly the U256; with a precision it reads back as the amount
  rounded down to that many decimals (at most the number of decimals of the token).\<close>

theorem decimal_string_roundtrip:
  assumes "external E"
  shows "fixed_parse (decimals_as_usize d) (u256_to_decimal_string E v d None) = Some (unat v)
    \<and> fixed_parse (decimals_as_usize d) (u256_to_decimal_string E v d (Some p)) =
        Some (unat v - unat v mod 10 ^ (decimals_as_usize d - min p (decimals_as_usize d)))"
  using external.fixed_parse_decimal_string [OF assms] by blast

theorem decimal_string_roundtrip_witness:
  "fixed_parse 6 (u256_to_decimal_string ref_externals 1234567 Six None) = Some 1234567
    \<and> fixed_parse 6 (u256_to_decimal_string ref_externals 1234567 Six (Some 2)) = Some 1230000"
  using decimal_string_roundtrip [OF ref.external_axioms, of Six 1234567 2] by simp

text \<open>The conversion to Decimal and the strict conversion back are inverse wherever the first
  one succeeds, for a checked multiplication that is exact when the product is an integer below
  2^96 (the integers a Decimal can hold).\<close>

theorem rust_dec_roundtrip:
  assumes "\<And>a b k. a * b = of_nat k \<Longrightarrow> k < 2 ^ 96 \<Longrightarrow> cm a b = Some (a * b)"
    and "u256_to_rust_dec amount decimals = Inr dec"
  shows "rust_dec_to_u256_strict cm dec decimals = Inr amount"
proof -
  define num where "num = (case decimals of None \<Rightarrow> 18 | Some k \<Rightarrow> k)"
  have *: "unat amount < 2 ^ 96" "of_nat (unat amount) = dec * compute_base num" "num \<le> 18"
    using u256_to_rust_dec_InrD [OF assms(2)] assms(2)
    by (auto simp: num_def u256_to_rust_dec_def Let_def split: if_splits)
  then have "cm dec (compute_base num) = Some (of_nat (unat amount))" using assms(1) by metis
  with * show ?thesis by (intro rust_dec_to_u256_strict_exact [of num]) (simp_all add: num_def)
qed

theorem rust_dec_roundtrip_witness:
  "rust_dec_to_u256_strict (\<lambda>a b. Some (a * b)) (5 / 2) (Some 9) = Inr 2500000000"
  by (rule rust_dec_roundtrip) (simp_all add: u256_to_rust_dec_def Let_def max_rust_decimal_def compute_base_def)

section \<open>The conversion that saturates\<close>

text \<open>
  A product beyond the range of a Decimal becomes the greatest one; a fraction of the smallest unit is cut off. Where
  the strict conversion succeeds the two agree, on amounts that are not negative.
\<close>

definition rust_dec_to_u256 :: "(rat \<Rightarrow> rat \<Rightarrow> rat option) \<Rightarrow> rat \<Rightarrow> decimals \<Rightarrow> u256" where
  "rust_dec_to_u256 checked_mul dec_amount decimals =
     (if dec_amount < 0 then 0
      else let dec_mul = (case checked_mul dec_amount (compute_base (decimals_as_usize decimals)) of
             Some dec_mul \<Rightarrow> dec_mul | None \<Rightarrow> of_nat (max_rust_decimal - 1))
        in if dec_mul < 0 \<or> 2 ^ 128 \<le> dec_mul then 0 else of_int \<lfloor>dec_mul\<rfloor>)"

theorem saturating_agrees_with_strict:
  assumes "rust_dec_to_u256_strict cm dec_amount (Some (decimals_as_usize d)) = Inr amount" and "0 \<le> dec_amount"
  shows "rust_dec_to_u256 cm dec_amount d = amount"
  using assms by (simp add: rust_dec_to_u256_def rust_dec_to_u256_strict_def Let_def split: if_splits option.splits)

theorem saturating_agrees_with_strict_witness:
  "rust_dec_to_u256 (\<lambda>a b. Some (a * b)) (5 / 2) Nine = 2500000000"
  by (rule saturating_agrees_with_strict)
     (simp_all add: rust_dec_to_u256_strict_def compute_base_def)

end
