(* ===== verification/Packing.thy ===== *)
theory Packing imports External begin

text \<open>
  Byte-level encodings: the packed transfer list of the multi-transfer contract (\<open>multi.rs\<close>) and the
  deposit identifiers of the lock contract (\<open>eth.rs\<close>), with the big-endian byte order of U256 and u64.
\<close>

section \<open>Big-endian bytes\<close>

fun be_bytes :: "nat \<Rightarrow> nat \<Rightarrow> bytes" where
  "be_bytes 0 n = []"
| "be_bytes (Suc k) n = be_bytes k (n div 256) @ [of_nat (n mod 256)]"

definition be_value :: "bytes \<Rightarrow> nat" where
  "be_value bs = of_base 256 (map unat bs)"

definition to_big_endian :: "u256 \<Rightarrow> bytes" where
  "to_big_endian v = be_bytes 32 (unat v)"

definition from_big_endian :: "bytes \<Rightarrow> u256" where
  "from_big_endian bs = of_nat (be_value bs)"

definition address_bytes :: "address \<Rightarrow> bytes" where
  "address_bytes a = be_bytes 20 (unat a)"

definition u64_to_be_bytes :: "64 word \<Rightarrow> bytes" where
  "u64_to_be_bytes n = be_bytes 8 (unat n)"

definition u64_from_be_bytes :: "bytes \<Rightarrow> 64 word" where
  "u64_from_be_bytes bs = of_nat (be_value bs)"

lemma length_be_bytes [simp]: "length (be_bytes k n) = k"
  by (induction k arbitrary: n) auto

lemma unat_of_byte: "unat (of_nat (n mod 256) :: byte) = n mod 256"
  by (simp add: unsigned_of_nat take_bit_eq_mod)

lemma be_value_append: "be_value (xs @ ys) = be_value xs * 256 ^ length ys + be_value ys"
  by (simp add: be_value_def of_base_append)

lemma be_value_be_bytes: "be_value (be_bytes k n) = n mod 256 ^ k"
proof (induction k arbitrary: n)
  case (Suc k)
  have "be_value (be_bytes (Suc k) n) = (n div 256 mod 256 ^ k) * 256 + n mod 256"
    by (simp add: be_value_append Suc) (simp only: be_value_def list.map of_base_single unat_of_byte)
  also have "\<dots> = n mod 256 ^ Suc k"
    using mod_mult2_eq [of n 256 "256 ^ k"] by (simp add: mult.commute)
  finally show ?case .
qed (simp add: be_value_def)

lemma drop_be_bytes: "drop j (be_bytes (j + k) n) = be_bytes k n"
  by (induction k arbitrary: n) simp_all

lemma drop_be_bytes_12: "drop 20 (be_bytes 32 n) = be_bytes 12 n"
  using drop_be_bytes [of 20 12] by simp

lemma drop_be_bytes_24: "drop 24 (be_bytes 32 n) = be_bytes 8 n"
  using drop_be_bytes [of 24 8] by simp

lemma pow_256: "(256 :: nat) ^ k = 2 ^ (8 * k)"
  by (simp add: power_mult)

section \<open>Packed transfers (\<open>multi.rs\<close>)\<close>

definition pack_transfer :: "address \<Rightarrow> u256 \<Rightarrow> bytes" where
  "pack_transfer receiver amount =
     (let packet2 = to_big_endian amount
      in take 20 (address_bytes receiver) @ drop 20 packet2)"

fun sum_amounts :: "u256 \<Rightarrow> u256 \<Rightarrow> u256 list \<Rightarrow> failure + u256" where
  "sum_amounts max_value acc [] = Inr acc"
| "sum_amounts max_value acc (amount # amounts) =
     (if amount > max_value
      then Inl (err_custom ''Amount is too big to use packed error'')
      else case u256_add acc amount of Inl e \<Rightarrow> Inl e | Inr s \<Rightarrow> sum_amounts max_value s amounts)"

definition pack_transfers_for_multi_contract ::
    "address list \<Rightarrow> u256 list \<Rightarrow> failure + (bytes list \<times> u256)" where
  "pack_transfers_for_multi_contract receivers amounts =
     (case sum_amounts (2 ^ 96) 0 amounts of
        Inl e \<Rightarrow> Inl e
      | Inr acc \<Rightarrow> Inr (map (\<lambda>(r, a). pack_transfer r a) (zip receivers amounts), acc))"

text \<open>What the contract reads: 160 bits of receiver and 96 bits of amount.\<close>

definition unpack_transfer :: "bytes \<Rightarrow> address \<times> nat" where
  "unpack_transfer p = (of_nat (be_value (take 20 p)), be_value (drop 20 p))"

lemma unpack_pack: "unpack_transfer (pack_transfer r a) = (r, unat a mod 2 ^ 96)"
  using unat_bound [of r]
  by (simp add: unpack_transfer_def pack_transfer_def to_big_endian_def address_bytes_def
      drop_be_bytes_12 be_value_be_bytes pow_256)

lemma sum_amounts_ok:
  assumes "\<forall>a\<in>set amounts. a \<le> m" and "unat acc + length amounts * unat m < 2 ^ 256"
  shows "\<exists>s. sum_amounts m acc amounts = Inr s \<and> unat s = unat acc + sum_list (map unat amounts)"
  using assms
proof (induction amounts arbitrary: acc)
  case (Cons a as)
  then have a: "unat a \<le> unat m" by (simp add: word_le_nat_alt)
  with Cons.prems have "unat acc + unat a < 2 ^ 256" by simp
  then obtain s where s: "u256_add acc a = Inr s" "unat s = unat acc + unat a"
    by (metis u256_add_def u256_add_Inr)
  moreover have "\<not> m < a" using Cons.prems by auto
  moreover have "\<exists>t. sum_amounts m s as = Inr t \<and> unat t = unat s + sum_list (map unat as)"
    using Cons.prems a s(2) by (intro Cons.IH) auto
  ultimately show ?case by (auto simp: add.assoc)
qed simp

lemma sum_amounts_too_big:
  "\<exists>a\<in>set amounts. m < a \<Longrightarrow> unat acc + length amounts * unat m < 2 ^ 256 \<Longrightarrow>
    sum_amounts m acc amounts = Inl (err_custom ''Amount is too big to use packed error'')"
proof (induction amounts arbitrary: acc)
  case (Cons a as)
  show ?case
  proof (cases "m < a")
    case False
    then have a: "unat a \<le> unat m" by (simp add: word_less_nat_alt)
    with Cons.prems have "unat acc + unat a < 2 ^ 256" by simp
    then obtain s where s: "u256_add acc a = Inr s" "unat s = unat acc + unat a"
      by (metis u256_add_def u256_add_Inr)
    with Cons False a show ?thesis by auto
  qed simp
qed simp

lemma sum_amounts_err:
  "sum_amounts m acc amounts = Inl (err_custom msg) \<Longrightarrow> \<exists>a\<in>set amounts. m < a"
  by (induction amounts arbitrary: acc) (auto simp: u256_add_def split: if_splits)

lemma unat_2_96: "unat ((2 :: u256) ^ 96) = 2 ^ 96"
  by simp

section \<open>Deposit identifiers (\<open>eth.rs\<close>)\<close>

definition deposit_id_from_nonce :: "address \<Rightarrow> 64 word \<Rightarrow> u256" where
  "deposit_id_from_nonce funder nonce =
     from_big_endian (address_bytes funder @ replicate 4 0 @ u64_to_be_bytes nonce)"

definition nonce_from_deposit_id :: "u256 \<Rightarrow> 64 word" where
  "nonce_from_deposit_id deposit_id = u64_from_be_bytes (drop 24 (to_big_endian deposit_id))"

lemma be_value_zeros [simp]: "be_value (replicate k 0) = 0"
  by (induction k) (simp_all add: be_value_def of_base_Cons)

lemma deposit_id_value: "unat (deposit_id_from_nonce f n) = unat f * 2 ^ 96 + unat n"
proof -
  have v: "be_value (address_bytes f @ replicate 4 0 @ u64_to_be_bytes n) = unat f * 2 ^ 96 + unat n"
    using unat_bound [of f] unat_bound [of n]
    by (simp add: be_value_append address_bytes_def u64_to_be_bytes_def be_value_be_bytes pow_256)
  have "unat f * 2 ^ 96 + unat n < 2 ^ 256" using unat_bound [of f] unat_bound [of n] by simp
  then show ?thesis
    unfolding deposit_id_from_nonce_def from_big_endian_def v
    using unat_of_nat_small [of "unat f * 2 ^ 96 + unat n", where 'a = 256] by simp
qed

lemma nonce_value: "nonce_from_deposit_id i = of_nat (unat i mod 2 ^ 64)"
  by (simp add: nonce_from_deposit_id_def u64_from_be_bytes_def to_big_endian_def drop_be_bytes_24
      be_value_be_bytes pow_256)

section \<open>Properties\<close>

text \<open>C8. Amounts below 2^96 are packed and read back by the contract as the same receivers in the same order,
  each with exactly its amount; the returned sum is the exact sum of the amounts, without wrap-around. An amount
  above 2^96 is refused.\<close>

theorem pack_transfers_roundtrip:
  assumes "length receivers = length amounts" and "length amounts < 2 ^ 159"
  shows "((\<forall>a\<in>set amounts. unat a < 2 ^ 96) \<longrightarrow> (\<exists>packed total_amount.
      pack_transfers_for_multi_contract receivers amounts = Inr (packed, total_amount) \<and>
      unat total_amount = sum_list (map unat amounts) \<and>
      map unpack_transfer packed = zip receivers (map unat amounts))) \<and>
    ((\<exists>a\<in>set amounts. 2 ^ 96 < unat a) \<longrightarrow> pack_transfers_for_multi_contract receivers amounts =
      Inl (err_custom ''Amount is too big to use packed error''))"
proof (intro conjI impI)
  have small: "length amounts * 2 ^ 96 < 2 ^ 256" using assms(2) by simp
  assume less: "\<forall>a\<in>set amounts. unat a < 2 ^ 96"
  then have le: "\<forall>a\<in>set amounts. a \<le> 2 ^ 96" unfolding word_le_nat_alt unat_2_96 by (auto simp: order_less_imp_le)
  obtain s where s: "sum_amounts (2 ^ 96) 0 amounts = Inr s" "unat s = sum_list (map unat amounts)"
    using sum_amounts_ok [of amounts "2 ^ 96" 0] le small unfolding unat_2_96 unsigned_0 by auto
  have "map (\<lambda>(r, a). unpack_transfer (pack_transfer r a)) (zip receivers amounts) = zip receivers (map (\<lambda>a. unat a mod 2 ^ 96) amounts)"
    by (simp only: unpack_pack zip_map2)
  also have "map (\<lambda>a. unat a mod 2 ^ 96) amounts = map unat amounts" using less by simp
  finally show "\<exists>packed total_amount. pack_transfers_for_multi_contract receivers amounts = Inr (packed, total_amount) \<and>
      unat total_amount = sum_list (map unat amounts) \<and> map unpack_transfer packed = zip receivers (map unat amounts)"
    using s by (simp add: pack_transfers_for_multi_contract_def comp_def split_beta')
next
  assume "\<exists>a\<in>set amounts. 2 ^ 96 < unat a"
  then have "\<exists>a\<in>set amounts. 2 ^ 96 < a" unfolding word_less_nat_alt unat_2_96 .
  then have "sum_amounts (2 ^ 96) 0 amounts = Inl (err_custom ''Amount is too big to use packed error'')"
    using assms(2) by (intro sum_amounts_too_big) (auto simp del: of_nat_mult simp: unat_2_96 [simplified])
  then show "pack_transfers_for_multi_contract receivers amounts = Inl (err_custom ''Amount is too big to use packed error'')"
    by (simp add: pack_transfers_for_multi_contract_def)
qed

theorem pack_transfers_roundtrip_witness:
  "\<exists>packed. pack_transfers_for_multi_contract [7, 9] [5, 6] = Inr (packed, 11) \<and>
     map unpack_transfer packed = [(7, 5), (9, 6)]"
proof -
  obtain packed s where p: "pack_transfers_for_multi_contract [7, 9] [5, 6] = Inr (packed, s)"
      "unat s = 11" "map unpack_transfer packed = [(7, 5), (9, 6)]"
    using pack_transfers_roundtrip [of "[7, 9]" "[5, 6]"] by auto
  have "s = of_nat 11" using p(2) by (metis word_unat_of_nat_id)
  with p show ?thesis by auto
qed

text \<open>The guard of the packing admits one value that does not fit: an amount of exactly 2^96 is
  accepted, counted in the sum, and packed as an amount of zero.\<close>

theorem pack_boundary_amount_lost:
  "\<exists>p. pack_transfers_for_multi_contract [r] [2 ^ 96] = Inr ([p], 2 ^ 96) \<and> unpack_transfer p = (r, 0)"
proof -
  have "u256_add 0 (2 ^ 96) = Inr (2 ^ 96)" by (simp add: u256_add_def)
  then have "pack_transfers_for_multi_contract [r] [2 ^ 96] = Inr ([pack_transfer r (2 ^ 96)], 2 ^ 96)"
    by (simp add: pack_transfers_for_multi_contract_def)
  moreover have "unpack_transfer (pack_transfer r (2 ^ 96)) = (r, 0)"
    unfolding unpack_pack unat_2_96 by simp
  ultimately show ?thesis by blast
qed

text \<open>A deposit id determines its funder and nonce: the nonce read back from the id is the one it
  was made from, and the id is the number \<open>funder * 2^96 + nonce\<close>, so different funders or nonces
  give different ids.\<close>

theorem deposit_id_roundtrip:
  "nonce_from_deposit_id (deposit_id_from_nonce f n) = n \<and>
    unat (deposit_id_from_nonce f n) = unat f * 2 ^ 96 + unat n \<and>
    (deposit_id_from_nonce f n = deposit_id_from_nonce g m) = (f = g \<and> n = m)"
proof -
  have *: "nonce_from_deposit_id (deposit_id_from_nonce f n) = n" for f n
  proof -
    have "(unat f * 2 ^ 96 + unat n) mod 2 ^ 64 = unat n"
    proof -
      have "unat f * 2 ^ 96 + unat n = unat n + 2 ^ 64 * (unat f * 2 ^ 32)" by simp
      then show ?thesis using unat_bound [of n] by (simp only: mod_mult_self2) simp
    qed
    then show ?thesis by (simp add: nonce_value deposit_id_value)
  qed
  have "f = g \<and> n = m" if "deposit_id_from_nonce f n = deposit_id_from_nonce g m"
  proof -
    have n: "n = m" using * that by metis
    with that have "unat f * 2 ^ 96 = unat g * 2 ^ 96"
      using deposit_id_value [of f n] deposit_id_value [of g m] by simp
    with n show ?thesis by (metis mult_right_cancel power_not_zero word_unat_of_nat_id zero_neq_numeral)
  qed
  then show ?thesis using * deposit_id_value by blast
qed

end
