(* ===== verification/Contracts.thy ===== *)
theory Contracts imports Packing begin

text \<open>
  The calls of the four contracts (\<open>contracts.rs\<close>) over the ABI files bundled in \<open>contracts/*.json\<close>:
  a call is encoded when the ABI has the function and the tokens fit its inputs (the two errors of
  the encoder); the bytes come from the ABI crate.
\<close>

datatype abi_type = TyAddress | TyUint nat | TyInt nat | TyArray abi_type | TyFixedBytes nat

fun token_fits :: "abi_token \<Rightarrow> abi_type \<Rightarrow> bool" where
  "token_fits (TokAddress _) t = (t = TyAddress)"
| "token_fits (TokUint _) t = (case t of TyUint _ \<Rightarrow> True | _ \<Rightarrow> False)"
| "token_fits (TokInt _) t = (case t of TyInt _ \<Rightarrow> True | _ \<Rightarrow> False)"
| "token_fits (TokAddresses _) t = (t = TyArray TyAddress)"
| "token_fits (TokUints _) t = (case t of TyArray (TyUint _) \<Rightarrow> True | _ \<Rightarrow> False)"
| "token_fits (TokBytes32s bs) t = (t = TyArray (TyFixedBytes 32) \<and> list_all (\<lambda>b. length b = 32) bs)"

text \<open>The functions of the bundled ABI files the driver calls.\<close>

fun abi_functions :: "contract_template \<Rightarrow> (string \<times> abi_type list) list" where
  "abi_functions ERC20_CONTRACT =
     [(''approve'', [TyAddress, TyUint 256]), (''balanceOf'', [TyAddress]),
      (''transfer'', [TyAddress, TyUint 256]), (''allowance'', [TyAddress, TyAddress])]"
| "abi_functions FAUCET_CONTRACT = [(''create'', [])]"
| "abi_functions MULTI_CONTRACT =
     [(''golemTransferDirect'', [TyArray TyAddress, TyArray (TyUint 256)]),
      (''golemTransferDirectPacked'', [TyArray (TyFixedBytes 32)]),
      (''golemTransferIndirect'', [TyArray TyAddress, TyArray (TyUint 256)]),
      (''golemTransferIndirectPacked'', [TyArray (TyFixedBytes 32), TyUint 256])]"
| "abi_functions LOCK_CONTRACT =
     [(''closeDeposit'', [TyUint 256]),
      (''createDeposit'', [TyUint 64, TyAddress, TyUint 128, TyUint 128, TyInt 64, TyUint 64]),
      (''depositSingleTransfer'', [TyUint 256, TyAddress, TyUint 128]),
      (''depositSingleTransferAndClose'', [TyUint 256, TyAddress, TyUint 128]),
      (''depositTransfer'', [TyUint 256, TyArray (TyFixedBytes 32)]),
      (''depositTransferAndClose'', [TyUint 256, TyArray (TyFixedBytes 32)]),
      (''getDeposit'', [TyUint 256]), (''terminateDeposit'', [TyUint 64])]"

definition contract_encode ::
    "externals \<Rightarrow> contract_template \<Rightarrow> string \<Rightarrow> abi_token list \<Rightarrow> failure + bytes" where
  "contract_encode E contract func params =
     (case map_of (abi_functions contract) func of
        None \<Rightarrow> Inl (Err EthAbiError)
      | Some tys \<Rightarrow> if list_all2 token_fits params tys then Inr (encode_input E contract func params)
                    else Inl (Err EthAbiError))"

definition encode_erc20_balance_of :: "externals \<Rightarrow> address \<Rightarrow> failure + bytes" where
  "encode_erc20_balance_of E a = contract_encode E ERC20_CONTRACT ''balanceOf'' [TokAddress a]"

definition encode_erc20_transfer :: "externals \<Rightarrow> address \<Rightarrow> u256 \<Rightarrow> failure + bytes" where
  "encode_erc20_transfer E a amount =
     contract_encode E ERC20_CONTRACT ''transfer'' [TokAddress a, TokUint amount]"

definition encode_erc20_allowance :: "externals \<Rightarrow> address \<Rightarrow> address \<Rightarrow> failure + bytes" where
  "encode_erc20_allowance E owner spender =
     contract_encode E ERC20_CONTRACT ''allowance'' [TokAddress owner, TokAddress spender]"

definition encode_faucet_create :: "externals \<Rightarrow> failure + bytes" where
  "encode_faucet_create E = contract_encode E FAUCET_CONTRACT ''create'' []"

definition encode_erc20_approve :: "externals \<Rightarrow> address \<Rightarrow> u256 \<Rightarrow> failure + bytes" where
  "encode_erc20_approve E spender amount =
     contract_encode E ERC20_CONTRACT ''approve'' [TokAddress spender, TokUint amount]"

definition encode_deposit_transfer :: "externals \<Rightarrow> u256 \<Rightarrow> bytes list \<Rightarrow> failure + bytes" where
  "encode_deposit_transfer E deposit_id packed =
     contract_encode E LOCK_CONTRACT ''depositTransfer'' [TokUint deposit_id, TokBytes32s packed]"

definition encode_deposit_transfer_and_close :: "externals \<Rightarrow> u256 \<Rightarrow> bytes list \<Rightarrow> failure + bytes" where
  "encode_deposit_transfer_and_close E deposit_id packed =
     contract_encode E LOCK_CONTRACT ''depositTransferAndClose'' [TokUint deposit_id, TokBytes32s packed]"

definition encode_multi_direct :: "externals \<Rightarrow> address list \<Rightarrow> u256 list \<Rightarrow> failure + bytes" where
  "encode_multi_direct E recipients amounts =
     contract_encode E MULTI_CONTRACT ''golemTransferDirect'' [TokAddresses recipients, TokUints amounts]"

definition encode_multi_direct_packed :: "externals \<Rightarrow> bytes list \<Rightarrow> failure + bytes" where
  "encode_multi_direct_packed E packed =
     contract_encode E MULTI_CONTRACT ''golemTransferDirectPacked'' [TokBytes32s packed]"

definition encode_multi_indirect :: "externals \<Rightarrow> address list \<Rightarrow> u256 list \<Rightarrow> failure + bytes" where
  "encode_multi_indirect E recipients amounts =
     contract_encode E MULTI_CONTRACT ''golemTransferIndirect'' [TokAddresses recipients, TokUints amounts]"

definition encode_multi_indirect_packed :: "externals \<Rightarrow> bytes list \<Rightarrow> u256 \<Rightarrow> failure + bytes" where
  "encode_multi_indirect_packed E packed sum_amount =
     contract_encode E MULTI_CONTRACT ''golemTransferIndirectPacked'' [TokBytes32s packed, TokUint sum_amount]"

definition encode_close_deposit :: "externals \<Rightarrow> u256 \<Rightarrow> failure + bytes" where
  "encode_close_deposit E deposit_id = contract_encode E LOCK_CONTRACT ''closeDeposit'' [TokUint deposit_id]"

definition encode_terminate_deposit :: "externals \<Rightarrow> 64 word \<Rightarrow> failure + bytes" where
  "encode_terminate_deposit E nonce =
     contract_encode E LOCK_CONTRACT ''terminateDeposit'' [TokUint (ucast nonce)]"

record create_deposit_args =
  cd_deposit_nonce :: "64 word"
  cd_deposit_spender :: address
  cd_deposit_amount :: u256
  cd_deposit_fee_amount :: u256
  cd_deposit_fee_percent :: i64
  cd_deposit_timestamp :: "64 word"

definition encode_create_deposit :: "externals \<Rightarrow> create_deposit_args \<Rightarrow> failure + bytes" where
  "encode_create_deposit E args = contract_encode E LOCK_CONTRACT ''createDeposit''
     [TokUint (ucast (cd_deposit_nonce args)), TokAddress (cd_deposit_spender args),
      TokUint (cd_deposit_amount args), TokUint (cd_deposit_fee_amount args),
      TokInt (cd_deposit_fee_percent args), TokUint (ucast (cd_deposit_timestamp args))]"

definition encode_payout_single :: "externals \<Rightarrow> u256 \<Rightarrow> address \<Rightarrow> u256 \<Rightarrow> failure + bytes" where
  "encode_payout_single E i recipient amount = contract_encode E LOCK_CONTRACT ''depositSingleTransfer''
     [TokUint i, TokAddress recipient, TokUint amount]"

definition encode_payout_single_and_close :: "externals \<Rightarrow> u256 \<Rightarrow> address \<Rightarrow> u256 \<Rightarrow> failure + bytes" where
  "encode_payout_single_and_close E i recipient amount =
     contract_encode E LOCK_CONTRACT ''depositSingleTransferAndClose''
       [TokUint i, TokAddress recipient, TokUint amount]"

definition encode_get_deposit_details :: "externals \<Rightarrow> u256 \<Rightarrow> failure + bytes" where
  "encode_get_deposit_details E i = contract_encode E LOCK_CONTRACT ''getDeposit'' [TokUint i]"

lemmas encoders_def = encode_erc20_balance_of_def encode_erc20_transfer_def encode_erc20_allowance_def
  encode_faucet_create_def encode_erc20_approve_def encode_deposit_transfer_def
  encode_deposit_transfer_and_close_def encode_multi_direct_def encode_multi_direct_packed_def
  encode_multi_indirect_def encode_multi_indirect_packed_def encode_close_deposit_def
  encode_terminate_deposit_def encode_create_deposit_def encode_payout_single_def
  encode_payout_single_and_close_def encode_get_deposit_details_def

lemma encode_simple [simp]:
  "encode_erc20_balance_of E a = Inr (encode_input E ERC20_CONTRACT ''balanceOf'' [TokAddress a])"
  "encode_erc20_transfer E a v = Inr (encode_input E ERC20_CONTRACT ''transfer'' [TokAddress a, TokUint v])"
  "encode_erc20_allowance E a b = Inr (encode_input E ERC20_CONTRACT ''allowance'' [TokAddress a, TokAddress b])"
  "encode_erc20_approve E a v = Inr (encode_input E ERC20_CONTRACT ''approve'' [TokAddress a, TokUint v])"
  "encode_faucet_create E = Inr (encode_input E FAUCET_CONTRACT ''create'' [])"
  "encode_close_deposit E i = Inr (encode_input E LOCK_CONTRACT ''closeDeposit'' [TokUint i])"
  "encode_terminate_deposit E n = Inr (encode_input E LOCK_CONTRACT ''terminateDeposit'' [TokUint (ucast n)])"
  "encode_get_deposit_details E i = Inr (encode_input E LOCK_CONTRACT ''getDeposit'' [TokUint i])"
  by (simp_all add: encoders_def contract_encode_def)

lemma length_pack_transfer [simp]: "length (pack_transfer r a) = 32"
  by (simp add: pack_transfer_def address_bytes_def to_big_endian_def)

lemma pack_transfers_lengths:
  "pack_transfers_for_multi_contract rs as = Inr (packed, s) \<Longrightarrow> list_all (\<lambda>b. length b = 32) packed"
  by (auto simp: pack_transfers_for_multi_contract_def list_all_iff split: sum.splits)

text \<open>Every call the driver builds has a function of the bundled ABI with fitting argument types,
  so encoding never fails, including the calls that carry a packed transfer list.\<close>

theorem contract_calls_encode:
  assumes "pack_transfers_for_multi_contract receivers amounts = Inr (packed, total_amount)"
  shows "list_all (\<lambda>r. \<not> isl r)
    [encode_erc20_balance_of E a, encode_erc20_transfer E a v, encode_erc20_allowance E a b,
     encode_faucet_create E, encode_erc20_approve E a v, encode_deposit_transfer E i packed,
     encode_deposit_transfer_and_close E i packed, encode_multi_direct E receivers amounts,
     encode_multi_direct_packed E packed, encode_multi_indirect E receivers amounts,
     encode_multi_indirect_packed E packed total_amount, encode_close_deposit E i,
     encode_terminate_deposit E n, encode_create_deposit E args, encode_payout_single E i a v,
     encode_payout_single_and_close E i a v, encode_get_deposit_details E i]"
  using pack_transfers_lengths [OF assms] by (simp add: encoders_def contract_encode_def)

theorem contract_calls_encode_witness:
  "\<not> isl (encode_multi_direct_packed ref_externals [pack_transfer 1 2])"
  using contract_calls_encode [of "[1]" "[2]" "[pack_transfer 1 2]" 2 ref_externals]
  by (simp add: pack_transfers_for_multi_contract_def u256_add_def)

end
