(* ===== verification/Tables.thy ===== *)
theory Tables imports Errors begin

text \<open>
  A database table with an AUTOINCREMENT primary key, as the seven tables of the schema have it:
  the rows in rowid order and the largest id handed out so far. An INSERT stores the row under the
  next id and returns it (\<open>RETURNING *\<close>); ids are never reused, also after a DELETE. The operations
  are parametric in the projection and the update of the id column; the locale \<open>entity\<close> gives the
  law of these two and the lemmas every table inherits.
\<close>

record 'r tbl =
  tb_rows :: "'r list"
  tb_seq :: int

definition tbl_empty :: "'r tbl" where
  "tbl_empty = \<lparr>tb_rows = [], tb_seq = 0\<rparr>"

definition tbl_insert :: "(int \<Rightarrow> 'r \<Rightarrow> 'r) \<Rightarrow> 'r \<Rightarrow> 'r tbl \<Rightarrow> 'r \<times> 'r tbl" where
  "tbl_insert set_id r t =
     (let row = set_id (tb_seq t + 1) r
      in (row, \<lparr>tb_rows = tb_rows t @ [row], tb_seq = tb_seq t + 1\<rparr>))"

definition tbl_find :: "('r \<Rightarrow> int) \<Rightarrow> int \<Rightarrow> 'r tbl \<Rightarrow> 'r option" where
  "tbl_find get_id i t = find (\<lambda>r. get_id r = i) (tb_rows t)"

definition tbl_select :: "('r \<Rightarrow> bool) \<Rightarrow> 'r tbl \<Rightarrow> 'r list" where
  "tbl_select P t = filter P (tb_rows t)"

definition tbl_update_where :: "('r \<Rightarrow> bool) \<Rightarrow> ('r \<Rightarrow> 'r) \<Rightarrow> 'r tbl \<Rightarrow> 'r tbl" where
  "tbl_update_where P f t = t\<lparr>tb_rows := map (\<lambda>r. if P r then f r else r) (tb_rows t)\<rparr>"

definition tbl_delete_where :: "('r \<Rightarrow> bool) \<Rightarrow> 'r tbl \<Rightarrow> 'r tbl" where
  "tbl_delete_where P t = t\<lparr>tb_rows := filter (\<lambda>r. \<not> P r) (tb_rows t)\<rparr>"

definition tbl_ids :: "('r \<Rightarrow> int) \<Rightarrow> 'r tbl \<Rightarrow> int set" where
  "tbl_ids get_id t = get_id ` set (tb_rows t)"

text \<open>The primary key: ids are positive, distinct and none is above the sequence counter.\<close>

definition tbl_wf :: "('r \<Rightarrow> int) \<Rightarrow> 'r tbl \<Rightarrow> bool" where
  "tbl_wf get_id t \<longleftrightarrow> distinct (map get_id (tb_rows t)) \<and>
     list_all (\<lambda>r. 0 < get_id r \<and> get_id r \<le> tb_seq t) (tb_rows t) \<and> 0 \<le> tb_seq t"

lemma tbl_ids_empty [simp]: "tbl_ids g tbl_empty = {}"
  by (simp add: tbl_ids_def tbl_empty_def)

lemma tbl_ids_delete: "tbl_ids g (tbl_delete_where (\<lambda>r. g r = i) t) = tbl_ids g t - {i}"
  by (auto simp: tbl_ids_def tbl_delete_where_def)

lemma tbl_select_update_where:
  "(\<And>r. P r \<Longrightarrow> Q (f r) = Q' r) \<Longrightarrow> (\<And>r. \<not> P r \<Longrightarrow> Q r = Q' r) \<Longrightarrow>
    tbl_select Q (tbl_update_where P f t) = map (\<lambda>r. if P r then f r else r) (tbl_select Q' t)"
  unfolding tbl_select_def tbl_update_where_def by (induction "tb_rows t") (auto simp: filter_map comp_def intro!: filter_cong)

lemma tbl_find_None_iff: "tbl_find g i t = None \<longleftrightarrow> i \<notin> tbl_ids g t"
  by (auto simp: tbl_find_def tbl_ids_def find_None_iff)

lemma tbl_find_SomeD: "tbl_find g i t = Some r \<Longrightarrow> r \<in> set (tb_rows t) \<and> g r = i"
  by (auto simp: tbl_find_def find_Some_iff)

text \<open>Both the ids and their well-formedness depend on the list of ids only.\<close>

lemma tbl_ids_map: "tbl_ids g t = set (map g (tb_rows t))"
  by (simp add: tbl_ids_def)

lemma tbl_wf_map:
  "tbl_wf g t \<longleftrightarrow> distinct (map g (tb_rows t)) \<and>
     list_all (\<lambda>i. 0 < i \<and> i \<le> tb_seq t) (map g (tb_rows t)) \<and> 0 \<le> tb_seq t"
  by (auto simp: tbl_wf_def list_all_iff)

lemma map_id_update_where:
  "(\<And>r. P r \<Longrightarrow> g (f r) = g r) \<Longrightarrow>
    map g (tb_rows (tbl_update_where P f t)) = map g (tb_rows t) \<and> tb_seq (tbl_update_where P f t) = tb_seq t"
  by (simp add: tbl_update_where_def)

locale entity =
  fixes get_id :: "'r \<Rightarrow> int" and set_id :: "int \<Rightarrow> 'r \<Rightarrow> 'r"
  assumes get_set_id [simp]: "get_id (set_id i r) = i"
begin

lemma wf_empty: "tbl_wf get_id tbl_empty"
  by (simp add: tbl_wf_def tbl_empty_def)

lemma wf_insert: "tbl_wf get_id t \<Longrightarrow> tbl_wf get_id (snd (tbl_insert set_id r t))"
  by (force simp: tbl_wf_def tbl_insert_def Let_def list_all_iff)

lemma insert_fresh: "tbl_wf get_id t \<Longrightarrow> get_id (fst (tbl_insert set_id r t)) \<notin> tbl_ids get_id t"
  by (force simp: tbl_wf_def tbl_insert_def Let_def list_all_iff tbl_ids_def)

lemma ids_insert: "tbl_ids get_id (snd (tbl_insert set_id r t)) = insert (tb_seq t + 1) (tbl_ids get_id t)"
  by (auto simp: tbl_ids_def tbl_insert_def Let_def)

lemma find_insert:
  assumes "tbl_wf get_id t"
  shows "tbl_find get_id i (snd (tbl_insert set_id r t)) =
    (if i = tb_seq t + 1 then Some (set_id i r) else tbl_find get_id i t)"
proof -
  have "find (\<lambda>r. get_id r = tb_seq t + 1) (tb_rows t) = None"
    using assms by (force simp: find_None_iff tbl_wf_def list_all_iff)
  then show ?thesis
    by (auto simp: tbl_find_def tbl_insert_def Let_def find_append split: option.splits)
qed

lemma find_in_rows: "tbl_wf get_id t \<Longrightarrow> r \<in> set (tb_rows t) \<Longrightarrow> tbl_find get_id (get_id r) t = Some r"
proof -
  assume "tbl_wf get_id t" "r \<in> set (tb_rows t)"
  moreover obtain q where q: "tbl_find get_id (get_id r) t = Some q"
    using calculation by (metis tbl_find_None_iff image_eqI option.exhaust tbl_ids_def)
  ultimately show ?thesis
    using tbl_find_SomeD [OF q] by (auto simp: tbl_wf_def distinct_map inj_on_def)
qed

lemma wf_update:
  "(\<And>r. P r \<Longrightarrow> get_id (f r) = get_id r) \<Longrightarrow> tbl_wf get_id (tbl_update_where P f t) = tbl_wf get_id t"
  by (simp only: tbl_wf_map map_id_update_where [of P get_id f])

lemma ids_update:
  "(\<And>r. P r \<Longrightarrow> get_id (f r) = get_id r) \<Longrightarrow> tbl_ids get_id (tbl_update_where P f t) = tbl_ids get_id t"
  by (simp only: tbl_ids_map map_id_update_where [of P get_id f])

lemma find_update:
  assumes "\<And>r. P r \<Longrightarrow> get_id (f r) = get_id r"
  shows "tbl_find get_id i (tbl_update_where P f t) =
    map_option (\<lambda>r. if P r then f r else r) (tbl_find get_id i t)"
proof -
  have "find (\<lambda>r. get_id r = i) (map (\<lambda>r. if P r then f r else r) rs) =
      map_option (\<lambda>r. if P r then f r else r) (find (\<lambda>r. get_id r = i) rs)" for rs
    using assms by (induction rs) auto
  then show ?thesis by (simp add: tbl_find_def tbl_update_where_def)
qed

lemma wf_delete: "tbl_wf get_id t \<Longrightarrow> tbl_wf get_id (tbl_delete_where P t)"
  by (auto simp: tbl_wf_def tbl_delete_where_def list_all_iff distinct_map_filter)

lemma find_delete:
  "tbl_find get_id i (tbl_delete_where (\<lambda>r. get_id r = j) t) =
    (if i = j then None else tbl_find get_id i t)"
proof -
  have "find (\<lambda>r. get_id r = i) (filter (\<lambda>r. get_id r \<noteq> j) rs) =
      (if i = j then None else find (\<lambda>r. get_id r = i) rs)" for rs
    by (induction rs) auto
  then show ?thesis by (simp add: tbl_find_def tbl_delete_where_def)
qed

end

end
