(* ===== verification/Rows.thy ===== *)
theory Rows imports Tables begin

text \<open>
  The rows of the database (\<open>db/model/*.rs\<close>), one record per table with the source's columns. The
  two columns \<open>engine_message\<close> and \<open>engine_error\<close> of a transaction exist in memory only
  (\<open>#[sqlx(default)]\<close>): a row read from the database has them unset, which \<open>tx_row\<close> does.
\<close>

record tx_db_obj =
  t_id :: i64
  t_method :: string
  t_from_addr :: string
  t_to_addr :: string
  t_chain_id :: i64
  t_gas_limit :: "i64 option"
  t_max_fee_per_gas :: "string option"
  t_priority_fee :: "string option"
  t_val :: string
  t_nonce :: "i64 option"
  t_processing :: i64
  t_call_data :: "string option"
  t_created_date :: timestamp
  t_first_processed :: "timestamp option"
  t_tx_hash :: "string option"
  t_signed_raw_data :: "string option"
  t_signed_date :: "timestamp option"
  t_broadcast_date :: "timestamp option"
  t_broadcast_count :: i64
  t_first_stuck_date :: "timestamp option"
  t_confirm_date :: "timestamp option"
  t_blockchain_date :: "timestamp option"
  t_gas_used :: "i64 option"
  t_block_number :: "i64 option"
  t_chain_status :: "i64 option"
  t_block_gas_price :: "string option"
  t_effective_gas_price :: "string option"
  t_fee_paid :: "string option"
  t_error :: "string option"
  t_orig_tx_id :: "i64 option"
  t_engine_message :: "string option"
  t_engine_error :: "string option"

record token_transfer_db_obj =
  tt_id :: i64
  tt_payment_id :: "string option"
  tt_from_addr :: string
  tt_receiver_addr :: string
  tt_chain_id :: i64
  tt_token_addr :: "string option"
  tt_token_amount :: string
  tt_deposit_id :: "string option"
  tt_deposit_finish :: i64
  tt_create_date :: timestamp
  tt_tx_id :: "i64 option"
  tt_paid_date :: "timestamp option"
  tt_fee_paid :: "string option"
  tt_error :: "string option"

record allowance_db_obj =
  al_id :: i64
  al_owner :: string
  al_token_addr :: string
  al_spender :: string
  al_allowance :: string
  al_chain_id :: i64
  al_tx_id :: "i64 option"
  al_fee_paid :: "string option"
  al_confirm_date :: "timestamp option"
  al_error :: "string option"

record chain_tx_db_obj =
  ctx_id :: i64
  ctx_tx_hash :: string
  ctx_method :: string
  ctx_from_addr :: string
  ctx_to_addr :: string
  ctx_chain_id :: i64
  ctx_gas_used :: "i64 option"
  ctx_gas_limit :: "i64 option"
  ctx_block_gas_price :: "string option"
  ctx_effective_gas_price :: "string option"
  ctx_max_fee_per_gas :: "string option"
  ctx_priority_fee :: "string option"
  ctx_val :: string
  ctx_nonce :: i64
  ctx_checked_date :: timestamp
  ctx_blockchain_date :: timestamp
  ctx_block_number :: i64
  ctx_chain_status :: i64
  ctx_fee_paid :: string
  ctx_error :: "string option"
  ctx_balance_eth :: "string option"
  ctx_balance_glm :: "string option"
  ctx_engine_message :: "string option"
  ctx_engine_error :: "string option"

record chain_transfer_db_obj =
  ct_id :: i64
  ct_from_addr :: string
  ct_receiver_addr :: string
  ct_chain_id :: i64
  ct_token_addr :: "string option"
  ct_token_amount :: string
  ct_chain_tx_id :: i64
  ct_fee_paid :: "string option"
  ct_blockchain_date :: "timestamp option"

record scan_dao_db_obj =
  sc_id :: i64
  sc_chain_id :: i64
  sc_filter :: string
  sc_start_block :: i64
  sc_last_block :: i64

record transfer_in_db_obj =
  ti_id :: i64
  ti_payment_id :: string
  ti_from_addr :: string
  ti_receiver_addr :: string
  ti_chain_id :: i64
  ti_token_addr :: "string option"
  ti_token_amount :: string
  ti_tx_hash :: "string option"
  ti_requested_date :: timestamp
  ti_received_date :: "timestamp option"

definition tx_default :: "timestamp \<Rightarrow> tx_db_obj" where
  "tx_default now = \<lparr>
     t_id = 0,
     t_method = '''',
     t_from_addr = '''',
     t_to_addr = '''',
     t_chain_id = 0,
     t_gas_limit = None,
     t_max_fee_per_gas = None,
     t_priority_fee = None,
     t_val = ''0'',
     t_nonce = None,
     t_processing = 1,
     t_call_data = None,
     t_created_date = now,
     t_first_processed = None,
     t_tx_hash = None,
     t_signed_raw_data = None,
     t_signed_date = None,
     t_broadcast_date = None,
     t_broadcast_count = 0,
     t_first_stuck_date = None,
     t_confirm_date = None,
     t_blockchain_date = None,
     t_gas_used = None,
     t_block_number = None,
     t_chain_status = None,
     t_block_gas_price = None,
     t_effective_gas_price = None,
     t_fee_paid = None,
     t_error = None,
     t_orig_tx_id = None,
     t_engine_message = None,
     t_engine_error = None\<rparr>"

definition tx_row :: "tx_db_obj \<Rightarrow> tx_db_obj" where
  "tx_row tx = tx\<lparr>t_engine_message := None, t_engine_error := None\<rparr>"

lemma tx_row_idem [simp]: "tx_row (tx_row tx) = tx_row tx"
  by (simp add: tx_row_def)

text \<open>A chain transfer joined with its transaction.\<close>

record chain_transfer_db_obj_ext = chain_transfer_db_obj +
  cte_tx_hash :: string
  cte_block_number :: i64
  cte_to_addr :: string
  cte_caller_addr :: string

section \<open>Every row type is an entity\<close>

definition set_t_id :: "int \<Rightarrow> tx_db_obj \<Rightarrow> tx_db_obj" where
  "set_t_id i r = r\<lparr>t_id := i\<rparr>"

definition set_tt_id :: "int \<Rightarrow> token_transfer_db_obj \<Rightarrow> token_transfer_db_obj" where
  "set_tt_id i r = r\<lparr>tt_id := i\<rparr>"

definition set_al_id :: "int \<Rightarrow> allowance_db_obj \<Rightarrow> allowance_db_obj" where
  "set_al_id i r = r\<lparr>al_id := i\<rparr>"

definition set_ctx_id :: "int \<Rightarrow> chain_tx_db_obj \<Rightarrow> chain_tx_db_obj" where
  "set_ctx_id i r = r\<lparr>ctx_id := i\<rparr>"

definition set_ct_id :: "int \<Rightarrow> chain_transfer_db_obj \<Rightarrow> chain_transfer_db_obj" where
  "set_ct_id i r = r\<lparr>ct_id := i\<rparr>"

definition set_sc_id :: "int \<Rightarrow> scan_dao_db_obj \<Rightarrow> scan_dao_db_obj" where
  "set_sc_id i r = r\<lparr>sc_id := i\<rparr>"

definition set_ti_id :: "int \<Rightarrow> transfer_in_db_obj \<Rightarrow> transfer_in_db_obj" where
  "set_ti_id i r = r\<lparr>ti_id := i\<rparr>"

interpretation txs: entity t_id set_t_id
  by unfold_locales (simp add: set_t_id_def)

interpretation transfers: entity tt_id set_tt_id
  by unfold_locales (simp add: set_tt_id_def)

interpretation allowances: entity al_id set_al_id
  by unfold_locales (simp add: set_al_id_def)

interpretation chain_txs: entity ctx_id set_ctx_id
  by unfold_locales (simp add: set_ctx_id_def)

interpretation chain_transfers: entity ct_id set_ct_id
  by unfold_locales (simp add: set_ct_id_def)

interpretation scans: entity sc_id set_sc_id
  by unfold_locales (simp add: set_sc_id_def)

interpretation transfers_in: entity ti_id set_ti_id
  by unfold_locales (simp add: set_ti_id_def)

end
