(* ===== verification/Database.thy ===== *)
theory Database imports Rows External "HOL-Library.Product_Lexorder" begin

text \<open>
  The database operations of \<open>db/ops/*.rs\<close>: each SQL statement as a function on the tables of
  \<open>Rows\<close>, with the constraints of the schema in \<open>migrations/*.sql\<close>: the foreign keys of
  token_transfer, allowance and chain_transfer (enforced when \<open>d_foreign_keys\<close> is set, which is the
  driver's connection default), the unique indexes of chain_tx and scan_info, and the NOT NULL columns whose
  Rust field is optional. A failing statement changes nothing. \<open>fetch_one\<close> on an empty result is
  \<open>RowNotFound\<close>. Rows without an ORDER BY come in rowid order.
\<close>

record db =
  d_tx :: "tx_db_obj tbl"
  d_token_transfer :: "token_transfer_db_obj tbl"
  d_allowance :: "allowance_db_obj tbl"
  d_chain_tx :: "chain_tx_db_obj tbl"
  d_chain_transfer :: "chain_transfer_db_obj tbl"
  d_scan_info :: "scan_dao_db_obj tbl"
  d_transfer_in :: "transfer_in_db_obj tbl"
  d_foreign_keys :: bool

definition db_empty :: db where
  "db_empty = \<lparr>d_tx = tbl_empty, d_token_transfer = tbl_empty, d_allowance = tbl_empty,
     d_chain_tx = tbl_empty, d_chain_transfer = tbl_empty, d_scan_info = tbl_empty,
     d_transfer_in = tbl_empty, d_foreign_keys = True\<rparr>"

type_synonym 'a dbp = "(db, sql_error, 'a) prog"

definition sql_limit :: "int \<Rightarrow> 'a list \<Rightarrow> 'a list" where
  "sql_limit n xs = (if n < 0 then xs else take (nat n) xs)"

definition limit_opt :: "i64 option \<Rightarrow> 'a list \<Rightarrow> 'a list" where
  "limit_opt l xs = sql_limit (case l of Some n \<Rightarrow> n | None \<Rightarrow> 2 ^ 63 - 1) xs"

definition fetch_one :: "'a option \<Rightarrow> 'a dbp" where
  "fetch_one r = require RowNotFound r"

definition sql_max :: "int list \<Rightarrow> int option" where
  "sql_max xs = (if xs = [] then None else Some (Max (set xs)))"

text \<open>Whether a reference satisfies the foreign key on tx.\<close>

definition fk_tx :: "db \<Rightarrow> i64 option \<Rightarrow> bool" where
  "fk_tx d r = (case r of None \<Rightarrow> True
     | Some i \<Rightarrow> d_foreign_keys d \<longrightarrow> list_ex (\<lambda>t. t_id t = i) (tb_rows (d_tx d)))"

definition fk_chain_tx :: "db \<Rightarrow> i64 \<Rightarrow> bool" where
  "fk_chain_tx d i = (d_foreign_keys d \<longrightarrow> list_ex (\<lambda>t. ctx_id t = i) (tb_rows (d_chain_tx d)))"

definition constrained :: "(db \<Rightarrow> bool) \<Rightarrow> sql_error \<Rightarrow> 'a dbp \<Rightarrow> 'a dbp" where
  "constrained P e m d = (if P d then m d else (Inl e, d))"

section \<open>Table tx (\<open>tx_ops.rs\<close>)\<close>

definition filter_queued :: "tx_db_obj \<Rightarrow> bool" where
  "filter_queued t \<longleftrightarrow> t_processing t > 0 \<and> t_first_processed t = None"

definition filter_processing :: "tx_db_obj \<Rightarrow> bool" where
  "filter_processing t \<longleftrightarrow> t_processing t > 0 \<and> t_first_processed t \<noteq> None"

definition filter_to_process :: "tx_db_obj \<Rightarrow> bool" where
  "filter_to_process t \<longleftrightarrow> t_processing t > 0"

definition filter_all :: "tx_db_obj \<Rightarrow> bool" where
  "filter_all t \<longleftrightarrow> t_id t \<ge> 0"

definition filter_done :: "tx_db_obj \<Rightarrow> bool" where
  "filter_done t \<longleftrightarrow> t_processing t = 0"

text \<open>The ORDER BY clauses the code passes; NULL is the smallest value, hence last in DESC.\<close>

datatype tx_order = IdDesc | IdAndReplacementId | CreateDate | FirstProcessedDateDesc

definition desc_key :: "int option \<Rightarrow> int \<times> int" where
  "desc_key x = (case x of Some i \<Rightarrow> (0, - i) | None \<Rightarrow> (1, 0))"

definition order_key :: "tx_order \<Rightarrow> tx_db_obj \<Rightarrow> (int \<times> int) \<times> int" where
  "order_key ord t = (case ord of
       IdDesc \<Rightarrow> ((0, - t_id t), 0)
     | IdAndReplacementId \<Rightarrow> (desc_key (t_orig_tx_id t), t_id t)
     | CreateDate \<Rightarrow> ((0, t_created_date t), 0)
     | FirstProcessedDateDesc \<Rightarrow> (desc_key (t_first_processed t), 0))"

definition order_by :: "tx_order \<Rightarrow> tx_db_obj list \<Rightarrow> tx_db_obj list" where
  "order_by ord rs = sort_key (order_key ord) rs"

definition get_next_transaction :: "i64 \<Rightarrow> string \<Rightarrow> tx_db_obj option dbp" where
  "get_next_transaction chain_id account = gets (\<lambda>d.
     case sort_key t_id (tbl_select (\<lambda>t. t_chain_id t = chain_id \<and> t_from_addr t = account \<and>
            t_processing t > 0 \<and> t_first_processed t = None) (d_tx d)) of
       [] \<Rightarrow> None | t # _ \<Rightarrow> Some t)"

definition get_transactions ::
    "externals \<Rightarrow> address option \<Rightarrow> (tx_db_obj \<Rightarrow> bool) option \<Rightarrow> i64 option \<Rightarrow> tx_order option \<Rightarrow>
     i64 option \<Rightarrow> tx_db_obj list dbp" where
  "get_transactions E account flt limit ord chain_id = gets (\<lambda>d.
     limit_opt limit (order_by (case ord of Some o' \<Rightarrow> o' | None \<Rightarrow> IdDesc)
       (tbl_select (\<lambda>t.
          (case chain_id of Some c \<Rightarrow> t_chain_id t = c | None \<Rightarrow> True) \<and>
          (case account of Some a \<Rightarrow> t_from_addr t = str_of_addr E a | None \<Rightarrow> True) \<and>
          (case flt of Some f \<Rightarrow> f t | None \<Rightarrow> filter_all t)) (d_tx d))))"

definition get_transaction :: "i64 \<Rightarrow> tx_db_obj dbp" where
  "get_transaction tx_id = bindM (gets (\<lambda>d. tbl_find t_id tx_id (d_tx d))) fetch_one"

definition get_last_unsent_tx :: "i64 \<Rightarrow> tx_db_obj option dbp" where
  "get_last_unsent_tx tx_id = gets (\<lambda>d.
     case sort_key (\<lambda>t. - t_id t) (tbl_select (\<lambda>t. t_broadcast_date t = None \<and> t_signed_date t = None) (d_tx d)) of
       [] \<Rightarrow> None | t # _ \<Rightarrow> Some t)"

text \<open>The loop follows orig_tx_id; it is run with fuel because rows may form a cycle.\<close>

fun get_transaction_chain :: "nat \<Rightarrow> i64 \<Rightarrow> db \<Rightarrow> (sql_error + tx_db_obj list) option" where
  "get_transaction_chain 0 current_id d = None"
| "get_transaction_chain (Suc fuel) current_id d = (case tbl_find t_id current_id (d_tx d) of
       None \<Rightarrow> Some (Inl RowNotFound)
     | Some row \<Rightarrow> (case t_orig_tx_id row of
           None \<Rightarrow> Some (Inr [row])
         | Some o' \<Rightarrow> (case get_transaction_chain fuel o' d of
               None \<Rightarrow> None
             | Some (Inl e) \<Rightarrow> Some (Inl e)
             | Some (Inr rest) \<Rightarrow> Some (Inr (row # rest)))))"

definition delete_tx :: "i64 \<Rightarrow> unit dbp" where
  "delete_tx tx_id = constrained (\<lambda>d. d_foreign_keys d \<longrightarrow>
        \<not> list_ex (\<lambda>r. tt_tx_id r = Some tx_id) (tb_rows (d_token_transfer d)) \<and>
        \<not> list_ex (\<lambda>r. al_tx_id r = Some tx_id) (tb_rows (d_allowance d)) \<or>
        \<not> list_ex (\<lambda>t. t_id t = tx_id) (tb_rows (d_tx d)))
     ForeignKeyViolation
     (modify (\<lambda>d. d\<lparr>d_tx := tbl_delete_where (\<lambda>t. t_id t = tx_id) (d_tx d)\<rparr>))"

definition get_transaction_highest_block :: "i64 \<Rightarrow> string \<Rightarrow> i64 option dbp" where
  "get_transaction_highest_block chain_id from_addr = gets (\<lambda>d.
     sql_max (List.map_filter t_block_number (tbl_select (\<lambda>t. t_confirm_date t \<noteq> None \<and>
        t_chain_id t = chain_id \<and> t_from_addr t = from_addr) (d_tx d))))"

definition get_transaction_highest_nonce :: "i64 \<Rightarrow> string \<Rightarrow> i64 option dbp" where
  "get_transaction_highest_nonce chain_id from_addr = gets (\<lambda>d.
     sql_max (List.map_filter t_nonce (tbl_select (\<lambda>t. t_confirm_date t \<noteq> None \<and>
        t_chain_id t = chain_id \<and> t_from_addr t = from_addr) (d_tx d))))"

definition get_transaction_count :: "(tx_db_obj \<Rightarrow> bool) option \<Rightarrow> nat dbp" where
  "get_transaction_count flt = gets (\<lambda>d.
     length (tbl_select (case flt of Some f \<Rightarrow> f | None \<Rightarrow> filter_all) (d_tx d)))"

definition get_next_transactions_to_process ::
    "externals \<Rightarrow> address option \<Rightarrow> i64 \<Rightarrow> i64 \<Rightarrow> tx_db_obj list dbp" where
  "get_next_transactions_to_process E account limit chain_id =
     get_transactions E account (Some filter_to_process) (Some limit) (Some IdAndReplacementId) (Some chain_id)"

definition update_tx_where :: "i64 \<Rightarrow> (tx_db_obj \<Rightarrow> tx_db_obj) \<Rightarrow> db \<Rightarrow> db" where
  "update_tx_where i f d = d\<lparr>d_tx := tbl_update_where (\<lambda>t. t_id t = i) f (d_tx d)\<rparr>"

definition force_tx_error :: "tx_db_obj \<Rightarrow> unit dbp" where
  "force_tx_error tx = modify (update_tx_where (t_id tx) (\<lambda>t. t\<lparr>t_error := Some ''forced error''\<rparr>))"

definition insert_tx :: "tx_db_obj \<Rightarrow> tx_db_obj dbp" where
  "insert_tx tx d = (case tbl_insert set_t_id (tx_row tx) (d_tx d) of
     (row, t) \<Rightarrow> (Inr row, d\<lparr>d_tx := t\<rparr>))"

definition update_processing_and_first_processed_tx :: "tx_db_obj \<Rightarrow> tx_db_obj dbp" where
  "update_processing_and_first_processed_tx tx = bindM (modify (update_tx_where (t_id tx)
      (\<lambda>t. t\<lparr>t_processing := t_processing tx, t_first_processed := t_first_processed tx\<rparr>)))
     (\<lambda>_. ret tx)"

definition update_tx :: "tx_db_obj \<Rightarrow> tx_db_obj dbp" where
  "update_tx tx = bindM (modify (update_tx_where (t_id tx) (\<lambda>t. tx_row tx))) (\<lambda>_. ret tx)"

definition update_tx_stuck_date :: "tx_db_obj \<Rightarrow> tx_db_obj dbp" where
  "update_tx_stuck_date tx = bindM (modify (update_tx_where (t_id tx)
      (\<lambda>t. t\<lparr>t_first_stuck_date := t_first_stuck_date tx\<rparr>))) (\<lambda>_. ret tx)"

section \<open>Table token_transfer (\<open>token_transfer_ops.rs\<close>)\<close>

definition check_if_deposit_closed :: "i64 \<Rightarrow> string \<Rightarrow> bool dbp" where
  "check_if_deposit_closed chain_id deposit_id = gets (\<lambda>d.
     length (tbl_select (\<lambda>t. tt_chain_id t = chain_id \<and> tt_deposit_id t = Some deposit_id \<and>
       tt_deposit_finish t = 1) (d_token_transfer d)) > 0)"

text \<open>create_date is the current time, whatever the row says.\<close>

definition insert_token_transfer :: "timestamp \<Rightarrow> token_transfer_db_obj \<Rightarrow> token_transfer_db_obj dbp" where
  "insert_token_transfer now tt = constrained (\<lambda>d. fk_tx d (tt_tx_id tt)) ForeignKeyViolation
     (\<lambda>d. case tbl_insert set_tt_id (tt\<lparr>tt_create_date := now\<rparr>) (d_token_transfer d) of
        (row, t) \<Rightarrow> (Inr row, d\<lparr>d_token_transfer := t\<rparr>))"

definition insert_token_transfer_with_deposit_check ::
    "timestamp \<Rightarrow> token_transfer_db_obj \<Rightarrow> (db, failure, token_transfer_db_obj) prog" where
  "insert_token_transfer_with_deposit_check now tt =
     (case tt_deposit_id tt of
        Some deposit_id \<Rightarrow> atomically
          (bindM (sqlx (check_if_deposit_closed (tt_chain_id tt) deposit_id)) (\<lambda>is_finished.
             if is_finished
             then throw (err_custom ''Cannot add token_transfer to already finished deposit'')
             else sqlx (insert_token_transfer now tt)))
      | None \<Rightarrow> sqlx (insert_token_transfer now tt))"

definition update_tt_where ::
    "(token_transfer_db_obj \<Rightarrow> bool) \<Rightarrow> (token_transfer_db_obj \<Rightarrow> token_transfer_db_obj) \<Rightarrow> db \<Rightarrow> db" where
  "update_tt_where P f d = d\<lparr>d_token_transfer := tbl_update_where P f (d_token_transfer d)\<rparr>"

definition remap_token_transfer_tx :: "i64 \<Rightarrow> i64 \<Rightarrow> unit dbp" where
  "remap_token_transfer_tx old_tx_id new_tx_id =
     constrained (\<lambda>d. fk_tx d (Some new_tx_id) \<or>
         \<not> list_ex (\<lambda>t. tt_tx_id t = Some old_tx_id) (tb_rows (d_token_transfer d))) ForeignKeyViolation
       (modify (update_tt_where (\<lambda>t. tt_tx_id t = Some old_tx_id) (\<lambda>t. t\<lparr>tt_tx_id := Some new_tx_id\<rparr>)))"

definition cleanup_token_transfer_tx :: "i64 \<Rightarrow> unit dbp" where
  "cleanup_token_transfer_tx tx_id = modify (update_tt_where (\<lambda>t. tt_tx_id t = Some tx_id)
     (\<lambda>t. t\<lparr>tt_tx_id := None, tt_fee_paid := None, tt_error := None, tt_paid_date := None\<rparr>))"

definition update_token_transfer :: "token_transfer_db_obj \<Rightarrow> token_transfer_db_obj dbp" where
  "update_token_transfer tt =
     constrained (\<lambda>d. fk_tx d (tt_tx_id tt) \<or>
         \<not> list_ex (\<lambda>t. tt_id t = tt_id tt) (tb_rows (d_token_transfer d))) ForeignKeyViolation
       (bindM (modify (update_tt_where (\<lambda>t. tt_id t = tt_id tt)
          (\<lambda>t. tt\<lparr>tt_create_date := tt_create_date t\<rparr>))) (\<lambda>_. ret tt))"

definition by_id_desc :: "('a \<Rightarrow> int) \<Rightarrow> 'a list \<Rightarrow> 'a list" where
  "by_id_desc get_id rs = sort_key (\<lambda>r. - get_id r) rs"

definition get_all_token_transfers :: "i64 option \<Rightarrow> token_transfer_db_obj list dbp" where
  "get_all_token_transfers limit = gets (\<lambda>d.
     limit_opt limit (by_id_desc tt_id (tb_rows (d_token_transfer d))))"

definition get_token_transfers_by_chain_id :: "i64 \<Rightarrow> i64 option \<Rightarrow> token_transfer_db_obj list dbp" where
  "get_token_transfers_by_chain_id chain_id limit = gets (\<lambda>d.
     limit_opt limit (by_id_desc tt_id (tbl_select (\<lambda>t. tt_chain_id t = chain_id) (d_token_transfer d))))"

definition get_token_transfers_by_deposit_id :: "i64 \<Rightarrow> string \<Rightarrow> token_transfer_db_obj list dbp" where
  "get_token_transfers_by_deposit_id chain_id deposit_id = gets (\<lambda>d.
     by_id_desc tt_id (tbl_select (\<lambda>t. tt_chain_id t = chain_id \<and> tt_deposit_id t = Some deposit_id)
       (d_token_transfer d)))"

definition get_pending_token_transfers ::
    "externals \<Rightarrow> address \<Rightarrow> i64 \<Rightarrow> token_transfer_db_obj list dbp" where
  "get_pending_token_transfers E account chain_id = gets (\<lambda>d.
     sort_key tt_id (tbl_select (\<lambda>t. tt_tx_id t = None \<and> tt_error t = None \<and>
       tt_from_addr t = str_of_addr E account \<and> tt_chain_id t = chain_id) (d_token_transfer d)))"

definition get_unpaid_token_transfers ::
    "externals \<Rightarrow> i64 \<Rightarrow> address \<Rightarrow> token_transfer_db_obj list dbp" where
  "get_unpaid_token_transfers E chain_id sender = gets (\<lambda>d.
     tbl_select (\<lambda>t. tt_fee_paid t = None \<and> tt_chain_id t = chain_id \<and>
       tt_from_addr t = str_of_addr E sender) (d_token_transfer d))"

definition get_token_transfers_by_tx :: "i64 \<Rightarrow> token_transfer_db_obj list dbp" where
  "get_token_transfers_by_tx tx_id = gets (\<lambda>d.
     tbl_select (\<lambda>t. tt_tx_id t = Some tx_id) (d_token_transfer d))"

definition transfer_filter_all :: "token_transfer_db_obj \<Rightarrow> bool" where
  "transfer_filter_all t \<longleftrightarrow> tt_id t \<ge> 0"

definition transfer_filter_queued :: "token_transfer_db_obj \<Rightarrow> bool" where
  "transfer_filter_queued t \<longleftrightarrow> tt_tx_id t = None \<and> tt_error t = None"

definition transfer_filter_processing :: "token_transfer_db_obj \<Rightarrow> bool" where
  "transfer_filter_processing t \<longleftrightarrow> tt_tx_id t \<noteq> None \<and> tt_fee_paid t = None"

definition transfer_filter_done :: "token_transfer_db_obj \<Rightarrow> bool" where
  "transfer_filter_done t \<longleftrightarrow> tt_fee_paid t \<noteq> None"

definition get_transfer_count ::
    "(token_transfer_db_obj \<Rightarrow> bool) option \<Rightarrow> string option \<Rightarrow> string option \<Rightarrow> nat dbp" where
  "get_transfer_count flt sender receiver = gets (\<lambda>d.
     length (tbl_select (\<lambda>t.
       (case flt of Some f \<Rightarrow> f t | None \<Rightarrow> transfer_filter_all t) \<and>
       (case sender of Some s \<Rightarrow> tt_from_addr t = s
        | None \<Rightarrow> (case receiver of Some r \<Rightarrow> tt_receiver_addr t = r | None \<Rightarrow> True)))
       (d_token_transfer d)))"

section \<open>Table allowance (\<open>allowance_ops.rs\<close>)\<close>

definition insert_allowance :: "allowance_db_obj \<Rightarrow> allowance_db_obj dbp" where
  "insert_allowance al = constrained (\<lambda>d. fk_tx d (al_tx_id al)) ForeignKeyViolation
     (\<lambda>d. case tbl_insert set_al_id al (d_allowance d) of
        (row, t) \<Rightarrow> (Inr row, d\<lparr>d_allowance := t\<rparr>))"

definition update_al_where ::
    "(allowance_db_obj \<Rightarrow> bool) \<Rightarrow> (allowance_db_obj \<Rightarrow> allowance_db_obj) \<Rightarrow> db \<Rightarrow> db" where
  "update_al_where P f d = d\<lparr>d_allowance := tbl_update_where P f (d_allowance d)\<rparr>"

definition update_allowance :: "allowance_db_obj \<Rightarrow> unit dbp" where
  "update_allowance al =
     constrained (\<lambda>d. fk_tx d (al_tx_id al) \<or>
         \<not> list_ex (\<lambda>a. al_id a = al_id al) (tb_rows (d_allowance d))) ForeignKeyViolation
       (modify (update_al_where (\<lambda>a. al_id a = al_id al) (\<lambda>_. al)))"

definition get_all_allowances :: "allowance_db_obj list dbp" where
  "get_all_allowances = gets (\<lambda>d. tb_rows (d_allowance d))"

definition get_allowance_by_tx :: "i64 \<Rightarrow> allowance_db_obj dbp" where
  "get_allowance_by_tx tx_id = bindM (gets (\<lambda>d.
     find (\<lambda>a. al_tx_id a = Some tx_id) (tb_rows (d_allowance d)))) fetch_one"

definition find_allowance :: "string \<Rightarrow> string \<Rightarrow> string \<Rightarrow> i64 \<Rightarrow> allowance_db_obj option dbp" where
  "find_allowance owner token_addr spender chain_id = gets (\<lambda>d.
     find (\<lambda>a. al_owner a = owner \<and> al_token_addr a = token_addr \<and> al_spender a = spender \<and>
       al_chain_id a = chain_id) (tb_rows (d_allowance d)))"

definition get_allowances_by_owner :: "string \<Rightarrow> allowance_db_obj list dbp" where
  "get_allowances_by_owner owner = gets (\<lambda>d. tbl_select (\<lambda>a. al_owner a = owner) (d_allowance d))"

definition remap_allowance_tx :: "i64 \<Rightarrow> i64 \<Rightarrow> unit dbp" where
  "remap_allowance_tx old_tx_id new_tx_id =
     constrained (\<lambda>d. fk_tx d (Some new_tx_id) \<or>
         \<not> list_ex (\<lambda>a. al_tx_id a = Some old_tx_id) (tb_rows (d_allowance d))) ForeignKeyViolation
       (modify (update_al_where (\<lambda>a. al_tx_id a = Some old_tx_id) (\<lambda>a. a\<lparr>al_tx_id := Some new_tx_id\<rparr>)))"

definition cleanup_allowance_tx :: "i64 \<Rightarrow> unit dbp" where
  "cleanup_allowance_tx tx_id = modify (update_al_where (\<lambda>a. al_tx_id a = Some tx_id)
     (\<lambda>a. a\<lparr>al_tx_id := None, al_fee_paid := None, al_error := None, al_confirm_date := None\<rparr>))"

end
