(* ===== verification/ChainTables.thy ===== *)
theory ChainTables imports Database begin

text \<open>
  The operations on the tables chain_tx, chain_transfer, scan_info and transfer_in
  (\<open>chain_tx_ops.rs\<close>, \<open>chain_transfer_ops.rs\<close>, \<open>scan_ops.rs\<close>, \<open>transfer_in_ops.rs\<close>).
\<close>

section \<open>Table chain_tx\<close>

definition chain_tx_row :: "chain_tx_db_obj \<Rightarrow> chain_tx_db_obj" where
  "chain_tx_row tx = tx\<lparr>ctx_engine_message := None, ctx_engine_error := None\<rparr>"

definition insert_chain_tx :: "chain_tx_db_obj \<Rightarrow> chain_tx_db_obj dbp" where
  "insert_chain_tx tx =
     constrained (\<lambda>d. \<not> list_ex (\<lambda>t. ctx_tx_hash t = ctx_tx_hash tx) (tb_rows (d_chain_tx d))) UniqueViolation
       (\<lambda>d. case tbl_insert set_ctx_id (chain_tx_row tx) (d_chain_tx d) of
          (row, t) \<Rightarrow> (Inr row, d\<lparr>d_chain_tx := t\<rparr>))"

definition get_chain_txs_by_chain_id :: "i64 \<Rightarrow> i64 option \<Rightarrow> chain_tx_db_obj list dbp" where
  "get_chain_txs_by_chain_id chain_id limit = gets (\<lambda>d.
     limit_opt limit (by_id_desc ctx_id (tbl_select (\<lambda>t. ctx_chain_id t = chain_id) (d_chain_tx d))))"

definition get_chain_txs_by_chain_id_and_dates ::
    "i64 \<Rightarrow> timestamp \<Rightarrow> timestamp \<Rightarrow> i64 option \<Rightarrow> chain_tx_db_obj list dbp" where
  "get_chain_txs_by_chain_id_and_dates chain_id from_date to_date limit = gets (\<lambda>d.
     limit_opt limit (by_id_desc ctx_id (tbl_select (\<lambda>t. ctx_chain_id t = chain_id \<and>
       ctx_blockchain_date t \<ge> from_date \<and> ctx_blockchain_date t \<le> to_date) (d_chain_tx d))))"

definition get_chain_tx :: "i64 \<Rightarrow> chain_tx_db_obj dbp" where
  "get_chain_tx i = bindM (gets (\<lambda>d. tbl_find ctx_id i (d_chain_tx d))) fetch_one"

definition get_chain_tx_hash :: "string \<Rightarrow> chain_tx_db_obj option dbp" where
  "get_chain_tx_hash tx_hash = gets (\<lambda>d.
     find (\<lambda>t. ctx_tx_hash t = tx_hash) (tb_rows (d_chain_tx d)))"

text \<open>
  MAX over no rows is one row with NULL, which is then decoded as a plain i64: \<open>decode_null\<close> is
  what the driver crate makes of it.
\<close>

definition get_last_scanned_block :: "(sql_error + i64) \<Rightarrow> i64 \<Rightarrow> i64 option dbp" where
  "get_last_scanned_block decode_null chain_id = bindM (gets (\<lambda>d.
       sql_max (map ctx_block_number (tbl_select (\<lambda>t. ctx_chain_id t = chain_id) (d_chain_tx d)))))
     (\<lambda>m. case m of Some b \<Rightarrow> ret (Some b)
        | None \<Rightarrow> (case decode_null of Inl e \<Rightarrow> throw e | Inr b \<Rightarrow> ret (Some b)))"

section \<open>Table chain_transfer\<close>

definition insert_chain_transfer :: "chain_transfer_db_obj \<Rightarrow> chain_transfer_db_obj dbp" where
  "insert_chain_transfer ct =
     constrained (\<lambda>d. ct_fee_paid ct \<noteq> None \<and> ct_blockchain_date ct \<noteq> None) NotNullViolation
       (constrained (\<lambda>d. fk_chain_tx d (ct_chain_tx_id ct)) ForeignKeyViolation
          (\<lambda>d. case tbl_insert set_ct_id ct (d_chain_transfer d) of
             (row, t) \<Rightarrow> (Inr row, d\<lparr>d_chain_transfer := t\<rparr>)))"

definition date_between :: "timestamp \<Rightarrow> timestamp \<Rightarrow> timestamp option \<Rightarrow> bool" where
  "date_between a b x = (case x of None \<Rightarrow> False | Some t \<Rightarrow> a \<le> t \<and> t \<le> b)"

definition get_all_chain_transfers ::
    "i64 \<Rightarrow> timestamp \<Rightarrow> timestamp \<Rightarrow> i64 option \<Rightarrow> chain_transfer_db_obj list dbp" where
  "get_all_chain_transfers chain_id from_date to_date limit = gets (\<lambda>d.
     limit_opt limit (by_id_desc ct_id (tbl_select (\<lambda>t. ct_chain_id t = chain_id \<and>
       date_between from_date to_date (ct_blockchain_date t)) (d_chain_transfer d))))"

definition join_chain_tx :: "db \<Rightarrow> chain_transfer_db_obj \<Rightarrow> chain_transfer_db_obj_ext option" where
  "join_chain_tx d ct = map_option (\<lambda>cx. chain_transfer_db_obj.extend ct
       (chain_transfer_db_obj_ext.fields (ctx_tx_hash cx) (ctx_block_number cx) (ctx_to_addr cx) (ctx_from_addr cx)))
     (tbl_find ctx_id (ct_chain_tx_id ct) (d_chain_tx d))"

definition get_all_chain_transfers_ext ::
    "i64 \<Rightarrow> timestamp \<Rightarrow> timestamp \<Rightarrow> i64 option \<Rightarrow> chain_transfer_db_obj_ext list dbp" where
  "get_all_chain_transfers_ext chain_id from_date to_date limit = gets (\<lambda>d.
     limit_opt limit (by_id_desc ct_id (List.map_filter (join_chain_tx d)
       (tbl_select (\<lambda>t. ct_chain_id t = chain_id \<and> date_between from_date to_date (ct_blockchain_date t))
         (d_chain_transfer d)))))"

definition get_all_chain_transfers_by_receiver_ext ::
    "i64 \<Rightarrow> timestamp \<Rightarrow> timestamp \<Rightarrow> string \<Rightarrow> i64 option \<Rightarrow> chain_transfer_db_obj_ext list dbp" where
  "get_all_chain_transfers_by_receiver_ext chain_id from_date to_date receiver limit = gets (\<lambda>d.
     limit_opt limit (by_id_desc ct_id (List.map_filter (join_chain_tx d)
       (tbl_select (\<lambda>t. ct_chain_id t = chain_id \<and> date_between from_date to_date (ct_blockchain_date t)
          \<and> ct_receiver_addr t = receiver) (d_chain_transfer d)))))"

definition get_chain_transfers_by_chain_id :: "i64 \<Rightarrow> i64 option \<Rightarrow> chain_transfer_db_obj list dbp" where
  "get_chain_transfers_by_chain_id chain_id limit = gets (\<lambda>d.
     limit_opt limit (by_id_desc ct_id (tbl_select (\<lambda>t. ct_chain_id t = chain_id) (d_chain_transfer d))))"

section \<open>Table scan_info\<close>

definition get_scan_info :: "i64 \<Rightarrow> string \<Rightarrow> scan_dao_db_obj option dbp" where
  "get_scan_info chain_id flt = gets (\<lambda>d.
     find (\<lambda>s. sc_chain_id s = chain_id \<and> sc_filter s = flt) (tb_rows (d_scan_info d)))"

definition delete_scan_info :: "i64 \<Rightarrow> string \<Rightarrow> unit dbp" where
  "delete_scan_info chain_id flt = modify (\<lambda>d.
     d\<lparr>d_scan_info := tbl_delete_where (\<lambda>s. sc_chain_id s = chain_id \<and> sc_filter s = flt) (d_scan_info d)\<rparr>)"

text \<open>INSERT OR REPLACE: a row with the same unique key is deleted, the new row gets a new id.\<close>

definition upsert_scan_info :: "scan_dao_db_obj \<Rightarrow> scan_dao_db_obj dbp" where
  "upsert_scan_info s d =
     (case tbl_insert set_sc_id s (tbl_delete_where
        (\<lambda>r. sc_chain_id r = sc_chain_id s \<and> sc_filter r = sc_filter s) (d_scan_info d)) of
        (row, t) \<Rightarrow> (Inr row, d\<lparr>d_scan_info := t\<rparr>))"

section \<open>Table transfer_in\<close>

definition insert_transfer_in :: "transfer_in_db_obj \<Rightarrow> transfer_in_db_obj dbp" where
  "insert_transfer_in ti d = (case tbl_insert set_ti_id ti (d_transfer_in d) of
     (row, t) \<Rightarrow> (Inr row, d\<lparr>d_transfer_in := t\<rparr>))"

text \<open>
  The statement updates the table token_transfer, which lacks the columns tx_hash, requested_date
  and received_date, and has a comma before WHERE: SQLite rejects it when it is prepared.
\<close>

definition update_transfer_in :: "transfer_in_db_obj \<Rightarrow> transfer_in_db_obj dbp" where
  "update_transfer_in ti = throw SqlSyntaxError"

definition get_account_transfers_in :: "string \<Rightarrow> i64 option \<Rightarrow> transfer_in_db_obj list dbp" where
  "get_account_transfers_in account limit = gets (\<lambda>d.
     limit_opt limit (sort_key (\<lambda>t. - ti_requested_date t)
       (tbl_select (\<lambda>t. ti_receiver_addr t = account) (d_transfer_in d))))"

definition get_all_transfers_in :: "i64 option \<Rightarrow> transfer_in_db_obj list dbp" where
  "get_all_transfers_in limit = gets (\<lambda>d. limit_opt limit (by_id_desc ti_id (tb_rows (d_transfer_in d))))"

section \<open>The scan position\<close>

text \<open>At most one row per chain and filter, as the unique index demands.\<close>

definition scan_unique :: "db \<Rightarrow> bool" where
  "scan_unique d \<longleftrightarrow> distinct (map (\<lambda>s. (sc_chain_id s, sc_filter s)) (tb_rows (d_scan_info d)))"

lemma preserves_constrained [preserves_intro]: "preserves I m \<Longrightarrow> preserves I (constrained P e m)"
  by (simp add: preserves_def constrained_def)

lemma scan_unique_upsert: "preserves scan_unique (upsert_scan_info s)"
  by (rule preservesI) (auto simp: scan_unique_def upsert_scan_info_def tbl_insert_def Let_def
      tbl_delete_where_def set_sc_id_def distinct_map_filter)

lemma scan_unique_delete: "preserves scan_unique (delete_scan_info c f)"
  by (rule preservesI)
    (simp add: scan_unique_def delete_scan_info_def tbl_delete_where_def distinct_map_filter)

text \<open>A scan position that is stored is what the next lookup of the same chain and filter finds,
  under a new id, every other position is unchanged, and no key is stored twice.\<close>

theorem upsert_get_scan_info:
  assumes "upsert_scan_info s d = (r, d')" and "scan_unique d"
  shows "scan_unique d' \<and> (\<exists>row. r = Inr row \<and> sc_id row = tb_seq (d_scan_info d) + 1 \<and>
      sc_start_block row = sc_start_block s \<and> sc_last_block row = sc_last_block s \<and>
      fst (get_scan_info (sc_chain_id s) (sc_filter s) d') = Inr (Some row)) \<and>
    ((c, f) \<noteq> (sc_chain_id s, sc_filter s) \<longrightarrow> fst (get_scan_info c f d') = fst (get_scan_info c f d))"
proof -
  let ?K = "\<lambda>r. sc_chain_id r = sc_chain_id s \<and> sc_filter r = sc_filter s"
  let ?row = "set_sc_id (tb_seq (d_scan_info d) + 1) s"
  let ?rows = "filter (\<lambda>r. \<not> ?K r) (tb_rows (d_scan_info d))"
  have r: "r = Inr ?row" "tb_rows (d_scan_info d') = ?rows @ [?row]"
    using assms(1) by (auto simp: upsert_scan_info_def tbl_insert_def tbl_delete_where_def Let_def)
  have "find ?K ?rows = None" by (simp add: find_None_iff)
  then have hit: "find ?K (?rows @ [?row]) = Some ?row" by (simp add: find_append set_sc_id_def)
  have "find (\<lambda>r. sc_chain_id r = c \<and> sc_filter r = f) (filter (\<lambda>r. \<not> ?K r) rs @ [?row]) =
      find (\<lambda>r. sc_chain_id r = c \<and> sc_filter r = f) rs"
    if "(c, f) \<noteq> (sc_chain_id s, sc_filter s)" for rs
    using that by (induction rs) (auto simp: set_sc_id_def)
  then have miss: "(c, f) \<noteq> (sc_chain_id s, sc_filter s) \<Longrightarrow>
      fst (get_scan_info c f d') = fst (get_scan_info c f d)"
    unfolding get_scan_info_def gets_apply fst_conv r(2) by blast
  have "scan_unique d'" using assms scan_unique_upsert preservesD by metis
  moreover have "fst (get_scan_info (sc_chain_id s) (sc_filter s) d') = Inr (Some ?row)"
    by (simp only: get_scan_info_def gets_apply fst_conv r hit)
  moreover have "sc_id ?row = tb_seq (d_scan_info d) + 1" "sc_start_block ?row = sc_start_block s"
    "sc_last_block ?row = sc_last_block s" by (simp_all add: set_sc_id_def)
  ultimately show ?thesis using r(1) miss by blast
qed

theorem upsert_get_scan_info_witness:
  "\<exists>row. fst (get_scan_info 1 ''f'' (snd (upsert_scan_info
     \<lparr>sc_id = 0, sc_chain_id = 1, sc_filter = ''f'', sc_start_block = 5, sc_last_block = 9\<rparr> db_empty)))
     = Inr (Some row) \<and> sc_id row = 1 \<and> sc_last_block row = 9"
  using upsert_get_scan_info [of "\<lparr>sc_id = 0, sc_chain_id = 1, sc_filter = ''f'', sc_start_block = 5,
      sc_last_block = 9\<rparr>" db_empty, OF surjective_pairing]
  by (auto simp: scan_unique_def db_empty_def tbl_empty_def)

end
