(* ===== verification/Integrity.thy ===== *)
theory Integrity imports ChainTables begin

text \<open>
  Referential integrity of the database: primary keys are unique and no token transfer, allowance or
  chain transfer refers to a row that is missing. Every database operation keeps it, on success and
  on failure, which is what lets the handlers delete and remap transactions safely.
\<close>

definition fk_ok :: "db \<Rightarrow> bool" where
  "fk_ok d \<longleftrightarrow>
     list_all (\<lambda>t. set_option (tt_tx_id t) \<subseteq> tbl_ids t_id (d_tx d)) (tb_rows (d_token_transfer d)) \<and>
     list_all (\<lambda>a. set_option (al_tx_id a) \<subseteq> tbl_ids t_id (d_tx d)) (tb_rows (d_allowance d)) \<and>
     list_all (\<lambda>c. ct_chain_tx_id c \<in> tbl_ids ctx_id (d_chain_tx d)) (tb_rows (d_chain_transfer d))"

definition keys_ok :: "db \<Rightarrow> bool" where
  "keys_ok d \<longleftrightarrow> tbl_wf t_id (d_tx d) \<and> tbl_wf tt_id (d_token_transfer d) \<and> tbl_wf al_id (d_allowance d) \<and>
     tbl_wf ctx_id (d_chain_tx d) \<and> tbl_wf ct_id (d_chain_transfer d) \<and> tbl_wf sc_id (d_scan_info d) \<and>
     tbl_wf ti_id (d_transfer_in d)"

definition db_ok :: "db \<Rightarrow> bool" where
  "db_ok d \<longleftrightarrow> d_foreign_keys d \<and> keys_ok d \<and> fk_ok d"

lemma db_ok_empty: "db_ok db_empty"
  by (simp add: db_ok_def keys_ok_def fk_ok_def db_empty_def txs.wf_empty transfers.wf_empty
      allowances.wf_empty chain_txs.wf_empty chain_transfers.wf_empty scans.wf_empty transfers_in.wf_empty)
    (simp add: tbl_empty_def)

lemma fk_tx_iff: "d_foreign_keys d \<Longrightarrow> fk_tx d r \<longleftrightarrow> set_option r \<subseteq> tbl_ids t_id (d_tx d)"
  by (auto simp: fk_tx_def tbl_ids_def list_ex_iff split: option.splits)

lemma fk_chain_tx_iff: "d_foreign_keys d \<Longrightarrow> fk_chain_tx d i \<longleftrightarrow> i \<in> tbl_ids ctx_id (d_chain_tx d)"
  by (auto simp: fk_chain_tx_def tbl_ids_def list_ex_iff)

lemma preserves_constrainedI:
  "(\<And>d. I d \<Longrightarrow> P d \<Longrightarrow> I (snd (m d))) \<Longrightarrow> preserves I (constrained P e m)"
  by (simp add: preserves_def constrained_def)

lemma ok_insert_tx: "preserves db_ok (insert_tx tx)"
proof (rule preservesI)
  fix d assume "db_ok d"
  moreover obtain row t where ins: "tbl_insert set_t_id (tx_row tx) (d_tx d) = (row, t)" by fastforce
  moreover have "tbl_ids t_id t = insert (tb_seq (d_tx d) + 1) (tbl_ids t_id (d_tx d))"
    using txs.ids_insert [of "tx_row tx" "d_tx d"] ins by simp
  moreover have "tbl_wf t_id (d_tx d) \<Longrightarrow> tbl_wf t_id t"
    using txs.wf_insert [of "d_tx d" "tx_row tx"] ins by simp
  ultimately show "db_ok (snd (insert_tx tx d))"
    by (auto simp: insert_tx_def db_ok_def keys_ok_def fk_ok_def list_all_iff split: option.splits)
qed

lemma ok_update_tx_where:
  assumes "\<And>t. t_id t = i \<Longrightarrow> t_id (f t) = i" and "db_ok d"
  shows "db_ok (update_tx_where i f d)"
proof -
  have "tbl_ids t_id (tbl_update_where (\<lambda>t. t_id t = i) f (d_tx d)) = tbl_ids t_id (d_tx d)"
    and "tbl_wf t_id (tbl_update_where (\<lambda>t. t_id t = i) f (d_tx d)) = tbl_wf t_id (d_tx d)"
    using assms(1) by (auto intro!: txs.ids_update txs.wf_update)
  with assms(2) show ?thesis
    by (simp add: update_tx_where_def db_ok_def keys_ok_def fk_ok_def)
qed

lemma ok_update_tx: "preserves db_ok (update_tx tx)"
  unfolding update_tx_def
  by (intro preserves_intro preserves_modify ok_update_tx_where) (simp_all add: tx_row_def)

lemma ok_update_processing: "preserves db_ok (update_processing_and_first_processed_tx tx)"
  unfolding update_processing_and_first_processed_tx_def
  by (intro preserves_intro preserves_modify ok_update_tx_where) simp_all

lemma ok_update_tx_stuck_date: "preserves db_ok (update_tx_stuck_date tx)"
  unfolding update_tx_stuck_date_def
  by (intro preserves_intro preserves_modify ok_update_tx_where) simp_all

lemma ok_force_tx_error: "preserves db_ok (force_tx_error tx)"
  unfolding force_tx_error_def
  by (intro preserves_intro preserves_modify ok_update_tx_where) simp_all

lemma ok_delete_tx: "preserves db_ok (delete_tx i)"
  unfolding delete_tx_def
proof (rule preserves_constrainedI)
  fix d assume ok: "db_ok d" and P: "d_foreign_keys d \<longrightarrow>
     \<not> list_ex (\<lambda>r. tt_tx_id r = Some i) (tb_rows (d_token_transfer d)) \<and>
     \<not> list_ex (\<lambda>r. al_tx_id r = Some i) (tb_rows (d_allowance d)) \<or>
     \<not> list_ex (\<lambda>t. t_id t = i) (tb_rows (d_tx d))"
  have "tbl_wf t_id (tbl_delete_where (\<lambda>t. t_id t = i) (d_tx d))"
    using ok txs.wf_delete by (auto simp: db_ok_def keys_ok_def)
  moreover have "fk_ok (d\<lparr>d_tx := tbl_delete_where (\<lambda>t. t_id t = i) (d_tx d)\<rparr>)"
  proof (cases "list_ex (\<lambda>t. t_id t = i) (tb_rows (d_tx d))")
    case True
    with ok P show ?thesis
      by (force simp: db_ok_def fk_ok_def tbl_ids_delete list_all_iff list_ex_iff split: option.splits)
  next
    case False
    then have "i \<notin> tbl_ids t_id (d_tx d)" by (auto simp: list_ex_iff tbl_ids_def)
    with ok show ?thesis by (simp add: db_ok_def fk_ok_def tbl_ids_delete)
  qed
  ultimately show "db_ok (snd (modify (\<lambda>d. d\<lparr>d_tx := tbl_delete_where (\<lambda>t. t_id t = i) (d_tx d)\<rparr>) d))"
    using ok by (simp add: db_ok_def keys_ok_def)
qed

lemma ok_update_tt_where:
  assumes "\<And>t. P t \<Longrightarrow> tt_id (f t) = tt_id t" and "db_ok d"
    and "\<And>t. t \<in> set (tb_rows (d_token_transfer d)) \<Longrightarrow> P t \<Longrightarrow>
      set_option (tt_tx_id (f t)) \<subseteq> tbl_ids t_id (d_tx d)"
  shows "db_ok (update_tt_where P f d)"
proof -
  have "tbl_wf tt_id (tbl_update_where P f (d_token_transfer d)) = tbl_wf tt_id (d_token_transfer d)"
    using assms(1) by (rule transfers.wf_update)
  with assms(2,3) show ?thesis
    by (auto simp: update_tt_where_def db_ok_def keys_ok_def fk_ok_def list_all_iff tbl_update_where_def)
qed

lemma ok_update_al_where:
  assumes "\<And>a. P a \<Longrightarrow> al_id (f a) = al_id a" and "db_ok d"
    and "\<And>a. a \<in> set (tb_rows (d_allowance d)) \<Longrightarrow> P a \<Longrightarrow>
      set_option (al_tx_id (f a)) \<subseteq> tbl_ids t_id (d_tx d)"
  shows "db_ok (update_al_where P f d)"
proof -
  have "tbl_wf al_id (tbl_update_where P f (d_allowance d)) = tbl_wf al_id (d_allowance d)"
    using assms(1) by (rule allowances.wf_update)
  with assms(2,3) show ?thesis
    by (auto simp: update_al_where_def db_ok_def keys_ok_def fk_ok_def list_all_iff tbl_update_where_def)
qed

lemma ok_insert_token_transfer: "preserves db_ok (insert_token_transfer now tt)"
  unfolding insert_token_transfer_def
proof (rule preserves_constrainedI)
  fix d assume ok: "db_ok d" and fk: "fk_tx d (tt_tx_id tt)"
  let ?tt = "tt\<lparr>tt_create_date := now\<rparr>"
  obtain row t where ins: "tbl_insert set_tt_id ?tt (d_token_transfer d) = (row, t)" by fastforce
  have wf: "tbl_wf tt_id t"
    using ok ins transfers.wf_insert [of "d_token_transfer d" ?tt] by (simp add: db_ok_def keys_ok_def)
  have "tb_rows t = tb_rows (d_token_transfer d) @ [row]" "tt_tx_id row = tt_tx_id tt"
    using ins by (auto simp: tbl_insert_def Let_def set_tt_id_def)
  moreover have "d_foreign_keys d" using ok by (simp add: db_ok_def)
  ultimately show "db_ok (snd (case tbl_insert set_tt_id ?tt (d_token_transfer d) of
      (row, t) \<Rightarrow> (Inr row, d\<lparr>d_token_transfer := t\<rparr>)))"
    using ok wf fk by (simp add: ins db_ok_def keys_ok_def fk_ok_def fk_tx_iff)
qed

lemma ok_insert_allowance: "preserves db_ok (insert_allowance al)"
  unfolding insert_allowance_def
proof (rule preserves_constrainedI)
  fix d assume ok: "db_ok d" and fk: "fk_tx d (al_tx_id al)"
  obtain row t where ins: "tbl_insert set_al_id al (d_allowance d) = (row, t)" by fastforce
  have wf: "tbl_wf al_id t"
    using ok ins allowances.wf_insert [of "d_allowance d" al] by (simp add: db_ok_def keys_ok_def)
  have "tb_rows t = tb_rows (d_allowance d) @ [row]" "al_tx_id row = al_tx_id al"
    using ins by (auto simp: tbl_insert_def Let_def set_al_id_def)
  moreover have "d_foreign_keys d" using ok by (simp add: db_ok_def)
  ultimately show "db_ok (snd (case tbl_insert set_al_id al (d_allowance d) of
      (row, t) \<Rightarrow> (Inr row, d\<lparr>d_allowance := t\<rparr>)))"
    using ok wf fk by (simp add: ins db_ok_def keys_ok_def fk_ok_def fk_tx_iff)
qed

lemma foreign_keys_if_ok: "db_ok d \<Longrightarrow> d_foreign_keys d"
  by (simp add: db_ok_def)

lemma ok_update_token_transfer: "preserves db_ok (update_token_transfer tt)"
  unfolding update_token_transfer_def
  by (rule preserves_constrainedI)
    (auto intro!: ok_update_tt_where simp: fk_tx_iff foreign_keys_if_ok list_ex_iff)

lemma ok_remap_token_transfer_tx: "preserves db_ok (remap_token_transfer_tx i j)"
  unfolding remap_token_transfer_tx_def
  by (rule preserves_constrainedI)
    (auto intro!: ok_update_tt_where simp: fk_tx_iff foreign_keys_if_ok list_ex_iff)

lemma ok_cleanup_token_transfer_tx: "preserves db_ok (cleanup_token_transfer_tx i)"
  unfolding cleanup_token_transfer_tx_def
  by (intro preserves_modify ok_update_tt_where) simp_all

lemma ok_update_allowance: "preserves db_ok (update_allowance al)"
  unfolding update_allowance_def
  by (rule preserves_constrainedI)
    (auto intro!: ok_update_al_where simp: fk_tx_iff foreign_keys_if_ok list_ex_iff)

lemma ok_remap_allowance_tx: "preserves db_ok (remap_allowance_tx i j)"
  unfolding remap_allowance_tx_def
  by (rule preserves_constrainedI)
    (auto intro!: ok_update_al_where simp: fk_tx_iff foreign_keys_if_ok list_ex_iff)

lemma ok_cleanup_allowance_tx: "preserves db_ok (cleanup_allowance_tx i)"
  unfolding cleanup_allowance_tx_def
  by (intro preserves_modify ok_update_al_where) simp_all

lemma ok_insert_with_deposit_check: "preserves db_ok (insert_token_transfer_with_deposit_check now tt)"
  unfolding insert_token_transfer_with_deposit_check_def check_if_deposit_closed_def
  by (intro preserves_intro ok_insert_token_transfer)

lemma ok_insert_chain_tx: "preserves db_ok (insert_chain_tx tx)"
  unfolding insert_chain_tx_def
proof (rule preserves_constrainedI)
  fix d assume ok: "db_ok d"
  obtain row t where ins: "tbl_insert set_ctx_id (chain_tx_row tx) (d_chain_tx d) = (row, t)" by fastforce
  have "tbl_wf ctx_id t"
    using ok ins chain_txs.wf_insert [of "d_chain_tx d" "chain_tx_row tx"] by (simp add: db_ok_def keys_ok_def)
  moreover have "tbl_ids ctx_id t = insert (tb_seq (d_chain_tx d) + 1) (tbl_ids ctx_id (d_chain_tx d))"
    using chain_txs.ids_insert [of "chain_tx_row tx" "d_chain_tx d"] ins by simp
  ultimately show "db_ok (snd (case tbl_insert set_ctx_id (chain_tx_row tx) (d_chain_tx d) of
      (row, t) \<Rightarrow> (Inr row, d\<lparr>d_chain_tx := t\<rparr>)))"
    using ok by (auto simp: ins db_ok_def keys_ok_def fk_ok_def list_all_iff)
qed

lemma ok_insert_chain_transfer: "preserves db_ok (insert_chain_transfer ct)"
  unfolding insert_chain_transfer_def
proof (rule preserves_constrained, rule preserves_constrainedI)
  fix d assume ok: "db_ok d" and fk: "fk_chain_tx d (ct_chain_tx_id ct)"
  obtain row t where ins: "tbl_insert set_ct_id ct (d_chain_transfer d) = (row, t)" by fastforce
  have wf: "tbl_wf ct_id t"
    using ok ins chain_transfers.wf_insert [of "d_chain_transfer d" ct] by (simp add: db_ok_def keys_ok_def)
  have "tb_rows t = tb_rows (d_chain_transfer d) @ [row]" "ct_chain_tx_id row = ct_chain_tx_id ct"
    using ins by (auto simp: tbl_insert_def Let_def set_ct_id_def)
  with ok wf fk show "db_ok (snd (case tbl_insert set_ct_id ct (d_chain_transfer d) of
      (row, t) \<Rightarrow> (Inr row, d\<lparr>d_chain_transfer := t\<rparr>)))"
    by (simp add: ins db_ok_def keys_ok_def fk_ok_def fk_chain_tx_iff)
qed

lemma ok_delete_scan_info: "preserves db_ok (delete_scan_info c f)"
  unfolding delete_scan_info_def
  by (intro preserves_modify) (simp add: db_ok_def keys_ok_def fk_ok_def scans.wf_delete)

lemma ok_upsert_scan_info: "preserves db_ok (upsert_scan_info s)"
proof (rule preservesI)
  fix d assume ok: "db_ok d"
  let ?t = "tbl_delete_where (\<lambda>r. sc_chain_id r = sc_chain_id s \<and> sc_filter r = sc_filter s) (d_scan_info d)"
  obtain row t where ins: "tbl_insert set_sc_id s ?t = (row, t)" by fastforce
  have "tbl_wf sc_id t"
    using ok ins scans.wf_insert [of ?t s] scans.wf_delete by (simp add: db_ok_def keys_ok_def)
  with ok show "db_ok (snd (upsert_scan_info s d))"
    by (simp add: upsert_scan_info_def ins db_ok_def keys_ok_def fk_ok_def)
qed

lemma ok_insert_transfer_in: "preserves db_ok (insert_transfer_in ti)"
proof (rule preservesI)
  fix d assume ok: "db_ok d"
  obtain row t where ins: "tbl_insert set_ti_id ti (d_transfer_in d) = (row, t)" by fastforce
  have "tbl_wf ti_id t"
    using ok ins transfers_in.wf_insert [of "d_transfer_in d" ti] by (simp add: db_ok_def keys_ok_def)
  with ok show "db_ok (snd (insert_transfer_in ti d))"
    by (simp add: insert_transfer_in_def ins db_ok_def keys_ok_def fk_ok_def)
qed

lemmas db_ok_writes [preserves_intro] =
  ok_insert_tx ok_update_tx ok_update_processing ok_update_tx_stuck_date ok_force_tx_error ok_delete_tx
  ok_insert_token_transfer ok_update_token_transfer ok_remap_token_transfer_tx ok_cleanup_token_transfer_tx
  ok_insert_allowance ok_update_allowance ok_remap_allowance_tx ok_cleanup_allowance_tx
  ok_insert_with_deposit_check ok_insert_chain_tx ok_insert_chain_transfer ok_delete_scan_info
  ok_upsert_scan_info ok_insert_transfer_in

section \<open>Reads do not write\<close>

definition reads :: "('s, 'f, 'a) prog \<Rightarrow> bool" where
  "reads m \<longleftrightarrow> (\<forall>s. snd (m s) = s)"

lemma reads_preserves: "reads m \<Longrightarrow> preserves I m"
  by (simp add: reads_def preserves_def)

lemma reads_gets: "reads (gets f)"
  by (simp add: reads_def)

lemma reads_bindM: "reads m \<Longrightarrow> (\<And>a. reads (f a)) \<Longrightarrow> reads (bindM m f)"
  by (auto simp: reads_def bindM_def split: prod.splits sum.splits) (metis snd_conv)+

lemma reads_fetch_one: "reads (fetch_one r)"
  by (cases r) (simp_all add: reads_def fetch_one_def)

lemma ok_get_transaction [preserves_intro]: "preserves I (get_transaction i)"
  unfolding get_transaction_def by (intro reads_preserves reads_bindM reads_gets reads_fetch_one)

lemma ok_get_allowance_by_tx [preserves_intro]: "preserves I (get_allowance_by_tx i)"
  unfolding get_allowance_by_tx_def by (intro reads_preserves reads_bindM reads_gets reads_fetch_one)

lemma ok_get_token_transfers_by_tx [preserves_intro]: "preserves I (get_token_transfers_by_tx i)"
  unfolding get_token_transfers_by_tx_def by (rule preserves_gets)

section \<open>Finding what was written\<close>

lemma get_transaction_Inr:
  "get_transaction i d = (Inr t, d') \<longleftrightarrow> d' = d \<and> tbl_find t_id i (d_tx d) = Some t"
  by (cases "tbl_find t_id i (d_tx d)") (auto simp: get_transaction_def fetch_one_def)

lemma find_update_tx_where:
  "(\<And>t. t_id t = i \<Longrightarrow> t_id (f t) = i) \<Longrightarrow>
    tbl_find t_id j (d_tx (update_tx_where i f d)) =
      map_option (\<lambda>t. if t_id t = i then f t else t) (tbl_find t_id j (d_tx d))"
  using txs.find_update [of "\<lambda>t. t_id t = i" f j "d_tx d"] by (simp add: update_tx_where_def)

section \<open>Replacement chains\<close>

text \<open>A replacement is inserted after the transaction it replaces, so its id is larger.\<close>

definition chain_ordered :: "db \<Rightarrow> bool" where
  "chain_ordered d \<longleftrightarrow> list_all (\<lambda>t. 0 < t_id t \<and>
     (case t_orig_tx_id t of None \<Rightarrow> True | Some o' \<Rightarrow> o' < t_id t)) (tb_rows (d_tx d))"

fun is_chain :: "tx_db_obj list \<Rightarrow> bool" where
  "is_chain [] = False"
| "is_chain [t] = (t_orig_tx_id t = None)"
| "is_chain (t # u # ts) = (t_orig_tx_id t = Some (t_id u) \<and> is_chain (u # ts))"

lemma is_chain_Cons: "is_chain ts \<Longrightarrow> t_orig_tx_id t = Some (t_id (hd ts)) \<Longrightarrow> is_chain (t # ts)"
  by (cases ts) auto

lemma chain_orderedD:
  "chain_ordered d \<Longrightarrow> tbl_find t_id i (d_tx d) = Some t \<Longrightarrow>
    0 < i \<and> t_id t = i \<and> (\<forall>o'. t_orig_tx_id t = Some o' \<longrightarrow> o' < i)"
  by (force simp: chain_ordered_def list_all_iff dest!: tbl_find_SomeD)

lemma get_transaction_chain_result:
  "get_transaction_chain n i d = Some (Inr ts) \<Longrightarrow>
    is_chain ts \<and> t_id (hd ts) = i \<and> set ts \<subseteq> set (tb_rows (d_tx d))"
  by (induction n i d arbitrary: ts rule: get_transaction_chain.induct)
    (auto simp: is_chain_Cons dest!: tbl_find_SomeD split: option.splits sum.splits, blast)

lemma get_transaction_chain_fuel:
  "chain_ordered d \<Longrightarrow> nat i < n \<Longrightarrow> get_transaction_chain n i d \<noteq> None"
proof (induction n arbitrary: i)
  case (Suc n)
  show ?case
  proof (cases "tbl_find t_id i (d_tx d)")
    case (Some t)
    note t = chain_orderedD [OF Suc.prems(1) Some]
    then have "get_transaction_chain n o' d \<noteq> None" if "t_orig_tx_id t = Some o'" for o'
      using Suc.prems that by (intro Suc.IH) auto
    with Some show ?thesis by (auto split: option.splits sum.splits)
  qed simp
qed simp

section \<open>Properties\<close>

lemma get_transaction_chain_error: "get_transaction_chain n j d = Some (Inl e) \<Longrightarrow> e = RowNotFound"
  by (induction n j d rule: get_transaction_chain.induct) (auto split: option.splits sum.splits)

text \<open>The walk is the only chain that starts at its transaction.\<close>

lemma get_transaction_chain_unique:
  assumes "tbl_wf t_id (d_tx d)"
  shows "is_chain ts \<Longrightarrow> set ts \<subseteq> set (tb_rows (d_tx d)) \<Longrightarrow> get_transaction_chain n (t_id (hd ts)) d \<noteq> None \<Longrightarrow>
    get_transaction_chain n (t_id (hd ts)) d = Some (Inr ts)"
proof (induction ts arbitrary: n rule: is_chain.induct)
  case (2 t)
  then obtain m where "n = Suc m" by (cases n) auto
  with 2 txs.find_in_rows [OF assms, of t] show ?case by simp
next
  case (3 t u ts)
  then obtain m where n: "n = Suc m" by (cases n) auto
  have t: "tbl_find t_id (t_id t) (d_tx d) = Some t" using 3 txs.find_in_rows [OF assms, of t] by simp
  with 3 n have "get_transaction_chain m (t_id (hd (u # ts))) d \<noteq> None" by (auto split: option.splits)
  with 3 have "get_transaction_chain m (t_id u) d = Some (Inr (u # ts))" by simp
  with n t 3 show ?case by simp
qed simp

lemma get_transaction_chain_total:
  assumes "chain_ordered d" and "\<forall>t\<in>set (tb_rows (d_tx d)). set_option (t_orig_tx_id t) \<subseteq> tbl_ids t_id (d_tx d)"
  shows "nat i < n \<Longrightarrow> i \<in> tbl_ids t_id (d_tx d) \<Longrightarrow> \<exists>ts. get_transaction_chain n i d = Some (Inr ts)"
proof (induction n arbitrary: i)
  case (Suc n)
  then obtain t where t: "tbl_find t_id i (d_tx d) = Some t" by (cases "tbl_find t_id i (d_tx d)") (auto simp: tbl_find_None_iff)
  note o = chain_orderedD [OF assms(1) t]
  have "\<exists>ts. get_transaction_chain n o' d = Some (Inr ts)" if "t_orig_tx_id t = Some o'" for o'
    using that o assms(2) tbl_find_SomeD [OF t] Suc.prems(1) by (intro Suc.IH) auto
  with t show ?case by (cases "t_orig_tx_id t") fastforce+
qed simp

text \<open>C4. Following orig_tx_id from a transaction returns a list exactly when it is the whole replacement chain
  of the transaction: rows of the table, the requested one first, each followed by the row it replaced, the last
  replacing nothing. It fails with a missing row only when there is no such chain, and there is one for
  every stored transaction when every orig_tx_id names a stored row. As replacements have larger ids, the walk never
  runs out of fuel.\<close>

theorem transaction_chain_complete:
  assumes "tbl_wf t_id (d_tx d)" and "chain_ordered d" and "nat i < fuel"
  shows "(\<forall>ts. get_transaction_chain fuel i d = Some (Inr ts) \<longleftrightarrow>
      is_chain ts \<and> t_id (hd ts) = i \<and> set ts \<subseteq> set (tb_rows (d_tx d))) \<and>
    (get_transaction_chain fuel i d = Some (Inl RowNotFound) \<longleftrightarrow>
      (\<nexists>ts. is_chain ts \<and> t_id (hd ts) = i \<and> set ts \<subseteq> set (tb_rows (d_tx d)))) \<and>
    (i \<in> tbl_ids t_id (d_tx d) \<and> (\<forall>t\<in>set (tb_rows (d_tx d)). set_option (t_orig_tx_id t) \<subseteq> tbl_ids t_id (d_tx d)) \<longrightarrow>
      (\<exists>ts. get_transaction_chain fuel i d = Some (Inr ts)))"
proof -
  have fuel: "get_transaction_chain fuel i d \<noteq> None" by (rule get_transaction_chain_fuel [OF assms(2,3)])
  then have iff: "get_transaction_chain fuel i d = Some (Inr ts) \<longleftrightarrow>
      is_chain ts \<and> t_id (hd ts) = i \<and> set ts \<subseteq> set (tb_rows (d_tx d))" for ts
    using get_transaction_chain_result get_transaction_chain_unique [OF assms(1), of ts fuel] by blast
  moreover have "get_transaction_chain fuel i d = Some (Inl RowNotFound) \<longleftrightarrow> (\<forall>ts. get_transaction_chain fuel i d \<noteq> Some (Inr ts))"
    using fuel get_transaction_chain_error [of fuel i d] by (cases "get_transaction_chain fuel i d") (auto, metis old.sum.exhaust)
  ultimately show ?thesis using get_transaction_chain_total [OF assms(2) _ assms(3)] by blast
qed

text \<open>The second transaction replaced the first.\<close>

definition replaced_pair :: db where
  "replaced_pair = db_empty\<lparr>d_tx := \<lparr>tb_rows = [(tx_default 0)\<lparr>t_id := 1\<rparr>, (tx_default 0)\<lparr>t_id := 2, t_orig_tx_id := Some 1\<rparr>],
     tb_seq = 2\<rparr>\<rparr>"

theorem transaction_chain_complete_witness:
  "\<exists>ts. get_transaction_chain 8 2 replaced_pair = Some (Inr ts) \<and> map t_id ts = [2, 1]"
proof -
  let ?ts = "[(tx_default 0)\<lparr>t_id := 2, t_orig_tx_id := Some 1\<rparr>, (tx_default 0)\<lparr>t_id := 1\<rparr>]"
  have "tbl_wf t_id (d_tx replaced_pair)" "chain_ordered replaced_pair"
    by (simp_all add: replaced_pair_def tbl_wf_def chain_ordered_def tx_default_def)
  from transaction_chain_complete [OF this, of 2 8] have "get_transaction_chain 8 2 replaced_pair = Some (Inr ?ts) \<longleftrightarrow>
      is_chain ?ts \<and> t_id (hd ?ts) = 2 \<and> set ?ts \<subseteq> set (tb_rows (d_tx replaced_pair))" by simp
  then have "get_transaction_chain 8 2 replaced_pair = Some (Inr ?ts)" by (simp add: replaced_pair_def tx_default_def)
  then show ?thesis by (intro exI [of _ ?ts]) simp
qed

text \<open>Once a transfer that finishes a deposit is stored, no further transfer of that deposit on
  that chain is accepted: the insertion fails and leaves the database as it was. Every other
  transfer with a valid transaction reference is stored under a fresh id.\<close>

theorem closed_deposit_is_final:
  assumes "insert_token_transfer_with_deposit_check now t d = (r, d')" and "db_ok d"
    and "tt_deposit_id t = Some dep"
  shows "(if list_ex (\<lambda>u. tt_chain_id u = tt_chain_id t \<and> tt_deposit_id u = Some dep \<and>
              tt_deposit_finish u = 1) (tb_rows (d_token_transfer d))
          then r = Inl (err_custom ''Cannot add token_transfer to already finished deposit'') \<and> d' = d
          else if set_option (tt_tx_id t) \<subseteq> tbl_ids t_id (d_tx d)
          then \<exists>row. r = Inr row \<and> tt_id row \<notin> tbl_ids tt_id (d_token_transfer d) \<and>
                 row = t\<lparr>tt_id := tt_id row, tt_create_date := now\<rparr> \<and>
                 tb_rows (d_token_transfer d') = tb_rows (d_token_transfer d) @ [row]
          else r = Inl (Err (SQLxError ForeignKeyViolation)) \<and> d' = d)"
proof -
  let ?closed = "\<lambda>u. tt_chain_id u = tt_chain_id t \<and> tt_deposit_id u = Some dep \<and> tt_deposit_finish u = 1"
  have c: "check_if_deposit_closed (tt_chain_id t) dep d =
      (Inr (list_ex ?closed (tb_rows (d_token_transfer d))), d)"
    by (auto simp: check_if_deposit_closed_def tbl_select_def list_ex_iff filter_empty_conv)
  have i: "insert_token_transfer now t d =
      (if set_option (tt_tx_id t) \<subseteq> tbl_ids t_id (d_tx d)
       then (let row = t\<lparr>tt_id := tb_seq (d_token_transfer d) + 1, tt_create_date := now\<rparr>
             in (Inr row, d\<lparr>d_token_transfer := \<lparr>tb_rows = tb_rows (d_token_transfer d) @ [row],
                  tb_seq = tb_seq (d_token_transfer d) + 1\<rparr>\<rparr>))
       else (Inl ForeignKeyViolation, d))"
    using assms(2) by (simp add: insert_token_transfer_def constrained_def fk_tx_iff
        foreign_keys_if_ok tbl_insert_def Let_def set_tt_id_def)
  have fresh: "tb_seq (d_token_transfer d) + 1 \<notin> tbl_ids tt_id (d_token_transfer d)"
    using assms(2) by (force simp: db_ok_def keys_ok_def tbl_wf_def list_all_iff tbl_ids_def)
  show ?thesis
    using assms(1,3) c i fresh
    by (auto simp: insert_token_transfer_with_deposit_check_def atomically_def bindM_def sqlx_def
        Let_def split: if_splits)
qed

definition deposit_transfer :: "i64 \<Rightarrow> token_transfer_db_obj" where
  "deposit_transfer finish = \<lparr>tt_id = 0, tt_payment_id = None, tt_from_addr = ''a'', tt_receiver_addr = ''b'',
     tt_chain_id = 1, tt_token_addr = None, tt_token_amount = ''5'', tt_deposit_id = Some ''d'',
     tt_deposit_finish = finish, tt_create_date = 0, tt_tx_id = None, tt_paid_date = None,
     tt_fee_paid = None, tt_error = None\<rparr>"

theorem closed_deposit_is_final_witness:
  "fst (insert_token_transfer_with_deposit_check 9 (deposit_transfer 0)
     (snd (insert_token_transfer 8 (deposit_transfer 1) db_empty))) =
   Inl (err_custom ''Cannot add token_transfer to already finished deposit'')"
proof -
  let ?d = "snd (insert_token_transfer 8 (deposit_transfer 1) db_empty)"
  have "db_ok ?d" using ok_insert_token_transfer db_ok_empty by (simp add: preserves_def)
  from closed_deposit_is_final [OF surjective_pairing this, of "deposit_transfer 0" "''d''" 9]
  show ?thesis
    by (simp add: deposit_transfer_def insert_token_transfer_def constrained_def fk_tx_def db_empty_def
        tbl_empty_def tbl_insert_def Let_def set_tt_id_def)
qed

end
