(* ===== verification/TxBuild.thy ===== *)
theory TxBuild imports Contracts Database begin

text \<open>
  The construction of transactions (\<open>transaction.rs\<close>): the database rows for every kind of transaction
  the driver sends, and the call request and the transaction parameters made back from a row.
\<close>

type_synonym u64 = "64 word"

text \<open>\<open>as i64\<close> and \<open>as u64\<close> reinterpret the 64 bits.\<close>

definition as_i64 :: "u64 \<Rightarrow> i64" where
  "as_i64 n = sint n"

definition i64_as_u64 :: "i64 \<Rightarrow> u64" where
  "i64_as_u64 i = word_of_int i"

text \<open>\<open>U256::from(i64)\<close> panics on a negative value.\<close>

definition u256_from_i64 :: "i64 \<Rightarrow> failure + u256" where
  "u256_from_i64 i = (if i < 0
     then Inl (Panic ''Unsigned integer can not be created from negative value'')
     else Inr (word_of_int i))"

definition parse_address :: "externals \<Rightarrow> string \<Rightarrow> failure + address" where
  "parse_address E s = ok_or (Err FromHexError) (addr_of_str E s)"

definition parse_dec :: "externals \<Rightarrow> string \<Rightarrow> failure + u256" where
  "parse_dec E s = ok_or (Err FromDecStrErr) (u256_of_dec E s)"

section \<open>From a row to a call or a transaction\<close>

record call_request =
  cr_from :: "address option"
  cr_to :: "address option"
  cr_gas :: "u256 option"
  cr_value :: "u256 option"
  cr_data :: "bytes option"
  cr_transaction_type :: "nat option"
  cr_max_fee_per_gas :: "u256 option"
  cr_max_priority_fee_per_gas :: "u256 option"

record transaction_parameters =
  tp_nonce :: "u256 option"
  tp_to :: "address option"
  tp_gas :: u256
  tp_value :: u256
  tp_data :: bytes
  tp_chain_id :: "u64 option"
  tp_transaction_type :: "nat option"
  tp_max_fee_per_gas :: "u256 option"
  tp_max_priority_fee_per_gas :: "u256 option"

definition decode_data_to_bytes :: "externals \<Rightarrow> tx_db_obj \<Rightarrow> failure + bytes option" where
  "decode_data_to_bytes E tx = (case t_call_data tx of
       None \<Rightarrow> Inr None
     | Some data \<Rightarrow> (case hex_decode E data of
           None \<Rightarrow> Inl (err_custom ''Failed to convert data from hex'')
         | Some hex_data \<Rightarrow> Inr (Some hex_data)))"

definition tx_max_fee :: "externals \<Rightarrow> tx_db_obj \<Rightarrow> failure + u256" where
  "tx_max_fee E tx = bindE (ok_or (err_custom ''max_fee_per_gas has to be set'') (t_max_fee_per_gas tx)) (parse_dec E)"

definition tx_priority_fee :: "externals \<Rightarrow> tx_db_obj \<Rightarrow> failure + u256" where
  "tx_priority_fee E tx = bindE (ok_or (err_custom ''priority_fee has to be set'') (t_priority_fee tx)) (parse_dec E)"

definition dao_to_call_request :: "externals \<Rightarrow> tx_db_obj \<Rightarrow> failure + call_request" where
  "dao_to_call_request E tx =
     bindE (parse_address E (t_from_addr tx)) (\<lambda>from_a.
     bindE (parse_address E (t_to_addr tx)) (\<lambda>to_a.
     bindE (case t_gas_limit tx of None \<Rightarrow> Inr None | Some g \<Rightarrow> bindE (u256_from_i64 g) (\<lambda>g'. Inr (Some g'))) (\<lambda>gas.
     bindE (parse_dec E (t_val tx)) (\<lambda>val.
     bindE (decode_data_to_bytes E tx) (\<lambda>data.
     bindE (tx_max_fee E tx) (\<lambda>max_fee.
     bindE (tx_priority_fee E tx) (\<lambda>prio.
       Inr \<lparr>cr_from = Some from_a, cr_to = Some to_a, cr_gas = gas, cr_value = Some val, cr_data = data,
            cr_transaction_type = Some 2, cr_max_fee_per_gas = Some max_fee,
            cr_max_priority_fee_per_gas = Some prio\<rparr>)))))))"

definition dao_to_transaction :: "externals \<Rightarrow> tx_db_obj \<Rightarrow> failure + transaction_parameters" where
  "dao_to_transaction E tx =
     bindE (bindE (ok_or (err_custom ''Missing nonce'') (t_nonce tx)) u256_from_i64) (\<lambda>nonce.
     bindE (parse_address E (t_to_addr tx)) (\<lambda>to_a.
     bindE (bindE (ok_or (err_custom ''Missing gas limit'') (t_gas_limit tx)) u256_from_i64) (\<lambda>gas.
     bindE (parse_dec E (t_val tx)) (\<lambda>val.
     bindE (decode_data_to_bytes E tx) (\<lambda>data.
     bindE (tx_max_fee E tx) (\<lambda>max_fee.
     bindE (tx_priority_fee E tx) (\<lambda>prio.
       Inr \<lparr>tp_nonce = Some nonce, tp_to = Some to_a, tp_gas = gas, tp_value = val,
            tp_data = (case data of None \<Rightarrow> [] | Some b \<Rightarrow> b),
            tp_chain_id = Some (i64_as_u64 (t_chain_id tx)), tp_transaction_type = Some 2,
            tp_max_fee_per_gas = Some max_fee, tp_max_priority_fee_per_gas = Some prio\<rparr>)))))))"

section \<open>New rows\<close>

definition create_token_transfer ::
    "externals \<Rightarrow> timestamp \<Rightarrow> address \<Rightarrow> address \<Rightarrow> i64 \<Rightarrow> string option \<Rightarrow> address option \<Rightarrow> u256 \<Rightarrow>
     string option \<Rightarrow> token_transfer_db_obj" where
  "create_token_transfer E now from_a receiver chain_id payment_id token_addr token_amount deposit_id =
     \<lparr>tt_id = 0, tt_payment_id = payment_id, tt_from_addr = str_of_addr E from_a,
      tt_receiver_addr = str_of_addr E receiver, tt_chain_id = chain_id,
      tt_token_addr = map_option (str_of_addr E) token_addr, tt_token_amount = dec_of_u256 E token_amount,
      tt_deposit_id = deposit_id, tt_deposit_finish = 0, tt_create_date = now, tt_tx_id = None,
      tt_paid_date = None, tt_fee_paid = None, tt_error = None\<rparr>"

text \<open>The fields every constructor below sets, over the defaults.\<close>

definition new_tx ::
    "externals \<Rightarrow> timestamp \<Rightarrow> string \<Rightarrow> address \<Rightarrow> address \<Rightarrow> u64 \<Rightarrow> u64 option \<Rightarrow> tx_db_obj" where
  "new_tx E now meth from_a to_a chain_id gas_limit = (tx_default now)
     \<lparr>t_method := meth, t_from_addr := str_of_addr E from_a, t_to_addr := str_of_addr E to_a,
      t_chain_id := as_i64 chain_id, t_gas_limit := map_option as_i64 gas_limit\<rparr>"

definition with_data :: "externals \<Rightarrow> failure + bytes \<Rightarrow> tx_db_obj \<Rightarrow> failure + tx_db_obj" where
  "with_data E r tx = bindE r (\<lambda>data. Inr (tx\<lparr>t_call_data := Some (hex_encode E data)\<rparr>))"

definition create_eth_transfer ::
    "externals \<Rightarrow> timestamp \<Rightarrow> address \<Rightarrow> address \<Rightarrow> u64 \<Rightarrow> u64 option \<Rightarrow> u256 \<Rightarrow> tx_db_obj" where
  "create_eth_transfer E now from_a to_a chain_id gas_limit amount =
     (new_tx E now ''transfer'' from_a to_a chain_id gas_limit)\<lparr>t_val := dec_of_u256 E amount\<rparr>"

definition create_erc20_transfer ::
    "externals \<Rightarrow> timestamp \<Rightarrow> address \<Rightarrow> address \<Rightarrow> address \<Rightarrow> u256 \<Rightarrow> u64 \<Rightarrow> u64 option \<Rightarrow> failure + tx_db_obj" where
  "create_erc20_transfer E now from_a token erc20_to erc20_amount chain_id gas_limit =
     with_data E (encode_erc20_transfer E erc20_to erc20_amount)
       (new_tx E now ''ERC20.transfer'' from_a token chain_id gas_limit)"

record single_transfer_deposit_args =
  sd_from :: address
  sd_lock_contract :: address
  sd_erc20_to :: address
  sd_erc20_amount :: u256
  sd_chain_id :: u64
  sd_gas_limit :: "u64 option"
  sd_deposit_id :: u256
  sd_deposit_finish :: bool

definition create_erc20_deposit_transfer ::
    "externals \<Rightarrow> timestamp \<Rightarrow> single_transfer_deposit_args \<Rightarrow> failure + tx_db_obj" where
  "create_erc20_deposit_transfer E now a =
     (if \<not> sd_deposit_finish a
      then with_data E (encode_payout_single E (sd_deposit_id a) (sd_erc20_to a) (sd_erc20_amount a))
        (new_tx E now ''LOCK.depositSingleTransfer'' (sd_from a) (sd_lock_contract a) (sd_chain_id a) (sd_gas_limit a))
      else with_data E (encode_payout_single_and_close E (sd_deposit_id a) (sd_erc20_to a) (sd_erc20_amount a))
        (new_tx E now ''LOCK.depositSingleTransferAndClose'' (sd_from a) (sd_lock_contract a) (sd_chain_id a) (sd_gas_limit a)))"

record multi_transfer_deposit_args =
  md_from :: address
  md_lock_contract :: address
  md_erc20_to :: "address list"
  md_erc20_amount :: "u256 list"
  md_chain_id :: u64
  md_gas_limit :: "u64 option"
  md_deposit_id :: u256
  md_deposit_finish :: bool

definition create_erc20_transfer_multi_deposit ::
    "externals \<Rightarrow> timestamp \<Rightarrow> multi_transfer_deposit_args \<Rightarrow> failure + tx_db_obj" where
  "create_erc20_transfer_multi_deposit E now a =
     bindE (pack_transfers_for_multi_contract (md_erc20_to a) (md_erc20_amount a)) (\<lambda>(packed, _).
       if \<not> md_deposit_finish a
       then with_data E (encode_deposit_transfer E (md_deposit_id a) packed)
         (new_tx E now ''LOCK.depositTransfer'' (md_from a) (md_lock_contract a) (md_chain_id a) (md_gas_limit a))
       else with_data E (encode_deposit_transfer_and_close E (md_deposit_id a) packed)
         (new_tx E now ''LOCK.depositTransferAndClose'' (md_from a) (md_lock_contract a) (md_chain_id a) (md_gas_limit a)))"

record multi_transfer_args =
  mt_from :: address
  mt_contract :: address
  mt_erc20_to :: "address list"
  mt_erc20_amount :: "u256 list"
  mt_chain_id :: u64
  mt_gas_limit :: "u64 option"
  mt_direct :: bool
  mt_unpacked :: bool

definition multi_data_and_method :: "externals \<Rightarrow> multi_transfer_args \<Rightarrow> failure + bytes \<times> string" where
  "multi_data_and_method E a =
     (if mt_unpacked a then
        (if mt_direct a
         then bindE (encode_multi_direct E (mt_erc20_to a) (mt_erc20_amount a)) (\<lambda>d. Inr (d, ''MULTI.golemTransferDirect''))
         else bindE (encode_multi_indirect E (mt_erc20_to a) (mt_erc20_amount a)) (\<lambda>d. Inr (d, ''MULTI.golemTransferIndirect'')))
      else bindE (pack_transfers_for_multi_contract (mt_erc20_to a) (mt_erc20_amount a)) (\<lambda>(packed, sum_amount).
        if mt_direct a
        then bindE (encode_multi_direct_packed E packed) (\<lambda>d. Inr (d, ''MULTI.golemTransferDirectPacked''))
        else bindE (encode_multi_indirect_packed E packed sum_amount) (\<lambda>d. Inr (d, ''MULTI.golemTransferIndirectPacked''))))"

definition create_erc20_transfer_multi ::
    "externals \<Rightarrow> timestamp \<Rightarrow> multi_transfer_args \<Rightarrow> failure + tx_db_obj" where
  "create_erc20_transfer_multi E now a =
     bindE (multi_data_and_method E a) (\<lambda>(data, method_str).
       with_data E (Inr data) (new_tx E now method_str (mt_from a) (mt_contract a) (mt_chain_id a) (mt_gas_limit a)))"

definition create_faucet_mint :: "externals \<Rightarrow> timestamp \<Rightarrow> address \<Rightarrow> address \<Rightarrow> u64 \<Rightarrow> u64 option \<Rightarrow> failure + tx_db_obj" where
  "create_faucet_mint E now from_a faucet_address chain_id gas_limit =
     with_data E (encode_faucet_create E) (new_tx E now ''FAUCET.create'' from_a faucet_address chain_id gas_limit)"

definition create_create_deposit ::
    "externals \<Rightarrow> timestamp \<Rightarrow> address \<Rightarrow> address \<Rightarrow> u64 \<Rightarrow> u64 option \<Rightarrow> create_deposit_args \<Rightarrow> failure + tx_db_obj" where
  "create_create_deposit E now from_a lock_address chain_id gas_limit args =
     with_data E (encode_create_deposit E args) (new_tx E now ''LOCK.createDeposit'' from_a lock_address chain_id gas_limit)"

definition create_close_deposit ::
    "externals \<Rightarrow> timestamp \<Rightarrow> address \<Rightarrow> address \<Rightarrow> u64 \<Rightarrow> u64 option \<Rightarrow> u256 \<Rightarrow> failure + tx_db_obj" where
  "create_close_deposit E now from_a lock_address chain_id gas_limit deposit_id =
     with_data E (encode_close_deposit E deposit_id) (new_tx E now ''LOCK.closeDeposit'' from_a lock_address chain_id gas_limit)"

definition create_terminate_deposit ::
    "externals \<Rightarrow> timestamp \<Rightarrow> address \<Rightarrow> address \<Rightarrow> u64 \<Rightarrow> u64 option \<Rightarrow> u64 \<Rightarrow> failure + tx_db_obj" where
  "create_terminate_deposit E now from_a lock_address chain_id gas_limit deposit_nonce =
     with_data E (encode_terminate_deposit E deposit_nonce)
       (new_tx E now ''LOCK.terminateDeposit'' from_a lock_address chain_id gas_limit)"

definition create_erc20_approve ::
    "externals \<Rightarrow> timestamp \<Rightarrow> address \<Rightarrow> address \<Rightarrow> address \<Rightarrow> u64 \<Rightarrow> u64 option \<Rightarrow> failure + tx_db_obj" where
  "create_erc20_approve E now from_a token contract_to_approve chain_id gas_limit =
     with_data E (encode_erc20_approve E contract_to_approve u256_max)
       (new_tx E now ''ERC20.approve'' from_a token chain_id gas_limit)"

section \<open>A row says what its transaction does\<close>

text \<open>The fields the sending pipeline fills in before a transaction is signed.\<close>

definition priced :: "externals \<Rightarrow> i64 \<Rightarrow> i64 \<Rightarrow> u256 \<Rightarrow> u256 \<Rightarrow> tx_db_obj \<Rightarrow> tx_db_obj" where
  "priced E nonce gas max_fee prio tx = tx\<lparr>t_nonce := Some nonce, t_gas_limit := Some gas,
     t_max_fee_per_gas := Some (dec_of_u256 E max_fee), t_priority_fee := Some (dec_of_u256 E prio)\<rparr>"

lemma decode_data_priced [simp]:
  "decode_data_to_bytes E (priced E n g m p tx) = decode_data_to_bytes E tx"
  by (simp add: decode_data_to_bytes_def priced_def)

lemma priced_simps [simp]:
  "t_to_addr (priced E n g m p tx) = t_to_addr tx" "t_val (priced E n g m p tx) = t_val tx"
  "t_chain_id (priced E n g m p tx) = t_chain_id tx" "t_nonce (priced E n g m p tx) = Some n"
  "t_gas_limit (priced E n g m p tx) = Some g"
  "t_max_fee_per_gas (priced E n g m p tx) = Some (dec_of_u256 E m)"
  "t_priority_fee (priced E n g m p tx) = Some (dec_of_u256 E p)"
  by (simp_all add: priced_def)

context external begin

lemma parse_str_of_addr [simp]: "parse_address E (str_of_addr E a) = Inr a"
  by (simp add: parse_address_def addr_law)

lemma parse_dec_of_u256 [simp]: "parse_dec E (dec_of_u256 E v) = Inr v"
  by (simp add: parse_dec_def dec_parse_law)

lemma parse_dec_0 [simp]: "parse_dec E ''0'' = Inr 0"
  by (simp add: parse_dec_def)

lemma decode_data_hex [simp]:
  "t_call_data tx = Some (hex_encode E d) \<Longrightarrow> decode_data_to_bytes E tx = Inr (Some d)"
  "t_call_data tx = None \<Longrightarrow> decode_data_to_bytes E tx = Inr None"
  by (simp_all add: decode_data_to_bytes_def bytes_law)

lemma dao_to_transaction_priced:
  assumes "t_to_addr tx = str_of_addr E a" "parse_dec E (t_val tx) = Inr v"
    "decode_data_to_bytes E tx = Inr d" "0 \<le> n" "0 \<le> g"
  shows "dao_to_transaction E (priced E n g m p tx) = Inr \<lparr>tp_nonce = Some (word_of_int n), tp_to = Some a,
     tp_gas = word_of_int g, tp_value = v, tp_data = (case d of None \<Rightarrow> [] | Some b \<Rightarrow> b),
     tp_chain_id = Some (i64_as_u64 (t_chain_id tx)), tp_transaction_type = Some 2,
     tp_max_fee_per_gas = Some m, tp_max_priority_fee_per_gas = Some p\<rparr>"
  using assms
  by (simp add: dao_to_transaction_def tx_max_fee_def tx_priority_fee_def u256_from_i64_def)

end

lemma chain_id_roundtrip [simp]: "i64_as_u64 (as_i64 c) = c"
  by (simp add: i64_as_u64_def as_i64_def)

lemma new_tx_simps [simp]:
  "t_to_addr (new_tx E now meth f a c g) = str_of_addr E a" "t_val (new_tx E now meth f a c g) = ''0''"
  "t_chain_id (new_tx E now meth f a c g) = as_i64 c" "t_call_data (new_tx E now meth f a c g) = None"
  "t_from_addr (new_tx E now meth f a c g) = str_of_addr E f" "t_method (new_tx E now meth f a c g) = meth"
  "t_gas_limit (new_tx E now meth f a c g) = map_option as_i64 g" "t_orig_tx_id (new_tx E now meth f a c g) = None"
  "t_nonce (new_tx E now meth f a c g) = None" "t_processing (new_tx E now meth f a c g) = 1"
  "t_first_processed (new_tx E now meth f a c g) = None"
  by (simp_all add: new_tx_def tx_default_def)

lemma priced_from [simp]: "t_from_addr (priced E n g m p tx) = t_from_addr tx"
  by (simp add: priced_def)

lemma dao_to_call_request_priced:
  assumes "external E" and "t_from_addr tx = str_of_addr E f" and "t_to_addr tx = str_of_addr E a"
    and "parse_dec E (t_val tx) = Inr v" and "decode_data_to_bytes E tx = Inr d" and "0 \<le> g"
  shows "dao_to_call_request E (priced E n g m p tx) = Inr \<lparr>cr_from = Some f, cr_to = Some a, cr_gas = Some (word_of_int g),
     cr_value = Some v, cr_data = d, cr_transaction_type = Some 2, cr_max_fee_per_gas = Some m, cr_max_priority_fee_per_gas = Some p\<rparr>"
  using assms(2-)
  by (simp add: dao_to_call_request_def tx_max_fee_def tx_priority_fee_def u256_from_i64_def
      external.parse_str_of_addr [OF assms(1)] external.parse_dec_of_u256 [OF assms(1)])

text \<open>The transaction and the call a row stands for, with every field named.\<close>

definition priced_params ::
    "i64 \<Rightarrow> i64 \<Rightarrow> u256 \<Rightarrow> u256 \<Rightarrow> address \<Rightarrow> u256 \<Rightarrow> bytes \<Rightarrow> u64 \<Rightarrow> transaction_parameters" where
  "priced_params nonce gas max_fee prio to_a v d c = \<lparr>tp_nonce = Some (word_of_int nonce), tp_to = Some to_a,
     tp_gas = word_of_int gas, tp_value = v, tp_data = d, tp_chain_id = Some c, tp_transaction_type = Some 2,
     tp_max_fee_per_gas = Some max_fee, tp_max_priority_fee_per_gas = Some prio\<rparr>"

definition priced_call ::
    "i64 \<Rightarrow> u256 \<Rightarrow> u256 \<Rightarrow> address \<Rightarrow> address \<Rightarrow> u256 \<Rightarrow> bytes option \<Rightarrow> call_request" where
  "priced_call gas max_fee prio from_a to_a v d = \<lparr>cr_from = Some from_a, cr_to = Some to_a, cr_gas = Some (word_of_int gas),
     cr_value = Some v, cr_data = d, cr_transaction_type = Some 2, cr_max_fee_per_gas = Some max_fee,
     cr_max_priority_fee_per_gas = Some prio\<rparr>"

text \<open>C7. A native or token transfer and an approval, once stored as a row and priced, become exactly the
  transaction that was asked for, and the call by which its gas is estimated is the same one: the sender, the recipient (or the
  token contract), the value, the encoded call, the chain, and the nonce, gas and fees of the row, all unchanged by
  their passage through text.\<close>

theorem built_transaction_faithful:
  assumes "external E" and "0 \<le> nonce" and "0 \<le> gas"
  shows "(let tx = priced E nonce gas max_fee prio (create_eth_transfer E now f a c gl v) in
      dao_to_transaction E tx = Inr (priced_params nonce gas max_fee prio a v [] c) \<and>
      dao_to_call_request E tx = Inr (priced_call gas max_fee prio f a v None)) \<and>
    (\<exists>tx. create_erc20_transfer E now f token a v c gl = Inr tx \<and> t_from_addr tx = str_of_addr E f \<and>
       (let data = encode_input E ERC20_CONTRACT ''transfer'' [TokAddress a, TokUint v] in
        dao_to_transaction E (priced E nonce gas max_fee prio tx) = Inr (priced_params nonce gas max_fee prio token 0 data c) \<and>
        dao_to_call_request E (priced E nonce gas max_fee prio tx) = Inr (priced_call gas max_fee prio f token 0 (Some data)))) \<and>
    (\<exists>tx. create_erc20_approve E now f token spender c gl = Inr tx \<and> t_from_addr tx = str_of_addr E f \<and>
       (let data = encode_input E ERC20_CONTRACT ''approve'' [TokAddress spender, TokUint u256_max] in
        dao_to_transaction E (priced E nonce gas max_fee prio tx) = Inr (priced_params nonce gas max_fee prio token 0 data c) \<and>
        dao_to_call_request E (priced E nonce gas max_fee prio tx) = Inr (priced_call gas max_fee prio f token 0 (Some data))))"
proof -
  note laws = external.parse_str_of_addr [OF assms(1)] external.parse_dec_of_u256 [OF assms(1)]
    external.parse_dec_0 [OF assms(1)] external.decode_data_hex [OF assms(1)]
  show ?thesis
    using assms(2,3)
    by (simp add: create_eth_transfer_def create_erc20_transfer_def create_erc20_approve_def with_data_def Let_def
        priced_params_def priced_call_def external.dao_to_transaction_priced [OF assms(1)]
        dao_to_call_request_priced [OF assms(1)] laws)
qed

theorem built_transaction_faithful_witness:
  "dao_to_call_request ref_externals (priced ref_externals 3 21000 9 2 (create_eth_transfer ref_externals 0 1 2 5 None 7)) =
      Inr (priced_call 21000 9 2 1 2 7 None) \<and>
    dao_to_transaction ref_externals (priced ref_externals 3 21000 9 2 (create_eth_transfer ref_externals 0 1 2 5 None 7)) =
      Inr (priced_params 3 21000 9 2 2 7 [] 5)"
  using built_transaction_faithful [OF ref.external_axioms, of 3 21000 9 2 0 1 2 5 None 7] by (simp add: Let_def)

end
