(* ===== verification/Events.thy ===== *)
theory Events imports Rows Complex_Main begin

text \<open>
  The events of the driver and the state it shares with its front ends (\<open>events.rs\<close> and \<open>SharedState\<close> of
  \<open>runtime.rs\<close>). Amounts of type Decimal are rationals.
\<close>

datatype status_property =
    SP_CantSign i64 string
  | SP_NoGas i64 string rat
  | SP_NoToken i64 string rat
  | SP_Web3RpcError i64 string
  | SP_TxStuck i64

record shared_info_tx =
  si_message :: string
  si_error :: "string option"
  si_skip :: bool

record gas_low_info =
  gl_tx :: tx_db_obj
  gl_tx_max_fee_per_gas_gwei :: rat
  gl_block_date :: timestamp
  gl_block_number :: nat
  gl_block_base_fee_per_gas_gwei :: rat
  gl_assumed_min_priority_fee_gwei :: rat
  gl_user_friendly_message :: string

record no_gas_details =
  ng_tx :: tx_db_obj
  ng_gas_balance :: rat
  ng_gas_needed :: rat

record no_token_details =
  nt_tx :: tx_db_obj
  nt_sender :: "160 word"
  nt_token_balance :: rat
  nt_token_needed :: rat

datatype transaction_stuck_reason =
    NoGas no_gas_details
  | NoToken no_token_details
  | GasPriceLow gas_low_info
  | RPCEndpointProblems string

datatype transaction_failed_reason = Unknown

record transaction_finished_info =
  tf_token_transfer_dao :: token_transfer_db_obj
  tf_tx_dao :: tx_db_obj

datatype web3_rpc_pool_content = RpcSuccess | RpcError string | AllEndpointsFailed

record web3_rpc_pool_info =
  ri_chain_id :: "64 word"
  ri_content :: web3_rpc_pool_content

datatype cant_sign_content = CantSignTx tx_db_obj | CantSignAllowance allowance_db_obj

fun cant_sign_chain_id :: "cant_sign_content \<Rightarrow> i64" where
  "cant_sign_chain_id (CantSignTx tx) = t_chain_id tx"
| "cant_sign_chain_id (CantSignAllowance al) = al_chain_id al"

fun cant_sign_address :: "cant_sign_content \<Rightarrow> string" where
  "cant_sign_address (CantSignTx tx) = t_from_addr tx"
| "cant_sign_address (CantSignAllowance al) = al_owner al"

datatype driver_event_content =
    Alive
  | TransactionConfirmed tx_db_obj
  | TransferFinished transaction_finished_info
  | ApproveFinished allowance_db_obj
  | TransactionStuck transaction_stuck_reason
  | TransactionFailed transaction_failed_reason
  | CantSign cant_sign_content
  | StatusChanged "status_property list"
  | Web3RpcMessage web3_rpc_pool_info

section \<open>The shared state\<close>

record shared_state =
  sh_current_tx_info :: "i64 \<rightharpoonup> shared_info_tx"
  sh_inserted :: nat
  sh_idling :: bool

definition shared_initial :: shared_state where
  "shared_initial = \<lparr>sh_current_tx_info = Map.empty, sh_inserted = 0, sh_idling = False\<rparr>"

definition set_tx_message :: "i64 \<Rightarrow> string \<Rightarrow> shared_state \<Rightarrow> shared_state" where
  "set_tx_message i message s = (case sh_current_tx_info s i of
       Some info \<Rightarrow> s\<lparr>sh_current_tx_info := (sh_current_tx_info s)(i \<mapsto> info\<lparr>si_message := message\<rparr>)\<rparr>
     | None \<Rightarrow> s\<lparr>sh_current_tx_info := (sh_current_tx_info s)
         (i \<mapsto> \<lparr>si_message = message, si_error = None, si_skip = False\<rparr>)\<rparr>)"

definition set_tx_error :: "i64 \<Rightarrow> string option \<Rightarrow> shared_state \<Rightarrow> shared_state" where
  "set_tx_error i err s = (case sh_current_tx_info s i of
       Some info \<Rightarrow> s\<lparr>sh_current_tx_info := (sh_current_tx_info s)(i \<mapsto> info\<lparr>si_error := err\<rparr>)\<rparr>
     | None \<Rightarrow> s\<lparr>sh_current_tx_info := (sh_current_tx_info s)
         (i \<mapsto> \<lparr>si_message = '''', si_error = err, si_skip = False\<rparr>)\<rparr>)"

definition skip_tx :: "i64 \<Rightarrow> shared_state \<Rightarrow> bool \<times> shared_state" where
  "skip_tx i s = (case sh_current_tx_info s i of
       Some info \<Rightarrow> (True, s\<lparr>sh_current_tx_info := (sh_current_tx_info s)(i \<mapsto> info\<lparr>si_skip := True\<rparr>)\<rparr>)
     | None \<Rightarrow> (False, s))"

definition is_skipped :: "i64 \<Rightarrow> shared_state \<Rightarrow> bool" where
  "is_skipped i s = (case sh_current_tx_info s i of Some info \<Rightarrow> si_skip info | None \<Rightarrow> False)"

definition delete_tx_info :: "i64 \<Rightarrow> shared_state \<Rightarrow> shared_state" where
  "delete_tx_info i s = s\<lparr>sh_current_tx_info := (sh_current_tx_info s)(i := None)\<rparr>"

lemma is_skipped_set [simp]:
  "is_skipped j (set_tx_message i m s) = is_skipped j s"
  "is_skipped j (set_tx_error i e s) = is_skipped j s"
  "is_skipped j (delete_tx_info i s) = (j \<noteq> i \<and> is_skipped j s)"
  by (auto simp: is_skipped_def set_tx_message_def set_tx_error_def delete_tx_info_def split: option.splits)

end
