(* ===== verification/Status.thy ===== *)
theory Status imports Events begin

text \<open>
  The status tracker (\<open>StatusTracker\<close> of \<open>runtime.rs\<close>): the list of the driver's current problems,
  updated by every event, and the events it passes on. The tracker's task is the fold of
  \<open>tracker_step\<close> over the received events; its senders are represented by the list of what they send.
\<close>

text \<open>\<open>update\<close> walks the list and stops at the first property of the same kind, chain and address.\<close>

fun update_status :: "status_property list \<Rightarrow> status_property \<Rightarrow> bool \<times> status_property list" where
  "update_status [] new_p = (True, [new_p])"
| "update_status (old # rest) new_p =
     (case (old, new_p) of
        (SP_CantSign id1 addr1, SP_CantSign id2 addr2) \<Rightarrow>
          if id1 = id2 \<and> addr1 = addr2 then (False, old # rest)
          else (case update_status rest new_p of (b, r) \<Rightarrow> (b, old # r))
      | (SP_NoGas id1 addr1 _, SP_NoGas id2 addr2 new_missing) \<Rightarrow>
          if id1 = id2 \<and> addr1 = addr2 then (True, SP_NoGas id1 addr1 new_missing # rest)
          else (case update_status rest new_p of (b, r) \<Rightarrow> (b, old # r))
      | (SP_NoToken id1 addr1 _, SP_NoToken id2 addr2 new_missing) \<Rightarrow>
          if id1 = id2 \<and> addr1 = addr2 then (True, SP_NoToken id1 addr1 new_missing # rest)
          else (case update_status rest new_p of (b, r) \<Rightarrow> (b, old # r))
      | (SP_Web3RpcError id1 err1, SP_Web3RpcError id2 err2) \<Rightarrow>
          if id1 = id2 then (True, SP_Web3RpcError id1 err2 # rest)
          else (case update_status rest new_p of (b, r) \<Rightarrow> (b, old # r))
      | (SP_TxStuck id1, SP_TxStuck id2) \<Rightarrow>
          if id1 = id2 then (False, old # rest)
          else (case update_status rest new_p of (b, r) \<Rightarrow> (b, old # r))
      | _ \<Rightarrow> (case update_status rest new_p of (b, r) \<Rightarrow> (b, old # r)))"

fun status_chain :: "status_property \<Rightarrow> i64" where
  "status_chain (SP_CantSign c _) = c"
| "status_chain (SP_NoGas c _ _) = c"
| "status_chain (SP_NoToken c _ _) = c"
| "status_chain (SP_Web3RpcError c _) = c"
| "status_chain (SP_TxStuck c) = c"

definition clear_issues :: "status_property list \<Rightarrow> i64 \<Rightarrow> bool \<times> status_property list" where
  "clear_issues props ok_chain_id =
     (let old_len = length props; props' = filter (\<lambda>s. status_chain s \<noteq> ok_chain_id) props
      in (length props' \<noteq> old_len, props'))"

text \<open>The match on the event: whether the status changed, whether the event is passed on, the status.\<close>

fun handle_event :: "driver_event_content \<Rightarrow> status_property list \<Rightarrow> bool \<times> bool \<times> status_property list" where
  "handle_event (CantSign details) st = (case update_status st
      (SP_CantSign (cant_sign_chain_id details) (cant_sign_address details)) of (b, st') \<Rightarrow> (b, True, st'))"
| "handle_event (TransactionStuck (NoGas d)) st = (let missing_gas = ng_gas_needed d - ng_gas_balance d in
     case update_status st (SP_NoGas (t_chain_id (ng_tx d)) (t_from_addr (ng_tx d)) missing_gas) of
       (b, st') \<Rightarrow> (b, True, st'))"
| "handle_event (TransactionStuck (NoToken d)) st = (let missing_token = nt_token_balance d - nt_token_needed d in
     case update_status st (SP_NoToken (t_chain_id (nt_tx d)) (t_from_addr (nt_tx d)) missing_token) of
       (b, st') \<Rightarrow> (b, True, st'))"
| "handle_event (TransactionStuck (GasPriceLow d)) st =
     (case update_status st (SP_TxStuck (t_chain_id (gl_tx d))) of (b, st') \<Rightarrow> (b, True, st'))"
| "handle_event (TransferFinished info) st =
     (case clear_issues st (tt_chain_id (tf_token_transfer_dao info)) of (b, st') \<Rightarrow> (b, True, st'))"
| "handle_event (Web3RpcMessage info) st = (case ri_content info of
       RpcSuccess \<Rightarrow> (False, False, st)
     | RpcError err \<Rightarrow> (case update_status st (SP_Web3RpcError (sint (ri_chain_id info)) err) of
         (b, st') \<Rightarrow> (b, True, st'))
     | AllEndpointsFailed \<Rightarrow> (case update_status st
         (SP_Web3RpcError (sint (ri_chain_id info)) ''All endpoints failed'') of (b, st') \<Rightarrow> (b, True, st')))"
| "handle_event ev st = (False, True, st)"

definition tracker_step ::
    "driver_event_content \<Rightarrow> status_property list \<times> driver_event_content list \<Rightarrow>
     status_property list \<times> driver_event_content list" where
  "tracker_step ev s = (case s of (st, sent) \<Rightarrow> (case handle_event ev st of
     (emit_changed, pass_raw_message, st') \<Rightarrow>
       (st', sent @ (if pass_raw_message
          then ev # (if emit_changed then [StatusChanged st'] else []) else []))))"

definition run_tracker :: "driver_event_content list \<Rightarrow> status_property list \<times> driver_event_content list" where
  "run_tracker evs = fold tracker_step evs ([], [])"

section \<open>The status as a map\<close>

datatype status_kind = KCantSign | KNoGas | KNoToken | KWeb3RpcError | KTxStuck

fun status_key :: "status_property \<Rightarrow> status_kind \<times> i64 \<times> string" where
  "status_key (SP_CantSign c a) = (KCantSign, c, a)"
| "status_key (SP_NoGas c a _) = (KNoGas, c, a)"
| "status_key (SP_NoToken c a _) = (KNoToken, c, a)"
| "status_key (SP_Web3RpcError c _) = (KWeb3RpcError, c, '''')"
| "status_key (SP_TxStuck c) = (KTxStuck, c, '''')"

definition status_map :: "status_property list \<Rightarrow> (status_kind \<times> i64 \<times> string) \<rightharpoonup> status_property" where
  "status_map props = map_of (map (\<lambda>p. (status_key p, p)) props)"

definition status_ok :: "status_property list \<Rightarrow> bool" where
  "status_ok props \<longleftrightarrow> distinct (map status_key props)"

lemma update_status_skip:
  "status_key old \<noteq> status_key new_p \<Longrightarrow> update_status (old # rest) new_p =
    (fst (update_status rest new_p), old # snd (update_status rest new_p))"
  by (cases old; cases new_p) (auto simp: split_beta)

lemma update_status_hit:
  "status_key old = status_key new_p \<Longrightarrow> snd (update_status (old # rest) new_p) = new_p # rest"
  by (cases old; cases new_p) auto

lemma status_map_Cons: "status_map (p # ps) = (status_map ps)(status_key p \<mapsto> p)"
  by (simp add: status_map_def)

lemma status_map_update: "status_map (snd (update_status ps p)) = (status_map ps)(status_key p \<mapsto> p)"
proof (induction ps)
  case (Cons q ps)
  show ?case
  proof (cases "status_key q = status_key p")
    case True
    then show ?thesis by (simp only: update_status_hit status_map_Cons fun_upd_upd)
  next
    case False
    then show ?thesis
      unfolding update_status_skip [OF False] snd_conv status_map_Cons Cons.IH by (intro fun_upd_twist) simp
  qed
qed (simp add: status_map_def)

lemma keys_update:
  "map status_key (snd (update_status ps p)) =
    (if status_key p \<in> set (map status_key ps) then map status_key ps else map status_key ps @ [status_key p])"
proof (induction ps)
  case (Cons q ps)
  then show ?case
    by (cases "status_key q = status_key p")
      (simp_all add: update_status_hit update_status_skip del: update_status.simps)
qed simp

lemma status_ok_update: "status_ok ps \<Longrightarrow> status_ok (snd (update_status ps p))"
  by (simp add: status_ok_def keys_update del: set_map)

lemma update_status_False: "update_status ps p = (False, qs) \<Longrightarrow> qs = ps \<and> p \<in> set ps"
proof (induction ps arbitrary: qs)
  case (Cons q ps)
  then show ?case
    by (cases "status_key q = status_key p") 
      (cases q; cases p; auto split: prod.splits if_splits)+
qed simp

lemma status_ok_clear: "status_ok ps \<Longrightarrow> status_ok (snd (clear_issues ps c))"
  by (simp add: status_ok_def clear_issues_def Let_def distinct_map_filter)

lemma status_key_chain: "fst (snd (status_key p)) = status_chain p"
  by (cases p) simp_all

lemma status_map_clear:
  "status_map (snd (clear_issues ps c)) = (\<lambda>k. if fst (snd k) = c then None else status_map ps k)"
proof (induction ps)
  case (Cons p ps)
  then show ?case
    by (cases "status_key p") (auto simp: clear_issues_def Let_def status_map_Cons status_key_chain [symmetric] fun_eq_iff)
qed (simp add: clear_issues_def status_map_def fun_eq_iff)

lemma handle_event_ok: "status_ok st \<Longrightarrow> status_ok (snd (snd (handle_event ev st)))"
  by (induction ev st rule: handle_event.induct)
    (auto simp: Let_def split_beta status_ok_update status_ok_clear split: web3_rpc_pool_content.splits)

section \<open>Properties\<close>

text \<open>C5. The status list implements a map from kind, chain and address to the latest property: an
  update sets exactly the key of the new property, and it reports no change only when the property was
  already there; clearing a chain removes exactly the properties of that chain and reports whether there
  was one. Neither operation creates a duplicate.\<close>

theorem status_tracker_refines_map:
  assumes "status_ok props"
  shows "status_map (snd (update_status props p)) = (status_map props)(status_key p \<mapsto> p) \<and>
    status_ok (snd (update_status props p)) \<and>
    (\<not> fst (update_status props p) \<longrightarrow> snd (update_status props p) = props \<and> p \<in> set props) \<and>
    status_map (snd (clear_issues props c)) = (\<lambda>k. if fst (snd k) = c then None else status_map props k) \<and>
    status_ok (snd (clear_issues props c)) \<and>
    fst (clear_issues props c) = (\<exists>q\<in>set props. status_chain q = c)"
proof -
  have "fst (clear_issues props c) = (\<exists>q\<in>set props. status_chain q = c)"
  proof (cases "\<exists>q\<in>set props. status_chain q = c")
    case True
    then have "length (filter (\<lambda>s. status_chain s \<noteq> c) props) < length props"
      by (auto intro: length_filter_less)
    with True show ?thesis by (simp add: clear_issues_def Let_def)
  next
    case False
    then have "filter (\<lambda>s. status_chain s \<noteq> c) props = props" by (auto intro: filter_True)
    with False show ?thesis by (simp add: clear_issues_def Let_def)
  qed
  moreover have "\<not> fst (update_status props p) \<longrightarrow> snd (update_status props p) = props \<and> p \<in> set props"
    using update_status_False [of props p "snd (update_status props p)"] by (metis prod.collapse)
  ultimately show ?thesis
    using assms by (intro conjI status_map_update status_ok_update status_map_clear status_ok_clear) blast+
qed

theorem status_tracker_refines_map_witness:
  "snd (update_status [SP_TxStuck 5, SP_NoGas 5 ''a'' 1] (SP_NoGas 5 ''a'' 2)) = [SP_TxStuck 5, SP_NoGas 5 ''a'' 2]
    \<and> status_ok (snd (update_status [SP_TxStuck 5, SP_NoGas 5 ''a'' 1] (SP_NoGas 5 ''a'' 2)))"
proof -
  have "status_ok [SP_TxStuck 5, SP_NoGas 5 ''a'' 1]" by (simp add: status_ok_def)
  then show ?thesis using status_tracker_refines_map [of "[SP_TxStuck 5, SP_NoGas 5 ''a'' 1]" "SP_NoGas 5 ''a'' 2" 5]
    by simp
qed

lemma run_tracker_snoc: "run_tracker (evs @ [ev]) = tracker_step ev (run_tracker evs)"
  by (simp add: run_tracker_def)

lemma run_tracker_ok: "status_ok (fst (run_tracker evs))"
proof (induction evs rule: rev_induct)
  case (snoc ev evs)
  then show ?case
    using handle_event_ok [of "fst (run_tracker evs)" ev]
    by (simp add: run_tracker_snoc tracker_step_def split_beta)
qed (simp add: run_tracker_def status_ok_def)

text \<open>The two kinds of event the property treats apart: the status messages the tracker sends itself,
  and the reports of a successful RPC call, which it keeps back.\<close>

fun is_status_changed :: "driver_event_content \<Rightarrow> bool" where
  "is_status_changed (StatusChanged s) = True"
| "is_status_changed _ = False"

fun is_rpc_success :: "driver_event_content \<Rightarrow> bool" where
  "is_rpc_success (Web3RpcMessage i) = (ri_content i = RpcSuccess)"
| "is_rpc_success _ = False"

text \<open>After any sequence of events no problem is listed twice, every event but the RPC successes has
  been passed on in order, and a finished transfer leaves no problem of its chain in the status.\<close>

theorem tracker_forwards_and_clears:
  "status_ok (fst (run_tracker evs)) \<and>
    filter (\<lambda>e. \<not> is_status_changed e) (snd (run_tracker evs)) =
      filter (\<lambda>e. \<not> is_status_changed e \<and> \<not> is_rpc_success e) evs \<and>
    tt_chain_id (tf_token_transfer_dao info) \<notin>
      status_chain ` set (fst (run_tracker (evs @ [TransferFinished info])))"
proof (intro conjI)
  have pass: "fst (snd (handle_event ev st)) = (\<not> is_rpc_success ev)" for ev st
    by (induction ev st rule: handle_event.induct) (auto simp: Let_def split_beta split: web3_rpc_pool_content.splits)
  show "filter (\<lambda>e. \<not> is_status_changed e) (snd (run_tracker evs)) =
      filter (\<lambda>e. \<not> is_status_changed e \<and> \<not> is_rpc_success e) evs"
  proof (induction evs rule: rev_induct)
    case (snoc ev evs)
    then show ?case
      using pass [of ev "fst (run_tracker evs)"]
      by (auto simp: run_tracker_snoc tracker_step_def split_beta)
  qed (simp add: run_tracker_def)
  show "tt_chain_id (tf_token_transfer_dao info) \<notin>
      status_chain ` set (fst (run_tracker (evs @ [TransferFinished info])))"
    by (auto simp: run_tracker_snoc tracker_step_def split_beta clear_issues_def Let_def)
qed (rule run_tracker_ok)

text \<open>The two shortages are reported with opposite signs: a gas shortage as what is needed minus what
  is there, a token shortage as what is there minus what is needed, so a missing token amount shows
  up as a negative number.\<close>

theorem shortage_signs:
  "handle_event (TransactionStuck (NoGas g)) [] =
     (True, True, [SP_NoGas (t_chain_id (ng_tx g)) (t_from_addr (ng_tx g)) (ng_gas_needed g - ng_gas_balance g)]) \<and>
   handle_event (TransactionStuck (NoToken d)) [] =
     (True, True, [SP_NoToken (t_chain_id (nt_tx d)) (t_from_addr (nt_tx d)) (- (nt_token_needed d - nt_token_balance d))])"
  by simp

end
