(* ===== verification/World.thy ===== *)
theory World imports TxBuild Amounts Events Integrity begin

text \<open>
  The state the driver's tasks work on and the world they ask. \<open>world\<close> is the database, the shared
  state, the events sent and a counter of the questions asked so far; \<open>env\<close> holds the answers as
  functions of that counter: the clock, every call of the RPC pool, the signer, the environment
  variables, and what comes from other crates. A run of a handler is thus a function of the world for
  any behaviour of the network. \<open>payment_setup\<close> and \<open>chain_setup\<close> are the fields of \<open>setup.rs\<close> the
  handlers read. Sleeping changes nothing but the later answers of the clock.
\<close>

record block_info =
  bk_number :: "nat option"
  bk_timestamp :: u256
  bk_base_fee_per_gas :: "u256 option"

record eth_log =
  lg_address :: address
  lg_topics :: "h256 list"
  lg_data :: bytes
  lg_transaction_hash :: "h256 option"
  lg_block_number :: "nat option"

record eth_receipt =
  rc_from :: address
  rc_to :: "address option"
  rc_block_number :: "nat option"
  rc_status :: "nat option"
  rc_gas_used :: "u256 option"
  rc_effective_gas_price :: "u256 option"
  rc_logs :: "eth_log list"

record eth_transaction =
  et_from :: "address option"
  et_to :: "address option"
  et_nonce :: u256
  et_gas :: u256
  et_value :: u256
  et_max_fee_per_gas :: "u256 option"
  et_max_priority_fee_per_gas :: "u256 option"
  et_input :: bytes

text \<open>A block is asked for by number or as the latest one (\<open>None\<close>).\<close>

record env =
  ev_ext :: externals
  ev_now :: "nat \<Rightarrow> timestamp"
  ev_block_number :: "nat \<Rightarrow> web3_error + nat"
  ev_balance :: "nat \<Rightarrow> address \<Rightarrow> nat option \<Rightarrow> web3_error + u256"
  ev_call :: "nat \<Rightarrow> call_request \<Rightarrow> nat option \<Rightarrow> web3_error + bytes"
  ev_block :: "nat \<Rightarrow> nat option \<Rightarrow> web3_error + block_info option"
  ev_transaction_count :: "nat \<Rightarrow> address \<Rightarrow> bool \<Rightarrow> web3_error + u256"
  ev_estimate_gas :: "nat \<Rightarrow> call_request \<Rightarrow> web3_error + u256"
  ev_send_raw :: "nat \<Rightarrow> bytes \<Rightarrow> web3_error + h256"
  ev_receipt :: "nat \<Rightarrow> h256 \<Rightarrow> web3_error + eth_receipt option"
  ev_transaction :: "nat \<Rightarrow> h256 \<Rightarrow> web3_error + eth_transaction option"
  ev_logs :: "nat \<Rightarrow> address \<Rightarrow> h256 list option \<Rightarrow> h256 list option \<Rightarrow> int \<Rightarrow> int \<Rightarrow> web3_error + eth_log list"
  ev_sign_possible :: "nat \<Rightarrow> address \<Rightarrow> string + unit"
  ev_sign :: "nat \<Rightarrow> address \<Rightarrow> transaction_parameters \<Rightarrow> string + bytes \<times> h256"
  ev_event_sender :: bool
  ev_getenv :: "string \<Rightarrow> string option"
  ev_error_text :: "web3_error \<Rightarrow> string"
  ev_from_timestamp :: "int \<Rightarrow> timestamp option"
  ev_checked_mul :: "rat \<Rightarrow> rat \<Rightarrow> rat option"
  ev_dec_from_str_exact :: "string \<Rightarrow> rat option"
  ev_decode_deposit :: "bytes \<Rightarrow> (u256 \<times> u256 \<times> address \<times> address \<times> u256 \<times> u256 \<times> u256) option"
  ev_bag_text :: "error_bag \<Rightarrow> string"

record chain_setup =
  cs_chain_id :: i64
  cs_max_fee_per_gas :: u256
  cs_priority_fee :: u256
  cs_glm_address :: address
  cs_multi_contract_address :: "address option"
  cs_lock_contract_address :: "address option"
  cs_multi_contract_max_at_once :: nat
  cs_transaction_timeout :: nat
  cs_confirmation_blocks :: nat
  cs_replacement_timeout :: "rat option"

record payment_setup =
  ps_chain_setup :: "i64 \<rightharpoonup> chain_setup"
  ps_finish_when_done :: bool
  ps_generate_tx_only :: bool
  ps_skip_multi_contract_check :: bool
  ps_no_gas_or_token_start :: nat
  ps_no_gas_or_token_max :: nat
  ps_no_gas_or_token_increase :: rat
  ps_gather_interval :: nat
  ps_gather_at_start :: bool
  ps_mark_as_unrecoverable_after_seconds :: nat
  ps_ignore_deadlines :: bool
  ps_automatic_recover :: bool
  ps_contract_use_direct_method :: bool
  ps_contract_use_unpacked_method :: bool
  ps_use_transfer_for_single_payment :: bool

record world =
  w_db :: db
  w_shared :: shared_state
  w_events :: "driver_event_content list"
  w_tick :: nat

type_synonym 'a prg = "(world, failure, 'a) prog"

definition world_initial :: world where
  "world_initial = \<lparr>w_db = db_empty, w_shared = shared_initial, w_events = [], w_tick = 0\<rparr>"

section \<open>The basic steps\<close>

text \<open>A statement outside of a database transaction, and a whole transaction.\<close>

definition on_db :: "(db, failure, 'a) prog \<Rightarrow> 'a prg" where
  "on_db m = zoom w_db (\<lambda>d w. w\<lparr>w_db := d\<rparr>) m"

definition db_run :: "'a dbp \<Rightarrow> 'a prg" where
  "db_run m = on_db (sqlx m)"

definition db_transaction :: "(db, failure, 'a) prog \<Rightarrow> 'a prg" where
  "db_transaction m = on_db (atomically m)"

text \<open>A database transaction whose body also asks the clock: only the database is rolled back.\<close>

definition in_transaction :: "'a prg \<Rightarrow> 'a prg" where
  "in_transaction m w = (case m w of (Inl e, w') \<Rightarrow> (Inl e, w'\<lparr>w_db := w_db w\<rparr>) | (Inr a, w') \<Rightarrow> (Inr a, w'))"

definition ask :: "(nat \<Rightarrow> 'a) \<Rightarrow> 'a prg" where
  "ask f w = (Inr (f (w_tick w)), w\<lparr>w_tick := w_tick w + 1\<rparr>)"

definition now :: "env \<Rightarrow> timestamp prg" where
  "now V = ask (ev_now V)"

text \<open>Matching on the returned error; a panic is not caught.\<close>

definition catch_err :: "'a prg \<Rightarrow> (error_bag + 'a) prg" where
  "catch_err m w = (case m w of
       (Inl (Err e), w') \<Rightarrow> (Inr (Inl e), w') | (Inl f, w') \<Rightarrow> (Inl f, w') | (Inr a, w') \<Rightarrow> (Inr (Inr a), w'))"

definition rpc :: "(nat \<Rightarrow> web3_error + 'a) \<Rightarrow> 'a prg" where
  "rpc f = bindM (ask f) (\<lambda>r. case r of Inl e \<Rightarrow> throw (Err (Web3Error e)) | Inr a \<Rightarrow> ret a)"

definition shared :: "(shared_state \<Rightarrow> shared_state) \<Rightarrow> unit prg" where
  "shared f = modify (\<lambda>w. w\<lparr>w_shared := f (w_shared w)\<rparr>)"

definition send_driver_event :: "env \<Rightarrow> driver_event_content \<Rightarrow> unit prg" where
  "send_driver_event V event = (if ev_event_sender V
     then modify (\<lambda>w. w\<lparr>w_events := w_events w @ [event]\<rparr>) else ret ())"

definition get_provider :: "payment_setup \<Rightarrow> i64 \<Rightarrow> failure + unit" where
  "get_provider S chain_id = (case ps_chain_setup S chain_id of
       None \<Rightarrow> Inl (err_custom ''No chain setup for chain id'') | Some _ \<Rightarrow> Inr ())"

definition get_env_bool_value :: "env \<Rightarrow> string \<Rightarrow> bool" where
  "get_env_bool_value V name = (case ev_getenv V name of None \<Rightarrow> False | Some v \<Rightarrow> v = ''1'' \<or> v = ''true'')"

definition datetime_from_u256_timestamp :: "env \<Rightarrow> u256 \<Rightarrow> failure + timestamp option" where
  "datetime_from_u256_timestamp V timestamp = bindE (as_u64 timestamp)
     (\<lambda>t. Inr (ev_from_timestamp V (if t < 2 ^ 63 then int t else int t - 2 ^ 64)))"

text \<open>Substring search on messages.\<close>

fun contains :: "string \<Rightarrow> string \<Rightarrow> bool" where
  "contains [] p = (p = [])"
| "contains (c # s) p = (take (length p) (c # s) = p \<or> contains s p)"

section \<open>The database invariant across the steps\<close>

definition world_ok :: "world \<Rightarrow> bool" where
  "world_ok w \<longleftrightarrow> db_ok (w_db w)"

lemma world_ok_initial: "world_ok world_initial"
  by (simp add: world_ok_def world_initial_def db_ok_empty)

lemma world_ok_upd [simp]:
  "world_ok (w\<lparr>w_tick := n\<rparr>) = world_ok w" "world_ok (w\<lparr>w_events := es\<rparr>) = world_ok w"
  "world_ok (w\<lparr>w_shared := s\<rparr>) = world_ok w" "world_ok (w\<lparr>w_db := d\<rparr>) = db_ok d"
  by (simp_all add: world_ok_def)

lemma preserves_on_db [preserves_intro]: "preserves db_ok m \<Longrightarrow> preserves world_ok (on_db m)"
  by (auto simp: preserves_def on_db_def zoom_def world_ok_def split_beta)

lemma preserves_db_run [preserves_intro]: "preserves db_ok m \<Longrightarrow> preserves world_ok (db_run m)"
  unfolding db_run_def by (intro preserves_intro)

lemma preserves_db_transaction [preserves_intro]: "preserves db_ok m \<Longrightarrow> preserves world_ok (db_transaction m)"
  unfolding db_transaction_def by (intro preserves_intro)

lemma preserves_in_transaction [preserves_intro]: "preserves world_ok m \<Longrightarrow> preserves world_ok (in_transaction m)"
  by (auto simp: preserves_def in_transaction_def world_ok_def split: prod.splits sum.splits)

lemma in_transaction_Inr [monad_simps]: "in_transaction m w = (Inr a, w') \<longleftrightarrow> m w = (Inr a, w')"
  by (auto simp: in_transaction_def split: prod.splits sum.splits)

lemma preserves_ask [preserves_intro]: "preserves world_ok (ask f)"
  by (simp add: preserves_def ask_def)

lemma preserves_now [preserves_intro]: "preserves world_ok (now V)"
  unfolding now_def by (rule preserves_ask)

lemma preserves_catch_err [preserves_intro]: "preserves I m \<Longrightarrow> preserves I (catch_err m)"
  by (auto simp: preserves_def catch_err_def split: prod.splits sum.splits failure.splits)

lemma preserves_rpc [preserves_intro]: "preserves world_ok (rpc f)"
  unfolding rpc_def by (intro preserves_intro) (auto split: sum.split intro: preserves_intro)

lemma preserves_shared [preserves_intro]: "preserves world_ok (shared f)"
  unfolding shared_def by (intro preserves_modify) simp

lemma preserves_send_driver_event [preserves_intro]: "preserves world_ok (send_driver_event V e)"
  unfolding send_driver_event_def by (intro preserves_if preserves_modify preserves_ret) simp_all

lemma preserves_case_sum [preserves_intro]:
  "(\<And>e. x = Inl e \<Longrightarrow> preserves I (f e)) \<Longrightarrow> (\<And>a. x = Inr a \<Longrightarrow> preserves I (g a)) \<Longrightarrow>
    preserves I (case x of Inl e \<Rightarrow> f e | Inr a \<Rightarrow> g a)"
  by (cases x) simp_all

lemma preserves_case_prod [preserves_intro]:
  "(\<And>a b. x = (a, b) \<Longrightarrow> preserves I (f a b)) \<Longrightarrow> preserves I (case x of (a, b) \<Rightarrow> f a b)"
  by (cases x) simp

lemma rpc_done: "rpc f w = (Inr a, w') \<longleftrightarrow> f (w_tick w) = Inr a \<and> w' = w\<lparr>w_tick := w_tick w + 1\<rparr>"
  by (auto simp: rpc_def bindM_def ask_def split: sum.splits)

lemma db_transaction_failed: "db_transaction m w = (Inl e, w') \<Longrightarrow> w' = w"
  by (auto simp: db_transaction_def on_db_def zoom_def split: prod.splits dest!: atomically_Inl_state)

lemma db_transaction_eq:
  "db_transaction m w = (case m (w_db w) of (Inl e, d) \<Rightarrow> (Inl e, w) | (Inr a, d) \<Rightarrow> (Inr a, w\<lparr>w_db := d\<rparr>))"
  by (simp add: db_transaction_def on_db_def zoom_def atomically_def split: prod.split sum.split)

lemma db_run_eq:
  "db_run m w = (case m (w_db w) of (Inl e, d) \<Rightarrow> (Inl (Err (SQLxError e)), w\<lparr>w_db := d\<rparr>)
     | (Inr a, d) \<Rightarrow> (Inr a, w\<lparr>w_db := d\<rparr>))"
  by (simp add: db_run_def on_db_def zoom_def sqlx_def split: prod.split sum.split)

lemma db_transaction_done:
  "db_transaction m w = (Inr a, w') \<longleftrightarrow> (\<exists>d. m (w_db w) = (Inr a, d) \<and> w' = w\<lparr>w_db := d\<rparr>)"
  by (auto simp: db_transaction_eq split: prod.split sum.split)

lemma db_run_Inr: "db_run m w = (Inr a, w') \<longleftrightarrow> (\<exists>d. m (w_db w) = (Inr a, d) \<and> w' = w\<lparr>w_db := d\<rparr>)"
  by (auto simp: db_run_eq split: prod.split sum.split)

end
