(* ===== verification/Batching.thy ===== *)
theory Batching imports World begin

text \<open>
  Gathering pending token transfers into transactions (\<open>sender/batching.rs\<close>). The hash maps of the code
  are association lists in insertion order; the order in which the map of multi orders is visited is
  the argument \<open>visit\<close>, because the code's hash map leaves it open. On an error the code still uses the order
  vector its callee has modified, so \<open>gather_transactions_batch_multi\<close> returns that vector with its result.
\<close>

record token_transfer_key =
  k_from_addr :: string
  k_receiver_addr :: string
  k_chain_id :: i64
  k_token_addr :: "string option"
  k_deposit_id :: "string option"

record token_transfer_multi_key =
  mk_from_addr :: string
  mk_chain_id :: i64
  mk_token_addr :: "string option"
  mk_deposit_id :: "string option"

record token_transfer_multi_order =
  mo_receiver :: address
  mo_token_transfers :: "token_transfer_db_obj list"

type_synonym token_transfer_map = "(token_transfer_key \<times> token_transfer_db_obj list) list"

text \<open>\<open>get_mut\<close> and push, or insert a new vector.\<close>

fun map_push :: "'k \<Rightarrow> 'v \<Rightarrow> ('k \<times> 'v list) list \<Rightarrow> ('k \<times> 'v list) list" where
  "map_push k v [] = [(k, [v])]"
| "map_push k v ((k', vs) # m) = (if k' = k then (k', vs @ [v]) # m else (k', vs) # map_push k v m)"

section \<open>gather_transactions_pre\<close>

definition mark_transfer_error :: "token_transfer_db_obj \<Rightarrow> string \<Rightarrow> unit prg" where
  "mark_transfer_error f msg = bindM (db_run (update_token_transfer (f\<lparr>tt_error := Some msg\<rparr>))) (\<lambda>_. ret ())"

definition transfer_key :: "token_transfer_db_obj \<Rightarrow> token_transfer_key" where
  "transfer_key f = \<lparr>k_from_addr = tt_from_addr f, k_receiver_addr = tt_receiver_addr f, k_chain_id = tt_chain_id f,
     k_token_addr = tt_token_addr f, k_deposit_id = tt_deposit_id f\<rparr>"

definition is_close_marker :: "externals \<Rightarrow> token_transfer_db_obj \<Rightarrow> bool" where
  "is_close_marker E f \<longleftrightarrow> tt_deposit_finish f > 0 \<and> addr_of_str E (tt_receiver_addr f) = Some 0 \<and>
     u256_of_dec E (tt_token_amount f) = Some 0"

definition lock_contract_of :: "payment_setup \<Rightarrow> i64 \<Rightarrow> failure + address" where
  "lock_contract_of S chain_id =
     bindE (ok_or (err_custom ''No setup found for chain id'') (ps_chain_setup S chain_id)) (\<lambda>cs.
       ok_or (err_custom ''Lock contract address not set for chain id'') (cs_lock_contract_address cs))"

definition parse_deposit_id :: "externals \<Rightarrow> string \<Rightarrow> failure + u256" where
  "parse_deposit_id E deposit_id = ok_or (err_custom ''Invalid deposit id'') (u256_of_hex E deposit_id)"

definition close_deposit_of_transfer :: "env \<Rightarrow> payment_setup \<Rightarrow> token_transfer_db_obj \<Rightarrow> string \<Rightarrow> unit prg" where
  "close_deposit_of_transfer V S f deposit_id =
     bindM (liftR (parse_deposit_id (ev_ext V) deposit_id)) (\<lambda>deposit_id_u256.
     bindM (liftR (lock_contract_of S (tt_chain_id f))) (\<lambda>lock_contract_address.
     bindM (liftR (parse_address (ev_ext V) (tt_from_addr f))) (\<lambda>from_addr.
     bindM (now V) (\<lambda>t.
     bindM (liftR (create_close_deposit (ev_ext V) t from_addr lock_contract_address
              (i64_as_u64 (tt_chain_id f)) None deposit_id_u256)) (\<lambda>close_tx.
       db_transaction
         (bindM (sqlx (insert_tx close_tx)) (\<lambda>new_tx.
          bindM (sqlx (update_token_transfer (f\<lparr>tt_tx_id := Some (t_id new_tx)\<rparr>))) (\<lambda>_. ret ()))))))))"

definition gather_pre_step ::
    "env \<Rightarrow> payment_setup \<Rightarrow> token_transfer_map \<times> bool \<Rightarrow> token_transfer_db_obj \<Rightarrow> (token_transfer_map \<times> bool) prg" where
  "gather_pre_step V S acc f =
     (let E = ev_ext V; (transfer_map, process_tx_needed) = acc;
          skip_with = (\<lambda>msg. bindM (mark_transfer_error f msg) (\<lambda>_. ret (transfer_map, process_tx_needed)));
          group_it = (case addr_of_str E (tt_receiver_addr f) of
              None \<Rightarrow> skip_with ''Invalid receiver address''
            | Some rec_address \<Rightarrow> if rec_address = 0 then skip_with ''receiver_addr is zero''
                else ret (map_push (transfer_key f) f transfer_map, process_tx_needed))
      in case addr_of_str E (tt_from_addr f) of
           None \<Rightarrow> skip_with ''Invalid from address''
         | Some from_addr \<Rightarrow>
             if from_addr = 0 then skip_with ''from_addr is zero''
             else (case tt_deposit_id f of
                 Some deposit_id \<Rightarrow>
                   if is_close_marker E f
                   then bindM (close_deposit_of_transfer V S f deposit_id) (\<lambda>_. ret (transfer_map, True))
                   else group_it
               | None \<Rightarrow> group_it))"

definition gather_transactions_pre ::
    "env \<Rightarrow> payment_setup \<Rightarrow> address \<Rightarrow> i64 \<Rightarrow> (token_transfer_map \<times> bool) prg" where
  "gather_transactions_pre V S account chain_id =
     bindM (db_run (get_pending_token_transfers (ev_ext V) account chain_id)) (\<lambda>token_transfers.
       foldM (gather_pre_step V S) ([], False) token_transfers)"

section \<open>gather_transactions_batch_multi\<close>

definition minimum_allowance :: u256 where
  "minimum_allowance = u256_max div 2"

definition allowance_not_met :: "externals \<Rightarrow> allowance_db_obj option \<Rightarrow> failure + bool" where
  "allowance_not_met E db_allowance = (case db_allowance of
       None \<Rightarrow> Inr True
     | Some al \<Rightarrow> (case al_confirm_date al of
           None \<Rightarrow> Inr True
         | Some _ \<Rightarrow> bindE (parse_dec E (al_allowance al)) (\<lambda>allowance. Inr (allowance < minimum_allowance))))"

definition check_multi_allowance ::
    "env \<Rightarrow> payment_setup \<Rightarrow> chain_setup \<Rightarrow> token_transfer_multi_key \<Rightarrow> string \<Rightarrow> unit prg" where
  "check_multi_allowance V S cs key token_addr =
     (if ps_skip_multi_contract_check S \<or> mk_deposit_id key \<noteq> None then ret ()
      else (case cs_multi_contract_address cs of
          None \<Rightarrow> ret ()
        | Some multi \<Rightarrow>
            bindM (db_run (find_allowance (mk_from_addr key) token_addr (str_of_addr (ev_ext V) multi) (mk_chain_id key)))
              (\<lambda>db_allowance. bindM (liftR (allowance_not_met (ev_ext V) db_allowance)) (\<lambda>not_met.
                if not_met
                then throw (Err (NoAllowanceFound \<lparr>ar_owner = mk_from_addr key, ar_token_addr = token_addr,
                   ar_spender_addr = str_of_addr (ev_ext V) multi, ar_chain_id = mk_chain_id key,
                   ar_amount = u256_max\<rparr>))
                else ret ()))))"

function chunks :: "nat \<Rightarrow> 'a list \<Rightarrow> 'a list list" where
  "chunks n xs = (if n = 0 \<or> xs = [] then [] else take n xs # chunks n (drop n xs))"
  by pat_completeness auto
termination
  by (relation "measure (length \<circ> snd)") auto

declare chunks.simps [simp del]

fun sum_transfers :: "externals \<Rightarrow> u256 \<Rightarrow> token_transfer_db_obj list \<Rightarrow> failure + u256" where
  "sum_transfers E acc [] = Inr acc"
| "sum_transfers E acc (t # ts) =
     bindE (parse_dec E (tt_token_amount t)) (\<lambda>a. bindE (u256_add acc a) (\<lambda>s. sum_transfers E s ts))"

fun sum_orders :: "externals \<Rightarrow> token_transfer_multi_order list \<Rightarrow> failure + u256 list" where
  "sum_orders E [] = Inr []"
| "sum_orders E (o' # os) = bindE (sum_transfers E 0 (mo_token_transfers o')) (\<lambda>s.
     bindE (sum_orders E os) (\<lambda>ss. Inr (s # ss)))"

definition orders_finish :: "token_transfer_multi_order list \<Rightarrow> bool" where
  "orders_finish os \<longleftrightarrow> list_ex (\<lambda>o'. list_ex (\<lambda>t. tt_deposit_finish t > 0) (mo_token_transfers o')) os"

text \<open>The transaction of one chunk.\<close>

definition chunk_transaction ::
    "externals \<Rightarrow> timestamp \<Rightarrow> payment_setup \<Rightarrow> chain_setup \<Rightarrow> token_transfer_multi_key \<Rightarrow> string \<Rightarrow>
     address list \<Rightarrow> u256 list \<Rightarrow> bool \<Rightarrow> failure + tx_db_obj" where
  "chunk_transaction E t S cs key token_addr erc20_to erc20_amounts is_deposit_finish =
     (let use_transfer_for_single_payment =
            (ps_use_transfer_for_single_payment S \<or> cs_multi_contract_address cs = None);
          chain_id = i64_as_u64 (mk_chain_id key);
          lock_contract = ok_or (err_custom ''Lock contract address not set for chain id'') (cs_lock_contract_address cs)
      in if use_transfer_for_single_payment \<and> length erc20_to = 1 then
           (case mk_deposit_id key of
              Some deposit_id \<Rightarrow>
                bindE lock_contract (\<lambda>lock. bindE (parse_deposit_id E deposit_id) (\<lambda>dep.
                bindE (parse_address E (mk_from_addr key)) (\<lambda>from_a.
                  create_erc20_deposit_transfer E t \<lparr>sd_from = from_a, sd_lock_contract = lock,
                    sd_erc20_to = erc20_to ! 0, sd_erc20_amount = erc20_amounts ! 0, sd_chain_id = chain_id,
                    sd_gas_limit = None, sd_deposit_id = dep, sd_deposit_finish = is_deposit_finish\<rparr>)))
            | None \<Rightarrow>
                bindE (parse_address E (mk_from_addr key)) (\<lambda>from_a. bindE (parse_address E token_addr) (\<lambda>tok.
                  create_erc20_transfer E t from_a tok (erc20_to ! 0) (erc20_amounts ! 0) chain_id None)))
         else (case mk_deposit_id key of
              Some deposit_id \<Rightarrow>
                bindE lock_contract (\<lambda>lock. bindE (parse_deposit_id E deposit_id) (\<lambda>dep.
                bindE (parse_address E (mk_from_addr key)) (\<lambda>from_a.
                  create_erc20_transfer_multi_deposit E t \<lparr>md_from = from_a, md_lock_contract = lock,
                    md_erc20_to = erc20_to, md_erc20_amount = erc20_amounts, md_chain_id = chain_id,
                    md_gas_limit = None, md_deposit_id = dep, md_deposit_finish = is_deposit_finish\<rparr>)))
            | None \<Rightarrow> (case cs_multi_contract_address cs of
                  Some multi \<Rightarrow>
                    bindE (parse_address E (mk_from_addr key)) (\<lambda>from_a.
                      create_erc20_transfer_multi E t \<lparr>mt_from = from_a, mt_contract = multi, mt_erc20_to = erc20_to,
                        mt_erc20_amount = erc20_amounts, mt_chain_id = chain_id, mt_gas_limit = None,
                        mt_direct = ps_contract_use_direct_method S, mt_unpacked = ps_contract_use_unpacked_method S\<rparr>)
                | None \<Rightarrow> Inl (err_custom
                    ''Multi contract address not set, but it is needed to process transactions''))))"

definition assign_tx :: "i64 \<Rightarrow> token_transfer_db_obj list \<Rightarrow> token_transfer_db_obj list" where
  "assign_tx i ts = map (\<lambda>t. t\<lparr>tt_tx_id := Some i\<rparr>) ts"

definition insert_with_transfers ::
    "tx_db_obj \<Rightarrow> token_transfer_db_obj list \<Rightarrow> (db, failure, tx_db_obj) prog" where
  "insert_with_transfers web3tx ts =
     bindM (sqlx (insert_tx web3tx)) (\<lambda>web3_tx_dao.
     bindM (forM (assign_tx (t_id web3_tx_dao) ts) (\<lambda>t. bindM (sqlx (update_token_transfer t)) (\<lambda>_. ret ())))
       (\<lambda>_. ret web3_tx_dao))"

definition batch_chunk ::
    "env \<Rightarrow> payment_setup \<Rightarrow> chain_setup \<Rightarrow> token_transfer_multi_key \<Rightarrow> string \<Rightarrow>
     token_transfer_multi_order list \<Rightarrow> tx_db_obj prg" where
  "batch_chunk V S cs key token_addr smaller_order =
     bindM (liftR (sum_orders (ev_ext V) smaller_order)) (\<lambda>erc20_amounts.
     bindM (now V) (\<lambda>t.
     bindM (liftR (chunk_transaction (ev_ext V) t S cs key token_addr (map mo_receiver smaller_order)
              erc20_amounts (orders_finish smaller_order))) (\<lambda>web3tx.
       db_transaction (insert_with_transfers web3tx (concat (map mo_token_transfers smaller_order))))))"

definition assign_orders :: "i64 \<Rightarrow> token_transfer_multi_order list \<Rightarrow> token_transfer_multi_order list" where
  "assign_orders i os = map (\<lambda>o'. o'\<lparr>mo_token_transfers := assign_tx i (mo_token_transfers o')\<rparr>) os"

fun batch_chunks ::
    "env \<Rightarrow> payment_setup \<Rightarrow> chain_setup \<Rightarrow> token_transfer_multi_key \<Rightarrow> string \<Rightarrow>
     token_transfer_multi_order list list \<Rightarrow> (token_transfer_multi_order list \<times> (error_bag + nat)) prg" where
  "batch_chunks V S cs key token_addr [] = ret ([], Inr 1)"
| "batch_chunks V S cs key token_addr (c # chunks') =
     bindM (catch_err (batch_chunk V S cs key token_addr c)) (\<lambda>r. case r of
         Inl e \<Rightarrow> ret (concat (c # chunks'), Inl e)
       | Inr tx \<Rightarrow> bindM (batch_chunks V S cs key token_addr chunks') (\<lambda>(rest, r').
           ret (assign_orders (t_id tx) c @ rest, r')))"

definition gather_transactions_batch_multi ::
    "env \<Rightarrow> payment_setup \<Rightarrow> token_transfer_multi_order list \<Rightarrow> token_transfer_multi_key \<Rightarrow>
     (token_transfer_multi_order list \<times> (error_bag + nat)) prg" where
  "gather_transactions_batch_multi V S orders key =
     (case ps_chain_setup S (mk_chain_id key) of
        None \<Rightarrow> ret (orders, Inl (CustomError ''No setup found for chain id''))
      | Some cs \<Rightarrow> (case mk_token_addr key of
            None \<Rightarrow> ret (orders, Inl (CustomError ''Not implemented for multi''))
          | Some token_addr \<Rightarrow>
              bindM (catch_err (check_multi_allowance V S cs key token_addr)) (\<lambda>r. case r of
                  Inl e \<Rightarrow> ret (orders, Inl e)
                | Inr _ \<Rightarrow> if cs_multi_contract_max_at_once cs = 0 then throw (Panic ''chunk size must be non-zero'')
                    else batch_chunks V S cs key token_addr (chunks (cs_multi_contract_max_at_once cs) orders))))"

section \<open>gather_transactions_batch\<close>

definition batch_transaction ::
    "externals \<Rightarrow> timestamp \<Rightarrow> chain_setup \<Rightarrow> token_transfer_key \<Rightarrow> u256 \<Rightarrow> bool \<Rightarrow> failure + tx_db_obj" where
  "batch_transaction E t cs key sum_amount is_deposit_finish =
     (let chain_id = i64_as_u64 (k_chain_id key)
      in case k_token_addr key of
           Some token_addr \<Rightarrow> (case k_deposit_id key of
               Some deposit_id \<Rightarrow>
                 bindE (ok_or (err_custom ''Lock contract address not set for chain id'') (cs_lock_contract_address cs)) (\<lambda>lock.
                 bindE (parse_deposit_id E deposit_id) (\<lambda>dep.
                 bindE (parse_address E (k_from_addr key)) (\<lambda>from_a.
                 bindE (parse_address E (k_receiver_addr key)) (\<lambda>to_a.
                   create_erc20_deposit_transfer E t \<lparr>sd_from = from_a, sd_lock_contract = lock,
                     sd_erc20_to = to_a, sd_erc20_amount = sum_amount, sd_chain_id = chain_id,
                     sd_gas_limit = None, sd_deposit_id = dep, sd_deposit_finish = is_deposit_finish\<rparr>))))
             | None \<Rightarrow>
                 bindE (parse_address E (k_from_addr key)) (\<lambda>from_a.
                 bindE (parse_address E token_addr) (\<lambda>tok.
                 bindE (parse_address E (k_receiver_addr key)) (\<lambda>to_a.
                   create_erc20_transfer E t from_a tok to_a sum_amount chain_id None))))
         | None \<Rightarrow>
             bindE (parse_address E (k_from_addr key)) (\<lambda>from_a.
             bindE (parse_address E (k_receiver_addr key)) (\<lambda>to_a.
               Inr (create_eth_transfer E t from_a to_a chain_id None sum_amount))))"

definition gather_transactions_batch ::
    "env \<Rightarrow> payment_setup \<Rightarrow> token_transfer_db_obj list \<Rightarrow> token_transfer_key \<Rightarrow> nat prg" where
  "gather_transactions_batch V S token_transfers key =
     bindM (liftR (sum_transfers (ev_ext V) 0 token_transfers)) (\<lambda>sum_amount.
     bindM (require (err_custom ''No setup found for chain id'') (ps_chain_setup S (k_chain_id key))) (\<lambda>cs.
     bindM (now V) (\<lambda>t.
     bindM (liftR (batch_transaction (ev_ext V) t cs key sum_amount
              (list_ex (\<lambda>f. tt_deposit_finish f > 0) token_transfers))) (\<lambda>web3tx.
     bindM (db_transaction (insert_with_transfers web3tx token_transfers)) (\<lambda>_. ret 1)))))"

section \<open>gather_transactions_post\<close>

definition transfers_min_id :: "token_transfer_db_obj list \<Rightarrow> i64" where
  "transfers_min_id ts = Min (set (map tt_id ts))"

text \<open>The map entries sorted by their smallest transfer id.\<close>

definition sorted_order :: "token_transfer_map \<Rightarrow> (token_transfer_key \<times> token_transfer_db_obj list) list" where
  "sorted_order m = sort_key (\<lambda>e. transfers_min_id (snd e)) m"

definition multi_key_of :: "token_transfer_key \<Rightarrow> token_transfer_multi_key" where
  "multi_key_of k = \<lparr>mk_from_addr = k_from_addr k, mk_chain_id = k_chain_id k,
     mk_token_addr = k_token_addr k, mk_deposit_id = k_deposit_id k\<rparr>"

type_synonym multi_key_map = "(token_transfer_multi_key \<times> token_transfer_multi_order list) list"

text \<open>Native transfers are sent at once; token transfers are collected per multi key.\<close>

definition post_step ::
    "env \<Rightarrow> payment_setup \<Rightarrow> nat \<times> multi_key_map \<Rightarrow> token_transfer_key \<times> token_transfer_db_obj list \<Rightarrow>
     (nat \<times> multi_key_map) prg" where
  "post_step V S acc entry =
     (let (inserted, mmap) = acc; (key, transfers) = entry
      in if k_token_addr key = None
         then bindM (catch_err (gather_transactions_batch V S transfers key)) (\<lambda>r. case r of
                 Inr _ \<Rightarrow> ret (inserted + 1 + 1, mmap)
               | Inl (NoAllowanceFound req) \<Rightarrow> throw (Err (NoAllowanceFound req))
               | Inl e \<Rightarrow> ret (inserted + 1, mmap))
         else bindM (liftR (parse_address (ev_ext V) (k_receiver_addr key))) (\<lambda>receiver.
                ret (inserted, map_push (multi_key_of key)
                  \<lparr>mo_receiver = receiver, mo_token_transfers = transfers\<rparr> mmap)))"

definition mark_gathering_error :: "token_transfer_multi_order list \<Rightarrow> unit prg" where
  "mark_gathering_error orders = forM (concat (map mo_token_transfers orders))
     (\<lambda>t. mark_transfer_error t ''Error in gathering transactions'')"

definition post_multi_step ::
    "env \<Rightarrow> payment_setup \<Rightarrow> nat \<Rightarrow> token_transfer_multi_key \<times> token_transfer_multi_order list \<Rightarrow> nat prg" where
  "post_multi_step V S inserted entry =
     (let (key, orders) = entry
      in bindM (gather_transactions_batch_multi V S orders key) (\<lambda>(orders', r). case r of
             Inr _ \<Rightarrow> ret (inserted + 1 + 1)
           | Inl (NoAllowanceFound req) \<Rightarrow> throw (Err (NoAllowanceFound req))
           | Inl e \<Rightarrow> bindM (mark_gathering_error orders') (\<lambda>_. ret (inserted + 1))))"

definition gather_transactions_post ::
    "(multi_key_map \<Rightarrow> multi_key_map) \<Rightarrow> env \<Rightarrow> payment_setup \<Rightarrow> token_transfer_map \<Rightarrow> nat prg" where
  "gather_transactions_post visit V S token_transfer_map =
     bindM (foldM (post_step V S) (0, []) (sorted_order token_transfer_map)) (\<lambda>(inserted, mmap).
       foldM (post_multi_step V S) inserted (visit mmap))"

section \<open>Integrity\<close>

lemma ok_insert_with_transfers [preserves_intro]: "preserves db_ok (insert_with_transfers tx ts)"
  unfolding insert_with_transfers_def by (intro preserves_intro)

lemma ok_mark_transfer_error [preserves_intro]: "preserves world_ok (mark_transfer_error f m)"
  unfolding mark_transfer_error_def by (intro preserves_intro)

lemma ok_find [preserves_intro]:
  "preserves I (get_pending_token_transfers E a c)" "preserves I (find_allowance o' t s c)"
  unfolding get_pending_token_transfers_def find_allowance_def by (rule preserves_gets)+

lemma ok_close_deposit_of_transfer [preserves_intro]: "preserves world_ok (close_deposit_of_transfer V S f d)"
  unfolding close_deposit_of_transfer_def by (intro preserves_intro)

lemma ok_gather_pre_step [preserves_intro]: "preserves world_ok (gather_pre_step V S acc f)"
  unfolding gather_pre_step_def Let_def
  by (cases acc) (auto split: option.split intro!: preserves_intro)

lemma ok_gather_pre: "preserves world_ok (gather_transactions_pre V S a c)"
  unfolding gather_transactions_pre_def by (intro preserves_intro)

lemma ok_batch_chunk [preserves_intro]: "preserves world_ok (batch_chunk V S cs key tok os)"
  unfolding batch_chunk_def by (intro preserves_intro)

lemma ok_batch_chunks [preserves_intro]: "preserves world_ok (batch_chunks V S cs key tok cks)"
  by (induction cks) (auto intro!: preserves_intro split: sum.split)

lemma ok_check_multi_allowance [preserves_intro]: "preserves world_ok (check_multi_allowance V S cs key tok)"
  unfolding check_multi_allowance_def by (auto intro!: preserves_intro split: option.split)

lemma ok_batch_multi [preserves_intro]: "preserves world_ok (gather_transactions_batch_multi V S os key)"
  unfolding gather_transactions_batch_multi_def by (auto intro!: preserves_intro split: option.split sum.split)

lemma ok_batch [preserves_intro]: "preserves world_ok (gather_transactions_batch V S ts key)"
  unfolding gather_transactions_batch_def by (intro preserves_intro)

lemma ok_post_step [preserves_intro]: "preserves world_ok (post_step V S acc e)"
  unfolding post_step_def Let_def
  by (cases acc; cases e) (auto intro!: preserves_intro split: sum.split error_bag.split)

lemma ok_post_multi_step [preserves_intro]: "preserves world_ok (post_multi_step V S n e)"
  unfolding post_multi_step_def Let_def mark_gathering_error_def
  by (cases e) (auto intro!: preserves_intro split: sum.split error_bag.split)

lemma ok_gather_post: "preserves world_ok (gather_transactions_post visit V S m)"
  unfolding gather_transactions_post_def by (intro preserves_intro)

end
