(* ===== verification/Payments.thy ===== *)
theory Payments imports World begin

text \<open>
  What a queued transaction pays, read from its row alone: the fields of the row, the contract it calls and the
  arguments of the call, without any of the constructors that build it. The specifications of the batches are
  stated over this reading.
\<close>

section \<open>The payments a call names\<close>

text \<open>The arguments of the calls that pay are receivers and amounts, one word of 32 bytes for both in the
  packed calls; an indirect packed call also carries the sum, which has to be that of its payments.\<close>

definition named_payments :: "contract_template \<Rightarrow> string \<Rightarrow> abi_token list \<Rightarrow> (address \<times> nat) list option" where
  "named_payments contract func params = (case (contract, params) of
       (ERC20_CONTRACT, [TokAddress a, TokUint v]) \<Rightarrow> if func = ''transfer'' then Some [(a, unat v)] else None
     | (LOCK_CONTRACT, [TokUint i, TokAddress a, TokUint v]) \<Rightarrow>
         if func = ''depositSingleTransfer'' \<or> func = ''depositSingleTransferAndClose'' then Some [(a, unat v)] else None
     | (LOCK_CONTRACT, [TokUint i, TokBytes32s packed]) \<Rightarrow>
         if func = ''depositTransfer'' \<or> func = ''depositTransferAndClose'' then Some (map unpack_transfer packed) else None
     | (MULTI_CONTRACT, [TokAddresses rs, TokUints vs]) \<Rightarrow>
         if (func = ''golemTransferDirect'' \<or> func = ''golemTransferIndirect'') \<and> length rs = length vs
         then Some (zip rs (map unat vs)) else None
     | (MULTI_CONTRACT, [TokBytes32s packed]) \<Rightarrow>
         if func = ''golemTransferDirectPacked'' then Some (map unpack_transfer packed) else None
     | (MULTI_CONTRACT, [TokBytes32s packed, TokUint s]) \<Rightarrow>
         if func = ''golemTransferIndirectPacked'' \<and> unat s = sum_list (map (snd \<circ> unpack_transfer) packed)
         then Some (map unpack_transfer packed) else None
     | _ \<Rightarrow> None)"

text \<open>The two calls of the lock contract that close the deposit they pay from.\<close>

definition closing_call :: "string \<Rightarrow> bool" where
  "closing_call func \<longleftrightarrow> func = ''depositSingleTransferAndClose'' \<or> func = ''depositTransferAndClose''"

section \<open>Rows\<close>

text \<open>A row that waits in the queue, of the given sender, chain and target.\<close>

definition queued_row :: "externals \<Rightarrow> tx_db_obj \<Rightarrow> string \<Rightarrow> i64 \<Rightarrow> address \<Rightarrow> bool" where
  "queued_row E row from_text chain_id target \<longleftrightarrow>
     (\<exists>from_a. addr_of_str E from_text = Some from_a \<and> t_from_addr row = str_of_addr E from_a) \<and>
     i64_as_u64 (t_chain_id row) = i64_as_u64 chain_id \<and> t_to_addr row = str_of_addr E target \<and>
     t_processing row = 1 \<and> t_first_processed row = None \<and> t_nonce row = None \<and> t_orig_tx_id row = None \<and>
     t_signed_raw_data row = None \<and> t_error row = None"

definition calls :: "externals \<Rightarrow> tx_db_obj \<Rightarrow> contract_template \<Rightarrow> string \<Rightarrow> abi_token list \<Rightarrow> bool" where
  "calls E row contract func params \<longleftrightarrow> t_val row = ''0'' \<and>
     t_call_data row = Some (hex_encode E (encode_input E contract func params))"

definition pays_native :: "externals \<Rightarrow> tx_db_obj \<Rightarrow> string \<Rightarrow> i64 \<Rightarrow> address \<Rightarrow> nat \<Rightarrow> bool" where
  "pays_native E row from_text chain_id receiver amount \<longleftrightarrow> queued_row E row from_text chain_id receiver \<and>
     t_call_data row = None \<and> (\<exists>v. t_val row = dec_of_u256 E v \<and> unat v = amount)"

text \<open>The row pays exactly the listed receivers, in order: from the sender's tokens, directly or through the multi
  contract, or from the given deposit, which it closes when asked to.\<close>

definition pays_tokens ::
    "externals \<Rightarrow> chain_setup \<Rightarrow> tx_db_obj \<Rightarrow> string \<Rightarrow> i64 \<Rightarrow> string \<Rightarrow> string option \<Rightarrow> bool \<Rightarrow>
     (address \<times> nat) list \<Rightarrow> bool" where
  "pays_tokens E cs row from_text chain_id token deposit_id finish payments \<longleftrightarrow> (\<exists>target contract func params.
     queued_row E row from_text chain_id target \<and> calls E row contract func params \<and>
     named_payments contract func params = Some payments \<and>
     (case deposit_id of
        Some deposit_id' \<Rightarrow> contract = LOCK_CONTRACT \<and> cs_lock_contract_address cs = Some target \<and> (closing_call func \<longleftrightarrow> finish) \<and>
          (\<exists>i. u256_of_hex E deposit_id' = Some i \<and> hd params = TokUint i)
      | None \<Rightarrow> contract = ERC20_CONTRACT \<and> addr_of_str E token = Some target \<or>
          contract = MULTI_CONTRACT \<and> cs_multi_contract_address cs = Some target))"


section \<open>The rows the constructors build\<close>

lemma queued_row_stored [simp]: "queued_row E (set_t_id i (tx_row tx)) f c a = queued_row E tx f c a"
  by (simp add: queued_row_def set_t_id_def tx_row_def)

lemma calls_stored [simp]: "calls E (set_t_id i (tx_row tx)) contract func params = calls E tx contract func params"
  by (simp add: calls_def set_t_id_def tx_row_def)

lemma pays_tokens_stored [simp]:
  "pays_tokens E cs (set_t_id i (tx_row tx)) f c tok dep fin ps = pays_tokens E cs tx f c tok dep fin ps"
  by (simp add: pays_tokens_def)

lemma pays_native_stored [simp]: "pays_native E (set_t_id i (tx_row tx)) f c a v = pays_native E tx f c a v"
  unfolding pays_native_def queued_row_stored by (simp add: set_t_id_def tx_row_def)

text \<open>A new row with call data; \<open>c\<close> is the chain id read as unsigned.\<close>

lemma new_call:
  assumes "addr_of_str E f = Some from_a"
  shows "queued_row E ((new_tx E date meth from_a to_a (i64_as_u64 c) None)\<lparr>t_call_data := d\<rparr>) f c to_a"
    and "calls E ((new_tx E date meth from_a to_a (i64_as_u64 c) None)\<lparr>t_call_data := Some (hex_encode E (encode_input E k fn ps))\<rparr>) k fn ps"
  using assms by (auto simp: queued_row_def calls_def new_tx_def tx_default_def)

lemma contract_encode_Inr: "contract_encode E k fn ps = Inr d \<Longrightarrow> d = encode_input E k fn ps"
  by (auto simp: contract_encode_def split: option.splits if_splits)

lemma sum_amounts_Inr:
  "sum_amounts m acc as = Inr s \<Longrightarrow> unat s = unat acc + sum_list (map unat as) \<and> (\<forall>a\<in>set as. a \<le> m)"
  by (induction as arbitrary: acc) (auto split: if_splits sum.splits dest!: u256_add_Inr)

text \<open>Packing keeps every amount except the boundary value \<open>2^96\<close>.\<close>

lemma packed_payments:
  assumes "pack_transfers_for_multi_contract rs as = Inr (packed, s)" and "length rs = length as"
    and "\<forall>a\<in>set as. unat a \<noteq> 2 ^ 96"
  shows "map unpack_transfer packed = zip rs (map unat as)"
    and "unat s = sum_list (map (snd \<circ> unpack_transfer) packed)"
proof -
  have acc: "sum_amounts (2 ^ 96) 0 as = Inr s" and p: "packed = map (\<lambda>(r, a). pack_transfer r a) (zip rs as)"
    using assms(1) by (auto simp: pack_transfers_for_multi_contract_def split: sum.splits)
  have small: "unat a mod 2 ^ 96 = unat a" if "a \<in> set as" for a
  proof -
    have "unat a \<le> 2 ^ 96"
      using sum_amounts_Inr [OF acc] that unfolding word_le_nat_alt unat_2_96 by blast
    with assms(3) that show ?thesis by (simp add: order_less_le)
  qed
  have "map unpack_transfer packed = map (\<lambda>(r, a). (r, unat a mod 2 ^ 96)) (zip rs as)"
    by (simp add: p comp_def split_beta' unpack_pack)
  also have "\<dots> = map (\<lambda>(r, a). (r, unat a)) (zip rs as)"
    using small by (auto dest: set_zip_rightD)
  finally show u: "map unpack_transfer packed = zip rs (map unat as)" by (simp add: zip_map2)
  have "map snd (zip rs (map unat as)) = map unat as" using assms(2) by simp
  with u have "map (snd \<circ> unpack_transfer) packed = map unat as" by (metis map_map)
  then show "unat s = sum_list (map (snd \<circ> unpack_transfer) packed)" using sum_amounts_Inr [OF acc] by simp
qed

lemma pays_tokensI:
  assumes "addr_of_str E f = Some from_a"
    and "\<exists>date meth. tx = (new_tx E date meth from_a target (i64_as_u64 c) None)
      \<lparr>t_call_data := Some (hex_encode E (encode_input E k fn ps))\<rparr>"
    and "named_payments k fn ps = Some pays"
    and "case dep of
        Some d \<Rightarrow> k = LOCK_CONTRACT \<and> cs_lock_contract_address cs = Some target \<and> (closing_call fn \<longleftrightarrow> fin) \<and>
          (\<exists>i. u256_of_hex E d = Some i \<and> hd ps = TokUint i)
      | None \<Rightarrow> k = ERC20_CONTRACT \<and> addr_of_str E tok = Some target \<or>
          k = MULTI_CONTRACT \<and> cs_multi_contract_address cs = Some target"
  shows "pays_tokens E cs tx f c tok dep fin pays"
proof -
  have "queued_row E tx f c target \<and> calls E tx k fn ps" using assms(2) new_call [OF assms(1)] by fastforce
  with assms(3,4) show ?thesis unfolding pays_tokens_def by blast
qed


lemma erc20_transfer_pays:
  assumes "create_erc20_transfer E t from_a a to_a v (i64_as_u64 c) None = Inr tx"
    and "addr_of_str E f = Some from_a" and "addr_of_str E tok = Some a"
  shows "pays_tokens E cs tx f c tok None fin [(to_a, unat v)]"
  using assms(1,3)
  by (intro pays_tokensI [OF assms(2), where k = ERC20_CONTRACT and fn = "''transfer''" and target = a
      and ps = "[TokAddress to_a, TokUint v]"])
    (auto simp: create_erc20_transfer_def with_data_def named_payments_def)

lemma deposit_transfer_pays:
  assumes "create_erc20_deposit_transfer E t \<lparr>sd_from = from_a, sd_lock_contract = lock, sd_erc20_to = to_a,
      sd_erc20_amount = v, sd_chain_id = i64_as_u64 c, sd_gas_limit = None, sd_deposit_id = i, sd_deposit_finish = fin\<rparr> = Inr tx"
    and "addr_of_str E f = Some from_a" and "u256_of_hex E dep = Some i" and "cs_lock_contract_address cs = Some lock"
  shows "pays_tokens E cs tx f c tok (Some dep) fin [(to_a, unat v)]"
  using assms
  by (intro pays_tokensI [OF assms(2), where k = LOCK_CONTRACT and target = lock and ps = "[TokUint i, TokAddress to_a, TokUint v]"
      and fn = "if fin then ''depositSingleTransferAndClose'' else ''depositSingleTransfer''"])
    (auto simp: create_erc20_deposit_transfer_def with_data_def monad_simps encode_payout_single_def
      encode_payout_single_and_close_def named_payments_def closing_call_def dest!: contract_encode_Inr split: if_splits)

lemma multi_deposit_pays:
  assumes "create_erc20_transfer_multi_deposit E t \<lparr>md_from = from_a, md_lock_contract = lock, md_erc20_to = rs,
      md_erc20_amount = as, md_chain_id = i64_as_u64 c, md_gas_limit = None, md_deposit_id = i, md_deposit_finish = fin\<rparr> = Inr tx"
    and "addr_of_str E f = Some from_a" and "u256_of_hex E dep = Some i" and "cs_lock_contract_address cs = Some lock"
    and "length rs = length as" and "\<forall>a\<in>set as. unat a \<noteq> 2 ^ 96"
  shows "pays_tokens E cs tx f c tok (Some dep) fin (zip rs (map unat as))"
proof -
  obtain packed s where p: "pack_transfers_for_multi_contract rs as = Inr (packed, s)"
    using assms(1) by (auto simp: create_erc20_transfer_multi_deposit_def monad_simps)
  note u = packed_payments [OF p assms(5,6)]
  show ?thesis
    using assms(1,3,4) p u(1)
    by (intro pays_tokensI [OF assms(2), where k = LOCK_CONTRACT and target = lock and ps = "[TokUint i, TokBytes32s packed]"
        and fn = "if fin then ''depositTransferAndClose'' else ''depositTransfer''"])
      (auto simp: create_erc20_transfer_multi_deposit_def with_data_def monad_simps encode_deposit_transfer_def
        encode_deposit_transfer_and_close_def named_payments_def closing_call_def dest!: contract_encode_Inr split: if_splits)
qed

lemma multi_transfer_pays:
  assumes "create_erc20_transfer_multi E t \<lparr>mt_from = from_a, mt_contract = multi, mt_erc20_to = rs,
      mt_erc20_amount = as, mt_chain_id = i64_as_u64 c, mt_gas_limit = None, mt_direct = direct, mt_unpacked = unpacked\<rparr> = Inr tx"
    and "addr_of_str E f = Some from_a" and "cs_multi_contract_address cs = Some multi"
    and "length rs = length as" and "\<forall>a\<in>set as. unat a \<noteq> 2 ^ 96"
  shows "pays_tokens E cs tx f c tok None fin (zip rs (map unat as))"
proof (cases unpacked)
  case True
  then show ?thesis using assms(1,3,4)
    by (intro pays_tokensI [OF assms(2), where k = MULTI_CONTRACT and target = multi and ps = "[TokAddresses rs, TokUints as]"
        and fn = "if direct then ''golemTransferDirect'' else ''golemTransferIndirect''"])
      (auto simp: create_erc20_transfer_multi_def multi_data_and_method_def with_data_def monad_simps encode_multi_direct_def
        encode_multi_indirect_def named_payments_def dest!: contract_encode_Inr split: if_splits)
next
  case False
  then obtain packed s where p: "pack_transfers_for_multi_contract rs as = Inr (packed, s)"
    using assms(1) by (auto simp: create_erc20_transfer_multi_def multi_data_and_method_def monad_simps)
  note u = packed_payments [OF p assms(4,5)]
  show ?thesis
    using False assms(1,3) p u
    by (intro pays_tokensI [OF assms(2), where k = MULTI_CONTRACT and target = multi
        and ps = "if direct then [TokBytes32s packed] else [TokBytes32s packed, TokUint s]"
        and fn = "if direct then ''golemTransferDirectPacked'' else ''golemTransferIndirectPacked''"])
      (auto simp: create_erc20_transfer_multi_def multi_data_and_method_def with_data_def monad_simps encode_multi_direct_packed_def
        encode_multi_indirect_packed_def named_payments_def dest!: contract_encode_Inr split: if_splits)
qed

end
