(* ===== verification/Sample.thy ===== *)
theory Sample imports World begin

text \<open>
  A small concrete environment on which the theorems are instantiated: addresses and numbers are
  written in unary, the network answers every question with a fixed value and the signer signs.
\<close>

definition unary :: externals where
  "unary = \<lparr>
     addr_of_str = (\<lambda>s. Some (of_nat (length s))),
     str_of_addr = (\<lambda>a. replicate (unat a) CHR ''a''),
     u256_of_dec = (\<lambda>s. if CHR ''x'' \<in> set s then None else Some (of_nat (length s))),
     dec_of_u256 = (\<lambda>v. replicate (unat v) CHR ''1''),
     u256_of_hex = (\<lambda>s. Some (of_nat (length s))),
     hex_of_u256 = (\<lambda>v. replicate (unat v) CHR ''1''),
     h256_of_str = (\<lambda>s. Some (of_nat (length s))),
     str_of_h256 = (\<lambda>h. replicate (unat h) CHR ''1''),
     hex_encode = (\<lambda>bs. map (\<lambda>b. char_of (unat b)) bs),
     hex_decode = (\<lambda>s. Some (map (\<lambda>c. of_nat (of_char c)) s)),
     encode_input = (\<lambda>t f toks. [])\<rparr>"

definition quiet_env :: env where
  "quiet_env = \<lparr>
     ev_ext = unary,
     ev_now = (\<lambda>n. 1000 + int n),
     ev_block_number = (\<lambda>n. Inr 100),
     ev_balance = (\<lambda>n a b. Inr 1000000),
     ev_call = (\<lambda>n c b. Inr []),
     ev_block = (\<lambda>n b. Inr (Some \<lparr>bk_number = Some 100, bk_timestamp = 500, bk_base_fee_per_gas = Some 3\<rparr>)),
     ev_transaction_count = (\<lambda>n a p. Inr 0),
     ev_estimate_gas = (\<lambda>n c. Inr 30000),
     ev_send_raw = (\<lambda>n b. Inr 7),
     ev_receipt = (\<lambda>n h. Inr None),
     ev_transaction = (\<lambda>n h. Inr None),
     ev_logs = (\<lambda>n a s r f t. Inr []),
     ev_sign_possible = (\<lambda>n a. Inr ()),
     ev_sign = (\<lambda>n a t. Inr ([1, 2], 7)),
     ev_event_sender = True,
     ev_getenv = (\<lambda>s. None),
     ev_error_text = (\<lambda>e. ''error''),
     ev_from_timestamp = Some,
     ev_checked_mul = (\<lambda>a b. Some (a * b)),
     ev_dec_from_str_exact = (\<lambda>s. None),
     ev_decode_deposit = (\<lambda>b. None),
     ev_bag_text = (\<lambda>e. ''error'')\<rparr>"

definition sample_chain :: chain_setup where
  "sample_chain = \<lparr>cs_chain_id = 5, cs_max_fee_per_gas = 20, cs_priority_fee = 2, cs_glm_address = 4,
     cs_multi_contract_address = Some 6, cs_lock_contract_address = Some 8, cs_multi_contract_max_at_once = 2,
     cs_transaction_timeout = 100, cs_confirmation_blocks = 3, cs_replacement_timeout = None\<rparr>"

definition sample_setup :: payment_setup where
  "sample_setup = \<lparr>ps_chain_setup = [5 \<mapsto> sample_chain], ps_finish_when_done = True, ps_generate_tx_only = False,
     ps_skip_multi_contract_check = False, ps_no_gas_or_token_start = 30, ps_no_gas_or_token_max = 200,
     ps_no_gas_or_token_increase = 3 / 2, ps_gather_interval = 60, ps_gather_at_start = True,
     ps_mark_as_unrecoverable_after_seconds = 300, ps_ignore_deadlines = False, ps_automatic_recover = False,
     ps_contract_use_direct_method = False, ps_contract_use_unpacked_method = False,
     ps_use_transfer_for_single_payment = True\<rparr>"

text \<open>A pending transfer from address 1 to address 2 on chain 5.\<close>

definition sample_transfer :: "i64 \<Rightarrow> string option \<Rightarrow> token_transfer_db_obj" where
  "sample_transfer i token = \<lparr>tt_id = i, tt_payment_id = None, tt_from_addr = ''a'', tt_receiver_addr = ''aa'',
     tt_chain_id = 5, tt_token_addr = token, tt_token_amount = ''111'', tt_deposit_id = None,
     tt_deposit_finish = 0, tt_create_date = 900, tt_tx_id = None, tt_paid_date = None,
     tt_fee_paid = None, tt_error = None\<rparr>"

definition world_with :: "token_transfer_db_obj list \<Rightarrow> world" where
  "world_with ts = world_initial\<lparr>w_db := db_empty\<lparr>d_token_transfer := \<lparr>tb_rows = ts, tb_seq = int (length ts)\<rparr>\<rparr>\<rparr>"

lemmas sample_defs = unary_def quiet_env_def sample_chain_def sample_setup_def sample_transfer_def
  world_with_def world_initial_def db_empty_def tbl_empty_def shared_initial_def

lemma sample_row_simps [simp]:
  "tt_id (sample_transfer i tok) = i" "tt_deposit_finish (sample_transfer i tok) = 0" "tt_tx_id (sample_transfer i tok) = None"
  "tb_rows (d_token_transfer (w_db (world_with ts))) = ts"
  by (simp_all add: sample_transfer_def world_with_def)

lemma world_ok_with:
  assumes "\<forall>t\<in>set ts. tt_tx_id t = None" "distinct (map tt_id ts)"
    "\<forall>t\<in>set ts. 0 < tt_id t \<and> tt_id t \<le> int (length ts)"
  shows "world_ok (world_with ts)"
  using assms db_ok_empty
  by (auto simp: world_ok_def world_with_def db_ok_def keys_ok_def fk_ok_def list_all_iff tbl_wf_def
      db_empty_def)

end
