(* ===== verification/TransferRows.thy ===== *)
theory TransferRows imports World begin

text \<open>
  The rows of the token transfer table as a list: what a series of updates by id does to it. Shared by the
  proofs on batching and on the results of transactions.
\<close>

abbreviation transfer_rows :: "world \<Rightarrow> token_transfer_db_obj list" where
  "transfer_rows w \<equiv> tb_rows (d_token_transfer (w_db w))"

abbreviation tx_rows :: "world \<Rightarrow> tx_db_obj list" where
  "tx_rows w \<equiv> tb_rows (d_tx (w_db w))"

lemma row_unique:
  "tbl_wf tt_id t \<Longrightarrow> r \<in> set (tb_rows t) \<Longrightarrow> q \<in> set (tb_rows t) \<Longrightarrow> tt_id r = tt_id q \<Longrightarrow> r = q"
  by (auto simp: tbl_wf_def distinct_map inj_on_def)

lemma fk_tx_cong: "d_tx d = d_tx d' \<Longrightarrow> d_foreign_keys d = d_foreign_keys d' \<Longrightarrow> fk_tx d r = fk_tx d' r"
  by (simp add: fk_tx_def split: option.split)

definition set_rows :: "token_transfer_db_obj list \<Rightarrow> db \<Rightarrow> db" where
  "set_rows rs d = d\<lparr>d_token_transfer := (d_token_transfer d)\<lparr>tb_rows := rs\<rparr>\<rparr>"

lemma set_rows_simps [simp]:
  "set_rows rs (set_rows qs d) = set_rows rs d" "tb_rows (d_token_transfer (set_rows rs d)) = rs"
  "d_tx (set_rows rs d) = d_tx d" "set_rows (tb_rows (d_token_transfer d)) d = d"
  "d_foreign_keys (set_rows rs d) = d_foreign_keys d" "d_allowance (set_rows rs d) = d_allowance d"
  "tb_seq (d_token_transfer (set_rows rs d)) = tb_seq (d_token_transfer d)"
  by (simp_all add: set_rows_def)

text \<open>Rows replaced by the one with the same id in \<open>news\<close>.\<close>

definition overwrite :: "token_transfer_db_obj list \<Rightarrow> token_transfer_db_obj \<Rightarrow> token_transfer_db_obj" where
  "overwrite news r = (case find (\<lambda>n. tt_id n = tt_id r) news of Some n \<Rightarrow> n | None \<Rightarrow> r)"

lemma overwrite_Nil [simp]: "overwrite [] r = r"
  by (simp add: overwrite_def)

lemma overwrite_id [simp]: "tt_id (overwrite news r) = tt_id r"
  by (auto simp: overwrite_def find_Some_iff split: option.split)

lemma overwrite_Cons:
  assumes "tt_id n \<notin> tt_id ` set news"
  shows "overwrite news (overwrite [n] r) = overwrite (n # news) r"
proof (cases "tt_id n = tt_id r")
  case True
  have "tt_id m \<noteq> tt_id n" if "m \<in> set news" for m
    using assms imageI [OF that, of tt_id] by auto
  then have "find (\<lambda>m. tt_id m = tt_id n) news = None" by (simp add: find_None_iff)
  with True show ?thesis by (simp add: overwrite_def)
qed (simp add: overwrite_def)

lemma update_row:
  assumes "tbl_wf tt_id (d_token_transfer d)" and "r \<in> set (tb_rows (d_token_transfer d))"
    and "tt_id n = tt_id r" and "tt_create_date n = tt_create_date r" and "fk_tx d (tt_tx_id n)"
  shows "update_token_transfer n d = (Inr n, set_rows (map (overwrite [n]) (tb_rows (d_token_transfer d))) d)"
proof -
  have "map (\<lambda>t. if tt_id t = tt_id n then n\<lparr>tt_create_date := tt_create_date t\<rparr> else t) (tb_rows (d_token_transfer d)) =
      map (overwrite [n]) (tb_rows (d_token_transfer d))"
  proof (intro map_cong refl)
    fix t assume t: "t \<in> set (tb_rows (d_token_transfer d))"
    have "t = r" if "tt_id t = tt_id n"
      using row_unique [OF assms(1) t assms(2)] that assms(3) by simp
    moreover have "n\<lparr>tt_create_date := tt_create_date r\<rparr> = n" using assms(4) by simp
    ultimately show "(if tt_id t = tt_id n then n\<lparr>tt_create_date := tt_create_date t\<rparr> else t) = overwrite [n] t"
      by (auto simp: overwrite_def)
  qed
  with assms(5) show ?thesis
    by (simp add: update_token_transfer_def constrained_def update_tt_where_def tbl_update_where_def bindM_def set_rows_def)
qed

lemma wf_set_rows:
  "tbl_wf tt_id (d_token_transfer d) \<Longrightarrow> map tt_id rs = map tt_id (tb_rows (d_token_transfer d)) \<Longrightarrow>
    tbl_wf tt_id (d_token_transfer (set_rows rs d))"
  by (simp only: tbl_wf_map set_rows_simps)

section \<open>Adding a row\<close>

text \<open>A row is added to the table of transfers and nothing else changes.\<close>

definition added_transfer :: "token_transfer_db_obj \<Rightarrow> db \<Rightarrow> db \<Rightarrow> bool" where
  "added_transfer row d d' \<longleftrightarrow> tt_id row = tb_seq (d_token_transfer d) + 1 \<and>
     d' = d\<lparr>d_token_transfer := \<lparr>tb_rows = tb_rows (d_token_transfer d) @ [row], tb_seq = tb_seq (d_token_transfer d) + 1\<rparr>\<rparr>"

lemma insert_unassigned:
  "tt_tx_id t = None \<Longrightarrow> insert_token_transfer date t d = (let row = t\<lparr>tt_id := tb_seq (d_token_transfer d) + 1, tt_create_date := date\<rparr> in
    (Inr row, d\<lparr>d_token_transfer := \<lparr>tb_rows = tb_rows (d_token_transfer d) @ [row], tb_seq = tb_seq (d_token_transfer d) + 1\<rparr>\<rparr>))"
  by (simp add: insert_token_transfer_def constrained_def fk_tx_def tbl_insert_def Let_def set_tt_id_def)

lemma insert_checked_cases:
  assumes "insert_token_transfer_with_deposit_check date t d = (r, d')" and "tt_tx_id t = None"
  shows "(\<exists>e. r = Inl (Err e) \<and> d' = d) \<or> (\<exists>row. r = Inr row \<and> added_transfer row d d' \<and>
    row = t\<lparr>tt_id := tt_id row, tt_create_date := date\<rparr>)"
proof (cases "tt_deposit_id t")
  case None
  then show ?thesis using assms
    by (auto simp: insert_token_transfer_with_deposit_check_def sqlx_def insert_unassigned added_transfer_def Let_def)
next
  case (Some i)
  then show ?thesis using assms
    by (auto simp: insert_token_transfer_with_deposit_check_def atomically_def bindM_def check_if_deposit_closed_def
        sqlx_def insert_unassigned added_transfer_def Let_def split: if_splits)
qed

end
