(* ===== verification/BatchProofs.thy ===== *)
theory BatchProofs imports Batching Payments Sample TransferRows "HOL-Library.Multiset" begin

text \<open>
  What gathering guarantees: grouping loses and duplicates nothing, a transaction pays exactly the sums of
  the transfers assigned to it, batches respect the limit of the contract, and the allowance gate.
\<close>

section \<open>Grouping\<close>

definition groupable :: "externals \<Rightarrow> token_transfer_db_obj \<Rightarrow> bool" where
  "groupable E f \<longleftrightarrow> addr_of_str E (tt_from_addr f) \<notin> {None, Some 0} \<and>
     addr_of_str E (tt_receiver_addr f) \<notin> {None, Some 0}"

definition closes_deposit :: "externals \<Rightarrow> token_transfer_db_obj \<Rightarrow> bool" where
  "closes_deposit E f \<longleftrightarrow> addr_of_str E (tt_from_addr f) \<notin> {None, Some 0} \<and>
     tt_deposit_id f \<noteq> None \<and> is_close_marker E f"

lemma map_push_elems: "mset (concat (map snd (map_push k v m))) = add_mset v (mset (concat (map snd m)))"
  by (induction k v m rule: map_push.induct) auto

lemma map_push_keys: "fst ` set (map_push k v m) = insert k (fst ` set m)"
  by (induction k v m rule: map_push.induct) auto

lemma map_push_distinct: "distinct (map fst m) \<Longrightarrow> distinct (map fst (map_push k v m))"
proof (induction k v m rule: map_push.induct)
  case (2 k v k' vs m)
  then show ?case using map_push_keys [of k v m] by auto
qed simp

lemma map_push_grouped:
  "\<forall>(k, vs)\<in>set m. vs \<noteq> [] \<and> (\<forall>v\<in>set vs. K v = k) \<Longrightarrow>
    \<forall>(k, vs)\<in>set (map_push (K v) v m). vs \<noteq> [] \<and> (\<forall>v\<in>set vs. K v = k)"
  by (induction "K v" v m rule: map_push.induct) auto

definition grouping_ok :: "externals \<Rightarrow> token_transfer_db_obj list \<Rightarrow> token_transfer_map \<times> bool \<Rightarrow> bool" where
  "grouping_ok E ts acc \<longleftrightarrow> mset (concat (map snd (fst acc))) = mset (filter (groupable E) ts) \<and>
     distinct (map fst (fst acc)) \<and>
     (\<forall>(k, vs)\<in>set (fst acc). vs \<noteq> [] \<and> (\<forall>v\<in>set vs. transfer_key v = k)) \<and>
     snd acc = list_ex (closes_deposit E) ts"

lemma marker_not_groupable: "closes_deposit E f \<Longrightarrow> \<not> groupable E f"
  by (auto simp: closes_deposit_def groupable_def is_close_marker_def)

lemma gather_pre_step_ok:
  assumes "gather_pre_step V S acc f w = (Inr acc', w')" and "grouping_ok (ev_ext V) ts acc"
  shows "grouping_ok (ev_ext V) (ts @ [f]) acc'"
proof -
  obtain m b where acc: "acc = (m, b)" by fastforce
  let ?E = "ev_ext V"
  have skip: "acc' = (m, b)" if "bindM (mark_transfer_error f msg) (\<lambda>_. ret (m, b)) w = (Inr acc', w')" for msg
    using that by (auto simp: bindM_def split: prod.splits sum.splits)
  consider (bad) "addr_of_str ?E (tt_from_addr f) \<in> {None, Some 0}"
    | (close) "closes_deposit ?E f"
    | (group) "addr_of_str ?E (tt_from_addr f) \<notin> {None, Some 0}" "\<not> closes_deposit ?E f"
    by blast
  then show ?thesis
  proof cases
    case bad
    then have "acc' = (m, b)" "\<not> groupable ?E f" "\<not> closes_deposit ?E f"
      using assms(1) skip by (auto simp: gather_pre_step_def acc Let_def groupable_def closes_deposit_def)
    with assms(2) show ?thesis by (simp add: grouping_ok_def acc)
  next
    case close
    then have "acc' = (m, True)"
      using assms(1) by (auto simp: gather_pre_step_def acc Let_def closes_deposit_def bindM_def
          split: option.splits prod.splits sum.splits)
    with close assms(2) marker_not_groupable [OF close] show ?thesis by (simp add: grouping_ok_def acc)
  next
    case group
    then have step: "(case addr_of_str ?E (tt_receiver_addr f) of
        None \<Rightarrow> bindM (mark_transfer_error f ''Invalid receiver address'') (\<lambda>_. ret (m, b))
      | Some r \<Rightarrow> if r = 0 then bindM (mark_transfer_error f ''receiver_addr is zero'') (\<lambda>_. ret (m, b))
          else ret (map_push (transfer_key f) f m, b)) w = (Inr acc', w')"
      using assms(1) by (auto simp: gather_pre_step_def acc Let_def closes_deposit_def split: option.splits if_splits)
    show ?thesis
    proof (cases "groupable ?E f")
      case True
      with step have "acc' = (map_push (transfer_key f) f m, b)"
        by (auto simp: groupable_def split: option.splits if_splits)
      with True group assms(2) map_push_grouped [of m transfer_key f] show ?thesis
        by (simp add: grouping_ok_def acc map_push_elems map_push_distinct)
    next
      case False
      with step group have "acc' = (m, b)"
        using skip by (auto simp: groupable_def split: option.splits if_splits)
      with False group assms(2) show ?thesis by (simp add: grouping_ok_def acc)
    qed
  qed
qed

lemma gather_pre_fold_ok:
  "foldM (gather_pre_step V S) acc fs w = (Inr acc', w') \<Longrightarrow> grouping_ok (ev_ext V) ts acc \<Longrightarrow>
    grouping_ok (ev_ext V) (ts @ fs) acc'"
proof (induction fs arbitrary: acc ts w)
  case (Cons f fs)
  from Cons.prems(1) obtain a v where
    a: "gather_pre_step V S acc f w = (Inr a, v)" "foldM (gather_pre_step V S) a fs v = (Inr acc', w')"
    by (auto elim: bindM_InrD)
  with Cons.IH [of a v "ts @ [f]"] gather_pre_step_ok [OF a(1) Cons.prems(2)] show ?case by simp
qed simp

section \<open>Batches\<close>

lemma concat_chunks: "0 < n \<Longrightarrow> concat (chunks n xs) = xs"
  by (induction n xs rule: chunks.induct) (subst chunks.simps, auto)

lemma chunks_bound: "c \<in> set (chunks n xs) \<Longrightarrow> 0 < length c \<and> length c \<le> n"
  by (induction n xs rule: chunks.induct) (subst (asm) (2) chunks.simps, auto split: if_splits)

lemma chunks_full: "c \<in> set (butlast (chunks n xs)) \<Longrightarrow> length c = n"
proof (induction n xs rule: chunks.induct)
  case (1 n xs)
  then show ?case
    by (subst (asm) (2) chunks.simps) (auto simp: chunks.simps [of n "drop n xs"] split: if_splits)
qed

lemma sum_transfers_total:
  "sum_transfers E acc ts = Inr s \<Longrightarrow>
    unat s = unat acc + sum_list (map (\<lambda>t. unat (the (u256_of_dec E (tt_token_amount t)))) ts)"
  by (induction ts arbitrary: acc) (auto simp: bindE_Inr_iff parse_dec_def ok_or_Inr_iff dest!: u256_add_Inr)

lemma sum_transfers_parse: "sum_transfers E acc ts = Inr s \<Longrightarrow> t \<in> set ts \<Longrightarrow> u256_of_dec E (tt_token_amount t) \<noteq> None"
  by (induction ts arbitrary: acc) (auto simp: bindE_Inr_iff parse_dec_def ok_or_Inr_iff)

definition transfers_total :: "externals \<Rightarrow> token_transfer_db_obj list \<Rightarrow> nat" where
  "transfers_total E ts = sum_list (map (\<lambda>t. unat (the (u256_of_dec E (tt_token_amount t)))) ts)"

lemma sum_orders_parse:
  "sum_orders E os = Inr ss \<Longrightarrow> o' \<in> set os \<Longrightarrow> t \<in> set (mo_token_transfers o') \<Longrightarrow> u256_of_dec E (tt_token_amount t) \<noteq> None"
  by (induction os arbitrary: ss) (auto simp: bindE_Inr_iff dest: sum_transfers_parse)

lemma sum_orders_total:
  "sum_orders E os = Inr ss \<Longrightarrow> map unat ss = map (\<lambda>o'. transfers_total E (mo_token_transfers o')) os"
  by (induction os arbitrary: ss) (auto simp: bindE_Inr_iff transfers_total_def dest!: sum_transfers_total)

section \<open>Assigning transfers to a transaction\<close>

definition assigned :: "i64 \<Rightarrow> token_transfer_db_obj list \<Rightarrow> token_transfer_db_obj \<Rightarrow> token_transfer_db_obj" where
  "assigned i ts r = (if tt_id r \<in> tt_id ` set ts then r\<lparr>tt_tx_id := Some i\<rparr> else r)"

text \<open>The transfers in memory are rows of the database, each once.\<close>

definition rows_of :: "db \<Rightarrow> token_transfer_db_obj list \<Rightarrow> bool" where
  "rows_of d ts \<longleftrightarrow> set ts \<subseteq> set (tb_rows (d_token_transfer d)) \<and> distinct (map tt_id ts)"

lemma update_assigned_row:
  assumes "tbl_wf tt_id (d_token_transfer d)" "t \<in> set (tb_rows (d_token_transfer d))"
    "i \<in> tbl_ids t_id (d_tx d)" "d_foreign_keys d"
  shows "sqlx (update_token_transfer (t\<lparr>tt_tx_id := Some i\<rparr>)) d =
    (Inr (t\<lparr>tt_tx_id := Some i\<rparr>), set_rows (map (assigned i [t]) (tb_rows (d_token_transfer d))) d)"
proof -
  have same: "t\<lparr>tt_tx_id := Some i, tt_create_date := tt_create_date t\<rparr> = t\<lparr>tt_tx_id := Some i\<rparr>" by simp
  have "map (\<lambda>r. if tt_id r = tt_id t then t\<lparr>tt_tx_id := Some i, tt_create_date := tt_create_date r\<rparr> else r)
      (tb_rows (d_token_transfer d)) = map (assigned i [t]) (tb_rows (d_token_transfer d))"
  proof (intro map_cong refl)
    fix x assume x: "x \<in> set (tb_rows (d_token_transfer d))"
    show "(if tt_id x = tt_id t then t\<lparr>tt_tx_id := Some i, tt_create_date := tt_create_date x\<rparr> else x) =
        assigned i [t] x"
    proof (cases "tt_id x = tt_id t")
      case True
      then have "x = t" using row_unique [OF assms(1) x assms(2)] by simp
      with same show ?thesis by (simp add: assigned_def)
    qed (simp add: assigned_def)
  qed
  then show ?thesis
    using assms(3,4) by (simp add: update_token_transfer_def constrained_def fk_tx_iff update_tt_where_def
        tbl_update_where_def sqlx_def bindM_def set_rows_def)
qed

lemma forM_assign:
  assumes "tbl_wf tt_id (d_token_transfer d)" "rows_of d ts" "i \<in> tbl_ids t_id (d_tx d)" "d_foreign_keys d"
  shows "forM (assign_tx i ts) (\<lambda>t. bindM (sqlx (update_token_transfer t)) (\<lambda>_. ret ())) d =
    (Inr (), set_rows (map (assigned i ts) (tb_rows (d_token_transfer d))) d)"
  using assms
proof (induction ts arbitrary: d)
  case Nil
  then show ?case by (simp add: assign_tx_def assigned_def)
next
  case (Cons t ts)
  let ?d = "set_rows (map (assigned i [t]) (tb_rows (d_token_transfer d))) d"
  have ids: "map tt_id (tb_rows (d_token_transfer ?d)) = map tt_id (tb_rows (d_token_transfer d))"
    by (simp add: assigned_def)
  then have wf: "tbl_wf tt_id (d_token_transfer ?d)"
    using Cons.prems(1) by (simp only: tbl_wf_map set_rows_simps)
  have "set ts \<subseteq> set (tb_rows (d_token_transfer ?d))"
  proof
    fix q assume q: "q \<in> set ts"
    with Cons.prems(2) have "q \<in> set (tb_rows (d_token_transfer d))" "tt_id q \<noteq> tt_id t"
      by (auto simp: rows_of_def image_iff)
    then have "assigned i [t] q = q" by (simp add: assigned_def)
    with \<open>q \<in> set (tb_rows (d_token_transfer d))\<close> show "q \<in> set (tb_rows (d_token_transfer ?d))"
      by (metis image_eqI list.set_map set_rows_simps(2))
  qed
  then have "rows_of ?d ts" using Cons.prems(2) by (simp add: rows_of_def)
  moreover have "assigned i ts (assigned i [t] r) = assigned i (t # ts) r" for r
    by (auto simp: assigned_def)
  ultimately show ?case
    using Cons.IH [of ?d] wf Cons.prems update_assigned_row [of d t i]
    by (simp add: assign_tx_def bindM_def rows_of_def comp_def)
qed

lemma insert_with_transfers_result:
  assumes "db_ok d" "rows_of d ts"
  shows "\<exists>row d'. insert_with_transfers tx ts d = (Inr row, d') \<and>
    row = set_t_id (tb_seq (d_tx d) + 1) (tx_row tx) \<and> t_id row \<notin> tbl_ids t_id (d_tx d) \<and>
    tb_rows (d_tx d') = tb_rows (d_tx d) @ [row] \<and>
    tb_rows (d_token_transfer d') = map (assigned (t_id row) ts) (tb_rows (d_token_transfer d)) \<and>
    db_ok d'"
proof -
  define row where "row = set_t_id (tb_seq (d_tx d) + 1) (tx_row tx)"
  obtain d1 where d1: "insert_tx tx d = (Inr row, d1)" "tb_rows (d_tx d1) = tb_rows (d_tx d) @ [row]"
      "d_token_transfer d1 = d_token_transfer d" "d_foreign_keys d1 = d_foreign_keys d"
    by (simp add: insert_tx_def tbl_insert_def Let_def row_def)
  have ok: "db_ok d1" using ok_insert_tx assms(1) d1(1) by (rule preservesD)
  have "t_id row \<notin> tbl_ids t_id (d_tx d)"
    using txs.insert_fresh [of "d_tx d" "tx_row tx"] assms(1)
    by (simp add: row_def tbl_insert_def Let_def db_ok_def keys_ok_def)
  moreover have "forM (assign_tx (t_id row) ts) (\<lambda>t. bindM (sqlx (update_token_transfer t)) (\<lambda>_. ret ())) d1 =
      (Inr (), set_rows (map (assigned (t_id row) ts) (tb_rows (d_token_transfer d1))) d1)"
    using ok assms(2) d1 by (intro forM_assign) (auto simp: db_ok_def keys_ok_def rows_of_def tbl_ids_def)
  ultimately have "insert_with_transfers tx ts d =
      (Inr row, set_rows (map (assigned (t_id row) ts) (tb_rows (d_token_transfer d))) d1)"
    using d1 by (simp add: insert_with_transfers_def sqlx_def bindM_def)
  moreover have "db_ok (set_rows (map (assigned (t_id row) ts) (tb_rows (d_token_transfer d))) d1)"
    using preservesD [OF ok_insert_with_transfers assms(1) calculation] .
  ultimately show ?thesis using d1 \<open>t_id row \<notin> _\<close> row_def by simp
qed

definition transfers_of :: "token_transfer_multi_order list \<Rightarrow> token_transfer_db_obj list" where
  "transfers_of os = concat (map mo_token_transfers os)"

text \<open>What the two kinds of batches build.\<close>

lemma batch_transaction_pays:
  assumes "batch_transaction E t cs key s fin = Inr tx"
  shows "\<exists>to_a. addr_of_str E (k_receiver_addr key) = Some to_a \<and> (case k_token_addr key of
      None \<Rightarrow> pays_native E tx (k_from_addr key) (k_chain_id key) to_a (unat s)
    | Some tok \<Rightarrow> pays_tokens E cs tx (k_from_addr key) (k_chain_id key) tok (k_deposit_id key) fin [(to_a, unat s)])"
proof (cases "k_token_addr key")
  case None
  then show ?thesis using assms
    by (auto simp: batch_transaction_def Let_def monad_simps parse_address_def create_eth_transfer_def
        pays_native_def queued_row_def new_tx_def tx_default_def)
next
  case (Some tok)
  note tok = Some
  show ?thesis
  proof (cases "k_deposit_id key")
    case None
    with tok assms obtain f a to_a where f: "addr_of_str E (k_from_addr key) = Some f" "addr_of_str E tok = Some a"
      "addr_of_str E (k_receiver_addr key) = Some to_a"
      and tx: "create_erc20_transfer E t f a to_a s (i64_as_u64 (k_chain_id key)) None = Inr tx"
      by (auto simp: batch_transaction_def Let_def monad_simps parse_address_def)
    have "pays_tokens E cs tx (k_from_addr key) (k_chain_id key) tok None fin [(to_a, unat s)]"
      by (rule erc20_transfer_pays [OF tx f(1,2)])
    with f tok None show ?thesis by auto
  next
    case (Some dep)
    with tok assms obtain f i lock to_a where f: "addr_of_str E (k_from_addr key) = Some f" "u256_of_hex E dep = Some i"
      "cs_lock_contract_address cs = Some lock" "addr_of_str E (k_receiver_addr key) = Some to_a"
      and tx: "create_erc20_deposit_transfer E t \<lparr>sd_from = f, sd_lock_contract = lock, sd_erc20_to = to_a,
        sd_erc20_amount = s, sd_chain_id = i64_as_u64 (k_chain_id key), sd_gas_limit = None, sd_deposit_id = i,
        sd_deposit_finish = fin\<rparr> = Inr tx"
      by (auto simp: batch_transaction_def Let_def monad_simps parse_address_def parse_deposit_id_def)
    have "pays_tokens E cs tx (k_from_addr key) (k_chain_id key) tok (Some dep) fin [(to_a, unat s)]"
      by (rule deposit_transfer_pays [OF tx f(1-3)])
    with f tok Some show ?thesis by auto
  qed
qed

text \<open>A chunk of orders and the transaction row that pays it.\<close>

definition order_total :: "env \<Rightarrow> token_transfer_multi_order \<Rightarrow> nat" where
  "order_total V o' = transfers_total (ev_ext V) (mo_token_transfers o')"

definition pays_chunk ::
    "env \<Rightarrow> chain_setup \<Rightarrow> token_transfer_multi_key \<Rightarrow> string \<Rightarrow> token_transfer_multi_order list \<Rightarrow> tx_db_obj \<Rightarrow> bool" where
  "pays_chunk V cs key tok c tx \<longleftrightarrow> (\<forall>t\<in>set (transfers_of c). u256_of_dec (ev_ext V) (tt_token_amount t) \<noteq> None) \<and>
     pays_tokens (ev_ext V) cs tx (mk_from_addr key) (mk_chain_id key) tok (mk_deposit_id key)
     (\<exists>o'\<in>set c. \<exists>t\<in>set (mo_token_transfers o'). tt_deposit_finish t > 0)
     (map (\<lambda>o'. (mo_receiver o', order_total V o')) c)"

lemma chunk_transaction_pays:
  assumes "chunk_transaction E t S cs key tok rs as fin = Inr tx" and "length rs = length as"
    and "\<forall>a\<in>set as. unat a \<noteq> 2 ^ 96"
  shows "pays_tokens E cs tx (mk_from_addr key) (mk_chain_id key) tok (mk_deposit_id key) fin (zip rs (map unat as))"
proof -
  obtain f where f: "addr_of_str E (mk_from_addr key) = Some f"
    using assms(1) by (auto simp: chunk_transaction_def Let_def monad_simps parse_address_def split: if_splits option.splits)
  consider (single) r a where "rs = [r]" "as = [a]" "ps_use_transfer_for_single_payment S \<or> cs_multi_contract_address cs = None"
    | (multi) "\<not> ((ps_use_transfer_for_single_payment S \<or> cs_multi_contract_address cs = None) \<and> length rs = 1)"
  proof (cases "(ps_use_transfer_for_single_payment S \<or> cs_multi_contract_address cs = None) \<and> length rs = 1")
    case True
    then obtain r a where "rs = [r]" "as = [a]" using assms(2) by (metis One_nat_def length_0_conv length_Suc_conv)
    with True show thesis by (intro that(1)) auto
  qed (rule that(2))
  then show ?thesis
  proof cases
    case single
    show ?thesis
    proof (cases "mk_deposit_id key")
      case None
      with single assms(1) f obtain a' where a': "addr_of_str E tok = Some a'"
        and tx: "create_erc20_transfer E t f a' r a (i64_as_u64 (mk_chain_id key)) None = Inr tx"
        by (auto simp: chunk_transaction_def Let_def monad_simps parse_address_def)
      show ?thesis using erc20_transfer_pays [OF tx f a'] unfolding None single by simp
    next
      case (Some dep)
      with single assms(1) f obtain i lock where i: "u256_of_hex E dep = Some i" "cs_lock_contract_address cs = Some lock"
        and tx: "create_erc20_deposit_transfer E t \<lparr>sd_from = f, sd_lock_contract = lock, sd_erc20_to = r,
          sd_erc20_amount = a, sd_chain_id = i64_as_u64 (mk_chain_id key), sd_gas_limit = None, sd_deposit_id = i,
          sd_deposit_finish = fin\<rparr> = Inr tx"
        by (auto simp: chunk_transaction_def Let_def monad_simps parse_address_def parse_deposit_id_def)
      show ?thesis using deposit_transfer_pays [OF tx f i] unfolding Some single by simp
    qed
  next
    case multi
    then have not_single: "((ps_use_transfer_for_single_payment S \<or> cs_multi_contract_address cs = None) \<and> length rs = 1) = False" by simp
    show ?thesis
    proof (cases "mk_deposit_id key")
      case None
      with multi assms(1) f obtain m where m: "cs_multi_contract_address cs = Some m"
        and tx: "create_erc20_transfer_multi E t \<lparr>mt_from = f, mt_contract = m, mt_erc20_to = rs,
          mt_erc20_amount = as, mt_chain_id = i64_as_u64 (mk_chain_id key), mt_gas_limit = None,
          mt_direct = ps_contract_use_direct_method S, mt_unpacked = ps_contract_use_unpacked_method S\<rparr> = Inr tx"
        unfolding chunk_transaction_def Let_def not_single
        by (auto simp: monad_simps parse_address_def split: option.splits)
      show ?thesis using multi_transfer_pays [OF tx f m assms(2,3)] None by simp
    next
      case (Some dep)
      with multi assms(1) f obtain i lock where i: "u256_of_hex E dep = Some i" "cs_lock_contract_address cs = Some lock"
        and tx: "create_erc20_transfer_multi_deposit E t \<lparr>md_from = f, md_lock_contract = lock, md_erc20_to = rs,
          md_erc20_amount = as, md_chain_id = i64_as_u64 (mk_chain_id key), md_gas_limit = None, md_deposit_id = i,
          md_deposit_finish = fin\<rparr> = Inr tx"
        unfolding chunk_transaction_def Let_def not_single
        by (auto simp: monad_simps parse_address_def parse_deposit_id_def)
      show ?thesis using multi_deposit_pays [OF tx f i assms(2,3)] Some by simp
    qed
  qed
qed

lemma now_eq: "now V w = (Inr (ev_now V (w_tick w)), w\<lparr>w_tick := w_tick w + 1\<rparr>)"
  by (simp add: now_def ask_def)

lemma batch_chunk_result:
  assumes "batch_chunk V S cs key tok c w = (Inr tx, w')" "world_ok w" "rows_of (w_db w) (transfers_of c)"
  shows "((\<forall>o'\<in>set c. order_total V o' \<noteq> 2 ^ 96) \<longrightarrow> pays_chunk V cs key tok c tx) \<and> tx_rows w' = tx_rows w @ [tx] \<and> t_id tx \<notin> tbl_ids t_id (d_tx (w_db w)) \<and>
    transfer_rows w' = map (assigned (t_id tx) (transfers_of c)) (transfer_rows w) \<and> world_ok w'"
proof -
  from assms(1) obtain ss tx0 where
    ss: "sum_orders (ev_ext V) c = Inr ss"
    and tx0: "chunk_transaction (ev_ext V) (ev_now V (w_tick w)) S cs key tok (map mo_receiver c) ss (orders_finish c) = Inr tx0"
    and ins: "db_transaction (insert_with_transfers tx0 (transfers_of c)) (w\<lparr>w_tick := w_tick w + 1\<rparr>) = (Inr tx, w')"
    by (auto simp: batch_chunk_def bindM_eq_Inr_iff now_eq transfers_of_def)
  obtain row d' where r: "insert_with_transfers tx0 (transfers_of c) (w_db w) = (Inr row, d')"
    "row = set_t_id (tb_seq (d_tx (w_db w)) + 1) (tx_row tx0)" "t_id row \<notin> tbl_ids t_id (d_tx (w_db w))"
    "tb_rows (d_tx d') = tx_rows w @ [row]"
    "tb_rows (d_token_transfer d') = map (assigned (t_id row) (transfers_of c)) (transfer_rows w)" "db_ok d'"
    using insert_with_transfers_result [of "w_db w" "transfers_of c" tx0] assms(2,3)
    unfolding world_ok_def by blast
  with ins have "tx = row" "w_db w' = d'" by (auto simp: db_transaction_done)
  moreover have "pays_chunk V cs key tok c row" if "\<forall>o'\<in>set c. order_total V o' \<noteq> 2 ^ 96"
  proof -
    have unat_ss: "map unat ss = map (order_total V) c"
      using sum_orders_total [OF ss] by (simp add: order_total_def)
    then have "unat ` set ss = order_total V ` set c" by (metis list.set_map)
    then have "\<forall>a\<in>set ss. unat a \<noteq> 2 ^ 96" using that by (metis imageE imageI)
    moreover have "length (map mo_receiver c) = length ss" using unat_ss by (metis length_map)
    moreover have "orders_finish c = (\<exists>o'\<in>set c. \<exists>t\<in>set (mo_token_transfers o'). tt_deposit_finish t > 0)"
      by (simp add: orders_finish_def list_ex_iff)
    ultimately have "pays_tokens (ev_ext V) cs tx0 (mk_from_addr key) (mk_chain_id key) tok (mk_deposit_id key)
        (\<exists>o'\<in>set c. \<exists>t\<in>set (mo_token_transfers o'). tt_deposit_finish t > 0)
        (zip (map mo_receiver c) (map unat ss))"
      using chunk_transaction_pays [OF tx0] by simp
    moreover have "zip (map mo_receiver c) (map unat ss) = map (\<lambda>o'. (mo_receiver o', order_total V o')) c"
      unfolding unat_ss by (simp add: zip_map_map zip_same_conv_map comp_def)
    moreover have "\<forall>t\<in>set (transfers_of c). u256_of_dec (ev_ext V) (tt_token_amount t) \<noteq> None"
      using sum_orders_parse [OF ss] by (auto simp: transfers_of_def)
    ultimately show ?thesis by (simp add: pays_chunk_def r(2))
  qed
  ultimately show ?thesis
    using r by (auto simp: world_ok_def)
qed

lemma catch_err_Inr: "catch_err m w = (Inr (Inr a), w') \<longleftrightarrow> m w = (Inr a, w')"
  by (auto simp: catch_err_def split: prod.split sum.split failure.split)

lemma catch_err_Inl: "catch_err m w = (Inr (Inl e), w') \<longleftrightarrow> m w = (Inl (Err e), w')"
  by (auto simp: catch_err_def split: prod.split sum.split failure.split)

text \<open>Rows outside of the assigned transfers stay, assigned ones get the transaction.\<close>

lemma assigned_rows:
  assumes "rows_of d ts" "rs = map (assigned i ts) (tb_rows (d_token_transfer d))"
  shows "t \<in> set ts \<Longrightarrow> t\<lparr>tt_tx_id := Some i\<rparr> \<in> set rs"
    and "r \<in> set (tb_rows (d_token_transfer d)) \<Longrightarrow> tt_id r \<notin> tt_id ` set ts \<Longrightarrow> r \<in> set rs"
proof -
  show "t\<lparr>tt_tx_id := Some i\<rparr> \<in> set rs" if "t \<in> set ts"
  proof -
    have "t \<in> set (tb_rows (d_token_transfer d))" using assms(1) that by (auto simp: rows_of_def)
    moreover have "assigned i ts t = t\<lparr>tt_tx_id := Some i\<rparr>" using that by (simp add: assigned_def)
    ultimately show ?thesis unfolding assms(2) by (metis image_eqI list.set_map)
  qed
  show "r \<in> set rs" if "r \<in> set (tb_rows (d_token_transfer d))" "tt_id r \<notin> tt_id ` set ts"
  proof -
    have "assigned i ts r = r" using that by (simp add: assigned_def)
    then show ?thesis using that(1) unfolding assms(2) by (metis image_eqI list.set_map)
  qed
qed

lemma batch_chunks_result:
  "batch_chunks V S cs key tok cks w = (Inr (os', Inr k), w') \<Longrightarrow> world_ok w \<Longrightarrow>
    rows_of (w_db w) (transfers_of (concat cks)) \<Longrightarrow> \<forall>o'\<in>set (concat cks). order_total V o' \<noteq> 2 ^ 96 \<Longrightarrow>
    \<exists>txs. tx_rows w' = tx_rows w @ txs \<and> list_all2 (pays_chunk V cs key tok) cks txs \<and> world_ok w' \<and>
      (\<forall>(c, tx)\<in>set (zip cks txs). \<forall>t\<in>set (transfers_of c). t\<lparr>tt_tx_id := Some (t_id tx)\<rparr> \<in> set (transfer_rows w')) \<and>
      (\<forall>r\<in>set (transfer_rows w). tt_id r \<notin> tt_id ` set (transfers_of (concat cks)) \<longrightarrow> r \<in> set (transfer_rows w'))"
proof (induction cks arbitrary: w os' k)
  case (Cons c cks)
  from Cons.prems(1) obtain tx w1 rest where
    c: "batch_chunk V S cs key tok c w = (Inr tx, w1)"
    and cks: "batch_chunks V S cs key tok cks w1 = (Inr (rest, Inr k), w')"
  proof -
    obtain r0 w1 where r0: "catch_err (batch_chunk V S cs key tok c) w = (Inr r0, w1)"
      "(case r0 of Inl e \<Rightarrow> ret (concat (c # cks), Inl e)
        | Inr tx \<Rightarrow> bindM (batch_chunks V S cs key tok cks) (\<lambda>(rest, r'). ret (assign_orders (t_id tx) c @ rest, r'))) w1
        = (Inr (os', Inr k), w')"
      using Cons.prems(1) unfolding batch_chunks.simps by (rule bindM_InrD)
    then show ?thesis
      using that by (cases r0) (auto simp: bindM_eq_Inr_iff catch_err_Inr split: prod.splits)
  qed
  have split: "transfers_of (concat (c # cks)) = transfers_of c @ transfers_of (concat cks)"
    by (simp add: transfers_of_def)
  have rc: "rows_of (w_db w) (transfers_of c)" and ids: "tt_id ` set (transfers_of c) \<inter> tt_id ` set (transfers_of (concat cks)) = {}"
    using Cons.prems(3) unfolding split rows_of_def by auto
  have exact: "\<forall>o'\<in>set c. order_total V o' \<noteq> 2 ^ 96" "\<forall>o'\<in>set (concat cks). order_total V o' \<noteq> 2 ^ 96"
    using Cons.prems(4) by auto
  note r = batch_chunk_result [OF c Cons.prems(2) rc]
  note keep = assigned_rows [OF rc, of "transfer_rows w1" "t_id tx"]
  have "rows_of (w_db w1) (transfers_of (concat cks))"
    using Cons.prems(3) keep(2) r ids unfolding split rows_of_def by fastforce
  from Cons.IH [OF cks _ this exact(2)] r obtain txs where txs: "tx_rows w' = tx_rows w1 @ txs"
    "list_all2 (pays_chunk V cs key tok) cks txs" "world_ok w'"
    "\<forall>(c, tx)\<in>set (zip cks txs). \<forall>t\<in>set (transfers_of c). t\<lparr>tt_tx_id := Some (t_id tx)\<rparr> \<in> set (transfer_rows w')"
    "\<forall>r\<in>set (transfer_rows w1). tt_id r \<notin> tt_id ` set (transfers_of (concat cks)) \<longrightarrow> r \<in> set (transfer_rows w')"
    by blast
  have "t\<lparr>tt_tx_id := Some (t_id tx)\<rparr> \<in> set (transfer_rows w')" if "t \<in> set (transfers_of c)" for t
    using keep(1) [OF _ that] r txs(5) ids that by fastforce
  moreover have "r' \<in> set (transfer_rows w')" if "r' \<in> set (transfer_rows w)"
      "tt_id r' \<notin> tt_id ` set (transfers_of (concat (c # cks)))" for r'
    using keep(2) [OF _ that(1)] r txs(5) that(2) unfolding split by auto
  ultimately show ?case using r exact txs by (intro exI [of _ "tx # txs"]) auto
qed auto

section \<open>The allowance gate\<close>

definition gate_applies :: "payment_setup \<Rightarrow> chain_setup \<Rightarrow> token_transfer_multi_key \<Rightarrow> bool" where
  "gate_applies S cs key \<longleftrightarrow> \<not> ps_skip_multi_contract_check S \<and> mk_deposit_id key = None \<and>
     cs_multi_contract_address cs \<noteq> None"

lemma check_multi_allowance_db: "w_db (snd (check_multi_allowance V S cs key tok w)) = w_db w"
  by (auto simp: check_multi_allowance_def bindM_def db_run_eq find_allowance_def liftR_def
      split: option.splits sum.splits)

section \<open>Properties\<close>

text \<open>A transfer that waits for a transaction of the account on the chain.\<close>

definition awaits_gathering :: "externals \<Rightarrow> address \<Rightarrow> i64 \<Rightarrow> token_transfer_db_obj \<Rightarrow> bool" where
  "awaits_gathering E account chain_id t \<longleftrightarrow> tt_tx_id t = None \<and> tt_error t = None \<and>
     tt_from_addr t = str_of_addr E account \<and> tt_chain_id t = chain_id"

text \<open>C1. Gathering puts every pending transfer of the account and chain with two valid non-zero addresses
  exactly once into a group; a group holds only transfers with the sender, receiver, chain, token and deposit of its
  key, no key appears twice and no group is empty. The flag that more work was queued is set exactly when a
  deposit was closed.\<close>

theorem gather_groups_pending:
  assumes "gather_transactions_pre V S account chain_id w = (Inr (m, needed), w')"
  shows "mset (concat (map snd m)) =
      mset (filter (\<lambda>t. awaits_gathering (ev_ext V) account chain_id t \<and> groupable (ev_ext V) t) (transfer_rows w)) \<and>
    distinct (map fst m) \<and>
    (\<forall>(k, vs)\<in>set m. vs \<noteq> [] \<and> (\<forall>v\<in>set vs. tt_from_addr v = k_from_addr k \<and> tt_receiver_addr v = k_receiver_addr k \<and>
       tt_chain_id v = k_chain_id k \<and> tt_token_addr v = k_token_addr k \<and> tt_deposit_id v = k_deposit_id k)) \<and>
    needed = (\<exists>t\<in>set (transfer_rows w). awaits_gathering (ev_ext V) account chain_id t \<and> closes_deposit (ev_ext V) t)"
proof -
  let ?pending = "sort_key tt_id (filter (awaits_gathering (ev_ext V) account chain_id) (transfer_rows w))"
  have "get_pending_token_transfers (ev_ext V) account chain_id (w_db w) = (Inr ?pending, w_db w)"
    by (simp add: get_pending_token_transfers_def tbl_select_def awaits_gathering_def [abs_def])
  then have "foldM (gather_pre_step V S) ([], False) ?pending w = (Inr (m, needed), w')"
    using assms by (auto simp: gather_transactions_pre_def bindM_eq_Inr_iff db_run_Inr)
  from gather_pre_fold_ok [OF this, of "[]"]
  have g: "mset (concat (map snd m)) = mset (filter (groupable (ev_ext V)) ?pending)" "distinct (map fst m)"
    "\<forall>(k, vs)\<in>set m. vs \<noteq> [] \<and> (\<forall>v\<in>set vs. transfer_key v = k)" "needed = list_ex (closes_deposit (ev_ext V)) ?pending"
    by (simp_all add: grouping_ok_def)
  from g(1) have "mset (concat (map snd m)) =
      mset (filter (\<lambda>t. awaits_gathering (ev_ext V) account chain_id t \<and> groupable (ev_ext V) t) (transfer_rows w))"
    by (simp add: filter_filter_mset conj_commute)
  moreover have "\<forall>(k, vs)\<in>set m. vs \<noteq> [] \<and> (\<forall>v\<in>set vs. tt_from_addr v = k_from_addr k \<and> tt_receiver_addr v = k_receiver_addr k \<and>
       tt_chain_id v = k_chain_id k \<and> tt_token_addr v = k_token_addr k \<and> tt_deposit_id v = k_deposit_id k)"
  proof -
    have "transfer_key v = k \<Longrightarrow> tt_from_addr v = k_from_addr k \<and> tt_receiver_addr v = k_receiver_addr k \<and>
       tt_chain_id v = k_chain_id k \<and> tt_token_addr v = k_token_addr k \<and> tt_deposit_id v = k_deposit_id k" for v k
      by (auto simp: transfer_key_def)
    with g(3) show ?thesis by fast
  qed
  ultimately show ?thesis using g(2,4) by (auto simp: list_ex_iff)
qed

text \<open>Two transfers of the same receiver, one of them from a deposit, stay apart.\<close>

abbreviation sample_deposited :: token_transfer_db_obj where
  "sample_deposited \<equiv> (sample_transfer 2 None)\<lparr>tt_deposit_id := Some ''1''\<rparr>"

theorem gather_groups_pending_witness:
  "\<exists>w' m. gather_transactions_pre quiet_env sample_setup 1 5 (world_with [sample_transfer 1 None, sample_deposited])
     = (Inr (m, False), w') \<and> map snd m = [[sample_transfer 1 None], [sample_deposited]] \<and>
   mset (concat (map snd m)) = {#sample_transfer 1 None, sample_deposited#}"
proof -
  let ?w = "world_with [sample_transfer 1 None, sample_deposited]"
  let ?keys = "[(transfer_key (sample_transfer 1 None), [sample_transfer 1 None]), (transfer_key sample_deposited, [sample_deposited])]"
  have p: "get_pending_token_transfers (ev_ext quiet_env) 1 5 (w_db ?w) = (Inr [sample_transfer 1 None, sample_deposited], w_db ?w)"
    by (simp add: get_pending_token_transfers_def tbl_select_def sample_defs)
  have step: "gather_pre_step quiet_env sample_setup (m, b) t = ret (map_push (transfer_key t) t m, b)"
    if "t = sample_transfer 1 None \<or> t = sample_deposited" for m b t
    using that by (auto simp: gather_pre_step_def Let_def quiet_env_def unary_def sample_transfer_def is_close_marker_def)
  have r: "gather_transactions_pre quiet_env sample_setup 1 5 ?w = (Inr (?keys, False), ?w)"
    by (simp add: gather_transactions_pre_def bindM_def db_run_eq p step)
      (simp add: transfer_key_def sample_transfer_def)
  have "filter (\<lambda>t. awaits_gathering (ev_ext quiet_env) 1 5 t \<and> groupable (ev_ext quiet_env) t) (transfer_rows ?w) =
      [sample_transfer 1 None, sample_deposited]"
    by (simp add: awaits_gathering_def groupable_def sample_defs)
  with gather_groups_pending [OF r] r show ?thesis by auto
qed

text \<open>C3. A successful batch of one group stores exactly one new transaction, which waits in the queue of the group's
  sender and chain and pays the receiver of the group the exact sum of the amounts of its transfers: in the native
  token by its value, in tokens by the call of the token contract, from a deposit by the call of the lock contract,
  which closes the deposit exactly when a transfer of the group does. It attaches exactly the group's transfers to
  it; every other transfer and every existing transaction is as before.\<close>

theorem batch_pays_sum:
  assumes "gather_transactions_batch V S ts key w = (Inr n, w')" and "world_ok w" and "rows_of (w_db w) ts"
  shows "\<exists>cs to_a row. ps_chain_setup S (k_chain_id key) = Some cs \<and>
    addr_of_str (ev_ext V) (k_receiver_addr key) = Some to_a \<and>
    (\<forall>t\<in>set ts. u256_of_dec (ev_ext V) (tt_token_amount t) \<noteq> None) \<and>
    (case k_token_addr key of
       None \<Rightarrow> pays_native (ev_ext V) row (k_from_addr key) (k_chain_id key) to_a (transfers_total (ev_ext V) ts)
     | Some tok \<Rightarrow> pays_tokens (ev_ext V) cs row (k_from_addr key) (k_chain_id key) tok (k_deposit_id key)
         (\<exists>t\<in>set ts. tt_deposit_finish t > 0) [(to_a, transfers_total (ev_ext V) ts)]) \<and>
    t_id row \<notin> tbl_ids t_id (d_tx (w_db w)) \<and> tx_rows w' = tx_rows w @ [row] \<and>
    transfer_rows w' = map (\<lambda>r. if tt_id r \<in> tt_id ` set ts then r\<lparr>tt_tx_id := Some (t_id row)\<rparr> else r) (transfer_rows w)"
proof -
  from assms(1) obtain s cs tx row where
    s: "sum_transfers (ev_ext V) 0 ts = Inr s"
    and cs: "ps_chain_setup S (k_chain_id key) = Some cs"
    and tx: "batch_transaction (ev_ext V) (ev_now V (w_tick w)) cs key s (list_ex (\<lambda>f. tt_deposit_finish f > 0) ts) = Inr tx"
    and ins: "db_transaction (insert_with_transfers tx ts) (w\<lparr>w_tick := w_tick w + 1\<rparr>) = (Inr row, w')"
    by (auto simp: gather_transactions_batch_def bindM_eq_Inr_iff now_eq require_def split: option.splits)
  obtain r d' where r: "insert_with_transfers tx ts (w_db w) = (Inr r, d')"
    "r = set_t_id (tb_seq (d_tx (w_db w)) + 1) (tx_row tx)" "t_id r \<notin> tbl_ids t_id (d_tx (w_db w))"
    "tb_rows (d_tx d') = tx_rows w @ [r]"
    "tb_rows (d_token_transfer d') = map (assigned (t_id r) ts) (transfer_rows w)"
    using insert_with_transfers_result [of "w_db w" ts tx] assms(2,3) unfolding world_ok_def by blast
  with ins have "row = r" "w_db w' = d'" by (auto simp: db_transaction_done)
  note r = r [folded \<open>row = r\<close> \<open>w_db w' = d'\<close>]
  have rows: "transfer_rows w' = map (\<lambda>q. if tt_id q \<in> tt_id ` set ts then q\<lparr>tt_tx_id := Some (t_id row)\<rparr> else q) (transfer_rows w)"
    unfolding r(5) assigned_def ..
  have total_eq: "unat s = transfers_total (ev_ext V) ts"
    using sum_transfers_total [OF s] by (simp add: transfers_total_def)
  have fin: "list_ex (\<lambda>f. tt_deposit_finish f > 0) ts = (\<exists>t\<in>set ts. tt_deposit_finish t > 0)" by (simp add: list_ex_iff)
  obtain to_a where to_a: "addr_of_str (ev_ext V) (k_receiver_addr key) = Some to_a"
    and pays: "case k_token_addr key of
        None \<Rightarrow> pays_native (ev_ext V) row (k_from_addr key) (k_chain_id key) to_a (transfers_total (ev_ext V) ts)
      | Some tok \<Rightarrow> pays_tokens (ev_ext V) cs row (k_from_addr key) (k_chain_id key) tok (k_deposit_id key)
          (\<exists>t\<in>set ts. tt_deposit_finish t > 0) [(to_a, transfers_total (ev_ext V) ts)]"
    using batch_transaction_pays [OF tx] unfolding r(2) pays_tokens_stored pays_native_stored total_eq fin by blast
  have parse: "\<forall>t\<in>set ts. u256_of_dec (ev_ext V) (tt_token_amount t) \<noteq> None" using sum_transfers_parse [OF s] by blast
  show ?thesis by (intro exI conjI; fact cs to_a parse pays r(3) r(4) rows)
qed

lemma sample_world_ok: "world_ok (world_with [sample_transfer 1 tok])"
  by (rule world_ok_with) simp_all

lemma sample_batch_runs:
  "\<exists>w'. gather_transactions_batch quiet_env sample_setup [sample_transfer 1 None]
     (transfer_key (sample_transfer 1 None)) (world_with [sample_transfer 1 None]) = (Inr 1, w')"
proof -
  let ?ts = "[sample_transfer 1 None]"
  have "rows_of (w_db (world_with ?ts)) ?ts" by (simp add: rows_of_def)
  moreover have "db_ok (w_db (world_with ?ts))" using sample_world_ok by (simp add: world_ok_def)
  ultimately have ins: "\<exists>row d'. insert_with_transfers tx ?ts (w_db (world_with ?ts)) = (Inr row, d')" for tx
    using insert_with_transfers_result by metis
  have sum: "sum_transfers (ev_ext quiet_env) 0 ?ts = Inr 3"
    by (simp add: quiet_env_def unary_def sample_transfer_def parse_dec_def u256_add_def)
  have cfg: "ps_chain_setup sample_setup (k_chain_id (transfer_key (sample_transfer 1 None))) = Some sample_chain"
    by (simp add: sample_setup_def transfer_key_def sample_transfer_def)
  have tx: "\<exists>tx. batch_transaction (ev_ext quiet_env) t sample_chain (transfer_key (sample_transfer 1 None)) 3 b = Inr tx" for t b
    by (simp add: batch_transaction_def Let_def transfer_key_def sample_transfer_def quiet_env_def unary_def parse_address_def)
  obtain tx0 where "batch_transaction (ev_ext quiet_env) (ev_now quiet_env (w_tick (world_with ?ts))) sample_chain
      (transfer_key (sample_transfer 1 None)) 3 False = Inr tx0"
    using tx by blast
  moreover obtain row d' where "insert_with_transfers tx0 ?ts (w_db (world_with ?ts)) = (Inr row, d')"
    using ins by blast
  ultimately show ?thesis
    by (simp add: gather_transactions_batch_def bindM_def sum cfg now_eq db_transaction_eq del: sum_transfers.simps)
qed

theorem batch_pays_sum_witness:
  "\<exists>row w'. tx_rows w' = [row] \<and> t_val row = ''111'' \<and> t_to_addr row = ''aa'' \<and> t_from_addr row = ''a'' \<and>
     transfer_rows w' = [(sample_transfer 1 None)\<lparr>tt_tx_id := Some (t_id row)\<rparr>]"
proof -
  let ?key = "transfer_key (sample_transfer 1 None)"
  obtain w' where w': "gather_transactions_batch quiet_env sample_setup [sample_transfer 1 None] ?key
      (world_with [sample_transfer 1 None]) = (Inr 1, w')"
    using sample_batch_runs by blast
  have "rows_of (w_db (world_with [sample_transfer 1 None])) [sample_transfer 1 None]" by (simp add: rows_of_def)
  from batch_pays_sum [OF w' sample_world_ok this] obtain to_a row where
    *: "addr_of_str (ev_ext quiet_env) (k_receiver_addr ?key) = Some to_a"
    "pays_native (ev_ext quiet_env) row (k_from_addr ?key) (k_chain_id ?key) to_a (transfers_total (ev_ext quiet_env) [sample_transfer 1 None])"
    "tx_rows w' = tx_rows (world_with [sample_transfer 1 None]) @ [row]"
    "transfer_rows w' = map (\<lambda>r. if tt_id r \<in> tt_id ` set [sample_transfer 1 None]
        then r\<lparr>tt_tx_id := Some (t_id row)\<rparr> else r) (transfer_rows (world_with [sample_transfer 1 None]))"
    by (auto simp: transfer_key_def sample_transfer_def)
  have u: "ev_ext quiet_env = unary" by (simp add: quiet_env_def)
  have total3: "transfers_total unary [sample_transfer 1 None] = 3" and to_a: "to_a = 2"
    using *(1) by (simp_all add: transfers_total_def u, simp_all add: unary_def sample_transfer_def transfer_key_def)
  obtain v where v: "t_val row = dec_of_u256 unary v" "unat v = 3"
    using *(2) unfolding u total3 pays_native_def by blast
  have "t_to_addr row = ''aa''" "t_from_addr row = ''a''"
    using *(2) unfolding u total3 to_a pays_native_def queued_row_def
    by (auto simp: unary_def transfer_key_def sample_transfer_def) (simp add: eval_nat_numeral)
  moreover have "t_val row = ''111''" unfolding v(1) by (simp add: unary_def v(2) numeral_3_eq_3)
  ultimately show ?thesis using *(3,4)
    by (intro exI [of _ row] exI [of _ w']) (simp add: world_with_def world_initial_def db_empty_def tbl_empty_def)
qed

text \<open>C2. A successful multi batch cuts the orders, in order and without loss, into chunks of at most the
  number of transfers the contract takes and stores one transaction per chunk. The call of that transaction names
  every receiver of the chunk, in order, with exactly the sum of its transfers, and is made on the token, the multi contract or the
  deposit of the batch. Each transfer is attached to the transaction of its own chunk and all other transfers are
  left alone. The sums must differ from 2^96, the one amount the packing takes and loses.\<close>

theorem multi_batch_conserves:
  assumes "gather_transactions_batch_multi V S orders key w = (Inr (orders', Inr k), w')"
    and "world_ok w" and "rows_of (w_db w) (transfers_of orders)"
    and "\<forall>o'\<in>set orders. order_total V o' \<noteq> 2 ^ 96"
  shows "\<exists>cs tok cks txs. ps_chain_setup S (mk_chain_id key) = Some cs \<and> mk_token_addr key = Some tok \<and>
    concat cks = orders \<and> (\<forall>c\<in>set cks. 0 < length c \<and> length c \<le> cs_multi_contract_max_at_once cs) \<and>
    (\<forall>c\<in>set (butlast cks). length c = cs_multi_contract_max_at_once cs) \<and>
    tx_rows w' = tx_rows w @ txs \<and> list_all2 (pays_chunk V cs key tok) cks txs \<and>
    (\<forall>(c, tx)\<in>set (zip cks txs). \<forall>t\<in>set (transfers_of c).
       t\<lparr>tt_tx_id := Some (t_id tx)\<rparr> \<in> set (transfer_rows w')) \<and>
    (\<forall>r\<in>set (transfer_rows w). tt_id r \<notin> tt_id ` set (transfers_of orders) \<longrightarrow> r \<in> set (transfer_rows w'))"
proof -
  obtain cs tok where cs: "ps_chain_setup S (mk_chain_id key) = Some cs" "mk_token_addr key = Some tok"
    using assms(1) by (auto simp: gather_transactions_batch_multi_def split: option.splits)
  let ?n = "cs_multi_contract_max_at_once cs"
  obtain r w1 where r: "catch_err (check_multi_allowance V S cs key tok) w = (Inr r, w1)"
    "(case r of Inl e \<Rightarrow> ret (orders, Inl e) | Inr _ \<Rightarrow> if ?n = 0 then throw (Panic ''chunk size must be non-zero'')
       else batch_chunks V S cs key tok (chunks ?n orders)) w1 = (Inr (orders', Inr k), w')"
    using assms(1) cs by (auto simp: gather_transactions_batch_multi_def elim!: bindM_InrD)
  have n: "?n \<noteq> 0" and b: "batch_chunks V S cs key tok (chunks ?n orders) w1 = (Inr (orders', Inr k), w')"
    using r(2) by (auto split: sum.splits if_splits)
  have "w_db w1 = w_db w"
    using check_multi_allowance_db [of V S cs key tok w] r(1)
    by (auto simp: catch_err_def split: prod.splits sum.splits failure.splits)
  note same = this
  have all: "concat (chunks ?n orders) = orders" using n by (intro concat_chunks) simp
  have "world_ok w1" "rows_of (w_db w1) (transfers_of (concat (chunks ?n orders)))"
    using assms(2,3) by (simp_all add: world_ok_def same all)
  from batch_chunks_result [OF b this, unfolded same all, OF assms(4)] obtain txs where txs:
    "tx_rows w' = tx_rows w @ txs" "list_all2 (pays_chunk V cs key tok) (chunks ?n orders) txs"
    "\<forall>(c, tx)\<in>set (zip (chunks ?n orders) txs). \<forall>t\<in>set (transfers_of c).
       t\<lparr>tt_tx_id := Some (t_id tx)\<rparr> \<in> set (transfer_rows w')"
    "\<forall>r\<in>set (transfer_rows w). tt_id r \<notin> tt_id ` set (transfers_of orders) \<longrightarrow> r \<in> set (transfer_rows w')"
    by blast
  have bound: "\<forall>c\<in>set (chunks ?n orders). 0 < length c \<and> length c \<le> ?n" using chunks_bound by blast
  have full: "\<forall>c\<in>set (butlast (chunks ?n orders)). length c = ?n" using chunks_full by blast
  show ?thesis by (intro exI conjI; fact cs all bound full txs)
qed

text \<open>C6. Where the multi contract is configured, the check is not disabled and no deposit is used, a multi batch
  is refused with a request for the maximal allowance unless the database has a confirmed allowance of
  at least half of the maximum for this owner, token, contract and chain; a refusal leaves the database
  as it was.\<close>

theorem allowance_gate:
  assumes "ps_chain_setup S (mk_chain_id key) = Some cs" and "mk_token_addr key = Some tok"
    and "\<not> ps_skip_multi_contract_check S" and "mk_deposit_id key = None"
    and "cs_multi_contract_address cs = Some multi"
    and "fst (find_allowance (mk_from_addr key) tok (str_of_addr (ev_ext V) multi) (mk_chain_id key) (w_db w)) = Inr al"
    and "al = None \<or> al_confirm_date (the al) = None \<or>
      (\<exists>v. u256_of_dec (ev_ext V) (al_allowance (the al)) = Some v \<and> v < u256_max div 2)"
  shows "\<exists>w'. gather_transactions_batch_multi V S orders key w =
      (Inr (orders, Inl (NoAllowanceFound \<lparr>ar_owner = mk_from_addr key, ar_token_addr = tok,
         ar_spender_addr = str_of_addr (ev_ext V) multi, ar_chain_id = mk_chain_id key, ar_amount = u256_max\<rparr>)), w')
    \<and> w_db w' = w_db w"
proof -
  have "allowance_not_met (ev_ext V) al = Inr True"
    using assms(7) by (auto simp: allowance_not_met_def parse_dec_def minimum_allowance_def split: option.splits)
  moreover have "find_allowance (mk_from_addr key) tok (str_of_addr (ev_ext V) multi) (mk_chain_id key) (w_db w) = (Inr al, w_db w)"
    using assms(6) by (simp add: find_allowance_def)
  ultimately show ?thesis
    using assms(1-5)
    by (simp add: gather_transactions_batch_multi_def check_multi_allowance_def bindM_def db_run_eq catch_err_def)
qed

definition sample_multi_key :: token_transfer_multi_key where
  "sample_multi_key = \<lparr>mk_from_addr = ''a'', mk_chain_id = 5, mk_token_addr = Some ''aaaa'', mk_deposit_id = None\<rparr>"

theorem allowance_gate_witness:
  "\<exists>w' req. gather_transactions_batch_multi quiet_env sample_setup [] sample_multi_key world_initial =
     (Inr ([], Inl (NoAllowanceFound req)), w') \<and> w_db w' = db_empty \<and> ar_spender_addr req = replicate 6 CHR ''a''"
proof -
  have a: "str_of_addr (ev_ext quiet_env) 6 = replicate 6 CHR ''a''"
    by (simp add: quiet_env_def unary_def)
  have "fst (find_allowance (mk_from_addr sample_multi_key) ''aaaa'' (str_of_addr (ev_ext quiet_env) 6)
      (mk_chain_id sample_multi_key) (w_db world_initial)) = Inr None"
    by (simp add: find_allowance_def world_initial_def db_empty_def tbl_empty_def)
  from allowance_gate [OF _ _ _ _ _ this, of sample_setup sample_chain "[]"]
  obtain w' where "gather_transactions_batch_multi quiet_env sample_setup [] sample_multi_key world_initial =
     (Inr ([], Inl (NoAllowanceFound \<lparr>ar_owner = mk_from_addr sample_multi_key, ar_token_addr = ''aaaa'',
         ar_spender_addr = str_of_addr (ev_ext quiet_env) 6, ar_chain_id = mk_chain_id sample_multi_key, ar_amount = u256_max\<rparr>)), w')"
     "w_db w' = w_db world_initial"
    by (auto simp: sample_multi_key_def sample_setup_def sample_chain_def)
  then show ?thesis by (auto simp: a world_initial_def)
qed

definition sample_order :: "i64 \<Rightarrow> string \<Rightarrow> token_transfer_multi_order" where
  "sample_order i amount = \<lparr>mo_receiver = 2,
     mo_token_transfers = [(sample_transfer i (Some ''aaaa''))\<lparr>tt_token_amount := amount\<rparr>]\<rparr>"

abbreviation sample_open_setup :: payment_setup where
  "sample_open_setup \<equiv> sample_setup\<lparr>ps_skip_multi_contract_check := True\<rparr>"

abbreviation sample_pending :: "i64 \<Rightarrow> string \<Rightarrow> token_transfer_db_obj" where
  "sample_pending i amount \<equiv> (sample_transfer i (Some ''aaaa''))\<lparr>tt_token_amount := amount\<rparr>"

lemma sample_config [simp]:
  "ps_chain_setup sample_setup (mk_chain_id sample_multi_key) = Some sample_chain"
  "mk_token_addr sample_multi_key = Some ''aaaa''" "cs_multi_contract_max_at_once sample_chain = 2"
  "check_multi_allowance V sample_open_setup cs key tok = ret ()"
  by (simp_all add: sample_setup_def sample_multi_key_def sample_chain_def check_multi_allowance_def)

lemma sample_chunk_runs:
  assumes "world_ok w" "sample_pending i ''11'' \<in> set (transfer_rows w)"
  shows "\<exists>tx w'. batch_chunk quiet_env sample_open_setup sample_chain sample_multi_key ''aaaa'' [sample_order i ''11''] w = (Inr tx, w')"
proof -
  have sums: "sum_orders (ev_ext quiet_env) [sample_order i ''11''] = Inr [2]"
    by (simp add: quiet_env_def unary_def sample_order_def parse_dec_def u256_add_def)
  have "\<exists>tx. chunk_transaction (ev_ext quiet_env) t sample_open_setup sample_chain sample_multi_key ''aaaa'' [2] [2] b = Inr tx" for t b
    by (simp add: chunk_transaction_def Let_def sample_multi_key_def sample_setup_def quiet_env_def unary_def
        parse_address_def create_erc20_transfer_def with_data_def)
  then obtain tx where "chunk_transaction (ev_ext quiet_env) (ev_now quiet_env (w_tick w)) sample_open_setup sample_chain
      sample_multi_key ''aaaa'' [2] [2] False = Inr tx" by blast
  moreover have "rows_of (w_db w) [sample_pending i ''11'']" using assms(2) by (simp add: rows_of_def)
  then obtain row d' where "insert_with_transfers tx [sample_pending i ''11''] (w_db w) = (Inr row, d')"
    using insert_with_transfers_result assms(1) unfolding world_ok_def by metis
  ultimately show ?thesis
    by (simp add: batch_chunk_def bindM_def sums now_eq db_transaction_eq orders_finish_def del: sum_orders.simps)
      (simp add: sample_order_def db_transaction_eq)
qed

text \<open>Two orders for different receivers in one call of the multi contract.\<close>

abbreviation sample_pair :: "token_transfer_multi_order list" where
  "sample_pair \<equiv> [sample_order 1 ''11'', (sample_order 2 ''111'')\<lparr>mo_receiver := 3\<rparr>]"

abbreviation sample_pair_world :: world where
  "sample_pair_world \<equiv> world_with [sample_pending 1 ''11'', sample_pending 2 ''111'']"

lemma sample_pair_rows: "world_ok sample_pair_world" "rows_of (w_db sample_pair_world) (transfers_of sample_pair)"
  by (rule world_ok_with) (simp_all add: rows_of_def transfers_of_def sample_order_def)

lemma sample_pair_totals: "order_total quiet_env (sample_order 1 ''11'') = 2" "order_total quiet_env ((sample_order 2 ''111'')\<lparr>mo_receiver := 3\<rparr>) = 3"
  by (simp_all add: order_total_def transfers_total_def sample_order_def quiet_env_def unary_def)

lemma sample_pair_runs:
  "\<exists>tx w'. batch_chunk quiet_env sample_open_setup sample_chain sample_multi_key ''aaaa'' sample_pair sample_pair_world = (Inr tx, w')"
proof -
  have sums: "sum_orders (ev_ext quiet_env) sample_pair = Inr [2, 3]"
    by (simp add: quiet_env_def unary_def sample_order_def parse_dec_def u256_add_def)
  have "\<exists>tx. chunk_transaction (ev_ext quiet_env) t sample_open_setup sample_chain sample_multi_key ''aaaa'' [2, 3] [2, 3] b = Inr tx" for t b
    by (simp add: chunk_transaction_def Let_def sample_multi_key_def sample_setup_def sample_chain_def quiet_env_def unary_def
        parse_address_def create_erc20_transfer_multi_def multi_data_and_method_def with_data_def
        pack_transfers_for_multi_contract_def u256_add_def encode_multi_indirect_packed_def contract_encode_def)
  then obtain tx where "chunk_transaction (ev_ext quiet_env) (ev_now quiet_env (w_tick sample_pair_world)) sample_open_setup sample_chain
      sample_multi_key ''aaaa'' [2, 3] [2, 3] False = Inr tx" by blast
  moreover obtain row d' where "insert_with_transfers tx (transfers_of sample_pair) (w_db sample_pair_world) = (Inr row, d')"
    using insert_with_transfers_result sample_pair_rows unfolding world_ok_def by metis
  ultimately show ?thesis
    by (simp add: batch_chunk_def bindM_def sums now_eq db_transaction_eq orders_finish_def del: sum_orders.simps)
      (simp add: sample_order_def transfers_of_def db_transaction_eq)
qed

lemma only_chunk:
  assumes "concat cks = xs" "\<forall>c\<in>set cks. 0 < length c" "\<forall>c\<in>set (butlast cks). length c = length xs" "xs \<noteq> []"
  shows "cks = [xs]"
proof (cases cks)
  case (Cons c rest)
  show ?thesis
  proof (cases rest)
    case (Cons c2 rest2)
    then have "length c = length xs" using assms(3) \<open>cks = c # rest\<close> by simp
    moreover have "length xs = length c + length c2 + length (concat rest2)" using assms(1) \<open>cks = c # rest\<close> Cons by auto
    ultimately show ?thesis using assms(2) \<open>cks = c # rest\<close> Cons by simp
  qed (use Cons assms(1) in simp)
qed (use assms(1,4) in simp)

theorem multi_batch_conserves_witness:
  "\<exists>tx w'. tx_rows w' = [tx] \<and> pays_tokens (ev_ext quiet_env) sample_chain tx ''a'' 5 ''aaaa'' None False [(2, 2), (3, 3)] \<and>
     (sample_pending 1 ''11'')\<lparr>tt_tx_id := Some (t_id tx)\<rparr> \<in> set (transfer_rows w')"
proof -
  have ch: "chunks 2 sample_pair = [sample_pair]" by (simp add: chunks.simps)
  obtain tx0 w0 where "batch_chunk quiet_env sample_open_setup sample_chain sample_multi_key ''aaaa'' sample_pair sample_pair_world = (Inr tx0, w0)"
    using sample_pair_runs by auto
  then obtain os' where run: "gather_transactions_batch_multi quiet_env sample_open_setup sample_pair sample_multi_key sample_pair_world = (Inr (os', Inr 1), w0)"
    by (simp add: gather_transactions_batch_multi_def bindM_def catch_err_def ch)
  have exact: "\<forall>o'\<in>set sample_pair. order_total quiet_env o' \<noteq> 2 ^ 96" by (simp add: sample_pair_totals)
  from multi_batch_conserves [OF run sample_pair_rows exact] obtain cs tok cks txs where r:
    "ps_chain_setup sample_open_setup (mk_chain_id sample_multi_key) = Some cs" "mk_token_addr sample_multi_key = Some tok"
    "concat cks = sample_pair" "\<forall>c\<in>set cks. 0 < length c"
    "\<forall>c\<in>set (butlast cks). length c = cs_multi_contract_max_at_once cs" "tx_rows w0 = tx_rows sample_pair_world @ txs"
    "list_all2 (pays_chunk quiet_env cs sample_multi_key tok) cks txs"
    "\<forall>(c, tx)\<in>set (zip cks txs). \<forall>t\<in>set (transfers_of c). t\<lparr>tt_tx_id := Some (t_id tx)\<rparr> \<in> set (transfer_rows w0)"
    by blast
  have cs: "cs = sample_chain" "tok = ''aaaa''" using r(1,2) by simp_all
  have "cks = [sample_pair]" by (rule only_chunk) (use r(3-5) cs in simp_all)
  with r(7) obtain tx where tx: "txs = [tx]" "pays_chunk quiet_env sample_chain sample_multi_key ''aaaa'' sample_pair tx"
    unfolding cs by (auto simp: list_all2_Cons1)
  have "pays_tokens (ev_ext quiet_env) sample_chain tx ''a'' 5 ''aaaa'' None False [(2, 2), (3, 3)]"
    using tx(2) by (simp add: pays_chunk_def sample_pair_totals) (simp add: sample_multi_key_def sample_order_def)
  moreover have "(sample_pending 1 ''11'')\<lparr>tt_tx_id := Some (t_id tx)\<rparr> \<in> set (transfer_rows w0)"
    using r(8) tx(1) \<open>cks = [sample_pair]\<close> by (simp add: transfers_of_def sample_order_def)
  ultimately show ?thesis using r(6) tx(1)
    by (intro exI [of _ tx] exI [of _ w0]) (simp add: world_with_def world_initial_def db_empty_def tbl_empty_def)
qed

section \<open>A batch that fails half way\<close>

lemma mark_transfer_error_eq:
  "mark_transfer_error t msg w = (Inr (), w') \<Longrightarrow>
    w_db w' = update_tt_where (\<lambda>q. tt_id q = tt_id t) (\<lambda>q. t\<lparr>tt_error := Some msg, tt_create_date := tt_create_date q\<rparr>) (w_db w)"
  by (auto simp: mark_transfer_error_def bindM_def db_run_eq update_token_transfer_def constrained_def
      split: if_splits)

definition marked :: "string \<Rightarrow> token_transfer_db_obj \<Rightarrow> token_transfer_db_obj \<Rightarrow> bool" where
  "marked msg t r \<longleftrightarrow> tt_id r = tt_id t \<and> tt_tx_id r = tt_tx_id t \<and> tt_error r = Some msg"

lemma mark_errors_result:
  "forM ts (\<lambda>t. mark_transfer_error t msg) w = (Inr (), w') \<Longrightarrow> distinct (map tt_id ts) \<Longrightarrow>
    d_tx (w_db w') = d_tx (w_db w) \<and>
    (\<forall>t\<in>set ts. tt_id t \<in> tt_id ` set (transfer_rows w) \<longrightarrow> (\<exists>r\<in>set (transfer_rows w'). marked msg t r)) \<and>
    (\<forall>r\<in>set (transfer_rows w). tt_id r \<notin> tt_id ` set ts \<longrightarrow> r \<in> set (transfer_rows w'))"
proof (induction ts arbitrary: w)
  case (Cons t ts)
  then obtain w1 where w1: "mark_transfer_error t msg w = (Inr (), w1)"
    "forM ts (\<lambda>t. mark_transfer_error t msg) w1 = (Inr (), w')"
    by (auto simp: bindM_eq_Inr_iff)
  note eq = mark_transfer_error_eq [OF w1(1)]
  have rows1: "transfer_rows w1 = map (\<lambda>q. if tt_id q = tt_id t
      then t\<lparr>tt_error := Some msg, tt_create_date := tt_create_date q\<rparr> else q) (transfer_rows w)"
    by (simp add: eq update_tt_where_def tbl_update_where_def)
  note IH = Cons.IH [OF w1(2)]
  have d: "distinct (map tt_id ts)" "tt_id t \<notin> tt_id ` set ts" using Cons.prems(2) by auto
  have same_ids: "tt_id ` set (transfer_rows w1) = tt_id ` set (transfer_rows w)"
  proof -
    have "map tt_id (transfer_rows w1) = map tt_id (transfer_rows w)" by (simp add: rows1)
    then show ?thesis by (metis list.set_map)
  qed
  have t: "\<exists>r\<in>set (transfer_rows w'). marked msg t r" if "tt_id t \<in> tt_id ` set (transfer_rows w)"
  proof -
    from that obtain q where "tt_id t = tt_id q" "q \<in> set (transfer_rows w)" by (rule imageE)
    then have q: "q \<in> set (transfer_rows w)" "tt_id q = tt_id t" by simp_all
    let ?r = "t\<lparr>tt_error := Some msg, tt_create_date := tt_create_date q\<rparr>"
    have "?r \<in> set (transfer_rows w1)" using q by (force simp: rows1)
    moreover have "tt_id ?r \<notin> tt_id ` set ts" using d(2) by simp
    ultimately have "?r \<in> set (transfer_rows w')" using IH [OF d(1)] by blast
    then show ?thesis by (intro bexI [of _ ?r]) (simp_all add: marked_def)
  qed
  have "r \<in> set (transfer_rows w1)" if "r \<in> set (transfer_rows w)" "tt_id r \<noteq> tt_id t" for r
    using that by (force simp: rows1)
  then show ?case using IH [OF d(1)] t same_ids eq by (auto simp: update_tt_where_def)
qed simp

text \<open>When a later chunk of a multi batch fails, the transaction of an earlier chunk is already stored and
  stays queued, yet all transfers of the batch are marked with the gathering error, those of the
  earlier chunk included: a transfer can be paid and carry an error that says it was not gathered.\<close>

theorem failed_batch_marks_queued_transfers:
  assumes "batch_chunk V S cs key tok c1 w = (Inr tx, w1)"
    and "batch_chunk V S cs key tok c2 w1 = (Inl (Err e), w2)"
    and "world_ok w" and "rows_of (w_db w) (transfers_of (c1 @ c2))"
    and "mark_gathering_error (assign_orders (t_id tx) c1 @ c2) w2 = (Inr (), w3)"
  shows "batch_chunks V S cs key tok [c1, c2] w = (Inr (assign_orders (t_id tx) c1 @ c2, Inl e), w2) \<and>
    tx \<in> set (tx_rows w3) \<and>
    (\<forall>t\<in>set (transfers_of c1). \<exists>r\<in>set (transfer_rows w3). tt_id r = tt_id t \<and>
       tt_tx_id r = Some (t_id tx) \<and> tt_error r = Some ''Error in gathering transactions'')"
proof -
  have c: "catch_err (batch_chunk V S cs key tok c1) w = (Inr (Inr tx), w1)"
    "catch_err (batch_chunk V S cs key tok c2) w1 = (Inr (Inl e), w2)"
    using assms(1,2) by (simp_all add: catch_err_def)
  have db: "w_db w2 = w_db w1"
    using assms(2) by (auto simp: batch_chunk_def bindM_def now_eq db_transaction_eq split: sum.splits prod.splits)
  have rc: "rows_of (w_db w) (transfers_of c1)"
    using assms(4) by (auto simp: rows_of_def transfers_of_def)
  note r = batch_chunk_result [OF assms(1,3) rc]
  let ?ts = "transfers_of (assign_orders (t_id tx) c1 @ c2)"
  have ts: "?ts = assign_tx (t_id tx) (transfers_of c1) @ transfers_of c2"
    by (simp add: transfers_of_def assign_orders_def assign_tx_def map_concat comp_def)
  have ids: "map tt_id ?ts = map tt_id (transfers_of (c1 @ c2))"
    unfolding ts by (simp add: transfers_of_def assign_tx_def comp_def)
  have "forM ?ts (\<lambda>t. mark_transfer_error t ''Error in gathering transactions'') w2 = (Inr (), w3)"
    using assms(5) by (simp add: mark_gathering_error_def transfers_of_def)
  from mark_errors_result [OF this] have m: "d_tx (w_db w3) = d_tx (w_db w2)"
    "\<forall>t\<in>set ?ts. tt_id t \<in> tt_id ` set (transfer_rows w2) \<longrightarrow>
      (\<exists>r\<in>set (transfer_rows w3). marked ''Error in gathering transactions'' t r)"
    using assms(4) ids by (simp_all add: rows_of_def)
  have "\<exists>r\<in>set (transfer_rows w3). tt_id r = tt_id t \<and> tt_tx_id r = Some (t_id tx) \<and>
      tt_error r = Some ''Error in gathering transactions''" if t: "t \<in> set (transfers_of c1)" for t
  proof -
    have "t\<lparr>tt_tx_id := Some (t_id tx)\<rparr> \<in> set ?ts" using t by (force simp: ts assign_tx_def)
    moreover have "t\<lparr>tt_tx_id := Some (t_id tx)\<rparr> \<in> set (transfer_rows w2)"
      using assigned_rows(1) [OF rc _ t] r db by simp
    ultimately show ?thesis using m(2) by (force simp: marked_def)
  qed
  moreover have "tx \<in> set (tx_rows w3)" using m(1) db r by simp
  ultimately show ?thesis using c by (simp add: bindM_def)
qed

lemma mark_transfer_error_runs:
  "fk_tx (w_db w) (tt_tx_id t) \<Longrightarrow>
    \<exists>w'. mark_transfer_error t msg w = (Inr (), w') \<and> d_tx (w_db w') = d_tx (w_db w) \<and>
      d_foreign_keys (w_db w') = d_foreign_keys (w_db w)"
  by (simp add: mark_transfer_error_def bindM_def db_run_eq update_token_transfer_def constrained_def update_tt_where_def)

theorem failed_batch_marks_queued_transfers_witness:
  "\<exists>w3 tx r. tx \<in> set (tx_rows w3) \<and> r \<in> set (transfer_rows w3) \<and> tt_tx_id r = Some (t_id tx) \<and>
     tt_error r = Some ''Error in gathering transactions''"
proof -
  let ?w = "world_with [sample_pending 1 ''11'', sample_pending 2 ''x'']"
  let ?run = "\<lambda>o' w. batch_chunk quiet_env sample_open_setup sample_chain sample_multi_key ''aaaa'' [o'] w"
  have ok: "world_ok ?w" by (rule world_ok_with) simp_all
  obtain tx w1 where c1: "?run (sample_order 1 ''11'') ?w = (Inr tx, w1)"
    using sample_chunk_runs [OF ok, of 1] by auto
  have c2: "?run (sample_order 2 ''x'') w1 = (Inl (Err FromDecStrErr), w1)"
    by (simp add: batch_chunk_def bindM_def sample_order_def quiet_env_def unary_def parse_dec_def)
  have rows: "rows_of (w_db ?w) (transfers_of ([sample_order 1 ''11''] @ [sample_order 2 ''x'']))"
    by (simp add: rows_of_def transfers_of_def sample_order_def)
  then have "rows_of (w_db ?w) (transfers_of [sample_order 1 ''11''])"
    by (simp add: rows_of_def transfers_of_def)
  from batch_chunk_result [OF c1 ok this] have "world_ok w1" and tx: "tx \<in> set (tx_rows w1)" by auto
  have "\<exists>w3. mark_gathering_error (assign_orders (t_id tx) [sample_order 1 ''11''] @ [sample_order 2 ''x'']) w1 = (Inr (), w3)"
  proof -
    let ?t1 = "(sample_pending 1 ''11'')\<lparr>tt_tx_id := Some (t_id tx)\<rparr>" and ?msg = "''Error in gathering transactions''"
    have "fk_tx (w_db w1) (tt_tx_id ?t1)" using tx by (auto simp: fk_tx_def list_ex_iff)
    then obtain w2 where w2: "mark_transfer_error ?t1 ?msg w1 = (Inr (), w2)"
      using mark_transfer_error_runs by blast
    obtain w3 where "mark_transfer_error (sample_pending 2 ''x'') ?msg w2 = (Inr (), w3)"
      using mark_transfer_error_runs [of w2 "sample_pending 2 ''x''" ?msg] by (auto simp: fk_tx_def)
    with w2 show ?thesis
      by (simp add: mark_gathering_error_def assign_orders_def assign_tx_def sample_order_def bindM_def)
  qed
  then obtain w3 where "mark_gathering_error (assign_orders (t_id tx) [sample_order 1 ''11''] @ [sample_order 2 ''x'']) w1 = (Inr (), w3)" ..
  from failed_batch_marks_queued_transfers [OF c1 c2 ok rows this]
  have "tx \<in> set (tx_rows w3)" "\<forall>t\<in>set (transfers_of [sample_order 1 ''11'']). \<exists>r\<in>set (transfer_rows w3). tt_id r = tt_id t \<and>
       tt_tx_id r = Some (t_id tx) \<and> tt_error r = Some ''Error in gathering transactions''" by blast+
  then show ?thesis by (auto simp: transfers_of_def sample_order_def)
qed

end
