(* ===== verification/Eth.thy ===== *)
theory Eth imports World begin

text \<open>
  The questions the driver asks a chain (\<open>eth.rs\<close>, and the token balance of \<open>runtime.rs\<close>): balances,
  the latest block, the transaction count, the allowance and the details of a deposit. Every call of
  the RPC pool is one question to the environment; the answers are checked the way the code checks
  them before they are used.
\<close>

record get_balance_result =
  gb_gas_balance :: "u256 option"
  gb_token_balance :: "u256 option"
  gb_block_number :: nat

definition call_default :: call_request where
  "call_default = \<lparr>cr_from = None, cr_to = None, cr_gas = None, cr_value = None, cr_data = None,
     cr_transaction_type = None, cr_max_fee_per_gas = None, cr_max_priority_fee_per_gas = None\<rparr>"

definition block_number_or_latest :: "env \<Rightarrow> nat option \<Rightarrow> nat prg" where
  "block_number_or_latest V block_number = (case block_number of Some n \<Rightarrow> ret n | None \<Rightarrow> rpc (ev_block_number V))"

definition get_balance ::
    "env \<Rightarrow> address option \<Rightarrow> address \<Rightarrow> bool \<Rightarrow> nat option \<Rightarrow> get_balance_result prg" where
  "get_balance V token_address address check_gas block_number_opt =
     bindM (block_number_or_latest V block_number_opt) (\<lambda>block_number.
     bindM (if check_gas then bindM (rpc (\<lambda>n. ev_balance V n address (Some block_number))) (\<lambda>b. ret (Some b))
            else ret None) (\<lambda>gas_balance.
     bindM (case token_address of
          None \<Rightarrow> ret None
        | Some token \<Rightarrow>
            bindM (liftR (encode_erc20_balance_of (ev_ext V) address)) (\<lambda>call_data.
            bindM (rpc (\<lambda>n. ev_call V n (call_default\<lparr>cr_to := Some token, cr_data := Some call_data\<rparr>) (Some block_number))) (\<lambda>res.
            if length res \<noteq> 32 then throw (err_tx_failed ''Invalid balance response'')
            else ret (Some (from_big_endian res))))) (\<lambda>token_balance.
       ret \<lparr>gb_gas_balance = gas_balance, gb_token_balance = token_balance, gb_block_number = block_number\<rparr>)))"

definition get_token_balance :: "env \<Rightarrow> address \<Rightarrow> address \<Rightarrow> nat option \<Rightarrow> u256 prg" where
  "get_token_balance V token_address address block_number =
     bindM (get_balance V (Some token_address) address True block_number) (\<lambda>balance_result.
       require (err_custom ''get_balance didn't yield token_balance'') (gb_token_balance balance_result))"

record web3_block_info =
  wb_block_number :: nat
  wb_block_date :: timestamp

definition get_latest_block_info :: "env \<Rightarrow> web3_block_info prg" where
  "get_latest_block_info V =
     bindM (rpc (\<lambda>n. ev_block V n None)) (\<lambda>r.
     bindM (require (err_custom ''Cannot found block_info'') r) (\<lambda>block_info.
     bindM (require (err_custom ''Failed to found block number in block info'') (bk_number block_info)) (\<lambda>block_number.
     bindM (liftR (datetime_from_u256_timestamp V (bk_timestamp block_info))) (\<lambda>d.
     bindM (require (err_custom ''Failed to found block date in block info'') d) (\<lambda>block_date.
       ret \<lparr>wb_block_number = block_number, wb_block_date = block_date\<rparr>)))))"

text \<open>The answer is a u64, \<open>as_u64\<close> panics on a larger count.\<close>

definition get_transaction_count_rpc :: "env \<Rightarrow> address \<Rightarrow> bool \<Rightarrow> nat prg" where
  "get_transaction_count_rpc V address pending =
     bindM (rpc (\<lambda>n. ev_transaction_count V n address pending)) (\<lambda>nonce. liftR (as_u64 nonce))"

definition check_allowance :: "env \<Rightarrow> address \<Rightarrow> address \<Rightarrow> address \<Rightarrow> u256 prg" where
  "check_allowance V owner token spender =
     bindM (liftR (encode_erc20_allowance (ev_ext V) owner spender)) (\<lambda>data.
     bindM (rpc (\<lambda>n. ev_call V n (call_default\<lparr>cr_from := Some owner, cr_to := Some token, cr_data := Some data\<rparr>) None)) (\<lambda>res.
       if length res \<noteq> 32 then throw (err_custom ''Invalid response from ERC20 allowance check'')
       else ret (from_big_endian res)))"

section \<open>Deposits\<close>

record deposit_view =
  dv_id :: u256
  dv_nonce :: nat
  dv_funder :: address
  dv_spender :: address
  dv_amount :: nat
  dv_fee_amount :: nat
  dv_valid_to :: nat

definition as_u128 :: "u256 \<Rightarrow> failure + nat" where
  "as_u128 a = (if unat a < 2 ^ 128 then Inr (unat a)
     else Inl (Panic ''Integer overflow when casting to u128''))"

definition decode_from_bytes :: "env \<Rightarrow> bytes \<Rightarrow> failure + deposit_view" where
  "decode_from_bytes V bs = (if length bs \<noteq> 7 * 32 then Inl (err_custom ''Invalid response length'')
     else (case ev_decode_deposit V bs of
         None \<Rightarrow> Inl (err_custom ''Failed to decode deposit view from bytes'')
       | Some (ident, nonce, funder, spender, amount, fee_amount, valid_to) \<Rightarrow>
           bindE (as_u64 nonce) (\<lambda>n.
           bindE (as_u128 amount) (\<lambda>a.
           bindE (as_u128 fee_amount) (\<lambda>f.
           bindE (as_u64 valid_to) (\<lambda>t.
             Inr \<lparr>dv_id = ident, dv_nonce = n, dv_funder = funder, dv_spender = spender, dv_amount = a,
                  dv_fee_amount = f, dv_valid_to = t\<rparr>))))))"

record deposit_details =
  dd_deposit_id :: string
  dd_deposit_nonce :: nat
  dd_funder :: address
  dd_spender :: address
  dd_amount :: string
  dd_fee_amount :: string
  dd_amount_decimal :: rat
  dd_fee_amount_decimal :: rat
  dd_valid_to :: timestamp
  dd_current_block :: nat
  dd_current_block_datetime :: "timestamp option"

text \<open>\<open>valid_to: Default::default()\<close> is the epoch: the decoded date is not passed on. The encoding is
  unwrapped.\<close>

definition get_deposit_details :: "env \<Rightarrow> u256 \<Rightarrow> address \<Rightarrow> nat option \<Rightarrow> deposit_details prg" where
  "get_deposit_details V deposit_id lock_contract_address block_number_opt =
     bindM (block_number_or_latest V block_number_opt) (\<lambda>block_number.
     bindM (case encode_get_deposit_details (ev_ext V) deposit_id of
          Inl _ \<Rightarrow> throw (Panic ''called unwrap on an Err value'') | Inr data \<Rightarrow> ret data) (\<lambda>data.
     bindM (rpc (\<lambda>n. ev_call V n (call_default\<lparr>cr_to := Some lock_contract_address, cr_data := Some data\<rparr>) (Some block_number))) (\<lambda>res.
     bindM (liftR (decode_from_bytes V res)) (\<lambda>view.
     let amount_u256 = of_nat (dv_amount view); fee_amount_u256 = of_nat (dv_fee_amount view) in
     bindM (liftR (u256_to_eth amount_u256)) (\<lambda>amount_decimal.
     bindM (liftR (u256_to_eth fee_amount_u256)) (\<lambda>fee_amount_decimal.
       ret \<lparr>dd_deposit_id = hex_of_u256 (ev_ext V) (dv_id view), dd_deposit_nonce = dv_nonce view,
            dd_funder = dv_funder view, dd_spender = dv_spender view,
            dd_amount = dec_of_u256 (ev_ext V) amount_u256, dd_fee_amount = dec_of_u256 (ev_ext V) fee_amount_u256,
            dd_amount_decimal = amount_decimal, dd_fee_amount_decimal = fee_amount_decimal,
            dd_valid_to = 0, dd_current_block = block_number, dd_current_block_datetime = None\<rparr>))))))"

section \<open>Asking changes no table\<close>

text \<open>
  \<open>asks m\<close>: the computation changes neither the database nor the shared state nor the events, on
  every path. It is what the handlers rely on when they query the chain between two writes.
\<close>

definition asks :: "'a prg \<Rightarrow> bool" where
  "asks m \<longleftrightarrow> (\<forall>w. \<exists>n. snd (m w) = w\<lparr>w_tick := n\<rparr>)"

named_theorems asks_intro \<open>computations that only ask\<close>

lemma asksI: "(\<And>w. \<exists>n. snd (m w) = w\<lparr>w_tick := n\<rparr>) \<Longrightarrow> asks m"
  by (simp add: asks_def)

lemma asksD: "asks m \<Longrightarrow> m w = (r, w') \<Longrightarrow> \<exists>n. w' = w\<lparr>w_tick := n\<rparr>"
  by (metis asks_def snd_conv)

lemma asks_ret [asks_intro]: "asks (ret a)"
  by (rule asksI) (simp, metis world.surjective world.update_convs(4))

lemma asks_throw [asks_intro]: "asks (throw e)"
  by (rule asksI) (simp, metis world.surjective world.update_convs(4))

lemma asks_liftR [asks_intro]: "asks (liftR r)"
  by (rule asksI) (simp, metis world.surjective world.update_convs(4))

lemma asks_require [asks_intro]: "asks (require e x)"
  by (cases x) (simp_all add: asks_intro)

lemma asks_ask [asks_intro]: "asks (ask f)"
  by (rule asksI) (auto simp: ask_def)

lemma asks_now [asks_intro]: "asks (now V)"
  by (simp add: now_def asks_ask)

lemma asks_bindM [asks_intro]:
  assumes "asks m" and "\<And>a. asks (f a)"
  shows "asks (bindM m f)"
proof (rule asksI)
  fix w
  obtain r w1 where m: "m w = (r, w1)" by fastforce
  then obtain n where n: "w1 = w\<lparr>w_tick := n\<rparr>" using assms(1) asksD by blast
  show "\<exists>k. snd (bindM m f w) = w\<lparr>w_tick := k\<rparr>"
  proof (cases r)
    case (Inl e)
    then show ?thesis using m n by (auto simp: bindM_fail)
  next
    case (Inr a)
    obtain r2 w2 where "f a w1 = (r2, w2)" by fastforce
    moreover from this obtain k where "w2 = w1\<lparr>w_tick := k\<rparr>" using assms(2) asksD by blast
    ultimately show ?thesis using m n Inr by (auto simp: bindM_step)
  qed
qed

lemma asks_case_option [asks_intro]:
  "(x = None \<Longrightarrow> asks m) \<Longrightarrow> (\<And>a. x = Some a \<Longrightarrow> asks (f a)) \<Longrightarrow> asks (case x of None \<Rightarrow> m | Some a \<Rightarrow> f a)"
  by (cases x) simp_all

lemma asks_case_sum [asks_intro]:
  "(\<And>e. x = Inl e \<Longrightarrow> asks (f e)) \<Longrightarrow> (\<And>a. x = Inr a \<Longrightarrow> asks (g a)) \<Longrightarrow>
    asks (case x of Inl e \<Rightarrow> f e | Inr a \<Rightarrow> g a)"
  by (cases x) simp_all

lemma asks_if [asks_intro]: "(c \<Longrightarrow> asks m) \<Longrightarrow> (\<not> c \<Longrightarrow> asks n) \<Longrightarrow> asks (if c then m else n)"
  by simp

lemma asks_rpc [asks_intro]: "asks (rpc f)"
  unfolding rpc_def by (intro asks_intro)

lemma asks_preserves: "asks m \<Longrightarrow> preserves world_ok m"
proof (rule preservesI)
  fix w assume "asks m" "world_ok w"
  moreover from \<open>asks m\<close> obtain n where "snd (m w) = w\<lparr>w_tick := n\<rparr>" by (auto simp: asks_def)
  ultimately show "world_ok (snd (m w))" by simp
qed

lemma asks_block_number [asks_intro]: "asks (block_number_or_latest V b)"
  unfolding block_number_or_latest_def by (intro asks_intro)

lemma asks_get_balance [asks_intro]: "asks (get_balance V t a g b)"
  unfolding get_balance_def by (intro asks_intro)

lemma asks_get_token_balance [asks_intro]: "asks (get_token_balance V t a b)"
  unfolding get_token_balance_def by (intro asks_intro)

lemma asks_get_latest_block_info [asks_intro]: "asks (get_latest_block_info V)"
  unfolding get_latest_block_info_def by (intro asks_intro)

lemma asks_get_transaction_count_rpc [asks_intro]: "asks (get_transaction_count_rpc V a p)"
  unfolding get_transaction_count_rpc_def by (intro asks_intro)

lemma asks_check_allowance [asks_intro]: "asks (check_allowance V a b c)"
  unfolding check_allowance_def by (intro asks_intro)

lemma asks_get_deposit_details [asks_intro]: "asks (get_deposit_details V i a b)"
  unfolding get_deposit_details_def Let_def by (intro asks_intro)

lemmas eth_preserves [preserves_intro] =
  asks_get_balance [THEN asks_preserves] asks_get_token_balance [THEN asks_preserves]
  asks_get_latest_block_info [THEN asks_preserves] asks_get_transaction_count_rpc [THEN asks_preserves]
  asks_check_allowance [THEN asks_preserves] asks_get_deposit_details [THEN asks_preserves]

end
