(* ===== verification/Removal.thy ===== *)
theory Removal imports Eth Sample begin

text \<open>
  Giving up transactions (\<open>remove_transaction_force\<close> and \<open>remove_last_unsent_transactions\<close> of
  \<open>runtime.rs\<close>) and the sum of what is still unpaid. A removal undoes a whole replacement chain: its
  transactions are deleted and every transfer and allowance that referred to one of them is free again.
\<close>

section \<open>Operations\<close>

text \<open>
  A replacement chain visits no row twice unless it is a cycle, on which the code never returns; so one
  step more than there are rows is fuel enough exactly when the loop of the code ends.
\<close>

definition chain_of :: "i64 \<Rightarrow> (db, failure, tx_db_obj list) prog" where
  "chain_of tx_id = bindM (gets (\<lambda>d. get_transaction_chain (Suc (length (tb_rows (d_tx d)))) tx_id d))
     (\<lambda>r. case r of
        None \<Rightarrow> throw OutOfFuel
      | Some (Inl e) \<Rightarrow> throw (err_custom ''Error getting transaction'')
      | Some (Inr txs) \<Rightarrow> ret txs)"

definition remove_transaction_force :: "i64 \<Rightarrow> i64 list option prg" where
  "remove_transaction_force tx_id = db_transaction
     (bindM (chain_of tx_id) (\<lambda>txs.
      bindM (forM txs (\<lambda>tx.
         bindM (sqlx (cleanup_allowance_tx (t_id tx))) (\<lambda>_.
         bindM (sqlx (cleanup_token_transfer_tx (t_id tx))) (\<lambda>_.
           sqlx (delete_tx (t_id tx)))))) (\<lambda>_.
        ret (Some (map t_id txs)))))"

definition remove_last_unsent_transactions :: "i64 option prg" where
  "remove_last_unsent_transactions = db_transaction
     (bindM (sqlx (get_last_unsent_tx 0)) (\<lambda>r. case r of
        Some tx \<Rightarrow>
          bindM (sqlx (cleanup_token_transfer_tx (t_id tx))) (\<lambda>_.
          bindM (sqlx (delete_tx (t_id tx))) (\<lambda>_.
            ret (Some (t_id tx))))
      | None \<Rightarrow> ret None))"

definition add_unpaid :: "externals \<Rightarrow> address \<Rightarrow> u256 \<Rightarrow> token_transfer_db_obj \<Rightarrow> failure + u256" where
  "add_unpaid E token_address acc transfer = (case tt_token_addr transfer of
       None \<Rightarrow> Inr acc
     | Some token_addr \<Rightarrow> bindE (parse_address E token_addr) (\<lambda>a.
         if a \<noteq> token_address then Inl (err_custom ''Token address mismatch table token_transfer'')
         else bindE (str_to_u256 E (tt_token_amount transfer)) (u256_add acc)))"

definition get_unpaid_token_amount :: "env \<Rightarrow> i64 \<Rightarrow> address \<Rightarrow> address \<Rightarrow> u256 prg" where
  "get_unpaid_token_amount V chain_id token_address sender =
     bindM (db_run (get_unpaid_token_transfers (ev_ext V) chain_id sender)) (\<lambda>transfers.
       foldM (\<lambda>acc transfer. liftR (add_unpaid (ev_ext V) token_address acc transfer)) 0 transfers)"

section \<open>Invariants\<close>

lemma preserves_chain_of [preserves_intro]: "preserves I (chain_of i)"
  unfolding chain_of_def by (intro preserves_intro)

lemma preserves_remove_transaction_force [preserves_intro]: "preserves world_ok (remove_transaction_force i)"
  unfolding remove_transaction_force_def by (intro preserves_intro)

lemma preserves_get_last_unsent_tx [preserves_intro]: "preserves I (get_last_unsent_tx i)"
  unfolding get_last_unsent_tx_def by (rule preserves_gets)

lemma preserves_remove_last_unsent [preserves_intro]: "preserves world_ok remove_last_unsent_transactions"
  unfolding remove_last_unsent_transactions_def by (intro preserves_intro)

lemma preserves_get_unpaid [preserves_intro]: "preserves world_ok (get_unpaid_token_amount V c t s)"
  unfolding get_unpaid_token_amount_def get_unpaid_token_transfers_def by (intro preserves_intro)

section \<open>What a removal does\<close>

definition freed_transfer :: "i64 set \<Rightarrow> token_transfer_db_obj \<Rightarrow> token_transfer_db_obj" where
  "freed_transfer S t = (if tt_tx_id t \<in> Some ` S
     then t\<lparr>tt_tx_id := None, tt_fee_paid := None, tt_error := None, tt_paid_date := None\<rparr> else t)"

definition freed_allowance :: "i64 set \<Rightarrow> allowance_db_obj \<Rightarrow> allowance_db_obj" where
  "freed_allowance S a = (if al_tx_id a \<in> Some ` S
     then a\<lparr>al_tx_id := None, al_fee_paid := None, al_error := None, al_confirm_date := None\<rparr> else a)"

definition removed :: "i64 set \<Rightarrow> db \<Rightarrow> db" where
  "removed S d = d\<lparr>
     d_allowance := tbl_update_where (\<lambda>a. al_tx_id a \<in> Some ` S) (freed_allowance S) (d_allowance d),
     d_token_transfer := tbl_update_where (\<lambda>t. tt_tx_id t \<in> Some ` S) (freed_transfer S) (d_token_transfer d),
     d_tx := tbl_delete_where (\<lambda>t. t_id t \<in> S) (d_tx d)\<rparr>"

lemma removed_rows:
  "tb_rows (d_tx (removed S d)) = filter (\<lambda>t. t_id t \<notin> S) (tb_rows (d_tx d))"
  "tb_rows (d_token_transfer (removed S d)) = map (freed_transfer S) (tb_rows (d_token_transfer d))"
  "tb_rows (d_allowance (removed S d)) = map (freed_allowance S) (tb_rows (d_allowance d))"
  by (auto simp: removed_def tbl_delete_where_def tbl_update_where_def freed_transfer_def freed_allowance_def)

lemma removed_empty [simp]: "removed {} d = d"
  by (simp add: removed_def tbl_delete_where_def tbl_update_where_def)

lemma freed_comp:
  "freed_transfer S (freed_transfer T t) = freed_transfer (T \<union> S) t"
  "freed_allowance S (freed_allowance T a) = freed_allowance (T \<union> S) a"
  by (auto simp: freed_transfer_def freed_allowance_def)

lemma removed_comp: "removed S (removed T d) = removed (T \<union> S) d"
proof -
  have 1: "tbl_update_where (\<lambda>t. tt_tx_id t \<in> Some ` R) (freed_transfer R) u =
      u\<lparr>tb_rows := map (freed_transfer R) (tb_rows u)\<rparr>" for R u
    by (auto simp: tbl_update_where_def freed_transfer_def)
  have 2: "tbl_update_where (\<lambda>a. al_tx_id a \<in> Some ` R) (freed_allowance R) u =
      u\<lparr>tb_rows := map (freed_allowance R) (tb_rows u)\<rparr>" for R u
    by (auto simp: tbl_update_where_def freed_allowance_def)
  have 3: "filter (\<lambda>t. t_id t \<notin> S) (filter (\<lambda>t. t_id t \<notin> T) xs) = filter (\<lambda>t. t_id t \<notin> T \<union> S) xs" for xs
    by (induction xs) auto
  have 4: "tbl_delete_where (\<lambda>t. t_id t \<in> S) (tbl_delete_where (\<lambda>t. t_id t \<in> T) u) =
      tbl_delete_where (\<lambda>t. t_id t \<in> T \<union> S) u" for u
    using 3 by (simp add: tbl_delete_where_def)
  show ?thesis
    unfolding removed_def 1 2 by (simp add: 4 comp_def freed_comp)
qed

lemma remove_step:
  "bindM (sqlx (cleanup_allowance_tx i)) (\<lambda>_. bindM (sqlx (cleanup_token_transfer_tx i)) (\<lambda>_. sqlx (delete_tx i))) d =
    (Inr (), removed {i} d)"
proof -
  have eq: "tbl_update_where (\<lambda>t. tt_tx_id t = Some i) (freed_transfer {i}) u =
      tbl_update_where (\<lambda>t. tt_tx_id t = Some i)
        (\<lambda>t. t\<lparr>tt_tx_id := None, tt_fee_paid := None, tt_error := None, tt_paid_date := None\<rparr>) u"
    "tbl_update_where (\<lambda>a. al_tx_id a = Some i) (freed_allowance {i}) v =
      tbl_update_where (\<lambda>a. al_tx_id a = Some i)
        (\<lambda>a. a\<lparr>al_tx_id := None, al_fee_paid := None, al_error := None, al_confirm_date := None\<rparr>) v" for u v
    by (auto simp: tbl_update_where_def freed_transfer_def freed_allowance_def)
  have none: "\<not> list_ex (\<lambda>r. tt_tx_id r = Some i) (tb_rows (tbl_update_where (\<lambda>t. tt_tx_id t = Some i)
        (\<lambda>t. t\<lparr>tt_tx_id := None, tt_fee_paid := None, tt_error := None, tt_paid_date := None\<rparr>) u))"
    "\<not> list_ex (\<lambda>r. al_tx_id r = Some i) (tb_rows (tbl_update_where (\<lambda>a. al_tx_id a = Some i)
        (\<lambda>a. a\<lparr>al_tx_id := None, al_fee_paid := None, al_error := None, al_confirm_date := None\<rparr>) v))" for u v
    by (auto simp: tbl_update_where_def list_ex_iff)
  show ?thesis
    by (simp add: removed_def eq bindM_def sqlx_def cleanup_allowance_tx_def cleanup_token_transfer_tx_def
        delete_tx_def constrained_def update_tt_where_def update_al_where_def none)
qed

lemma remove_steps:
  "forM txs (\<lambda>tx. bindM (sqlx (cleanup_allowance_tx (t_id tx)))
      (\<lambda>_. bindM (sqlx (cleanup_token_transfer_tx (t_id tx))) (\<lambda>_. sqlx (delete_tx (t_id tx))))) d =
    (Inr (), removed (t_id ` set txs) d)"
proof (induction txs arbitrary: d)
  case (Cons tx txs)
  then show ?case
    by (simp add: bindM_step [OF remove_step] removed_comp insert_is_Un [symmetric])
qed simp

text \<open>Fuel: every step of an ordered chain leaves fewer rows with an id below.\<close>

lemma chain_fuel_rows:
  assumes "chain_ordered d" and "length (filter (\<lambda>t. t_id t \<le> i) (tb_rows (d_tx d))) < n"
  shows "get_transaction_chain n i d \<noteq> None"
  using assms(2)
proof (induction n arbitrary: i)
  case (Suc n)
  show ?case
  proof (cases "tbl_find t_id i (d_tx d)")
    case (Some t)
    note t = chain_orderedD [OF assms(1) Some] tbl_find_SomeD [OF Some]
    have "get_transaction_chain n o' d \<noteq> None" if o': "t_orig_tx_id t = Some o'" for o'
    proof (rule Suc.IH)
      have "filter (\<lambda>t. t_id t \<le> o') (tb_rows (d_tx d)) =
          filter (\<lambda>t. t_id t \<le> o') (filter (\<lambda>t. t_id t \<le> i) (tb_rows (d_tx d)))"
        using t o' by (auto intro!: filter_cong)
      also have "length \<dots> < length (filter (\<lambda>t. t_id t \<le> i) (tb_rows (d_tx d)))"
        using t o' by (intro length_filter_less [of t]) auto
      finally show "length (filter (\<lambda>t. t_id t \<le> o') (tb_rows (d_tx d))) < n" using Suc.prems by simp
    qed
    with Some show ?thesis by (auto split: option.splits sum.splits)
  qed simp
qed simp

lemma chain_of_result:
  assumes "chain_ordered d"
  shows "(\<exists>ts. chain_of i d = (Inr ts, d) \<and> is_chain ts \<and> t_id (hd ts) = i \<and> set ts \<subseteq> set (tb_rows (d_tx d))) \<or>
    chain_of i d = (Inl (err_custom ''Error getting transaction''), d)"
proof -
  let ?r = "get_transaction_chain (Suc (length (tb_rows (d_tx d)))) i d"
  have "length (filter (\<lambda>t. t_id t \<le> i) (tb_rows (d_tx d))) < Suc (length (tb_rows (d_tx d)))"
    by (simp add: less_Suc_eq_le)
  from chain_fuel_rows [OF assms this] obtain r where r: "?r = Some r" by blast
  show ?thesis
  proof (cases r)
    case (Inl e)
    with r show ?thesis by (simp add: chain_of_def del: get_transaction_chain.simps)
  next
    case (Inr ts)
    with r get_transaction_chain_result [of "Suc (length (tb_rows (d_tx d)))" i d ts] show ?thesis
      by (simp add: chain_of_def del: get_transaction_chain.simps)
  qed
qed

text \<open>C15. When replacements refer to older transactions, forcing the removal of a transaction always
  ends: it fails and changes nothing when the chain refers to a missing row; otherwise it deletes
  exactly the transactions of the replacement chain and frees exactly the transfers and allowances
  that referred to one of them, so that the transfers are gathered again. No foreign key stops it.\<close>

theorem remove_transaction_frees:
  assumes "chain_ordered (w_db w)"
  shows "(\<exists>ts. remove_transaction_force i w = (Inr (Some (map t_id ts)), w\<lparr>w_db := removed (t_id ` set ts) (w_db w)\<rparr>) \<and>
      is_chain ts \<and> t_id (hd ts) = i \<and> set ts \<subseteq> set (tb_rows (d_tx (w_db w)))) \<or>
    remove_transaction_force i w = (Inl (err_custom ''Error getting transaction''), w)"
  using chain_of_result [OF assms, of i]
proof (elim disjE exE conjE)
  fix ts
  assume "chain_of i (w_db w) = (Inr ts, w_db w)" and ts: "is_chain ts" "t_id (hd ts) = i" "set ts \<subseteq> set (tb_rows (d_tx (w_db w)))"
  then have "remove_transaction_force i w = (Inr (Some (map t_id ts)), w\<lparr>w_db := removed (t_id ` set ts) (w_db w)\<rparr>)"
    by (simp add: remove_transaction_force_def db_transaction_eq bindM_step bindM_step [OF remove_steps])
  with ts show ?thesis by blast
next
  assume "chain_of i (w_db w) = (Inl (err_custom ''Error getting transaction''), w_db w)"
  then show ?thesis by (simp add: remove_transaction_force_def db_transaction_eq bindM_fail)
qed

text \<open>A world with one transaction that a transfer refers to.\<close>

definition one_tx_world :: "allowance_db_obj list \<Rightarrow> world" where
  "one_tx_world als = world_initial\<lparr>w_db := db_empty
     \<lparr>d_tx := \<lparr>tb_rows = [(tx_default 0)\<lparr>t_id := 1\<rparr>], tb_seq = 1\<rparr>,
      d_token_transfer := \<lparr>tb_rows = [(sample_transfer 1 None)\<lparr>tt_tx_id := Some 1\<rparr>], tb_seq = 1\<rparr>,
      d_allowance := \<lparr>tb_rows = als, tb_seq = int (length als)\<rparr>\<rparr>\<rparr>"

theorem remove_transaction_frees_witness:
  "\<exists>w. remove_transaction_force 1 (one_tx_world []) = (Inr (Some [1]), w) \<and>
     tb_rows (d_tx (w_db w)) = [] \<and> tb_rows (d_token_transfer (w_db w)) = [sample_transfer 1 None]"
proof -
  let ?w = "one_tx_world []"
  have rows: "tb_rows (d_tx (w_db ?w)) = [(tx_default 0)\<lparr>t_id := 1\<rparr>]"
    "tb_rows (d_token_transfer (w_db ?w)) = [(sample_transfer 1 None)\<lparr>tt_tx_id := Some 1\<rparr>]"
    by (simp_all add: one_tx_world_def)
  have "chain_ordered (w_db ?w)" by (simp add: chain_ordered_def rows tx_default_def)
  note cases = remove_transaction_frees [OF this, of 1]
  have "chain_of 1 (w_db ?w) = (Inr [(tx_default 0)\<lparr>t_id := 1\<rparr>], w_db ?w)"
    by (simp add: chain_of_def rows tbl_find_def tx_default_def)
  then have ok: "\<exists>r w'. remove_transaction_force 1 ?w = (Inr r, w')"
    by (simp add: remove_transaction_force_def db_transaction_eq bindM_step bindM_step [OF remove_steps] del: forM.simps)
  from cases ok obtain ts where ts: "remove_transaction_force 1 ?w =
      (Inr (Some (map t_id ts)), ?w\<lparr>w_db := removed (t_id ` set ts) (w_db ?w)\<rparr>)"
    and c: "is_chain ts" "t_id (hd ts) = 1" "set ts \<subseteq> {(tx_default 0)\<lparr>t_id := 1\<rparr>}"
    by (auto simp: rows)
  obtain t us where "ts = t # us" using c(1) by (cases ts) auto
  moreover have "us = []"
    using c calculation by (cases us) (auto simp: tx_default_def)
  ultimately have "map t_id ts = [1]" "t_id ` set ts = {1}" using c(2) by auto
  with ts show ?thesis
    by (simp add: removed_rows rows freed_transfer_def sample_transfer_def tx_default_def)
qed

text \<open>Removing the last unsent transaction frees its transfers and deletes it, unless an allowance
  refers to it: allowances are not freed here, so the foreign key refuses the deletion and nothing
  changes, however often the operation is repeated.\<close>

theorem remove_last_unsent_result:
  assumes "world_ok w" and "get_last_unsent_tx 0 (w_db w) = (Inr (Some tx), d)"
  shows "remove_last_unsent_transactions w =
    (if Some (t_id tx) \<in> al_tx_id ` set (tb_rows (d_allowance (w_db w)))
     then (Inl (Err (SQLxError ForeignKeyViolation)), w)
     else (Inr (Some (t_id tx)), w\<lparr>w_db := removed {t_id tx} (w_db w)\<rparr>))"
proof -
  let ?i = "t_id tx" and ?d = "w_db w"
  have d: "d = ?d" using assms(2) by (simp add: get_last_unsent_tx_def)
  have fk: "d_foreign_keys ?d" using assms(1) by (simp add: world_ok_def db_ok_def)
  have "tx \<in> set (tb_rows (d_tx ?d))"
  proof -
    have "tx \<in> set (sort_key (\<lambda>t. - t_id t)
        (tbl_select (\<lambda>t. t_broadcast_date t = None \<and> t_signed_date t = None) (d_tx ?d)))"
      using assms(2) by (auto simp: get_last_unsent_tx_def simp del: set_sort split: list.splits)
    then show ?thesis by (simp add: tbl_select_def)
  qed
  then have ex: "list_ex (\<lambda>t. t_id t = ?i) (tb_rows (d_tx ?d))" by (auto simp: list_ex_iff)
  have start: "bindM (sqlx (get_last_unsent_tx 0)) f ?d = f (Some tx) ?d" for f :: "_ \<Rightarrow> (db, failure, i64 option) prog"
    using assms(2) d by (simp add: bindM_def sqlx_def)
  let ?u = "update_tt_where (\<lambda>t. tt_tx_id t = Some ?i)
        (\<lambda>t. t\<lparr>tt_tx_id := None, tt_fee_paid := None, tt_error := None, tt_paid_date := None\<rparr>) ?d"
  have c: "bindM (sqlx (cleanup_token_transfer_tx ?i)) f ?d = f () ?u" for f :: "unit \<Rightarrow> (db, failure, i64 option) prog"
    by (simp add: bindM_def sqlx_def cleanup_token_transfer_tx_def)
  have free: "\<not> list_ex (\<lambda>r. tt_tx_id r = Some ?i) (tb_rows (d_token_transfer ?u))"
    by (auto simp: update_tt_where_def tbl_update_where_def list_ex_iff)
  have u: "d_allowance ?u = d_allowance ?d" "d_tx ?u = d_tx ?d" "d_foreign_keys ?u"
    using fk by (simp_all add: update_tt_where_def)
  show ?thesis
  proof (cases "Some ?i \<in> al_tx_id ` set (tb_rows (d_allowance ?d))")
    case True
    then have "list_ex (\<lambda>r. al_tx_id r = Some ?i) (tb_rows (d_allowance ?d))" by (force simp: list_ex_iff)
    then have "sqlx (delete_tx ?i) ?u = (Inl (Err (SQLxError ForeignKeyViolation)), ?u)"
      using ex u by (simp add: sqlx_def delete_tx_def constrained_def)
    with True show ?thesis
      by (simp add: remove_last_unsent_transactions_def db_transaction_eq start c bindM_fail)
  next
    case False
    then have no: "\<not> list_ex (\<lambda>r. al_tx_id r = Some ?i) (tb_rows (d_allowance ?d))" by (force simp: list_ex_iff)
    then have "tb_rows (tbl_update_where (\<lambda>a. al_tx_id a = Some ?i) (freed_allowance {?i}) (d_allowance ?d)) =
        tb_rows (d_allowance ?d)"
      by (auto simp: tbl_update_where_def list_ex_iff intro!: map_idI)
    then have al: "tbl_update_where (\<lambda>a. al_tx_id a = Some ?i) (freed_allowance {?i}) (d_allowance ?d) = d_allowance ?d"
      by (simp add: tbl_update_where_def)
    have tt: "tbl_update_where (\<lambda>t. tt_tx_id t = Some ?i) (freed_transfer {?i}) (d_token_transfer ?d) = d_token_transfer ?u"
      by (auto simp: update_tt_where_def tbl_update_where_def freed_transfer_def)
    have "removed {?i} ?d = ?u\<lparr>d_tx := tbl_delete_where (\<lambda>t. t_id t = ?i) (d_tx ?d)\<rparr>"
      by (simp add: removed_def al tt) (simp add: update_tt_where_def)
    moreover have "sqlx (delete_tx ?i) ?u = (Inr (), ?u\<lparr>d_tx := tbl_delete_where (\<lambda>t. t_id t = ?i) (d_tx ?d)\<rparr>)"
      using u no free by (simp add: sqlx_def delete_tx_def constrained_def)
    ultimately show ?thesis using False
      by (simp add: remove_last_unsent_transactions_def db_transaction_eq start c bindM_step)
  qed
qed

definition approval_of_tx :: "i64 \<Rightarrow> allowance_db_obj" where
  "approval_of_tx i = \<lparr>al_id = 1, al_owner = ''a'', al_token_addr = ''b'', al_spender = ''c'', al_allowance = ''1'',
     al_chain_id = 5, al_tx_id = Some i, al_fee_paid = None, al_confirm_date = None, al_error = None\<rparr>"

theorem remove_last_unsent_result_witness:
  "remove_last_unsent_transactions (one_tx_world [approval_of_tx 1]) =
    (Inl (Err (SQLxError ForeignKeyViolation)), one_tx_world [approval_of_tx 1])"
proof -
  let ?w = "one_tx_world [approval_of_tx 1]"
  have "world_ok ?w"
    using db_ok_empty
    by (simp add: world_ok_def db_ok_def keys_ok_def fk_ok_def one_tx_world_def db_empty_def tbl_wf_def tbl_ids_def
        approval_of_tx_def sample_transfer_def tx_default_def)
  moreover have "get_last_unsent_tx 0 (w_db ?w) = (Inr (Some ((tx_default 0)\<lparr>t_id := 1\<rparr>)), w_db ?w)"
    by (simp add: get_last_unsent_tx_def one_tx_world_def tbl_select_def tx_default_def)
  ultimately show ?thesis
    using remove_last_unsent_result [of ?w] by (simp add: one_tx_world_def approval_of_tx_def tx_default_def)
qed

end
