(* ===== verification/Receipts.thy ===== *)
theory Receipts imports Removal begin

text \<open>
  The steps of a single transaction (\<open>transaction.rs\<close>): checking it against the chain, signing it,
  broadcasting it and looking for its receipt. A function that changes the transaction it is given
  returns the changed one.
\<close>

section \<open>Checking\<close>

definition get_no_token_details :: "env \<Rightarrow> tx_db_obj \<Rightarrow> address \<Rightarrow> no_token_details prg" where
  "get_no_token_details V tx glm_token =
     bindM (liftR (parse_address (ev_ext V) (t_from_addr tx))) (\<lambda>sender.
     bindM (get_token_balance V glm_token sender None) (\<lambda>token_balance.
     bindM (liftR (u256_to_eth token_balance)) (\<lambda>balance.
     bindM (get_unpaid_token_amount V (t_chain_id tx) glm_token sender) (\<lambda>token_needed.
     bindM (liftR (u256_to_eth token_needed)) (\<lambda>needed.
       ret \<lparr>nt_tx = tx, nt_sender = sender, nt_token_balance = balance, nt_token_needed = needed\<rparr>)))))"

text \<open>The gas estimation failed: either an error, or an event and no result, or the transaction is given up.\<close>

definition estimation_failed :: "env \<Rightarrow> address \<Rightarrow> tx_db_obj \<Rightarrow> web3_error \<Rightarrow> unit prg" where
  "estimation_failed V glm_token tx e = (let msg = ev_error_text V e in
     if contains msg ''gas required exceeds allowance''
     then throw (err_custom ''Gas estimation failed - probably insufficient funds'')
     else if t_method tx = ''FAUCET.create'' \<and> contains msg ''Cannot acquire more funds''
     then bindM (remove_transaction_force (t_id tx)) (\<lambda>_. ret ())
     else if contains msg ''transfer amount exceeds balance''
     then bindM (catch_err (get_no_token_details V tx glm_token)) (\<lambda>r. case r of
            Inr stuck_reason \<Rightarrow> send_driver_event V (TransactionStuck (NoToken stuck_reason))
          | Inl e' \<Rightarrow> throw (err_custom ''Error during getting details about amount exceeds balance error''))
     else throw (err_custom ''Gas estimation failed due to unknown error''))"

text \<open>The gas limit, and the most the transaction can cost.\<close>

definition gas_checked :: "env \<Rightarrow> tx_db_obj \<Rightarrow> u256 \<Rightarrow> (tx_db_obj \<times> u256 option) prg" where
  "gas_checked V tx gas_est =
         bindM (liftR (as_u64 gas_est)) (\<lambda>g.
         bindM (liftR (if g = 21000 then Inr gas_est else u256_add gas_est 20000)) (\<lambda>gas_limit.
         bindM (liftR (as_u64 gas_limit)) (\<lambda>limit.
         let tx' = tx\<lparr>t_gas_limit := Some (as_i64 (of_nat limit))\<rparr> in
         bindM (require (err_custom ''max_fee_per_gas has to be set here'') (t_max_fee_per_gas tx')) (\<lambda>fee.
         bindM (liftR (parse_dec (ev_ext V) fee)) (\<lambda>max_fee_per_gas.
         bindM (liftR (parse_dec (ev_ext V) (t_val tx'))) (\<lambda>gas_needed_for_tx.
         bindM (liftR (u256_mul gas_limit max_fee_per_gas)) (\<lambda>cost.
         bindM (liftR (u256_add gas_needed_for_tx cost)) (\<lambda>maximum_gas_needed.
           ret (tx', Some maximum_gas_needed)))))))))"

definition check_transaction :: "env \<Rightarrow> address \<Rightarrow> tx_db_obj \<Rightarrow> (tx_db_obj \<times> u256 option) prg" where
  "check_transaction V glm_token tx =
     bindM (liftR (dao_to_call_request (ev_ext V) tx)) (\<lambda>call_request.
     let loc_call_request = call_request\<lparr>cr_max_fee_per_gas := None, cr_max_priority_fee_per_gas := None\<rparr> in
     bindM (case t_call_data tx of
          None \<Rightarrow> ret (Inr 21000)
        | Some _ \<Rightarrow> ask (\<lambda>n. ev_estimate_gas V n loc_call_request)) (\<lambda>r.
     case r of
       Inl e \<Rightarrow> bindM (estimation_failed V glm_token tx e) (\<lambda>_. ret (tx, None))
     | Inr gas_est \<Rightarrow> gas_checked V tx gas_est))"

section \<open>Signing and sending\<close>

definition sign_transaction_with_callback :: "env \<Rightarrow> tx_db_obj \<Rightarrow> address \<Rightarrow> tx_db_obj prg" where
  "sign_transaction_with_callback V tx signer_pub_address =
     bindM (liftR (dao_to_transaction (ev_ext V) tx)) (\<lambda>tx_object.
     bindM (ask (\<lambda>n. ev_sign V n signer_pub_address tx_object)) (\<lambda>sign_result.
     case sign_result of
       Inl e \<Rightarrow> bindM (send_driver_event V (CantSign (CantSignTx tx)))
         (\<lambda>_. throw (err_custom ''Signing transaction failed due to unknown error''))
     | Inr (raw_transaction, transaction_hash) \<Rightarrow>
         bindM (now V) (\<lambda>date.
           ret (tx\<lparr>t_signed_raw_data := Some (hex_encode (ev_ext V) raw_transaction), t_signed_date := Some date,
                 t_tx_hash := Some (str_of_h256 (ev_ext V) transaction_hash)\<rparr>))))"

definition no_gas_details_of :: "env \<Rightarrow> tx_db_obj \<Rightarrow> no_gas_details prg" where
  "no_gas_details_of V tx =
     bindM (liftR (parse_address (ev_ext V) (t_from_addr tx))) (\<lambda>from_a.
     bindM (rpc (\<lambda>n. ev_balance V n from_a None)) (\<lambda>balance.
     bindM (liftR (u256_to_eth balance)) (\<lambda>gas_balance.
     bindM (liftR (parse_dec (ev_ext V) (t_val tx))) (\<lambda>val.
     bindM (require (err_custom ''Expected max fee per gas here'') (t_max_fee_per_gas tx)) (\<lambda>fee.
     bindM (liftR (str_to_u256 (ev_ext V) fee)) (\<lambda>max_fee.
     bindM (require (err_custom ''Expected gas limit here'') (t_gas_limit tx)) (\<lambda>limit.
     bindM (liftR (u256_from_i64 limit)) (\<lambda>gas_limit.
     bindM (liftR (u256_mul max_fee gas_limit)) (\<lambda>cost.
     bindM (liftR (u256_add val cost)) (\<lambda>needed.
     bindM (liftR (u256_to_eth needed)) (\<lambda>gas_needed.
       ret \<lparr>ng_tx = tx, ng_gas_balance = gas_balance, ng_gas_needed = gas_needed\<rparr>)))))))))))"

text \<open>What the answer of the node to a refused transaction leads to.\<close>

definition send_refused :: "env \<Rightarrow> address \<Rightarrow> tx_db_obj \<Rightarrow> string \<Rightarrow> unit prg" where
  "send_refused V glm_token tx msg =
     (if contains msg ''insufficient funds''
      then bindM (no_gas_details_of V tx) (\<lambda>d. send_driver_event V (TransactionStuck (NoGas d)))
      else if contains msg ''transfer amount exceeds balance''
      then bindM (get_no_token_details V tx glm_token) (\<lambda>d. send_driver_event V (TransactionStuck (NoToken d)))
      else if contains msg ''invalid sender''
      then throw (err_custom ''Invalid sender, seems like transaction is sending to wrong chain.'')
      else if contains msg ''already known'' then ret ()
      else ret ())"

definition send_transaction :: "env \<Rightarrow> address \<Rightarrow> tx_db_obj \<Rightarrow> tx_db_obj prg" where
  "send_transaction V glm_token tx = (case t_signed_raw_data tx of
       None \<Rightarrow> throw (err_custom ''No signed raw data'')
     | Some signed_raw_data \<Rightarrow>
         bindM (require (Err (ConversionError ''cannot decode signed_raw_data'')) (hex_decode (ev_ext V) signed_raw_data)) (\<lambda>bs.
         bindM (ask (\<lambda>n. ev_send_raw V n bs)) (\<lambda>result.
         bindM (now V) (\<lambda>date.
         let tx' = tx\<lparr>t_broadcast_date := Some date\<rparr> in
         bindM (case result of
              Inl (Rpc msg) \<Rightarrow> send_refused V glm_token tx' msg
            | Inl _ \<Rightarrow> ret ()
            | Inr _ \<Rightarrow> ret ()) (\<lambda>_.
           ret tx')))))"

section \<open>Receipts\<close>

definition with_receipt :: "env \<Rightarrow> tx_db_obj \<Rightarrow> eth_receipt \<Rightarrow> (tx_db_obj \<times> u256 option) prg" where
  "with_receipt V tx receipt =
     bindM (liftR (case rc_gas_used receipt of None \<Rightarrow> Inr None
        | Some g \<Rightarrow> bindE (as_u64 g) (\<lambda>n. Inr (Some (as_i64 (of_nat n)))))) (\<lambda>gas_used_i64.
     let tx1 = tx\<lparr>t_block_number := map_option (\<lambda>n. as_i64 (of_nat n)) (rc_block_number receipt),
         t_chain_status := map_option (\<lambda>n. as_i64 (of_nat n)) (rc_status receipt),
         t_gas_used := gas_used_i64,
         t_effective_gas_price := map_option (dec_of_u256 (ev_ext V)) (rc_effective_gas_price receipt)\<rparr> in
     bindM (require (err_custom ''Block number is None'') (t_block_number tx1)) (\<lambda>block.
     bindM (rpc (\<lambda>n. ev_block V n (Some (unat (i64_as_u64 block))))) (\<lambda>b.
     bindM (require (err_custom ''Block not found'') b) (\<lambda>block_info.
     bindM (liftR (datetime_from_u256_timestamp V (bk_timestamp block_info))) (\<lambda>d.
     bindM (require (err_custom ''Cannot convert timestamp to NaiveDateTime'') d) (\<lambda>date.
     bindM (require (err_custom ''Gas used expected'') (rc_gas_used receipt)) (\<lambda>gas_used.
     bindM (require (err_custom ''Effective gas price expected'') (rc_effective_gas_price receipt)) (\<lambda>effective_gas_price.
     bindM (liftR (u256_mul gas_used effective_gas_price)) (\<lambda>fee.
       ret (tx1\<lparr>t_block_gas_price := map_option (dec_of_u256 (ev_ext V)) (bk_base_fee_per_gas block_info),
              t_blockchain_date := Some date, t_fee_paid := Some (dec_of_u256 (ev_ext V) fee)\<rparr>,
            Some effective_gas_price))))))))))"

definition find_receipt :: "env \<Rightarrow> tx_db_obj \<Rightarrow> (tx_db_obj \<times> u256 option) prg" where
  "find_receipt V tx = (case t_tx_hash tx of
       None \<Rightarrow> throw (err_custom ''No tx hash'')
     | Some h \<Rightarrow>
         bindM (require (Err (ConversionError ''Cannot parse tx_hash'')) (h256_of_str (ev_ext V) h)) (\<lambda>tx_hash.
         bindM (rpc (\<lambda>n. ev_receipt V n tx_hash)) (\<lambda>r. case r of
           None \<Rightarrow> ret (tx\<lparr>t_block_number := None, t_chain_status := None, t_fee_paid := None\<rparr>, None)
         | Some receipt \<Rightarrow> with_receipt V tx receipt)))"

section \<open>Invariants\<close>

lemma preserves_get_no_token_details [preserves_intro]: "preserves world_ok (get_no_token_details V tx g)"
  unfolding get_no_token_details_def by (intro preserves_intro)

lemma preserves_estimation_failed [preserves_intro]: "preserves world_ok (estimation_failed V g tx e)"
  unfolding estimation_failed_def Let_def by (intro preserves_intro)

lemma preserves_check_transaction [preserves_intro]: "preserves world_ok (check_transaction V g tx)"
  unfolding check_transaction_def gas_checked_def Let_def by (intro preserves_intro)

lemma preserves_sign [preserves_intro]: "preserves world_ok (sign_transaction_with_callback V tx a)"
  unfolding sign_transaction_with_callback_def by (intro preserves_intro)

lemma asks_no_gas_details [asks_intro]: "asks (no_gas_details_of V tx)"
  unfolding no_gas_details_of_def by (intro asks_intro)

lemma preserves_send_refused [preserves_intro]: "preserves world_ok (send_refused V g tx m)"
  unfolding send_refused_def by (intro preserves_intro asks_preserves asks_intro)

lemma preserves_send_transaction [preserves_intro]: "preserves world_ok (send_transaction V g tx)"
  unfolding send_transaction_def Let_def
  by (intro preserves_intro) (auto split: web3_error.split intro: preserves_intro)

lemma asks_find_receipt [asks_intro]: "asks (find_receipt V tx)"
  unfolding find_receipt_def with_receipt_def Let_def by (intro asks_intro)

lemma preserves_find_receipt [preserves_intro]: "preserves world_ok (find_receipt V tx)"
  by (intro asks_preserves asks_intro)

end
