(* ===== verification/Process.thy ===== *)
theory Process imports Receipts begin

text \<open>
  \<open>process_transaction\<close> (\<open>sender/process.rs\<close>), the life cycle of one transaction: nonce and fees, check
  and signature, broadcast, then rounds of looking for the receipt, replacing a transaction whose fee is
  too low and sending it again. The function is split where the source has its comments; each part takes
  the transaction and returns the changed one, with \<open>Some r\<close> where the source returns early with \<open>r\<close>.
  The rounds repeat without bound (\<open>continue\<close> after a resend), hence fuel. Messages are evaluated the way
  the log macros do at their default level, so the conversions inside them can fail.
\<close>

datatype process_transaction_result =
    Confirmed
  | Replaced
  | NeedRetry string
  | InternalError string
  | DoNotSave
  | DoNotSaveWaitForGasOrToken
  | UnknownResult

definition tx_message :: "tx_db_obj \<Rightarrow> string \<Rightarrow> unit prg" where
  "tx_message tx msg = shared (set_tx_message (t_id tx) msg)"

text \<open>Errors of the RPC pool become an error naming the network.\<close>

definition endpoint_failing :: "'a prg \<Rightarrow> 'a prg" where
  "endpoint_failing m = bindM (catch_err m) (\<lambda>r. case r of
       Inl e \<Rightarrow> throw (err_custom ''Web3 RPC endpoint failing for network'') | Inr a \<Rightarrow> ret a)"

section \<open>Nonce and fees\<close>

definition polygon_eco_mode :: "env \<Rightarrow> chain_setup \<Rightarrow> bool" where
  "polygon_eco_mode V cs = (cs_chain_id cs = 137 \<and> get_env_bool_value V ''POLYGON_ECO_MODE'')"

definition eco_extra_gas :: "env \<Rightarrow> failure + rat" where
  "eco_extra_gas V = (case ev_getenv V ''POLYGON_ECO_MODE_EXTRA_GAS'' of
       None \<Rightarrow> Inr 0
     | Some s \<Rightarrow> bindE (ok_or (err_custom ''POLYGON_ECO_MODE_EXTRA_GAS has to be decimal format'')
           (ev_dec_from_str_exact V s)) (\<lambda>extra_gas.
         Inr (if extra_gas > 30 then 30 else if extra_gas < -10 then -10 else extra_gas)))"

definition eco_target :: "env \<Rightarrow> u256 \<Rightarrow> rat \<Rightarrow> failure + u256" where
  "eco_target V blockchain_gas_price extra_gas =
     (if extra_gas \<ge> 0
      then bindE (to_u256_from_gwei (ev_checked_mul V) extra_gas) (u256_add blockchain_gas_price)
      else bindE (to_u256_from_gwei (ev_checked_mul V) extra_gas) (\<lambda>extra.
           bindE (u256_sub blockchain_gas_price extra) (\<lambda>target.
           bindE (u256_add 1000000000 extra) (\<lambda>limit.
             Inr (if blockchain_gas_price < limit then 1000000000 else target)))))"

definition eco_max_fee :: "env \<Rightarrow> u256 \<Rightarrow> u256 \<Rightarrow> u256 \<Rightarrow> failure + u256" where
  "eco_max_fee V blockchain_gas_price max_fee_per_gas max_priority_fee =
     bindE (eco_extra_gas V) (\<lambda>extra_gas.
     bindE (eco_target V blockchain_gas_price extra_gas) (\<lambda>target.
     let new_target = (if target < max_priority_fee then max_priority_fee else target) in
     bindE (u256_mul new_target 11) (\<lambda>a.
     bindE (u256_mul max_fee_per_gas 10) (\<lambda>b.
       if a < b then bindE (u256_to_gwei blockchain_gas_price) (\<lambda>_.
                     bindE (u256_to_gwei new_target) (\<lambda>_. Inr new_target))
       else Inr max_fee_per_gas))))"

definition eco_fees :: "env \<Rightarrow> u256 \<Rightarrow> u256 \<Rightarrow> u256 prg" where
  "eco_fees V max_fee_per_gas max_priority_fee =
     bindM (rpc (\<lambda>n. ev_block V n None)) (\<lambda>b.
     bindM (require (err_tx_failed ''Failed to get latest block from RPC node'') b) (\<lambda>block.
     bindM (require (err_tx_failed ''Failed to get base_fee_per_gas from RPC node'') (bk_base_fee_per_gas block)) (\<lambda>price.
       liftR (eco_max_fee V price max_fee_per_gas max_priority_fee))))"

text \<open>The nonce of the chain is not trusted when the database knows a higher one.\<close>

definition nonce_allowed :: "i64 \<Rightarrow> i64 option \<Rightarrow> bool" where
  "nonce_allowed nonce highest = (case highest of None \<Rightarrow> True | Some h \<Rightarrow> nonce = h + 1 \<or> nonce > h + 1)"

definition fee_or :: "env \<Rightarrow> string option \<Rightarrow> u256 \<Rightarrow> failure + u256" where
  "fee_or V s dflt = (case s of Some f \<Rightarrow> str_to_u256 (ev_ext V) f | None \<Rightarrow> Inr dflt)"

definition set_fees :: "env \<Rightarrow> chain_setup \<Rightarrow> tx_db_obj \<Rightarrow> i64 \<Rightarrow> tx_db_obj prg" where
  "set_fees V cs tx nonce =
     bindM (liftR (fee_or V (t_max_fee_per_gas tx) (cs_max_fee_per_gas cs))) (\<lambda>max_fee.
     bindM (liftR (fee_or V (t_priority_fee tx) (cs_priority_fee cs))) (\<lambda>max_priority_fee.
     bindM (if polygon_eco_mode V cs then eco_fees V max_fee max_priority_fee else ret max_fee) (\<lambda>max_fee_per_gas.
       ret (tx\<lparr>t_max_fee_per_gas := Some (dec_of_u256 (ev_ext V) max_fee_per_gas),
             t_priority_fee := Some (dec_of_u256 (ev_ext V) max_priority_fee),
             t_nonce := Some nonce\<rparr>))))"

definition accept_nonce :: "env \<Rightarrow> chain_setup \<Rightarrow> tx_db_obj \<Rightarrow> i64 \<Rightarrow> tx_db_obj prg" where
  "accept_nonce V cs tx nonce =
     bindM (db_run (get_transaction_highest_nonce (t_chain_id tx) (t_from_addr tx))) (\<lambda>db_nonce.
       if \<not> nonce_allowed nonce db_nonce
       then throw (err_custom ''Blockchain nonce is lower than db nonce, blockchain is not updated yet'')
       else set_fees V cs tx nonce)"

definition obtain_nonce :: "env \<Rightarrow> chain_setup \<Rightarrow> address \<Rightarrow> tx_db_obj \<Rightarrow> tx_db_obj prg" where
  "obtain_nonce V cs from_addr tx = (case t_nonce tx of
       Some nonce \<Rightarrow> ret tx
     | None \<Rightarrow>
         bindM (tx_message tx ''Obtaining transaction nonce'') (\<lambda>_.
         bindM (endpoint_failing (get_transaction_count_rpc V from_addr False)) (\<lambda>n.
           accept_nonce V cs tx (as_i64 (of_nat n)))))"

definition mark_first_processed :: "env \<Rightarrow> tx_db_obj \<Rightarrow> tx_db_obj prg" where
  "mark_first_processed V tx = (case t_first_processed tx of
       Some first_processed \<Rightarrow> bindM (now V) (\<lambda>_. ret tx)
     | None \<Rightarrow>
         bindM (now V) (\<lambda>date.
         let tx' = tx\<lparr>t_first_processed := Some date, t_processing := 1\<rparr> in
         bindM (db_run (update_processing_and_first_processed_tx tx')) (\<lambda>_. ret tx')))"

section \<open>Check, signature and broadcast\<close>

definition check_gas ::
    "env \<Rightarrow> chain_setup \<Rightarrow> address \<Rightarrow> tx_db_obj \<Rightarrow> (tx_db_obj \<times> process_transaction_result option) prg" where
  "check_gas V cs from_addr tx =
     bindM (tx_message tx ''Checking transaction'') (\<lambda>_.
     bindM (check_transaction V (cs_glm_address cs) tx) (\<lambda>(tx', r). case r of
         None \<Rightarrow> ret (tx', Some DoNotSaveWaitForGasOrToken)
       | Some needed \<Rightarrow>
           bindM (rpc (\<lambda>n. ev_balance V n from_addr None)) (\<lambda>gas_balance.
           if gas_balance < needed
           then bindM (liftR (u256_to_eth gas_balance)) (\<lambda>balance.
                bindM (liftR (u256_to_eth needed)) (\<lambda>gas_needed.
                bindM (send_driver_event V (TransactionStuck (NoGas
                   \<lparr>ng_tx = tx', ng_gas_balance = balance, ng_gas_needed = gas_needed\<rparr>))) (\<lambda>_.
                  ret (tx', Some DoNotSaveWaitForGasOrToken))))
           else ret (tx', None))))"

definition check_and_sign ::
    "env \<Rightarrow> chain_setup \<Rightarrow> address \<Rightarrow> tx_db_obj \<Rightarrow> (tx_db_obj \<times> process_transaction_result option) prg" where
  "check_and_sign V cs from_addr tx =
     (if t_signed_raw_data tx \<noteq> None then ret (tx, None)
      else bindM (if t_orig_tx_id tx = None then check_gas V cs from_addr tx else ret (tx, None)) (\<lambda>(tx1, r).
        case r of
          Some res \<Rightarrow> ret (tx1, Some res)
        | None \<Rightarrow>
            bindM (tx_message tx1 ''Signing transaction'') (\<lambda>_.
            bindM (sign_transaction_with_callback V tx1 from_addr) (\<lambda>tx2.
            bindM (db_run (update_tx tx2)) (\<lambda>_. ret (tx2, None))))))"

definition broadcast :: "env \<Rightarrow> chain_setup \<Rightarrow> tx_db_obj \<Rightarrow> tx_db_obj prg" where
  "broadcast V cs tx =
     (if t_broadcast_date tx \<noteq> None then ret tx
      else bindM (tx_message tx ''Sending transaction'') (\<lambda>_.
        let tx1 = tx\<lparr>t_broadcast_count := t_broadcast_count tx + 1\<rparr> in
        bindM (db_run (update_tx tx1)) (\<lambda>_.
        bindM (send_transaction V (cs_glm_address cs) tx1) (\<lambda>tx2.
        bindM (db_run (update_tx tx2)) (\<lambda>_. ret tx2)))))"

section \<open>Receipts\<close>

text \<open>The loop over the replacement chain. It reads orig_tx_id of the transaction being processed, not of
  the one it has just looked at.\<close>

fun find_in_chain :: "env \<Rightarrow> tx_db_obj \<Rightarrow> nat \<Rightarrow> tx_db_obj \<Rightarrow> (tx_db_obj \<times> u256 option) prg" where
  "find_in_chain V tx 0 current_tx = throw OutOfFuel"
| "find_in_chain V tx (Suc fuel) current_tx = bindM (find_receipt V current_tx) (\<lambda>(current_tx', res).
     if res \<noteq> None then ret (current_tx', res)
     else (case t_orig_tx_id tx of
         Some orig_tx_id \<Rightarrow> bindM (db_run (get_transaction orig_tx_id)) (find_in_chain V tx fuel)
       | None \<Rightarrow> ret (current_tx', res)))"

text \<open>Both walks below follow orig_tx_id through the table, with one step more than there are rows.\<close>

fun chain_root :: "nat \<Rightarrow> tx_db_obj \<Rightarrow> (db, failure, tx_db_obj) prog" where
  "chain_root 0 orig_tx = throw OutOfFuel"
| "chain_root (Suc fuel) orig_tx = (case t_orig_tx_id orig_tx of
       Some next_tx \<Rightarrow> bindM (sqlx (get_transaction next_tx)) (chain_root fuel)
     | None \<Rightarrow> ret orig_tx)"

fun delete_chain :: "nat \<Rightarrow> i64 \<Rightarrow> tx_db_obj \<Rightarrow> (db, failure, unit) prog" where
  "delete_chain 0 kept process_tx = throw OutOfFuel"
| "delete_chain (Suc fuel) kept process_tx =
     bindM (whenM (t_id process_tx \<noteq> kept) (sqlx (delete_tx (t_id process_tx)))) (\<lambda>_.
     case t_orig_tx_id process_tx of
       Some next_tx \<Rightarrow> bindM (sqlx (get_transaction next_tx)) (delete_chain fuel kept)
     | None \<Rightarrow> ret ())"

definition walk_fuel :: "db \<Rightarrow> nat" where
  "walk_fuel d = Suc (Suc (length (tb_rows (d_tx d))))"

definition cleanup_chain :: "tx_db_obj \<Rightarrow> tx_db_obj \<Rightarrow> tx_db_obj \<Rightarrow> (db, failure, tx_db_obj) prog" where
  "cleanup_chain tx current_tx orig_tx =
     bindM (whenM (t_id orig_tx \<noteq> t_id current_tx)
        (bindM (sqlx (remap_allowance_tx (t_id orig_tx) (t_id current_tx))) (\<lambda>_.
         sqlx (remap_token_transfer_tx (t_id orig_tx) (t_id current_tx))))) (\<lambda>_.
     bindM (gets walk_fuel) (\<lambda>fuel.
     bindM (delete_chain fuel (t_id current_tx) tx) (\<lambda>_.
     let current_tx' = current_tx\<lparr>t_orig_tx_id := None, t_signed_raw_data := None\<rparr> in
     bindM (sqlx (update_tx current_tx')) (\<lambda>_. ret current_tx'))))"

definition confirm_tx ::
    "env \<Rightarrow> bool \<Rightarrow> tx_db_obj \<Rightarrow> tx_db_obj \<Rightarrow> nat \<Rightarrow> (tx_db_obj \<times> process_transaction_result option) prg" where
  "confirm_tx V eco tx current_tx block_number =
     bindM (now V) (\<lambda>date.
     let current_tx1 = current_tx\<lparr>t_confirm_date := Some date\<rparr> in
     bindM (if eco then bindM (ask (\<lambda>n. ev_block V n (Some block_number))) (\<lambda>_. ret ()) else ret ()) (\<lambda>_.
     bindM (on_db (bindM (gets walk_fuel) (\<lambda>fuel. chain_root fuel current_tx1))) (\<lambda>orig_tx.
     bindM (db_transaction (cleanup_chain tx current_tx1 orig_tx)) (\<lambda>current_tx2.
     bindM (tx_message tx '''') (\<lambda>_.
       ret (current_tx2, Some Confirmed))))))"

definition receipt_missing ::
    "env \<Rightarrow> payment_setup \<Rightarrow> tx_db_obj \<Rightarrow> (tx_db_obj \<times> process_transaction_result option) prg" where
  "receipt_missing V S tx =
     bindM (shared (set_tx_error (t_id tx)
        (Some ''Receipt not found despite proper nonce. Probably external payment done.''))) (\<lambda>_.
     case t_first_stuck_date tx of
       Some first_stuck_date \<Rightarrow>
         bindM (now V) (\<lambda>curr_time.
         if curr_time - first_stuck_date > int (ps_mark_as_unrecoverable_after_seconds S)
         then (if ps_automatic_recover S
               then bindM (remove_transaction_force (t_id tx)) (\<lambda>_. ret (tx, Some DoNotSave))
               else ret (tx, Some (NeedRetry ''Receipt not found'')))
         else ret (tx, None))
     | None \<Rightarrow>
         bindM (now V) (\<lambda>curr_time.
         let tx' = tx\<lparr>t_first_stuck_date := Some curr_time\<rparr> in
         bindM (db_run (update_tx_stuck_date tx')) (\<lambda>_. ret (tx', None))))"

definition check_receipt ::
    "env \<Rightarrow> payment_setup \<Rightarrow> chain_setup \<Rightarrow> nat \<Rightarrow> tx_db_obj \<Rightarrow> nat \<Rightarrow>
     (tx_db_obj \<times> process_transaction_result option) prg" where
  "check_receipt V S cs fuel tx current_block_number =
     bindM (tx_message tx ''Confirmations - checking receipt'') (\<lambda>_.
     bindM (find_in_chain V tx fuel tx) (\<lambda>(current_tx, res). case res of
         Some effective_gas_price \<Rightarrow>
           (case t_block_number current_tx of
              None \<Rightarrow> throw (err_custom ''Block number not found on dao for tx'')
            | Some bn \<Rightarrow> let block_number = unat (i64_as_u64 bn) in
                if block_number + cs_confirmation_blocks cs \<le> current_block_number
                then confirm_tx V (polygon_eco_mode V cs) tx current_tx block_number
                else ret (tx, None))
       | None \<Rightarrow> receipt_missing V S tx))"

section \<open>Replacement\<close>

definition ready_for_replacement :: "env \<Rightarrow> chain_setup \<Rightarrow> tx_db_obj \<Rightarrow> bool prg" where
  "ready_for_replacement V cs tx = (case t_first_processed tx of
       Some first_processed \<Rightarrow> bindM (now V) (\<lambda>n.
         ret (n - first_processed > \<lfloor>case cs_replacement_timeout cs of Some t \<Rightarrow> t | None \<Rightarrow> 60\<rfloor>))
     | None \<Rightarrow> ret False)"

text \<open>The fees of the replacement, if there is to be one: both are at least ten percent higher.\<close>

definition replacement_fees ::
    "chain_setup \<Rightarrow> rat \<Rightarrow> rat \<Rightarrow> u256 \<Rightarrow> rat \<Rightarrow> rat \<Rightarrow> failure + (u256 \<times> u256) option" where
  "replacement_fees cs tx_fee_per_gas max_fee_per_gas tx_pr_fee_u256 tx_pr_fee config_priority_fee =
     (let fee_per_gas_changed = (tx_fee_per_gas \<noteq> max_fee_per_gas);
          fee_per_gas_bumped_10 = (fee_per_gas_changed \<and> tx_fee_per_gas * 11 \<le> max_fee_per_gas * 10);
          priority_fee_changed = (tx_pr_fee \<noteq> config_priority_fee);
          priority_fee_changed_10 = (priority_fee_changed \<and> tx_pr_fee * 11 \<le> config_priority_fee * 10)
      in if \<not> (fee_per_gas_changed \<or> priority_fee_changed) then Inr None
         else if priority_fee_changed_10 \<and> fee_per_gas_bumped_10
         then Inr (Some (cs_max_fee_per_gas cs, cs_priority_fee cs))
         else if fee_per_gas_bumped_10
         then bindE (u256_mul tx_pr_fee_u256 11) (\<lambda>a.
              bindE (u256_add (a div 10) 1) (\<lambda>prio.
              bindE (u256_to_gwei prio) (\<lambda>_.
                Inr (Some (if prio > cs_max_fee_per_gas cs then prio else cs_max_fee_per_gas cs, prio)))))
         else Inr None)"

definition replacement_tx :: "env \<Rightarrow> timestamp \<Rightarrow> tx_db_obj \<Rightarrow> u256 \<Rightarrow> u256 \<Rightarrow> tx_db_obj" where
  "replacement_tx V date tx max_fee prio = (tx_default date)
     \<lparr>t_method := t_method tx, t_from_addr := t_from_addr tx, t_to_addr := t_to_addr tx,
      t_chain_id := t_chain_id tx, t_gas_limit := t_gas_limit tx,
      t_max_fee_per_gas := Some (dec_of_u256 (ev_ext V) max_fee),
      t_priority_fee := Some (dec_of_u256 (ev_ext V) prio), t_val := t_val tx, t_nonce := t_nonce tx,
      t_processing := t_processing tx, t_call_data := t_call_data tx, t_orig_tx_id := Some (t_id tx)\<rparr>"

definition insert_replacement :: "env \<Rightarrow> tx_db_obj \<Rightarrow> u256 \<Rightarrow> u256 \<Rightarrow> unit prg" where
  "insert_replacement V tx max_fee prio =
     bindM (now V) (\<lambda>date.
     db_transaction
       (bindM (sqlx (insert_tx (replacement_tx V date tx max_fee prio))) (\<lambda>_.
        bindM (sqlx (update_tx (tx\<lparr>t_processing := 0\<rparr>))) (\<lambda>_. ret ()))))"

definition try_replacement ::
    "env \<Rightarrow> chain_setup \<Rightarrow> tx_db_obj \<Rightarrow> (tx_db_obj \<times> process_transaction_result option) prg" where
  "try_replacement V cs tx =
     bindM (require (err_tx_failed ''Max fee per gas not found'') (t_max_fee_per_gas tx)) (\<lambda>max_fee_str.
     bindM (require (err_tx_failed ''Priority fee not found'') (t_priority_fee tx)) (\<lambda>prio_str.
     bindM (liftR (str_to_gwei (ev_ext V) max_fee_str)) (\<lambda>tx_fee_per_gas.
     bindM (liftR (u256_to_gwei (cs_max_fee_per_gas cs))) (\<lambda>max_fee_per_gas.
     bindM (liftR (str_to_u256 (ev_ext V) prio_str)) (\<lambda>tx_pr_fee_u256.
     bindM (liftR (u256_to_gwei tx_pr_fee_u256)) (\<lambda>tx_pr_fee.
     bindM (liftR (u256_to_gwei (cs_priority_fee cs))) (\<lambda>config_priority_fee.
     if tx_pr_fee > tx_fee_per_gas
     then throw (err_custom ''Transaction priority fee is greater than max fee per gas for tx'')
     else
     bindM (ready_for_replacement V cs tx) (\<lambda>ready.
     if \<not> ready then ret (tx, None)
     else
     bindM (liftR (replacement_fees cs tx_fee_per_gas max_fee_per_gas tx_pr_fee_u256 tx_pr_fee config_priority_fee)) (\<lambda>r.
     case r of
       None \<Rightarrow> ret (tx, None)
     | Some (max_fee, prio) \<Rightarrow>
         bindM (insert_replacement V tx max_fee prio) (\<lambda>_. ret (tx, Some Replaced)))))))))))"

section \<open>Resending and the time limit\<close>

definition resend :: "env \<Rightarrow> chain_setup \<Rightarrow> tx_db_obj \<Rightarrow> tx_db_obj prg" where
  "resend V cs tx =
     bindM (tx_message tx ''Resending transaction'') (\<lambda>_.
     bindM (send_transaction V (cs_glm_address cs) tx) (\<lambda>tx1.
     let tx2 = tx1\<lparr>t_broadcast_count := t_broadcast_count tx1 + 1\<rparr> in
     bindM (db_run (update_tx tx2)) (\<lambda>_. ret tx2)))"

definition assumed_min_priority_fee_gwei :: "i64 \<Rightarrow> rat" where
  "assumed_min_priority_fee_gwei chain_id = (if chain_id = 137 then 30 else if chain_id = 80001 then 1 else 0)"

definition gas_price_warning :: "env \<Rightarrow> tx_db_obj \<Rightarrow> block_info \<Rightarrow> unit prg" where
  "gas_price_warning V tx block =
     bindM (liftR (u256_to_gwei (case bk_base_fee_per_gas block of Some f \<Rightarrow> f | None \<Rightarrow> 0))) (\<lambda>base_fee.
     bindM (require (err_tx_failed ''Max fee per gas not found'') (t_max_fee_per_gas tx)) (\<lambda>max_fee_str.
     bindM (liftR (str_to_gwei (ev_ext V) max_fee_str)) (\<lambda>tx_max_fee.
     let min_priority = assumed_min_priority_fee_gwei (t_chain_id tx) in
     bindM (liftR (datetime_from_u256_timestamp V (bk_timestamp block))) (\<lambda>d. case d of
         None \<Rightarrow> ret ()
       | Some block_date \<Rightarrow>
           if base_fee + min_priority > tx_max_fee
           then bindM (require (Panic ''called unwrap on a None value'') (bk_number block)) (\<lambda>block_number.
                send_driver_event V (TransactionStuck (GasPriceLow
                  \<lparr>gl_tx = tx, gl_tx_max_fee_per_gas_gwei = tx_max_fee, gl_block_date = block_date,
                   gl_block_number = block_number, gl_block_base_fee_per_gas_gwei = base_fee,
                   gl_assumed_min_priority_fee_gwei = min_priority,
                   gl_user_friendly_message = ''Transaction not processed, block base fee per gas + priority fee is greater than transaction max fee per gas''\<rparr>)))
           else ret ()))))"

definition check_timeout :: "env \<Rightarrow> chain_setup \<Rightarrow> tx_db_obj \<Rightarrow> unit prg" where
  "check_timeout V cs tx = (case t_first_processed tx of
       None \<Rightarrow> ret ()
     | Some first_processed \<Rightarrow> bindM (now V) (\<lambda>n.
         if n - first_processed > int (cs_transaction_timeout cs) \<and> t_broadcast_date tx \<noteq> None
         then bindM (ask (\<lambda>n. ev_block V n None)) (\<lambda>r. case r of
              Inr (Some block) \<Rightarrow> gas_price_warning V tx block
            | _ \<Rightarrow> ret ())
         else ret ()))"

section \<open>The rounds\<close>

text \<open>The end of a round: \<open>Inl tx\<close> to start the next one, \<open>Inr\<close> the result.\<close>

definition finish_round ::
    "env \<Rightarrow> chain_setup \<Rightarrow> bool \<Rightarrow> tx_db_obj \<Rightarrow> nat \<Rightarrow>
     (tx_db_obj + tx_db_obj \<times> process_transaction_result) prg" where
  "finish_round V cs wait_for_confirmation tx pending_nonce =
     bindM (require (err_custom ''Nonce not found'') (t_nonce tx)) (\<lambda>nonce.
     if pending_nonce \<le> unat (i64_as_u64 nonce)
     then bindM (resend V cs tx) (\<lambda>tx'. ret (Inl tx'))
     else bindM (check_timeout V cs tx) (\<lambda>_.
       if \<not> wait_for_confirmation then ret (Inr (tx, UnknownResult)) else ret (Inl tx)))"

definition confirmation_round ::
    "env \<Rightarrow> payment_setup \<Rightarrow> chain_setup \<Rightarrow> address \<Rightarrow> bool \<Rightarrow> nat \<Rightarrow> tx_db_obj \<Rightarrow>
     (tx_db_obj + tx_db_obj \<times> process_transaction_result) prg" where
  "confirmation_round V S cs from_addr wait_for_confirmation fuel tx =
     bindM (tx_message tx ''Confirmations - checking nonce'') (\<lambda>_.
     bindM (endpoint_failing (get_transaction_count_rpc V from_addr False)) (\<lambda>latest_nonce.
     bindM (endpoint_failing (rpc (ev_block_number V))) (\<lambda>current_block_number.
     bindM (require (err_custom ''Nonce should be present in db'') (t_nonce tx)) (\<lambda>db_nonce.
     bindM (if latest_nonce > unat (i64_as_u64 db_nonce)
            then check_receipt V S cs fuel tx current_block_number
            else ret (tx, None)) (\<lambda>(tx1, r1). case r1 of
         Some res \<Rightarrow> ret (Inr (tx1, res))
       | None \<Rightarrow>
           bindM (get_transaction_count_rpc V from_addr True) (\<lambda>pending_nonce.
           bindM (try_replacement V cs tx1) (\<lambda>(tx2, r2). case r2 of
               Some res \<Rightarrow> ret (Inr (tx2, res))
             | None \<Rightarrow> finish_round V cs wait_for_confirmation tx2 pending_nonce)))))))"

fun confirmation_loop ::
    "env \<Rightarrow> payment_setup \<Rightarrow> chain_setup \<Rightarrow> address \<Rightarrow> bool \<Rightarrow> nat \<Rightarrow> tx_db_obj \<Rightarrow>
     (tx_db_obj \<times> process_transaction_result) prg" where
  "confirmation_loop V S cs from_addr wait_for_confirmation 0 tx = throw OutOfFuel"
| "confirmation_loop V S cs from_addr wait_for_confirmation (Suc fuel) tx =
     bindM (confirmation_round V S cs from_addr wait_for_confirmation fuel tx) (\<lambda>r. case r of
         Inr result \<Rightarrow> ret result
       | Inl tx' \<Rightarrow> confirmation_loop V S cs from_addr wait_for_confirmation fuel tx')"

definition process_transaction ::
    "env \<Rightarrow> payment_setup \<Rightarrow> nat \<Rightarrow> tx_db_obj \<Rightarrow> bool \<Rightarrow> (tx_db_obj \<times> process_transaction_result) prg" where
  "process_transaction V S fuel tx wait_for_confirmation = (case ps_chain_setup S (t_chain_id tx) of
       None \<Rightarrow> ret (tx, DoNotSave)
     | Some cs \<Rightarrow>
         bindM (require (err_tx_failed ''Failed to parse from_addr'') (addr_of_str (ev_ext V) (t_from_addr tx))) (\<lambda>from_addr.
         bindM (ask (\<lambda>n. ev_sign_possible V n from_addr)) (\<lambda>possible. case possible of
           Inl err \<Rightarrow> bindM (send_driver_event V (CantSign (CantSignTx tx)))
             (\<lambda>_. throw (err_tx_failed ''Sign won't be possible for given address''))
         | Inr _ \<Rightarrow>
             bindM (obtain_nonce V cs from_addr tx) (\<lambda>tx1.
             bindM (mark_first_processed V tx1) (\<lambda>tx2.
             bindM (check_and_sign V cs from_addr tx2) (\<lambda>(tx3, r). case r of
               Some res \<Rightarrow> ret (tx3, res)
             | None \<Rightarrow>
                 bindM (broadcast V cs tx3) (\<lambda>tx4.
                 if t_confirm_date tx4 \<noteq> None then ret (tx4, Confirmed)
                 else confirmation_loop V S cs from_addr wait_for_confirmation fuel tx4)))))))"

end
