(* ===== verification/Results.thy ===== *)
theory Results imports Process TransferRows begin

text \<open>
  Saving the result of a processed transaction (\<open>update_token_transfer_result\<close>, \<open>update_approve_result\<close>
  and \<open>update_tx_result\<close> of \<open>sender/service.rs\<close>), with the distribution of the fee over the transfers of the
  transaction. Each returns the transaction as the caller sees it afterwards.
\<close>

section \<open>Distributing the fee\<close>

fun subtract_shares :: "nat \<Rightarrow> u256 \<Rightarrow> u256 \<Rightarrow> failure + u256" where
  "subtract_shares 0 val_share fee_left = Inr fee_left"
| "subtract_shares (Suc n) val_share fee_left = bindE (u256_sub fee_left val_share) (subtract_shares n val_share)"

definition distribute_fee :: "u256 \<Rightarrow> nat \<Rightarrow> failure + u256 list" where
  "distribute_fee val n = (let val_share = val div of_nat n in
     bindE (subtract_shares n val_share val) (\<lambda>left.
     bindE (as_u64 left) (\<lambda>fee_left.
       if fee_left \<ge> n then Inl (Panic ''fee left is too big, critical error when distributing fee'')
       else if fee_left = 0 then Inr (replicate n val_share)
       else bindE (u256_add val_share 1) (\<lambda>more.
         Inr (replicate fee_left more @ replicate (n - fee_left) val_share)))))"

definition transfer_fees :: "env \<Rightarrow> tx_db_obj \<Rightarrow> nat \<Rightarrow> failure + string option list" where
  "transfer_fees V tx n = (case t_fee_paid tx of
       None \<Rightarrow> Inr (replicate n None)
     | Some fee_paid \<Rightarrow>
         bindE (ok_or (Err (ConversionError ''failed to parse fee paid'')) (u256_of_dec (ev_ext V) fee_paid)) (\<lambda>val.
         bindE (distribute_fee val n) (\<lambda>fees. Inr (map (\<lambda>f. Some (dec_of_u256 (ev_ext V) f)) fees))))"

section \<open>Token transfers\<close>

fun pay_transfers :: "env \<Rightarrow> (token_transfer_db_obj \<times> string option) list \<Rightarrow> token_transfer_db_obj list prg" where
  "pay_transfers V [] = ret []"
| "pay_transfers V ((t, fee_paid) # rest) =
     bindM (now V) (\<lambda>date.
     let t' = t\<lparr>tt_fee_paid := fee_paid, tt_paid_date := Some date\<rparr> in
     bindM (db_run (update_token_transfer t')) (\<lambda>_.
     bindM (pay_transfers V rest) (\<lambda>ts. ret (t' # ts))))"

definition confirm_transfers :: "env \<Rightarrow> tx_db_obj \<Rightarrow> token_transfer_db_obj list prg" where
  "confirm_transfers V tx =
     bindM (db_run (get_token_transfers_by_tx (t_id tx))) (\<lambda>token_transfers.
     if token_transfers = [] then throw (err_custom ''Transaction has no attached token transfers in db'')
     else bindM (liftR (transfer_fees V tx (length token_transfers))) (\<lambda>fees.
          bindM (pay_transfers V (zip token_transfers fees)) (\<lambda>paid.
          bindM (db_run (update_tx tx)) (\<lambda>_. ret paid))))"

definition fail_transfer :: "string \<Rightarrow> token_transfer_db_obj \<Rightarrow> token_transfer_db_obj" where
  "fail_transfer err t = t\<lparr>tt_fee_paid := Some ''0'', tt_error := Some err\<rparr>"

definition fail_transfers :: "tx_db_obj \<Rightarrow> string \<Rightarrow> tx_db_obj prg" where
  "fail_transfers tx err = (let tx' = tx\<lparr>t_processing := 0, t_error := Some err\<rparr> in
     in_transaction
       (bindM (db_run (get_token_transfers_by_tx (t_id tx))) (\<lambda>token_transfers.
        bindM (forM token_transfers (\<lambda>t. bindM (db_run (update_token_transfer (fail_transfer err t))) (\<lambda>_. ret ()))) (\<lambda>_.
        bindM (db_run (update_tx tx')) (\<lambda>_. ret tx')))))"

definition update_token_transfer_result ::
    "env \<Rightarrow> tx_db_obj \<Rightarrow> process_transaction_result \<Rightarrow> tx_db_obj prg" where
  "update_token_transfer_result V tx res = (case res of
       Confirmed \<Rightarrow>
         let tx' = tx\<lparr>t_processing := 0\<rparr> in
         bindM (in_transaction (confirm_transfers V tx')) (\<lambda>paid.
         bindM (forM paid (\<lambda>t. send_driver_event V (TransferFinished \<lparr>tf_token_transfer_dao = t, tf_tx_dao = tx'\<rparr>))) (\<lambda>_.
           ret tx'))
     | NeedRetry err \<Rightarrow> fail_transfers tx err
     | InternalError err \<Rightarrow> fail_transfers tx err
     | UnknownResult \<Rightarrow> let tx' = tx\<lparr>t_processing := 1\<rparr> in bindM (db_run (update_tx tx')) (\<lambda>_. ret tx')
     | _ \<Rightarrow> ret tx)"

section \<open>Approvals and other transactions\<close>

definition fail_approve :: "tx_db_obj \<Rightarrow> string \<Rightarrow> tx_db_obj prg" where
  "fail_approve tx err = (let tx' = tx\<lparr>t_processing := 0, t_error := Some err\<rparr> in
     in_transaction
       (bindM (db_run (get_allowance_by_tx (t_id tx))) (\<lambda>allowance.
        bindM (db_run (update_allowance (allowance\<lparr>al_fee_paid := Some ''0'', al_error := Some err\<rparr>))) (\<lambda>_.
        bindM (db_run (update_tx tx')) (\<lambda>_. ret tx')))))"

definition update_approve_result ::
    "env \<Rightarrow> tx_db_obj \<Rightarrow> process_transaction_result \<Rightarrow> tx_db_obj prg" where
  "update_approve_result V tx res = (case res of
       Confirmed \<Rightarrow>
         let tx' = tx\<lparr>t_processing := 0\<rparr> in
         bindM (in_transaction
           (bindM (db_run (get_allowance_by_tx (t_id tx))) (\<lambda>allowance.
            let allowance' = allowance\<lparr>al_fee_paid := t_fee_paid tx\<rparr> in
            bindM (db_run (update_allowance allowance')) (\<lambda>_.
            bindM (db_run (update_tx tx')) (\<lambda>_. ret allowance'))))) (\<lambda>allowance.
         bindM (send_driver_event V (ApproveFinished allowance)) (\<lambda>_. ret tx'))
     | NeedRetry err \<Rightarrow> fail_approve tx err
     | InternalError err \<Rightarrow> fail_approve tx err
     | UnknownResult \<Rightarrow> let tx' = tx\<lparr>t_processing := 1\<rparr> in bindM (db_run (update_tx tx')) (\<lambda>_. ret tx')
     | _ \<Rightarrow> ret tx)"

definition update_tx_result :: "tx_db_obj \<Rightarrow> process_transaction_result \<Rightarrow> tx_db_obj prg" where
  "update_tx_result tx res =
     (let save = (\<lambda>tx'. bindM (db_run (update_tx tx')) (\<lambda>_. ret tx')) in
     case res of
       Confirmed \<Rightarrow> save (tx\<lparr>t_processing := 0\<rparr>)
     | NeedRetry _ \<Rightarrow> save (tx\<lparr>t_processing := 0, t_error := Some ''Need retry''\<rparr>)
     | InternalError err \<Rightarrow> save (tx\<lparr>t_processing := 0, t_error := Some err\<rparr>)
     | UnknownResult \<Rightarrow> save (tx\<lparr>t_processing := 1\<rparr>)
     | _ \<Rightarrow> ret tx)"

definition starts_with :: "string \<Rightarrow> string \<Rightarrow> bool" where
  "starts_with s p = (take (length p) s = p)"

text \<open>The choice by the method of the transaction, in \<open>process_transactions\<close>.\<close>

definition pays_token_transfers :: "string \<Rightarrow> bool" where
  "pays_token_transfers meth \<longleftrightarrow> starts_with meth ''MULTI.golemTransfer'' \<or> meth = ''ERC20.transfer'' \<or> meth = ''transfer''"

definition save_result :: "env \<Rightarrow> tx_db_obj \<Rightarrow> process_transaction_result \<Rightarrow> tx_db_obj prg" where
  "save_result V tx res =
     (if pays_token_transfers (t_method tx) then update_token_transfer_result V tx res
      else if t_method tx = ''ERC20.approve'' then update_approve_result V tx res
      else update_tx_result tx res)"

section \<open>Invariants\<close>

lemma preserves_get_tt_by_tx [preserves_intro]: "preserves I (get_token_transfers_by_tx i)"
  unfolding get_token_transfers_by_tx_def by (rule preserves_gets)

lemma preserves_pay_transfers [preserves_intro]: "preserves world_ok (pay_transfers V ps)"
  by (induction V ps rule: pay_transfers.induct) (auto simp: Let_def intro!: preserves_intro)

lemma preserves_confirm_transfers [preserves_intro]: "preserves world_ok (confirm_transfers V tx)"
  unfolding confirm_transfers_def by (intro preserves_intro)

lemma preserves_fail_transfers [preserves_intro]: "preserves world_ok (fail_transfers tx e)"
  unfolding fail_transfers_def Let_def by (intro preserves_intro)

lemma preserves_fail_approve [preserves_intro]: "preserves world_ok (fail_approve tx e)"
  unfolding fail_approve_def Let_def by (intro preserves_intro)

lemma preserves_update_token_transfer_result [preserves_intro]:
  "preserves world_ok (update_token_transfer_result V tx r)"
  unfolding update_token_transfer_result_def Let_def
  by (cases r) (simp_all, (intro preserves_intro)+)

lemma preserves_update_approve_result [preserves_intro]: "preserves world_ok (update_approve_result V tx r)"
  unfolding update_approve_result_def Let_def
  by (cases r) (simp_all, (intro preserves_intro)+)

lemma preserves_update_tx_result [preserves_intro]: "preserves world_ok (update_tx_result tx r)"
  unfolding update_tx_result_def Let_def
  by (cases r) (simp_all, (intro preserves_intro)+)

lemma preserves_save_result [preserves_intro]: "preserves world_ok (save_result V tx r)"
  unfolding save_result_def by (intro preserves_intro)

end
