(* ===== verification/ResultProofs.thy ===== *)
theory ResultProofs imports Results Sample begin

text \<open>
  Proofs about saving results (\<open>Results\<close>): the fee of a transaction is distributed over its transfers
  exactly, a confirmed payment marks its transfers paid and reports each of them, and a failed one marks
  them failed.
\<close>

section \<open>The fee\<close>

lemma subtract_shares_result:
  "n * unat s \<le> unat v \<Longrightarrow> \<exists>r. subtract_shares n s v = Inr r \<and> unat r = unat v - n * unat s"
proof (induction n arbitrary: v)
  case (Suc n)
  then have le: "s \<le> v" by (simp add: word_le_nat_alt)
  then have u: "unat (v - s) = unat v - unat s" by (simp add: unat_sub word_le_nat_alt)
  with Suc.prems have "n * unat s \<le> unat (v - s)" by simp
  from Suc.IH [OF this] le u show ?case by (auto simp: u256_sub_def)
qed simp

lemma unat_div_of_nat:
  assumes "0 < n" and "n < 2 ^ 64"
  shows "unat ((v :: u256) div of_nat n) = unat v div n"
proof -
  have "(2 :: nat) ^ 64 \<le> 2 ^ LENGTH(256)" by (rule power_increasing) simp_all
  then have "n < 2 ^ LENGTH(256)" using assms(2) by (rule less_le_trans [rotated])
  then show ?thesis by (simp add: unat_div unat_of_nat_small)
qed

lemma u256_add_1:
  "unat x + 1 < 2 ^ 256 \<Longrightarrow> u256_add x 1 = Inr (x + 1) \<and> unat (x + 1) = unat x + 1"
  by (auto simp: u256_add_def unat_word_ariths)

lemma distribute_fee_result:
  assumes "0 < n" and "n < 2 ^ 64"
  shows "\<exists>fees. distribute_fee v n = Inr fees \<and> length fees = n \<and> sum_list (map unat fees) = unat v \<and>
    unat ` set fees \<subseteq> {unat v div n, unat v div n + 1}"
proof -
  let ?s = "v div of_nat n" and ?m = "unat v mod n"
  have s: "unat ?s = unat v div n" by (rule unat_div_of_nat [OF assms])
  have split: "unat v = n * (unat v div n) + ?m" by simp
  have m: "?m < n" using assms(1) by simp
  obtain r where r: "subtract_shares n ?s v = Inr r" "unat r = unat v - n * unat ?s"
    using subtract_shares_result [of n ?s v] s by (auto simp: mult.commute)
  have "unat r = ?m" using r(2) s split by (simp add: minus_mult_div_eq_mod)
  then have rem: "as_u64 r = Inr ?m" using m assms(2) by (simp add: as_u64_def)
  show ?thesis
  proof (cases "?m = 0")
    case True
    then have "distribute_fee v n = Inr (replicate n ?s)"
      using r(1) rem m by (simp add: distribute_fee_def Let_def)
    moreover have "n * (unat v div n) = unat v" using split True by simp
    ultimately show ?thesis by (auto simp: s sum_list_replicate map_replicate_const)
  next
    case False
    then have "unat v div n + 1 \<le> unat v"
      using m split by (metis add_leE div_le_dividend gr0I less_one linorder_not_less nat_less_le not_less_eq_eq Suc_eq_plus1 div_eq_dividend_iff mod_by_1 mod_0)
    then have "unat ?s + 1 < 2 ^ 256" using unat_bound [of v] unfolding s by simp
    from u256_add_1 [OF this] have more: "u256_add ?s 1 = Inr (?s + 1)" "unat (?s + 1) = unat v div n + 1"
      unfolding s by blast+
    then have d: "distribute_fee v n = Inr (replicate ?m (?s + 1) @ replicate (n - ?m) ?s)"
      using r(1) rem m False by (simp add: distribute_fee_def Let_def)
    have "?m * (unat v div n + 1) + (n - ?m) * (unat v div n) = unat v"
      using m split by (simp add: algebra_simps flip: add_mult_distrib)
    with d m show ?thesis by (auto simp: s more(2) sum_list_replicate map_replicate_const)
  qed
qed

text \<open>C18. The fee of a transaction is distributed over its transfers without loss: there is a share for each,
  the shares differ by at most one wei, and they sum up to the fee exactly; the panic for a remainder
  that is too big is never reached.\<close>

theorem fee_distributed_exactly:
  assumes "0 < n" and "n < 2 ^ 64"
  shows "\<exists>fees. distribute_fee fee n = Inr fees \<and> length fees = n \<and> sum_list (map unat fees) = unat fee \<and>
    unat ` set fees \<subseteq> {unat fee div n, unat fee div n + 1}"
  by (rule distribute_fee_result [OF assms])

theorem fee_distributed_exactly_witness:
  "\<exists>fees. distribute_fee 10 3 = Inr fees \<and> length fees = 3 \<and> unat ` set fees \<subseteq> {3, 4}"
  using fee_distributed_exactly [of 3 10] by auto

section \<open>Confirmed payments\<close>

text \<open>The transfers as they are stored, the clock being asked once for each from tick \<open>n\<close> on.\<close>

fun paid_from :: "env \<Rightarrow> nat \<Rightarrow> (token_transfer_db_obj \<times> string option) list \<Rightarrow> token_transfer_db_obj list" where
  "paid_from V n [] = []"
| "paid_from V n ((t, fee) # ps) = t\<lparr>tt_fee_paid := fee, tt_paid_date := Some (ev_now V n)\<rparr> # paid_from V (n + 1) ps"

lemma paid_from_ids [simp]: "map tt_id (paid_from V n ps) = map (tt_id \<circ> fst) ps"
  by (induction V n ps rule: paid_from.induct) auto

lemma paid_from_zip_ids: "length fs = length ts \<Longrightarrow> map tt_id (paid_from V n (zip ts fs)) = map tt_id ts"
  by (simp flip: map_map)

lemma paid_from_id_set: "length fs = length ts \<Longrightarrow> tt_id ` set (paid_from V n (zip ts fs)) = tt_id ` set ts"
  using paid_from_zip_ids [of fs ts V n] by (metis set_map)

lemma overwrite_other:
  assumes "tt_id r \<notin> tt_id ` set news"
  shows "overwrite news r = r"
proof -
  have "tt_id n \<noteq> tt_id r" if "n \<in> set news" for n
    using assms imageI [OF that, of tt_id] by auto
  then have "find (\<lambda>n. tt_id n = tt_id r) news = None" by (simp add: find_None_iff)
  then show ?thesis by (simp add: overwrite_def)
qed

lemma overwrite_hd: "tt_id n = tt_id r \<Longrightarrow> overwrite (n # news) r = n"
  and overwrite_tl: "tt_id n \<noteq> tt_id r \<Longrightarrow> overwrite (n # news) r = overwrite news r"
  by (simp_all add: overwrite_def)

lemma map_overwrite_paid:
  "length fs = length ts \<Longrightarrow> distinct (map tt_id ts) \<Longrightarrow>
    map (overwrite (paid_from V n (zip ts fs))) ts = paid_from V n (zip ts fs)"
proof (induction ts arbitrary: fs n)
  case (Cons t ts)
  then obtain f fs' where fs: "fs = f # fs'" "length fs' = length ts" by (cases fs) auto
  let ?p = "t\<lparr>tt_fee_paid := f, tt_paid_date := Some (ev_now V n)\<rparr>" and ?ps = "paid_from V (n + 1) (zip ts fs')"
  have "overwrite (?p # ?ps) u = overwrite ?ps u" if "u \<in> set ts" for u
  proof (rule overwrite_tl)
    show "tt_id ?p \<noteq> tt_id u" using Cons.prems(2) imageI [OF that, of tt_id] by auto
  qed
  then have "map (overwrite (?p # ?ps)) ts = map (overwrite ?ps) ts" by simp
  also have "\<dots> = ?ps" using Cons.prems(2) fs(2) by (intro Cons.IH) auto
  finally show ?case by (simp add: fs(1) overwrite_hd)
qed simp

lemma paid_from_tx: "t \<in> set (paid_from V n ps) \<Longrightarrow> \<exists>u\<in>fst ` set ps. tt_id t = tt_id u \<and> tt_tx_id t = tt_tx_id u"
  by (induction V n ps rule: paid_from.induct) auto

lemma fk_tx_set_rows [simp]: "fk_tx (set_rows rs d) r = fk_tx d r"
  by (simp add: fk_tx_def split: option.split)

lemma pay_transfers_result:
  assumes "tbl_wf tt_id (d_token_transfer (w_db w))" and "set ts \<subseteq> set (tb_rows (d_token_transfer (w_db w)))"
    and "distinct (map tt_id ts)" and "\<And>t. t \<in> set ts \<Longrightarrow> fk_tx (w_db w) (tt_tx_id t)" and "length fs = length ts"
  shows "pay_transfers V (zip ts fs) w = (Inr (paid_from V (w_tick w) (zip ts fs)),
    w\<lparr>w_db := set_rows (map (overwrite (paid_from V (w_tick w) (zip ts fs))) (transfer_rows w)) (w_db w),
      w_tick := w_tick w + length ts\<rparr>)"
  using assms
proof (induction ts arbitrary: fs w)
  case Nil
  then show ?case by simp
next
  case (Cons t ts)
  then obtain f fs' where fs: "fs = f # fs'" "length fs' = length ts" by (cases fs) auto
  let ?p = "t\<lparr>tt_fee_paid := f, tt_paid_date := Some (ev_now V (w_tick w))\<rparr>"
  let ?rows = "map (overwrite [?p]) (transfer_rows w)"
  let ?w = "w\<lparr>w_db := set_rows ?rows (w_db w), w_tick := w_tick w + 1\<rparr>"
  have up: "update_token_transfer ?p (w_db w) = (Inr ?p, set_rows ?rows (w_db w))"
    using Cons.prems by (intro update_row [of _ t]) auto
  have wf: "tbl_wf tt_id (d_token_transfer (w_db ?w))"
    using wf_set_rows [OF Cons.prems(1), of ?rows] by (simp add: comp_def)
  have "set ts \<subseteq> set (transfer_rows ?w)"
  proof
    fix u assume u: "u \<in> set ts"
    have "tt_id u \<noteq> tt_id t" using Cons.prems(3) imageI [OF u, of tt_id] by auto
    then have "overwrite [?p] u = u" by (simp add: overwrite_def)
    moreover have "u \<in> set (transfer_rows w)" using Cons.prems(2) u by auto
    ultimately have "u \<in> overwrite [?p] ` set (transfer_rows w)" by (metis imageI)
    then show "u \<in> set (transfer_rows ?w)" by simp
  qed
  moreover have "fk_tx (w_db ?w) (tt_tx_id u)" if "u \<in> set ts" for u
    using Cons.prems(4) [of u] that by simp
  ultimately have rest: "pay_transfers V (zip ts fs') ?w = (Inr (paid_from V (w_tick w + 1) (zip ts fs')),
    ?w\<lparr>w_db := set_rows (map (overwrite (paid_from V (w_tick w + 1) (zip ts fs'))) ?rows) (w_db ?w),
      w_tick := w_tick ?w + length ts\<rparr>)"
    using Cons.IH [of ?w fs'] wf Cons.prems(3) fs(2) by simp
  have swap: "w\<lparr>w_tick := n, w_db := d\<rparr> = w\<lparr>w_db := d, w_tick := n\<rparr>" for n d by simp
  have "tt_id ?p \<notin> tt_id ` set (paid_from V (w_tick w + 1) (zip ts fs'))"
    using Cons.prems(3) fs(2) by (simp add: paid_from_id_set)
  then show ?case
    using rest up by (simp add: fs(1) swap bindM_def now_def ask_def Let_def db_run_eq overwrite_Cons comp_def)
qed

text \<open>Paying keeps the transaction of a row, so the rows of the transaction are the paid ones afterwards.\<close>

lemma overwrite_paid_tx:
  assumes "tbl_wf tt_id (d_token_transfer (w_db w))" and "r \<in> set (transfer_rows w)"
    and "set ts \<subseteq> set (transfer_rows w)" and "length fs = length ts"
  shows "tt_tx_id (overwrite (paid_from V n (zip ts fs)) r) = tt_tx_id r"
proof (cases "find (\<lambda>p. tt_id p = tt_id r) (paid_from V n (zip ts fs))")
  case (Some p)
  then have p: "p \<in> set (paid_from V n (zip ts fs))" "tt_id p = tt_id r" by (auto simp: find_Some_iff)
  then obtain u where u: "u \<in> set ts" "tt_id p = tt_id u" "tt_tx_id p = tt_tx_id u"
    using paid_from_tx [OF p(1)] by (auto dest: set_zip_leftD)
  then have "u = r" using row_unique [OF assms(1) _ assms(2), of u] assms(3) p(2) by auto
  with Some u show ?thesis by (simp add: overwrite_def)
qed (simp add: overwrite_def)

lemma filter_map_keep: "(\<And>x. x \<in> set xs \<Longrightarrow> P (f x) = P x) \<Longrightarrow> filter P (map f xs) = map f (filter P xs)"
  by (induction xs) auto

lemma paid_rows:
  assumes "tbl_wf tt_id (d_token_transfer (w_db w))" and "ts = filter (\<lambda>t. tt_tx_id t = Some i) (transfer_rows w)"
    and "length fs = length ts"
  shows "filter (\<lambda>t. tt_tx_id t = Some i) (map (overwrite (paid_from V n (zip ts fs))) (transfer_rows w)) =
      paid_from V n (zip ts fs)"
    and "filter (\<lambda>t. tt_tx_id t \<noteq> Some i) (map (overwrite (paid_from V n (zip ts fs))) (transfer_rows w)) =
      filter (\<lambda>t. tt_tx_id t \<noteq> Some i) (transfer_rows w)"
proof -
  let ?news = "paid_from V n (zip ts fs)"
  have sub: "set ts \<subseteq> set (transfer_rows w)" by (simp add: assms(2))
  note keep = overwrite_paid_tx [OF assms(1) _ sub assms(3)]
  have "distinct (map tt_id ts)" using assms(1,2) by (simp add: tbl_wf_def distinct_map_filter_neq)
  from map_overwrite_paid [OF assms(3) this]
  show "filter (\<lambda>t. tt_tx_id t = Some i) (map (overwrite ?news) (transfer_rows w)) = ?news"
    by (simp add: filter_map_keep keep flip: assms(2))
  have "overwrite ?news r = r" if r: "r \<in> set (transfer_rows w)" "tt_tx_id r \<noteq> Some i" for r
  proof (rule overwrite_other)
    have "tt_id u \<noteq> tt_id r" if "u \<in> set ts" for u
      using that r row_unique [OF assms(1) _ r(1), of u] by (auto simp: assms(2))
    then have "tt_id r \<notin> tt_id ` set ts" by (metis imageE)
    then show "tt_id r \<notin> tt_id ` set ?news" by (simp only: paid_from_id_set [OF assms(3)] not_False_eq_True)
  qed
  then show "filter (\<lambda>t. tt_tx_id t \<noteq> Some i) (map (overwrite ?news) (transfer_rows w)) =
      filter (\<lambda>t. tt_tx_id t \<noteq> Some i) (transfer_rows w)"
    by (subst filter_map_keep) (auto simp: keep intro: map_idI)
qed

lemma forM_events:
  "forM xs (\<lambda>x. send_driver_event V (f x)) w =
    (Inr (), w\<lparr>w_events := w_events w @ (if ev_event_sender V then map f xs else [])\<rparr>)"
  by (induction xs arbitrary: w) (auto simp: bindM_def send_driver_event_def)

lemma transfer_fees_result:
  assumes "t_fee_paid tx = Some fp" and "u256_of_dec (ev_ext V) fp = Some fee" and "0 < n" and "n < 2 ^ 64"
  obtains fees where "transfer_fees V tx n = Inr (map (\<lambda>f. Some (dec_of_u256 (ev_ext V) f)) fees)"
    and "length fees = n" and "sum_list (map unat fees) = unat fee"
proof -
  obtain fees where "distribute_fee fee n = Inr fees" "length fees = n" "sum_list (map unat fees) = unat fee"
    using distribute_fee_result [OF assms(3,4), of fee] by auto
  then show thesis by (intro that) (simp_all add: transfer_fees_def assms(1,2))
qed

lemma confirm_transfers_result:
  assumes "world_ok w" and "t_fee_paid tx = Some fp" and "u256_of_dec (ev_ext V) fp = Some fee"
    and ts: "ts = filter (\<lambda>t. tt_tx_id t = Some (t_id tx)) (transfer_rows w)"
    and "ts \<noteq> []" and "length ts < 2 ^ 64"
  obtains fees where "sum_list (map unat fees) = unat fee" and "length fees = length ts"
    and "confirm_transfers V tx w = (Inr (paid_from V (w_tick w) (zip ts (map (\<lambda>f. Some (dec_of_u256 (ev_ext V) f)) fees))),
      w\<lparr>w_db := update_tx_where (t_id tx) (\<lambda>t. tx_row tx)
           (set_rows (map (overwrite (paid_from V (w_tick w) (zip ts (map (\<lambda>f. Some (dec_of_u256 (ev_ext V) f)) fees))))
              (transfer_rows w)) (w_db w)),
        w_tick := w_tick w + length ts\<rparr>)"
proof -
  obtain fees where fees: "transfer_fees V tx (length ts) = Inr (map (\<lambda>f. Some (dec_of_u256 (ev_ext V) f)) fees)"
    "length fees = length ts" "sum_list (map unat fees) = unat fee"
    by (rule transfer_fees_result [OF assms(2,3) _ assms(6)]) (use assms(5) in auto)
  have wf: "tbl_wf tt_id (d_token_transfer (w_db w))" using assms(1) by (simp add: world_ok_def db_ok_def keys_ok_def)
  have sub: "set ts \<subseteq> set (transfer_rows w)" by (simp add: ts)
  have dist: "distinct (map tt_id ts)" using wf by (simp add: ts tbl_wf_def distinct_map_filter_neq)
  have fk: "fk_tx (w_db w) (tt_tx_id t)" if "t \<in> set ts" for t
    using assms(1) that sub by (auto simp: world_ok_def db_ok_def fk_ok_def fk_tx_iff list_all_iff)
  have get: "db_run (get_token_transfers_by_tx (t_id tx)) w = (Inr ts, w)"
    by (simp add: db_run_eq get_token_transfers_by_tx_def tbl_select_def ts)
  have on: "bindM (db_run (get_token_transfers_by_tx (t_id tx))) f w = f ts w" for f
    by (rule bindM_step) (rule get)
  have pay: "pay_transfers V (zip ts (map (\<lambda>f. Some (dec_of_u256 (ev_ext V) f)) fees)) w =
    (Inr (paid_from V (w_tick w) (zip ts (map (\<lambda>f. Some (dec_of_u256 (ev_ext V) f)) fees))),
      w\<lparr>w_db := set_rows (map (overwrite (paid_from V (w_tick w) (zip ts (map (\<lambda>f. Some (dec_of_u256 (ev_ext V) f)) fees))))
              (transfer_rows w)) (w_db w), w_tick := w_tick w + length ts\<rparr>)"
    by (rule pay_transfers_result [OF wf sub dist fk]) (simp_all add: fees(2))
  have run: "confirm_transfers V tx w = bindM (pay_transfers V (zip ts (map (\<lambda>f. Some (dec_of_u256 (ev_ext V) f)) fees)))
      (\<lambda>paid. bindM (db_run (update_tx tx)) (\<lambda>_. ret paid)) w"
    unfolding confirm_transfers_def by (simp only: on) (simp add: assms(5) fees(1))
  show thesis
    by (rule that [OF fees(3,2)], unfold run) (simp add: bindM_def pay db_run_eq update_tx_def)
qed


text \<open>A mined payment of five wei for two transfers.\<close>

definition mined_tx :: tx_db_obj where
  "mined_tx = (tx_default 0)\<lparr>t_id := 1, t_method := ''MULTI.golemTransfer'', t_processing := 1, t_fee_paid := Some ''11111''\<rparr>"

definition mined_world :: world where
  "mined_world = world_initial\<lparr>w_db := db_empty
     \<lparr>d_tx := \<lparr>tb_rows = [mined_tx], tb_seq = 1\<rparr>,
      d_token_transfer := \<lparr>tb_rows = [(sample_transfer 1 None)\<lparr>tt_tx_id := Some 1\<rparr>, (sample_transfer 2 None)\<lparr>tt_tx_id := Some 1\<rparr>],
        tb_seq = 2\<rparr>\<rparr>\<rparr>"

lemma mined_world_rows:
  "transfer_rows mined_world = [(sample_transfer 1 None)\<lparr>tt_tx_id := Some 1\<rparr>, (sample_transfer 2 None)\<lparr>tt_tx_id := Some 1\<rparr>]"
  "tx_rows mined_world = [mined_tx]" "w_tick mined_world = 0"
  by (simp_all add: mined_world_def world_initial_def)

lemma world_ok_mined: "world_ok mined_world"
  by (simp add: world_ok_def db_ok_def keys_ok_def fk_ok_def mined_world_def db_empty_def tbl_wf_def
      tbl_ids_def tbl_empty_def mined_tx_def)


end
