(* ===== verification/ProcessProofs.thy ===== *)
theory ProcessProofs imports Process begin

text \<open>
  Proofs about the life cycle of a transaction (\<open>Process\<close>): it keeps the database invariant whatever the
  network answers, the guard on the nonce, the fees of a replacement, the cleanup after a confirmation,
  and the behaviour of the search for a receipt.
\<close>

section \<open>Every step keeps the database invariant\<close>

lemma preserves_tx_message [preserves_intro]: "preserves world_ok (tx_message tx m)"
  unfolding tx_message_def by (rule preserves_shared)

lemma preserves_endpoint_failing [preserves_intro]: "preserves I m \<Longrightarrow> preserves I (endpoint_failing m)"
  unfolding endpoint_failing_def
  by (auto intro!: preserves_bindM preserves_catch_err intro: preserves_throw preserves_ret split: sum.split)

lemma preserves_eco_fees [preserves_intro]: "preserves world_ok (eco_fees V m p)"
  unfolding eco_fees_def by (intro preserves_intro)

lemma preserves_highest_nonce [preserves_intro]: "preserves I (get_transaction_highest_nonce c a)"
  unfolding get_transaction_highest_nonce_def by (rule preserves_gets)

lemma preserves_obtain_nonce [preserves_intro]: "preserves world_ok (obtain_nonce V cs a tx)"
  unfolding obtain_nonce_def accept_nonce_def set_fees_def by (intro preserves_intro)

lemma preserves_mark_first_processed [preserves_intro]: "preserves world_ok (mark_first_processed V tx)"
  unfolding mark_first_processed_def Let_def by (intro preserves_intro)

lemma preserves_check_gas [preserves_intro]: "preserves world_ok (check_gas V cs a tx)"
  unfolding check_gas_def by (intro preserves_intro)

lemma preserves_check_and_sign [preserves_intro]: "preserves world_ok (check_and_sign V cs a tx)"
  unfolding check_and_sign_def by (intro preserves_intro)

lemma preserves_broadcast [preserves_intro]: "preserves world_ok (broadcast V cs tx)"
  unfolding broadcast_def Let_def by (intro preserves_intro)

lemma preserves_find_in_chain [preserves_intro]: "preserves world_ok (find_in_chain V tx fuel c)"
proof (induction fuel arbitrary: c)
  case (Suc fuel)
  show ?case unfolding find_in_chain.simps by (intro preserves_intro Suc.IH)
qed (simp add: preserves_throw)

lemma preserves_chain_root [preserves_intro]: "preserves I (chain_root fuel tx)"
proof (induction fuel arbitrary: tx)
  case (Suc fuel)
  show ?case unfolding chain_root.simps by (intro preserves_intro Suc.IH)
qed (simp add: preserves_throw)

lemma preserves_delete_chain [preserves_intro]: "preserves db_ok (delete_chain fuel k tx)"
proof (induction fuel arbitrary: tx)
  case (Suc fuel)
  show ?case unfolding delete_chain.simps by (intro preserves_intro Suc.IH)
qed (simp add: preserves_throw)

lemma preserves_cleanup_chain [preserves_intro]: "preserves db_ok (cleanup_chain tx c r)"
  unfolding cleanup_chain_def Let_def by (intro preserves_intro)

lemma preserves_confirm_tx [preserves_intro]: "preserves world_ok (confirm_tx V e tx c b)"
  unfolding confirm_tx_def Let_def by (intro preserves_intro)

lemma preserves_receipt_missing [preserves_intro]: "preserves world_ok (receipt_missing V S tx)"
  unfolding receipt_missing_def Let_def by (intro preserves_intro)

lemma preserves_check_receipt [preserves_intro]: "preserves world_ok (check_receipt V S cs n tx b)"
  unfolding check_receipt_def Let_def by (intro preserves_intro)

lemma preserves_insert_replacement [preserves_intro]: "preserves world_ok (insert_replacement V tx m p)"
  unfolding insert_replacement_def by (intro preserves_intro)

lemma preserves_ready [preserves_intro]: "preserves world_ok (ready_for_replacement V cs tx)"
  unfolding ready_for_replacement_def by (intro preserves_intro)

lemma preserves_try_replacement [preserves_intro]: "preserves world_ok (try_replacement V cs tx)"
  unfolding try_replacement_def by (intro preserves_intro)

lemma preserves_resend [preserves_intro]: "preserves world_ok (resend V cs tx)"
  unfolding resend_def Let_def by (intro preserves_intro)

lemma preserves_gas_price_warning [preserves_intro]: "preserves world_ok (gas_price_warning V tx b)"
  unfolding gas_price_warning_def Let_def by (intro preserves_intro)

lemma preserves_check_timeout [preserves_intro]: "preserves world_ok (check_timeout V cs tx)"
  unfolding check_timeout_def by (intro preserves_intro)

lemma preserves_finish_round [preserves_intro]: "preserves world_ok (finish_round V cs w tx p)"
  unfolding finish_round_def by (intro preserves_intro)

lemma preserves_confirmation_round [preserves_intro]: "preserves world_ok (confirmation_round V S cs a w n tx)"
  unfolding confirmation_round_def by (intro preserves_intro)

lemma preserves_confirmation_loop [preserves_intro]: "preserves world_ok (confirmation_loop V S cs a w n tx)"
proof (induction n arbitrary: tx)
  case (Suc n)
  show ?case unfolding confirmation_loop.simps by (intro preserves_intro Suc.IH)
qed (simp add: preserves_throw)

lemma preserves_process_transaction [preserves_intro]: "preserves world_ok (process_transaction V S n tx w)"
  unfolding process_transaction_def by (intro preserves_intro)

section \<open>Replacement\<close>

lemma u256_to_gwei_Inr: "u256_to_gwei a = Inr d \<Longrightarrow> d = of_nat (unat a) / 1000000000"
  by (auto simp: u256_to_gwei_def u256_to_rust_dec_def compute_base_def split: if_splits)

lemma gwei_bump: "of_nat a / 1000000000 * 11 \<le> of_nat b / (1000000000 :: rat) * 10 \<Longrightarrow> 11 * a \<le> 10 * b"
proof -
  assume "of_nat a / 1000000000 * 11 \<le> of_nat b / (1000000000 :: rat) * 10"
  then have "(of_nat (11 * a) :: rat) \<le> of_nat (10 * b)" by simp
  then show ?thesis by (simp only: of_nat_le_iff)
qed

lemma replacement_fees_bump:
  assumes "replacement_fees cs tf mf po tp cp = Inr (Some (m, p))"
    and "u256_to_gwei mo = Inr tf" "u256_to_gwei (cs_max_fee_per_gas cs) = Inr mf"
    and "u256_to_gwei po = Inr tp" "u256_to_gwei (cs_priority_fee cs) = Inr cp"
    and "cs_priority_fee cs \<le> cs_max_fee_per_gas cs"
  shows "11 * unat mo \<le> 10 * unat m \<and> 11 * unat po \<le> 10 * unat p \<and> p \<le> m"
proof -
  note g = assms(2-5) [THEN u256_to_gwei_Inr]
  have bump: "tf * 11 \<le> mf * 10"
    using assms(1) by (auto simp: replacement_fees_def Let_def split: if_splits)
  then have max_ok: "11 * unat mo \<le> 10 * unat (cs_max_fee_per_gas cs)"
    unfolding g by (rule gwei_bump)
  show ?thesis
  proof (cases "tp \<noteq> cp \<and> tp * 11 \<le> cp * 10")
    case True
    then have "m = cs_max_fee_per_gas cs" "p = cs_priority_fee cs"
      using assms(1) by (auto simp: replacement_fees_def Let_def split: if_splits)
    moreover have "11 * unat po \<le> 10 * unat (cs_priority_fee cs)"
      using True unfolding g by (intro gwei_bump) simp
    ultimately show ?thesis using max_ok assms(6) by simp
  next
    case False
    then obtain a where a: "u256_mul po 11 = Inr a" and p: "u256_add (a div 10) 1 = Inr p"
      and m: "m = (if p > cs_max_fee_per_gas cs then p else cs_max_fee_per_gas cs)"
      using assms(1) by (auto simp: replacement_fees_def Let_def bindE_Inr_iff split: if_splits)
    have "unat p = unat po * 11 div 10 + 1"
      using u256_mul_Inr [OF a] u256_add_Inr [OF p] by (simp add: unat_div)
    then have "11 * unat po \<le> 10 * unat p" by simp
    moreover have "cs_max_fee_per_gas cs \<le> m" "p \<le> m" using m by auto
    then have "unat (cs_max_fee_per_gas cs) \<le> unat m" by (simp add: word_le_nat_alt)
    ultimately show ?thesis using max_ok \<open>p \<le> m\<close> by linarith
  qed
qed

lemma try_replacement_done:
  assumes "try_replacement V cs tx w = (Inr (tx', Some res), w')"
  obtains ms ps tf mf po tp cp m p w1 where
    "t_max_fee_per_gas tx = Some ms" "t_priority_fee tx = Some ps" "str_to_gwei (ev_ext V) ms = Inr tf"
    "u256_to_gwei (cs_max_fee_per_gas cs) = Inr mf" "str_to_u256 (ev_ext V) ps = Inr po"
    "u256_to_gwei po = Inr tp" "u256_to_gwei (cs_priority_fee cs) = Inr cp"
    "replacement_fees cs tf mf po tp cp = Inr (Some (m, p))"
    "ready_for_replacement V cs tx w = (Inr True, w1)"
    "insert_replacement V tx m p w1 = (Inr (), w')" "res = Replaced" "tx' = tx"
proof -
  obtain ms ps tf mf po tp cp where
    f: "t_max_fee_per_gas tx = Some ms" "t_priority_fee tx = Some ps" "str_to_gwei (ev_ext V) ms = Inr tf"
      "u256_to_gwei (cs_max_fee_per_gas cs) = Inr mf" "str_to_u256 (ev_ext V) ps = Inr po"
      "u256_to_gwei po = Inr tp" "u256_to_gwei (cs_priority_fee cs) = Inr cp"
    and rest: "bindM (ready_for_replacement V cs tx) (\<lambda>ready.
       if \<not> ready then ret (tx, None)
       else bindM (liftR (replacement_fees cs tf mf po tp cp)) (\<lambda>r. case r of
          None \<Rightarrow> ret (tx, None)
        | Some (max_fee, prio) \<Rightarrow> bindM (insert_replacement V tx max_fee prio) (\<lambda>_. ret (tx, Some Replaced)))) w =
      (Inr (tx', Some res), w')"
    using assms unfolding try_replacement_def by (simp only: monad_simps) blast
  obtain ready w1 where r: "ready_for_replacement V cs tx w = (Inr ready, w1)"
    and rest2: "(if \<not> ready then ret (tx, None)
       else bindM (liftR (replacement_fees cs tf mf po tp cp)) (\<lambda>r. case r of
          None \<Rightarrow> ret (tx, None)
        | Some (max_fee, prio) \<Rightarrow> bindM (insert_replacement V tx max_fee prio) (\<lambda>_. ret (tx, Some Replaced)))) w1 =
      (Inr (tx', Some res), w')"
    using rest by (rule bindM_InrD)
  have ready using rest2 by (cases ready) simp_all
  then obtain x where x: "replacement_fees cs tf mf po tp cp = Inr x"
    and rest3: "(case x of None \<Rightarrow> ret (tx, None)
        | Some (max_fee, prio) \<Rightarrow> bindM (insert_replacement V tx max_fee prio) (\<lambda>_. ret (tx, Some Replaced))) w1 =
      (Inr (tx', Some res), w')"
    using rest2 by (auto simp: monad_simps)
  obtain m p where "x = Some (m, p)" using rest3 by (cases x) auto
  with rest3 have "insert_replacement V tx m p w1 = (Inr (), w')" "res = Replaced" "tx' = tx"
    by (auto simp: monad_simps)
  with f r x \<open>ready\<close> \<open>x = Some (m, p)\<close> that show thesis by simp
qed

definition replaces :: "externals \<Rightarrow> tx_db_obj \<Rightarrow> tx_db_obj \<Rightarrow> bool" where
  "replaces E tx new \<longleftrightarrow> t_orig_tx_id new = Some (t_id tx) \<and> t_nonce new = t_nonce tx \<and>
     t_method new = t_method tx \<and> t_from_addr new = t_from_addr tx \<and> t_to_addr new = t_to_addr tx \<and>
     t_chain_id new = t_chain_id tx \<and> t_val new = t_val tx \<and> t_call_data new = t_call_data tx \<and>
     t_gas_limit new = t_gas_limit tx \<and> t_processing new = t_processing tx \<and>
     t_signed_raw_data new = None \<and> t_broadcast_date new = None"

text \<open>C10. A transaction is replaced by a new row with the same nonce and the same payload, and with a
  maximum fee and a priority fee that are both at least ten percent above the old ones (what nodes ask of
  a replacement), the priority fee not above the maximum fee; the old row is taken out of processing in
  the same database transaction and nothing else changes in the table.\<close>

theorem replacement_pays_more:
  assumes "try_replacement V cs tx w = (Inr (tx', Some res), w')"
    and "world_ok w" and "t_id tx \<in> tbl_ids t_id (d_tx (w_db w))"
    and "cs_priority_fee cs \<le> cs_max_fee_per_gas cs"
  shows "res = Replaced \<and> tx' = tx \<and> (\<exists>new mo po m p.
    tb_rows (d_tx (w_db w')) =
      map (\<lambda>t. if t_id t = t_id tx then tx_row (tx\<lparr>t_processing := 0\<rparr>) else t) (tb_rows (d_tx (w_db w))) @ [new] \<and>
    t_id new \<notin> tbl_ids t_id (d_tx (w_db w)) \<and> replaces (ev_ext V) tx new \<and>
    Option.bind (t_max_fee_per_gas tx) (u256_of_dec (ev_ext V)) = Some mo \<and>
    Option.bind (t_priority_fee tx) (u256_of_dec (ev_ext V)) = Some po \<and>
    t_max_fee_per_gas new = Some (dec_of_u256 (ev_ext V) m) \<and> t_priority_fee new = Some (dec_of_u256 (ev_ext V) p) \<and>
    11 * unat mo \<le> 10 * unat m \<and> 11 * unat po \<le> 10 * unat p \<and> p \<le> m)"
proof -
  obtain ms ps tf mf po tp cp m p w1 where
    f: "t_max_fee_per_gas tx = Some ms" "t_priority_fee tx = Some ps" "str_to_gwei (ev_ext V) ms = Inr tf"
      "u256_to_gwei (cs_max_fee_per_gas cs) = Inr mf" "str_to_u256 (ev_ext V) ps = Inr po"
      "u256_to_gwei po = Inr tp" "u256_to_gwei (cs_priority_fee cs) = Inr cp"
      "replacement_fees cs tf mf po tp cp = Inr (Some (m, p))"
    and ready: "ready_for_replacement V cs tx w = (Inr True, w1)"
    and ins: "insert_replacement V tx m p w1 = (Inr (), w')" and res: "res = Replaced" "tx' = tx"
    by (rule try_replacement_done [OF assms(1)])
  have "asks (ready_for_replacement V cs tx)"
    unfolding ready_for_replacement_def by (intro asks_intro)
  with ready obtain n where "w1 = w\<lparr>w_tick := n\<rparr>" using asksD by blast
  then have db1: "w_db w1 = w_db w" by simp
  obtain mo where mo: "u256_of_dec (ev_ext V) ms = Some mo" "u256_to_gwei mo = Inr tf"
    using f(3) by (auto simp: str_to_gwei_def str_to_u256_def split: option.splits sum.splits)
  have po: "u256_of_dec (ev_ext V) ps = Some po"
    using f(5) by (auto simp: str_to_u256_def split: option.splits)
  let ?t = "d_tx (w_db w)"
  obtain date where date: "tb_rows (d_tx (w_db w')) =
      map (\<lambda>t. if t_id t = t_id tx then tx_row (tx\<lparr>t_processing := 0\<rparr>) else t)
        (tb_rows ?t @ [set_t_id (tb_seq ?t + 1) (tx_row (replacement_tx V date tx m p))])"
    using ins db1
    by (auto simp: insert_replacement_def bindM_eq_Inr_iff now_def ask_def db_transaction_done sqlx_Inr_iff
        insert_tx_def tbl_insert_def Let_def update_tx_def update_tx_where_def tbl_update_where_def
        prog_defs(5) ret_def cong: if_cong)
  let ?new = "set_t_id (tb_seq ?t + 1) (tx_row (replacement_tx V date tx m p))"
  have fresh: "t_id ?new \<notin> tbl_ids t_id ?t"
    using assms(2) by (force simp: set_t_id_def world_ok_def db_ok_def keys_ok_def tbl_wf_def list_all_iff tbl_ids_def)
  then have "t_id ?new \<noteq> t_id tx" using assms(3) by auto
  then have rows: "tb_rows (d_tx (w_db w')) =
      map (\<lambda>t. if t_id t = t_id tx then tx_row (tx\<lparr>t_processing := 0\<rparr>) else t) (tb_rows ?t) @ [?new]"
    using date by simp
  have new: "replaces (ev_ext V) tx ?new" "t_max_fee_per_gas ?new = Some (dec_of_u256 (ev_ext V) m)"
    "t_priority_fee ?new = Some (dec_of_u256 (ev_ext V) p)"
    by (simp_all add: replaces_def replacement_tx_def set_t_id_def tx_row_def tx_default_def)
  have "11 * unat mo \<le> 10 * unat m \<and> 11 * unat po \<le> 10 * unat p \<and> p \<le> m"
    using replacement_fees_bump [OF f(8) mo(2) f(4,6,7) assms(4)] .
  moreover have "Option.bind (t_max_fee_per_gas tx) (u256_of_dec (ev_ext V)) = Some mo"
    "Option.bind (t_priority_fee tx) (u256_of_dec (ev_ext V)) = Some po"
    using f(1,2) mo(1) po by simp_all
  ultimately show ?thesis using res rows fresh new by blast
qed

text \<open>A transaction that was sent with fees far below the configured ones.\<close>

definition stuck_tx :: tx_db_obj where
  "stuck_tx = (tx_default 0)\<lparr>t_id := 1, t_from_addr := ''a'', t_to_addr := ''aa'', t_chain_id := 5, t_nonce := Some 4,
     t_max_fee_per_gas := Some ''111'', t_priority_fee := Some ''1'', t_first_processed := Some 0\<rparr>"

definition stuck_world :: world where
  "stuck_world = world_initial\<lparr>w_db := db_empty\<lparr>d_tx := \<lparr>tb_rows = [stuck_tx], tb_seq = 1\<rparr>\<rparr>\<rparr>"

lemma world_ok_stuck: "world_ok stuck_world"
  using db_ok_empty
  by (simp add: stuck_world_def world_ok_def db_ok_def keys_ok_def fk_ok_def db_empty_def tbl_wf_def
      tbl_empty_def stuck_tx_def)

lemma stuck_replaced:
  "\<exists>w'. try_replacement quiet_env sample_chain stuck_tx stuck_world = (Inr (stuck_tx, Some Replaced), w')"
proof -
  have g: "u256_to_gwei 3 = Inr (3 / 1000000000)" "u256_to_gwei 20 = Inr (20 / 1000000000)"
    "u256_to_gwei 1 = Inr (1 / 1000000000)" "u256_to_gwei 2 = Inr (2 / 1000000000)"
    by (simp_all add: u256_to_gwei_def u256_to_rust_dec_def compute_base_def max_rust_decimal_def)
  have "replacement_fees sample_chain (3 / 1000000000) (20 / 1000000000) 1 (1 / 1000000000) (2 / 1000000000) = Inr (Some (20, 2))"
    by (simp add: replacement_fees_def sample_chain_def)
  then show ?thesis
    by (simp add: try_replacement_def stuck_tx_def quiet_env_def unary_def str_to_gwei_def str_to_u256_def g
        sample_chain_def ready_for_replacement_def insert_replacement_def now_def ask_def bindM_def
        db_transaction_eq sqlx_def insert_tx_def tbl_insert_def Let_def update_tx_def prog_defs(5) ret_def)
qed

theorem replacement_pays_more_witness:
  "\<exists>w' new. try_replacement quiet_env sample_chain stuck_tx stuck_world = (Inr (stuck_tx, Some Replaced), w') \<and>
     tb_rows (d_tx (w_db w')) = [stuck_tx\<lparr>t_processing := 0\<rparr>, new] \<and> t_nonce new = Some 4"
proof -
  obtain w' where w': "try_replacement quiet_env sample_chain stuck_tx stuck_world = (Inr (stuck_tx, Some Replaced), w')"
    using stuck_replaced by blast
  have "t_id stuck_tx \<in> tbl_ids t_id (d_tx (w_db stuck_world))" "cs_priority_fee sample_chain \<le> cs_max_fee_per_gas sample_chain"
    by (simp_all add: stuck_world_def tbl_ids_def sample_chain_def)
  from replacement_pays_more [OF w' world_ok_stuck this] obtain new where
    rows: "tb_rows (d_tx (w_db w')) =
      map (\<lambda>t. if t_id t = t_id stuck_tx then tx_row (stuck_tx\<lparr>t_processing := 0\<rparr>) else t)
        (tb_rows (d_tx (w_db stuck_world))) @ [new]" and "replaces (ev_ext quiet_env) stuck_tx new"
    by blast
  moreover have "tb_rows (d_tx (w_db stuck_world)) = [stuck_tx]" by (simp add: stuck_world_def)
  moreover have "tx_row (stuck_tx\<lparr>t_processing := 0\<rparr>) = stuck_tx\<lparr>t_processing := 0\<rparr>"
    by (simp add: tx_row_def stuck_tx_def tx_default_def)
  moreover have "t_nonce stuck_tx = Some 4" by (simp add: stuck_tx_def)
  ultimately have "tb_rows (d_tx (w_db w')) = [stuck_tx\<lparr>t_processing := 0\<rparr>, new]" "t_nonce new = Some 4"
    by (simp_all add: replaces_def)
  with w' show ?thesis by blast
qed

section \<open>The nonce\<close>

definition used_nonces :: "db \<Rightarrow> i64 \<Rightarrow> string \<Rightarrow> i64 set" where
  "used_nonces d chain_id from_addr = {n. \<exists>t\<in>set (tb_rows (d_tx d)). t_confirm_date t \<noteq> None \<and>
     t_chain_id t = chain_id \<and> t_from_addr t = from_addr \<and> t_nonce t = Some n}"

lemma highest_nonce_bound:
  assumes "get_transaction_highest_nonce c a d = (Inr h, d')" and "n \<in> used_nonces d c a"
  shows "\<exists>m. h = Some m \<and> n \<le> m"
proof -
  let ?xs = "List.map_filter t_nonce (tbl_select (\<lambda>t. t_confirm_date t \<noteq> None \<and> t_chain_id t = c \<and> t_from_addr t = a) (d_tx d))"
  have "n \<in> set ?xs"
    using assms(2) by (force simp: used_nonces_def map_filter_def tbl_select_def)
  then have "sql_max ?xs = Some (Max (set ?xs))" "n \<le> Max (set ?xs)"
    by (auto simp: sql_max_def)
  then show ?thesis using assms(1) by (auto simp: get_transaction_highest_nonce_def)
qed

lemma asks_set_fees: "asks (set_fees V cs tx n)"
  unfolding set_fees_def eco_fees_def by (intro asks_intro)

lemma endpoint_failing_done:
  "endpoint_failing m w = (Inr a, w') \<longleftrightarrow> m w = (Inr a, w')"
  by (auto simp: endpoint_failing_def catch_err_def bindM_def split: prod.splits sum.splits failure.splits)

text \<open>C11. A transaction that gets its nonce from the chain gets one above every nonce the database knows
  to be used by a confirmed transaction of the same account on the same chain; when the node reports
  a lower count the attempt fails, and in either case no table changes.\<close>

theorem nonce_above_confirmed:
  assumes "t_nonce tx = None" and "obtain_nonce V cs from_addr tx w = (Inr tx', w')"
  shows "\<exists>nonce. t_nonce tx' = Some nonce \<and> used_nonces (w_db w) (t_chain_id tx) (t_from_addr tx) \<subseteq> {..<nonce} \<and>
    (\<exists>k n. ev_transaction_count V k from_addr False = Inr n \<and> nonce = as_i64 (of_nat (unat n))) \<and> w_db w' = w_db w"
proof -
  note run = assms(2) [unfolded obtain_nonce_def assms(1) option.case]
  obtain u w1 where msg: "tx_message tx ''Obtaining transaction nonce'' w = (Inr u, w1)"
    and run1: "bindM (endpoint_failing (get_transaction_count_rpc V from_addr False))
       (\<lambda>n. accept_nonce V cs tx (as_i64 (of_nat n))) w1 = (Inr tx', w')"
    by (rule bindM_InrD [OF run])
  obtain n w2 where "endpoint_failing (get_transaction_count_rpc V from_addr False) w1 = (Inr n, w2)"
    and rest: "accept_nonce V cs tx (as_i64 (of_nat n)) w2 = (Inr tx', w')"
    by (rule bindM_InrD [OF run1])
  then have n: "get_transaction_count_rpc V from_addr False w1 = (Inr n, w2)"
    by (simp add: endpoint_failing_done)
  have w1: "w1 = w\<lparr>w_shared := w_shared w1\<rparr>"
    using msg by (auto simp: tx_message_def shared_def)
  obtain k where w2: "w2 = w1\<lparr>w_tick := k\<rparr>" using asksD [OF asks_get_transaction_count_rpc n] by blast
  have db2: "w_db w2 = w_db w" by (subst w2, subst w1) simp
  obtain h where h: "get_transaction_highest_nonce (t_chain_id tx) (t_from_addr tx) (w_db w) = (Inr h, w_db w)"
    by (simp add: get_transaction_highest_nonce_def)
  have same: "w2\<lparr>w_db := w_db w\<rparr> = w2" by (simp flip: db2)
  have allowed: "nonce_allowed (as_i64 (of_nat n)) h"
    and priced: "set_fees V cs tx (as_i64 (of_nat n)) w2 = (Inr tx', w')"
    using rest h db2 same by (auto simp: accept_nonce_def bindM_def db_run_eq split: if_splits)
  have "t_nonce tx' = Some (as_i64 (of_nat n))"
    using priced by (auto simp: set_fees_def monad_simps)
  moreover have "w_db w' = w_db w"
    using asksD [OF asks_set_fees priced] db2 by auto
  moreover have "used_nonces (w_db w) (t_chain_id tx) (t_from_addr tx) \<subseteq> {..<as_i64 (of_nat n)}"
    using highest_nonce_bound [OF h] allowed by (force simp: nonce_allowed_def)
  moreover obtain m where "ev_transaction_count V (w_tick w1) from_addr False = Inr m" "n = unat m"
    using n by (auto simp: get_transaction_count_rpc_def rpc_def ask_def bindM_def as_u64_def split: sum.splits if_splits)
  ultimately show ?thesis by blast
qed

theorem nonce_above_confirmed_witness:
  "\<exists>tx' w'. obtain_nonce quiet_env sample_chain 1 (tx_default 0) world_initial = (Inr tx', w') \<and>
     t_nonce tx' = Some 0 \<and> w_db w' = db_empty"
proof -
  have "\<exists>tx' w'. obtain_nonce quiet_env sample_chain 1 (tx_default 0) world_initial = (Inr tx', w')"
    by (simp add: obtain_nonce_def accept_nonce_def set_fees_def tx_message_def shared_def endpoint_failing_def
        catch_err_def get_transaction_count_rpc_def rpc_def ask_def bindM_def as_u64_def db_run_eq
        get_transaction_highest_nonce_def tbl_select_def sql_max_def nonce_allowed_def fee_or_def
        polygon_eco_mode_def sample_chain_def quiet_env_def world_initial_def db_empty_def tbl_empty_def
        map_filter_def tx_default_def prog_defs(5) ret_def)
  then obtain tx' w' where run: "obtain_nonce quiet_env sample_chain 1 (tx_default 0) world_initial = (Inr tx', w')"
    by blast
  have "t_nonce (tx_default 0) = None" by (simp add: tx_default_def)
  from nonce_above_confirmed [OF this run] obtain n where "t_nonce tx' = Some (as_i64 (of_nat (unat n)))"
    "ev_transaction_count quiet_env k 1 False = Inr n" "w_db w' = w_db world_initial" for k
    by (auto simp: quiet_env_def)
  with run show ?thesis by (auto simp: quiet_env_def as_i64_def world_initial_def)
qed

section \<open>Cleaning up after a confirmation\<close>

lemma is_chain_tl: "is_chain (t # u # ts) \<Longrightarrow> is_chain (u # ts)"
  by simp

lemma get_transaction_row:
  "tbl_wf t_id (d_tx d) \<Longrightarrow> t \<in> set (tb_rows (d_tx d)) \<Longrightarrow> get_transaction (t_id t) d = (Inr t, d)"
  by (simp add: get_transaction_Inr txs.find_in_rows)

lemma chain_root_result:
  assumes "tbl_wf t_id (d_tx d)" and "set xs \<subseteq> set (tb_rows (d_tx d))" and "is_chain (x # xs)" and "length xs < fuel"
  shows "\<exists>r. chain_root fuel x d = (Inr r, d) \<and> t_id r = t_id (last (x # xs))"
  using assms(2-)
proof (induction xs arbitrary: x fuel)
  case Nil
  then show ?case by (cases fuel) auto
next
  case (Cons y ys)
  then obtain f where fuel: "fuel = Suc f" by (cases fuel) auto
  have "get_transaction (t_id y) d = (Inr y, d)"
    using Cons.prems(1) assms(1) by (intro get_transaction_row) auto
  moreover obtain r where "chain_root f y d = (Inr r, d)" "t_id r = t_id (last (y # ys))"
    using Cons.IH [of y f] Cons.prems fuel by auto
  ultimately show ?case using Cons.prems(2) by (auto simp: fuel bindM_def sqlx_def)
qed

definition deleted :: "i64 set \<Rightarrow> db \<Rightarrow> db" where
  "deleted S d = d\<lparr>d_tx := tbl_delete_where (\<lambda>t. t_id t \<in> S) (d_tx d)\<rparr>"

lemma deleted_empty [simp]: "deleted {} d = d"
  by (simp add: deleted_def tbl_delete_where_def)

lemma deleted_comp: "deleted S (deleted T d) = deleted (T \<union> S) d"
proof -
  have "filter (\<lambda>t. t_id t \<notin> S) (filter (\<lambda>t. t_id t \<notin> T) xs) = filter (\<lambda>t. t_id t \<notin> T \<union> S) xs" for xs
    by (induction xs) auto
  then show ?thesis by (simp add: deleted_def tbl_delete_where_def)
qed

text \<open>The transactions some transfer or allowance refers to.\<close>

definition referenced :: "db \<Rightarrow> i64 set" where
  "referenced d = (\<Union>t\<in>set (tb_rows (d_token_transfer d)). set_option (tt_tx_id t)) \<union>
     (\<Union>a\<in>set (tb_rows (d_allowance d)). set_option (al_tx_id a))"

lemma delete_tx_unreferenced:
  assumes "i \<notin> referenced d"
  shows "delete_tx i d = (Inr (), deleted {i} d)"
proof -
  have "\<not> list_ex (\<lambda>r. tt_tx_id r = Some i) (tb_rows (d_token_transfer d))"
    "\<not> list_ex (\<lambda>r. al_tx_id r = Some i) (tb_rows (d_allowance d))"
    using assms by (auto simp: referenced_def list_ex_iff)
  then show ?thesis by (simp add: delete_tx_def constrained_def deleted_def)
qed

lemma referenced_deleted [simp]: "referenced (deleted S d) = referenced d"
  by (simp add: referenced_def deleted_def)

lemma delete_chain_result:
  assumes "tbl_wf t_id (d_tx d)" and "set xs \<subseteq> set (tb_rows (d_tx d))" and "is_chain (x # xs)"
    and "distinct (map t_id (x # xs))" and "length xs < fuel"
    and "referenced d \<inter> (t_id ` set (x # xs) - {kept}) = {}"
  shows "delete_chain fuel kept x d = (Inr (), deleted (t_id ` set (x # xs) - {kept}) d)"
  using assms
proof (induction xs arbitrary: x fuel d)
  case Nil
  then obtain f where "fuel = Suc f" by (cases fuel) auto
  with Nil show ?case
    by (auto simp: bindM_def sqlx_def whenM_def delete_tx_unreferenced)
next
  case (Cons y ys)
  then obtain f where fuel: "fuel = Suc f" by (cases fuel) auto
  let ?d = "deleted ({t_id x} - {kept}) d"
  have first: "whenM (t_id x \<noteq> kept) (sqlx (delete_tx (t_id x))) d = (Inr (), ?d)"
  proof (cases "t_id x = kept")
    case False
    then have "t_id x \<notin> referenced d" using Cons.prems(6) by auto
    with False show ?thesis by (simp add: sqlx_def delete_tx_unreferenced)
  qed simp
  have step: "delete_chain fuel kept x d = (case t_orig_tx_id x of
      Some next_tx \<Rightarrow> bindM (sqlx (get_transaction next_tx)) (delete_chain f kept) | None \<Rightarrow> ret ()) ?d"
    by (simp only: fuel delete_chain.simps bindM_def first prod.case sum.case)
  have wf: "tbl_wf t_id (d_tx ?d)"
    using Cons.prems(1) by (simp add: deleted_def txs.wf_delete)
  have rows: "set (y # ys) \<subseteq> set (tb_rows (d_tx ?d))"
  proof
    fix t assume t: "t \<in> set (y # ys)"
    then have "t_id t \<in> t_id ` set (y # ys)" by (rule imageI)
    moreover have "t_id x \<notin> t_id ` set (y # ys)" using Cons.prems(4) by (simp only: list.map distinct.simps set_map) simp
    ultimately have "t_id t \<noteq> t_id x" by metis
    with t show "t \<in> set (tb_rows (d_tx ?d))"
      using Cons.prems(2) by (auto simp: deleted_def tbl_delete_where_def)
  qed
  have "delete_chain f kept y ?d = (Inr (), deleted (t_id ` set (y # ys) - {kept}) ?d)"
    using Cons.prems fuel wf rows by (intro Cons.IH) auto
  moreover have "get_transaction (t_id y) ?d = (Inr y, ?d)"
    using rows by (intro get_transaction_row wf) auto
  moreover have "{t_id x} - {kept} \<union> (t_id ` set (y # ys) - {kept}) = t_id ` set (x # y # ys) - {kept}" by auto
  ultimately show ?case
    using Cons.prems(3) step by (simp add: bindM_def sqlx_def deleted_comp)
qed

text \<open>Moving every reference from one transaction to another.\<close>

definition remapped :: "i64 \<Rightarrow> i64 \<Rightarrow> db \<Rightarrow> db" where
  "remapped i j d = update_tt_where (\<lambda>t. tt_tx_id t = Some i) (\<lambda>t. t\<lparr>tt_tx_id := Some j\<rparr>)
     (update_al_where (\<lambda>a. al_tx_id a = Some i) (\<lambda>a. a\<lparr>al_tx_id := Some j\<rparr>) d)"

lemma remapped_same: "remapped i i d = d"
proof -
  have t: "map (\<lambda>t. if tt_tx_id t = Some i then t\<lparr>tt_tx_id := Some i\<rparr> else t) xs = xs" for xs
    by (rule map_idI) auto
  have a: "map (\<lambda>a. if al_tx_id a = Some i then a\<lparr>al_tx_id := Some i\<rparr> else a) xs = xs" for xs
    by (rule map_idI) auto
  show ?thesis
    by (simp add: remapped_def update_tt_where_def update_al_where_def tbl_update_where_def t a)
qed

lemma remapped_tx [simp]: "d_tx (remapped i j d) = d_tx d"
  by (simp add: remapped_def update_tt_where_def update_al_where_def)

lemma referenced_remapped: "referenced (remapped i j d) \<subseteq> referenced d - {i} \<union> {j}"
  by (auto simp: referenced_def remapped_def update_tt_where_def update_al_where_def tbl_update_where_def
      split: if_splits)

lemma remap_run:
  assumes "list_ex (\<lambda>t. t_id t = j) (tb_rows (d_tx d))"
  shows "whenM (i \<noteq> j) (bindM (sqlx (remap_allowance_tx i j)) (\<lambda>_. sqlx (remap_token_transfer_tx i j))) d =
    (Inr (), remapped i j d)"
proof (cases "i = j")
  case False
  have "fk_tx d (Some j)" and "fk_tx (update_al_where P f d) (Some j)" for P f
    using assms by (simp_all add: fk_tx_def update_al_where_def)
  with False show ?thesis
    by (simp add: bindM_def sqlx_def remap_allowance_tx_def remap_token_transfer_tx_def constrained_def remapped_def)
qed (simp add: remapped_same)

lemma chain_descends:
  assumes "chain_ordered d" and "is_chain (x # xs)" and "set (x # xs) \<subseteq> set (tb_rows (d_tx d))"
  shows "\<forall>y\<in>set xs. t_id y < t_id x" and "distinct (map t_id (x # xs))"
proof -
  have "(\<forall>y\<in>set xs. t_id y < t_id x) \<and> distinct (map t_id (x # xs))"
    using assms(2,3)
  proof (induction xs arbitrary: x)
    case (Cons z zs)
    have "t_id z < t_id x"
      using assms(1) Cons.prems by (auto simp: chain_ordered_def list_all_iff)
    with Cons show ?case by fastforce
  qed simp
  then show "\<forall>y\<in>set xs. t_id y < t_id x" and "distinct (map t_id (x # xs))" by auto
qed

lemma is_chain_cong:
  "is_chain (c # qs) \<Longrightarrow> t_orig_tx_id c' = t_orig_tx_id c \<Longrightarrow> is_chain (c' # qs)"
  by (cases qs) auto

lemma is_chain_append: "is_chain (ps @ c # qs) \<Longrightarrow> is_chain (c # qs)"
  by (induction ps rule: is_chain.induct) (auto elim: is_chain.elims)

lemma chain_rows_fuel:
  assumes "distinct (map t_id (x # xs))" and "set (x # xs) \<subseteq> set (tb_rows (d_tx d))"
  shows "length xs < walk_fuel d"
proof -
  have "distinct (x # xs)" using assms(1) by (rule distinct_map [THEN iffD1, THEN conjunct1])
  then have "length (x # xs) = card (set (x # xs))" by (rule distinct_card [symmetric])
  also have "\<dots> \<le> card (set (tb_rows (d_tx d)))" using assms(2) by (intro card_mono) auto
  also have "\<dots> \<le> length (tb_rows (d_tx d))" by (rule card_length)
  finally show ?thesis by (simp add: walk_fuel_def)
qed

lemma cleanup_chain_result:
  assumes "tbl_wf t_id (d_tx d)" and "distinct (map t_id (x # xs))" and "is_chain (x # xs)"
    and "set (x # xs) \<subseteq> set (tb_rows (d_tx d))" and "t_id tx = t_id x" and "t_orig_tx_id tx = t_orig_tx_id x"
    and "t_id cur \<in> t_id ` set (x # xs)" and "t_id orig_tx = t_id (last (x # xs))"
    and "referenced d \<inter> t_id ` set (butlast (x # xs)) = {}"
  shows "cleanup_chain tx cur orig_tx d = (Inr (cur\<lparr>t_orig_tx_id := None, t_signed_raw_data := None\<rparr>),
    update_tx_where (t_id cur) (\<lambda>_. tx_row (cur\<lparr>t_orig_tx_id := None, t_signed_raw_data := None\<rparr>))
      (deleted (t_id ` set (x # xs) - {t_id cur}) (remapped (t_id (last (x # xs))) (t_id cur) d)))"
proof -
  let ?r = "t_id (last (x # xs))" and ?ids = "t_id ` set (x # xs)"
  let ?d = "remapped ?r (t_id cur) d"
  note dist = assms(2)
  have "list_ex (\<lambda>t. t_id t = t_id cur) (tb_rows (d_tx d))"
    using assms(4,7) by (fastforce simp: list_ex_iff)
  then have remap: "whenM (?r \<noteq> t_id cur) (bindM (sqlx (remap_allowance_tx ?r (t_id cur)))
      (\<lambda>_. sqlx (remap_token_transfer_tx ?r (t_id cur)))) d = (Inr (), ?d)" by (rule remap_run)
  have "set (x # xs) = set (butlast (x # xs)) \<union> {last (x # xs)}"
    by (subst append_butlast_last_id [of "x # xs", symmetric]) (simp_all only: set_append list.set, simp_all)
  then have ids: "?ids = t_id ` set (butlast (x # xs)) \<union> {?r}" by (metis image_Un image_insert image_empty)
  have sets: "R' \<inter> (I - {c}) = {}" if "R' \<subseteq> R - {r} \<union> {c}" "R \<inter> B = {}" "I = B \<union> {r}" for R' R B I :: "i64 set" and r c
    using that by blast
  have same: "t_id ` set (tx # xs) = ?ids" using assms(5) by simp
  have free: "referenced ?d \<inter> (t_id ` set (tx # xs) - {t_id cur}) = {}"
    unfolding same by (rule sets [OF referenced_remapped assms(9) ids])
  have del: "delete_chain (walk_fuel ?d) (t_id cur) tx ?d =
      (Inr (), deleted (t_id ` set (tx # xs) - {t_id cur}) ?d)"
  proof (rule delete_chain_result)
    show "length xs < walk_fuel ?d" using chain_rows_fuel [OF dist assms(4)] by (simp add: walk_fuel_def)
    show "is_chain (tx # xs)" using assms(3,6) by (rule is_chain_cong)
  qed (use assms dist free in auto)
  from remap del same show ?thesis
    by (simp only: cleanup_chain_def assms(8) bindM_def gets_apply prod.case sum.case Let_def)
      (simp add: sqlx_def update_tx_def bindM_def)
qed

end
