(* ===== verification/ConfirmProofs.thy ===== *)
theory ConfirmProofs imports ProcessProofs begin

text \<open>
  The search for a receipt and what a confirmation does (\<open>find_receipt\<close> of \<open>transaction.rs\<close> and the first
  half of a round of \<open>process.rs\<close>), and the gas check before a transaction is signed.
\<close>

section \<open>Confirmation\<close>

lemma chain_of_db:
  assumes "get_transaction_chain n i d = Some (Inr ts)"
  obtains x xs where "ts = x # xs" "t_id x = i" "is_chain (x # xs)" "set (x # xs) \<subseteq> set (tb_rows (d_tx d))"
proof -
  note r = get_transaction_chain_result [OF assms]
  then obtain x xs where "ts = x # xs" by (cases ts) auto
  with r that show thesis by auto
qed

lemma confirm_tx_result:
  assumes "world_ok w" and "is_chain (x # xs)" and "set (x # xs) \<subseteq> set (tb_rows (d_tx (w_db w)))"
    and "distinct (map t_id (x # xs))" and "t_id x = t_id tx" and "t_orig_tx_id tx = t_orig_tx_id x"
    and "c \<in> set (x # xs)" and "t_id cur = t_id c" and "t_orig_tx_id cur = t_orig_tx_id c"
    and "referenced (w_db w) \<inter> t_id ` set (butlast (x # xs)) = {}"
  shows "\<exists>cur' w'. confirm_tx V eco tx cur b w = (Inr (cur', Some Confirmed), w') \<and> world_ok w' \<and>
    cur' = cur\<lparr>t_confirm_date := Some (ev_now V (w_tick w)), t_orig_tx_id := None, t_signed_raw_data := None\<rparr> \<and>
    w_db w' = update_tx_where (t_id c) (\<lambda>_. tx_row cur')
      (deleted (t_id ` set (x # xs) - {t_id c}) (remapped (t_id (last (x # xs))) (t_id c) (w_db w)))"
proof -
  let ?d = "w_db w"
  let ?cur1 = "cur\<lparr>t_confirm_date := Some (ev_now V (w_tick w))\<rparr>"
  note dist = assms(4)
  have wf: "tbl_wf t_id (d_tx ?d)" using assms(1) by (simp add: world_ok_def db_ok_def keys_ok_def)
  obtain ps qs where split: "x # xs = ps @ c # qs" using assms(7) by (meson split_list)
  have "is_chain (c # qs)" using assms(2) unfolding split by (rule is_chain_append)
  then have chain: "is_chain (?cur1 # qs)" by (rule is_chain_cong) (simp add: assms(9))
  have "distinct (map t_id (c # qs))" and "set (c # qs) \<subseteq> set (tb_rows (d_tx ?d))"
    using dist assms(3) unfolding split by auto
  then have "length qs < walk_fuel ?d" by (rule chain_rows_fuel)
  moreover have "set qs \<subseteq> set (tb_rows (d_tx ?d))" using \<open>set (c # qs) \<subseteq> _\<close> by auto
  ultimately obtain r where root: "chain_root (walk_fuel ?d) ?cur1 ?d = (Inr r, ?d)"
    and "t_id r = t_id (last (?cur1 # qs))"
    using chain_root_result [OF wf _ chain] by blast
  moreover have "last (x # xs) = last (c # qs)" unfolding split by simp
  ultimately have r: "t_id r = t_id (last (x # xs))" using assms(8) by auto
  define w1 where "w1 = (if eco then w\<lparr>w_tick := w_tick w + 2\<rparr> else w\<lparr>w_tick := w_tick w + 1\<rparr>)"
  have w1: "w_db w1 = ?d" and same: "w1\<lparr>w_db := ?d\<rparr> = w1" by (simp_all add: w1_def)
  have "t_id ?cur1 \<in> t_id ` set (x # xs)" using assms(7,8) by auto
  from cleanup_chain_result [OF wf dist assms(2,3) assms(5) [symmetric] _ this r]
  have clean: "cleanup_chain tx ?cur1 r ?d = (Inr (?cur1\<lparr>t_orig_tx_id := None, t_signed_raw_data := None\<rparr>),
    update_tx_where (t_id c) (\<lambda>_. tx_row (?cur1\<lparr>t_orig_tx_id := None, t_signed_raw_data := None\<rparr>))
      (deleted (t_id ` set (x # xs) - {t_id c}) (remapped (t_id (last (x # xs))) (t_id c) ?d)))"
    using assms(6,8,10) by simp
  have run: "confirm_tx V eco tx cur b w =
    bindM (on_db (bindM (gets walk_fuel) (\<lambda>fuel. chain_root fuel ?cur1))) (\<lambda>orig_tx.
     bindM (db_transaction (cleanup_chain tx ?cur1 orig_tx)) (\<lambda>current_tx2.
     bindM (tx_message tx '''') (\<lambda>_. ret (current_tx2, Some Confirmed)))) w1"
    by (simp add: confirm_tx_def now_def ask_def bindM_def Let_def w1_def)
  have "on_db (bindM (gets walk_fuel) (\<lambda>fuel. chain_root fuel ?cur1)) w1 = (Inr r, w1)"
    using root by (simp add: on_db_def zoom_def w1 same)
  then have on: "bindM (on_db (bindM (gets walk_fuel) (\<lambda>fuel. chain_root fuel ?cur1))) f w1 = f r w1"
    for f :: "tx_db_obj \<Rightarrow> (tx_db_obj \<times> process_transaction_result option) prg" by (rule bindM_step)
  have "confirm_tx V eco tx cur b w =
    (Inr (?cur1\<lparr>t_orig_tx_id := None, t_signed_raw_data := None\<rparr>, Some Confirmed),
     w1\<lparr>w_db := update_tx_where (t_id c) (\<lambda>_. tx_row (?cur1\<lparr>t_orig_tx_id := None, t_signed_raw_data := None\<rparr>))
      (deleted (t_id ` set (x # xs) - {t_id c}) (remapped (t_id (last (x # xs))) (t_id c) ?d)),
      w_shared := set_tx_message (t_id tx) '''' (w_shared w1)\<rparr>)"
    unfolding run on by (simp add: bindM_def db_transaction_eq w1 clean tx_message_def shared_def)
  then obtain w' where eq: "confirm_tx V eco tx cur b w =
      (Inr (?cur1\<lparr>t_orig_tx_id := None, t_signed_raw_data := None\<rparr>, Some Confirmed), w')"
    and db: "w_db w' = update_tx_where (t_id c) (\<lambda>_. tx_row (?cur1\<lparr>t_orig_tx_id := None, t_signed_raw_data := None\<rparr>))
      (deleted (t_id ` set (x # xs) - {t_id c}) (remapped (t_id (last (x # xs))) (t_id c) ?d))" by simp
  have "world_ok w'" by (rule preservesD [OF preserves_confirm_tx assms(1) eq])
  with eq db show ?thesis by blast
qed

text \<open>C12. When a transaction of a replacement chain is confirmed, every transfer and every allowance that
  referred to the oldest transaction of the chain, where references are kept, refers to the confirmed
  one afterwards, the other transactions of the chain are deleted, and the confirmed row is stored with its
  receipt, its date and no signed data; no other row of any table changes and no reference is left dangling.\<close>

theorem confirmation_keeps_references:
  assumes "world_ok w" and "chain_ordered (w_db w)"
    and "get_transaction_chain n (t_id tx) (w_db w) = Some (Inr ts)" and "t_orig_tx_id tx = t_orig_tx_id (hd ts)"
    and "c \<in> set ts" and "t_id cur = t_id c" and "t_orig_tx_id cur = t_orig_tx_id c"
    and "referenced (w_db w) \<inter> t_id ` set (butlast ts) = {}"
  shows "\<exists>cur' w'. confirm_tx V eco tx cur b w = (Inr (cur', Some Confirmed), w') \<and> world_ok w' \<and>
    cur' = cur\<lparr>t_confirm_date := Some (ev_now V (w_tick w)), t_orig_tx_id := None, t_signed_raw_data := None\<rparr> \<and>
    w_db w' = update_tx_where (t_id c) (\<lambda>_. tx_row cur')
      (deleted (t_id ` set ts - {t_id c}) (remapped (t_id (last ts)) (t_id c) (w_db w)))"
proof -
  obtain x xs where ts: "ts = x # xs" "t_id x = t_id tx" "is_chain (x # xs)" "set (x # xs) \<subseteq> set (tb_rows (d_tx (w_db w)))"
    by (rule chain_of_db [OF assms(3)])
  from confirm_tx_result [OF assms(1) ts(3,4) chain_descends(2) [OF assms(2) ts(3,4)] ts(2), of c cur V eco b]
  show ?thesis using assms(4-8) ts(1) by simp
qed



text \<open>A transaction and its replacement, with a transfer that refers to the older one.\<close>

definition replaced_tx :: "i64 \<Rightarrow> i64 option \<Rightarrow> tx_db_obj" where
  "replaced_tx i orig = (tx_default 0)\<lparr>t_id := i, t_orig_tx_id := orig, t_tx_hash := Some ''1''\<rparr>"

definition chain_world :: world where
  "chain_world = world_initial\<lparr>w_db := db_empty
     \<lparr>d_tx := \<lparr>tb_rows = [replaced_tx 1 None, replaced_tx 2 (Some 1)], tb_seq = 2\<rparr>,
      d_token_transfer := \<lparr>tb_rows = [(sample_transfer 1 None)\<lparr>tt_tx_id := Some 1\<rparr>], tb_seq = 1\<rparr>\<rparr>\<rparr>"

lemma replaced_tx_simps [simp]:
  "t_id (replaced_tx i orig) = i" "t_orig_tx_id (replaced_tx i orig) = orig"
  "t_tx_hash (replaced_tx i orig) = Some ''1''"
  by (simp_all add: replaced_tx_def)

lemma chain_world_rows:
  "tb_rows (d_tx (w_db chain_world)) = [replaced_tx 1 None, replaced_tx 2 (Some 1)]"
  "tb_rows (d_token_transfer (w_db chain_world)) = [(sample_transfer 1 None)\<lparr>tt_tx_id := Some 1\<rparr>]"
  "tb_rows (d_allowance (w_db chain_world)) = []"
  by (simp_all add: chain_world_def db_empty_def tbl_empty_def)

lemma world_ok_chain_world: "world_ok chain_world"
  by (simp add: world_ok_def db_ok_def keys_ok_def fk_ok_def chain_world_def db_empty_def tbl_wf_def
      tbl_ids_def tbl_empty_def sample_transfer_def)

theorem confirmation_keeps_references_witness:
  "\<exists>cur' w'. confirm_tx quiet_env False (replaced_tx 2 (Some 1)) (replaced_tx 2 (Some 1)) 90 chain_world =
      (Inr (cur', Some Confirmed), w') \<and>
     map t_id (tb_rows (d_tx (w_db w'))) = [2] \<and> map tt_tx_id (tb_rows (d_token_transfer (w_db w'))) = [Some 2]"
proof -
  let ?tx = "replaced_tx 2 (Some 1)" and ?ts = "[replaced_tx 2 (Some 1), replaced_tx 1 None]"
  have ordered: "chain_ordered (w_db chain_world)" by (simp add: chain_ordered_def chain_world_rows)
  have chain: "get_transaction_chain (Suc (Suc 0)) (t_id ?tx) (w_db chain_world) = Some (Inr ?ts)"
    by (simp add: tbl_find_def chain_world_rows)
  have free: "referenced (w_db chain_world) \<inter> t_id ` set (butlast ?ts) = {}"
    by (simp add: referenced_def chain_world_rows)
  obtain cur' w' where run: "confirm_tx quiet_env False ?tx ?tx 90 chain_world = (Inr (cur', Some Confirmed), w')"
    and db: "w_db w' = update_tx_where (t_id ?tx) (\<lambda>_. tx_row cur')
      (deleted (t_id ` set ?ts - {t_id ?tx}) (remapped (t_id (last ?ts)) (t_id ?tx) (w_db chain_world)))"
    and cur': "cur' = ?tx\<lparr>t_confirm_date := Some (ev_now quiet_env (w_tick chain_world)), t_orig_tx_id := None,
      t_signed_raw_data := None\<rparr>"
    using confirmation_keeps_references [OF world_ok_chain_world ordered chain _ _ _ _ free, of ?tx ?tx quiet_env False 90]
    by (simp del: replaced_tx_simps) (auto simp del: replaced_tx_simps)
  have rows: "map t_id (tb_rows (d_tx (w_db w'))) = [2]" "map tt_tx_id (tb_rows (d_token_transfer (w_db w'))) = [Some 2]"
    by (simp_all add: db cur' update_tx_where_def deleted_def remapped_def update_tt_where_def update_al_where_def
        tbl_update_where_def tbl_delete_where_def chain_world_rows tx_row_def)
  show ?thesis by (intro exI conjI) (rule run rows)+
qed

section \<open>The receipt\<close>

lemma find_receipt_None:
  assumes "t_tx_hash tx = Some s" and "h256_of_str (ev_ext V) s = Some h" and "\<And>n. ev_receipt V n h = Inr None"
  shows "find_receipt V tx w =
    (Inr (tx\<lparr>t_block_number := None, t_chain_status := None, t_fee_paid := None\<rparr>, None), w\<lparr>w_tick := w_tick w + 1\<rparr>)"
  using assms by (simp add: find_receipt_def rpc_def ask_def bindM_def)

text \<open>When neither a replacement transaction nor the one it replaced directly has a receipt, the search
  for a receipt never returns, for any amount of fuel: it keeps asking for the same older transaction,
  whatever else is in the chain, also when a still older one was mined.\<close>

theorem receipt_search_never_returns:
  assumes "t_orig_tx_id tx = Some i" and "tbl_find t_id i (d_tx (w_db w)) = Some older"
    and "t_tx_hash tx = Some s" and "h256_of_str (ev_ext V) s = Some h"
    and "t_tx_hash older = Some s'" and "h256_of_str (ev_ext V) s' = Some h'"
    and "\<And>n. ev_receipt V n h = Inr None" and "\<And>n. ev_receipt V n h' = Inr None"
  shows "fst (find_in_chain V tx fuel tx w) = Inl OutOfFuel"
proof -
  have stuck: "fst (find_in_chain V tx fuel cur w1) = Inl OutOfFuel"
    if "cur = tx \<or> cur = older" and "w_db w1 = w_db w" for cur w1
    using that
  proof (induction fuel arbitrary: cur w1)
    case (Suc fuel)
    let ?w = "w1\<lparr>w_tick := w_tick w1 + 1\<rparr>"
    obtain cur' where r: "find_receipt V cur w1 = (Inr (cur', None), ?w)"
      using Suc.prems(1) find_receipt_None [OF assms(3,4,7), of w1] find_receipt_None [OF assms(5,6,8), of w1] by auto
    have row: "get_transaction i (w_db w1) = (Inr older, w_db w1)"
      using assms(2) Suc.prems(2) by (simp add: get_transaction_Inr)
    have "find_in_chain V tx (Suc fuel) cur w1 = find_in_chain V tx fuel older ?w"
      using row by (simp add: bindM_def r assms(1) db_run_eq)
    also have "fst \<dots> = Inl OutOfFuel" using Suc.prems(2) by (intro Suc.IH) auto
    finally show ?case .
  qed simp
  then show ?thesis by simp
qed

theorem receipt_search_never_returns_witness:
  "fst (find_in_chain quiet_env (replaced_tx 2 (Some 1)) 1000 (replaced_tx 2 (Some 1)) chain_world) = Inl OutOfFuel"
  by (rule receipt_search_never_returns [where i = 1 and older = "replaced_tx 1 None" and s = "''1''" and h = 1 and s' = "''1''" and h' = 1])
    (simp_all add: tbl_find_def chain_world_rows quiet_env_def unary_def)

lemma find_receipt_done:
  assumes "find_receipt V tx w = (Inr (tx', Some price), w')"
  obtains s h k receipt g fee bn where "t_tx_hash tx = Some s" "h256_of_str (ev_ext V) s = Some h"
    "ev_receipt V k h = Inr (Some receipt)" "rc_gas_used receipt = Some g" "rc_effective_gas_price receipt = Some price"
    "rc_block_number receipt = Some bn" "u256_mul g price = Inr fee"
    "t_block_number tx' = Some (as_i64 (of_nat bn))"
    "t_chain_status tx' = map_option (\<lambda>n. as_i64 (of_nat n)) (rc_status receipt)"
    "t_fee_paid tx' = Some (dec_of_u256 (ev_ext V) fee)" "t_id tx' = t_id tx" "t_orig_tx_id tx' = t_orig_tx_id tx"
proof -
  obtain s where s: "t_tx_hash tx = Some s" using assms by (cases "t_tx_hash tx") (auto simp: find_receipt_def)
  note run = assms [unfolded find_receipt_def s option.case Let_def]
  obtain h r w1 where h: "h256_of_str (ev_ext V) s = Some h" "ev_receipt V (w_tick w) h = Inr r" and run1: "(case r of
           None \<Rightarrow> ret (tx\<lparr>t_block_number := None, t_chain_status := None, t_fee_paid := None\<rparr>, None)
         | Some receipt \<Rightarrow> with_receipt V tx receipt) w1 = (Inr (tx', Some price), w')"
    using run unfolding with_receipt_def by (auto simp only: monad_simps rpc_done)
  obtain receipt where r: "r = Some receipt" and run2: "with_receipt V tx receipt w1 = (Inr (tx', Some price), w')"
    using run1 by (cases r) auto
  obtain g fee bn where "rc_gas_used receipt = Some g" "rc_effective_gas_price receipt = Some price"
    "rc_block_number receipt = Some bn" "u256_mul g price = Inr fee"
    "t_block_number tx' = Some (as_i64 (of_nat bn))"
    "t_chain_status tx' = map_option (\<lambda>n. as_i64 (of_nat n)) (rc_status receipt)"
    "t_fee_paid tx' = Some (dec_of_u256 (ev_ext V) fee)" "t_id tx' = t_id tx" "t_orig_tx_id tx' = t_orig_tx_id tx"
    using run2 by (auto simp: with_receipt_def Let_def monad_simps)
  with s h r that show thesis by blast
qed

text \<open>The fee recorded with a receipt is exactly the gas used times the effective gas price of the
  receipt the node returned for the hash of the transaction; a fee that does not fit into a U256 is never
  recorded. Looking for the receipt changes no table.\<close>

theorem receipt_fee_exact:
  assumes "find_receipt V tx w = (Inr (tx', Some price), w')"
  shows "\<exists>h k receipt g fee. Option.bind (t_tx_hash tx) (h256_of_str (ev_ext V)) = Some h \<and>
    ev_receipt V k h = Inr (Some receipt) \<and> rc_gas_used receipt = Some g \<and> rc_effective_gas_price receipt = Some price \<and>
    t_fee_paid tx' = Some (dec_of_u256 (ev_ext V) fee) \<and> unat fee = unat g * unat price \<and>
    t_block_number tx' = map_option (\<lambda>n. as_i64 (of_nat n)) (rc_block_number receipt) \<and>
    t_chain_status tx' = map_option (\<lambda>n. as_i64 (of_nat n)) (rc_status receipt) \<and> w_db w' = w_db w"
proof -
  obtain n where "w' = w\<lparr>w_tick := n\<rparr>" using asksD [OF asks_find_receipt assms] by blast
  then have db: "w_db w' = w_db w" by simp
  obtain s h k receipt g fee bn where r: "t_tx_hash tx = Some s" "h256_of_str (ev_ext V) s = Some h"
    "ev_receipt V k h = Inr (Some receipt)" "rc_gas_used receipt = Some g" "rc_effective_gas_price receipt = Some price"
    "rc_block_number receipt = Some bn" "u256_mul g price = Inr fee" "t_block_number tx' = Some (as_i64 (of_nat bn))"
    "t_chain_status tx' = map_option (\<lambda>n. as_i64 (of_nat n)) (rc_status receipt)"
    "t_fee_paid tx' = Some (dec_of_u256 (ev_ext V) fee)"
    by (rule find_receipt_done [OF assms])
  show ?thesis
    by (intro exI [of _ h] exI [of _ k] exI [of _ receipt] exI [of _ g] exI [of _ fee] conjI)
      (simp_all add: r db u256_mul_Inr [OF r(7)])
qed

text \<open>An environment in which every transaction was mined in block 90 with the given status.\<close>

definition mined_env :: "nat \<Rightarrow> env" where
  "mined_env status = quiet_env\<lparr>ev_receipt := (\<lambda>n h. Inr (Some \<lparr>rc_from = 1, rc_to = Some 2, rc_block_number = Some 90,
     rc_status = Some status, rc_gas_used = Some 3, rc_effective_gas_price = Some 2, rc_logs = []\<rparr>))\<rparr>"

lemma mined_receipt:
  "\<exists>cur w'. find_receipt (mined_env status) (replaced_tx 1 None) w = (Inr (cur, Some 2), w')"
  by (simp add: find_receipt_def with_receipt_def mined_env_def quiet_env_def unary_def rpc_def ask_def
      bindM_def as_u64_def as_i64_def Let_def datetime_from_u256_timestamp_def u256_mul_def)

theorem receipt_fee_exact_witness:
  "\<exists>cur w'. find_receipt (mined_env 1) (replaced_tx 1 None) world_initial = (Inr (cur, Some 2), w') \<and>
     t_fee_paid cur = Some ''111111''"
proof -
  obtain cur w' where run: "find_receipt (mined_env 1) (replaced_tx 1 None) world_initial = (Inr (cur, Some 2), w')"
    using mined_receipt by blast
  from receipt_fee_exact [OF run] obtain g fee :: u256 where
    fee: "t_fee_paid cur = Some (dec_of_u256 (ev_ext (mined_env 1)) fee)" "unat fee = unat g * unat (2 :: u256)" "g = 3"
    by (auto simp: mined_env_def)
  then have "unat fee = 6" by simp
  then have "t_fee_paid cur = Some ''111111''"
    using fee(1) by (simp add: mined_env_def quiet_env_def unary_def numeral_eq_Suc)
  with run show ?thesis by blast
qed

section \<open>The decision\<close>

lemma find_in_chain_first:
  assumes "find_receipt V cur w = (Inr (cur', Some price), w1)"
  shows "find_in_chain V tx (Suc fuel) cur w = (Inr (cur', Some price), w1)"
  by (simp add: bindM_step [where m = "find_receipt V cur" and s = w, OF assms])

text \<open>For a transaction that is no replacement, a receipt decides alone: as soon as the configured number
  of blocks lies on top of its block the transaction is confirmed, before that it is not. The status in
  the receipt plays no role, so a transaction that was mined and reverted is confirmed like one that
  succeeded.\<close>

theorem confirmation_ignores_status:
  assumes "world_ok w" and "t_orig_tx_id tx = None"
    and "tbl_find t_id (t_id tx) (d_tx (w_db w)) = Some row" and "t_orig_tx_id row = None"
    and "find_receipt V tx (w\<lparr>w_shared := set_tx_message (t_id tx) ''Confirmations - checking receipt'' (w_shared w)\<rparr>) =
      (Inr (cur, Some price), w1)"
    and "t_block_number cur = Some bn"
  shows "\<exists>w' cur'. cur' = cur\<lparr>t_confirm_date := Some (ev_now V (w_tick w1)), t_orig_tx_id := None, t_signed_raw_data := None\<rparr> \<and>
    (if unat (i64_as_u64 bn) + cs_confirmation_blocks cs \<le> block
     then check_receipt V S cs (Suc fuel) tx block w = (Inr (cur', Some Confirmed), w') \<and>
       w_db w' = update_tx_where (t_id tx) (\<lambda>_. tx_row cur') (w_db w)
     else check_receipt V S cs (Suc fuel) tx block w = (Inr (tx, None), w1) \<and> w_db w1 = w_db w)"
proof -
  let ?w = "w\<lparr>w_shared := set_tx_message (t_id tx) ''Confirmations - checking receipt'' (w_shared w)\<rparr>"
  obtain n where w1: "w1 = ?w\<lparr>w_tick := n\<rparr>" using asksD [OF asks_find_receipt assms(5)] by blast
  have cur: "t_id cur = t_id tx" "t_orig_tx_id cur = t_orig_tx_id tx"
    by (rule find_receipt_done [OF assms(5)], assumption)+
  have run: "check_receipt V S cs (Suc fuel) tx block w =
    (if unat (i64_as_u64 bn) + cs_confirmation_blocks cs \<le> block
     then confirm_tx V (polygon_eco_mode V cs) tx cur (unat (i64_as_u64 bn)) w1 else (Inr (tx, None), w1))"
    using find_in_chain_first [OF assms(5), of tx fuel] assms(6)
    by (simp add: check_receipt_def tx_message_def shared_def bindM_def Let_def del: find_in_chain.simps)
  have row: "row \<in> set (tb_rows (d_tx (w_db w)))" "t_id row = t_id tx" using tbl_find_SomeD [OF assms(3)] by auto
  have "world_ok w1" using assms(1) w1 by simp
  from confirm_tx_result [OF this, of row "[]" tx row cur V "polygon_eco_mode V cs" "unat (i64_as_u64 bn)"]
  obtain cur' w' where c: "confirm_tx V (polygon_eco_mode V cs) tx cur (unat (i64_as_u64 bn)) w1 = (Inr (cur', Some Confirmed), w')"
    "cur' = cur\<lparr>t_confirm_date := Some (ev_now V (w_tick w1)), t_orig_tx_id := None, t_signed_raw_data := None\<rparr>"
    "w_db w' = update_tx_where (t_id tx) (\<lambda>_. tx_row cur') (w_db w)"
    using row assms(2,4) cur w1 by (auto simp: remapped_same)
  have "w_db w1 = w_db w" using w1 by simp
  with run c show ?thesis by auto
qed

theorem confirmation_ignores_status_witness:
  "\<exists>cur w'. check_receipt (mined_env 0) sample_setup sample_chain 1 (replaced_tx 1 None) 100 chain_world = (Inr (cur, Some Confirmed), w')"
proof -
  let ?tx = "replaced_tx 1 None"
  obtain cur w1 where run: "find_receipt (mined_env 0) ?tx (chain_world\<lparr>w_shared := set_tx_message (t_id ?tx)
      ''Confirmations - checking receipt'' (w_shared chain_world)\<rparr>) = (Inr (cur, Some 2), w1)"
    using mined_receipt by blast
  have bn: "t_block_number cur = Some 90"
    by (rule find_receipt_done [OF run]) (auto simp: mined_env_def as_i64_def)
  have "tbl_find t_id (t_id ?tx) (d_tx (w_db chain_world)) = Some ?tx" by (simp add: tbl_find_def chain_world_rows)
  from confirmation_ignores_status [OF world_ok_chain_world _ this _ run bn, of sample_chain 100 sample_setup 0]
  show ?thesis by (auto simp: sample_chain_def i64_as_u64_def)
qed

section \<open>Checking and signing\<close>

lemma gas_checked_done:
  assumes "gas_checked V tx e w = (Inr (tx', Some need), w')"
  shows "\<exists>gas fee v. tx' = tx\<lparr>t_gas_limit := Some (as_i64 (of_nat gas))\<rparr> \<and> gas = (if e = 21000 then 21000 else unat e + 20000) \<and> gas < 2 ^ 64 \<and>
    Option.bind (t_max_fee_per_gas tx) (u256_of_dec (ev_ext V)) = Some fee \<and> u256_of_dec (ev_ext V) (t_val tx) = Some v \<and>
    unat need = unat v + gas * unat fee \<and> w' = w"
proof -
  obtain g limit gas fs fee v cost where
    r: "as_u64 e = Inr g" "(if g = 21000 then Inr e else u256_add e 20000) = Inr limit" "as_u64 limit = Inr gas"
    "t_max_fee_per_gas tx = Some fs" "parse_dec (ev_ext V) fs = Inr fee" "parse_dec (ev_ext V) (t_val tx) = Inr v"
    "u256_mul limit fee = Inr cost" "u256_add v cost = Inr need"
    and tx': "tx' = tx\<lparr>t_gas_limit := Some (as_i64 (of_nat gas))\<rparr>" "w' = w"
    using assms unfolding gas_checked_def Let_def by (auto simp: monad_simps)
  have gas: "gas = unat limit" "gas < 2 ^ 64" using as_u64_Inr [OF r(3)] by auto
  have "gas = (if e = 21000 then 21000 else unat e + 20000)"
  proof (cases "e = 21000")
    case True
    then show ?thesis using r(1,2) gas by (auto simp: as_u64_def)
  next
    case False
    have "g = unat e" using as_u64_Inr [OF r(1)] by simp
    moreover have "unat e \<noteq> 21000" using False by (metis of_nat_numeral word_unat_of_nat_id)
    ultimately show ?thesis using r(2) gas False u256_add_Inr [of e 20000 limit] by simp
  qed
  moreover have "unat need = unat v + gas * unat fee"
    using u256_mul_Inr [OF r(7)] u256_add_Inr [OF r(8)] gas by simp
  moreover have "Option.bind (t_max_fee_per_gas tx) (u256_of_dec (ev_ext V)) = Some fee"
    "u256_of_dec (ev_ext V) (t_val tx) = Some v"
    using r(4-6) by (auto simp: parse_dec_def ok_or_Inr_iff)
  ultimately show ?thesis using tx' gas(2) by blast
qed

text \<open>The gas of a transaction: fixed for a plain transfer, estimated by the node with a margin for a call.\<close>

definition estimated_gas :: "env \<Rightarrow> nat \<Rightarrow> tx_db_obj \<Rightarrow> nat \<Rightarrow> bool" where
  "estimated_gas V n tx gas \<longleftrightarrow> (case t_call_data tx of
       None \<Rightarrow> gas = 21000
     | Some _ \<Rightarrow> \<exists>req est. dao_to_call_request (ev_ext V) tx = Inr req \<and>
         ev_estimate_gas V n (req\<lparr>cr_max_fee_per_gas := None, cr_max_priority_fee_per_gas := None\<rparr>) = Inr est \<and>
         gas = (if est = 21000 then 21000 else unat est + 20000))"

text \<open>The number of questions of the estimation.\<close>

definition estimations :: "tx_db_obj \<Rightarrow> nat" where
  "estimations tx = (if t_call_data tx = None then 0 else 1)"

lemma check_transaction_done:
  assumes "check_transaction V g tx w = (Inr (tx', Some need), w')"
  obtains gas fee v where "tx' = tx\<lparr>t_gas_limit := Some (as_i64 (of_nat gas))\<rparr>"
    "estimated_gas V (w_tick w) tx gas"
    "Option.bind (t_max_fee_per_gas tx) (u256_of_dec (ev_ext V)) = Some fee" "u256_of_dec (ev_ext V) (t_val tx) = Some v"
    "unat need = unat v + gas * unat fee" "w_db w' = w_db w" "w_tick w' = w_tick w + estimations tx"
proof -
  obtain c r w1 where req: "dao_to_call_request (ev_ext V) tx = Inr c" and r: "(case t_call_data tx of None \<Rightarrow> ret (Inr 21000)
      | Some _ \<Rightarrow> ask (\<lambda>n. ev_estimate_gas V n (c\<lparr>cr_max_fee_per_gas := None, cr_max_priority_fee_per_gas := None\<rparr>))) w = (Inr r, w1)"
    and rest: "(case r of Inl e \<Rightarrow> bindM (estimation_failed V g tx e) (\<lambda>_. ret (tx, None))
      | Inr gas_est \<Rightarrow> gas_checked V tx gas_est) w1 = (Inr (tx', Some need), w')"
    using assms unfolding check_transaction_def Let_def by (auto simp only: monad_simps)
  obtain e where e: "r = Inr e" using rest by (cases r) (auto simp: monad_simps)
  have "gas_checked V tx e w1 = (Inr (tx', Some need), w')" using rest e by simp
  from gas_checked_done [OF this] obtain gas fee v where g: "tx' = tx\<lparr>t_gas_limit := Some (as_i64 (of_nat gas))\<rparr>"
    "gas = (if e = 21000 then 21000 else unat e + 20000)" "Option.bind (t_max_fee_per_gas tx) (u256_of_dec (ev_ext V)) = Some fee"
    "u256_of_dec (ev_ext V) (t_val tx) = Some v" "unat need = unat v + gas * unat fee" "w' = w1"
    by (elim exE conjE)
  moreover have "w_db w1 = w_db w" "w_tick w1 = w_tick w + estimations tx"
    using r e by (auto simp: ask_def estimations_def split: option.splits)
  moreover have "estimated_gas V (w_tick w) tx gas"
    using r e g(2) req by (auto simp: estimated_gas_def ask_def split: option.splits if_splits)
  ultimately show thesis by (intro that) simp_all
qed

lemma sign_done:
  assumes "sign_transaction_with_callback V tx a w = (Inr tx', w')"
  shows "\<exists>params raw hash date. dao_to_transaction (ev_ext V) tx = Inr params \<and>
    ev_sign V (w_tick w) a params = Inr (raw, hash) \<and> w_db w' = w_db w \<and>
    tx' = tx\<lparr>t_signed_raw_data := Some (hex_encode (ev_ext V) raw), t_signed_date := Some date,
      t_tx_hash := Some (str_of_h256 (ev_ext V) hash)\<rparr>"
proof -
  obtain params r where p: "dao_to_transaction (ev_ext V) tx = Inr params"
    and r: "ev_sign V (w_tick w) a params = r"
    and rest: "(case r of
       Inl e \<Rightarrow> bindM (send_driver_event V (CantSign (CantSignTx tx)))
         (\<lambda>_. throw (err_custom ''Signing transaction failed due to unknown error''))
     | Inr (raw_transaction, transaction_hash) \<Rightarrow>
         bindM (now V) (\<lambda>date.
           ret (tx\<lparr>t_signed_raw_data := Some (hex_encode (ev_ext V) raw_transaction), t_signed_date := Some date,
                 t_tx_hash := Some (str_of_h256 (ev_ext V) transaction_hash)\<rparr>))) (w\<lparr>w_tick := Suc (w_tick w)\<rparr>) = (Inr tx', w')"
    using assms by (auto simp: sign_transaction_with_callback_def monad_simps ask_def)
  obtain raw hash where "r = Inr (raw, hash)" using rest by (cases r) (auto simp: monad_simps)
  with p r rest show ?thesis by (auto simp: monad_simps now_def ask_def)
qed

lemma check_gas_done:
  assumes "check_gas V cs a tx w = (Inr (tx', None), w')"
  obtains gas fee v balance where "tx' = tx\<lparr>t_gas_limit := Some (as_i64 (of_nat gas))\<rparr>"
    "estimated_gas V (w_tick w) tx gas"
    "Option.bind (t_max_fee_per_gas tx) (u256_of_dec (ev_ext V)) = Some fee" "u256_of_dec (ev_ext V) (t_val tx) = Some v"
    "ev_balance V (w_tick w + estimations tx) a None = Inr balance" "unat v + gas * unat fee \<le> unat balance" "w_db w' = w_db w"
    "w_tick w' = w_tick w + estimations tx + 1"
proof -
  obtain u w1 where w1: "tx_message tx ''Checking transaction'' w = (Inr u, w1)"
    and r1: "bindM (check_transaction V (cs_glm_address cs) tx) (\<lambda>(tx', r). case r of
         None \<Rightarrow> ret (tx', Some DoNotSaveWaitForGasOrToken)
       | Some needed \<Rightarrow>
           bindM (rpc (\<lambda>n. ev_balance V n a None)) (\<lambda>gas_balance.
           if gas_balance < needed
           then bindM (liftR (u256_to_eth gas_balance)) (\<lambda>balance.
                bindM (liftR (u256_to_eth needed)) (\<lambda>gas_needed.
                bindM (send_driver_event V (TransactionStuck (NoGas
                   \<lparr>ng_tx = tx', ng_gas_balance = balance, ng_gas_needed = gas_needed\<rparr>))) (\<lambda>_.
                  ret (tx', Some DoNotSaveWaitForGasOrToken))))
           else ret (tx', None))) w1 = (Inr (tx', None), w')"
    by (rule bindM_InrD [OF assms [unfolded check_gas_def]])
  obtain p w2 where p: "check_transaction V (cs_glm_address cs) tx w1 = (Inr p, w2)"
    and r2: "(case p of (tx', r) \<Rightarrow> case r of
         None \<Rightarrow> ret (tx', Some DoNotSaveWaitForGasOrToken)
       | Some needed \<Rightarrow>
           bindM (rpc (\<lambda>n. ev_balance V n a None)) (\<lambda>gas_balance.
           if gas_balance < needed
           then bindM (liftR (u256_to_eth gas_balance)) (\<lambda>balance.
                bindM (liftR (u256_to_eth needed)) (\<lambda>gas_needed.
                bindM (send_driver_event V (TransactionStuck (NoGas
                   \<lparr>ng_tx = tx', ng_gas_balance = balance, ng_gas_needed = gas_needed\<rparr>))) (\<lambda>_.
                  ret (tx', Some DoNotSaveWaitForGasOrToken))))
           else ret (tx', None))) w2 = (Inr (tx', None), w')"
    by (rule bindM_InrD [OF r1])
  obtain tx1 r where pr: "p = (tx1, r)" by (cases p)
  obtain need where need: "r = Some need" using r2 by (cases r) (auto simp: pr)
  obtain balance where b: "ev_balance V (w_tick w2) a None = Inr balance" "\<not> balance < need" "tx1 = tx'" "w_db w' = w_db w2" "w_tick w' = w_tick w2 + 1"
    using r2 by (auto simp: pr need monad_simps rpc_done split: if_splits)
  have "check_transaction V (cs_glm_address cs) tx w1 = (Inr (tx', Some need), w2)" using p pr need b(3) by simp
  obtain gas fee v where c: "tx' = tx\<lparr>t_gas_limit := Some (as_i64 (of_nat gas))\<rparr>"
    "estimated_gas V (w_tick w1) tx gas"
    "Option.bind (t_max_fee_per_gas tx) (u256_of_dec (ev_ext V)) = Some fee" "u256_of_dec (ev_ext V) (t_val tx) = Some v"
    "unat need = unat v + gas * unat fee" "w_db w2 = w_db w1" "w_tick w2 = w_tick w1 + estimations tx"
    by (rule check_transaction_done [OF \<open>check_transaction V (cs_glm_address cs) tx w1 = (Inr (tx', Some need), w2)\<close>])
  have "unat v + gas * unat fee \<le> unat balance" using b(2) unfolding c(5) [symmetric] by (simp add: word_le_nat_alt not_less)
  moreover have "w_db w1 = w_db w" "w_tick w1 = w_tick w" using w1 by (auto simp: tx_message_def shared_def)
  ultimately show thesis using b(1,4,5) c by (intro that) simp_all
qed

text \<open>C13. A transaction that is not signed yet and replaces nothing is signed only when the node, asked in this run
  and right before the signer, reports a balance of the sender that covers the value and the whole gas limit at the maximum fee;
  the gas limit is 21000 for a plain transfer and the estimate of the node with a margin of 20000 for a call. A replacement is
  signed without this check, with the gas limit of its row. In both cases what the signer gets is exactly the
  transaction of the row, and the row stored afterwards carries the signer's answer.\<close>

theorem signed_only_if_affordable:
  assumes "check_and_sign V cs a tx w = (Inr (tx', None), w')" and "t_signed_raw_data tx = None"
  shows "\<exists>tx1 j params raw hash date.
    (if t_orig_tx_id tx = None
     then \<exists>gas fee v balance. tx1 = tx\<lparr>t_gas_limit := Some (as_i64 (of_nat gas))\<rparr> \<and> estimated_gas V (w_tick w) tx gas \<and>
       Option.bind (t_max_fee_per_gas tx) (u256_of_dec (ev_ext V)) = Some fee \<and> u256_of_dec (ev_ext V) (t_val tx) = Some v \<and>
       j = w_tick w + estimations tx + 1 \<and> ev_balance V (j - 1) a None = Inr balance \<and> unat v + gas * unat fee \<le> unat balance
     else tx1 = tx \<and> j = w_tick w) \<and>
    dao_to_transaction (ev_ext V) tx1 = Inr params \<and> ev_sign V j a params = Inr (raw, hash) \<and>
    tx' = tx1\<lparr>t_signed_raw_data := Some (hex_encode (ev_ext V) raw), t_signed_date := Some date,
      t_tx_hash := Some (str_of_h256 (ev_ext V) hash)\<rparr> \<and>
    w_db w' = update_tx_where (t_id tx) (\<lambda>_. tx_row tx') (w_db w)"
proof -
  obtain p w1 where p: "(if t_orig_tx_id tx = None then check_gas V cs a tx else ret (tx, None)) w = (Inr p, w1)"
    and r1: "(case p of (tx1, r) \<Rightarrow> case r of
          Some res \<Rightarrow> ret (tx1, Some res)
        | None \<Rightarrow>
            bindM (tx_message tx1 ''Signing transaction'') (\<lambda>_.
            bindM (sign_transaction_with_callback V tx1 a) (\<lambda>tx2.
            bindM (db_run (update_tx tx2)) (\<lambda>_. ret (tx2, None))))) w1 = (Inr (tx', None), w')"
    using assms unfolding check_and_sign_def by (auto elim: bindM_InrD)
  obtain tx1 where tx1: "p = (tx1, None)" using r1 by (cases p; cases "snd p") auto
  let ?checked = "if t_orig_tx_id tx = None
     then \<exists>gas fee v balance. tx1 = tx\<lparr>t_gas_limit := Some (as_i64 (of_nat gas))\<rparr> \<and> estimated_gas V (w_tick w) tx gas \<and>
       Option.bind (t_max_fee_per_gas tx) (u256_of_dec (ev_ext V)) = Some fee \<and> u256_of_dec (ev_ext V) (t_val tx) = Some v \<and>
       w_tick w1 = w_tick w + estimations tx + 1 \<and> ev_balance V (w_tick w1 - 1) a None = Inr balance \<and> unat v + gas * unat fee \<le> unat balance
     else tx1 = tx \<and> w_tick w1 = w_tick w"
  have c: "?checked" "t_id tx1 = t_id tx" "w_db w1 = w_db w"
  proof (atomize (full), cases "t_orig_tx_id tx = None")
    case True
    with p tx1 have g: "check_gas V cs a tx w = (Inr (tx1, None), w1)" by simp
    show "?checked \<and> t_id tx1 = t_id tx \<and> w_db w1 = w_db w"
      by (rule check_gas_done [OF g]) (use True in auto)
  next
    case False
    with p tx1 have "tx1 = tx" "w1 = w" by auto
    with False show "?checked \<and> t_id tx1 = t_id tx \<and> w_db w1 = w_db w" by simp
  qed
  let ?w2 = "w1\<lparr>w_shared := set_tx_message (t_id tx1) ''Signing transaction'' (w_shared w1)\<rparr>"
  obtain w3 where s: "sign_transaction_with_callback V tx1 a ?w2 = (Inr tx', w3)"
    and db: "w_db w' = update_tx_where (t_id tx') (\<lambda>_. tx_row tx') (w_db w3)"
    using r1 by (auto simp: tx1 tx_message_def shared_def monad_simps db_run_Inr update_tx_def)
  from sign_done [OF s] obtain params raw hash date where
    g: "dao_to_transaction (ev_ext V) tx1 = Inr params" "ev_sign V (w_tick w1) a params = Inr (raw, hash)" "w_db w3 = w_db ?w2"
    "tx' = tx1\<lparr>t_signed_raw_data := Some (hex_encode (ev_ext V) raw), t_signed_date := Some date,
      t_tx_hash := Some (str_of_h256 (ev_ext V) hash)\<rparr>" by auto
  have "t_id tx' = t_id tx" using c(2) g(4) by simp
  then have db': "w_db w' = update_tx_where (t_id tx) (\<lambda>_. tx_row tx') (w_db w)"
    using db g(3) c(3) by simp
  show ?thesis by (intro exI conjI, rule c(1), rule g(1), rule g(2), rule g(4), rule db')
qed

text \<open>A transfer of one unit at a fee of three.\<close>

definition payment_tx :: tx_db_obj where
  "payment_tx = (tx_default 0)\<lparr>t_id := 1, t_from_addr := ''a'', t_to_addr := ''aa'', t_chain_id := 5, t_nonce := Some 4,
     t_val := ''1'', t_max_fee_per_gas := Some ''111'', t_priority_fee := Some ''1''\<rparr>"

theorem signed_only_if_affordable_witness:
  "\<exists>tx' w'. check_and_sign quiet_env sample_chain 1 payment_tx world_initial = (Inr (tx', None), w') \<and>
     t_gas_limit tx' = Some 21000"
proof -
  have "\<exists>tx' w'. check_and_sign quiet_env sample_chain 1 payment_tx world_initial = (Inr (tx', None), w')"
    by (simp add: check_and_sign_def check_gas_def tx_message_def shared_def check_transaction_def gas_checked_def
        payment_tx_def tx_default_def dao_to_call_request_def parse_address_def parse_dec_def quiet_env_def unary_def
        decode_data_to_bytes_def tx_max_fee_def tx_priority_fee_def Let_def bindM_def as_u64_def u256_mul_def
        u256_add_def rpc_def ask_def sign_transaction_with_callback_def dao_to_transaction_def u256_from_i64_def
        as_i64_def now_def db_run_eq update_tx_def prog_defs(5) ret_def)
  then obtain tx' w' where run: "check_and_sign quiet_env sample_chain 1 payment_tx world_initial = (Inr (tx', None), w')"
    by blast
  have p: "t_signed_raw_data payment_tx = None" "t_orig_tx_id payment_tx = None" "t_call_data payment_tx = None"
    by (simp_all add: payment_tx_def tx_default_def)
  from signed_only_if_affordable [OF run p(1)] have "t_gas_limit tx' = Some (as_i64 (of_nat 21000))"
    by (auto simp: p estimated_gas_def)
  then have "t_gas_limit tx' = Some 21000" by (simp add: as_i64_def)
  with run show ?thesis by blast
qed

end
