(* ===== verification/Allowance.thy ===== *)
theory Allowance imports Eth Batching begin

text \<open>
  What happens when a batch asks for an allowance (\<open>process_allowance\<close> of \<open>sender/allowance.rs\<close>): the
  allowance is looked up in the database and on the chain, and an approval is queued when it is too low.
  The value of the call is the number of queued approvals.
\<close>

definition allowance_of_request ::
    "allowance_request \<Rightarrow> string \<Rightarrow> timestamp option \<Rightarrow> allowance_db_obj" where
  "allowance_of_request req amount confirm_date = \<lparr>al_id = 0, al_owner = ar_owner req,
     al_token_addr = ar_token_addr req, al_spender = ar_spender_addr req, al_allowance = amount,
     al_chain_id = ar_chain_id req, al_tx_id = None, al_fee_paid = None, al_confirm_date = confirm_date,
     al_error = None\<rparr>"

definition allowance_on_chain :: "env \<Rightarrow> allowance_request \<Rightarrow> u256 prg" where
  "allowance_on_chain V req =
     bindM (liftR (parse_address (ev_ext V) (ar_owner req))) (\<lambda>owner.
     bindM (liftR (parse_address (ev_ext V) (ar_token_addr req))) (\<lambda>token.
     bindM (liftR (parse_address (ev_ext V) (ar_spender_addr req))) (\<lambda>spender.
       check_allowance V owner token spender)))"

definition known_allowance :: "env \<Rightarrow> allowance_request \<Rightarrow> allowance_db_obj option \<Rightarrow> u256 prg" where
  "known_allowance V req db_allowance = (case db_allowance of
       Some al \<Rightarrow> (case al_confirm_date al of
           Some _ \<Rightarrow> liftR (parse_dec (ev_ext V) (al_allowance al))
         | None \<Rightarrow>
             bindM (allowance_on_chain V req) (\<lambda>allowance.
             bindM (whenM (allowance > minimum_allowance)
                (bindM (now V) (\<lambda>date. db_run (update_allowance (al\<lparr>al_confirm_date := Some date\<rparr>))))) (\<lambda>_.
               ret allowance)))
     | None \<Rightarrow>
         bindM (allowance_on_chain V req) (\<lambda>allowance.
         bindM (whenM (allowance > minimum_allowance)
            (bindM (now V) (\<lambda>date.
             bindM (db_run (insert_allowance (allowance_of_request req (dec_of_u256 (ev_ext V) allowance) (Some date))))
               (\<lambda>_. ret ())))) (\<lambda>_.
           ret allowance)))"

definition queue_approval :: "env \<Rightarrow> allowance_request \<Rightarrow> nat prg" where
  "queue_approval V req = (let allowance = allowance_of_request req (dec_of_u256 (ev_ext V) u256_max) None in
     bindM (liftR (parse_address (ev_ext V) (ar_owner req))) (\<lambda>from_addr.
     bindM (ask (\<lambda>n. ev_sign_possible V n from_addr)) (\<lambda>possible. case possible of
       Inl message \<Rightarrow> bindM (send_driver_event V (CantSign (CantSignAllowance allowance)))
         (\<lambda>_. throw (err_tx_failed message))
     | Inr _ \<Rightarrow>
         bindM (liftR (parse_address (ev_ext V) (ar_token_addr req))) (\<lambda>token.
         bindM (liftR (parse_address (ev_ext V) (ar_spender_addr req))) (\<lambda>spender.
         bindM (now V) (\<lambda>t.
         bindM (liftR (create_erc20_approve (ev_ext V) t from_addr token spender (i64_as_u64 (ar_chain_id req)) None)) (\<lambda>approve_tx.
         bindM (db_transaction
           (bindM (sqlx (insert_tx approve_tx)) (\<lambda>web3_tx_dao.
            sqlx (insert_allowance (allowance\<lparr>al_tx_id := Some (t_id web3_tx_dao)\<rparr>))))) (\<lambda>_. ret 1))))))))"

definition process_allowance :: "env \<Rightarrow> payment_setup \<Rightarrow> allowance_request \<Rightarrow> nat prg" where
  "process_allowance V S req =
     bindM (liftR (get_provider S (ar_chain_id req))) (\<lambda>_.
     bindM (db_run (find_allowance (ar_owner req) (ar_token_addr req) (ar_spender_addr req) (ar_chain_id req))) (\<lambda>db_allowance.
     bindM (known_allowance V req db_allowance) (\<lambda>allowance.
       if allowance < minimum_allowance then queue_approval V req else ret 0)))"

section \<open>Invariants\<close>

lemma preserves_find_al [preserves_intro]: "preserves I (find_allowance o' t s c)"
  unfolding find_allowance_def by (rule preserves_gets)

lemma asks_allowance_on_chain [asks_intro]: "asks (allowance_on_chain V req)"
  unfolding allowance_on_chain_def by (intro asks_intro)

lemma preserves_known_allowance [preserves_intro]: "preserves world_ok (known_allowance V req al)"
  unfolding known_allowance_def allowance_on_chain_def by (intro preserves_intro)

lemma preserves_queue_approval [preserves_intro]: "preserves world_ok (queue_approval V req)"
  unfolding queue_approval_def Let_def by (intro preserves_intro)

lemma preserves_process_allowance [preserves_intro]: "preserves world_ok (process_allowance V S req)"
  unfolding process_allowance_def by (intro preserves_intro)

end
