(* ===== verification/AllowanceProofs.thy ===== *)
theory AllowanceProofs imports Allowance TransferRows Sample begin

text \<open>
  Proofs on allowances: an approval is queued exactly when the known allowance is too low, and the request
  for an allowance of exactly the minimum is never settled.
\<close>

text \<open>What looking for the allowance leaves alone.\<close>

definition payments :: "world \<Rightarrow> tx_db_obj tbl \<times> token_transfer_db_obj tbl" where
  "payments w = (d_tx (w_db w), d_token_transfer (w_db w))"

lemma payments_upd [simp]:
  "payments (w\<lparr>w_tick := n\<rparr>) = payments w" "payments (w\<lparr>w_events := es\<rparr>) = payments w"
  "payments (w\<lparr>w_db := d\<lparr>d_allowance := t\<rparr>\<rparr>) = payments (w\<lparr>w_db := d\<rparr>)" "payments (w\<lparr>w_db := w_db w\<rparr>) = payments w"
  by (simp_all add: payments_def)

lemma known_allowance_result:
  assumes "known_allowance V req al w = (r, w')"
  shows "payments w' = payments w"
    and "r = Inr v \<Longrightarrow> v \<le> minimum_allowance \<Longrightarrow> w_db w' = w_db w \<and> w_events w' = w_events w"
proof -
  obtain c w1 where c: "allowance_on_chain V req w = (c, w1)" by fastforce
  then obtain n where w1: "w1 = w\<lparr>w_tick := n\<rparr>" using asksD [OF asks_allowance_on_chain] by blast
  show "payments w' = payments w"
    using assms c w1
    by (auto simp: known_allowance_def bindM_def whenM_def now_def ask_def db_run_eq update_allowance_def
        insert_allowance_def constrained_def update_al_where_def split: option.splits sum.splits if_splits prod.splits)
  show "w_db w' = w_db w \<and> w_events w' = w_events w" if "r = Inr v" "v \<le> minimum_allowance"
    using assms c w1 that
    by (auto simp: known_allowance_def bindM_def whenM_def split: option.splits sum.splits if_splits prod.splits)
qed

definition approval_of :: "env \<Rightarrow> allowance_request \<Rightarrow> i64 \<Rightarrow> i64 \<Rightarrow> allowance_db_obj" where
  "approval_of V req i tx = (allowance_of_request req (dec_of_u256 (ev_ext V) u256_max) None)\<lparr>al_id := i, al_tx_id := Some tx\<rparr>"

lemma insert_approval_result:
  obtains row d' where
    "bindM (sqlx (insert_tx tx)) (\<lambda>t. sqlx (insert_allowance ((allowance_of_request req amount None)\<lparr>al_tx_id := Some (t_id t)\<rparr>))) d = (Inr row, d')"
    and "tb_rows (d_tx d') = tb_rows (d_tx d) @ [(tx_row tx)\<lparr>t_id := tb_seq (d_tx d) + 1\<rparr>]"
    and "tb_rows (d_allowance d') = tb_rows (d_allowance d) @
      [(allowance_of_request req amount None)\<lparr>al_id := tb_seq (d_allowance d) + 1, al_tx_id := Some (tb_seq (d_tx d) + 1)\<rparr>]"
    and "d_token_transfer d' = d_token_transfer d"
  by (simp add: bindM_def sqlx_def insert_tx_def insert_allowance_def constrained_def tbl_insert_def Let_def set_t_id_def
      set_al_id_def fk_tx_def allowance_of_request_def)

text \<open>
  The readings the next property is stated with. The answer on the allowance: the amount of the first row of the
  request that is confirmed, else what the chain answers when asked. The approval: a call of the token, from the
  owner, that approves the maximum for the spender.
\<close>

definition stored_allowance :: "allowance_request \<Rightarrow> world \<Rightarrow> allowance_db_obj option" where
  "stored_allowance req w = List.find (\<lambda>a. (al_owner a, al_token_addr a, al_spender a, al_chain_id a) =
     (ar_owner req, ar_token_addr req, ar_spender_addr req, ar_chain_id req)) (tb_rows (d_allowance (w_db w)))"

definition confirmed_allowance :: "allowance_request \<Rightarrow> world \<Rightarrow> string option" where
  "confirmed_allowance req w = (case stored_allowance req w of
       Some al \<Rightarrow> if al_confirm_date al = None then None else Some (al_allowance al) | None \<Rightarrow> None)"

definition chain_answers :: "env \<Rightarrow> allowance_request \<Rightarrow> nat \<Rightarrow> u256 \<Rightarrow> bool" where
  "chain_answers V req t v \<longleftrightarrow> (\<exists>owner token spender data res. let E = ev_ext V in
     addr_of_str E (ar_owner req) = Some owner \<and> addr_of_str E (ar_token_addr req) = Some token \<and>
     addr_of_str E (ar_spender_addr req) = Some spender \<and> encode_erc20_allowance E owner spender = Inr data \<and>
     ev_call V t (call_default\<lparr>cr_from := Some owner, cr_to := Some token, cr_data := Some data\<rparr>) None = Inr res \<and>
     length res = 32 \<and> v = from_big_endian res)"

definition allowance_is :: "env \<Rightarrow> allowance_request \<Rightarrow> world \<Rightarrow> u256 \<Rightarrow> bool" where
  "allowance_is V req w v \<longleftrightarrow> (case confirmed_allowance req w of
       Some s \<Rightarrow> u256_of_dec (ev_ext V) s = Some v | None \<Rightarrow> chain_answers V req (w_tick w) v)"

definition can_approve :: "env \<Rightarrow> allowance_request \<Rightarrow> world \<Rightarrow> bool" where
  "can_approve V req w \<longleftrightarrow> (\<exists>owner. addr_of_str (ev_ext V) (ar_owner req) = Some owner \<and>
     ev_sign_possible V (if confirmed_allowance req w = None then Suc (w_tick w) else w_tick w) owner = Inr ()) \<and>
     addr_of_str (ev_ext V) (ar_token_addr req) \<noteq> None \<and> addr_of_str (ev_ext V) (ar_spender_addr req) \<noteq> None"

definition approves_maximum :: "env \<Rightarrow> allowance_request \<Rightarrow> tx_db_obj \<Rightarrow> bool" where
  "approves_maximum V req tx \<longleftrightarrow> (\<exists>owner token spender. let E = ev_ext V in
     addr_of_str E (ar_owner req) = Some owner \<and> addr_of_str E (ar_token_addr req) = Some token \<and>
     addr_of_str E (ar_spender_addr req) = Some spender \<and> t_method tx = ''ERC20.approve'' \<and>
     t_from_addr tx = str_of_addr E owner \<and> t_to_addr tx = str_of_addr E token \<and>
     t_chain_id tx mod 2 ^ 64 = ar_chain_id req mod 2 ^ 64 \<and> t_processing tx = 1 \<and>
     t_call_data tx = Some (hex_encode E (encode_input E ERC20_CONTRACT ''approve'' [TokAddress spender, TokUint u256_max])))"

definition approval_queued :: "env \<Rightarrow> allowance_request \<Rightarrow> world \<Rightarrow> world \<Rightarrow> bool" where
  "approval_queued V req w w' \<longleftrightarrow> (\<exists>tx i. tx_rows w' = tx_rows w @ [tx] \<and> approves_maximum V req tx \<and>
     tb_rows (d_allowance (w_db w')) = tb_rows (d_allowance (w_db w)) @ [approval_of V req i (t_id tx)] \<and>
     d_token_transfer (w_db w') = d_token_transfer (w_db w))"

lemma create_approve_row:
  "create_erc20_approve E t f tok sp c g = Inr ((new_tx E t ''ERC20.approve'' f tok c g)
     \<lparr>t_call_data := Some (hex_encode E (encode_input E ERC20_CONTRACT ''approve'' [TokAddress sp, TokUint u256_max]))\<rparr>)"
  by (simp add: create_erc20_approve_def with_data_def encode_erc20_approve_def contract_encode_def)

lemma chain_id_kept: "as_i64 (i64_as_u64 i) mod 2 ^ 64 = i mod 2 ^ 64"
proof -
  have "take_bit 64 (sint (word_of_int i :: u64)) = uint (word_of_int i :: u64)" by (simp add: uint_sint)
  then show ?thesis by (simp add: as_i64_def i64_as_u64_def take_bit_eq_mod uint_word_of_int)
qed

lemma queue_approval_result:
  assumes "queue_approval V req w = (r, w')" and "w_tick w = (if confirmed_allowance req w0 = None then Suc (w_tick w0) else w_tick w0)"
    and "w_db w = w_db w0"
  shows "if can_approve V req w0 then r = Inr 1 \<and> approval_queued V req w0 w'
    else (\<exists>f. r = Inl f) \<and> w_db w' = w_db w0"
proof (cases "can_approve V req w0")
  case False
  then show ?thesis
    using assms
    by (auto simp: can_approve_def queue_approval_def Let_def parse_address_def bindM_def ask_def now_def send_driver_event_def
        create_approve_row ok_or_def split: sum.splits prod.splits if_splits option.splits)
next
  case True
  then obtain owner token spender where parsed: "addr_of_str (ev_ext V) (ar_owner req) = Some owner"
    "addr_of_str (ev_ext V) (ar_token_addr req) = Some token" "addr_of_str (ev_ext V) (ar_spender_addr req) = Some spender"
    and possible: "ev_sign_possible V (w_tick w) owner = Inr ()"
    using assms(2) by (auto simp: can_approve_def)
  let ?t = "ev_now V (Suc (w_tick w))"
  let ?tx = "(new_tx (ev_ext V) ?t ''ERC20.approve'' owner token (i64_as_u64 (ar_chain_id req)) None)
     \<lparr>t_call_data := Some (hex_encode (ev_ext V) (encode_input (ev_ext V) ERC20_CONTRACT ''approve'' [TokAddress spender, TokUint u256_max]))\<rparr>"
  let ?al = "allowance_of_request req (dec_of_u256 (ev_ext V) u256_max) None"
  have step: "queue_approval V req w = bindM (db_transaction (bindM (sqlx (insert_tx ?tx)) (\<lambda>t. sqlx (insert_allowance
      (?al\<lparr>al_tx_id := Some (t_id t)\<rparr>))))) (\<lambda>_. ret 1) (w\<lparr>w_tick := w_tick w + 2\<rparr>)"
    using parsed possible
    by (simp add: queue_approval_def Let_def parse_address_def bindM_def [of "liftR _"] bindM_def [of "ask _"]
        bindM_def [of "now _"] ask_def now_def create_approve_row)
  obtain row d' where ins: "bindM (sqlx (insert_tx ?tx)) (\<lambda>t. sqlx (insert_allowance (?al\<lparr>al_tx_id := Some (t_id t)\<rparr>))) (w_db w) = (Inr row, d')"
    and rows: "tb_rows (d_tx d') = tx_rows w @ [(tx_row ?tx)\<lparr>t_id := tb_seq (d_tx (w_db w)) + 1\<rparr>]"
     "tb_rows (d_allowance d') = tb_rows (d_allowance (w_db w)) @
       [?al\<lparr>al_id := tb_seq (d_allowance (w_db w)) + 1, al_tx_id := Some (tb_seq (d_tx (w_db w)) + 1)\<rparr>]"
     "d_token_transfer d' = d_token_transfer (w_db w)"
    by (rule insert_approval_result)
  have ends: "r = Inr 1" "w_db w' = d'"
    using assms(1) by (auto simp: step bindM_def [of "db_transaction _"] db_transaction_eq ins)
  have "approves_maximum V req ((tx_row ?tx)\<lparr>t_id := tb_seq (d_tx (w_db w)) + 1\<rparr>)"
    using parsed by (simp add: approves_maximum_def Let_def tx_row_def new_tx_def tx_default_def chain_id_kept [simplified])
  then have "approval_queued V req w0 w'"
    unfolding approval_queued_def using rows ends(2) assms(3)
    by (intro exI [of _ "(tx_row ?tx)\<lparr>t_id := tb_seq (d_tx (w_db w)) + 1\<rparr>"] exI [of _ "tb_seq (d_allowance (w_db w)) + 1"])
      (simp add: approval_of_def tx_row_def)
  then show ?thesis using True ends(1) by simp
qed

lemma allowance_on_chain_answers:
  "allowance_on_chain V req w = (Inr v, w1) \<longleftrightarrow> chain_answers V req (w_tick w) v \<and> w1 = w\<lparr>w_tick := Suc (w_tick w)\<rparr>"
  by (auto simp: allowance_on_chain_def chain_answers_def parse_address_def check_allowance_def bindM_eq_Inr_iff rpc_done monad_simps Let_def
      split: if_splits)

lemma find_stored:
  "find_allowance (ar_owner req) (ar_token_addr req) (ar_spender_addr req) (ar_chain_id req) (w_db w) =
    (Inr (stored_allowance req w), w_db w)"
  by (simp add: find_allowance_def stored_allowance_def)

lemma known_allowance_low:
  assumes "v \<le> minimum_allowance"
  shows "known_allowance V req (stored_allowance req w) w = (Inr v, w1) \<longleftrightarrow> allowance_is V req w v \<and>
    w1 = w\<lparr>w_tick := if confirmed_allowance req w = None then Suc (w_tick w) else w_tick w\<rparr>"
proof (cases "confirmed_allowance req w")
  case None
  have "known_allowance V req (stored_allowance req w) w = (Inr v, w1) \<longleftrightarrow> allowance_on_chain V req w = (Inr v, w1)"
    using None assms
    by (auto simp: known_allowance_def confirmed_allowance_def bindM_eq_Inr_iff whenM_def split: option.splits if_splits)
  then show ?thesis using None by (simp add: allowance_is_def allowance_on_chain_answers)
next
  case (Some s)
  then show ?thesis
    by (auto simp: known_allowance_def confirmed_allowance_def allowance_is_def parse_dec_def ok_or_def split: option.splits if_splits)
qed

text \<open>C19. An approval is queued exactly when the chain is set up, the allowance (the confirmed one of the database, else the one the chain answers) is below half of
  the greatest amount (2^255 - 1), and the owner can sign: then the call returns one, a transaction that approves the maximum
  is appended to the queue together with an allowance row that refers to it, and the transfers stay. On every
  other outcome, errors included, the transactions and transfers are as before.\<close>

theorem approval_queued_iff_too_low:
  assumes "process_allowance V S req w = (r, w')"
  shows "if ps_chain_setup S (ar_chain_id req) \<noteq> None \<and> can_approve V req w \<and>
      (\<exists>v. allowance_is V req w v \<and> unat v < 2 ^ 255 - 1)
    then r = Inr 1 \<and> approval_queued V req w w'
    else (r = Inr 0 \<or> (\<exists>f. r = Inl f)) \<and> payments w' = payments w"
proof (cases "get_provider S (ar_chain_id req)")
  case (Inl f)
  then show ?thesis using assms by (auto simp: process_allowance_def get_provider_def split: option.splits)
next
  case (Inr u)
  have "unat minimum_allowance = 2 ^ 255 - 1" by (simp add: minimum_allowance_def unat_div unat_u256_max)
  then have min: "v < minimum_allowance \<longleftrightarrow> unat v < 2 ^ 255 - 1" for v by (simp add: word_less_nat_alt)
  have chain: "ps_chain_setup S (ar_chain_id req) \<noteq> None" using Inr by (auto simp: get_provider_def split: option.splits)
  obtain k w1 where k: "known_allowance V req (stored_allowance req w) w = (k, w1)" by fastforce
  have run: "(case k of Inl f \<Rightarrow> (r, w') = (Inl f, w1)
      | Inr v \<Rightarrow> (if v < minimum_allowance then queue_approval V req else ret 0) w1 = (r, w'))"
    using assms Inr k by (auto simp: process_allowance_def bindM_def db_run_eq find_stored split: sum.splits)
  show ?thesis
  proof (cases "\<exists>v. k = Inr v \<and> v < minimum_allowance")
    case True
    then obtain v where v: "k = Inr v" "v < minimum_allowance" by blast
    then have v_is: "allowance_is V req w v"
      and w1: "w1 = w\<lparr>w_tick := if confirmed_allowance req w = None then Suc (w_tick w) else w_tick w\<rparr>"
      using k known_allowance_low [of v V req w w1] by simp_all
    have "queue_approval V req w1 = (r, w')" using run v by simp
    from queue_approval_result [OF this, of w] show ?thesis
      using v_is v(2) chain by (auto simp: w1 min payments_def)
  next
    case False
    have "\<not> (\<exists>v. allowance_is V req w v \<and> v < minimum_allowance)"
      using False k known_allowance_low [of _ V req w] by (metis order_less_imp_le prod.inject)
    then show ?thesis
      using False run known_allowance_result(1) [OF k] by (auto simp: min split: sum.splits)
  qed
qed

text \<open>An allowance of exactly half of the maximum is neither recorded nor replaced: the call succeeds,
  queues nothing and leaves the database as it was, so the batch that asked is refused again.\<close>

theorem allowance_at_minimum_never_settled:
  assumes "get_provider S (ar_chain_id req) = Inr ()"
    and "find_allowance (ar_owner req) (ar_token_addr req) (ar_spender_addr req) (ar_chain_id req) (w_db w) = (Inr al, w_db w)"
    and "al = None \<or> al_confirm_date (the al) = None"
    and "fst (allowance_on_chain V req w) = Inr minimum_allowance"
  shows "\<exists>w'. process_allowance V S req w = (Inr 0, w') \<and> w_db w' = w_db w \<and> allowance_not_met (ev_ext V) al = Inr True"
proof -
  obtain w1 where c: "allowance_on_chain V req w = (Inr minimum_allowance, w1)"
    using assms(4) by (metis prod.collapse)
  then have "known_allowance V req al w = (Inr minimum_allowance, w1)"
    using assms(3) by (cases al) (auto simp: known_allowance_def bindM_def)
  moreover have "w_db w1 = w_db w"
    using known_allowance_result(2) [OF calculation refl order_refl] by blast
  ultimately show ?thesis
    using assms(1-3) by (cases al) (auto simp: process_allowance_def bindM_def db_run_eq allowance_not_met_def)
qed

section \<open>Concrete requests\<close>

text \<open>A chain that answers every call with the given bytes.\<close>

definition answering_env :: "bytes \<Rightarrow> env" where
  "answering_env bs = quiet_env\<lparr>ev_call := \<lambda>n c b. Inr bs\<rparr>"

definition sample_request :: allowance_request where
  "sample_request = \<lparr>ar_owner = ''a'', ar_token_addr = ''aaaa'', ar_spender_addr = ''aaaaaa'', ar_chain_id = 5,
     ar_amount = u256_max\<rparr>"

lemma sample_request_simps [simp]:
  "ar_owner sample_request = ''a''" "ar_token_addr sample_request = ''aaaa''" "ar_spender_addr sample_request = ''aaaaaa''"
  "ar_chain_id sample_request = 5" "get_provider sample_setup 5 = Inr ()"
  by (simp_all add: sample_request_def get_provider_def sample_setup_def)

lemma answering_env_simps [simp]:
  "ev_ext (answering_env bs) = unary" "ev_call (answering_env bs) n c b = Inr bs"
  "ev_sign_possible (answering_env bs) n a = Inr ()" "ev_now (answering_env bs) n = 1000 + int n"
  by (simp_all add: answering_env_def quiet_env_def)

lemma from_to_big_endian [simp]: "from_big_endian (to_big_endian v) = v"
  using unat_bound [of v] by (simp add: from_big_endian_def to_big_endian_def be_value_be_bytes pow_256)

lemma length_to_big_endian [simp]: "length (to_big_endian v) = 32"
  by (simp add: to_big_endian_def)

lemma sample_allowance_on_chain:
  "length bs = 32 \<Longrightarrow> allowance_on_chain (answering_env bs) sample_request w =
    (Inr (from_big_endian bs), w\<lparr>w_tick := w_tick w + 1\<rparr>)"
  by (simp add: allowance_on_chain_def parse_address_def unary_def check_allowance_def bindM_def
      encode_erc20_allowance_def contract_encode_def rpc_def ask_def)

theorem approval_queued_iff_too_low_witness:
  "\<exists>w' tx. process_allowance (answering_env (to_big_endian 0)) sample_setup sample_request world_initial = (Inr 1, w') \<and>
     tx_rows w' = [tx] \<and> t_method tx = ''ERC20.approve''"
proof -
  let ?V = "answering_env (to_big_endian 0)"
  have find: "find_allowance ''a'' ''aaaa'' ''aaaaaa'' 5 (w_db world_initial) = (Inr None, w_db world_initial)"
    by (simp add: find_allowance_def world_initial_def db_empty_def tbl_empty_def)
  have known: "known_allowance ?V sample_request None world_initial = (Inr 0, world_initial\<lparr>w_tick := 1\<rparr>)"
    by (simp add: known_allowance_def bindM_def sample_allowance_on_chain world_initial_def)
  have "0 < minimum_allowance" by (simp add: minimum_allowance_def u256_max_def)
  then have "\<exists>w'. process_allowance ?V sample_setup sample_request world_initial = (Inr 1, w')"
    by (simp add: process_allowance_def bindM_def db_run_eq find known queue_approval_def Let_def parse_address_def unary_def
      ask_def now_def create_erc20_approve_def with_data_def encode_erc20_approve_def contract_encode_def db_transaction_eq
      sqlx_def insert_tx_def insert_allowance_def constrained_def tbl_insert_def set_t_id_def fk_tx_def allowance_of_request_def)
  then obtain w' where run: "process_allowance ?V sample_setup sample_request world_initial = (Inr 1, w')" by blast
  have "approval_queued ?V sample_request world_initial w'"
    using approval_queued_iff_too_low [OF run] by (simp split: if_split_asm)
  then show ?thesis
    using run by (auto simp: approval_queued_def approves_maximum_def Let_def world_initial_def db_empty_def tbl_empty_def)
qed

theorem allowance_at_minimum_never_settled_witness:
  "\<exists>w'. process_allowance (answering_env (to_big_endian minimum_allowance)) sample_setup sample_request world_initial = (Inr 0, w') \<and>
     w_db w' = db_empty"
proof -
  let ?V = "answering_env (to_big_endian minimum_allowance)"
  have find: "find_allowance ''a'' ''aaaa'' ''aaaaaa'' 5 (w_db world_initial) = (Inr None, w_db world_initial)"
    by (simp add: find_allowance_def world_initial_def db_empty_def tbl_empty_def)
  have "fst (allowance_on_chain ?V sample_request world_initial) = Inr minimum_allowance"
    by (simp add: sample_allowance_on_chain)
  with allowance_at_minimum_never_settled [of sample_setup sample_request world_initial None ?V] find
  show ?thesis by (auto simp: world_initial_def)
qed

end
