(* ===== verification/Service.thy ===== *)
theory Service imports Results Allowance ProcessProofs begin

text \<open>
  The service of one account on one chain (\<open>sender/service.rs\<close>): \<open>process_transactions\<close> empties the queue of
  transactions, then \<open>service_loop\<close> gathers pending transfers and starts over. Both loops are run with fuel:
  they end only when there is no work left, and a chain that never mines a transaction keeps them going.
  Sleeping changes nothing but the later answers of the clock, so \<open>process_transactions\<close> returns the
  sleeps it made instead of making them; the waiting times of the code are f64, here they are exact.
\<close>

section \<open>The queue\<close>

definition next_wait :: "payment_setup \<Rightarrow> rat \<Rightarrow> rat" where
  "next_wait S current =
     (let raised = (if current < of_nat (ps_no_gas_or_token_start S) then of_nat (ps_no_gas_or_token_start S)
                    else current * ps_no_gas_or_token_increase S)
      in if raised \<ge> of_nat (ps_no_gas_or_token_max S) then of_nat (ps_no_gas_or_token_max S) else raised)"

text \<open>The sleep after a round: because of missing gas or tokens, or the usual interval.\<close>

datatype sleep = WaitForFunds rat | ProcessInterval

definition report_failure :: "env \<Rightarrow> i64 \<Rightarrow> error_bag \<Rightarrow> 'a prg" where
  "report_failure V i e = bindM (shared (set_tx_error i (Some
       (case e of TransactionFailedError message \<Rightarrow> message | _ \<Rightarrow> ev_bag_text V e)))) (\<lambda>_. throw (Err e))"

definition run_transaction ::
    "env \<Rightarrow> payment_setup \<Rightarrow> nat \<Rightarrow> tx_db_obj \<Rightarrow> (tx_db_obj \<times> process_transaction_result) prg" where
  "run_transaction V S fuel tx =
     bindM (gets (\<lambda>w. is_skipped (t_id tx) (w_shared w))) (\<lambda>skipped.
     if skipped then ret (tx, InternalError ''Transaction skipped by user'')
     else bindM (tx_message tx ''Processing'') (\<lambda>_.
          bindM (catch_err (process_transaction V S fuel tx False)) (\<lambda>r. case r of
              Inr res \<Rightarrow> ret res
            | Inl e \<Rightarrow> report_failure V (t_id tx) e)))"

definition forget_tx :: "tx_db_obj \<Rightarrow> unit prg" where
  "forget_tx tx = shared (delete_tx_info (t_id tx))"

text \<open>One transaction of the queue: the new waiting time and the sleep at the end, if there is one.\<close>

definition handle_result ::
    "env \<Rightarrow> payment_setup \<Rightarrow> rat \<Rightarrow> tx_db_obj \<Rightarrow> process_transaction_result \<Rightarrow> (rat \<times> sleep option) prg" where
  "handle_result V S wait tx res =
     (let wait' = (if res = DoNotSaveWaitForGasOrToken then wait else 0) in
      if res = Replaced then bindM (forget_tx tx) (\<lambda>_. ret (wait', None))
      else
        bindM (save_result V tx res) (\<lambda>tx'.
        if res = Confirmed
        then bindM (send_driver_event V (TransactionConfirmed tx')) (\<lambda>_. ret (wait', None))
        else
          bindM (whenM (res \<noteq> UnknownResult) (forget_tx tx')) (\<lambda>_.
          if res = DoNotSaveWaitForGasOrToken
          then let waited = next_wait S wait' in ret (waited, Some (WaitForFunds waited))
          else ret (wait', Some ProcessInterval))))"

fun process_transactions_from ::
    "env \<Rightarrow> payment_setup \<Rightarrow> address \<Rightarrow> i64 \<Rightarrow> nat \<Rightarrow> nat \<Rightarrow> rat \<Rightarrow> sleep list prg" where
  "process_transactions_from V S account chain_id tx_fuel 0 wait = throw OutOfFuel"
| "process_transactions_from V S account chain_id tx_fuel (Suc fuel) wait =
     bindM (db_run (get_next_transactions_to_process (ev_ext V) (Some account) 1 chain_id)) (\<lambda>transactions.
     case transactions of
       [] \<Rightarrow> ret []
     | tx # _ \<Rightarrow>
         bindM (run_transaction V S tx_fuel tx) (\<lambda>(tx', res).
         bindM (handle_result V S wait tx' res) (\<lambda>(wait', slept).
         bindM (process_transactions_from V S account chain_id tx_fuel fuel wait') (\<lambda>sleeps.
           ret ((case slept of None \<Rightarrow> [] | Some s \<Rightarrow> [s]) @ sleeps)))))"

definition process_transactions ::
    "env \<Rightarrow> payment_setup \<Rightarrow> address \<Rightarrow> i64 \<Rightarrow> nat \<Rightarrow> nat \<Rightarrow> sleep list prg" where
  "process_transactions V S account chain_id tx_fuel fuel =
     process_transactions_from V S account chain_id tx_fuel fuel 0"

section \<open>The time of the next gathering\<close>

definition try_seconds :: "nat \<Rightarrow> failure + int" where
  "try_seconds n = (let s = (if n < 2 ^ 63 then int n else int n - 2 ^ 64) in
     if \<bar>s\<bar> > 9223372036854775 then Inl (Panic ''Invalid gather interval'') else Inr s)"

definition get_next_gather_time :: "timestamp option \<Rightarrow> timestamp \<Rightarrow> nat \<Rightarrow> failure + timestamp" where
  "get_next_gather_time external_gather_time last_gather_time interval =
     bindE (try_seconds interval) (\<lambda>s.
       let next_gather_time = last_gather_time + s
       in Inr (case external_gather_time of Some t \<Rightarrow> min t next_gather_time | None \<Rightarrow> next_gather_time))"

text \<open>The second component is the external gather time afterwards.\<close>

definition get_next_gather_time_and_clear_if_success ::
    "timestamp option \<Rightarrow> timestamp \<Rightarrow> nat \<Rightarrow> timestamp \<Rightarrow> failure + timestamp option \<times> timestamp option" where
  "get_next_gather_time_and_clear_if_success external_gather_time last_gather_time interval t =
     bindE (get_next_gather_time external_gather_time last_gather_time interval) (\<lambda>next_gather_time.
       Inr (if t \<ge> next_gather_time then (None, None) else (Some next_gather_time, external_gather_time)))"

text \<open>
  The sleep before a gathering that is not due: until it is, but no longer than the report interval after the
  start. A wake-up starts over, because it may have set an earlier time for the account. The result is the list of
  the sleeps begun; the sleep changes nothing but the later answers of the clock.
\<close>

fun sleep_rounds ::
    "env \<Rightarrow> (nat \<Rightarrow> timestamp option) \<Rightarrow> (nat \<Rightarrow> bool) \<Rightarrow> nat \<Rightarrow> nat \<Rightarrow> timestamp \<Rightarrow> timestamp \<Rightarrow> nat \<Rightarrow> int list prg" where
  "sleep_rounds V external_time woken interval report_alive last_gather_time started 0 = throw OutOfFuel"
| "sleep_rounds V external_time woken interval report_alive last_gather_time started (Suc fuel) =
     bindM (now V) (\<lambda>current_time.
     bindM (ask external_time) (\<lambda>external_gather_time.
     bindM (liftR (get_next_gather_time external_gather_time last_gather_time interval)) (\<lambda>next_gather_time.
     if current_time \<ge> next_gather_time then ret []
     else let max_sleep_time = int report_alive - (current_time - started) in
       if max_sleep_time \<le> 0 then ret []
       else let sleep_time = min max_sleep_time (next_gather_time - current_time) in
         bindM (ask woken) (\<lambda>w. if w
           then bindM (sleep_rounds V external_time woken interval report_alive last_gather_time started fuel)
             (\<lambda>sleeps. ret (sleep_time # sleeps))
           else ret [sleep_time]))))"

definition sleep_for_gather_time_or_report_alive ::
    "env \<Rightarrow> (nat \<Rightarrow> timestamp option) \<Rightarrow> (nat \<Rightarrow> bool) \<Rightarrow> nat \<Rightarrow> nat \<Rightarrow> timestamp \<Rightarrow> nat \<Rightarrow> int list prg" where
  "sleep_for_gather_time_or_report_alive V external_time woken interval report_alive last_gather_time fuel =
     bindM (now V) (\<lambda>started. sleep_rounds V external_time woken interval report_alive last_gather_time started fuel)"

section \<open>The rounds of the service\<close>

record service_state =
  sv_last_gather_time :: timestamp
  sv_external_gather_time :: "timestamp option"

datatype next_round = Again | Finished

definition service_start :: "env \<Rightarrow> payment_setup \<Rightarrow> timestamp option \<Rightarrow> service_state prg" where
  "service_start V S external_gather_time =
     bindM (now V) (\<lambda>t.
     if ps_gather_at_start S
     then bindM (liftR (try_seconds (ps_gather_interval S))) (\<lambda>s.
       ret \<lparr>sv_last_gather_time = t - s, sv_external_gather_time = external_gather_time\<rparr>)
     else ret \<lparr>sv_last_gather_time = t, sv_external_gather_time = external_gather_time\<rparr>)"

text \<open>
  What a failed gathering does: \<open>Some True\<close> to start over at once because an approval was queued,
  otherwise it goes on to look at what was gathered.
\<close>

definition gather_failed :: "env \<Rightarrow> payment_setup \<Rightarrow> error_bag \<Rightarrow> bool prg" where
  "gather_failed V S e = (case e of
       NoAllowanceFound request \<Rightarrow>
         bindM (catch_err (process_allowance V S request)) (\<lambda>r. case r of
             Inr _ \<Rightarrow> bindM (shared (\<lambda>s. s\<lparr>sh_idling := False\<rparr>)) (\<lambda>_. ret True)
           | Inl _ \<Rightarrow> ret False)
     | _ \<Rightarrow> ret False)"

definition finish_gathering ::
    "payment_setup \<Rightarrow> timestamp \<Rightarrow> service_state \<Rightarrow> bool \<Rightarrow> (next_round \<times> service_state) prg" where
  "finish_gathering S current_time st process_tx_needed =
     (let st' = st\<lparr>sv_last_gather_time := current_time\<rparr> in
      if ps_finish_when_done S \<and> \<not> process_tx_needed then ret (Finished, st')
      else bindM (shared (\<lambda>s. s\<lparr>sh_idling := \<not> process_tx_needed\<rparr>)) (\<lambda>_. ret (Again, st')))"

definition gather_round ::
    "(multi_key_map \<Rightarrow> multi_key_map) \<Rightarrow> env \<Rightarrow> payment_setup \<Rightarrow> address \<Rightarrow> i64 \<Rightarrow> timestamp \<Rightarrow> service_state \<Rightarrow>
     (next_round \<times> service_state) prg" where
  "gather_round visit V S account chain_id current_time st =
     bindM (catch_err (gather_transactions_pre V S account chain_id)) (\<lambda>r. case r of
       Inl _ \<Rightarrow> ret (Again, st)
     | Inr (token_transfer_map, process_tx_needed) \<Rightarrow>
         bindM (catch_err (gather_transactions_post visit V S token_transfer_map)) (\<lambda>r. case r of
           Inr count \<Rightarrow> finish_gathering S current_time st (process_tx_needed \<or> count > 0)
         | Inl e \<Rightarrow>
             bindM (gather_failed V S e) (\<lambda>approval_queued.
               if approval_queued then ret (Again, st) else finish_gathering S current_time st True)))"

text \<open>\<open>registered\<close> answers whether the account is still among those of the driver.\<close>

definition service_round ::
    "(multi_key_map \<Rightarrow> multi_key_map) \<Rightarrow> (nat \<Rightarrow> bool) \<Rightarrow> env \<Rightarrow> payment_setup \<Rightarrow> address \<Rightarrow> i64 \<Rightarrow> nat \<Rightarrow> nat \<Rightarrow>
     service_state \<Rightarrow> (next_round \<times> service_state) prg" where
  "service_round visit registered V S account chain_id tx_fuel fuel st =
     bindM (ask registered) (\<lambda>known.
     if \<not> known then ret (Finished, st)
     else
       bindM (now V) (\<lambda>current_time.
       bindM (if ps_generate_tx_only S then ret (Inr [])
              else catch_err (process_transactions V S account chain_id tx_fuel fuel)) (\<lambda>r. case r of
         Inl _ \<Rightarrow> ret (Again, st)
       | Inr _ \<Rightarrow>
           bindM (now V) (\<lambda>t.
           bindM (liftR (get_next_gather_time_and_clear_if_success (sv_external_gather_time st)
                    (sv_last_gather_time st) (ps_gather_interval S) t)) (\<lambda>(next_gather_time, external).
           let st' = st\<lparr>sv_external_gather_time := external\<rparr> in
           if \<not> ps_finish_when_done S \<and> next_gather_time \<noteq> None then ret (Again, st')
           else gather_round visit V S account chain_id current_time st')))))"

fun service_loop_from ::
    "(multi_key_map \<Rightarrow> multi_key_map) \<Rightarrow> (nat \<Rightarrow> bool) \<Rightarrow> env \<Rightarrow> payment_setup \<Rightarrow> address \<Rightarrow> i64 \<Rightarrow> nat \<Rightarrow> nat \<Rightarrow>
     service_state \<Rightarrow> service_state prg" where
  "service_loop_from visit registered V S account chain_id tx_fuel 0 st = throw OutOfFuel"
| "service_loop_from visit registered V S account chain_id tx_fuel (Suc fuel) st =
     bindM (service_round visit registered V S account chain_id tx_fuel fuel st) (\<lambda>(n, st'). case n of
         Finished \<Rightarrow> ret st'
       | Again \<Rightarrow> service_loop_from visit registered V S account chain_id tx_fuel fuel st')"

definition service_loop ::
    "(multi_key_map \<Rightarrow> multi_key_map) \<Rightarrow> (nat \<Rightarrow> bool) \<Rightarrow> env \<Rightarrow> payment_setup \<Rightarrow> address \<Rightarrow> i64 \<Rightarrow> nat \<Rightarrow> nat \<Rightarrow>
     timestamp option \<Rightarrow> service_state prg" where
  "service_loop visit registered V S account chain_id tx_fuel fuel external_gather_time =
     bindM (service_start V S external_gather_time)
       (service_loop_from visit registered V S account chain_id tx_fuel fuel)"

section \<open>Invariants\<close>

lemma preserves_forget_tx [preserves_intro]: "preserves world_ok (forget_tx tx)"
  unfolding forget_tx_def by (intro preserves_intro)

lemma preserves_run_transaction [preserves_intro]: "preserves world_ok (run_transaction V S n tx)"
  unfolding run_transaction_def report_failure_def by (intro preserves_intro)

lemma preserves_handle_result [preserves_intro]: "preserves world_ok (handle_result V S wait tx r)"
  unfolding handle_result_def Let_def by (intro preserves_intro)

lemma preserves_get_next_txs [preserves_intro]: "preserves I (get_next_transactions_to_process E a l c)"
  unfolding get_next_transactions_to_process_def get_transactions_def by (rule preserves_gets)

lemma preserves_process_transactions_from [preserves_intro]:
  "preserves world_ok (process_transactions_from V S a c n m wait)"
  by (induction V S a c n m wait rule: process_transactions_from.induct)
    (auto intro!: preserves_intro split: list.split)

lemma preserves_process_transactions [preserves_intro]: "preserves world_ok (process_transactions V S a c n m)"
  unfolding process_transactions_def by (rule preserves_process_transactions_from)

lemma preserves_gather_failed [preserves_intro]: "preserves world_ok (gather_failed V S e)"
  unfolding gather_failed_def by (cases e) (auto intro!: preserves_intro)

lemma preserves_finish_gathering [preserves_intro]: "preserves world_ok (finish_gathering S t st b)"
  unfolding finish_gathering_def Let_def by (intro preserves_intro)

lemma preserves_gather_round [preserves_intro]: "preserves world_ok (gather_round visit V S a c t st)"
  unfolding gather_round_def by (intro preserves_intro ok_gather_pre ok_gather_post)

lemma preserves_service_round [preserves_intro]: "preserves world_ok (service_round visit reg V S a c n m st)"
  unfolding service_round_def Let_def by (intro preserves_intro)

lemma preserves_service_loop_from [preserves_intro]:
  "preserves world_ok (service_loop_from visit reg V S a c n m st)"
proof (induction m arbitrary: st)
  case (Suc m)
  have "preserves world_ok (case x of Finished \<Rightarrow> ret st' | Again \<Rightarrow> service_loop_from visit reg V S a c n m st')" for x st'
    by (cases x) (auto intro: Suc preserves_intro)
  then show ?case by (auto intro!: preserves_intro)
qed (auto intro: preserves_intro)

lemma preserves_service_loop: "preserves world_ok (service_loop visit reg V S a c n m ext)"
  unfolding service_loop_def service_start_def by (intro preserves_intro)

end
