(* ===== verification/ServiceProofs.thy ===== *)
theory ServiceProofs imports Service TransferRows Sample begin

text \<open>
  Proofs on the service (\<open>Service\<close>): the queue is empty when \<open>process_transactions\<close> returns, the waiting
  times when funds are missing, and the queue of transactions the user skips, which is always emptied.
\<close>

definition waits_in_queue :: "externals \<Rightarrow> address \<Rightarrow> i64 \<Rightarrow> tx_db_obj \<Rightarrow> bool" where
  "waits_in_queue E account chain_id t \<longleftrightarrow>
     t_chain_id t = chain_id \<and> t_from_addr t = str_of_addr E account \<and> t_processing t > 0"

lemma next_in_queue:
  "get_next_transactions_to_process E (Some a) 1 c d =
    (Inr (take 1 (sort_key (order_key IdAndReplacementId) (filter (waits_in_queue E a c) (tb_rows (d_tx d))))), d)"
  by (simp add: get_next_transactions_to_process_def get_transactions_def limit_opt_def sql_limit_def order_by_def
      tbl_select_def filter_to_process_def waits_in_queue_def cong: filter_cong)

lemma queue_cases:
  obtains (empty) "filter (waits_in_queue (ev_ext V) a c) (tx_rows w) = []"
    "db_run (get_next_transactions_to_process (ev_ext V) (Some a) 1 c) w = (Inr [], w)"
  | (first) tx where "tx \<in> set (tx_rows w)" "waits_in_queue (ev_ext V) a c tx"
    "db_run (get_next_transactions_to_process (ev_ext V) (Some a) 1 c) w = (Inr [tx], w)"
proof (cases "sort_key (order_key IdAndReplacementId) (filter (waits_in_queue (ev_ext V) a c) (tx_rows w))")
  case Nil
  then have "filter (waits_in_queue (ev_ext V) a c) (tx_rows w) = []"
    by (metis length_0_conv length_sort)
  moreover have "db_run (get_next_transactions_to_process (ev_ext V) (Some a) 1 c) w = (Inr [], w)"
    by (simp add: db_run_eq next_in_queue Nil)
  ultimately show thesis by (rule empty)
next
  case (Cons tx ts)
  then have "tx \<in> set (filter (waits_in_queue (ev_ext V) a c) (tx_rows w))"
    by (metis list.set_intros(1) set_sort)
  moreover have "db_run (get_next_transactions_to_process (ev_ext V) (Some a) 1 c) w = (Inr [tx], w)"
    by (simp add: db_run_eq next_in_queue Cons)
  ultimately show thesis by (intro first [of tx]) simp_all
qed

section \<open>The queue is empty at the end\<close>

lemma queue_empty_at_end:
  "process_transactions_from V S a c n m wait w = (Inr sleeps, w') \<Longrightarrow>
    filter (waits_in_queue (ev_ext V) a c) (tx_rows w') = []"
proof (induction V S a c n m wait arbitrary: w sleeps rule: process_transactions_from.induct)
  case (2 V S a c n m wait)
  show ?case
  proof (cases rule: queue_cases [of V a c w])
    case empty
    with "2.prems" show ?thesis by (simp add: bindM_def)
  next
    case (first tx)
    with "2.prems" show ?thesis
      by (auto simp: bindM_def [of "db_run _"] bindM_eq_Inr_iff dest!: "2.IH")
  qed
qed simp

text \<open>C20. When the processing of the queue returns successfully, no transaction of the account on the chain is
  waiting any more: none is left behind by an early return.\<close>

theorem returns_only_with_empty_queue:
  assumes "process_transactions V S account chain_id tx_fuel fuel w = (Inr sleeps, w')"
    and "t \<in> set (tx_rows w')" and "t_chain_id t = chain_id" and "t_from_addr t = str_of_addr (ev_ext V) account"
  shows "t_processing t \<le> 0"
  using queue_empty_at_end [OF assms(1) [unfolded process_transactions_def]] assms(2-4)
  by (auto simp: filter_empty_conv waits_in_queue_def)

section \<open>Waiting for funds\<close>

definition backoff :: "payment_setup \<Rightarrow> nat \<Rightarrow> rat" where
  "backoff S k = min (of_nat (ps_no_gas_or_token_max S))
     (of_nat (ps_no_gas_or_token_start S) * ps_no_gas_or_token_increase S ^ k)"

lemma next_wait_backoff:
  assumes "0 < ps_no_gas_or_token_start S" and "1 \<le> ps_no_gas_or_token_increase S"
  shows "next_wait S 0 = backoff S 0" and "next_wait S (backoff S k) = backoff S (Suc k)"
proof -
  let ?s = "of_nat (ps_no_gas_or_token_start S) :: rat" and ?i = "ps_no_gas_or_token_increase S"
    and ?m = "of_nat (ps_no_gas_or_token_max S) :: rat"
  show "next_wait S 0 = backoff S 0" using assms(1) by (simp add: next_wait_def backoff_def)
  have "1 \<le> ?i ^ k" "1 \<le> ?i ^ Suc k" using assms(2) by (rule one_le_power)+
  then have grow: "?s \<le> ?s * ?i ^ k" "?s \<le> ?s * ?i ^ Suc k"
    using mult_left_mono [of 1 "?i ^ k" ?s] mult_left_mono [of 1 "?i ^ Suc k" ?s] by simp_all
  show "next_wait S (backoff S k) = backoff S (Suc k)"
  proof (cases "?m \<le> ?s * ?i ^ k")
    case True
    then have b: "backoff S k = ?m" by (simp add: backoff_def)
    have m: "?m \<le> ?m * ?i" using assms(2) mult_left_mono [of 1 ?i ?m] by simp
    have "?s * ?i ^ k \<le> ?s * ?i ^ k * ?i"
      using assms(2) mult_left_mono [of 1 ?i "?s * ?i ^ k"] grow(1) by (simp add: order_trans [OF _ grow(1)])
    with True have "?m \<le> ?s * ?i ^ k * ?i" by (rule order_trans)
    then have "?m \<le> ?s * ?i ^ Suc k" by (simp only: power_Suc2 mult.assoc)
    then show ?thesis unfolding b using m by (auto simp: next_wait_def backoff_def Let_def)
  next
    case False
    then show ?thesis using grow(1) by (simp add: backoff_def next_wait_def Let_def min_def mult_ac)
  qed
qed

lemma handle_result_wait:
  assumes "handle_result V S wait tx res w = (Inr (wait', slept), w')"
  shows "slept = Some (WaitForFunds d) \<Longrightarrow> d = next_wait S wait \<and> wait' = d"
    and "(\<And>d. slept \<noteq> Some (WaitForFunds d)) \<Longrightarrow> wait' = 0"
  using assms
  by (auto simp: handle_result_def Let_def bindM_eq_Inr_iff split: if_splits)

text \<open>The waiting time is zero or one of the first \<open>j\<close> values of the back-off.\<close>

definition backed_off :: "payment_setup \<Rightarrow> nat \<Rightarrow> rat \<Rightarrow> bool" where
  "backed_off S j d \<longleftrightarrow> (\<exists>k < j. d = backoff S k)"

lemma backed_off_mono: "backed_off S j d \<Longrightarrow> j \<le> i \<Longrightarrow> backed_off S i d"
  by (auto simp: backed_off_def intro: less_le_trans)

lemma backed_off_next:
  assumes "0 < ps_no_gas_or_token_start S" and "1 \<le> ps_no_gas_or_token_increase S" and "wait = 0 \<or> backed_off S j wait"
  shows "backed_off S (Suc j) (next_wait S wait)"
  using assms(3) next_wait_backoff [OF assms(1,2)] by (fastforce simp: backed_off_def)

lemma sleeps_backed_off:
  assumes "0 < ps_no_gas_or_token_start S" and "1 \<le> ps_no_gas_or_token_increase S"
  shows "process_transactions_from V S a c n m wait w = (Inr sleeps, w') \<Longrightarrow> wait = 0 \<or> backed_off S j wait \<Longrightarrow>
    WaitForFunds d \<in> set sleeps \<Longrightarrow> backed_off S (j + length sleeps) d"
proof (induction m arbitrary: wait w sleeps j)
  case (Suc m)
  show ?case
  proof (cases rule: queue_cases [of V a c w])
    case empty
    with Suc.prems show ?thesis by (simp add: bindM_def)
  next
    case (first tx)
    obtain tx' res w1 wait' slept w2 rest where h: "handle_result V S wait tx' res w1 = (Inr (wait', slept), w2)"
      and rest: "process_transactions_from V S a c n m wait' w2 = (Inr rest, w')"
      and sleeps: "sleeps = (case slept of None \<Rightarrow> [] | Some s \<Rightarrow> [s]) @ rest"
      using Suc.prems(1) first(3) by (auto simp: bindM_def [of "db_run _"] bindM_eq_Inr_iff)
    note wait' = handle_result_wait [OF h]
    show ?thesis
    proof (cases "\<exists>d. slept = Some (WaitForFunds d)")
      case True
      then obtain d0 where d0: "slept = Some (WaitForFunds d0)" by blast
      then have "backed_off S (Suc j) d0" "wait' = d0"
        using wait'(1) backed_off_next [OF assms Suc.prems(2)] by simp_all
      moreover from this Suc.IH [OF rest, of "Suc j"]
      have "backed_off S (Suc j + length rest) d" if "WaitForFunds d \<in> set rest" using that by simp
      ultimately show ?thesis
        using Suc.prems(3) d0 by (auto simp: sleeps intro: backed_off_mono)
    next
      case False
      then have "wait' = 0" by (intro wait'(2)) blast
      moreover have "WaitForFunds d \<in> set rest" using Suc.prems(3) False by (auto simp: sleeps split: option.splits)
      ultimately have "backed_off S (j + length rest) d" using Suc.IH [OF rest] by simp
      then show ?thesis by (rule backed_off_mono) (simp add: sleeps)
    qed
  qed
qed simp

text \<open>While funds are missing the driver waits longer and longer, but never without bound: every such wait
  is the configured start times a power of the configured increase, cut off at the configured maximum, and
  the exponent is below the number of waits so far.\<close>

theorem waits_for_funds_back_off:
  assumes "0 < ps_no_gas_or_token_start S" and "1 \<le> ps_no_gas_or_token_increase S"
    and "process_transactions V S account chain_id tx_fuel fuel w = (Inr sleeps, w')" and "WaitForFunds d \<in> set sleeps"
  shows "\<exists>k < length sleeps. d = min (of_nat (ps_no_gas_or_token_max S))
     (of_nat (ps_no_gas_or_token_start S) * ps_no_gas_or_token_increase S ^ k)"
  using sleeps_backed_off [OF assms(1,2) assms(3) [unfolded process_transactions_def] _ assms(4), of 0]
  by (simp add: backed_off_def backoff_def)

section \<open>Skipped transactions\<close>

lemma forM_fail_transfers:
  "\<forall>t\<in>set ts. fk_tx (w_db w) (tt_tx_id t) \<Longrightarrow>
    \<exists>d. forM ts (\<lambda>t. bindM (db_run (update_token_transfer (fail_transfer err t))) (\<lambda>_. ret ())) w = (Inr (), w\<lparr>w_db := d\<rparr>) \<and>
      d_tx d = d_tx (w_db w) \<and> d_allowance d = d_allowance (w_db w) \<and> d_foreign_keys d = d_foreign_keys (w_db w)"
proof (induction ts arbitrary: w)
  case Nil
  show ?case by (intro exI [of _ "w_db w"]) simp
next
  case (Cons t ts)
  obtain d where d: "update_token_transfer (fail_transfer err t) (w_db w) = (Inr (fail_transfer err t), d)"
    "d_tx d = d_tx (w_db w)" "d_foreign_keys d = d_foreign_keys (w_db w)" "d_allowance d = d_allowance (w_db w)"
    using Cons.prems by (simp add: update_token_transfer_def constrained_def fail_transfer_def update_tt_where_def)
  have "\<forall>u\<in>set ts. fk_tx (w_db (w\<lparr>w_db := d\<rparr>)) (tt_tx_id u)"
    using Cons.prems fk_tx_cong [OF d(2,3)] by simp
  from Cons.IH [OF this] d show ?case by (auto simp: bindM_def db_run_eq)
qed

definition skipped_row :: "tx_db_obj \<Rightarrow> tx_db_obj" where
  "skipped_row t = tx_row (t\<lparr>t_processing := 0, t_error := Some ''Transaction skipped by user''\<rparr>)"

lemma skipped_row_simps [simp]:
  "t_id (skipped_row t) = t_id t" "t_processing (skipped_row t) = 0" "t_error (skipped_row t) = Some ''Transaction skipped by user''"
  by (simp_all add: skipped_row_def tx_row_def)

text \<open>
  The transactions the rows of allowances refer to. An approval is queued in one database transaction with a row
  that refers to it (\<open>AllowanceProofs\<close>), and saving its result needs that row.
\<close>

definition approved_txs :: "world \<Rightarrow> i64 option list" where
  "approved_txs w = map al_tx_id (tb_rows (d_allowance (w_db w)))"

lemma fail_approve_result:
  assumes "world_ok w" and "Some (t_id tx) \<in> set (approved_txs w)"
  obtains d where "fail_approve tx e w = (Inr (tx\<lparr>t_processing := 0, t_error := Some e\<rparr>), w\<lparr>w_db := d\<rparr>)"
    and "tb_rows (d_tx d) = map (\<lambda>t. if t_id t = t_id tx then tx_row (tx\<lparr>t_processing := 0, t_error := Some e\<rparr>) else t) (tx_rows w)"
    and "map al_tx_id (tb_rows (d_allowance d)) = approved_txs w"
proof -
  let ?rows = "tb_rows (d_allowance (w_db w))"
  obtain al where al: "find (\<lambda>a. al_tx_id a = Some (t_id tx)) ?rows = Some al"
    using assms(2) by (cases "find (\<lambda>a. al_tx_id a = Some (t_id tx)) ?rows") (auto simp: find_None_iff approved_txs_def)
  then have in_rows: "al \<in> set ?rows" "al_tx_id al = Some (t_id tx)" by (auto simp: find_Some_iff)
  have unique: "a = al" if "a \<in> set ?rows" "al_id a = al_id al" for a
    using assms(1) in_rows(1) that by (auto simp: world_ok_def db_ok_def keys_ok_def tbl_wf_def distinct_map inj_on_def)
  have fk: "fk_tx (w_db w) (al_tx_id al)"
    using assms(1) in_rows(1) by (auto simp: world_ok_def db_ok_def fk_ok_def fk_tx_iff list_all_iff)
  let ?al = "al\<lparr>al_fee_paid := Some ''0'', al_error := Some e\<rparr>"
  let ?d = "update_tx_where (t_id tx) (\<lambda>_. tx_row (tx\<lparr>t_processing := 0, t_error := Some e\<rparr>))
     (update_al_where (\<lambda>a. al_id a = al_id al) (\<lambda>_. ?al) (w_db w))"
  have "map al_tx_id (tb_rows (d_allowance ?d)) = approved_txs w"
    using in_rows(2) unique [THEN arg_cong, of _ al_tx_id]
    by (auto simp: update_tx_where_def update_al_where_def tbl_update_where_def approved_txs_def)
  moreover have "tb_rows (d_tx ?d) = map (\<lambda>t. if t_id t = t_id tx then tx_row (tx\<lparr>t_processing := 0, t_error := Some e\<rparr>) else t) (tx_rows w)"
    by (simp add: update_tx_where_def update_al_where_def tbl_update_where_def)
  moreover have "fail_approve tx e w = (Inr (tx\<lparr>t_processing := 0, t_error := Some e\<rparr>), w\<lparr>w_db := ?d\<rparr>)"
    using fk
    by (simp add: fail_approve_def Let_def in_transaction_def bindM_def db_run_eq get_allowance_by_tx_def al fetch_one_def
        update_allowance_def constrained_def update_tx_def)
  ultimately show thesis using that by blast
qed

lemma save_skipped:
  assumes "world_ok w" and "t_method tx = ''ERC20.approve'' \<longrightarrow> Some (t_id tx) \<in> set (approved_txs w)"
  obtains d where
    "save_result V tx (InternalError ''Transaction skipped by user'') w =
      (Inr (tx\<lparr>t_processing := 0, t_error := Some ''Transaction skipped by user''\<rparr>), w\<lparr>w_db := d\<rparr>)"
    and "tb_rows (d_tx d) = map (\<lambda>t. if t_id t = t_id tx then skipped_row tx else t) (tx_rows w)"
    and "map al_tx_id (tb_rows (d_allowance d)) = approved_txs w"
proof -
  consider (pays) "pays_token_transfers (t_method tx)"
    | (approve) "\<not> pays_token_transfers (t_method tx)" "t_method tx = ''ERC20.approve''"
    | (other) "\<not> pays_token_transfers (t_method tx)" "t_method tx \<noteq> ''ERC20.approve''"
    by blast
  then show thesis
  proof cases
    case pays
    let ?ts = "filter (\<lambda>t. tt_tx_id t = Some (t_id tx)) (tb_rows (d_token_transfer (w_db w)))"
    have "\<forall>t\<in>set ?ts. fk_tx (w_db w) (tt_tx_id t)"
      using assms(1) by (auto simp: world_ok_def db_ok_def fk_ok_def fk_tx_iff list_all_iff)
    from forM_fail_transfers [OF this, of "''Transaction skipped by user''"] obtain d where
      "forM ?ts (\<lambda>t. bindM (db_run (update_token_transfer (fail_transfer ''Transaction skipped by user'' t))) (\<lambda>_. ret ())) w =
        (Inr (), w\<lparr>w_db := d\<rparr>)" "d_tx d = d_tx (w_db w)" "d_allowance d = d_allowance (w_db w)" by blast
    with pays show thesis
      by (intro that [of "update_tx_where (t_id tx) (\<lambda>_. skipped_row tx) d"])
        (simp_all add: save_result_def update_token_transfer_result_def fail_transfers_def Let_def in_transaction_def bindM_def
          db_run_eq get_token_transfers_by_tx_def tbl_select_def update_tx_def update_tx_where_def tbl_update_where_def skipped_row_def
          approved_txs_def)
  next
    case approve
    with assms(2) have "Some (t_id tx) \<in> set (approved_txs w)" by simp
    from fail_approve_result [OF assms(1) this, of "''Transaction skipped by user''"] obtain d where
      "fail_approve tx ''Transaction skipped by user'' w =
        (Inr (tx\<lparr>t_processing := 0, t_error := Some ''Transaction skipped by user''\<rparr>), w\<lparr>w_db := d\<rparr>)"
      "tb_rows (d_tx d) = map (\<lambda>t. if t_id t = t_id tx then skipped_row tx else t) (tx_rows w)"
      "map al_tx_id (tb_rows (d_allowance d)) = approved_txs w"
      unfolding skipped_row_def by blast
    with approve show thesis by (intro that [of d]) (simp_all add: save_result_def update_approve_result_def)
  next
    case other
    then show thesis
      by (intro that [of "update_tx_where (t_id tx) (\<lambda>_. skipped_row tx) (w_db w)"])
        (simp_all add: save_result_def update_tx_result_def Let_def bindM_def db_run_eq update_tx_def update_tx_where_def
          tbl_update_where_def skipped_row_def approved_txs_def)
  qed
qed

definition skippable :: "externals \<Rightarrow> address \<Rightarrow> i64 \<Rightarrow> world \<Rightarrow> bool" where
  "skippable E a c w \<longleftrightarrow> (\<forall>t\<in>set (tx_rows w). waits_in_queue E a c t \<longrightarrow>
     is_skipped (t_id t) (w_shared w) \<and> (t_method t = ''ERC20.approve'' \<longrightarrow> Some (t_id t) \<in> set (approved_txs w)))"

lemma skip_round:
  assumes "world_ok w" and "skippable (ev_ext V) a c w" and "tx \<in> set (tx_rows w)" and "waits_in_queue (ev_ext V) a c tx"
  obtains w1 where "bindM (run_transaction V S n tx) (\<lambda>(tx', res). handle_result V S wait tx' res) w = (Inr (0, Some ProcessInterval), w1)"
    and "world_ok w1" and "w_shared w1 = delete_tx_info (t_id tx) (w_shared w)" and "approved_txs w1 = approved_txs w"
    and "tx_rows w1 = map (\<lambda>t. if t_id t = t_id tx then skipped_row tx else t) (tx_rows w)"
proof -
  have skip: "is_skipped (t_id tx) (w_shared w)" "t_method tx = ''ERC20.approve'' \<longrightarrow> Some (t_id tx) \<in> set (approved_txs w)"
    using assms(2-4) by (auto simp: skippable_def)
  obtain d where d: "save_result V tx (InternalError ''Transaction skipped by user'') w =
      (Inr (tx\<lparr>t_processing := 0, t_error := Some ''Transaction skipped by user''\<rparr>), w\<lparr>w_db := d\<rparr>)"
    and rows: "tb_rows (d_tx d) = map (\<lambda>t. if t_id t = t_id tx then skipped_row tx else t) (tx_rows w)"
    and approved: "map al_tx_id (tb_rows (d_allowance d)) = approved_txs w"
    by (rule save_skipped [OF assms(1) skip(2)])
  let ?w = "w\<lparr>w_db := d, w_shared := delete_tx_info (t_id tx) (w_shared w)\<rparr>"
  have run: "bindM (run_transaction V S n tx) (\<lambda>(tx', res). handle_result V S wait tx' res) w = (Inr (0, Some ProcessInterval), ?w)"
    by (simp add: run_transaction_def skip(1) bindM_def handle_result_def d forget_tx_def shared_def)
  have "preserves world_ok (bindM (run_transaction V S n tx) (\<lambda>(tx', res). handle_result V S wait tx' res))"
    by (intro preserves_intro)
  from preservesD [OF this assms(1) run] show thesis
    by (intro that [OF run]) (simp_all add: rows approved_txs_def approved [unfolded approved_txs_def])
qed

lemma map_skip_rows:
  assumes "distinct (map t_id rows)" and "tx \<in> set rows" and "P tx" and "\<And>t. P t \<Longrightarrow> \<not> P (skipped_row t)"
  shows "map (\<lambda>t. if P t then skipped_row t else t) (map (\<lambda>t. if t_id t = t_id tx then skipped_row tx else t) rows) =
      map (\<lambda>t. if P t then skipped_row t else t) rows"
    and "length (filter P rows) = Suc (length (filter P (map (\<lambda>t. if t_id t = t_id tx then skipped_row tx else t) rows)))"
proof -
  have unique: "t = tx" if "t \<in> set rows" "t_id t = t_id tx" for t
    using assms(1,2) that by (auto simp: distinct_map inj_on_def)
  then show "map (\<lambda>t. if P t then skipped_row t else t) (map (\<lambda>t. if t_id t = t_id tx then skipped_row tx else t) rows) =
      map (\<lambda>t. if P t then skipped_row t else t) rows"
    using assms(3,4) by auto
  obtain ps qs where rows: "rows = ps @ tx # qs" using assms(2) by (meson split_list)
  have "t_id tx \<notin> t_id ` (set ps \<union> set qs)" using assms(1) unfolding rows by auto
  then have "t_id t \<noteq> t_id tx" if "t \<in> set ps \<union> set qs" for t
    using imageI [OF that, of t_id] by metis
  then have "map (\<lambda>t. if t_id t = t_id tx then skipped_row tx else t) ps = ps"
    "map (\<lambda>t. if t_id t = t_id tx then skipped_row tx else t) qs = qs"
    by (auto intro: map_idI)
  then show "length (filter P rows) = Suc (length (filter P (map (\<lambda>t. if t_id t = t_id tx then skipped_row tx else t) rows)))"
    unfolding rows using assms(3,4) by simp
qed

lemma drain_skipped:
  "length (filter (waits_in_queue (ev_ext V) a c) (tx_rows w)) < m \<Longrightarrow> world_ok w \<Longrightarrow> skippable (ev_ext V) a c w \<Longrightarrow>
    \<exists>w'. process_transactions_from V S a c n m wait w =
        (Inr (replicate (length (filter (waits_in_queue (ev_ext V) a c) (tx_rows w))) ProcessInterval), w') \<and>
      tx_rows w' = map (\<lambda>t. if waits_in_queue (ev_ext V) a c t then skipped_row t else t) (tx_rows w)"
proof (induction m arbitrary: w wait)
  case (Suc m)
  let ?P = "waits_in_queue (ev_ext V) a c"
  show ?case
  proof (cases rule: queue_cases [of V a c w])
    case empty
    then show ?thesis by (simp add: bindM_def filter_empty_conv map_idI)
  next
    case (first tx)
    obtain w1 where run: "bindM (run_transaction V S n tx) (\<lambda>(tx', res). handle_result V S wait tx' res) w = (Inr (0, Some ProcessInterval), w1)"
      and ok: "world_ok w1" and shared: "w_shared w1 = delete_tx_info (t_id tx) (w_shared w)"
      and approved: "approved_txs w1 = approved_txs w"
      and rows: "tx_rows w1 = map (\<lambda>t. if t_id t = t_id tx then skipped_row tx else t) (tx_rows w)"
      by (rule skip_round [OF Suc.prems(2,3) first(1,2)])
    have "distinct (map t_id (tx_rows w))"
      using Suc.prems(2) by (simp add: world_ok_def db_ok_def keys_ok_def tbl_wf_def)
    moreover have "?P t \<Longrightarrow> \<not> ?P (skipped_row t)" for t by (simp add: waits_in_queue_def)
    ultimately have skip: "map (\<lambda>t. if ?P t then skipped_row t else t) (tx_rows w1) = map (\<lambda>t. if ?P t then skipped_row t else t) (tx_rows w)"
      "length (filter ?P (tx_rows w)) = Suc (length (filter ?P (tx_rows w1)))"
      unfolding rows using first(1,2) map_skip_rows [of "tx_rows w" tx ?P] by blast+
    have "skippable (ev_ext V) a c w1"
      using Suc.prems(3) unfolding skippable_def rows shared approved by (auto simp: waits_in_queue_def)
    with ok skip(2) Suc.prems(1) obtain w' where w': "process_transactions_from V S a c n m 0 w1 =
        (Inr (replicate (length (filter ?P (tx_rows w1))) ProcessInterval), w')"
      "tx_rows w' = map (\<lambda>t. if ?P t then skipped_row t else t) (tx_rows w1)"
      using Suc.IH [of w1 0] by auto
    obtain tx' res w0 where "run_transaction V S n tx w = (Inr (tx', res), w0)"
      "handle_result V S wait tx' res w0 = (Inr (0, Some ProcessInterval), w1)"
      using run by (auto simp: bindM_eq_Inr_iff)
    with first(3) w' skip show ?thesis by (simp add: bindM_def)
  qed
qed simp

text \<open>C21. When the user has skipped every waiting transaction of the account (an approval among them having the
  allowance row it was queued with), the processing of the queue ends: it makes exactly one round for each of
  them, leaves each out of processing with the error that says so, and changes no other transaction.\<close>

theorem skipped_transactions_drained:
  assumes "world_ok w"
    and "\<forall>t\<in>set (tx_rows w). waits_in_queue (ev_ext V) account chain_id t \<longrightarrow>
      is_skipped (t_id t) (w_shared w) \<and> (t_method t = ''ERC20.approve'' \<longrightarrow>
        (\<exists>al\<in>set (tb_rows (d_allowance (w_db w))). al_tx_id al = Some (t_id t)))"
    and "length (filter (waits_in_queue (ev_ext V) account chain_id) (tx_rows w)) < fuel"
  shows "\<exists>w'. process_transactions V S account chain_id tx_fuel fuel w =
      (Inr (replicate (length (filter (waits_in_queue (ev_ext V) account chain_id) (tx_rows w))) ProcessInterval), w') \<and>
    tx_rows w' = map (\<lambda>t. if waits_in_queue (ev_ext V) account chain_id t
      then tx_row (t\<lparr>t_processing := 0, t_error := Some ''Transaction skipped by user''\<rparr>) else t) (tx_rows w)"
proof -
  have "skippable (ev_ext V) account chain_id w"
    using assms(2) by (force simp: skippable_def approved_txs_def)
  from drain_skipped [OF assms(3,1) this] show ?thesis
    by (simp only: process_transactions_def flip: skipped_row_def)
qed

section \<open>Concrete queues\<close>

definition queued_tx :: "i64 \<Rightarrow> i64 \<Rightarrow> tx_db_obj" where
  "queued_tx i processing = (tx_default 0)\<lparr>t_id := i, t_from_addr := ''a'', t_to_addr := ''aa'', t_chain_id := 5,
     t_method := ''FAUCET.create'', t_processing := processing, t_first_processed := Some 0, t_nonce := Some 4, t_call_data := Some [],
     t_max_fee_per_gas := Some ''111'', t_priority_fee := Some ''1'', t_val := []\<rparr>"

definition queue_world :: "i64 \<Rightarrow> shared_state \<Rightarrow> world" where
  "queue_world processing sh = world_initial\<lparr>w_db := db_empty\<lparr>d_tx := \<lparr>tb_rows = [queued_tx 1 processing], tb_seq = 1\<rparr>\<rparr>,
     w_shared := sh\<rparr>"

definition skipping :: shared_state where
  "skipping = snd (skip_tx 1 (set_tx_message 1 [] shared_initial))"

lemma queue_world_simps [simp]:
  "tx_rows (queue_world p sh) = [queued_tx 1 p]" "is_skipped 1 skipping" "w_shared (queue_world p sh) = sh"
  "t_id (queued_tx i p) = i" "t_chain_id (queued_tx i p) = 5" "t_from_addr (queued_tx i p) = ''a''"
  "t_processing (queued_tx i p) = p" "t_method (queued_tx i p) = ''FAUCET.create''" "str_of_addr (ev_ext quiet_env) 1 = ''a''"
  by (simp_all add: skipping_def queue_world_def queued_tx_def skip_tx_def set_tx_message_def shared_initial_def is_skipped_def
      quiet_env_def unary_def)

lemma world_ok_queue: "world_ok (queue_world p sh)"
  by (simp add: queue_world_def world_ok_def db_ok_def keys_ok_def fk_ok_def db_empty_def tbl_wf_def tbl_empty_def)

theorem returns_only_with_empty_queue_witness:
  "\<exists>w'. process_transactions quiet_env sample_setup 1 5 9 1 (queue_world 0 shared_initial) = (Inr [], w') \<and>
     queued_tx 1 0 \<in> set (tx_rows w') \<and> t_processing (queued_tx 1 0) \<le> 0"
proof -
  let ?w = "queue_world 0 shared_initial"
  have run: "process_transactions quiet_env sample_setup 1 5 9 1 ?w = (Inr [], ?w)"
    by (simp add: process_transactions_def bindM_def db_run_eq next_in_queue waits_in_queue_def)
  from returns_only_with_empty_queue [OF run, of "queued_tx 1 0"] run show ?thesis by simp
qed

theorem skipped_transactions_drained_witness:
  "\<exists>w'. process_transactions quiet_env sample_setup 1 5 9 2 (queue_world 1 skipping) = (Inr [ProcessInterval], w') \<and>
     map t_processing (tx_rows w') = [0]"
  using skipped_transactions_drained [OF world_ok_queue, of 1 skipping quiet_env 1 5 2 sample_setup 9]
  by (auto simp: waits_in_queue_def tx_row_def)

text \<open>A faucet that refuses: the transaction is removed and the driver waits.\<close>

definition refusing_env :: env where
  "refusing_env = quiet_env\<lparr>ev_estimate_gas := \<lambda>n c. Inl Unreachable, ev_error_text := \<lambda>e. ''Cannot acquire more funds''\<rparr>"

lemma refused_round:
  "\<exists>tx' w'. process_transaction refusing_env sample_setup 9 (queued_tx 1 1) False (queue_world 1 sh) =
      (Inr (tx', DoNotSaveWaitForGasOrToken), w') \<and> tx_rows w' = []"
  by (simp add: process_transaction_def queue_world_def queued_tx_def tx_default_def refusing_env_def quiet_env_def unary_def sample_setup_def
    ask_def bindM_def obtain_nonce_def mark_first_processed_def now_def check_and_sign_def check_gas_def tx_message_def shared_def
    check_transaction_def dao_to_call_request_def parse_address_def parse_dec_def decode_data_to_bytes_def tx_max_fee_def
    tx_priority_fee_def Let_def estimation_failed_def world_initial_def db_empty_def
    remove_transaction_force_def db_transaction_eq chain_of_def tbl_find_def sqlx_def cleanup_allowance_tx_def cleanup_token_transfer_tx_def
    delete_tx_def constrained_def update_al_where_def update_tt_where_def tbl_update_where_def tbl_delete_where_def tbl_empty_def)

lemma save_nothing: "save_result V tx DoNotSaveWaitForGasOrToken = ret tx"
  by (simp add: save_result_def update_token_transfer_result_def update_approve_result_def update_tx_result_def)

theorem waits_for_funds_back_off_witness:
  "\<exists>w'. process_transactions refusing_env sample_setup 1 5 9 2 (queue_world 1 shared_initial) = (Inr [WaitForFunds 30], w') \<and>
     (30 :: rat) = min 200 (30 * (3 / 2) ^ 0)"
proof -
  let ?w = "queue_world 1 shared_initial" and ?sh = "set_tx_message 1 ''Processing'' shared_initial"
  obtain tx' w' where round: "process_transaction refusing_env sample_setup 9 (queued_tx 1 1) False (queue_world 1 ?sh) =
      (Inr (tx', DoNotSaveWaitForGasOrToken), w')" "tx_rows w' = []" using refused_round by blast
  have q: "ev_ext refusing_env = ev_ext quiet_env" "\<not> is_skipped 1 shared_initial" "?w\<lparr>w_shared := s\<rparr> = queue_world 1 s" for s
    by (simp_all add: refusing_env_def is_skipped_def shared_initial_def queue_world_def)
  have first: "run_transaction refusing_env sample_setup 9 (queued_tx 1 1) ?w = (Inr (tx', DoNotSaveWaitForGasOrToken), w')"
    by (simp add: run_transaction_def q bindM_def tx_message_def shared_def catch_err_def round(1))
  have "handle_result refusing_env sample_setup 0 tx' DoNotSaveWaitForGasOrToken w' =
      (Inr (30, Some (WaitForFunds 30)), w'\<lparr>w_shared := delete_tx_info (t_id tx') (w_shared w')\<rparr>)"
    by (simp add: handle_result_def save_nothing forget_tx_def shared_def bindM_def next_wait_def sample_setup_def)
  then have run: "process_transactions refusing_env sample_setup 1 5 9 2 ?w =
      (Inr [WaitForFunds 30], w'\<lparr>w_shared := delete_tx_info (t_id tx') (w_shared w')\<rparr>)"
    using round(2) by (simp add: process_transactions_def numeral_2_eq_2 bindM_def db_run_eq next_in_queue waits_in_queue_def q first)
  show ?thesis using waits_for_funds_back_off [OF _ _ run, of 30] run by (auto simp: sample_setup_def)
qed

section \<open>The sleep between two rounds\<close>

text \<open>As long as the clock does not run backwards no sleep is longer than the report interval.\<close>

lemma sleep_rounds_bounded:
  assumes "\<And>n. started \<le> ev_now V n"
    and "sleep_rounds V external_time woken interval report_alive last_gather_time started fuel w = (Inr sleeps, w')"
  shows "\<forall>s\<in>set sleeps. 0 < s \<and> s \<le> int report_alive"
  using assms(2)
proof (induction fuel arbitrary: w sleeps w')
  case (Suc fuel)
  have "started \<le> ev_now V (w_tick w)" by (rule assms(1))
  with Suc.prems Suc.IH show ?case
    by (fastforce simp: monad_simps ask_def now_def bindM_def Let_def min_def split: if_splits sum.splits prod.splits)
qed simp

text \<open>A wait that nobody interrupts is one sleep, which ends when the gathering is due or the report is.\<close>

lemma undisturbed_sleep:
  assumes "get_next_gather_time (external_time n) last_gather_time interval = Inr next_gather_time"
    and "w_tick w + 2 = n" and "\<not> woken (n + 1)" and "0 < fuel"
  shows "\<exists>w'. sleep_for_gather_time_or_report_alive V external_time woken interval report_alive last_gather_time fuel w =
    (Inr (let t = ev_now V (w_tick w + 1); left = int report_alive - (t - ev_now V (w_tick w))
          in if t < next_gather_time \<and> 0 < left then [min left (next_gather_time - t)] else []), w') \<and> w_db w' = w_db w"
proof -
  have n: "n = Suc (Suc (w_tick w))" using assms(2) by simp
  show ?thesis
    using assms(1,3,4) unfolding n
    by (cases fuel) (auto simp: sleep_for_gather_time_or_report_alive_def monad_simps ask_def now_def bindM_def Let_def liftR_def)
qed

end
