(* ===== verification/Runtime.thy ===== *)
theory Runtime imports Eth Removal Batching begin

text \<open>
  The operations of the runtime that its callers use (\<open>runtime.rs\<close>): queueing a transfer, minting, and
  the operations on deposits. \<open>chain_config\<close> holds the fields of a \<open>Chain\<close> of the configuration
  these operations read; a chain is looked up by its name. The accounts of the driver are a list of
  addresses with their external gather times. Waking the service up is no change of state.
\<close>

record chain_config =
  cc_chain_id :: i64
  cc_token_address :: address
  cc_mint_contract :: "address option"

type_synonym chain_configs = "string \<rightharpoonup> chain_config"

definition chain_named :: "chain_configs \<Rightarrow> string \<Rightarrow> failure + chain_config" where
  "chain_named cfg chain_name = ok_or (err_custom ''Chain not found in config file'') (cfg chain_name)"

section \<open>Accounts\<close>

record signer_account =
  sa_address :: address
  sa_external_gather_time :: "timestamp option"

section \<open>Transfers\<close>

datatype transfer_type = Token | Gas

record transfer_args =
  ta_network :: string
  ta_from :: address
  ta_receiver :: address
  ta_tx_type :: transfer_type
  ta_amount :: u256
  ta_payment_id :: string
  ta_deadline :: "timestamp option"
  ta_deposit_id :: "string option"

definition new_gather_time :: "payment_setup \<Rightarrow> timestamp option \<Rightarrow> timestamp option \<Rightarrow> timestamp option" where
  "new_gather_time S deadline external_gather_time =
     (if ps_ignore_deadlines S then external_gather_time
      else (case deadline of
          None \<Rightarrow> external_gather_time
        | Some d \<Rightarrow> Some (case external_gather_time of Some t \<Rightarrow> min t d | None \<Rightarrow> d)))"

definition transfer_with_account ::
    "env \<Rightarrow> payment_setup \<Rightarrow> chain_configs \<Rightarrow> signer_account \<Rightarrow> transfer_args \<Rightarrow> signer_account prg" where
  "transfer_with_account V S cfg account args =
     bindM (liftR (chain_named cfg (ta_network args))) (\<lambda>chain_cfg.
     let token_addr = (case ta_tx_type args of Token \<Rightarrow> Some (cc_token_address chain_cfg) | Gas \<Rightarrow> None) in
     bindM (now V) (\<lambda>created.
     let token_transfer = create_token_transfer (ev_ext V) created (ta_from args) (ta_receiver args)
           (cc_chain_id chain_cfg) (Some (ta_payment_id args)) token_addr (ta_amount args) (ta_deposit_id args) in
     bindM (now V) (\<lambda>inserted.
     bindM (on_db (insert_token_transfer_with_deposit_check inserted token_transfer)) (\<lambda>_.
       ret (account\<lparr>sa_external_gather_time :=
         new_gather_time S (ta_deadline args) (sa_external_gather_time account)\<rparr>)))))"

definition transfer_guess_account ::
    "env \<Rightarrow> payment_setup \<Rightarrow> chain_configs \<Rightarrow> signer_account list \<Rightarrow> transfer_args \<Rightarrow> signer_account prg" where
  "transfer_guess_account V S cfg accounts args =
     (case find (\<lambda>a. sa_address a = ta_from args) accounts of
        Some account \<Rightarrow> transfer_with_account V S cfg account args
      | None \<Rightarrow> throw (err_custom ''Account not found in active accounts''))"

section \<open>Minting\<close>

definition check_mint_balances :: "env \<Rightarrow> address \<Rightarrow> address \<Rightarrow> unit prg" where
  "check_mint_balances V from_a glm_address =
     bindM (rpc (\<lambda>n. ev_balance V n from_a None)) (\<lambda>b.
     if to_eth_saturate b < 5 / 1000 then throw (err_custom ''You need at least 0.005 ETH to continue'')
     else bindM (get_token_balance V glm_address from_a None) (\<lambda>t.
       if to_eth_saturate t > 500 then throw (err_custom ''You already have tGLM on network'') else ret ()))"

definition pending_of :: "env \<Rightarrow> address \<Rightarrow> string \<Rightarrow> u64 \<Rightarrow> (db, failure, tx_db_obj list) prog" where
  "pending_of V from_a meth chain_id = sqlx (get_transactions (ev_ext V) (Some from_a)
     (Some (\<lambda>t. t_method t = meth \<and> t_fee_paid t = None)) None None (Some (as_i64 chain_id)))"

definition mint_golem_token ::
    "env \<Rightarrow> u64 \<Rightarrow> address \<Rightarrow> address \<Rightarrow> address option \<Rightarrow> bool \<Rightarrow> unit prg" where
  "mint_golem_token V chain_id from_a glm_address faucet_contract_address skip_balance_check =
     (case faucet_contract_address of
        None \<Rightarrow> throw (err_custom ''Faucet/mint contract address unknown. If not sure try on holesky network'')
      | Some faucet \<Rightarrow>
          bindM (whenM (\<not> skip_balance_check) (check_mint_balances V from_a glm_address)) (\<lambda>_.
          in_transaction
            (bindM (on_db (pending_of V from_a ''FAUCET.create'' chain_id)) (\<lambda>tx_existing.
             if tx_existing \<noteq> [] then throw (err_custom ''You already have a pending mint (create) transaction'')
             else bindM (now V) (\<lambda>t.
                  bindM (liftR (create_faucet_mint (ev_ext V) t from_a faucet chain_id None)) (\<lambda>faucet_mint_tx.
                  bindM (db_run (insert_tx faucet_mint_tx)) (\<lambda>_. ret ())))))))"

definition runtime_mint_golem_token :: "env \<Rightarrow> payment_setup \<Rightarrow> chain_configs \<Rightarrow> string \<Rightarrow> address \<Rightarrow> unit prg" where
  "runtime_mint_golem_token V S cfg chain_name from_a =
     bindM (liftR (chain_named cfg chain_name)) (\<lambda>chain_cfg.
     bindM (liftR (get_provider S (cc_chain_id chain_cfg))) (\<lambda>_.
       mint_golem_token V (i64_as_u64 (cc_chain_id chain_cfg)) from_a (cc_token_address chain_cfg)
         (cc_mint_contract chain_cfg) False))"

section \<open>Deposits\<close>

definition runtime_deposit_details :: "env \<Rightarrow> u256 \<Rightarrow> address \<Rightarrow> deposit_details prg" where
  "runtime_deposit_details V deposit_id lock_contract_address =
     bindM (get_latest_block_info V) (\<lambda>block_info.
     bindM (get_deposit_details V deposit_id lock_contract_address (Some (wb_block_number block_info))) (\<lambda>result.
       ret (result\<lparr>dd_current_block_datetime := Some (wb_block_date block_info)\<rparr>)))"

record close_deposit_options =
  co_lock_contract_address :: address
  co_skip_deposit_check :: bool
  co_deposit_id :: u256
  co_token_address :: address

definition check_closable :: "env \<Rightarrow> address \<Rightarrow> close_deposit_options \<Rightarrow> unit prg" where
  "check_closable V from_a opt =
     bindM (runtime_deposit_details V (co_deposit_id opt) (co_lock_contract_address opt)) (\<lambda>details.
       if dd_amount_decimal details = 0 then throw (err_custom ''Deposit not found'')
       else if dd_spender details \<noteq> from_a then throw (err_custom ''You are not the spender of deposit'')
       else ret ())"

text \<open>The unassigned transfer with the greatest id; of two with the same id the earlier one is kept.\<close>

fun candidate_for_mark_close :: "token_transfer_db_obj option \<Rightarrow> token_transfer_db_obj list \<Rightarrow> token_transfer_db_obj option" where
  "candidate_for_mark_close candidate [] = candidate"
| "candidate_for_mark_close candidate (tt # tts) =
     (if tt_tx_id tt = None
      then (case candidate of
          Some old_tx \<Rightarrow> candidate_for_mark_close (Some (if tt_id old_tx < tt_id tt then tt else old_tx)) tts
        | None \<Rightarrow> candidate_for_mark_close (Some tt) tts)
      else candidate_for_mark_close candidate tts)"

definition close_marker :: "env \<Rightarrow> timestamp \<Rightarrow> u64 \<Rightarrow> address \<Rightarrow> close_deposit_options \<Rightarrow> token_transfer_db_obj" where
  "close_marker V date chain_id from_a opt = (let E = ev_ext V in
     \<lparr>tt_id = 0, tt_payment_id = Some (''close_deposit_'' @ hex_of_u256 E (co_deposit_id opt)),
      tt_from_addr = str_of_addr E from_a, tt_receiver_addr = str_of_addr E 0, tt_chain_id = as_i64 chain_id,
      tt_token_addr = Some (str_of_addr E (co_token_address opt)), tt_token_amount = ''0'',
      tt_deposit_id = Some (hex_of_u256 E (co_deposit_id opt)), tt_deposit_finish = 1, tt_create_date = date,
      tt_tx_id = None, tt_paid_date = None, tt_fee_paid = None, tt_error = None\<rparr>)"

definition mark_deposit_closed :: "env \<Rightarrow> u64 \<Rightarrow> address \<Rightarrow> close_deposit_options \<Rightarrow> unit prg" where
  "mark_deposit_closed V chain_id from_a opt =
     bindM (db_run (get_token_transfers_by_deposit_id (as_i64 chain_id) (hex_of_u256 (ev_ext V) (co_deposit_id opt))))
       (\<lambda>current_token_transfers.
     if list_ex (\<lambda>tt. tt_deposit_finish tt > 0) current_token_transfers
     then throw (err_custom ''Deposit already being closed or closed'')
     else (case candidate_for_mark_close None current_token_transfers of
         Some tt \<Rightarrow> bindM (db_run (update_token_transfer (tt\<lparr>tt_deposit_finish := 1\<rparr>))) (\<lambda>_. ret ())
       | None \<Rightarrow>
           bindM (now V) (\<lambda>date.
           bindM (now V) (\<lambda>inserted.
           bindM (db_run (insert_token_transfer inserted (close_marker V date chain_id from_a opt))) (\<lambda>_. ret ())))))"

definition close_deposit :: "env \<Rightarrow> u64 \<Rightarrow> address \<Rightarrow> close_deposit_options \<Rightarrow> unit prg" where
  "close_deposit V chain_id from_a opt =
     bindM (whenM (\<not> co_skip_deposit_check opt) (check_closable V from_a opt)) (\<lambda>_.
       in_transaction (mark_deposit_closed V chain_id from_a opt))"

record terminate_deposit_options =
  to_lock_contract_address :: address
  to_skip_deposit_check :: bool
  to_deposit_id :: u256

definition check_terminable :: "env \<Rightarrow> address \<Rightarrow> terminate_deposit_options \<Rightarrow> unit prg" where
  "check_terminable V from_a opt =
     bindM (runtime_deposit_details V (to_deposit_id opt) (to_lock_contract_address opt)) (\<lambda>details.
       if dd_amount_decimal details = 0 then throw (err_custom ''Deposit not found'')
       else if dd_funder details \<noteq> from_a then throw (err_custom ''You are not the funder of deposit'')
       else bindM (now V) (\<lambda>t.
         if dd_valid_to details - t > 10 then throw (err_custom ''Deposit is not ready to be terminated'') else ret ()))"

definition terminate_deposit :: "env \<Rightarrow> u64 \<Rightarrow> address \<Rightarrow> terminate_deposit_options \<Rightarrow> unit prg" where
  "terminate_deposit V chain_id from_a opt =
     bindM (whenM (\<not> to_skip_deposit_check opt) (check_terminable V from_a opt)) (\<lambda>_.
     bindM (now V) (\<lambda>t.
     bindM (liftR (create_terminate_deposit (ev_ext V) t from_a (to_lock_contract_address opt) chain_id None
              (nonce_from_deposit_id (to_deposit_id opt)))) (\<lambda>free_deposit_tx.
     bindM (db_transaction (sqlx (insert_tx free_deposit_tx))) (\<lambda>_. ret ()))))"

record create_deposit_options =
  no_lock_contract_address :: address
  no_spender :: address
  no_skip_balance_check :: bool
  no_amount :: "rat option"
  no_fee_amount :: "rat option"
  no_deposit_nonce :: u64
  no_timestamp :: u64

definition check_deposit_balance :: "env \<Rightarrow> address \<Rightarrow> address \<Rightarrow> u256 \<Rightarrow> u256 \<Rightarrow> unit prg" where
  "check_deposit_balance V glm_address from_a amount fee_amount =
     bindM (get_latest_block_info V) (\<lambda>block_info.
     bindM (get_token_balance V glm_address from_a (Some (wb_block_number block_info))) (\<lambda>token_balance.
     bindM (liftR (u256_add amount fee_amount)) (\<lambda>needed.
       if token_balance < needed then throw (err_custom ''You don't have enough GLM on network'') else ret ())))"

definition make_deposit ::
    "env \<Rightarrow> u64 \<Rightarrow> address \<Rightarrow> address \<Rightarrow> create_deposit_options \<Rightarrow> unit prg" where
  "make_deposit V chain_id from_a glm_address opt =
     bindM (require (err_custom ''Amount not specified. Use --amount'') (no_amount opt)) (\<lambda>a.
     bindM (liftR (to_u256_from_eth (ev_checked_mul V) a)) (\<lambda>amount.
     bindM (require (err_custom ''Fee amount not specified. Use --fee-amount'') (no_fee_amount opt)) (\<lambda>f.
     bindM (liftR (to_u256_from_eth (ev_checked_mul V) f)) (\<lambda>fee_amount.
     bindM (whenM (\<not> no_skip_balance_check opt) (check_deposit_balance V glm_address from_a amount fee_amount)) (\<lambda>_.
     in_transaction
       (bindM (on_db (pending_of V from_a ''LOCK.deposit'' chain_id)) (\<lambda>tx_existing.
        if tx_existing \<noteq> [] then throw (err_custom ''You already have a pending deposit transaction'')
        else bindM (now V) (\<lambda>t.
             bindM (liftR (create_create_deposit (ev_ext V) t from_a (no_lock_contract_address opt) chain_id None
                \<lparr>cd_deposit_nonce = no_deposit_nonce opt, cd_deposit_spender = no_spender opt, cd_deposit_amount = amount,
                 cd_deposit_fee_amount = fee_amount, cd_deposit_fee_percent = 0, cd_deposit_timestamp = no_timestamp opt\<rparr>)) (\<lambda>deposit_tx.
             bindM (db_run (insert_tx deposit_tx)) (\<lambda>_. ret ()))))))))))"

section \<open>Invariants\<close>

lemma preserves_insert_with_check [preserves_intro]: "preserves db_ok (insert_token_transfer_with_deposit_check t tt)"
  unfolding insert_token_transfer_with_deposit_check_def check_if_deposit_closed_def by (intro preserves_intro)

lemma preserves_transfer_with_account [preserves_intro]: "preserves world_ok (transfer_with_account V S cfg a args)"
  unfolding transfer_with_account_def Let_def by (intro preserves_intro)

lemma preserves_transfer_guess_account [preserves_intro]: "preserves world_ok (transfer_guess_account V S cfg as args)"
  unfolding transfer_guess_account_def by (intro preserves_intro)

lemma asks_check_mint [asks_intro]: "asks (check_mint_balances V a g)"
  unfolding check_mint_balances_def by (intro asks_intro)

lemma asks_runtime_deposit_details [asks_intro]: "asks (runtime_deposit_details V i l)"
  unfolding runtime_deposit_details_def by (intro asks_intro)

lemma asks_check_closable [asks_intro]: "asks (check_closable V a opt)"
  unfolding check_closable_def by (intro asks_intro)

lemma asks_check_terminable [asks_intro]: "asks (check_terminable V a opt')"
  unfolding check_terminable_def by (intro asks_intro)

lemma asks_check_deposit_balance [asks_intro]: "asks (check_deposit_balance V g a m f)"
  unfolding check_deposit_balance_def by (intro asks_intro)

lemmas runtime_asks_preserves [preserves_intro] = asks_check_mint [THEN asks_preserves]
  asks_check_closable [THEN asks_preserves] asks_check_terminable [THEN asks_preserves]
  asks_check_deposit_balance [THEN asks_preserves]

lemma preserves_pending_of [preserves_intro]: "preserves I (sqlx (get_transactions E a p l ord c))"
  unfolding get_transactions_def by (simp add: preserves_def sqlx_def gets_def)

lemma preserves_mint [preserves_intro]: "preserves world_ok (mint_golem_token V c a g f b)"
  unfolding mint_golem_token_def pending_of_def by (intro preserves_intro)

lemma preserves_runtime_mint [preserves_intro]: "preserves world_ok (runtime_mint_golem_token V S cfg n a)"
  unfolding runtime_mint_golem_token_def by (intro preserves_intro)

lemma preserves_get_by_deposit [preserves_intro]: "preserves I (get_token_transfers_by_deposit_id c i)"
  unfolding get_token_transfers_by_deposit_id_def by (rule preserves_gets)

lemma preserves_close_deposit [preserves_intro]: "preserves world_ok (close_deposit V c a opt)"
  unfolding close_deposit_def mark_deposit_closed_def by (intro preserves_intro)

lemma preserves_terminate_deposit [preserves_intro]: "preserves world_ok (terminate_deposit V c a opt')"
  unfolding terminate_deposit_def by (intro preserves_intro)

lemma preserves_make_deposit [preserves_intro]: "preserves world_ok (make_deposit V c a g opt'')"
  unfolding make_deposit_def pending_of_def by (intro preserves_intro)

end
