(* ===== verification/RuntimeProofs.thy ===== *)
theory RuntimeProofs imports Runtime TransferRows Sample begin

text \<open>
  Proofs on the operations of the runtime (\<open>Runtime\<close>): a deposit is closed once and for all, a pending mint
  blocks a second one, and the two checks that do not work: the one on pending deposits and the one on the
  time a deposit is valid.
\<close>

section \<open>Closing a deposit\<close>

definition of_deposit :: "i64 \<Rightarrow> string \<Rightarrow> token_transfer_db_obj \<Rightarrow> bool" where
  "of_deposit c i t \<longleftrightarrow> tt_chain_id t = c \<and> tt_deposit_id t = Some i"

lemma candidate_for_mark_close_result:
  "candidate_for_mark_close cand tts = Some t \<Longrightarrow>
    (t \<in> set tts \<and> tt_tx_id t = None) \<or> cand = Some t"
  by (induction cand tts rule: candidate_for_mark_close.induct)
    (auto split: if_splits option.splits)

lemma filter_overwrite_one:
  assumes "distinct (map tt_id rows)" and "r \<in> set rows" and "tt_id n = tt_id r" and "P n" and "\<forall>t\<in>set rows. \<not> P t"
  shows "filter P (map (overwrite [n]) rows) = [n]"
proof -
  obtain ps qs where rows: "rows = ps @ r # qs" using assms(2) by (meson split_list)
  have "tt_id r \<notin> tt_id ` (set ps \<union> set qs)" using assms(1) unfolding rows by auto
  then have "overwrite [n] t = t" if "t \<in> set ps \<union> set qs" for t
    using imageI [OF that, of tt_id] assms(3) by (auto simp: overwrite_def)
  then have "map (overwrite [n]) ps = ps" "map (overwrite [n]) qs = qs" by (auto intro: map_idI)
  moreover have "filter P ps = []" "filter P qs = []" using assms(5) unfolding rows by (auto simp: filter_empty_conv)
  ultimately show ?thesis unfolding rows using assms(3,4) by (simp add: overwrite_def)
qed

lemma deposit_transfers:
  "get_token_transfers_by_deposit_id c i d =
    (Inr (by_id_desc tt_id (filter (of_deposit c i) (tb_rows (d_token_transfer d)))), d)"
  by (simp add: get_token_transfers_by_deposit_id_def tbl_select_def of_deposit_def cong: filter_cong)

lemma set_by_id_desc [simp]: "set (by_id_desc g xs) = set xs"
  by (simp add: by_id_desc_def)

lemma mark_deposit_closed_result:
  assumes "world_ok w" and "mark_deposit_closed V c a opt w = (Inr (), w')"
  shows "\<exists>r. filter (\<lambda>t. of_deposit (as_i64 c) (hex_of_u256 (ev_ext V) (co_deposit_id opt)) t \<and> tt_deposit_finish t > 0) (transfer_rows w') = [r] \<and>
    tt_deposit_finish r = 1"
proof -
  let ?i = "hex_of_u256 (ev_ext V) (co_deposit_id opt)" and ?c = "as_i64 c"
  let ?ts = "by_id_desc tt_id (filter (of_deposit ?c ?i) (transfer_rows w))"
  let ?P = "\<lambda>t. of_deposit ?c ?i t \<and> tt_deposit_finish t > 0"
  have wf: "tbl_wf tt_id (d_token_transfer (w_db w))" and dist: "distinct (map tt_id (transfer_rows w))"
    using assms(1) by (simp_all add: world_ok_def db_ok_def keys_ok_def tbl_wf_def)
  have none: "\<forall>t\<in>set (transfer_rows w). \<not> ?P t"
    using assms(2) by (auto simp: mark_deposit_closed_def bindM_def db_run_eq deposit_transfers list_ex_iff split: if_splits)
  then have run: "(case candidate_for_mark_close None ?ts of
         Some tt \<Rightarrow> bindM (db_run (update_token_transfer (tt\<lparr>tt_deposit_finish := 1\<rparr>))) (\<lambda>_. ret ())
       | None \<Rightarrow> bindM (now V) (\<lambda>date. bindM (now V) (\<lambda>inserted.
           bindM (db_run (insert_token_transfer inserted (close_marker V date c a opt))) (\<lambda>_. ret ())))) w = (Inr (), w')"
    using assms(2) by (auto simp: mark_deposit_closed_def bindM_def [of "db_run (get_token_transfers_by_deposit_id _ _)"]
        db_run_eq [of "get_token_transfers_by_deposit_id _ _"] deposit_transfers list_ex_iff split: if_splits)
  show ?thesis
  proof (cases "candidate_for_mark_close None ?ts")
    case None
    with run have "transfer_rows w' = transfer_rows w @ [(close_marker V (ev_now V (w_tick w)) c a opt)
        \<lparr>tt_create_date := ev_now V (w_tick w + 1), tt_id := tb_seq (d_token_transfer (w_db w)) + 1\<rparr>]"
      by (auto simp: bindM_def now_def ask_def db_run_eq insert_token_transfer_def constrained_def tbl_insert_def
          set_tt_id_def Let_def close_marker_def fk_tx_def split: if_splits)
    moreover have "filter ?P (transfer_rows w) = []" using none by (simp add: filter_empty_conv)
    ultimately show ?thesis by (simp add: close_marker_def of_deposit_def Let_def)
  next
    case (Some tt)
    then have tt: "tt \<in> set (transfer_rows w)" "of_deposit ?c ?i tt" "tt_tx_id tt = None"
      using candidate_for_mark_close_result [OF Some] by auto
    have up: "update_token_transfer (tt\<lparr>tt_deposit_finish := 1\<rparr>) (w_db w) = (Inr (tt\<lparr>tt_deposit_finish := 1\<rparr>),
        set_rows (map (overwrite [tt\<lparr>tt_deposit_finish := 1\<rparr>]) (transfer_rows w)) (w_db w))"
      by (rule update_row [OF wf tt(1)]) (simp_all add: tt(3) fk_tx_def)
    have "transfer_rows w' = map (overwrite [tt\<lparr>tt_deposit_finish := 1\<rparr>]) (transfer_rows w)"
      using run Some up by (auto simp: bindM_def db_run_eq)
    moreover have "filter ?P (map (overwrite [tt\<lparr>tt_deposit_finish := 1\<rparr>]) (transfer_rows w)) = [tt\<lparr>tt_deposit_finish := 1\<rparr>]"
      by (rule filter_overwrite_one [OF dist tt(1)]) (use tt(2) none in \<open>simp_all add: of_deposit_def\<close>)
    ultimately show ?thesis by simp
  qed
qed

lemma asks_whenM [asks_intro]: "asks m \<Longrightarrow> asks (whenM c m)"
  by (cases c) (simp_all add: asks_ret)

lemma close_deposit_refused:
  assumes "\<exists>r\<in>set (transfer_rows w). of_deposit (as_i64 c) (hex_of_u256 (ev_ext V) (co_deposit_id opt)) r \<and> tt_deposit_finish r > 0"
  shows "\<exists>f w'. close_deposit V c a opt w = (Inl f, w') \<and> w_db w' = w_db w"
proof -
  obtain r w1 where check: "whenM (\<not> co_skip_deposit_check opt) (check_closable V a opt) w = (r, w1)" by fastforce
  then obtain n where w1: "w1 = w\<lparr>w_tick := n\<rparr>"
    using asksD [OF asks_whenM [OF asks_check_closable]] by blast
  show ?thesis
  proof (cases r)
    case (Inl f)
    then show ?thesis using check w1 by (auto simp: close_deposit_def bindM_def)
  next
    case (Inr u)
    have "mark_deposit_closed V c a opt w1 = (Inl (err_custom ''Deposit already being closed or closed''), w1)"
      using assms w1 by (auto simp: mark_deposit_closed_def bindM_def db_run_eq deposit_transfers list_ex_iff)
    then show ?thesis using Inr check w1 by (auto simp: close_deposit_def bindM_def in_transaction_def)
  qed
qed

text \<open>C22. A deposit is closed once and for all: when closing it succeeds, exactly one of its transfers carries the
  closing mark, whether that is the last unassigned transfer or a new marker; from then on every
  transfer for this deposit is refused and closing it again fails, both leaving the database as it was.\<close>

theorem deposit_closed_for_good:
  assumes "world_ok w" and "close_deposit V c a opt w = (Inr (), w')"
  shows "(\<exists>r. filter (\<lambda>t. tt_chain_id t = as_i64 c \<and> tt_deposit_id t = Some (hex_of_u256 (ev_ext V) (co_deposit_id opt)) \<and>
        tt_deposit_finish t > 0) (transfer_rows w') = [r] \<and> tt_deposit_finish r = 1) \<and>
    (\<forall>t tt. tt_chain_id tt = as_i64 c \<and> tt_deposit_id tt = Some (hex_of_u256 (ev_ext V) (co_deposit_id opt)) \<longrightarrow>
       insert_token_transfer_with_deposit_check t tt (w_db w') =
         (Inl (err_custom ''Cannot add token_transfer to already finished deposit''), w_db w')) \<and>
    (\<forall>a' opt'. co_deposit_id opt' = co_deposit_id opt \<longrightarrow>
       (\<exists>f w''. close_deposit V c a' opt' w' = (Inl f, w'') \<and> w_db w'' = w_db w'))"
proof -
  let ?i = "hex_of_u256 (ev_ext V) (co_deposit_id opt)" and ?c = "as_i64 c"
  obtain w1 where check: "whenM (\<not> co_skip_deposit_check opt) (check_closable V a opt) w = (Inr (), w1)"
    and mark: "mark_deposit_closed V c a opt w1 = (Inr (), w')"
    using assms(2) by (auto simp: close_deposit_def bindM_eq_Inr_iff in_transaction_Inr)
  obtain n where "w1 = w\<lparr>w_tick := n\<rparr>"
    using check asksD [OF asks_whenM [OF asks_check_closable]] by blast
  then have "world_ok w1" using assms(1) by simp
  from mark_deposit_closed_result [OF this mark] obtain r
    where r: "filter (\<lambda>t. of_deposit ?c ?i t \<and> tt_deposit_finish t > 0) (transfer_rows w') = [r]" "tt_deposit_finish r = 1" by blast
  then have mem: "r \<in> set (transfer_rows w')" "of_deposit ?c ?i r" "tt_deposit_finish r > 0"
    by (auto simp: filter_eq_Cons_iff)
  have "insert_token_transfer_with_deposit_check t tt (w_db w') =
      (Inl (err_custom ''Cannot add token_transfer to already finished deposit''), w_db w')"
    if "tt_chain_id tt = ?c" "tt_deposit_id tt = Some ?i" for t tt
  proof -
    have "filter (\<lambda>t. tt_chain_id t = ?c \<and> tt_deposit_id t = Some ?i \<and> tt_deposit_finish t = 1) (transfer_rows w') \<noteq> []"
      using mem r(2) by (auto simp: filter_empty_conv of_deposit_def)
    then show ?thesis
      using that by (simp add: insert_token_transfer_with_deposit_check_def check_if_deposit_closed_def tbl_select_def
          atomically_def bindM_def sqlx_def)
  qed
  moreover have "\<exists>f w''. close_deposit V c a' opt' w' = (Inl f, w'') \<and> w_db w'' = w_db w'"
    if "co_deposit_id opt' = co_deposit_id opt" for a' opt'
    by (rule close_deposit_refused) (use mem that in auto)
  ultimately show ?thesis using r by (auto simp: of_deposit_def)
qed

section \<open>Pending transactions\<close>

definition pending_row :: "env \<Rightarrow> address \<Rightarrow> string \<Rightarrow> u64 \<Rightarrow> tx_db_obj \<Rightarrow> bool" where
  "pending_row V a meth c t \<longleftrightarrow> t_chain_id t = as_i64 c \<and> t_from_addr t = str_of_addr (ev_ext V) a \<and>
     t_method t = meth \<and> t_fee_paid t = None"

lemma sort_Nil_iff: "sort_key f xs = [] \<longleftrightarrow> xs = []"
  by (metis length_0_conv length_sort)

lemma pending_of_result:
  obtains txs where "pending_of V a meth c d = (Inr txs, d)" and "txs = [] \<longleftrightarrow> filter (pending_row V a meth c) (tb_rows (d_tx d)) = []"
proof
  let ?txs = "sql_limit (2 ^ 63 - 1) (order_by IdDesc (filter (pending_row V a meth c) (tb_rows (d_tx d))))"
  show "pending_of V a meth c d = (Inr ?txs, d)"
    by (simp add: pending_of_def sqlx_def get_transactions_def limit_opt_def tbl_select_def pending_row_def cong: filter_cong)
  show "?txs = [] \<longleftrightarrow> filter (pending_row V a meth c) (tb_rows (d_tx d)) = []"
    using sort_Nil_iff by (simp add: sql_limit_def order_by_def)
qed

lemma created_row_fields:
  "create_faucet_mint E t a f c g = Inr tx \<Longrightarrow> t_chain_id tx = as_i64 c \<and> t_from_addr tx = str_of_addr E a \<and>
    t_method tx = ''FAUCET.create'' \<and> t_fee_paid tx = None"
  "create_create_deposit E t a f c g args = Inr tx \<Longrightarrow> t_chain_id tx = as_i64 c \<and> t_from_addr tx = str_of_addr E a \<and>
    t_method tx = ''LOCK.createDeposit'' \<and> t_fee_paid tx = None"
  by (auto simp: create_faucet_mint_def create_create_deposit_def with_data_def new_tx_def tx_default_def bindE_Inr_iff)

text \<open>A successful insertion guarded by a check for a pending transaction of the method \<open>meth\<close>.\<close>

lemma guarded_insert_result:
  assumes "in_transaction (bindM (on_db (pending_of V a meth c)) (\<lambda>existing. if existing \<noteq> [] then throw f else
      bindM (now V) (\<lambda>t. bindM (liftR (mk t)) (\<lambda>tx. bindM (db_run (insert_tx tx)) (\<lambda>_. ret ()))))) w = (Inr (), w')"
  obtains tx where "mk (ev_now V (w_tick w)) = Inr tx" and "filter (pending_row V a meth c) (tx_rows w) = []"
    and "tx_rows w' = tx_rows w @ [(tx_row tx)\<lparr>t_id := tb_seq (d_tx (w_db w)) + 1\<rparr>]"
proof -
  obtain txs where txs: "pending_of V a meth c (w_db w) = (Inr txs, w_db w)"
    "txs = [] \<longleftrightarrow> filter (pending_row V a meth c) (tx_rows w) = []" by (rule pending_of_result)
  have p: "on_db (pending_of V a meth c) w = (Inr txs, w)" by (simp add: on_db_def zoom_def txs(1))
  from assms have "txs = []" and
    run: "bindM (now V) (\<lambda>t. bindM (liftR (mk t)) (\<lambda>tx. bindM (db_run (insert_tx tx)) (\<lambda>_. ret ()))) w = (Inr (), w')"
    by (auto simp: in_transaction_Inr bindM_def [of "on_db _"] p split: if_splits)
  from run obtain tx where "mk (ev_now V (w_tick w)) = Inr tx"
    "tx_rows w' = tx_rows w @ [(tx_row tx)\<lparr>t_id := tb_seq (d_tx (w_db w)) + 1\<rparr>]"
    by (auto simp: bindM_def now_def ask_def db_run_eq insert_tx_def tbl_insert_def set_t_id_def Let_def split: sum.splits)
  then show thesis using \<open>txs = []\<close> txs(2) that by blast
qed

lemma guarded_insert_refused:
  assumes "filter (pending_row V a meth c) (tx_rows w) \<noteq> []"
  shows "in_transaction (bindM (on_db (pending_of V a meth c)) (\<lambda>existing. if existing \<noteq> [] then throw f else m)) w = (Inl f, w)"
proof -
  obtain txs where txs: "pending_of V a meth c (w_db w) = (Inr txs, w_db w)"
    "txs = [] \<longleftrightarrow> filter (pending_row V a meth c) (tx_rows w) = []" by (rule pending_of_result)
  then show ?thesis using assms by (simp add: in_transaction_def bindM_def on_db_def zoom_def)
qed

text \<open>A pending mint blocks a second one: when minting succeeds, the only mint of the account on the chain
  that waits for its fee is the new one, and until it is paid every further mint of the account fails and
  leaves the database as it was.\<close>

theorem mint_blocks_second_mint:
  assumes "mint_golem_token V c a g (Some faucet) skip w = (Inr (), w')"
  shows "(\<exists>tx. tx_rows w' = tx_rows w @ [tx] \<and> filter (pending_row V a ''FAUCET.create'' c) (tx_rows w') = [tx]) \<and>
    (\<forall>g' faucet' skip'. \<exists>f w''. mint_golem_token V c a g' faucet' skip' w' = (Inl f, w'') \<and> w_db w'' = w_db w')"
proof -
  let ?guard = "\<lambda>f faucet. in_transaction (bindM (on_db (pending_of V a ''FAUCET.create'' c)) (\<lambda>existing. if existing \<noteq> [] then throw f else
      bindM (now V) (\<lambda>t. bindM (liftR (create_faucet_mint (ev_ext V) t a faucet c None)) (\<lambda>tx. bindM (db_run (insert_tx tx)) (\<lambda>_. ret ())))))"
  let ?err = "err_custom ''You already have a pending mint (create) transaction''"
  obtain w1 where check: "whenM (\<not> skip) (check_mint_balances V a g) w = (Inr (), w1)" and ins: "?guard ?err faucet w1 = (Inr (), w')"
    using assms by (auto simp: mint_golem_token_def bindM_eq_Inr_iff [of "whenM _ _"])
  obtain n where w1: "w1 = w\<lparr>w_tick := n\<rparr>" using check asksD [OF asks_whenM [OF asks_check_mint]] by blast
  from guarded_insert_result [OF ins] obtain tx where tx: "create_faucet_mint (ev_ext V) (ev_now V (w_tick w1)) a faucet c None = Inr tx"
    "filter (pending_row V a ''FAUCET.create'' c) (tx_rows w) = []"
    "tx_rows w' = tx_rows w @ [(tx_row tx)\<lparr>t_id := tb_seq (d_tx (w_db w)) + 1\<rparr>]"
    unfolding w1 by auto
  then have pending: "filter (pending_row V a ''FAUCET.create'' c) (tx_rows w') = [(tx_row tx)\<lparr>t_id := tb_seq (d_tx (w_db w)) + 1\<rparr>]"
    using created_row_fields(1) [OF tx(1)] by (simp add: pending_row_def tx_row_def)
  have "\<exists>f w''. mint_golem_token V c a g' faucet' skip' w' = (Inl f, w'') \<and> w_db w'' = w_db w'" for g' faucet' skip'
  proof (cases faucet')
    case (Some fa)
    obtain r w2 where check': "whenM (\<not> skip') (check_mint_balances V a g') w' = (r, w2)" by fastforce
    then obtain k where w2: "w2 = w'\<lparr>w_tick := k\<rparr>" using asksD [OF asks_whenM [OF asks_check_mint]] by blast
    have "?guard ?err fa w2 = (Inl ?err, w2)" by (rule guarded_insert_refused) (simp add: w2 pending)
    then show ?thesis using check' w2 Some by (cases r) (auto simp: mint_golem_token_def bindM_def)
  qed (auto simp: mint_golem_token_def)
  then show ?thesis using tx(3) pending by blast
qed

text \<open>Making a deposit looks for pending transactions of a method that no transaction has, so a second deposit is
  queued beside a pending one.\<close>

theorem deposit_queued_twice:
  assumes "make_deposit V c a g opt w = (Inr (), w')" and "no_skip_balance_check opt"
    and "\<forall>tx\<in>set (tx_rows w). t_method tx \<noteq> ''LOCK.deposit''"
  shows "\<exists>tx1 tx2 w''. make_deposit V c a g opt w' = (Inr (), w'') \<and> tx_rows w'' = tx_rows w @ [tx1, tx2] \<and>
    pending_row V a ''LOCK.createDeposit'' c tx1 \<and> pending_row V a ''LOCK.createDeposit'' c tx2"
proof -
  obtain am fe where parsed: "no_amount opt \<noteq> None" "to_u256_from_eth (ev_checked_mul V) (the (no_amount opt)) = Inr am"
    "no_fee_amount opt \<noteq> None" "to_u256_from_eth (ev_checked_mul V) (the (no_fee_amount opt)) = Inr fe"
    using assms(1) by (auto simp: make_deposit_def bindM_eq_Inr_iff require_eq_Inr)
  let ?mk = "\<lambda>t. create_create_deposit (ev_ext V) t a (no_lock_contract_address opt) c None
      \<lparr>cd_deposit_nonce = no_deposit_nonce opt, cd_deposit_spender = no_spender opt, cd_deposit_amount = am,
       cd_deposit_fee_amount = fe, cd_deposit_fee_percent = 0, cd_deposit_timestamp = no_timestamp opt\<rparr>"
  let ?guard = "in_transaction (bindM (on_db (pending_of V a ''LOCK.deposit'' c))
      (\<lambda>existing. if existing \<noteq> [] then throw (err_custom ''You already have a pending deposit transaction'') else
      bindM (now V) (\<lambda>t. bindM (liftR (?mk t)) (\<lambda>tx. bindM (db_run (insert_tx tx)) (\<lambda>_. ret ())))))"
  have run: "make_deposit V c a g opt = ?guard"
    using parsed assms(2) by (auto simp: make_deposit_def)
  from guarded_insert_result [OF assms(1) [unfolded run]] obtain tx1 where tx1: "?mk (ev_now V (w_tick w)) = Inr tx1"
    "tx_rows w' = tx_rows w @ [(tx_row tx1)\<lparr>t_id := tb_seq (d_tx (w_db w)) + 1\<rparr>]" by blast
  note fields = created_row_fields(2)
  obtain tx2 where tx2: "?mk (ev_now V (w_tick w')) = Inr tx2"
    using tx1(1) by (auto simp: create_create_deposit_def with_data_def bindE_Inr_iff)
  obtain txs where txs: "pending_of V a ''LOCK.deposit'' c (w_db w') = (Inr txs, w_db w')"
    "txs = [] \<longleftrightarrow> filter (pending_row V a ''LOCK.deposit'' c) (tx_rows w') = []" by (rule pending_of_result)
  have "filter (pending_row V a ''LOCK.deposit'' c) (tx_rows w') = []"
    using assms(3) tx1 fields [OF tx1(1)] by (simp add: filter_empty_conv pending_row_def tx_row_def)
  then have "on_db (pending_of V a ''LOCK.deposit'' c) w' = (Inr [], w')" using txs by (simp add: on_db_def zoom_def)
  then have "\<exists>w''. ?guard w' = (Inr (), w'') \<and>
      tx_rows w'' = tx_rows w' @ [(tx_row tx2)\<lparr>t_id := tb_seq (d_tx (w_db w')) + 1\<rparr>]"
    by (simp add: in_transaction_def bindM_def now_def ask_def tx2 db_run_eq insert_tx_def tbl_insert_def Let_def set_t_id_def)
  then show ?thesis
    using tx1(2) fields [OF tx1(1)] fields [OF tx2] unfolding run by (auto simp: pending_row_def tx_row_def)
qed

text \<open>The date until which a deposit is valid never reaches the check of \<open>terminate_deposit\<close>: whatever the lock
  contract answers, the funder's termination of a deposit with an amount is queued.\<close>

theorem terminate_ignores_valid_to:
  assumes "runtime_deposit_details V (to_deposit_id opt) (to_lock_contract_address opt) w = (Inr details, w1)"
    and "dd_amount_decimal details \<noteq> 0" and "dd_funder details = a" and "\<And>n. 0 \<le> ev_now V n"
    and "\<And>t. \<exists>tx. create_terminate_deposit (ev_ext V) t a (to_lock_contract_address opt) c None
      (nonce_from_deposit_id (to_deposit_id opt)) = Inr tx"
  shows "\<exists>tx w'. terminate_deposit V c a opt w = (Inr (), w') \<and> tx_rows w' = tx_rows w @ [tx]"
proof -
  have "dd_valid_to details = 0"
    using assms(1) by (auto simp: runtime_deposit_details_def get_deposit_details_def Let_def bindM_eq_Inr_iff)
  then have late: "dd_valid_to details - ev_now V n \<le> 10" for n using assms(4) [of n] by simp
  obtain n where w1: "w1 = w\<lparr>w_tick := n\<rparr>" using asksD [OF asks_runtime_deposit_details assms(1)] by blast
  have "check_terminable V a opt w = (Inr (), w\<lparr>w_tick := n + 1\<rparr>)"
    using late [of n] by (simp add: check_terminable_def bindM_def assms(1-3) now_def ask_def w1 linorder_not_less)
  moreover obtain tx where "create_terminate_deposit (ev_ext V) (ev_now V (n + 1)) a (to_lock_contract_address opt) c None
      (nonce_from_deposit_id (to_deposit_id opt)) = Inr tx" using assms(5) by blast
  ultimately show ?thesis
    by (cases "to_skip_deposit_check opt"; cases "create_terminate_deposit (ev_ext V) (ev_now V (w_tick w)) a (to_lock_contract_address opt) c None
      (nonce_from_deposit_id (to_deposit_id opt))")
     (use assms(5) [of "ev_now V (w_tick w)"] in \<open>auto simp: terminate_deposit_def bindM_def now_def ask_def db_transaction_eq sqlx_def insert_tx_def tbl_insert_def Let_def\<close>)
qed

section \<open>Concrete operations\<close>

definition sample_close :: close_deposit_options where
  "sample_close = \<lparr>co_lock_contract_address = 8, co_skip_deposit_check = True, co_deposit_id = 3, co_token_address = 4\<rparr>"

theorem deposit_closed_for_good_witness:
  "\<exists>w' f w''. close_deposit quiet_env 5 1 sample_close world_initial = (Inr (), w') \<and>
     close_deposit quiet_env 5 2 sample_close w' = (Inl f, w'') \<and> w_db w'' = w_db w'"
proof -
  have "\<exists>w'. close_deposit quiet_env 5 1 sample_close world_initial = (Inr (), w')"
    by (simp add: close_deposit_def sample_close_def in_transaction_def mark_deposit_closed_def bindM_def db_run_eq
        deposit_transfers by_id_desc_def world_initial_def db_empty_def tbl_empty_def now_def ask_def insert_token_transfer_def
        constrained_def tbl_insert_def close_marker_def Let_def fk_tx_def)
  then obtain w' where run: "close_deposit quiet_env 5 1 sample_close world_initial = (Inr (), w')" by blast
  from deposit_closed_for_good [OF world_ok_initial run] run show ?thesis by blast
qed

theorem mint_blocks_second_mint_witness:
  "\<exists>w' f w''. mint_golem_token quiet_env 5 1 4 (Some 9) True world_initial = (Inr (), w') \<and>
     mint_golem_token quiet_env 5 1 4 (Some 9) True w' = (Inl f, w'') \<and> w_db w'' = w_db w'"
proof -
  obtain txs where p: "pending_of quiet_env 1 ''FAUCET.create'' 5 (w_db world_initial) = (Inr txs, w_db world_initial)"
    "txs = [] \<longleftrightarrow> filter (pending_row quiet_env 1 ''FAUCET.create'' 5) (tx_rows world_initial) = []" by (rule pending_of_result)
  then have "on_db (pending_of quiet_env 1 ''FAUCET.create'' 5) world_initial = (Inr [], world_initial)"
    by (simp add: on_db_def zoom_def) (simp add: world_initial_def db_empty_def tbl_empty_def)
  then have "\<exists>w'. mint_golem_token quiet_env 5 1 4 (Some 9) True world_initial = (Inr (), w')"
    by (simp add: mint_golem_token_def in_transaction_def bindM_def now_def ask_def create_faucet_mint_def with_data_def
        encode_faucet_create_def contract_encode_def db_run_eq insert_tx_def tbl_insert_def Let_def)
  then obtain w' where run: "mint_golem_token quiet_env 5 1 4 (Some 9) True world_initial = (Inr (), w')" by blast
  from mint_blocks_second_mint [OF run] run show ?thesis by blast
qed

end
