(* ===== verification/ChainScan.thy ===== *)
theory ChainScan imports Eth Results begin

text \<open>
  Reading transactions from a chain: \<open>find_receipt_extended\<close>, \<open>get_erc20_logs\<close> and \<open>import_erc20_txs\<close> of
  \<open>transaction.rs\<close>, their storage (\<open>service.rs\<close>), and \<open>verify_transaction\<close> of \<open>runtime.rs\<close>. The hash map of
  the import is an association list, visited in the order \<open>visit\<close>.
\<close>

section \<open>Parsing a transaction and its receipt\<close>

datatype find_receipt_parse_result =
    ParseSuccess chain_tx_db_obj "chain_transfer_db_obj list"
  | ParseFailure string

text \<open>\<open>Address::from_slice(&topic[12..])\<close>, and the conversion of a byte slice, which panics over 32 bytes.\<close>

definition topic_address :: "h256 \<Rightarrow> address" where
  "topic_address topic = ucast topic"

definition u256_from_slice :: "bytes \<Rightarrow> failure + u256" where
  "u256_from_slice bs = (if length bs > 32 then Inl (Panic ''slice longer than 32 bytes'')
     else Inr (from_big_endian bs))"

definition erc20_transfer_event_signature :: h256 where
  "erc20_transfer_event_signature = 0xddf252ad1be2c89b69c2b068fc378daa952ba7f163c4a11628f55a4df523b3ef"

definition is_transfer_log :: "address \<Rightarrow> eth_log \<Rightarrow> bool" where
  "is_transfer_log glm_address entry \<longleftrightarrow> lg_address entry = glm_address \<and> length (lg_topics entry) = 3 \<and>
     lg_topics entry ! 0 = erc20_transfer_event_signature"

definition log_from :: "eth_log \<Rightarrow> address" where
  "log_from entry = topic_address (lg_topics entry ! 1)"

definition log_to :: "eth_log \<Rightarrow> address" where
  "log_to entry = topic_address (lg_topics entry ! 2)"

record to_contract =
  tc_amount :: u256
  tc_token :: "address option"
  tc_from :: "address option"

definition to_contract_none :: to_contract where
  "to_contract_none = \<lparr>tc_amount = 0, tc_token = None, tc_from = None\<rparr>"

text \<open>The first loop over the logs: who pays the contract that is called, and in which token.\<close>

fun scan_to_contract :: "address \<Rightarrow> address \<Rightarrow> to_contract \<Rightarrow> eth_log list \<Rightarrow> failure + to_contract" where
  "scan_to_contract glm_address tx_to tc [] = Inr tc"
| "scan_to_contract glm_address tx_to tc (entry # logs) =
     (if is_transfer_log glm_address entry
      then bindE (u256_from_slice (lg_data entry)) (\<lambda>amount.
           if log_to entry = tx_to
           then (if tc_from tc \<noteq> None \<and> tc_from tc \<noteq> Some (log_from entry)
                 then Inl (err_custom ''Transfer to contract from different addresses'')
                 else if tc_token tc \<noteq> None \<and> tc_token tc \<noteq> Some (lg_address entry)
                 then Inl (err_custom ''Transfer to contract from different tokens'')
                 else bindE (u256_add (tc_amount tc) amount) (\<lambda>total.
                   scan_to_contract glm_address tx_to
                     \<lparr>tc_amount = total, tc_token = Some (lg_address entry), tc_from = Some (log_from entry)\<rparr> logs))
           else scan_to_contract glm_address tx_to tc logs)
      else scan_to_contract glm_address tx_to tc logs)"

definition chain_transfer ::
    "externals \<Rightarrow> chain_tx_db_obj \<Rightarrow> address \<Rightarrow> address \<Rightarrow> address option \<Rightarrow> u256 \<Rightarrow> chain_transfer_db_obj" where
  "chain_transfer E chain_tx from_a to_a token amount =
     \<lparr>ct_id = 0, ct_from_addr = str_of_addr E from_a, ct_receiver_addr = str_of_addr E to_a,
      ct_chain_id = ctx_chain_id chain_tx, ct_token_addr = map_option (str_of_addr E) token,
      ct_token_amount = dec_of_u256 E amount, ct_chain_tx_id = 0, ct_fee_paid = None,
      ct_blockchain_date = Some (ctx_blockchain_date chain_tx)\<rparr>"

text \<open>The second loop: the transfers, or the message of a transaction that cannot be parsed. A transfer out of
  the contract is one of the payer of the contract.\<close>

fun scan_transfers ::
    "externals \<Rightarrow> chain_tx_db_obj \<Rightarrow> address \<Rightarrow> address \<Rightarrow> to_contract \<Rightarrow> eth_log list \<Rightarrow>
     failure + (string + chain_transfer_db_obj list)" where
  "scan_transfers E chain_tx glm_address tx_to tc [] = Inr (Inr [])"
| "scan_transfers E chain_tx glm_address tx_to tc (entry # logs) =
     (let continue_with = (\<lambda>payer amount.
            bindE (scan_transfers E chain_tx glm_address tx_to tc logs) (\<lambda>r. case r of
                Inl msg \<Rightarrow> Inr (Inl msg)
              | Inr ts \<Rightarrow> Inr (Inr (chain_transfer E chain_tx payer (log_to entry) (Some (lg_address entry)) amount # ts))))
      in if is_transfer_log glm_address entry
      then bindE (u256_from_slice (lg_data entry)) (\<lambda>amount.
           if log_to entry = tx_to then scan_transfers E chain_tx glm_address tx_to tc logs
           else if log_from entry = tx_to
           then (if Some (lg_address entry) \<noteq> tc_token tc
                 then (if tc_token tc = None then Inr (Inl ''Transfer from contract without contract from'')
                       else Inl (err_custom ''Transfer from contract different token''))
                 else bindE (ok_or (err_custom ''Transfer from contract without contract from'') (tc_from tc))
                   (\<lambda>payer. continue_with payer amount))
           else continue_with (log_from entry) amount)
      else scan_transfers E chain_tx glm_address tx_to tc logs)"

definition chain_tx_blank :: "externals \<Rightarrow> h256 \<Rightarrow> i64 \<Rightarrow> chain_tx_db_obj" where
  "chain_tx_blank E tx_hash chain_id =
     \<lparr>ctx_id = -1, ctx_tx_hash = str_of_h256 E tx_hash, ctx_method = [], ctx_from_addr = [], ctx_to_addr = [],
      ctx_chain_id = chain_id, ctx_gas_used = None, ctx_gas_limit = None, ctx_block_gas_price = None,
      ctx_effective_gas_price = None, ctx_max_fee_per_gas = None, ctx_priority_fee = None, ctx_val = [],
      ctx_nonce = 0, ctx_checked_date = 0, ctx_blockchain_date = 0, ctx_block_number = 0, ctx_chain_status = 0,
      ctx_fee_paid = [], ctx_error = None, ctx_balance_eth = None, ctx_balance_glm = None,
      ctx_engine_message = None, ctx_engine_error = None\<rparr>"

definition i64_max_u256 :: u256 where
  "i64_max_u256 = 2 ^ 63 - 1"

definition fits_i64 :: "string \<Rightarrow> u256 \<Rightarrow> failure + i64" where
  "fits_i64 msg v = (if v > i64_max_u256 then Inl (err_custom msg) else Inr (int (unat v)))"

definition method_of_input :: "externals \<Rightarrow> bytes \<Rightarrow> string" where
  "method_of_input E inp = (if length inp \<ge> 4 then ''0x'' @ hex_encode E (take 4 inp) else ''N/A'')"

text \<open>The row of the transaction, from the receipt, the transaction and the block.\<close>

definition chain_tx_of ::
    "externals \<Rightarrow> chain_tx_db_obj \<Rightarrow> eth_receipt \<Rightarrow> eth_transaction \<Rightarrow> block_info \<Rightarrow>
     failure + chain_tx_db_obj \<times> address \<times> address" where
  "chain_tx_of E blank receipt tx block_info =
     bindE (ok_or (err_custom ''Receipt to is None'') (rc_to receipt)) (\<lambda>receipt_to.
     bindE (ok_or (err_custom ''Transaction to is None'') (et_to tx)) (\<lambda>tx_to.
     if receipt_to \<noteq> tx_to then Inl (err_custom ''Receipt to not match with transaction to'')
     else
     bindE (ok_or (err_custom ''Transaction from is None'') (et_from tx)) (\<lambda>tx_from.
     if tx_from \<noteq> rc_from receipt then Inl (err_custom ''Transaction from not match with receipt from'')
     else
     bindE (ok_or (err_custom ''Receipt status is None'') (rc_status receipt)) (\<lambda>status.
     if status > 1 then Inl (err_custom ''Receipt status unknown'')
     else
     bindE (fits_i64 ''Nonce too big'' (et_nonce tx)) (\<lambda>nonce.
     bindE (fits_i64 ''Gas limit too big'' (et_gas tx)) (\<lambda>gas_limit.
     bindE (ok_or (err_custom ''Gas used expected'') (rc_gas_used receipt)) (\<lambda>gas_used.
     bindE (fits_i64 ''Gas used too big'' gas_used) (\<lambda>gas_used_i64.
     bindE (ok_or (err_custom ''Effective gas price expected'') (rc_effective_gas_price receipt)) (\<lambda>effective_gas_price.
     bindE (u256_mul gas_used effective_gas_price) (\<lambda>fee.
       Inr (blank\<lparr>ctx_from_addr := str_of_addr E (rc_from receipt), ctx_to_addr := str_of_addr E receipt_to,
         ctx_chain_status := int status, ctx_nonce := nonce, ctx_gas_limit := Some gas_limit,
         ctx_val := dec_of_u256 E (et_value tx), ctx_gas_used := Some gas_used_i64,
         ctx_block_gas_price := Some (dec_of_u256 E (case bk_base_fee_per_gas block_info of Some f \<Rightarrow> f | None \<Rightarrow> 0)),
         ctx_effective_gas_price := Some (dec_of_u256 E effective_gas_price),
         ctx_max_fee_per_gas := map_option (dec_of_u256 E) (et_max_fee_per_gas tx),
         ctx_priority_fee := map_option (dec_of_u256 E) (et_max_priority_fee_per_gas tx),
         ctx_fee_paid := dec_of_u256 E fee, ctx_method := method_of_input E (et_input tx)\<rparr>, tx_from, tx_to)))))))))))"

definition parse_transfers ::
    "externals \<Rightarrow> address \<Rightarrow> chain_tx_db_obj \<Rightarrow> address \<Rightarrow> address \<Rightarrow> u256 \<Rightarrow> eth_log list \<Rightarrow>
     failure + find_receipt_parse_result" where
  "parse_transfers E glm_address chain_tx tx_from tx_to val logs =
     (let native = (if val \<noteq> 0 then [chain_transfer E chain_tx tx_from tx_to None val] else []) in
     bindE (scan_to_contract glm_address tx_to to_contract_none logs) (\<lambda>tc.
     bindE (scan_transfers E chain_tx glm_address tx_to tc logs) (\<lambda>r. case r of
         Inl msg \<Rightarrow> Inr (ParseFailure msg)
       | Inr ts \<Rightarrow> Inr (ParseSuccess chain_tx (native @ ts)))))"

definition find_receipt_extended ::
    "env \<Rightarrow> h256 \<Rightarrow> i64 \<Rightarrow> address \<Rightarrow> find_receipt_parse_result prg" where
  "find_receipt_extended V tx_hash chain_id glm_address =
     bindM (rpc (\<lambda>n. ev_receipt V n tx_hash)) (\<lambda>r.
     bindM (require (err_custom ''Receipt not found'') r) (\<lambda>receipt.
     bindM (rpc (\<lambda>n. ev_transaction V n tx_hash)) (\<lambda>t.
     bindM (require (err_custom ''Transaction not found'') t) (\<lambda>tx.
     bindM (require (err_custom ''Block number is None'') (rc_block_number receipt)) (\<lambda>bn.
     let block_number = as_i64 (of_nat bn) in
     bindM (rpc (\<lambda>n. ev_block V n (Some (unat (i64_as_u64 block_number))))) (\<lambda>b.
     bindM (require (err_custom ''Block not found'') b) (\<lambda>block_info.
     bindM (now V) (\<lambda>checked_date.
     bindM (liftR (datetime_from_u256_timestamp V (bk_timestamp block_info))) (\<lambda>d.
     bindM (require (err_custom ''Cannot convert timestamp to NaiveDateTime'') d) (\<lambda>blockchain_date.
     bindM (liftR (chain_tx_of (ev_ext V)
        ((chain_tx_blank (ev_ext V) tx_hash chain_id)\<lparr>ctx_block_number := block_number,
           ctx_checked_date := checked_date, ctx_blockchain_date := blockchain_date\<rparr>) receipt tx block_info))
       (\<lambda>(chain_tx, tx_from, tx_to).
       liftR (parse_transfers (ev_ext V) glm_address chain_tx tx_from tx_to (et_value tx) (rc_logs receipt)))))))))))))"

end
