(* ===== verification/ChainImport.thy ===== *)
theory ChainImport imports ChainScan begin

text \<open>
  What is done with the transactions read from a chain: looking for them by their logs (\<open>import_erc20_txs\<close>),
  storing one with its transfers (\<open>transaction_from_chain_and_into_db\<close>), requests for incoming payments, and
  the verification of a payment (\<open>verify_transaction\<close>). The hash map of the import is an association list,
  visited in the order \<open>visit\<close>; the loop that asks for the token balance has no bound in the code and is
  run with fuel.
\<close>

section \<open>Finding transactions\<close>

definition get_erc20_logs ::
    "env \<Rightarrow> address \<Rightarrow> h256 list option \<Rightarrow> h256 list option \<Rightarrow> i64 \<Rightarrow> i64 \<Rightarrow> eth_log list prg" where
  "get_erc20_logs V erc20_address topic_senders topic_receivers from_block to_block =
     (if from_block < 0 \<or> to_block < 0 then throw (err_custom ''Block number cannot be negative'')
      else bindM (ask (\<lambda>n. ev_logs V n erc20_address topic_senders topic_receivers from_block to_block)) (\<lambda>r. case r of
          Inl e \<Rightarrow> throw (err_custom ''Error while getting logs'') | Inr logs \<Rightarrow> ret logs))"

record import_args =
  ia_erc20_address :: address
  ia_chain_id :: i64
  ia_filter_by_senders :: "address list option"
  ia_filter_by_receivers :: "address list option"
  ia_start_block :: i64
  ia_scan_end_block :: i64
  ia_blocks_at_once :: u64

definition address_topic :: "address \<Rightarrow> h256" where
  "address_topic a = ucast a"

fun map_insert :: "'k \<Rightarrow> 'v \<Rightarrow> ('k \<times> 'v) list \<Rightarrow> ('k \<times> 'v) list" where
  "map_insert k v [] = [(k, v)]"
| "map_insert k v ((k', v') # m) = (if k' = k then (k', v) # m else (k', v') # map_insert k v m)"

fun collect_txs :: "(h256 \<times> nat) list \<Rightarrow> eth_log list \<Rightarrow> failure + (h256 \<times> nat) list" where
  "collect_txs txs [] = Inr txs"
| "collect_txs txs (entry # logs) =
     bindE (ok_or (err_custom ''Log without transaction hash'') (lg_transaction_hash entry)) (\<lambda>tx_hash.
     bindE (ok_or (err_custom ''Log without block number'') (lg_block_number entry)) (\<lambda>block_number.
       collect_txs (map_insert tx_hash block_number txs) logs))"

definition import_erc20_txs ::
    "((h256 \<times> nat) list \<Rightarrow> (h256 \<times> nat) list) \<Rightarrow> env \<Rightarrow> import_args \<Rightarrow> h256 list prg" where
  "import_erc20_txs visit V args =
     (let start_block = ia_start_block args; end_block = ia_scan_end_block args in
     bindM (rpc (ev_block_number V)) (\<lambda>b.
     let current_block = as_i64 (of_nat b) in
     if start_block > end_block then throw (err_custom ''Start block is greater than end block'')
     else if end_block - start_block > as_i64 (ia_blocks_at_once args) then throw (err_custom ''Too many blocks to scan'')
     else if start_block > current_block then throw (err_custom ''Start block is greater than current block'')
     else
       bindM (get_erc20_logs V (ia_erc20_address args) (map_option (map address_topic) (ia_filter_by_senders args))
                (map_option (map address_topic) (ia_filter_by_receivers args)) start_block end_block) (\<lambda>logs.
       bindM (liftR (collect_txs [] logs)) (\<lambda>txs.
         ret (map fst (sort_key snd (visit txs)))))))"

section \<open>Storing a transaction\<close>

fun balance_attempts :: "env \<Rightarrow> address \<Rightarrow> nat \<Rightarrow> nat \<Rightarrow> u256 option prg" where
  "balance_attempts V a block 0 = ret None"
| "balance_attempts V a block (Suc attempts) =
     bindM (ask (\<lambda>n. ev_balance V n a (Some block))) (\<lambda>r. case r of
         Inr v \<Rightarrow> ret (Some v)
       | Inl e \<Rightarrow> balance_attempts V a block attempts)"

text \<open>The counter of this loop is never raised: it ends only with an answer of 32 bytes.\<close>

fun token_balance_attempts :: "env \<Rightarrow> address \<Rightarrow> address \<Rightarrow> nat \<Rightarrow> nat \<Rightarrow> u256 option prg" where
  "token_balance_attempts V glm_address a block 0 = throw OutOfFuel"
| "token_balance_attempts V glm_address a block (Suc fuel) =
     bindM (liftR (encode_erc20_balance_of (ev_ext V) a)) (\<lambda>call_data.
     bindM (ask (\<lambda>n. ev_call V n (call_default\<lparr>cr_to := Some glm_address, cr_data := Some call_data\<rparr>) (Some block))) (\<lambda>r.
       case r of
         Inr v \<Rightarrow> if length v = 32 then ret (Some (from_big_endian v)) else token_balance_attempts V glm_address a block fuel
       | Inl e \<Rightarrow> token_balance_attempts V glm_address a block fuel))"

definition with_balances :: "env \<Rightarrow> nat \<Rightarrow> address \<Rightarrow> chain_tx_db_obj \<Rightarrow> chain_tx_db_obj prg" where
  "with_balances V fuel glm_address chain_tx =
     bindM (require (Panic ''called unwrap on an Err value'') (addr_of_str (ev_ext V) (ctx_from_addr chain_tx))) (\<lambda>a.
     let block = unat (i64_as_u64 (ctx_block_number chain_tx)) in
     bindM (balance_attempts V a block 1001) (\<lambda>balance.
     bindM (token_balance_attempts V glm_address a block fuel) (\<lambda>token_balance.
     bindM (liftR (case token_balance of None \<Rightarrow> Inr 0
        | Some v \<Rightarrow> (case u256_to_eth v of Inr d \<Rightarrow> Inr d | Inl _ \<Rightarrow> Inl (Panic ''called unwrap on an Err value'')))) (\<lambda>_.
       ret (chain_tx\<lparr>ctx_balance_eth := map_option (dec_of_u256 (ev_ext V)) balance,
                    ctx_balance_glm := map_option (dec_of_u256 (ev_ext V)) token_balance\<rparr>)))))"

definition chain_transfer_fees :: "externals \<Rightarrow> string \<Rightarrow> nat \<Rightarrow> failure + string option list" where
  "chain_transfer_fees E fee_paid n =
     bindE (ok_or (Err (ConversionError ''failed to parse fee paid'')) (u256_of_dec E fee_paid)) (\<lambda>val.
     bindE (distribute_fee val n) (\<lambda>fees. Inr (map (\<lambda>f. Some (dec_of_u256 E f)) fees)))"

definition store_chain_tx ::
    "externals \<Rightarrow> chain_tx_db_obj \<Rightarrow> chain_transfer_db_obj list \<Rightarrow> (db, failure, chain_tx_db_obj) prog" where
  "store_chain_tx E chain_tx transfers =
     bindM (sqlx (insert_chain_tx chain_tx)) (\<lambda>tx.
     if transfers = [] then ret tx
     else bindM (liftR (chain_transfer_fees E (ctx_fee_paid tx) (length transfers))) (\<lambda>fees.
       bindM (forM (zip transfers fees) (\<lambda>(t, fee).
          bindM (sqlx (insert_chain_transfer (t\<lparr>ct_chain_tx_id := ctx_id tx, ct_fee_paid := fee\<rparr>))) (\<lambda>_. ret ())))
        (\<lambda>_. ret tx)))"

definition transaction_from_chain_and_into_db ::
    "env \<Rightarrow> nat \<Rightarrow> i64 \<Rightarrow> string \<Rightarrow> address \<Rightarrow> bool \<Rightarrow> chain_tx_db_obj option prg" where
  "transaction_from_chain_and_into_db V fuel chain_id tx_hash_str glm_address get_balances =
     bindM (require (Err (ConversionError ''Cannot parse tx_hash'')) (h256_of_str (ev_ext V) tx_hash_str)) (\<lambda>tx_hash.
     bindM (db_run (get_chain_tx_hash (str_of_h256 (ev_ext V) tx_hash))) (\<lambda>existing. case existing of
       Some chain_tx \<Rightarrow> ret (Some chain_tx)
     | None \<Rightarrow>
         bindM (find_receipt_extended V tx_hash chain_id glm_address) (\<lambda>r. case r of
           ParseFailure msg \<Rightarrow> ret None
         | ParseSuccess chain_tx transfers \<Rightarrow>
             if ctx_chain_status chain_tx \<noteq> 1 then ret None
             else bindM (if get_balances then with_balances V fuel glm_address chain_tx else ret chain_tx) (\<lambda>chain_tx'.
               bindM (db_transaction (store_chain_tx (ev_ext V) chain_tx' transfers)) (\<lambda>tx. ret (Some tx))))))"

section \<open>Requests for incoming payments\<close>

definition add_payment_request_2 ::
    "env \<Rightarrow> address option \<Rightarrow> u256 \<Rightarrow> string \<Rightarrow> address \<Rightarrow> address \<Rightarrow> i64 \<Rightarrow> transfer_in_db_obj prg" where
  "add_payment_request_2 V token_address token_amount payment_id payer_addr receiver_addr chain_id =
     (let E = ev_ext V in
     bindM (now V) (\<lambda>date.
       db_run (insert_transfer_in \<lparr>ti_id = 0, ti_payment_id = payment_id, ti_from_addr = str_of_addr E payer_addr,
         ti_receiver_addr = str_of_addr E receiver_addr, ti_chain_id = chain_id,
         ti_token_addr = map_option (str_of_addr E) token_address, ti_token_amount = dec_of_u256 E token_amount,
         ti_tx_hash = None, ti_requested_date = date, ti_received_date = None\<rparr>)))"

definition add_glm_request ::
    "env \<Rightarrow> chain_setup \<Rightarrow> u256 \<Rightarrow> string \<Rightarrow> address \<Rightarrow> address \<Rightarrow> transfer_in_db_obj prg" where
  "add_glm_request V cs token_amount payment_id payer_addr receiver_addr =
     add_payment_request_2 V (Some (cs_glm_address cs)) token_amount payment_id payer_addr receiver_addr (cs_chain_id cs)"

section \<open>Verifying a payment\<close>

datatype verify_transaction_result = Verified u256 | Rejected string

fun verify_transfers ::
    "externals \<Rightarrow> string \<Rightarrow> address \<Rightarrow> address \<Rightarrow> u256 \<Rightarrow> chain_transfer_db_obj list \<Rightarrow>
     failure + verify_transaction_result" where
  "verify_transfers E tx_from_str sender receiver amount [] = Inr (Rejected ''Transaction found but not matching'')"
| "verify_transfers E tx_from_str sender receiver amount (t # ts) =
     bindE (parse_address E (ct_receiver_addr t)) (\<lambda>to_a.
     bindE (if to_a = receiver
            then bindE (parse_address E (ct_from_addr t)) (\<lambda>from_a.
              if from_a = sender then Inr True
              else bindE (parse_address E tx_from_str) (\<lambda>tx_from. Inr (tx_from = sender)))
            else Inr False) (\<lambda>found.
       if found
       then bindE (parse_dec E (ct_token_amount t)) (\<lambda>tx_amount.
         Inr (if tx_amount \<ge> amount then Verified tx_amount
              else Rejected ''Transaction found but amount insufficient''))
       else verify_transfers E tx_from_str sender receiver amount ts))"

definition verify_transaction ::
    "env \<Rightarrow> i64 \<Rightarrow> h256 \<Rightarrow> address \<Rightarrow> address \<Rightarrow> u256 \<Rightarrow> address \<Rightarrow> verify_transaction_result prg" where
  "verify_transaction V chain_id tx_hash sender receiver amount glm_address =
     bindM (find_receipt_extended V tx_hash chain_id glm_address) (\<lambda>r. case r of
       ParseFailure msg \<Rightarrow> ret (Rejected ''Transaction cannot be parsed'')
     | ParseSuccess chain_tx transfers \<Rightarrow>
         if ctx_chain_status chain_tx = 1
         then liftR (verify_transfers (ev_ext V) (ctx_from_addr chain_tx) sender receiver amount transfers)
         else ret (Rejected ''Transaction not found''))"

definition runtime_verify_transaction ::
    "env \<Rightarrow> payment_setup \<Rightarrow> i64 \<Rightarrow> h256 \<Rightarrow> address \<Rightarrow> address \<Rightarrow> u256 \<Rightarrow> verify_transaction_result prg" where
  "runtime_verify_transaction V S chain_id tx_hash sender receiver amount =
     (case ps_chain_setup S chain_id of
        None \<Rightarrow> throw (err_custom ''Chain not found in config file'')
      | Some cs \<Rightarrow> verify_transaction V chain_id tx_hash sender receiver amount (cs_glm_address cs))"

section \<open>Invariants\<close>

lemma asks_find_receipt_extended [asks_intro]: "asks (find_receipt_extended V h c g)"
  unfolding find_receipt_extended_def Let_def by (intro asks_intro) (auto split: prod.split intro: asks_intro)

lemma asks_verify_transaction: "asks (verify_transaction V c h s r a g)"
  unfolding verify_transaction_def
  by (intro asks_intro) (auto split: find_receipt_parse_result.split intro: asks_intro)

lemma asks_Pair [asks_intro]: "asks (Pair r)"
  using asks_liftR [of r] by (simp add: asks_def)

lemma asks_balance_attempts [asks_intro]: "asks (balance_attempts V a b n)"
  by (induction V a b n rule: balance_attempts.induct) (auto intro!: asks_intro)

lemma asks_token_balance_attempts [asks_intro]: "asks (token_balance_attempts V g a b n)"
  by (induction V g a b n rule: token_balance_attempts.induct) (auto intro!: asks_intro)

lemma asks_with_balances [asks_intro]: "asks (with_balances V n g t)"
  unfolding with_balances_def Let_def by (intro asks_intro)

lemma asks_import_erc20_txs: "asks (import_erc20_txs visit V args)"
  unfolding import_erc20_txs_def get_erc20_logs_def Let_def by (intro asks_intro)

lemma preserves_store_chain_tx [preserves_intro]: "preserves db_ok (store_chain_tx E t ts)"
  unfolding store_chain_tx_def by (intro preserves_intro)

lemma preserves_transaction_from_chain [preserves_intro]:
  "preserves world_ok (transaction_from_chain_and_into_db V n c h g b)"
  unfolding transaction_from_chain_and_into_db_def get_chain_tx_hash_def
  by (intro preserves_intro asks_find_receipt_extended [THEN asks_preserves])
    (auto split: find_receipt_parse_result.split intro!: preserves_intro asks_with_balances [THEN asks_preserves])

lemma preserves_add_payment_request [preserves_intro]:
  "preserves world_ok (add_payment_request_2 V t a p f r c)" "preserves world_ok (add_glm_request V cs a p f r)"
  unfolding add_glm_request_def add_payment_request_2_def Let_def by (intro preserves_intro)+

end
