(* ===== verification/ChainProofs.thy ===== *)
theory ChainProofs imports ChainImport ResultProofs begin

text \<open>
  Proofs on reading a chain: what a verified payment guarantees and what it does not, the import of a
  transaction happens once and distributes its fee exactly, and the loop that never ends.
\<close>

section \<open>The transfers of a transaction\<close>

lemma pushed_iff:
  "(case r of Inl m \<Rightarrow> Inr (Inl m) | Inr ts \<Rightarrow> Inr (Inr (x # ts))) = (Inr (Inr us) :: failure + (string + 'a list)) \<longleftrightarrow>
    (\<exists>ts. r = Inr ts \<and> us = x # ts)"
  by (cases r) auto

lemma scan_transfers_logs:
  "scan_transfers E ct g tx_to tc logs = Inr (Inr ts) \<Longrightarrow> t \<in> set ts \<Longrightarrow>
    \<exists>lg\<in>set logs. is_transfer_log g lg \<and> length (lg_data lg) \<le> 32 \<and>
      ct_receiver_addr t = str_of_addr E (log_to lg) \<and> ct_token_amount t = dec_of_u256 E (from_big_endian (lg_data lg))"
proof (induction E ct g tx_to tc logs arbitrary: ts rule: scan_transfers.induct)
  case (2 E ct g tx_to tc lg logs)
  show ?case
  proof (cases "is_transfer_log g lg")
    case False
    with 2 show ?thesis by auto
  next
    case True
    then obtain amount where amount: "u256_from_slice (lg_data lg) = Inr amount"
      using "2.prems"(1) by (auto simp: Let_def bindE_Inr_iff)
    then have am: "amount = from_big_endian (lg_data lg)" "length (lg_data lg) \<le> 32"
      by (auto simp: u256_from_slice_def split: if_splits)
    consider (skip) "scan_transfers E ct g tx_to tc logs = Inr (Inr ts)"
      | (push) payer ts' where "scan_transfers E ct g tx_to tc logs = Inr (Inr ts')"
        "ts = chain_transfer E ct payer (log_to lg) (Some (lg_address lg)) amount # ts'"
      using "2.prems"(1) True amount
      by (auto simp: Let_def bindE_Inr_iff ok_or_Inr_iff pushed_iff split: if_splits)
    then show ?thesis
    proof cases
      case skip
      with 2 True amount show ?thesis by (metis list.set_intros(2))
    next
      case push
      show ?thesis
      proof (cases "t \<in> set ts'")
        case True
        with 2 push(1) amount \<open>is_transfer_log g lg\<close> show ?thesis by (metis list.set_intros(2))
      next
        case False
        then have "t = chain_transfer E ct payer (log_to lg) (Some (lg_address lg)) amount"
          using push(2) "2.prems"(2) by simp
        then show ?thesis using \<open>is_transfer_log g lg\<close> am by (auto simp: chain_transfer_def)
      qed
    qed
  qed
qed simp

lemma verify_transfers_Verified:
  "verify_transfers E f s r a ts = Inr (Verified v) \<Longrightarrow>
    a \<le> v \<and> (\<exists>t\<in>set ts. addr_of_str E (ct_receiver_addr t) = Some r \<and> u256_of_dec E (ct_token_amount t) = Some v)"
  by (induction E f s r a ts rule: verify_transfers.induct)
    (fastforce simp: bindE_Inr_iff parse_address_def parse_dec_def ok_or_Inr_iff split: if_splits)+

lemma find_receipt_extended_parts:
  assumes "find_receipt_extended V h c g w = (Inr res, w')"
  obtains receipt tx blank bi ct tx_from tx_to where "ev_receipt V (w_tick w) h = Inr (Some receipt)"
    and "ev_transaction V (w_tick w + 1) h = Inr (Some tx)"
    and "chain_tx_of (ev_ext V) blank receipt tx bi = Inr (ct, tx_from, tx_to)"
    and "parse_transfers (ev_ext V) g ct tx_from tx_to (et_value tx) (rc_logs receipt) = Inr res"
    and "ctx_tx_hash blank = str_of_h256 (ev_ext V) h"
  using assms
  by (auto simp: chain_tx_blank_def find_receipt_extended_def Let_def monad_simps rpc_done split: prod.splits)

lemma chain_tx_of_fields:
  "chain_tx_of E blank receipt tx bi = Inr (ct, tx_from, tx_to) \<Longrightarrow>
    et_to tx = Some tx_to \<and> et_from tx = Some tx_from \<and> rc_from receipt = tx_from \<and> rc_to receipt = Some tx_to \<and>
    (\<exists>status \<le> 1. rc_status receipt = Some status \<and> ctx_chain_status ct = int status) \<and> ctx_from_addr ct = str_of_addr E tx_from \<and>
    ctx_tx_hash ct = ctx_tx_hash blank"
  by (auto simp: chain_tx_of_def bindE_Inr_iff ok_or_Inr_iff split: if_splits)

lemma parsed_iff:
  "(case r of Inl m \<Rightarrow> Inr (ParseFailure m) | Inr ts \<Rightarrow> Inr (ParseSuccess ct (xs @ ts))) = (Inr (ParseSuccess ct' us) :: failure + _) \<longleftrightarrow>
    (\<exists>ts. r = Inr ts \<and> ct' = ct \<and> us = xs @ ts)"
  by (cases r) auto

lemma parse_transfers_Success:
  assumes "parse_transfers E g ct f tx_to v logs = Inr (ParseSuccess ct' ts)"
  obtains tc ts' where "ct' = ct" and "scan_transfers E ct g tx_to tc logs = Inr (Inr ts')"
    and "ts = (if v \<noteq> 0 then [chain_transfer E ct f tx_to None v] else []) @ ts'"
  using assms by (auto simp: parse_transfers_def Let_def bindE_Inr_iff parsed_iff)

text \<open>C17. A verified payment really happened: the receipt of the transaction says it succeeded, and the transaction
  either carried the verified amount of native currency to the receiver or logged a transfer of exactly
  that amount of the token to the receiver; the verified amount is at least the one asked for. The token
  is not part of what is verified.\<close>

theorem verified_payment_happened:
  assumes "external (ev_ext V)" and "verify_transaction V c h sender receiver amount g w = (Inr (Verified v), w')"
  shows "amount \<le> v \<and> (\<exists>receipt tx. ev_receipt V (w_tick w) h = Inr (Some receipt) \<and> rc_status receipt = Some 1 \<and>
    ev_transaction V (w_tick w + 1) h = Inr (Some tx) \<and>
    (et_value tx = v \<and> v \<noteq> 0 \<and> et_to tx = Some receiver \<or>
     (\<exists>lg\<in>set (rc_logs receipt). is_transfer_log g lg \<and> log_to lg = receiver \<and> from_big_endian (lg_data lg) = v)))"
proof -
  obtain r w1 where r: "find_receipt_extended V h c g w = (Inr r, w1)"
    and ver_r: "(case r of ParseFailure msg \<Rightarrow> ret (Rejected ''Transaction cannot be parsed'')
     | ParseSuccess chain_tx transfers \<Rightarrow> if ctx_chain_status chain_tx = 1
         then liftR (verify_transfers (ev_ext V) (ctx_from_addr chain_tx) sender receiver amount transfers)
         else ret (Rejected ''Transaction not found'')) w1 = (Inr (Verified v), w')"
    using assms(2) by (auto simp: verify_transaction_def bindM_eq_Inr_iff)
  then obtain ct ts where rs: "r = ParseSuccess ct ts" by (cases r) auto
  have f: "find_receipt_extended V h c g w = (Inr (ParseSuccess ct ts), w1)" "ctx_chain_status ct = 1"
    and ver: "verify_transfers (ev_ext V) (ctx_from_addr ct) sender receiver amount ts = Inr (Verified v)"
    using r ver_r by (auto simp: rs split: if_splits)
  obtain receipt tx blank bi ct' tx_from tx_to where parts: "ev_receipt V (w_tick w) h = Inr (Some receipt)"
    "ev_transaction V (w_tick w + 1) h = Inr (Some tx)"
    "chain_tx_of (ev_ext V) blank receipt tx bi = Inr (ct', tx_from, tx_to)"
    "parse_transfers (ev_ext V) g ct' tx_from tx_to (et_value tx) (rc_logs receipt) = Inr (ParseSuccess ct ts)"
    by (rule find_receipt_extended_parts [OF f(1)])
  obtain tc ts' where p: "ct = ct'" "scan_transfers (ev_ext V) ct' g tx_to tc (rc_logs receipt) = Inr (Inr ts')"
    "ts = (if et_value tx \<noteq> 0 then [chain_transfer (ev_ext V) ct' tx_from tx_to None (et_value tx)] else []) @ ts'"
    by (rule parse_transfers_Success [OF parts(4)])
  note fields = chain_tx_of_fields [OF parts(3)]
  have status: "rc_status receipt = Some 1" using fields f(2) p(1) by auto
  obtain t where t: "t \<in> set ts" "addr_of_str (ev_ext V) (ct_receiver_addr t) = Some receiver"
    "u256_of_dec (ev_ext V) (ct_token_amount t) = Some v" "amount \<le> v"
    using verify_transfers_Verified [OF ver] by blast
  note laws = external.addr_law [OF assms(1)] external.dec_parse_law [OF assms(1)]
  consider (native) "et_value tx \<noteq> 0" "t = chain_transfer (ev_ext V) ct' tx_from tx_to None (et_value tx)" | (logged) "t \<in> set ts'"
    using t(1) by (auto simp: p(3) split: if_splits)
  then show ?thesis
  proof cases
    case native
    then show ?thesis using t laws status parts(1,2) fields by (auto simp: chain_transfer_def)
  next
    case logged
    from scan_transfers_logs [OF p(2) logged] obtain lg where lg: "lg \<in> set (rc_logs receipt)" "is_transfer_log g lg"
      "ct_receiver_addr t = str_of_addr (ev_ext V) (log_to lg)"
      "ct_token_amount t = dec_of_u256 (ev_ext V) (from_big_endian (lg_data lg))" by blast
    then have "log_to lg = receiver" "from_big_endian (lg_data lg) = v" using t(2,3) laws by simp_all
    then show ?thesis using lg status parts(1,2) t(4) by blast
  qed
qed

section \<open>Importing a transaction\<close>

lemma insert_chain_transfer_done:
  "insert_chain_transfer t d = (Inr r, d') \<Longrightarrow> d_chain_tx d' = d_chain_tx d \<and>
    tb_rows (d_chain_transfer d') = tb_rows (d_chain_transfer d) @ [t\<lparr>ct_id := tb_seq (d_chain_transfer d) + 1\<rparr>]"
  by (auto simp: insert_chain_transfer_def constrained_def tbl_insert_def set_ct_id_def Let_def split: if_splits)

lemma insert_chain_transfers_done:
  "forM (zip ts fees) (\<lambda>(t, fee). bindM (sqlx (insert_chain_transfer (t\<lparr>ct_chain_tx_id := i, ct_fee_paid := fee\<rparr>))) (\<lambda>_. ret ())) d = (Inr u, d') \<Longrightarrow>
    \<exists>new. tb_rows (d_chain_transfer d') = tb_rows (d_chain_transfer d) @ new \<and> d_chain_tx d' = d_chain_tx d \<and>
      map ct_fee_paid new = map snd (zip ts fees) \<and> list_all (\<lambda>t. ct_chain_tx_id t = i) new"
proof (induction ts arbitrary: fees d)
  case (Cons t ts)
  show ?case
  proof (cases fees)
    case Nil
    then show ?thesis using Cons.prems by simp
  next
    case fees: (Cons f fs)
    obtain r d1 where one: "insert_chain_transfer (t\<lparr>ct_chain_tx_id := i, ct_fee_paid := f\<rparr>) d = (Inr r, d1)"
      and rest: "forM (zip ts fs) (\<lambda>(t, fee). bindM (sqlx (insert_chain_transfer (t\<lparr>ct_chain_tx_id := i, ct_fee_paid := fee\<rparr>))) (\<lambda>_. ret ())) d1 = (Inr u, d')"
      using Cons.prems by (auto simp: fees bindM_eq_Inr_iff sqlx_Inr_iff ret_eq_Inr simp del: ret_apply)
    note rows = insert_chain_transfer_done [OF one]
    from Cons.IH [OF rest] rows show ?thesis by (fastforce simp: fees)
  qed
qed simp

lemma store_chain_tx_done:
  assumes "store_chain_tx E ct ts d = (Inr row, d')"
  obtains new where "tb_rows (d_chain_tx d') = tb_rows (d_chain_tx d) @ [row]" and "ctx_tx_hash row = ctx_tx_hash ct"
    and "find (\<lambda>t. ctx_tx_hash t = ctx_tx_hash ct) (tb_rows (d_chain_tx d)) = None"
    and "tb_rows (d_chain_transfer d') = tb_rows (d_chain_transfer d) @ new" and "list_all (\<lambda>t. ct_chain_tx_id t = ctx_id row) new"
    and "ts \<noteq> [] \<Longrightarrow> \<exists>fee fees. u256_of_dec E (ctx_fee_paid row) = Some fee \<and> distribute_fee fee (length ts) = Inr fees \<and>
      length new = length (zip ts fees) \<and> map ct_fee_paid new = map snd (zip ts (map (\<lambda>f. Some (dec_of_u256 E f)) fees))"
    and "ts = [] \<Longrightarrow> new = []"
proof -
  obtain d1 where ins: "insert_chain_tx ct d = (Inr row, d1)"
    and rest: "(if ts = [] then ret row else bindM (liftR (chain_transfer_fees E (ctx_fee_paid row) (length ts))) (\<lambda>fees.
       bindM (forM (zip ts fees) (\<lambda>(t, fee).
          bindM (sqlx (insert_chain_transfer (t\<lparr>ct_chain_tx_id := ctx_id row, ct_fee_paid := fee\<rparr>))) (\<lambda>_. ret ())))
        (\<lambda>_. ret row))) d1 = (Inr row, d')"
    using assms by (auto simp: store_chain_tx_def bindM_eq_Inr_iff sqlx_Inr_iff liftR_eq_Inr ret_eq_Inr split: if_splits)
  have first: "tb_rows (d_chain_tx d1) = tb_rows (d_chain_tx d) @ [row]" "ctx_tx_hash row = ctx_tx_hash ct"
    "find (\<lambda>t. ctx_tx_hash t = ctx_tx_hash ct) (tb_rows (d_chain_tx d)) = None" "d_chain_transfer d1 = d_chain_transfer d"
    using ins by (auto simp: insert_chain_tx_def constrained_def tbl_insert_def set_ctx_id_def chain_tx_row_def Let_def
        find_None_iff list_ex_iff split: if_splits)
  show thesis
  proof (cases "ts = []")
    case True
    then show thesis using first rest by (intro that [of "[]"]) auto
  next
    case False
    then obtain fee fees where fees: "u256_of_dec E (ctx_fee_paid row) = Some fee" "distribute_fee fee (length ts) = Inr fees"
      and all: "forM (zip ts (map (\<lambda>f. Some (dec_of_u256 E f)) fees)) (\<lambda>(t, fee).
          bindM (sqlx (insert_chain_transfer (t\<lparr>ct_chain_tx_id := ctx_id row, ct_fee_paid := fee\<rparr>))) (\<lambda>_. ret ())) d1 = (Inr (), d')"
      using rest by (auto simp: bindM_eq_Inr_iff chain_transfer_fees_def bindE_Inr_iff ok_or_Inr_iff)
    from insert_chain_transfers_done [OF all] obtain new where new: "tb_rows (d_chain_transfer d') = tb_rows (d_chain_transfer d1) @ new"
      "d_chain_tx d' = d_chain_tx d1" "map ct_fee_paid new = map snd (zip ts (map (\<lambda>f. Some (dec_of_u256 E f)) fees))"
      "list_all (\<lambda>t. ct_chain_tx_id t = ctx_id row) new" by blast
    have "length new = length (zip ts fees)" using arg_cong [OF new(3), of length] by simp
    then show thesis using first new fees False by (intro that [of new]) auto
  qed
qed

abbreviation chain_rows :: "world \<Rightarrow> chain_tx_db_obj list" where
  "chain_rows w \<equiv> tb_rows (d_chain_tx (w_db w))"

abbreviation chain_transfers :: "world \<Rightarrow> chain_transfer_db_obj list" where
  "chain_transfers w \<equiv> tb_rows (d_chain_transfer (w_db w))"

lemma import_known:
  assumes "h256_of_str (ev_ext V) h = Some hash"
    and "find (\<lambda>t. ctx_tx_hash t = str_of_h256 (ev_ext V) hash) (chain_rows w) = Some row"
  shows "transaction_from_chain_and_into_db V n c h g b w = (Inr (Some row), w)"
  using assms by (simp add: transaction_from_chain_and_into_db_def bindM_def db_run_eq get_chain_tx_hash_def)

lemma import_cases:
  assumes "transaction_from_chain_and_into_db V n c h g b w = (Inr (Some row), w')"
  obtains (known) hash where "h256_of_str (ev_ext V) h = Some hash" "w' = w"
      "find (\<lambda>t. ctx_tx_hash t = str_of_h256 (ev_ext V) hash) (chain_rows w) = Some row"
  | (stored) hash ct ts d where "h256_of_str (ev_ext V) h = Some hash" "ctx_tx_hash ct = str_of_h256 (ev_ext V) hash"
      "store_chain_tx (ev_ext V) ct ts (w_db w) = (Inr row, d)" "w_db w' = d"
proof -
  obtain hash where hash: "h256_of_str (ev_ext V) h = Some hash"
    using assms by (auto simp: transaction_from_chain_and_into_db_def bindM_eq_Inr_iff require_eq_Inr)
  show thesis
  proof (cases "find (\<lambda>t. ctx_tx_hash t = str_of_h256 (ev_ext V) hash) (chain_rows w)")
    case (Some r)
    then show thesis using known [OF hash] import_known [OF hash Some, of n c g b] assms by simp
  next
    case None
    have on: "bindM (db_run (get_chain_tx_hash (str_of_h256 (ev_ext V) hash))) f w = f None w" for f
      by (rule bindM_step) (simp add: db_run_eq get_chain_tx_hash_def None)
    obtain r w1 where r: "find_receipt_extended V hash c g w = (Inr r, w1)"
      and rest: "(case r of ParseFailure msg \<Rightarrow> ret None
         | ParseSuccess chain_tx transfers \<Rightarrow>
             if ctx_chain_status chain_tx \<noteq> 1 then ret None
             else bindM (if b then with_balances V n g chain_tx else ret chain_tx) (\<lambda>chain_tx'.
               bindM (db_transaction (store_chain_tx (ev_ext V) chain_tx' transfers)) (\<lambda>tx. ret (Some tx)))) w1 = (Inr (Some row), w')"
      using assms unfolding transaction_from_chain_and_into_db_def hash
      by (simp add: on bindM_eq_Inr_iff [of "find_receipt_extended _ _ _ _"] del: bindM_ret) (auto simp: on bindM_eq_Inr_iff [of "find_receipt_extended _ _ _ _"])
    then obtain ct ts where rs: "r = ParseSuccess ct ts" by (cases r) auto
    obtain ct' w2 where ct': "(if b then with_balances V n g ct else ret ct) w1 = (Inr ct', w2)"
      and st: "db_transaction (store_chain_tx (ev_ext V) ct' ts) w2 = (Inr row, w')"
      using rest rs by (auto simp: bindM_eq_Inr_iff ret_eq_Inr split: if_splits simp del: ret_apply)
    have "asks (if b then with_balances V n g ct else ret ct)" by (intro asks_intro)
    then obtain m where m: "w2 = w1\<lparr>w_tick := m\<rparr>" using asksD ct' by blast
    obtain k where k: "w1 = w\<lparr>w_tick := k\<rparr>" using asksD [OF asks_find_receipt_extended r] by blast
    have "ctx_tx_hash ct = str_of_h256 (ev_ext V) hash"
      using r unfolding rs by (rule find_receipt_extended_parts) (metis chain_tx_of_fields parse_transfers_Success)
    moreover have "ctx_tx_hash ct' = ctx_tx_hash ct"
      using ct' by (auto simp: with_balances_def Let_def bindM_eq_Inr_iff ret_eq_Inr split: if_splits simp del: ret_apply)
    ultimately show thesis
      using st m k by (intro stored [OF hash, of ct' ts "w_db w'"]) (auto simp: db_transaction_done)
  qed
qed

lemma distribute_fee_length: "distribute_fee v n = Inr fees \<Longrightarrow> length fees = n"
  by (auto simp: distribute_fee_def Let_def bindE_Inr_iff split: if_splits)

text \<open>C23. A transaction is imported once: after a successful import every further import of the same hash returns
  the same row and changes nothing. The import itself appends one chain transaction and the transfers that
  refer to it, and the fees of the transfers sum up to the fee of the transaction exactly.\<close>

theorem imported_once_with_exact_fees:
  assumes "external (ev_ext V)" and "transaction_from_chain_and_into_db V n c h g b w = (Inr (Some row), w')"
  shows "(\<forall>n' c' g' b'. transaction_from_chain_and_into_db V n' c' h g' b' w' = (Inr (Some row), w')) \<and>
    (w' = w \<or> (\<exists>new. chain_rows w' = chain_rows w @ [row] \<and> chain_transfers w' = chain_transfers w @ new \<and>
      (\<forall>t\<in>set new. ct_chain_tx_id t = ctx_id row) \<and>
      (new \<noteq> [] \<and> length new < 2 ^ 64 \<longrightarrow> (\<exists>fee fees. u256_of_dec (ev_ext V) (ctx_fee_paid row) = Some fee \<and>
         map ct_fee_paid new = map (\<lambda>f. Some (dec_of_u256 (ev_ext V) f)) fees \<and> sum_list (map unat fees) = unat fee))))"
  using assms(2)
proof (cases rule: import_cases)
  case (known hash)
  then show ?thesis using import_known [OF known(1,3)] by blast
next
  case (stored hash ct ts d)
  from stored(3) obtain new where s: "tb_rows (d_chain_tx d) = chain_rows w @ [row]" "ctx_tx_hash row = ctx_tx_hash ct"
    "find (\<lambda>t. ctx_tx_hash t = ctx_tx_hash ct) (chain_rows w) = None"
    "tb_rows (d_chain_transfer d) = chain_transfers w @ new" "list_all (\<lambda>t. ct_chain_tx_id t = ctx_id row) new"
    and fees: "ts \<noteq> [] \<Longrightarrow> \<exists>fee fees. u256_of_dec (ev_ext V) (ctx_fee_paid row) = Some fee \<and> distribute_fee fee (length ts) = Inr fees \<and>
      length new = length (zip ts fees) \<and> map ct_fee_paid new = map snd (zip ts (map (\<lambda>f. Some (dec_of_u256 (ev_ext V) f)) fees))"
    and none: "ts = [] \<Longrightarrow> new = []"
    by (rule store_chain_tx_done) blast
  have found: "find (\<lambda>t. ctx_tx_hash t = str_of_h256 (ev_ext V) hash) (chain_rows w') = Some row"
    using s(1-3) by (simp add: stored(2,4) find_append)
  have "\<exists>fee fees. u256_of_dec (ev_ext V) (ctx_fee_paid row) = Some fee \<and>
      map ct_fee_paid new = map (\<lambda>f. Some (dec_of_u256 (ev_ext V) f)) fees \<and> sum_list (map unat fees) = unat fee"
    if "new \<noteq> []" "length new < 2 ^ 64"
  proof -
    obtain fee fees where f: "u256_of_dec (ev_ext V) (ctx_fee_paid row) = Some fee" "distribute_fee fee (length ts) = Inr fees"
      "length new = length (zip ts fees)" "map ct_fee_paid new = map snd (zip ts (map (\<lambda>f. Some (dec_of_u256 (ev_ext V) f)) fees))"
      using fees none \<open>new \<noteq> []\<close> by blast
    have "length fees = length ts" using distribute_fee_length [OF f(2)] .
    then have "0 < length ts" "length ts < 2 ^ 64" using f(3) that by auto
    from distribute_fee_result [OF this, of fee] f(2) have "sum_list (map unat fees) = unat fee" by auto
    with f \<open>length fees = length ts\<close> show ?thesis by (auto simp: map_snd_zip)
  qed
  then show ?thesis using import_known [OF stored(1) found] s(1,4,5) by (auto simp: stored(4) list_all_iff)
qed

section \<open>The balance that is never answered\<close>

text \<open>While no answer has 32 bytes, the import waits for the token balance forever.\<close>

theorem token_balance_never_given_up:
  assumes "\<And>n. case ev_call V n (call_default\<lparr>cr_to := Some g, cr_data := Some data\<rparr>) (Some block) of Inl e \<Rightarrow> True | Inr v \<Rightarrow> length v \<noteq> 32"
    and "encode_erc20_balance_of (ev_ext V) a = Inr data"
  shows "fst (token_balance_attempts V g a block fuel w) = Inl OutOfFuel"
proof (induction fuel arbitrary: w)
  case (Suc fuel)
  have "\<exists>r. ev_call V (w_tick w) (call_default\<lparr>cr_to := Some g, cr_data := Some data\<rparr>) (Some block) = r \<and>
      (\<forall>v. r = Inr v \<longrightarrow> length v \<noteq> 32)"
    using assms(1) [of "w_tick w"] by (auto split: sum.splits)
  then show ?case using Suc assms(2) by (auto simp: bindM_def ask_def split: sum.split)
qed simp

section \<open>A concrete payment\<close>

text \<open>A successful transaction that carries seven wei from address 1 to address 2.\<close>

definition paying_env :: env where
  "paying_env = quiet_env\<lparr>ev_ext := ref_externals,
     ev_receipt := \<lambda>n h. Inr (Some \<lparr>rc_from = 1, rc_to = Some 2, rc_block_number = Some 100, rc_status = Some 1,
        rc_gas_used = Some 21000, rc_effective_gas_price = Some 3, rc_logs = []\<rparr>),
     ev_transaction := \<lambda>n h. Inr (Some \<lparr>et_from = Some 1, et_to = Some 2, et_nonce = 0, et_gas = 21000, et_value = 7,
        et_max_fee_per_gas = None, et_max_priority_fee_per_gas = None, et_input = []\<rparr>)\<rparr>"

lemma paying_ext [simp]: "ev_ext paying_env = ref_externals"
  by (simp add: paying_env_def)

lemma paying_receipt:
  obtains ct where "find_receipt_extended paying_env 9 5 4 w =
      (Inr (ParseSuccess ct [chain_transfer ref_externals ct 1 2 None 7]), w\<lparr>w_tick := w_tick w + 4\<rparr>)"
    and "ctx_chain_status ct = 1" and "ctx_from_addr ct = str_of_addr ref_externals 1"
    and "ctx_fee_paid ct = dec_of_u256 ref_externals 63000" and "ctx_tx_hash ct = str_of_h256 ref_externals 9"
proof -
  have m: "u256_mul 21000 3 = Inr 63000" by (simp add: u256_mul_def)
  have "\<exists>ct. find_receipt_extended paying_env 9 5 4 w =
      (Inr (ParseSuccess ct [chain_transfer ref_externals ct 1 2 None 7]), w\<lparr>w_tick := w_tick w + 4\<rparr>) \<and>
    ctx_chain_status ct = 1 \<and> ctx_from_addr ct = str_of_addr ref_externals 1 \<and>
    ctx_fee_paid ct = dec_of_u256 ref_externals 63000 \<and> ctx_tx_hash ct = str_of_h256 ref_externals 9"
    by (simp add: find_receipt_extended_def paying_env_def quiet_env_def rpc_def ask_def now_def bindM_def Let_def
        datetime_from_u256_timestamp_def as_u64_def chain_tx_of_def fits_i64_def i64_max_u256_def m parse_transfers_def
        method_of_input_def chain_tx_blank_def)
  then show thesis using that by blast
qed

theorem verified_payment_happened_witness:
  "\<exists>w'. verify_transaction paying_env 5 9 1 2 6 4 world_initial = (Inr (Verified 7), w') \<and> (6 :: u256) \<le> 7"
proof -
  obtain ct where r: "find_receipt_extended paying_env 9 5 4 world_initial =
      (Inr (ParseSuccess ct [chain_transfer ref_externals ct 1 2 None 7]), world_initial\<lparr>w_tick := w_tick world_initial + 4\<rparr>)"
    "ctx_chain_status ct = 1" "ctx_from_addr ct = str_of_addr ref_externals 1" by (rule paying_receipt)
  have "verify_transaction paying_env 5 9 1 2 6 4 world_initial = (Inr (Verified 7), world_initial\<lparr>w_tick := w_tick world_initial + 4\<rparr>)"
    by (simp add: verify_transaction_def bindM_def r(1,2) chain_transfer_def parse_address_def parse_dec_def
        external.addr_law [OF ref.external_axioms] external.dec_parse_law [OF ref.external_axioms])
  with verified_payment_happened [OF _ this] show ?thesis using ref.external_axioms by auto
qed

theorem imported_once_with_exact_fees_witness:
  "\<exists>row w'. transaction_from_chain_and_into_db paying_env 0 5 (str_of_h256 ref_externals 9) 4 False world_initial = (Inr (Some row), w') \<and>
     transaction_from_chain_and_into_db paying_env 0 5 (str_of_h256 ref_externals 9) 4 True w' = (Inr (Some row), w')"
proof -
  let ?w = "world_initial\<lparr>w_tick := w_tick world_initial + 4\<rparr>"
  note laws = external.h256_law [OF ref.external_axioms] external.dec_parse_law [OF ref.external_axioms]
  obtain ct where r: "find_receipt_extended paying_env 9 5 4 world_initial =
      (Inr (ParseSuccess ct [chain_transfer ref_externals ct 1 2 None 7]), ?w)" "ctx_chain_status ct = 1"
    and fee: "ctx_fee_paid ct = dec_of_u256 ref_externals 63000" by (rule paying_receipt)
  obtain f where f: "distribute_fee 63000 (Suc 0) = Inr [f]"
    using distribute_fee_result [of 1 63000] by (auto simp: length_Suc_conv)
  have "\<exists>row d. store_chain_tx ref_externals ct [chain_transfer ref_externals ct 1 2 None 7] (w_db ?w) = (Inr row, d)"
    by (simp add: store_chain_tx_def bindM_def sqlx_def insert_chain_tx_def constrained_def world_initial_def db_empty_def tbl_empty_def
        tbl_insert_def Let_def set_ctx_id_def chain_tx_row_def chain_transfer_fees_def fee laws f insert_chain_transfer_def
        chain_transfer_def fk_chain_tx_def)
  then obtain row d where st: "store_chain_tx ref_externals ct [chain_transfer ref_externals ct 1 2 None 7] (w_db ?w) = (Inr row, d)" by blast
  have none: "get_chain_tx_hash s (w_db world_initial) = (Inr None, w_db world_initial)" for s
    by (simp add: get_chain_tx_hash_def world_initial_def db_empty_def tbl_empty_def)
  have run: "transaction_from_chain_and_into_db paying_env 0 5 (str_of_h256 ref_externals 9) 4 False world_initial = (Inr (Some row), ?w\<lparr>w_db := d\<rparr>)"
    using st by (simp add: transaction_from_chain_and_into_db_def bindM_def laws db_run_eq none r db_transaction_eq)
  have "external (ev_ext paying_env)" using ref.external_axioms by simp
  from imported_once_with_exact_fees [OF this run] run show ?thesis by blast
qed

end
