(* ===== verification/RpcPool.thy ===== *)
theory RpcPool imports World "HOL-Library.AList" "HOL-Library.Signed_Division" begin

text \<open>
  The pool of RPC endpoints of a chain (\<open>rpc_pool/pool.rs\<close>, \<open>verify/verify_info.rs\<close>): its data, scores,
  the choice of the best endpoints and the bookkeeping of requests. The pool is shared with the tasks of
  the verifier, the resolver and other calls: whatever they do between two steps of a program is
  \<open>pe_others\<close>, applied at every \<open>await\<close>. The arena that keeps the endpoints is a list of pairs of index
  and endpoint in the order in which the arena is iterated; the index and the slot the arena gives a new endpoint, the exponential
  function on floating point numbers and every answer of the network are parameters. Floating point
  numbers are rationals, durations and instants are in milliseconds, dates in seconds.
\<close>

type_synonym index = nat

record web3_endpoint_params =
  wp_skip_validation :: bool
  wp_backup_level :: i64
  wp_max_number_of_consecutive_errors :: nat
  wp_verify_interval_secs :: u64
  wp_min_interval_requests_ms :: "nat option"
  wp_max_head_behind_secs :: "u64 option"
  wp_max_response_time_ms :: nat

record web3_rpc_single_params =
  sp_chain_id :: u64
  sp_name :: string
  sp_endpoint :: string
  sp_endpoint_params :: web3_endpoint_params
  sp_source_id :: "nat option"

record verify_endpoint_status =
  vs_head_seconds_behind :: u64
  vs_check_time_ms :: u64

datatype verify_endpoint_result =
    EndpointOk verify_endpoint_status
  | NoBlockInfo
  | WrongChainId
  | RpcWeb3Error string
  | OtherNetworkError string
  | HeadBehind timestamp
  | EndpointUnreachable

record req_stats =
  rs_request_succeeded_count :: nat
  rs_last_success_request :: "timestamp option"
  rs_request_error_count :: nat
  rs_last_error_request :: "timestamp option"

definition req_stats_default :: req_stats where
  "req_stats_default = \<lparr>rs_request_succeeded_count = 0, rs_last_success_request = None,
     rs_request_error_count = 0, rs_last_error_request = None\<rparr>"

record web3_rpc_stats =
  ws_request_count_total_succeeded :: nat
  ws_request_count_total_error :: nat
  ws_request_count_chain_id :: nat
  ws_request_stats :: "(string \<times> req_stats) list"
  ws_last_success_request :: "timestamp option"
  ws_last_error_request :: "timestamp option"

record web3_rpc_info =
  wi_last_verified :: "timestamp option"
  wi_verify_result :: "verify_endpoint_result option"
  wi_web3_rpc_stats :: web3_rpc_stats
  wi_last_chosen :: "timestamp option"
  wi_is_allowed :: bool
  wi_penalty_from_last_critical_error :: i64
  wi_penalty_from_errors :: i64
  wi_penalty_from_head_behind :: i64
  wi_penalty_from_ms :: i64
  wi_bonus_from_last_chosen :: i64
  wi_endpoint_consecutive_errors :: nat
  wi_removed_date :: "timestamp option"

definition web3_rpc_info_default :: web3_rpc_info where
  "web3_rpc_info_default = \<lparr>wi_last_verified = None, wi_verify_result = None,
     wi_web3_rpc_stats = \<lparr>ws_request_count_total_succeeded = 0, ws_request_count_total_error = 0,
       ws_request_count_chain_id = 0, ws_request_stats = [], ws_last_success_request = None,
       ws_last_error_request = None\<rparr>,
     wi_last_chosen = None, wi_is_allowed = False, wi_penalty_from_last_critical_error = 0,
     wi_penalty_from_errors = 0, wi_penalty_from_head_behind = 0, wi_penalty_from_ms = 0,
     wi_bonus_from_last_chosen = 0, wi_endpoint_consecutive_errors = 0, wi_removed_date = None\<rparr>"

text \<open>The client of an endpoint is known by its URL.\<close>

record web3_rpc_endpoint =
  ep_web3 :: "string option"
  ep_params :: web3_rpc_single_params
  ep_info :: web3_rpc_info

record web3_external_json_source =
  js_chain_id :: u64
  js_unique_source_id :: nat
  js_url :: string
  js_endpoint_params :: web3_endpoint_params

record web3_external_dns_source =
  dn_chain_id :: u64
  dn_unique_source_id :: nat
  dn_dns_url :: string
  dn_endpoint_params :: web3_endpoint_params

record rpc_pool =
  rp_chain_id :: u64
  rp_endpoints :: "(index \<times> web3_rpc_endpoint) list"
  rp_last_success_endpoints :: "index list"
  rp_external_json_sources :: "web3_external_json_source list"
  rp_external_dns_sources :: "web3_external_dns_source list"
  rp_check_external_sources_interval :: nat
  rp_verify_rpc_min_interval :: nat
  rp_last_check :: "nat option"
  rp_last_verify :: "nat option"
  rp_verify_finished :: bool

text \<open>The answer to a request: a value, an error that the node returned, another error, or none in time.\<close>

datatype 'r call_answer = Answered 'r | RpcFailed string | OtherFailed web3_error | TimedOut

record pool_env =
  pe_now :: "nat \<Rightarrow> timestamp"
  pe_instant :: "nat \<Rightarrow> nat"
  pe_index :: "index list \<Rightarrow> index"
  pe_slot :: "index list \<Rightarrow> nat"
  pe_http :: "string \<Rightarrow> bool"
  pe_exp :: "rat \<Rightarrow> rat"
  pe_others :: "nat \<Rightarrow> rpc_pool \<Rightarrow> rpc_pool"
  pe_dns :: "nat \<Rightarrow> string \<Rightarrow> unit + string list"
  pe_json :: "nat \<Rightarrow> string \<Rightarrow> unit + string list \<times> string list"
  pe_chain_id :: "nat \<Rightarrow> string \<Rightarrow> web3_error + u256"
  pe_latest_block :: "nat \<Rightarrow> string \<Rightarrow> web3_error + block_info option"
  pe_verify_timeout :: "nat \<Rightarrow> nat \<Rightarrow> bool"
  pe_from_timestamp :: "int \<Rightarrow> timestamp option"
  pe_error_text :: "web3_error \<Rightarrow> string"
  pe_event_sender :: bool

text \<open>\<open>pw_requests\<close> and \<open>pw_slept\<close> record the requests sent and the milliseconds slept.\<close>

record pool_world =
  pw_pool :: rpc_pool
  pw_events :: "driver_event_content list"
  pw_tick :: nat
  pw_requests :: "(index \<times> string) list"
  pw_slept :: nat

type_synonym 'a pool_prg = "(pool_world, failure, 'a) prog"

section \<open>The basic steps\<close>

definition ask_pool :: "(nat \<Rightarrow> 'a) \<Rightarrow> 'a pool_prg" where
  "ask_pool f w = (Inr (f (pw_tick w)), w\<lparr>pw_tick := pw_tick w + 1\<rparr>)"

definition await :: "pool_env \<Rightarrow> unit pool_prg" where
  "await V w = (Inr (), w\<lparr>pw_pool := pe_others V (pw_tick w) (pw_pool w), pw_tick := pw_tick w + 1\<rparr>)"

definition on_pool :: "(rpc_pool \<Rightarrow> rpc_pool) \<Rightarrow> unit pool_prg" where
  "on_pool f = modify (\<lambda>w. w\<lparr>pw_pool := f (pw_pool w)\<rparr>)"

definition sleep_ms :: "pool_env \<Rightarrow> nat \<Rightarrow> unit pool_prg" where
  "sleep_ms V ms = bindM (modify (\<lambda>w. w\<lparr>pw_slept := pw_slept w + ms\<rparr>)) (\<lambda>_. await V)"

definition send_pool_event :: "pool_env \<Rightarrow> web3_rpc_pool_content \<Rightarrow> unit pool_prg" where
  "send_pool_event V content = (if pe_event_sender V
     then bindM (modify (\<lambda>w. w\<lparr>pw_events := pw_events w @
            [Web3RpcMessage \<lparr>ri_chain_id = rp_chain_id (pw_pool w), ri_content = content\<rparr>]\<rparr>)) (\<lambda>_. await V)
     else ret ())"

definition endpoint_at :: "rpc_pool \<Rightarrow> index \<Rightarrow> web3_rpc_endpoint option" where
  "endpoint_at p i = map_of (rp_endpoints p) i"

definition update_endpoint :: "index \<Rightarrow> (web3_rpc_endpoint \<Rightarrow> web3_rpc_endpoint) \<Rightarrow> rpc_pool \<Rightarrow> rpc_pool" where
  "update_endpoint i f p = p\<lparr>rp_endpoints := map (\<lambda>(j, e). (j, if j = i then f e else e)) (rp_endpoints p)\<rparr>"

definition set_info :: "(web3_rpc_info \<Rightarrow> web3_rpc_info) \<Rightarrow> web3_rpc_endpoint \<Rightarrow> web3_rpc_endpoint" where
  "set_info f e = e\<lparr>ep_info := f (ep_info e)\<rparr>"

definition insert_endpoint :: "nat \<Rightarrow> index \<Rightarrow> web3_rpc_endpoint \<Rightarrow> rpc_pool \<Rightarrow> rpc_pool" where
  "insert_endpoint k i e p = p\<lparr>rp_endpoints := take k (rp_endpoints p) @ (i, e) # drop k (rp_endpoints p)\<rparr>"

section \<open>Endpoints\<close>

definition is_removed :: "web3_rpc_endpoint \<Rightarrow> bool" where
  "is_removed e \<longleftrightarrow> wi_removed_date (ep_info e) \<noteq> None"

definition is_allowed :: "web3_rpc_endpoint \<Rightarrow> bool" where
  "is_allowed e = (if wi_removed_date (ep_info e) \<noteq> None then False
     else wi_is_allowed (ep_info e) \<or> wp_skip_validation (sp_endpoint_params (ep_params e)))"

definition get_score :: "pool_env \<Rightarrow> web3_rpc_endpoint \<Rightarrow> rat" where
  "get_score V e = (if is_removed e then 0
     else if \<not> wi_is_allowed (ep_info e) then 0
     else let negative_score = of_int (wi_penalty_from_last_critical_error (ep_info e)) +
                of_int (wi_penalty_from_ms (ep_info e)) + of_int (wi_penalty_from_head_behind (ep_info e)) +
                of_int (wi_penalty_from_errors (ep_info e))
       in pe_exp V (- negative_score / 200) * 75 + of_int (wi_bonus_from_last_chosen (ep_info e)))"

definition get_validation_score :: "pool_env \<Rightarrow> web3_rpc_endpoint \<Rightarrow> rat" where
  "get_validation_score V e = (if \<not> wi_is_allowed (ep_info e) then 0
     else let negative_score = of_int (wi_penalty_from_ms (ep_info e)) + of_int (wi_penalty_from_head_behind (ep_info e))
       in pe_exp V (- negative_score / 200) * 100)"

text \<open>\<open>as i64\<close> of a floating point number cuts off the fraction and saturates.\<close>

definition rat_as_i64 :: "rat \<Rightarrow> i64" where
  "rat_as_i64 q = max (- (2 ^ 63)) (min (2 ^ 63 - 1) (if q < 0 then - \<lfloor>- q\<rfloor> else \<lfloor>q\<rfloor>))"

definition score_key :: "pool_env \<Rightarrow> web3_rpc_endpoint \<Rightarrow> i64" where
  "score_key V e = rat_as_i64 (get_score V e * 1000)"

definition new_endpoint :: "pool_env \<Rightarrow> web3_rpc_single_params \<Rightarrow> web3_rpc_endpoint pool_prg" where
  "new_endpoint V params = (if pe_http V (sp_endpoint params)
     then ret \<lparr>ep_web3 = Some (sp_endpoint params), ep_params = params, ep_info = web3_rpc_info_default\<rparr>
     else throw (Panic ''invalid url''))"

definition arena_insert :: "pool_env \<Rightarrow> web3_rpc_endpoint \<Rightarrow> unit pool_prg" where
  "arena_insert V e = on_pool (\<lambda>p. let is = map fst (rp_endpoints p) in insert_endpoint (pe_slot V is) (pe_index V is) e p)"

definition same_live_endpoint :: "string \<Rightarrow> web3_rpc_endpoint \<Rightarrow> bool" where
  "same_live_endpoint url e \<longleftrightarrow> \<not> is_removed e \<and> sp_endpoint (ep_params e) = url"

definition add_endpoint :: "pool_env \<Rightarrow> web3_rpc_single_params \<Rightarrow> unit pool_prg" where
  "add_endpoint V endpoint = bindM (gets pw_pool) (\<lambda>p.
     if sp_chain_id endpoint \<noteq> rp_chain_id p then ret ()
     else if list_ex (same_live_endpoint (sp_endpoint endpoint)) (map snd (rp_endpoints p)) then ret ()
     else bindM (new_endpoint V endpoint) (arena_insert V))"

section \<open>The verifier and resolver timers\<close>

definition due :: "pool_env \<Rightarrow> nat option \<Rightarrow> bool \<Rightarrow> bool pool_prg" where
  "due V since force = (case since of
       None \<Rightarrow> ret True
     | Some t \<Rightarrow> if force then ret True
         else bindM (gets pw_pool) (\<lambda>p. bindM (ask_pool (pe_instant V)) (\<lambda>now.
           ret (now - t \<ge> rp_check_external_sources_interval p))))"

definition start_resolve_if_needed :: "pool_env \<Rightarrow> bool \<Rightarrow> bool pool_prg" where
  "start_resolve_if_needed V force =
     bindM (gets (rp_last_check \<circ> pw_pool)) (\<lambda>since.
     bindM (due V since force) (\<lambda>go.
       if go then bindM (ask_pool (pe_instant V)) (\<lambda>now.
                  bindM (on_pool (rp_last_check_update (\<lambda>_. Some now))) (\<lambda>_. ret True))
       else ret False))"

definition start_verify_if_needed :: "pool_env \<Rightarrow> bool \<Rightarrow> bool pool_prg" where
  "start_verify_if_needed V force =
     bindM (gets (rp_last_verify \<circ> pw_pool)) (\<lambda>since.
     bindM (due V since force) (\<lambda>go.
       if go then bindM (ask_pool (pe_instant V)) (\<lambda>now.
                  bindM (on_pool (rp_last_verify_update (\<lambda>_. Some now))) (\<lambda>_. ret True))
       else ret False))"

definition pool_blank ::
    "u64 \<Rightarrow> web3_external_json_source list \<Rightarrow> web3_external_dns_source list \<Rightarrow> nat \<Rightarrow> nat \<Rightarrow> rpc_pool" where
  "pool_blank chain_id json_sources dns_sources verify_rpc_min_interval external_sources_interval_check =
     \<lparr>rp_chain_id = chain_id, rp_endpoints = [], rp_last_success_endpoints = [],
      rp_external_json_sources = json_sources, rp_external_dns_sources = dns_sources,
      rp_check_external_sources_interval = external_sources_interval_check,
      rp_verify_rpc_min_interval = verify_rpc_min_interval,
      rp_last_check = None, rp_last_verify = None, rp_verify_finished = False\<rparr>"

definition pool_new ::
    "pool_env \<Rightarrow> u64 \<Rightarrow> web3_rpc_single_params list \<Rightarrow> web3_external_json_source list \<Rightarrow>
     web3_external_dns_source list \<Rightarrow> nat \<Rightarrow> nat \<Rightarrow> unit pool_prg" where
  "pool_new V chain_id endpoints json_sources dns_sources verify_rpc_min_interval external_sources_interval_check =
     bindM (on_pool (\<lambda>_. pool_blank chain_id json_sources dns_sources verify_rpc_min_interval
       external_sources_interval_check)) (\<lambda>_.
     bindM (forM endpoints (\<lambda>endpoint_params.
        if sp_chain_id endpoint_params \<noteq> chain_id then ret ()
        else bindM (new_endpoint V endpoint_params) (arena_insert V))) (\<lambda>_.
     whenM (json_sources \<noteq> [] \<or> dns_sources \<noteq> [])
       (bindM (start_resolve_if_needed V False) (\<lambda>_. ret ()))))"

definition params_from_url :: "u64 \<Rightarrow> string \<Rightarrow> web3_rpc_single_params" where
  "params_from_url chain_id endpoint = \<lparr>sp_chain_id = chain_id, sp_name = endpoint, sp_endpoint = endpoint,
     sp_endpoint_params = \<lparr>wp_skip_validation = False, wp_backup_level = 0,
       wp_max_number_of_consecutive_errors = 5, wp_verify_interval_secs = 120,
       wp_min_interval_requests_ms = None, wp_max_head_behind_secs = Some 120, wp_max_response_time_ms = 5000\<rparr>,
     sp_source_id = None\<rparr>"

definition pool_new_from_urls :: "pool_env \<Rightarrow> u64 \<Rightarrow> string list \<Rightarrow> unit pool_prg" where
  "pool_new_from_urls V chain_id endpoints =
     pool_new V chain_id (map (params_from_url chain_id) endpoints) [] [] 10000 300000"

end
