(* ===== verification/RpcCall.thy ===== *)
theory RpcCall imports RpcPool begin

text \<open>
  A call through the pool (\<open>choose_best_endpoints\<close> and the bookkeeping of \<open>pool.rs\<close>,
  \<open>eth_generic_call.rs\<close> and its ten wrappers). The bookkeeping consists of functions on the pool, so that
  the steps of other tasks can be described by the same functions.
\<close>

section \<open>The choice of the endpoints\<close>

text \<open>The bonus of an endpoint that succeeded in the last calls in a row: 10, and 7, 5 and 3 more.\<close>

fun extra_score_run :: "index \<Rightarrow> index list \<Rightarrow> i64 list \<Rightarrow> i64" where
  "extra_score_run i (j # js) (k # ks) = (if j = i then k + extra_score_run i js ks else 0)"
| "extra_score_run i _ _ = 0"

definition extra_score :: "index list \<Rightarrow> index option \<times> i64" where
  "extra_score last_success = (case last_success of
       [] \<Rightarrow> (None, 0)
     | i # rest \<Rightarrow> (Some i, 10 + extra_score_run i rest [7, 5, 3]))"

definition extra_score_from_last_chosen :: "(index option \<times> i64) pool_prg" where
  "extra_score_from_last_chosen =
     bindM (on_pool (rp_last_success_endpoints_update (take 4))) (\<lambda>_.
       gets (extra_score \<circ> rp_last_success_endpoints \<circ> pw_pool))"

definition set_bonus :: "index option \<Rightarrow> i64 \<Rightarrow> rpc_pool \<Rightarrow> rpc_pool" where
  "set_bonus extra_score_idx extra p = p\<lparr>rp_endpoints := map (\<lambda>(i, e).
     (i, set_info (wi_bonus_from_last_chosen_update (\<lambda>_. if Some i = extra_score_idx then extra else 0)) e))
     (rp_endpoints p)\<rparr>"

text \<open>The last one of the elements with the greatest key.\<close>

fun max_by_key :: "('a \<Rightarrow> i64) \<Rightarrow> 'a list \<Rightarrow> 'a option" where
  "max_by_key f [] = None"
| "max_by_key f (x # xs) = (case max_by_key f xs of None \<Rightarrow> Some x | Some y \<Rightarrow> Some (if f x \<le> f y then y else x))"

definition allowed_of :: "rpc_pool \<Rightarrow> (index \<times> web3_rpc_endpoint) list" where
  "allowed_of p = filter (\<lambda>(i, e). is_allowed e) (rp_endpoints p)"

text \<open>Sorted by score, then reversed: the best endpoint first.\<close>

definition best_first :: "pool_env \<Rightarrow> rpc_pool \<Rightarrow> index list" where
  "best_first V p = map fst (rev (sort_key (\<lambda>(i, e). score_key V e) (allowed_of p)))"

text \<open>
  Without an allowed endpoint the call polls the endpoints it saw until one of them is allowed or the
  verifier has finished. An endpoint that has left the arena was removed before, so it is not allowed.
\<close>

fun poll_endpoints :: "pool_env \<Rightarrow> index list \<Rightarrow> nat \<Rightarrow> index list pool_prg" where
  "poll_endpoints V seen 0 = throw OutOfFuel"
| "poll_endpoints V seen (Suc fuel) =
     bindM (gets (rp_verify_finished \<circ> pw_pool)) (\<lambda>is_finished.
     bindM (gets pw_pool) (\<lambda>p.
       case max_by_key (\<lambda>(i, e). score_key V e) (filter (\<lambda>(i, e). i \<in> set seen) (allowed_of p)) of
         Some (i, _) \<Rightarrow> ret [i]
       | None \<Rightarrow> if is_finished then ret []
           else bindM (sleep_ms V 10) (\<lambda>_. poll_endpoints V seen fuel)))"

definition choose_best_endpoints :: "pool_env \<Rightarrow> nat \<Rightarrow> (index list \<times> bool) pool_prg" where
  "choose_best_endpoints V fuel =
     bindM (start_resolve_if_needed V False) (\<lambda>is_resolving.
     bindM extra_score_from_last_chosen (\<lambda>(extra_score_idx, extra).
     bindM (on_pool (set_bonus extra_score_idx extra)) (\<lambda>_.
     bindM (gets pw_pool) (\<lambda>p.
     bindM (start_verify_if_needed V False) (\<lambda>_.
       if best_first V p \<noteq> [] then ret (best_first V p, is_resolving)
       else bindM (poll_endpoints V (map fst (rp_endpoints p)) fuel) (\<lambda>chosen. ret (chosen, is_resolving)))))))"

section \<open>Bookkeeping\<close>

definition chosen_at :: "index \<Rightarrow> timestamp \<Rightarrow> rpc_pool \<Rightarrow> rpc_pool" where
  "chosen_at i t = update_endpoint i (set_info (wi_last_chosen_update (\<lambda>_. Some t)))"

definition mark_rpc_chosen :: "pool_env \<Rightarrow> index \<Rightarrow> unit pool_prg" where
  "mark_rpc_chosen V i = bindM (gets pw_pool) (\<lambda>p.
     if endpoint_at p i = None then throw (Panic ''called unwrap on a None value'')
     else bindM (ask_pool (pe_now V)) (\<lambda>t. on_pool (chosen_at i t)))"

definition method_stats :: "string \<Rightarrow> web3_rpc_stats \<Rightarrow> req_stats" where
  "method_stats meth s = (case map_of (ws_request_stats s) meth of Some r \<Rightarrow> r | None \<Rightarrow> req_stats_default)"

definition count_success :: "string \<Rightarrow> timestamp \<Rightarrow> timestamp \<Rightarrow> web3_rpc_info \<Rightarrow> web3_rpc_info" where
  "count_success meth t t' info = (let s = wi_web3_rpc_stats info; el = method_stats meth s in
     info\<lparr>wi_web3_rpc_stats := s\<lparr>
           ws_request_stats := AList.update meth (el\<lparr>
             rs_request_succeeded_count := rs_request_succeeded_count el + 1,
             rs_last_success_request := Some t\<rparr>) (ws_request_stats s),
           ws_last_success_request := Some t',
           ws_request_count_total_succeeded := ws_request_count_total_succeeded s + 1\<rparr>,
         wi_endpoint_consecutive_errors := 0\<rparr>)"

definition succeeded_at :: "index \<Rightarrow> string \<Rightarrow> timestamp \<Rightarrow> timestamp \<Rightarrow> rpc_pool \<Rightarrow> rpc_pool" where
  "succeeded_at i meth t t' p = update_endpoint i (set_info (count_success meth t t'))
     (p\<lparr>rp_last_success_endpoints := i # rp_last_success_endpoints p\<rparr>)"

definition mark_rpc_success :: "pool_env \<Rightarrow> index \<Rightarrow> string \<Rightarrow> unit pool_prg" where
  "mark_rpc_success V i meth = bindM (gets pw_pool) (\<lambda>p.
     if endpoint_at p i = None then ret ()
     else bindM (ask_pool (pe_now V)) (\<lambda>t. bindM (ask_pool (pe_now V)) (\<lambda>t'. on_pool (succeeded_at i meth t t'))))"

definition count_error :: "string \<Rightarrow> timestamp \<Rightarrow> timestamp \<Rightarrow> verify_endpoint_result \<Rightarrow> web3_rpc_info \<Rightarrow> web3_rpc_info" where
  "count_error meth t t' verify_result info = (let s = wi_web3_rpc_stats info; el = method_stats meth s in
     info\<lparr>wi_web3_rpc_stats := s\<lparr>
           ws_request_stats := AList.update meth (el\<lparr>
             rs_request_error_count := rs_request_error_count el + 1,
             rs_last_error_request := Some t\<rparr>) (ws_request_stats s),
           ws_last_error_request := Some t',
           ws_request_count_total_error := ws_request_count_total_error s + 1\<rparr>,
         wi_verify_result := Some verify_result,
         wi_endpoint_consecutive_errors := wi_endpoint_consecutive_errors info + 1,
         wi_penalty_from_last_critical_error := wi_penalty_from_last_critical_error info + 10\<rparr>)"

definition failed_at :: "index \<Rightarrow> string \<Rightarrow> timestamp \<Rightarrow> timestamp \<Rightarrow> verify_endpoint_result \<Rightarrow> rpc_pool \<Rightarrow> rpc_pool" where
  "failed_at i meth t t' verify_result = update_endpoint i (set_info (count_error meth t t' verify_result))"

definition mark_rpc_error :: "pool_env \<Rightarrow> index \<Rightarrow> string \<Rightarrow> verify_endpoint_result \<Rightarrow> unit pool_prg" where
  "mark_rpc_error V i meth verify_result = bindM (gets pw_pool) (\<lambda>p.
     if endpoint_at p i = None then throw (Panic ''called unwrap on a None value'')
     else bindM (ask_pool (pe_now V)) (\<lambda>t. bindM (ask_pool (pe_now V)) (\<lambda>t'. on_pool (failed_at i meth t t' verify_result))))"

definition get_web3 :: "index \<Rightarrow> string option pool_prg" where
  "get_web3 i = bindM (gets pw_pool) (\<lambda>p. case endpoint_at p i of
       None \<Rightarrow> ret None
     | Some e \<Rightarrow> bindM (require (Panic ''web3 field cannot be None'') (ep_web3 e)) (\<lambda>web3. ret (Some web3)))"

definition get_name :: "rpc_pool \<Rightarrow> index \<Rightarrow> string" where
  "get_name p i = (case endpoint_at p i of Some e \<Rightarrow> sp_name (ep_params e) | None \<Rightarrow> ''NoIdx'')"

definition get_max_timeout :: "rpc_pool \<Rightarrow> index \<Rightarrow> nat" where
  "get_max_timeout p i = (case endpoint_at p i of
       Some e \<Rightarrow> wp_max_response_time_ms (sp_endpoint_params (ep_params e)) | None \<Rightarrow> 0)"

definition get_endpoints_info :: "rpc_pool \<Rightarrow> (index \<times> web3_rpc_single_params \<times> web3_rpc_info) list" where
  "get_endpoints_info p = map (\<lambda>(i, e). (i, ep_params e, ep_info e)) (rp_endpoints p)"

section \<open>The generic call\<close>

definition check_if_proper_rpc_error :: "string \<Rightarrow> bool" where
  "check_if_proper_rpc_error err = contains err ''transfer amount exceeds balance''"

text \<open>What an attempt at one endpoint comes to.\<close>

datatype 'r attempt = Skipped | Finished 'r | Rejected_by_node web3_error | Failed web3_error

definition attempt_call ::
    "pool_env \<Rightarrow> string \<Rightarrow> (nat \<Rightarrow> string \<Rightarrow> nat \<Rightarrow> 'r call_answer) \<Rightarrow> index \<Rightarrow> 'r attempt pool_prg" where
  "attempt_call V meth do_call i =
     bindM (get_web3 i) (\<lambda>client. case client of
       None \<Rightarrow> ret Skipped
     | Some web3 \<Rightarrow>
         bindM (gets (\<lambda>w. get_max_timeout (pw_pool w) i)) (\<lambda>max_timeout.
         bindM (modify (\<lambda>w. w\<lparr>pw_requests := pw_requests w @ [(i, web3)]\<rparr>)) (\<lambda>_.
         bindM (ask_pool (\<lambda>n. do_call n web3 max_timeout)) (\<lambda>answer.
         bindM (await V) (\<lambda>_. case answer of
             Answered r \<Rightarrow>
               bindM (mark_rpc_success V i meth) (\<lambda>_.
               bindM (send_pool_event V RpcSuccess) (\<lambda>_. ret (Finished r)))
           | RpcFailed e \<Rightarrow>
               if check_if_proper_rpc_error e
               then bindM (mark_rpc_success V i meth) (\<lambda>_.
                    bindM (send_pool_event V RpcSuccess) (\<lambda>_. ret (Rejected_by_node (Rpc e))))
               else bindM (mark_rpc_error V i meth (RpcWeb3Error e)) (\<lambda>_. ret (Failed (Rpc e)))
           | OtherFailed e \<Rightarrow>
               bindM (mark_rpc_error V i meth (OtherNetworkError (pe_error_text V e))) (\<lambda>_. ret (Failed e))
           | TimedOut \<Rightarrow>
               bindM (mark_rpc_error V i meth EndpointUnreachable) (\<lambda>_. ret (Failed Unreachable)))))))"

definition loop_count :: nat where
  "loop_count = 4"

definition sleep_times :: "nat list" where
  "sleep_times = [800, 1200, 2000, 2800]"

text \<open>One round over the chosen endpoints: a result, or the number of failures so far.\<close>

fun call_endpoints ::
    "pool_env \<Rightarrow> string \<Rightarrow> (nat \<Rightarrow> string \<Rightarrow> nat \<Rightarrow> 'r call_answer) \<Rightarrow> nat \<Rightarrow> index list \<Rightarrow> ('r + nat) pool_prg" where
  "call_endpoints V meth do_call loop_no [] = ret (Inr loop_no)"
| "call_endpoints V meth do_call loop_no (i # rest) =
     bindM (attempt_call V meth do_call i) (\<lambda>a. case a of
         Skipped \<Rightarrow> call_endpoints V meth do_call loop_no rest
       | Finished r \<Rightarrow> ret (Inl r)
       | Rejected_by_node e \<Rightarrow> throw (Err (Web3Error e))
       | Failed e \<Rightarrow>
           if loop_no \<ge> loop_count
           then bindM (send_pool_event V (RpcError (''Web3 rpc call failed '' @ pe_error_text V e)))
                  (\<lambda>_. throw (Err (Web3Error e)))
           else bindM (sleep_ms V (sleep_times ! loop_no)) (\<lambda>_.
                  call_endpoints V meth do_call (loop_no + 1) rest))"

definition mark_first_chosen :: "pool_env \<Rightarrow> index list \<Rightarrow> unit pool_prg" where
  "mark_first_chosen V idx_vec = (case idx_vec of [] \<Rightarrow> ret () | i # _ \<Rightarrow> mark_rpc_chosen V i)"

fun generic_call_loop ::
    "pool_env \<Rightarrow> string \<Rightarrow> (nat \<Rightarrow> string \<Rightarrow> nat \<Rightarrow> 'r call_answer) \<Rightarrow> nat \<Rightarrow> nat \<Rightarrow> nat \<Rightarrow> 'r pool_prg" where
  "generic_call_loop V meth do_call poll_fuel 0 loop_no = throw OutOfFuel"
| "generic_call_loop V meth do_call poll_fuel (Suc fuel) loop_no =
     bindM (choose_best_endpoints V poll_fuel) (\<lambda>(idx_vec, is_resolving).
     if idx_vec = [] \<and> \<not> is_resolving then throw (Err (Web3Error Unreachable))
     else bindM (mark_first_chosen V idx_vec) (\<lambda>_.
       if idx_vec = [] then
         (if loop_no \<ge> loop_count
          then bindM (send_pool_event V AllEndpointsFailed) (\<lambda>_. throw (Err (Web3Error Unreachable)))
          else bindM (sleep_ms V (sleep_times ! loop_no)) (\<lambda>_.
                 generic_call_loop V meth do_call poll_fuel fuel (loop_no + 1)))
       else bindM (call_endpoints V meth do_call loop_no idx_vec) (\<lambda>r. case r of
           Inl answer \<Rightarrow> ret answer
         | Inr loop_no' \<Rightarrow> generic_call_loop V meth do_call poll_fuel fuel loop_no')))"

definition eth_generic_call ::
    "pool_env \<Rightarrow> string \<Rightarrow> (nat \<Rightarrow> string \<Rightarrow> nat \<Rightarrow> 'r call_answer) \<Rightarrow> nat \<Rightarrow> nat \<Rightarrow> 'r pool_prg" where
  "eth_generic_call V meth do_call poll_fuel fuel = generic_call_loop V meth do_call poll_fuel fuel 0"

section \<open>The methods\<close>

text \<open>The requests of a client; the number is the time of the request, the last argument the time it may take.\<close>

datatype block_number = LatestBlock | PendingBlock | BlockNumber nat

record eth_client =
  cl_balance :: "address \<Rightarrow> block_number option \<Rightarrow> nat \<Rightarrow> string \<Rightarrow> nat \<Rightarrow> u256 call_answer"
  cl_block :: "block_number \<Rightarrow> nat \<Rightarrow> string \<Rightarrow> nat \<Rightarrow> block_info option call_answer"
  cl_call :: "call_request \<Rightarrow> block_number option \<Rightarrow> nat \<Rightarrow> string \<Rightarrow> nat \<Rightarrow> bytes call_answer"
  cl_estimate_gas :: "call_request \<Rightarrow> block_number option \<Rightarrow> nat \<Rightarrow> string \<Rightarrow> nat \<Rightarrow> u256 call_answer"
  cl_send_raw_transaction :: "bytes \<Rightarrow> nat \<Rightarrow> string \<Rightarrow> nat \<Rightarrow> h256 call_answer"
  cl_transaction :: "h256 \<Rightarrow> nat \<Rightarrow> string \<Rightarrow> nat \<Rightarrow> eth_transaction option call_answer"
  cl_transaction_receipt :: "h256 \<Rightarrow> nat \<Rightarrow> string \<Rightarrow> nat \<Rightarrow> eth_receipt option call_answer"
  cl_logs :: "address \<Rightarrow> h256 list option \<Rightarrow> h256 list option \<Rightarrow> int \<Rightarrow> int \<Rightarrow> nat \<Rightarrow> string \<Rightarrow> nat \<Rightarrow> eth_log list call_answer"
  cl_block_number :: "nat \<Rightarrow> string \<Rightarrow> nat \<Rightarrow> nat call_answer"
  cl_transaction_count :: "address \<Rightarrow> block_number option \<Rightarrow> nat \<Rightarrow> string \<Rightarrow> nat \<Rightarrow> u256 call_answer"

definition eth_balance :: "pool_env \<Rightarrow> eth_client \<Rightarrow> nat \<Rightarrow> nat \<Rightarrow> address \<Rightarrow> block_number option \<Rightarrow> u256 pool_prg" where
  "eth_balance V C poll_fuel fuel a block = eth_generic_call V ''balance'' (cl_balance C a block) poll_fuel fuel"

definition eth_block :: "pool_env \<Rightarrow> eth_client \<Rightarrow> nat \<Rightarrow> nat \<Rightarrow> block_number \<Rightarrow> block_info option pool_prg" where
  "eth_block V C poll_fuel fuel block = eth_generic_call V ''block'' (cl_block C block) poll_fuel fuel"

definition eth_call :: "pool_env \<Rightarrow> eth_client \<Rightarrow> nat \<Rightarrow> nat \<Rightarrow> call_request \<Rightarrow> block_number option \<Rightarrow> bytes pool_prg" where
  "eth_call V C poll_fuel fuel call_data block = eth_generic_call V ''call'' (cl_call C call_data block) poll_fuel fuel"

definition eth_estimate_gas ::
    "pool_env \<Rightarrow> eth_client \<Rightarrow> nat \<Rightarrow> nat \<Rightarrow> call_request \<Rightarrow> block_number option \<Rightarrow> u256 pool_prg" where
  "eth_estimate_gas V C poll_fuel fuel call_data block =
     eth_generic_call V ''estimate_gas'' (cl_estimate_gas C call_data block) poll_fuel fuel"

definition eth_send_raw_transaction :: "pool_env \<Rightarrow> eth_client \<Rightarrow> nat \<Rightarrow> nat \<Rightarrow> bytes \<Rightarrow> h256 pool_prg" where
  "eth_send_raw_transaction V C poll_fuel fuel rlp =
     eth_generic_call V ''send_raw_transaction'' (cl_send_raw_transaction C rlp) poll_fuel fuel"

definition eth_transaction_by_hash :: "pool_env \<Rightarrow> eth_client \<Rightarrow> nat \<Rightarrow> nat \<Rightarrow> h256 \<Rightarrow> eth_transaction option pool_prg" where
  "eth_transaction_by_hash V C poll_fuel fuel i =
     eth_generic_call V ''transaction'' (cl_transaction C i) poll_fuel fuel"

definition eth_transaction_receipt ::
    "pool_env \<Rightarrow> eth_client \<Rightarrow> nat \<Rightarrow> nat \<Rightarrow> h256 \<Rightarrow> eth_receipt option pool_prg" where
  "eth_transaction_receipt V C poll_fuel fuel h =
     eth_generic_call V ''transaction_receipt'' (cl_transaction_receipt C h) poll_fuel fuel"

definition eth_logs ::
    "pool_env \<Rightarrow> eth_client \<Rightarrow> nat \<Rightarrow> nat \<Rightarrow> address \<Rightarrow> h256 list option \<Rightarrow> h256 list option \<Rightarrow> int \<Rightarrow> int \<Rightarrow>
     eth_log list pool_prg" where
  "eth_logs V C poll_fuel fuel a topics1 topics2 from_block to_block =
     eth_generic_call V ''logs'' (cl_logs C a topics1 topics2 from_block to_block) poll_fuel fuel"

definition eth_block_number :: "pool_env \<Rightarrow> eth_client \<Rightarrow> nat \<Rightarrow> nat \<Rightarrow> nat pool_prg" where
  "eth_block_number V C poll_fuel fuel = eth_generic_call V ''block_number'' (cl_block_number C) poll_fuel fuel"

definition eth_transaction_count ::
    "pool_env \<Rightarrow> eth_client \<Rightarrow> nat \<Rightarrow> nat \<Rightarrow> address \<Rightarrow> block_number option \<Rightarrow> u256 pool_prg" where
  "eth_transaction_count V C poll_fuel fuel a block =
     eth_generic_call V ''transaction_count'' (cl_transaction_count C a block) poll_fuel fuel"

end
