(* ===== verification/RpcTasks.thy ===== *)
theory RpcTasks imports RpcCall begin

text \<open>
  The tasks that look after the pool: the verification of endpoints (\<open>verify/verify_impl.rs\<close>,
  \<open>pool/verifier.rs\<close>) and the resolver of external sources (\<open>pool/resolver.rs\<close>). The endpoints of one
  verification are handled one after the other: each step touches only its own endpoint. The clock is
  read once per pass over the endpoints.
\<close>

section \<open>Verification of an endpoint\<close>

record verify_endpoint_params =
  vp_chain_id :: u64
  vp_allow_max_head_behind_secs :: "u64 option"
  vp_allow_max_response_time_ms :: nat

text \<open>\<open>Duration::try_seconds\<close> has no result when the milliseconds do not fit.\<close>

definition duration_seconds :: "i64 \<Rightarrow> int option" where
  "duration_seconds s = (if \<bar>s\<bar> * 1000 \<le> 2 ^ 63 - 1 then Some s else None)"

definition pool_datetime :: "pool_env \<Rightarrow> u256 \<Rightarrow> failure + timestamp option" where
  "pool_datetime V timestamp = bindE (as_u64 timestamp)
     (\<lambda>t. Inr (pe_from_timestamp V (as_i64 (of_nat t))))"

definition head_too_far_behind :: "timestamp \<Rightarrow> timestamp \<Rightarrow> u64 \<Rightarrow> failure + bool" where
  "head_too_far_behind current date max_secs =
     bindE (ok_or (Panic ''max_head_behind_secs invalid value'') (duration_seconds (as_i64 max_secs)))
       (\<lambda>limit. Inr (current - date > limit))"

definition check_head ::
    "pool_env \<Rightarrow> verify_endpoint_params \<Rightarrow> nat \<Rightarrow> timestamp \<Rightarrow> verify_endpoint_result pool_prg" where
  "check_head V vep start_check date =
     bindM (case vp_allow_max_head_behind_secs vep of
         None \<Rightarrow> ret False
       | Some max_secs \<Rightarrow> bindM (ask_pool (pe_now V)) (\<lambda>now. liftR (head_too_far_behind now date max_secs))) (\<lambda>behind.
     if behind then ret (HeadBehind date)
     else bindM (ask_pool (pe_now V)) (\<lambda>now. bindM (ask_pool (pe_instant V)) (\<lambda>end_check.
       ret (EndpointOk \<lparr>vs_head_seconds_behind = i64_as_u64 (now - date),
         vs_check_time_ms = of_nat (end_check - start_check)\<rparr>))))"

definition verify_endpoint_int :: "pool_env \<Rightarrow> string \<Rightarrow> verify_endpoint_params \<Rightarrow> verify_endpoint_result pool_prg" where
  "verify_endpoint_int V web3 vep =
     bindM (ask_pool (\<lambda>n. pe_verify_timeout V n (vp_allow_max_response_time_ms vep))) (\<lambda>timeout.
     if timeout then bindM (await V) (\<lambda>_. ret EndpointUnreachable)
     else
       bindM (ask_pool (pe_instant V)) (\<lambda>start_check.
       bindM (ask_pool (\<lambda>n. pe_chain_id V n web3)) (\<lambda>r.
       bindM (await V) (\<lambda>_. case r of
         Inl err \<Rightarrow> ret (OtherNetworkError (pe_error_text V err))
       | Inr chain_id \<Rightarrow>
           if ucast (vp_chain_id vep) \<noteq> chain_id then ret WrongChainId
           else
             bindM (ask_pool (\<lambda>n. pe_latest_block V n web3)) (\<lambda>b.
             bindM (await V) (\<lambda>_. case b of
               Inl err \<Rightarrow> ret (OtherNetworkError (pe_error_text V err))
             | Inr None \<Rightarrow> ret NoBlockInfo
             | Inr (Some block_info) \<Rightarrow>
                 bindM (liftR (pool_datetime V (bk_timestamp block_info))) (\<lambda>d. case d of
                   None \<Rightarrow> ret NoBlockInfo
                 | Some date \<Rightarrow> check_head V vep start_check date)))))))"

text \<open>What the result of a verification makes of the state of the endpoint.\<close>

definition verified_info :: "timestamp \<Rightarrow> verify_endpoint_result \<Rightarrow> web3_rpc_info \<Rightarrow> web3_rpc_info" where
  "verified_info t result info =
     (let penalty = (if wi_last_verified info \<noteq> None \<and> \<not> wi_is_allowed info then 100
            else wi_penalty_from_last_critical_error info sdiv 2);
          base = info\<lparr>wi_penalty_from_last_critical_error := penalty, wi_last_verified := Some t,
            wi_verify_result := Some result, wi_penalty_from_errors := 0, wi_penalty_from_ms := 0,
            wi_penalty_from_head_behind := 0, wi_is_allowed := False\<rparr>
      in case result of
           EndpointOk status \<Rightarrow> base\<lparr>
             wi_penalty_from_ms := as_i64 (vs_check_time_ms status) sdiv 10,
             wi_penalty_from_head_behind := as_i64 (vs_head_seconds_behind status),
             wi_is_allowed := True\<rparr>
         | _ \<Rightarrow> base)"

definition verified_at :: "index \<Rightarrow> timestamp \<Rightarrow> verify_endpoint_result \<Rightarrow> rpc_pool \<Rightarrow> rpc_pool" where
  "verified_at i t result = update_endpoint i (set_info (verified_info t result))"

definition verification_skipped :: "timestamp \<Rightarrow> bool \<Rightarrow> web3_rpc_endpoint \<Rightarrow> failure + bool" where
  "verification_skipped current force e = (case wi_last_verified (ep_info e) of
       None \<Rightarrow> Inr False
     | Some last_verified \<Rightarrow> if force then Inr False
         else bindE (ok_or (Panic ''verify_interval_secs invalid value'')
                (duration_seconds (as_i64 (wp_verify_interval_secs (sp_endpoint_params (ep_params e))))))
              (\<lambda>limit. Inr (current - last_verified < limit)))"

definition verify_endpoint :: "pool_env \<Rightarrow> u64 \<Rightarrow> index \<Rightarrow> bool \<Rightarrow> unit pool_prg" where
  "verify_endpoint V chain_id i force =
     bindM (gets pw_pool) (\<lambda>p. case endpoint_at p i of
       None \<Rightarrow> ret ()
     | Some e \<Rightarrow>
         bindM (require (Panic ''web3 field cannot be None'') (ep_web3 e)) (\<lambda>web3.
         bindM (ask_pool (pe_now V)) (\<lambda>now.
         bindM (liftR (verification_skipped now force e)) (\<lambda>skip.
         if skip then ret ()
         else
           bindM (verify_endpoint_int V web3 \<lparr>vp_chain_id = chain_id,
             vp_allow_max_head_behind_secs = wp_max_head_behind_secs (sp_endpoint_params (ep_params e)),
             vp_allow_max_response_time_ms = wp_max_response_time_ms (sp_endpoint_params (ep_params e))\<rparr>) (\<lambda>result.
           bindM (ask_pool (pe_now V)) (\<lambda>t. on_pool (verified_at i t result)))))))"

definition verify_unverified_endpoints :: "pool_env \<Rightarrow> bool \<Rightarrow> unit pool_prg" where
  "verify_unverified_endpoints V force =
     bindM (await V) (\<lambda>_.
     bindM (gets pw_pool) (\<lambda>p.
       forM (filter (\<lambda>(i, e). \<not> is_removed e) (rp_endpoints p))
         (\<lambda>(i, _). verify_endpoint V (rp_chain_id p) i force)))"

text \<open>The task that \<open>start_verify_if_needed\<close> spawns.\<close>

definition verify_task :: "pool_env \<Rightarrow> bool \<Rightarrow> unit pool_prg" where
  "verify_task V force = bindM (verify_unverified_endpoints V force)
     (\<lambda>_. on_pool (rp_verify_finished_update (\<lambda>_. True)))"

section \<open>The resolver of external sources\<close>

definition is_whitespace :: "char \<Rightarrow> bool" where
  "is_whitespace c \<longleftrightarrow> of_char c \<in> {9, 10, 11, 12, 13, 32 :: nat}"

definition trim :: "string \<Rightarrow> string" where
  "trim s = rev (dropWhile is_whitespace (rev (dropWhile is_whitespace s)))"

definition resolve_txt_record_to_string_array :: "string list \<Rightarrow> string list" where
  "resolve_txt_record_to_string_array entries = filter (\<lambda>e. e \<noteq> []) (map trim entries)"

definition grace_period :: int where
  "grace_period = 300"

definition sweep_removed :: "timestamp \<Rightarrow> rpc_pool \<Rightarrow> rpc_pool" where
  "sweep_removed current p = p\<lparr>rp_endpoints := filter (\<lambda>(i, e). \<not> (case wi_removed_date (ep_info e) of
       None \<Rightarrow> False | Some removed_date \<Rightarrow> current - removed_date > grace_period)) (rp_endpoints p)\<rparr>"

definition cleanup_sources_after_grace_period :: "pool_env \<Rightarrow> unit pool_prg" where
  "cleanup_sources_after_grace_period V = bindM (ask_pool (pe_now V)) (\<lambda>now. on_pool (sweep_removed now))"

definition gone_from_source :: "nat \<Rightarrow> string list \<Rightarrow> web3_rpc_endpoint \<Rightarrow> bool" where
  "gone_from_source source urls e \<longleftrightarrow> wi_removed_date (ep_info e) = None \<and>
     sp_source_id (ep_params e) = Some source \<and> sp_endpoint (ep_params e) \<notin> set urls"

definition withdraw_gone :: "nat \<Rightarrow> string list \<Rightarrow> timestamp \<Rightarrow> rpc_pool \<Rightarrow> rpc_pool" where
  "withdraw_gone source urls t p = p\<lparr>rp_endpoints := map (\<lambda>(i, e). (i,
     if gone_from_source source urls e then set_info (wi_removed_date_update (\<lambda>_. Some t)) e else e)) (rp_endpoints p)\<rparr>"

definition sync_source ::
    "pool_env \<Rightarrow> nat \<Rightarrow> web3_endpoint_params \<Rightarrow> (string \<times> string) list \<Rightarrow> string list \<Rightarrow> unit pool_prg" where
  "sync_source V source params url_names urls =
     bindM (forM url_names (\<lambda>(url, name). bindM (gets pw_pool) (\<lambda>p.
        add_endpoint V \<lparr>sp_chain_id = rp_chain_id p, sp_name = name, sp_endpoint = url,
          sp_endpoint_params = params, sp_source_id = Some source\<rparr>))) (\<lambda>_.
     bindM (ask_pool (pe_now V)) (\<lambda>t. on_pool (withdraw_gone source urls t)))"

definition sync_dns_source :: "pool_env \<Rightarrow> web3_external_dns_source \<Rightarrow> unit pool_prg" where
  "sync_dns_source V s =
     bindM (ask_pool (\<lambda>n. pe_dns V n (dn_dns_url s))) (\<lambda>r.
     bindM (await V) (\<lambda>_. case r of
         Inl _ \<Rightarrow> ret ()
       | Inr entries \<Rightarrow> let urls = resolve_txt_record_to_string_array entries in
           sync_source V (dn_unique_source_id s) (dn_endpoint_params s) (zip urls urls) urls))"

definition sync_json_source :: "pool_env \<Rightarrow> web3_external_json_source \<Rightarrow> unit pool_prg" where
  "sync_json_source V s =
     bindM (ask_pool (\<lambda>n. pe_json V n (js_url s))) (\<lambda>r.
     bindM (await V) (\<lambda>_. case r of
         Inl _ \<Rightarrow> ret ()
       | Inr (names, urls) \<Rightarrow>
           sync_source V (js_unique_source_id s) (js_endpoint_params s) (zip urls names) urls))"

definition resolve_external_addresses_int :: "pool_env \<Rightarrow> unit pool_prg" where
  "resolve_external_addresses_int V =
     bindM (cleanup_sources_after_grace_period V) (\<lambda>_.
     bindM (gets pw_pool) (\<lambda>p.
     bindM (forM (rp_external_dns_sources p) (sync_dns_source V)) (\<lambda>_.
       forM (rp_external_json_sources p) (sync_json_source V))))"

end
