(* ===== verification/RpcSteps.thy ===== *)
theory RpcSteps imports RpcTasks begin

text \<open>
  The pool as a state machine: a step relation with one rule for every change that any task makes to the
  pool, the invariant of the pool, and the proof that calls, verifier and resolver only take such steps,
  whatever the other tasks do between them.
\<close>

named_theorems steps_intro \<open>programs that change the pool by steps only\<close>

section \<open>The step relation\<close>

definition fresh_endpoint :: "web3_rpc_single_params \<Rightarrow> web3_rpc_endpoint" where
  "fresh_endpoint params = \<lparr>ep_web3 = Some (sp_endpoint params), ep_params = params, ep_info = web3_rpc_info_default\<rparr>"

definition known_url :: "rpc_pool \<Rightarrow> string \<Rightarrow> bool" where
  "known_url p url \<longleftrightarrow> list_ex (same_live_endpoint url) (map snd (rp_endpoints p))"

inductive pool_step :: "rpc_pool \<Rightarrow> rpc_pool \<Rightarrow> bool" where
  Added: "sp_chain_id params = rp_chain_id p \<Longrightarrow> \<not> known_url p (sp_endpoint params) \<Longrightarrow>
    i \<notin> set (map fst (rp_endpoints p)) \<Longrightarrow> pool_step p (insert_endpoint k i (fresh_endpoint params) p)"
| Swept: "pool_step p (sweep_removed t p)"
| Withdrawn: "pool_step p (withdraw_gone source urls t p)"
| Chosen: "pool_step p (chosen_at i t p)"
| Succeeded: "pool_step p (succeeded_at i meth t t' p)"
| Faulted: "pool_step p (failed_at i meth t t' result p)"
| Checked: "pool_step p (verified_at i t result p)"
| Bonus: "0 \<le> extra \<Longrightarrow> extra \<le> 25 \<Longrightarrow> pool_step p (set_bonus i extra p)"
| Cut: "pool_step p (p\<lparr>rp_last_success_endpoints := take n (rp_last_success_endpoints p)\<rparr>)"
| Resolving: "pool_step p (p\<lparr>rp_last_check := Some t\<rparr>)"
| Verifying: "pool_step p (p\<lparr>rp_last_verify := Some t\<rparr>)"
| Verified_all: "pool_step p (p\<lparr>rp_verify_finished := True\<rparr>)"

abbreviation pool_steps :: "rpc_pool \<Rightarrow> rpc_pool \<Rightarrow> bool" where
  "pool_steps \<equiv> pool_step\<^sup>*\<^sup>*"

section \<open>The invariant\<close>

definition stats_ok :: "web3_rpc_stats \<Rightarrow> bool" where
  "stats_ok s \<longleftrightarrow>
     ws_request_count_total_succeeded s = sum_list (map (rs_request_succeeded_count \<circ> snd) (ws_request_stats s)) \<and>
     ws_request_count_total_error s = sum_list (map (rs_request_error_count \<circ> snd) (ws_request_stats s))"

definition endpoint_ok :: "u64 \<Rightarrow> web3_rpc_endpoint \<Rightarrow> bool" where
  "endpoint_ok chain_id e \<longleftrightarrow> sp_chain_id (ep_params e) = chain_id \<and> ep_web3 e = Some (sp_endpoint (ep_params e)) \<and>
     stats_ok (wi_web3_rpc_stats (ep_info e)) \<and> 0 \<le> wi_penalty_from_last_critical_error (ep_info e) \<and>
     0 \<le> wi_bonus_from_last_chosen (ep_info e) \<and> wi_bonus_from_last_chosen (ep_info e) \<le> 25"

definition live_urls :: "web3_rpc_endpoint list \<Rightarrow> string list" where
  "live_urls es = map (sp_endpoint \<circ> ep_params) (filter (\<lambda>e. \<not> is_removed e) es)"

definition pool_ok :: "rpc_pool \<Rightarrow> bool" where
  "pool_ok p \<longleftrightarrow> distinct (map fst (rp_endpoints p)) \<and>
     list_all (endpoint_ok (rp_chain_id p)) (map snd (rp_endpoints p)) \<and>
     distinct (live_urls (map snd (rp_endpoints p)))"

lemma sum_list_alist_update:
  assumes "g d = (0::nat)"
  shows "sum_list (map (g \<circ> snd) (AList.update k v xs)) + g (case map_of xs k of Some r \<Rightarrow> r | None \<Rightarrow> d) =
    sum_list (map (g \<circ> snd) xs) + g v"
  using assms by (induction xs) auto

lemma stats_ok_update:
  assumes "stats_ok s" and "ws_request_stats s' = AList.update meth v (ws_request_stats s)"
    and "rs_request_succeeded_count v = rs_request_succeeded_count (method_stats meth s) + a"
    and "rs_request_error_count v = rs_request_error_count (method_stats meth s) + b"
    and "ws_request_count_total_succeeded s' = ws_request_count_total_succeeded s + a"
    and "ws_request_count_total_error s' = ws_request_count_total_error s + b"
  shows "stats_ok s'"
  using assms sum_list_alist_update [of rs_request_succeeded_count req_stats_default meth v "ws_request_stats s"]
    sum_list_alist_update [of rs_request_error_count req_stats_default meth v "ws_request_stats s"]
  by (simp add: stats_ok_def method_stats_def req_stats_default_def)

lemma stats_ok_success: "stats_ok (wi_web3_rpc_stats info) \<Longrightarrow> stats_ok (wi_web3_rpc_stats (count_success meth t t' info))"
  by (erule stats_ok_update [where a = 1 and b = 0 and meth = meth and v = "(method_stats meth (wi_web3_rpc_stats info))\<lparr>
      rs_request_succeeded_count := rs_request_succeeded_count (method_stats meth (wi_web3_rpc_stats info)) + 1,
      rs_last_success_request := Some t\<rparr>"]) (simp_all add: count_success_def Let_def)

lemma stats_ok_error: "stats_ok (wi_web3_rpc_stats info) \<Longrightarrow> stats_ok (wi_web3_rpc_stats (count_error meth t t' r info))"
  by (erule stats_ok_update [where a = 0 and b = 1 and meth = meth and v = "(method_stats meth (wi_web3_rpc_stats info))\<lparr>
      rs_request_error_count := rs_request_error_count (method_stats meth (wi_web3_rpc_stats info)) + 1,
      rs_last_error_request := Some t\<rparr>"]) (simp_all add: count_error_def Let_def)

text \<open>A pass over the endpoints that keeps their parameters and revives none.\<close>

definition pool_pass :: "(index \<Rightarrow> web3_rpc_endpoint \<Rightarrow> web3_rpc_endpoint) \<Rightarrow> rpc_pool \<Rightarrow> rpc_pool" where
  "pool_pass g p = p\<lparr>rp_endpoints := map (\<lambda>(i, e). (i, g i e)) (rp_endpoints p)\<rparr>"

lemma live_urls_simps [simp]:
  "live_urls [] = []" "live_urls (e # es) = (if is_removed e then live_urls es else sp_endpoint (ep_params e) # live_urls es)"
  "live_urls (es @ fs) = live_urls es @ live_urls fs"
  by (simp_all add: live_urls_def)

lemma live_urls_pass:
  assumes "\<And>i e. is_removed e \<Longrightarrow> is_removed (g i e)" and "\<And>i e. ep_params (g i e) = ep_params e"
  shows "set (live_urls (map (\<lambda>(i, e). g i e) es)) \<subseteq> set (live_urls (map snd es))"
    and "distinct (live_urls (map snd es)) \<Longrightarrow> distinct (live_urls (map (\<lambda>(i, e). g i e) es))"
proof -
  have sub: "set (live_urls (map (\<lambda>(i, e). g i e) es)) \<subseteq> set (live_urls (map snd es))" for es
    using assms by (induction es) auto
  show "set (live_urls (map (\<lambda>(i, e). g i e) es)) \<subseteq> set (live_urls (map snd es))" by (rule sub)
  show "distinct (live_urls (map snd es)) \<Longrightarrow> distinct (live_urls (map (\<lambda>(i, e). g i e) es))"
  proof (induction es)
    case (Cons x es)
    then show ?case using assms sub [of es] by (cases x) (auto split: if_splits)
  qed simp
qed

lemma pool_ok_pass:
  assumes "pool_ok p" and "\<And>i e. is_removed e \<Longrightarrow> is_removed (g i e)" and "\<And>i e. ep_params (g i e) = ep_params e"
    and "\<And>i e. endpoint_ok (rp_chain_id p) e \<Longrightarrow> endpoint_ok (rp_chain_id p) (g i e)"
  shows "pool_ok (pool_pass g p)"
proof -
  have "map snd (map (\<lambda>(i, e). (i, g i e)) es) = map (\<lambda>(i, e). g i e) es"
    "map fst (map (\<lambda>(i, e). (i, g i e)) es) = map fst es" for es by (auto simp: split_beta)
  then show ?thesis
    using assms live_urls_pass(2) [of g "rp_endpoints p"]
    by (auto simp: pool_ok_def pool_pass_def list_all_iff simp del: map_map)
qed

lemma pass_eqs:
  "update_endpoint i f p = pool_pass (\<lambda>j e. if j = i then f e else e) p"
  "set_bonus x k p = pool_pass (\<lambda>i. set_info (wi_bonus_from_last_chosen_update (\<lambda>_. if Some i = x then k else 0))) p"
  "withdraw_gone s urls t p = pool_pass (\<lambda>i e. if gone_from_source s urls e
     then set_info (wi_removed_date_update (\<lambda>_. Some t)) e else e) p"
  by (simp_all add: update_endpoint_def set_bonus_def withdraw_gone_def pool_pass_def)

lemma pool_ok_upd [simp]:
  "pool_ok (p\<lparr>rp_last_success_endpoints := l\<rparr>) = pool_ok p" "pool_ok (p\<lparr>rp_last_check := a\<rparr>) = pool_ok p"
  "pool_ok (p\<lparr>rp_last_verify := a\<rparr>) = pool_ok p" "pool_ok (p\<lparr>rp_verify_finished := b\<rparr>) = pool_ok p"
  by (simp_all add: pool_ok_def)

lemma pool_ok_update_info:
  assumes "pool_ok p" and "\<And>info. wi_removed_date (f info) = wi_removed_date info"
    and "\<And>e. endpoint_ok (rp_chain_id p) e \<Longrightarrow> endpoint_ok (rp_chain_id p) (set_info f e)"
  shows "pool_ok (update_endpoint i (set_info f) p)"
  unfolding pass_eqs(1) by (rule pool_ok_pass [OF assms(1)]) (auto simp: is_removed_def set_info_def assms(2) intro: assms(3) [unfolded set_info_def])

lemma pool_ok_insert:
  assumes "pool_ok p" and "sp_chain_id params = rp_chain_id p" and "\<not> known_url p (sp_endpoint params)"
    and "i \<notin> set (map fst (rp_endpoints p))"
  shows "pool_ok (insert_endpoint k i (fresh_endpoint params) p)"
proof -
  let ?es = "rp_endpoints p" and ?e = "fresh_endpoint params"
  have new: "endpoint_ok (rp_chain_id p) ?e" "\<not> is_removed ?e" "sp_endpoint (ep_params ?e) = sp_endpoint params"
    using assms(2) by (simp_all add: endpoint_ok_def fresh_endpoint_def stats_ok_def web3_rpc_info_default_def is_removed_def)
  have url: "sp_endpoint params \<notin> set (live_urls (map snd ?es))"
    using assms(3) by (auto simp: known_url_def list_ex_iff same_live_endpoint_def live_urls_def)
  obtain xs ys where es: "?es = xs @ ys" "take k ?es = xs" "drop k ?es = ys" by (rule that [of "take k ?es" "drop k ?es"]) simp_all
  have "insert_endpoint k i ?e p = p\<lparr>rp_endpoints := xs @ (i, ?e) # ys\<rparr>"
    by (simp only: insert_endpoint_def es(2,3))
  then show ?thesis
    using assms(1,4) url new by (auto simp: pool_ok_def es(1))
qed

lemma pool_ok_sweep:
  assumes "pool_ok p" shows "pool_ok (sweep_removed t p)"
proof -
  have "set (live_urls (map snd (filter P es))) \<subseteq> set (live_urls (map snd es))" for P and es :: "(index \<times> web3_rpc_endpoint) list"
    by (auto simp: live_urls_def)
  then have "distinct (live_urls (map snd es)) \<Longrightarrow> distinct (live_urls (map snd (filter P es)))" for P and es :: "(index \<times> web3_rpc_endpoint) list"
    by (induction es) (auto split: if_splits)
  then show ?thesis
    using assms by (auto simp: pool_ok_def sweep_removed_def list_all_iff distinct_map_filter)
qed

lemma pool_step_ok: "pool_step p q \<Longrightarrow> pool_ok p \<Longrightarrow> pool_ok q"
proof (induction rule: pool_step.induct)
  case (Added params p i k)
  then show ?case by (intro pool_ok_insert)
next
  case (Withdrawn p source urls t)
  then show ?case unfolding pass_eqs
    by (rule pool_ok_pass) (auto simp: is_removed_def set_info_def endpoint_ok_def)
next
  case (Bonus extra p i)
  then show ?case unfolding pass_eqs
    by (intro pool_ok_pass) (auto simp: is_removed_def set_info_def endpoint_ok_def)
next
  case (Chosen p i t)
  then show ?case unfolding chosen_at_def
    by (intro pool_ok_update_info) (auto simp: set_info_def endpoint_ok_def)
next
  case (Succeeded p i meth t t')
  then show ?case unfolding succeeded_at_def
    by (intro pool_ok_update_info)
      (auto simp: set_info_def endpoint_ok_def stats_ok_success, auto simp: count_success_def Let_def)
next
  case (Faulted p i meth t t' result)
  then show ?case unfolding failed_at_def
    by (intro pool_ok_update_info)
      (auto simp: set_info_def endpoint_ok_def stats_ok_error, auto simp: count_error_def Let_def)
next
  case (Checked p i t result)
  have "0 \<le> (x::int) \<Longrightarrow> 0 \<le> x sdiv 2" for x by (cases "x = 0") (simp_all add: signed_divide_int_def)
  with Checked show ?case unfolding verified_at_def
    by (intro pool_ok_update_info)
      (auto simp: set_info_def endpoint_ok_def verified_info_def Let_def split: verify_endpoint_result.split)
qed (simp_all add: pool_ok_sweep)

lemma pool_steps_ok: "pool_steps p q \<Longrightarrow> pool_ok p \<Longrightarrow> pool_ok q"
  by (induction rule: rtranclp_induct) (auto intro: pool_step_ok)

section \<open>Programs that take steps only\<close>

text \<open>
  What the programs rely on: the arena gives a new endpoint an index that none of its endpoints has, and
  the other tasks change the pool by steps.
\<close>

locale shared_pool =
  fixes V :: pool_env
  assumes fresh_index: "pe_index V is \<notin> set is"
    and others_step: "pool_steps p (pe_others V n p)"

definition by_steps :: "'a pool_prg \<Rightarrow> bool" where
  "by_steps m \<longleftrightarrow> (\<forall>w. pool_steps (pw_pool w) (pw_pool (snd (m w))))"

lemma by_stepsD: "by_steps m \<Longrightarrow> m w = (r, w') \<Longrightarrow> pool_steps (pw_pool w) (pw_pool w')"
  by (metis by_steps_def snd_conv)

lemma by_steps_basic [steps_intro]:
  "by_steps (ret a)" "by_steps (throw e)" "by_steps (gets f)" "by_steps (liftR r)" "by_steps (require e x)"
  "by_steps (ask_pool g)"
  by (simp_all add: by_steps_def ask_pool_def require_def split: option.split)

lemma by_steps_bindM_post:
  assumes "by_steps m" and "\<And>w a w'. m w = (Inr a, w') \<Longrightarrow> Q a" and "\<And>a. Q a \<Longrightarrow> by_steps (f a)"
  shows "by_steps (bindM m f)"
  unfolding by_steps_def
proof
  fix w
  show "pool_steps (pw_pool w) (pw_pool (snd (bindM m f w)))"
  proof (cases "m w")
    case (Pair r w1)
    have "pool_steps (pw_pool w) (pw_pool w1)" by (rule by_stepsD [OF assms(1) Pair])
    moreover have "pool_steps (pw_pool w1) (pw_pool (snd (f a w1)))" if "r = Inr a" for a
      using assms(3) [OF assms(2)] Pair that by (auto simp: by_steps_def)
    ultimately show ?thesis using Pair by (cases r) (auto simp: bindM_def)
  qed
qed

lemma by_steps_bindM [steps_intro]: "by_steps m \<Longrightarrow> (\<And>a. by_steps (f a)) \<Longrightarrow> by_steps (bindM m f)"
  by (rule by_steps_bindM_post [where Q = "\<lambda>_. True"]) simp_all

lemma by_steps_cases [steps_intro]:
  "(c \<Longrightarrow> by_steps m) \<Longrightarrow> (\<not> c \<Longrightarrow> by_steps m') \<Longrightarrow> by_steps (if c then m else m')"
  "by_steps m \<Longrightarrow> (\<And>a. by_steps (f a)) \<Longrightarrow> by_steps (case x of None \<Rightarrow> m | Some a \<Rightarrow> f a)"
  "(\<And>e. by_steps (g e)) \<Longrightarrow> (\<And>a. by_steps (f' a)) \<Longrightarrow> by_steps (case r of Inl e \<Rightarrow> g e | Inr a \<Rightarrow> f' a)"
  "(\<And>a b. by_steps (h a b)) \<Longrightarrow> by_steps (case z of (a, b) \<Rightarrow> h a b)"
  by (simp_all split: option.split sum.split prod.split)

lemma by_steps_attempt:
  "by_steps m \<Longrightarrow> (\<And>r. by_steps (f r)) \<Longrightarrow> (\<And>e. by_steps (g e)) \<Longrightarrow> (\<And>e. by_steps (h e)) \<Longrightarrow>
    by_steps (case x of Skipped \<Rightarrow> m | Finished r \<Rightarrow> f r | Rejected_by_node e \<Rightarrow> g e | Failed e \<Rightarrow> h e)"
  by (simp split: attempt.split)

lemma by_steps_whenM [steps_intro]: "by_steps m \<Longrightarrow> by_steps (whenM c m)"
  unfolding whenM_def by (intro steps_intro)

lemma by_steps_forM [steps_intro]: "(\<And>x. by_steps (f x)) \<Longrightarrow> by_steps (forM xs f)"
  by (induction xs) (simp_all add: steps_intro)

lemma by_steps_on_pool: "(\<And>p. pool_step p (f p)) \<Longrightarrow> by_steps (on_pool f)"
  by (auto simp: by_steps_def on_pool_def)

lemma by_steps_modify: "(\<And>w. pw_pool (f w) = pw_pool w) \<Longrightarrow> by_steps (modify f)"
  by (simp add: by_steps_def)

lemma step_cut: "pool_step p (rp_last_success_endpoints_update (take n) p)"
proof -
  have "rp_last_success_endpoints_update (take n) p = p\<lparr>rp_last_success_endpoints := take n (rp_last_success_endpoints p)\<rparr>"
    by (cases p) simp
  then show ?thesis using Cut [of p n] by (simp only:)
qed

context shared_pool
begin

lemma steps_await [steps_intro]: "by_steps (await V)"
  by (simp add: by_steps_def await_def others_step)

lemma steps_sleep [steps_intro]: "by_steps (sleep_ms V ms)"
  unfolding sleep_ms_def by (intro steps_intro by_steps_modify) simp

lemma steps_event [steps_intro]: "by_steps (send_pool_event V c)"
  unfolding send_pool_event_def by (intro steps_intro by_steps_modify) simp

lemma steps_due [steps_intro]: "by_steps (due V since force)"
  unfolding due_def by (intro steps_intro)

lemma steps_resolve_timer [steps_intro]: "by_steps (start_resolve_if_needed V force)"
  unfolding start_resolve_if_needed_def by (intro steps_intro by_steps_on_pool Resolving)

lemma steps_verify_timer [steps_intro]: "by_steps (start_verify_if_needed V force)"
  unfolding start_verify_if_needed_def by (intro steps_intro by_steps_on_pool Verifying)

lemma steps_marks [steps_intro]:
  "by_steps (mark_rpc_chosen V i)" "by_steps (mark_rpc_success V i meth)" "by_steps (mark_rpc_error V i meth result)"
  unfolding mark_rpc_chosen_def mark_rpc_success_def mark_rpc_error_def
  by (intro steps_intro by_steps_on_pool Chosen Succeeded Faulted)+

lemma steps_get_web3 [steps_intro]: "by_steps (get_web3 i)"
  unfolding get_web3_def by (intro steps_intro)

lemma steps_add_endpoint [steps_intro]: "by_steps (add_endpoint V params)"
  unfolding by_steps_def
proof
  fix w
  have "pool_step p (insert_endpoint k (pe_index V (map fst (rp_endpoints p))) (fresh_endpoint params) p)"
    if "sp_chain_id params = rp_chain_id p" "\<not> known_url p (sp_endpoint params)" for p k
    by (rule Added [OF that fresh_index])
  then show "pool_steps (pw_pool w) (pw_pool (snd (add_endpoint V params w)))"
    by (auto simp: add_endpoint_def new_endpoint_def arena_insert_def on_pool_def known_url_def Let_def
        simp flip: fresh_endpoint_def)
qed

end

lemma extra_score_run_bounds:
  assumes "\<forall>k\<in>set ks. 0 \<le> k"
  shows "0 \<le> extra_score_run i js ks \<and> extra_score_run i js ks \<le> sum_list ks"
  using assms by (induction i js ks rule: extra_score_run.induct) (auto intro: sum_list_nonneg add_nonneg_nonneg)

lemma extra_score_bounds: "extra_score js = (i, x) \<Longrightarrow> 0 \<le> x \<and> x \<le> 25"
  using extra_score_run_bounds [of "[7, 5, 3]"] by (force simp: extra_score_def split: list.splits)

context shared_pool
begin

lemma steps_choose [steps_intro]: "by_steps (choose_best_endpoints V fuel)"
proof -
  have poll: "by_steps (poll_endpoints V seen fuel)" for seen
    by (induction fuel) (simp_all only: poll_endpoints.simps, (intro steps_intro | assumption)+)
  have score: "by_steps extra_score_from_last_chosen"
    unfolding extra_score_from_last_chosen_def by (intro steps_intro by_steps_on_pool step_cut)
  have bounds: "case ix of (i, x) \<Rightarrow> 0 \<le> x \<and> x \<le> 25" if "extra_score_from_last_chosen w = (Inr ix, w')" for w ix w'
    using that extra_score_bounds by (auto simp: extra_score_from_last_chosen_def on_pool_def)
  show ?thesis
    unfolding choose_best_endpoints_def
    by (rule by_steps_bindM [OF steps_resolve_timer] by_steps_bindM_post [OF score bounds] | assumption)+
       (auto intro!: steps_intro poll by_steps_on_pool Bonus)
qed

lemma steps_attempt [steps_intro]: "by_steps (attempt_call V meth do_call i)"
  unfolding attempt_call_def
  by (intro steps_intro by_steps_modify) (auto split: call_answer.split intro!: steps_intro)

lemma steps_call_endpoints [steps_intro]: "by_steps (call_endpoints V meth do_call n is)"
proof (induction "is" arbitrary: n)
  case (Cons i rest)
  show ?case by (simp only: call_endpoints.simps) (intro steps_intro by_steps_attempt Cons.IH)
qed (simp only: call_endpoints.simps, intro steps_intro)

lemma steps_generic_call [steps_intro]: "by_steps (eth_generic_call V meth do_call poll_fuel fuel)"
proof -
  have first: "by_steps (mark_first_chosen V is)" for "is"
    unfolding mark_first_chosen_def by (cases "is") (auto intro: steps_intro)
  have "by_steps (generic_call_loop V meth do_call poll_fuel fuel n)" for n
  proof (induction fuel arbitrary: n)
    case (Suc fuel)
    show ?case by (simp only: generic_call_loop.simps) (intro steps_intro first Suc.IH)
  qed (simp only: generic_call_loop.simps, intro steps_intro)
  then show ?thesis by (simp add: eth_generic_call_def)
qed

lemma steps_verify_endpoint [steps_intro]: "by_steps (verify_endpoint V chain_id i force)"
proof -
  have head: "by_steps (check_head V vep start_check date)" for vep start_check date
    unfolding check_head_def by (intro steps_intro)
  have "by_steps (verify_endpoint_int V web3 vep)" for web3 vep
    unfolding verify_endpoint_int_def by (intro steps_intro head)
  then show ?thesis
    unfolding verify_endpoint_def by (intro steps_intro by_steps_on_pool Checked)
qed

lemma steps_verify_task [steps_intro]: "by_steps (verify_task V force)"
  unfolding verify_task_def verify_unverified_endpoints_def by (intro steps_intro by_steps_on_pool Verified_all)

lemma steps_sync_source [steps_intro]: "by_steps (sync_source V source params url_names urls)"
  unfolding sync_source_def by (intro steps_intro by_steps_on_pool Withdrawn)

lemma steps_resolve [steps_intro]: "by_steps (resolve_external_addresses_int V)"
proof -
  have "by_steps (sync_dns_source V d)" "by_steps (sync_json_source V j)" for d j
    unfolding sync_dns_source_def sync_json_source_def by (auto simp: Let_def intro!: steps_intro)
  then show ?thesis
    unfolding resolve_external_addresses_int_def cleanup_sources_after_grace_period_def
    by (intro steps_intro by_steps_on_pool Swept)
qed

end

end
