(* ===== verification/RpcProofs.thy ===== *)
theory RpcProofs imports RpcSteps begin

text \<open>
  What the pool guarantees: its invariant in every reachable state, the order of the chosen endpoints, the
  bounds of a call, the meaning of a verified endpoint and of a resolved source.
\<close>

section \<open>Reachable pools\<close>

lemma known_url_insert [simp]:
  "known_url (insert_endpoint k i (fresh_endpoint params) p) u \<longleftrightarrow> u = sp_endpoint params \<or> known_url p u"
proof -
  have "set (map snd (rp_endpoints p)) = set (map snd (take k (rp_endpoints p))) \<union> set (map snd (drop k (rp_endpoints p)))"
    by (simp flip: image_Un set_append)
  then show ?thesis
    by (auto simp: known_url_def insert_endpoint_def list_ex_iff same_live_endpoint_def fresh_endpoint_def is_removed_def
        web3_rpc_info_default_def image_Un simp del: set_map)
qed

lemma chain_id_insert [simp]: "rp_chain_id (insert_endpoint k i e p) = rp_chain_id p"
  by (simp add: insert_endpoint_def)

lemma new_insert_done:
  "bindM (new_endpoint V params) (arena_insert V) w = (Inr (), w') \<longleftrightarrow> pe_http V (sp_endpoint params) \<and>
     w' = w\<lparr>pw_pool := (let is = map fst (rp_endpoints (pw_pool w)) in
       insert_endpoint (pe_slot V is) (pe_index V is) (fresh_endpoint params) (pw_pool w))\<rparr>"
  by (auto simp: new_endpoint_def arena_insert_def on_pool_def fresh_endpoint_def)

lemma new_endpoints_ok:
  assumes "shared_pool V"
    and "forM endpoints (\<lambda>params. if sp_chain_id params \<noteq> c then ret () else bindM (new_endpoint V params) (arena_insert V)) w = (Inr (), w')"
    and "pool_ok (pw_pool w)" and "rp_chain_id (pw_pool w) = c"
    and "distinct (map sp_endpoint (filter (\<lambda>p. sp_chain_id p = c) endpoints))"
    and "\<forall>p\<in>set endpoints. sp_chain_id p = c \<longrightarrow> \<not> known_url (pw_pool w) (sp_endpoint p)"
  shows "pool_ok (pw_pool w')"
  using assms(2-)
proof (induction endpoints arbitrary: w)
  case (Cons params endpoints)
  show ?case
  proof (cases "sp_chain_id params = c")
    case True
    let ?is = "map fst (rp_endpoints (pw_pool w))"
    let ?w1 = "w\<lparr>pw_pool := insert_endpoint (pe_slot V ?is) (pe_index V ?is) (fresh_endpoint params) (pw_pool w)\<rparr>"
    have "forM endpoints (\<lambda>params. if sp_chain_id params \<noteq> c then ret () else bindM (new_endpoint V params) (arena_insert V)) ?w1 = (Inr (), w')"
      using Cons.prems(1) True by (auto simp: bindM_eq_Inr_iff [of _ "\<lambda>_. forM _ _"] new_insert_done Let_def)
    moreover have "pool_ok (pw_pool ?w1)"
      using Cons.prems True shared_pool.fresh_index [OF assms(1), of ?is] by (simp add: pool_ok_insert)
    moreover have "distinct (map sp_endpoint (filter (\<lambda>p. sp_chain_id p = c) endpoints))"
      "\<forall>p\<in>set endpoints. sp_chain_id p = c \<longrightarrow> \<not> known_url (pw_pool ?w1) (sp_endpoint p)"
      using Cons.prems True by (auto simp: image_iff)
    ultimately show ?thesis using Cons.IH [of ?w1] Cons.prems(3) by simp
  next
    case False
    then show ?thesis using Cons.prems Cons.IH by simp
  qed
qed simp

lemma by_steps_ok: "by_steps m \<Longrightarrow> pool_ok (pw_pool w) \<Longrightarrow> pool_ok (pw_pool (snd (m w)))"
  by (auto simp: by_steps_def intro: pool_steps_ok)

lemma pool_new_ok:
  assumes "shared_pool V" and "pool_new V c endpoints js dns a b w = (Inr (), w')"
    and "distinct (map sp_endpoint (filter (\<lambda>p. sp_chain_id p = c) endpoints))"
  shows "pool_ok (pw_pool w')"
proof -
  have blank: "pool_ok (pool_blank c js dns a b)" "rp_chain_id (pool_blank c js dns a b) = c"
    "\<not> known_url (pool_blank c js dns a b) u" for u
    by (simp_all add: pool_ok_def pool_blank_def known_url_def)
  obtain w1 where w1: "forM endpoints (\<lambda>params. if sp_chain_id params \<noteq> c then ret ()
        else bindM (new_endpoint V params) (arena_insert V)) (w\<lparr>pw_pool := pool_blank c js dns a b\<rparr>) = (Inr (), w1)"
    "whenM (js \<noteq> [] \<or> dns \<noteq> []) (bindM (start_resolve_if_needed V False) (\<lambda>_. ret ())) w1 = (Inr (), w')"
    using assms(2) by (auto simp: pool_new_def bindM_eq_Inr_iff on_pool_def)
  have "pool_ok (pw_pool w1)" using new_endpoints_ok [OF assms(1) w1(1)] assms(3) blank by simp
  moreover have "by_steps (whenM (js \<noteq> [] \<or> dns \<noteq> []) (bindM (start_resolve_if_needed V False) (\<lambda>_. ret ())))"
    by (intro steps_intro shared_pool.steps_resolve_timer [OF assms(1)])
  ultimately show ?thesis using by_steps_ok [of _ w1] w1(2) by (metis snd_conv)
qed

text \<open>C25. The pool keeps its invariant in every state that is reachable from a pool with distinct URLs, whatever the
  tasks do and in whatever order: the indexes are distinct, every endpoint is of the chain of the pool, no
  URL is used by two endpoints that are not removed, and the totals of the request statistics are the
  sums over the methods. Calls, verifications and resolutions of sources keep it on every path, a
  panic included.\<close>

theorem reachable_pool_ok:
  assumes "shared_pool V" and "pool_new V c endpoints js dns a b w = (Inr (), w')"
    and "distinct (map sp_endpoint (filter (\<lambda>p. sp_chain_id p = c) endpoints))"
    and "pool_steps (pw_pool w') (pw_pool v)"
  shows "pool_ok (pw_pool v) \<and> pool_ok (pw_pool (snd (eth_generic_call V meth do_call poll_fuel fuel v))) \<and>
    pool_ok (pw_pool (snd (verify_task V force v))) \<and> pool_ok (pw_pool (snd (resolve_external_addresses_int V v))) \<and>
    pool_ok (pw_pool (snd (add_endpoint V params v)))"
proof -
  have v: "pool_ok (pw_pool v)" by (rule pool_steps_ok [OF assms(4) pool_new_ok [OF assms(1-3)]])
  show ?thesis
    using v by (intro conjI by_steps_ok shared_pool.steps_generic_call shared_pool.steps_verify_task
        shared_pool.steps_resolve shared_pool.steps_add_endpoint assms(1))
qed

section \<open>The choice of endpoints\<close>

lemma sorted_key_rev: "sorted_wrt (\<lambda>x y. f y \<le> f x) (rev (sort_key f xs))" for f :: "'a \<Rightarrow> int"
proof -
  have "sorted (map f (sort_key f xs))" by simp
  then show ?thesis by (simp add: sorted_wrt_rev sorted_wrt_map)
qed

lemma score_of_map: "map_of es i = Some e \<Longrightarrow> distinct (map fst es) \<Longrightarrow> (i, e) \<in> set es"
  by (rule map_of_SomeD)

definition key_at :: "pool_env \<Rightarrow> rpc_pool \<Rightarrow> index \<Rightarrow> i64" where
  "key_at V p i = (case endpoint_at p i of Some e \<Rightarrow> score_key V e | None \<Rightarrow> 0)"

lemma best_first_sorted:
  assumes "distinct (map fst (rp_endpoints p))"
  shows "set (best_first V p) = fst ` set (allowed_of p)" and "distinct (best_first V p)"
    and "sorted_wrt (\<lambda>i j. key_at V p j \<le> key_at V p i) (best_first V p)"
proof -
  let ?f = "\<lambda>(i, e). score_key V e"
  show "set (best_first V p) = fst ` set (allowed_of p)" by (simp add: best_first_def)
  have "distinct (map fst (sort_key ?f (allowed_of p)))"
    using assms by (auto simp: allowed_of_def distinct_map distinct_sort intro: inj_on_subset)
  then show "distinct (best_first V p)" by (simp add: best_first_def flip: rev_map)
  have "key_at V p (fst x) = ?f x" if "x \<in> set (rev (sort_key ?f (allowed_of p)))" for x
    using that assms by (auto simp: key_at_def endpoint_at_def allowed_of_def)
  then show "sorted_wrt (\<lambda>i j. key_at V p j \<le> key_at V p i) (best_first V p)"
    using sorted_key_rev [of ?f "allowed_of p"]
    by (auto simp: best_first_def sorted_wrt_map intro: sorted_wrt_mono_rel [rotated])
qed

text \<open>The timers never fail and change the timers only.\<close>

definition untouched :: "pool_world \<Rightarrow> pool_world \<Rightarrow> bool" where
  "untouched w w' \<longleftrightarrow> rp_endpoints (pw_pool w') = rp_endpoints (pw_pool w) \<and>
     rp_last_success_endpoints (pw_pool w') = rp_last_success_endpoints (pw_pool w) \<and>
     rp_verify_finished (pw_pool w') = rp_verify_finished (pw_pool w) \<and> rp_chain_id (pw_pool w') = rp_chain_id (pw_pool w) \<and>
     pw_requests w' = pw_requests w \<and> pw_slept w' = pw_slept w"

lemma due_untouched: "due V since force w = (r, w') \<Longrightarrow> (\<exists>b. r = Inr b) \<and> untouched w w'"
  by (auto simp: due_def bindM_def ask_pool_def untouched_def split: option.splits if_splits)

lemma timers_untouched:
  "\<exists>b w'. start_resolve_if_needed V force w = (Inr b, w') \<and> untouched w w'"
  "\<exists>b w'. start_verify_if_needed V force w = (Inr b, w') \<and> untouched w w'"
proof -
  obtain b w1 where r: "due V (rp_last_check (pw_pool w)) force w = (Inr b, w1)" "untouched w w1"
    by (metis due_untouched prod.exhaust)
  obtain c w2 where v: "due V (rp_last_verify (pw_pool w)) force w = (Inr c, w2)" "untouched w w2"
    by (metis due_untouched prod.exhaust)
  show "\<exists>b w'. start_resolve_if_needed V force w = (Inr b, w') \<and> untouched w w'"
    using r by (cases b) (auto simp: start_resolve_if_needed_def bindM_def ask_pool_def on_pool_def untouched_def)
  show "\<exists>b w'. start_verify_if_needed V force w = (Inr b, w') \<and> untouched w w'"
    using v by (cases c) (auto simp: start_verify_if_needed_def bindM_def ask_pool_def on_pool_def untouched_def)
qed

lemma best_first_cong: "rp_endpoints p = rp_endpoints q \<Longrightarrow> best_first V p = best_first V q"
  by (simp add: best_first_def allowed_of_def)

text \<open>
  The bonus after a choice, read from the list of the endpoints that answered last: the last one of them gets 10,
  17, 22 or 25, by how often in a row it was the last, of the last four; the others get none.
\<close>

definition success_bonus :: "index list \<Rightarrow> index \<Rightarrow> i64" where
  "success_bonus answered i = [0, 10, 17, 22, 25] ! length (takeWhile (\<lambda>j. j = i) (take 4 answered))"

lemma extra_score_bonus:
  assumes "extra_score (take 4 answered) = (x, k)"
  shows "(if Some i = x then k else 0) = success_bonus answered i"
proof -
  have "length js \<le> 4 \<Longrightarrow> extra_score js = (x, k) \<Longrightarrow>
      (if Some i = x then k else 0) = [0, 10, 17, 22, 25] ! length (takeWhile (\<lambda>j. j = i) js)" for js
    by (auto simp: extra_score_def le_Suc_eq length_Suc_conv numeral_eq_Suc)
  from this [of "take 4 answered"] show ?thesis using assms by (simp add: success_bonus_def)
qed

text \<open>Up to the polling, a choice only sets the bonus of the endpoints.\<close>

definition with_bonus :: "rpc_pool \<Rightarrow> (index \<times> web3_rpc_endpoint) list" where
  "with_bonus p = map (\<lambda>(i, e). (i, set_info (wi_bonus_from_last_chosen_update (\<lambda>_. success_bonus (rp_last_success_endpoints p) i)) e))
     (rp_endpoints p)"

lemma choose_runs:
  "\<exists>b w2. rp_endpoints (pw_pool w2) = with_bonus (pw_pool w) \<and>
     rp_verify_finished (pw_pool w2) = rp_verify_finished (pw_pool w) \<and> rp_chain_id (pw_pool w2) = rp_chain_id (pw_pool w) \<and>
     pw_requests w2 = pw_requests w \<and> pw_slept w2 = pw_slept w \<and>
     choose_best_endpoints V fuel w = (if best_first V (pw_pool w2) \<noteq> [] then (Inr (best_first V (pw_pool w2), b), w2)
       else bindM (poll_endpoints V (map fst (rp_endpoints (pw_pool w2))) fuel) (\<lambda>is. ret (is, b)) w2)"
proof -
  obtain b w1 where r: "start_resolve_if_needed V False w = (Inr b, w1)" "untouched w w1"
    using timers_untouched(1) by blast
  obtain x k where xk: "extra_score (take 4 (rp_last_success_endpoints (pw_pool w1))) = (x, k)" by fastforce
  let ?p = "set_bonus x k (rp_last_success_endpoints_update (take 4) (pw_pool w1))"
  obtain c w2 where v: "start_verify_if_needed V False (w1\<lparr>pw_pool := ?p\<rparr>) = (Inr c, w2)" "untouched (w1\<lparr>pw_pool := ?p\<rparr>) w2"
    using timers_untouched(2) by blast
  have score: "extra_score_from_last_chosen w1 = (Inr (x, k), w1\<lparr>pw_pool := rp_last_success_endpoints_update (take 4) (pw_pool w1)\<rparr>)"
    using xk by (simp add: extra_score_from_last_chosen_def on_pool_def)
  have eps: "rp_endpoints (pw_pool w2) = rp_endpoints ?p" using v(2) by (simp add: untouched_def)
  have bonus: "rp_endpoints ?p = with_bonus (pw_pool w)"
    using r(2) by (simp add: set_bonus_def with_bonus_def untouched_def extra_score_bonus [OF xk])
  have "choose_best_endpoints V fuel w = (if best_first V ?p \<noteq> [] then (Inr (best_first V ?p, b), w2)
       else bindM (poll_endpoints V (map fst (rp_endpoints ?p)) fuel) (\<lambda>is. ret (is, b)) w2)"
    using r(1) score v(1) by (simp add: choose_best_endpoints_def bindM_def on_pool_def)
  then show ?thesis
    using r(2) v(2) best_first_cong [OF eps] eps bonus
    by (intro exI [of _ b] exI [of _ w2]) (simp add: untouched_def set_bonus_def)
qed

lemma poll_result:
  assumes "shared_pool V" and "poll_endpoints V seen fuel w = (Inr is, w')"
  shows "is = [] \<and> rp_verify_finished (pw_pool w') \<or> (\<exists>i e. is = [i] \<and> (i, e) \<in> set (allowed_of (pw_pool w')))"
  using assms(2)
proof (induction fuel arbitrary: w)
  case (Suc fuel)
  have mem: "max_by_key f xs = Some x \<Longrightarrow> x \<in> set xs" for f and xs :: "(index \<times> web3_rpc_endpoint) list" and x
    by (induction xs arbitrary: x) (auto split: option.splits if_splits)
  from Suc show ?case
    by (auto split: option.splits if_splits dest!: mem simp: bindM_eq_Inr_iff [of _ "\<lambda>_. poll_endpoints _ _ _"])
qed simp

text \<open>
  The rating of a verified endpoint, written out: 75 times the exponential of minus a two hundredth of all of its
  penalties, plus its bonus; an endpoint that is only allowed because it is not validated is rated zero.
\<close>

definition penalties :: "web3_rpc_endpoint \<Rightarrow> int" where
  "penalties e = sum_list (map (\<lambda>f. f (ep_info e)) [wi_penalty_from_last_critical_error, wi_penalty_from_errors,
     wi_penalty_from_head_behind, wi_penalty_from_ms])"

definition rating :: "pool_env \<Rightarrow> web3_rpc_endpoint \<Rightarrow> int" where
  "rating V e = rat_as_i64 (if wi_is_allowed (ep_info e)
     then 1000 * (of_int (wi_bonus_from_last_chosen (ep_info e)) + 75 * pe_exp V (- (of_int (penalties e) / 200))) else 0)"

definition rated :: "pool_env \<Rightarrow> rpc_pool \<Rightarrow> index \<Rightarrow> int" where
  "rated V p i = rating V (the (endpoint_at p i))"

text \<open>No worse in any way: validated, with no more penalties and no smaller bonus.\<close>

definition as_good :: "rpc_pool \<Rightarrow> index \<Rightarrow> index \<Rightarrow> bool" where
  "as_good p j i \<longleftrightarrow> (let e = the (endpoint_at p j); f = the (endpoint_at p i) in
     wi_is_allowed (ep_info e) \<and> wi_is_allowed (ep_info f) \<and> penalties e \<le> penalties f \<and>
     wi_bonus_from_last_chosen (ep_info f) \<le> wi_bonus_from_last_chosen (ep_info e))"

lemma score_is_rating: "\<not> is_removed e \<Longrightarrow> score_key V e = rating V e"
  by (simp add: score_key_def rating_def get_score_def penalties_def Let_def algebra_simps)

lemma allowed_at:
  assumes "distinct (map fst (rp_endpoints p))" and "i \<in> fst ` set (allowed_of p)"
  shows "key_at V p i = rated V p i"
proof -
  from assms obtain e where "endpoint_at p i = Some e" "is_allowed e" by (auto simp: allowed_of_def endpoint_at_def)
  then show ?thesis by (simp add: key_at_def rated_def score_is_rating is_allowed_def is_removed_def split: if_splits)
qed

lemma rat_as_i64_mono: "a \<le> b \<Longrightarrow> rat_as_i64 a \<le> rat_as_i64 b"
proof -
  assume ab: "a \<le> b"
  have "(if a < 0 then - \<lfloor>- a\<rfloor> else \<lfloor>a\<rfloor>) \<le> (if b < 0 then - \<lfloor>- b\<rfloor> else \<lfloor>b\<rfloor>)"
  proof (cases "a < 0 \<and> \<not> b < 0")
    case True
    then have "0 \<le> \<lfloor>- a\<rfloor>" "0 \<le> \<lfloor>b\<rfloor>" by simp_all
    then have "- \<lfloor>- a\<rfloor> \<le> \<lfloor>b\<rfloor>" by linarith
    with True show ?thesis by simp
  qed (use ab in \<open>auto intro: floor_mono\<close>)
  then show ?thesis unfolding rat_as_i64_def by (intro max.mono min.mono order_refl)
qed

lemma as_good_rated: "mono (pe_exp V) \<Longrightarrow> as_good p j i \<Longrightarrow> rated V p i \<le> rated V p j"
  unfolding rated_def rating_def
  by (rule rat_as_i64_mono) (auto simp: as_good_def Let_def monoD intro!: add_mono mult_left_mono)


section \<open>The bounds of a call\<close>

text \<open>The time that is left for sleeping after a number of failures.\<close>

definition sleep_left :: "nat \<Rightarrow> nat" where
  "sleep_left n = sum_list (drop n sleep_times)"

lemma sleep_left_step: "n < loop_count \<Longrightarrow> sleep_times ! n + sleep_left (Suc n) = sleep_left n"
proof -
  assume "n < loop_count"
  then consider "n = 0" | "n = 1" | "n = 2" | "n = 3" by (auto simp: loop_count_def less_Suc_eq numeral_eq_Suc)
  then show ?thesis by cases (simp_all add: sleep_left_def sleep_times_def)
qed

text \<open>What is kept while endpoints stay in the pool; \<open>returns r\<close> excludes panics and missing fuel.\<close>

definition indexes :: "pool_world \<Rightarrow> index set" where
  "indexes w = fst ` set (rp_endpoints (pw_pool w))"

definition usable :: "pool_world \<Rightarrow> bool" where
  "usable w \<longleftrightarrow> pool_ok (pw_pool w) \<and> rp_verify_finished (pw_pool w)"

fun returns :: "failure + 'a \<Rightarrow> bool" where
  "returns (Inl (Err e)) = True"
| "returns (Inl (Panic m)) = False"
| "returns (Inl OutOfFuel) = False"
| "returns (Inr a) = True"

lemma finished_step: "pool_step p q \<Longrightarrow> rp_verify_finished p \<Longrightarrow> rp_verify_finished q"
  by (induction rule: pool_step.induct)
    (auto simp: insert_endpoint_def sweep_removed_def withdraw_gone_def chosen_at_def succeeded_at_def failed_at_def
      verified_at_def update_endpoint_def set_bonus_def)

text \<open>Once a verification has finished, the flag says so for good: no later choice waits for a verification.\<close>

lemma finished_for_good: "pool_steps p q \<Longrightarrow> rp_verify_finished p \<Longrightarrow> rp_verify_finished q"
  by (induction rule: rtranclp_induct) (auto intro: finished_step)

lemma usable_steps: "by_steps m \<Longrightarrow> usable w \<Longrightarrow> m w = (r, w') \<Longrightarrow> usable w'"
  by (auto simp: usable_def dest: by_stepsD intro: pool_steps_ok finished_for_good)

lemma endpoint_present:
  assumes "usable w" and "i \<in> indexes w"
  obtains e where "endpoint_at (pw_pool w) i = Some e" and "ep_web3 e = Some (sp_endpoint (ep_params e))"
proof -
  obtain e where "endpoint_at (pw_pool w) i = Some e"
    using assms(2) by (force simp: indexes_def endpoint_at_def map_of_eq_None_iff dest: not_None_eq [THEN iffD2])
  moreover then have "(i, e) \<in> set (rp_endpoints (pw_pool w))" by (simp add: endpoint_at_def map_of_SomeD)
  moreover have "endpoint_ok (rp_chain_id (pw_pool w)) e"
    using calculation(2) assms(1) by (force simp: usable_def pool_ok_def list_all_iff)
  ultimately show ?thesis by (intro that) (auto simp: endpoint_ok_def)
qed

lemma marks_run:
  assumes "i \<in> indexes w"
  shows "\<exists>w'. mark_rpc_chosen V i w = (Inr (), w') \<and> indexes w' = indexes w \<and> pw_requests w' = pw_requests w \<and> pw_slept w' = pw_slept w"
    and "\<exists>w'. mark_rpc_success V i meth w = (Inr (), w') \<and> indexes w' = indexes w \<and> pw_requests w' = pw_requests w \<and> pw_slept w' = pw_slept w"
    and "\<exists>w'. mark_rpc_error V i meth res w = (Inr (), w') \<and> indexes w' = indexes w \<and> pw_requests w' = pw_requests w \<and> pw_slept w' = pw_slept w"
proof -
  have there: "endpoint_at (pw_pool w) i \<noteq> None" using assms by (auto simp: indexes_def endpoint_at_def map_of_eq_None_iff)
  have idx: "fst ` set (rp_endpoints (update_endpoint i f p)) = fst ` set (rp_endpoints p)" for f p
    by (force simp: update_endpoint_def)
  show "\<exists>w'. mark_rpc_chosen V i w = (Inr (), w') \<and> indexes w' = indexes w \<and> pw_requests w' = pw_requests w \<and> pw_slept w' = pw_slept w"
    using there by (simp add: mark_rpc_chosen_def bindM_def ask_pool_def on_pool_def indexes_def chosen_at_def idx)
  show "\<exists>w'. mark_rpc_success V i meth w = (Inr (), w') \<and> indexes w' = indexes w \<and> pw_requests w' = pw_requests w \<and> pw_slept w' = pw_slept w"
    using there by (simp add: mark_rpc_success_def bindM_def ask_pool_def on_pool_def indexes_def succeeded_at_def idx)
  show "\<exists>w'. mark_rpc_error V i meth res w = (Inr (), w') \<and> indexes w' = indexes w \<and> pw_requests w' = pw_requests w \<and> pw_slept w' = pw_slept w"
    using there by (simp add: mark_rpc_error_def bindM_def ask_pool_def on_pool_def indexes_def failed_at_def idx)
qed

text \<open>The other tasks may do anything but sweep endpoints out of the arena.\<close>

locale lasting_pool = shared_pool +
  assumes lasting: "fst ` set (rp_endpoints p) \<subseteq> fst ` set (rp_endpoints (pe_others V n p))"
begin

lemma await_run: "\<exists>w'. await V w = (Inr (), w') \<and> indexes w \<subseteq> indexes w' \<and> pw_requests w' = pw_requests w \<and> pw_slept w' = pw_slept w"
  using lasting by (simp add: await_def indexes_def)

lemma event_run: "\<exists>w'. send_pool_event V c w = (Inr (), w') \<and> indexes w \<subseteq> indexes w' \<and> pw_requests w' = pw_requests w \<and> pw_slept w' = pw_slept w"
  using lasting by (simp add: send_pool_event_def await_def indexes_def)

lemma sleep_run: "\<exists>w'. sleep_ms V ms w = (Inr (), w') \<and> indexes w \<subseteq> indexes w' \<and> pw_requests w' = pw_requests w \<and> pw_slept w' = pw_slept w + ms"
  using lasting by (simp add: sleep_ms_def await_def indexes_def)

lemma attempt_run:
  assumes "usable w" and "i \<in> indexes w"
  shows "\<exists>a w'. attempt_call V meth do_call i w = (Inr a, w') \<and> a \<noteq> Skipped \<and> indexes w \<subseteq> indexes w' \<and> usable w' \<and>
    length (pw_requests w') = length (pw_requests w) + 1 \<and> pw_slept w' = pw_slept w"
proof -
  obtain e where e: "endpoint_at (pw_pool w) i = Some e" "ep_web3 e = Some (sp_endpoint (ep_params e))"
    by (rule endpoint_present [OF assms])
  let ?w1 = "w\<lparr>pw_requests := pw_requests w @ [(i, sp_endpoint (ep_params e))], pw_tick := pw_tick w + 1\<rparr>"
  define answer where "answer = do_call (pw_tick w) (sp_endpoint (ep_params e)) (get_max_timeout (pw_pool w) i)"
  obtain w2 where w2: "await V ?w1 = (Inr (), w2)" "indexes ?w1 \<subseteq> indexes w2" "pw_requests w2 = pw_requests ?w1" "pw_slept w2 = pw_slept ?w1"
    using await_run by blast
  have i2: "i \<in> indexes w2" using assms(2) w2(2) by (auto simp: indexes_def)
  have start: "attempt_call V meth do_call i w = (case answer of
      Answered r \<Rightarrow> bindM (mark_rpc_success V i meth) (\<lambda>_. bindM (send_pool_event V RpcSuccess) (\<lambda>_. ret (Finished r)))
    | RpcFailed e \<Rightarrow> if check_if_proper_rpc_error e
        then bindM (mark_rpc_success V i meth) (\<lambda>_. bindM (send_pool_event V RpcSuccess) (\<lambda>_. ret (Rejected_by_node (Rpc e))))
        else bindM (mark_rpc_error V i meth (RpcWeb3Error e)) (\<lambda>_. ret (Failed (Rpc e)))
    | OtherFailed e \<Rightarrow> bindM (mark_rpc_error V i meth (OtherNetworkError (pe_error_text V e))) (\<lambda>_. ret (Failed e))
    | TimedOut \<Rightarrow> bindM (mark_rpc_error V i meth EndpointUnreachable) (\<lambda>_. ret (Failed Unreachable))) w2"
    using e w2(1) by (simp add: attempt_call_def get_web3_def bindM_def ask_pool_def answer_def)
  have success: "\<exists>w'. bindM (mark_rpc_success V i meth) (\<lambda>_. bindM (send_pool_event V RpcSuccess) (\<lambda>_. ret a)) w2 = (Inr a, w') \<and>
      indexes w \<subseteq> indexes w' \<and> length (pw_requests w') = length (pw_requests w) + 1 \<and> pw_slept w' = pw_slept w" for a
  proof -
    obtain w3 where w3: "mark_rpc_success V i meth w2 = (Inr (), w3)" "indexes w3 = indexes w2" "pw_requests w3 = pw_requests w2" "pw_slept w3 = pw_slept w2"
      using marks_run(2) [OF i2] by blast
    obtain w4 where "send_pool_event V RpcSuccess w3 = (Inr (), w4)" "indexes w3 \<subseteq> indexes w4" "pw_requests w4 = pw_requests w3" "pw_slept w4 = pw_slept w3"
      using event_run by blast
    with w3 w2(2-4) show ?thesis by (auto simp: bindM_def indexes_def)
  qed
  have error: "\<exists>w'. bindM (mark_rpc_error V i meth res) (\<lambda>_. ret a) w2 = (Inr a, w') \<and>
      indexes w \<subseteq> indexes w' \<and> length (pw_requests w') = length (pw_requests w) + 1 \<and> pw_slept w' = pw_slept w" for a res
  proof -
    obtain w3 where "mark_rpc_error V i meth res w2 = (Inr (), w3)" "indexes w3 = indexes w2" "pw_requests w3 = pw_requests w2" "pw_slept w3 = pw_slept w2"
      using marks_run(3) [OF i2] by blast
    with w2(2-4) show ?thesis by (auto simp: bindM_def indexes_def)
  qed
  have "\<exists>a w'. attempt_call V meth do_call i w = (Inr a, w') \<and> a \<noteq> Skipped \<and> indexes w \<subseteq> indexes w' \<and>
    length (pw_requests w') = length (pw_requests w) + 1 \<and> pw_slept w' = pw_slept w"
  proof (cases answer)
    case (Answered r)
    then show ?thesis using success [of "Finished r"] unfolding start by (intro exI [of _ "Finished r"]) simp
  next
    case (RpcFailed e)
    then show ?thesis
      using success [of "Rejected_by_node (Rpc e)"] error [of "RpcWeb3Error e" "Failed (Rpc e)"] unfolding start
      by (intro exI [of _ "if check_if_proper_rpc_error e then Rejected_by_node (Rpc e) else Failed (Rpc e)"])
        (cases "check_if_proper_rpc_error e"; simp)
  next
    case (OtherFailed e)
    then show ?thesis using error [of _ "Failed e"] unfolding start by (intro exI [of _ "Failed e"]) simp
  next
    case TimedOut
    then show ?thesis using error [of _ "Failed Unreachable"] unfolding start by (intro exI [of _ "Failed Unreachable"]) simp
  qed
  then show ?thesis using usable_steps [OF steps_attempt assms(1)] by blast
qed

lemma call_run:
  assumes "usable w" and "set is \<subseteq> indexes w" and "n \<le> loop_count"
  shows "\<exists>r w'. call_endpoints V meth do_call n is w = (r, w') \<and> usable w' \<and> returns r \<and> (case r of
      Inr (Inr n') \<Rightarrow> n' = n + length is \<and> n' \<le> loop_count \<and>
        length (pw_requests w') = length (pw_requests w) + length is \<and> pw_slept w' + sleep_left n' = pw_slept w + sleep_left n
    | _ \<Rightarrow> length (pw_requests w') \<le> length (pw_requests w) + (5 - n) \<and> pw_slept w' \<le> pw_slept w + sleep_left n)"
  using assms
proof (induction "is" arbitrary: w n)
  case (Cons i rest)
  obtain a w1 where a: "attempt_call V meth do_call i w = (Inr a, w1)" "a \<noteq> Skipped" "indexes w \<subseteq> indexes w1" "usable w1"
    "length (pw_requests w1) = length (pw_requests w) + 1" "pw_slept w1 = pw_slept w"
    using attempt_run [OF Cons.prems(1)] Cons.prems(2) by (metis insert_subset list.simps(15))
  have five: "Suc 0 \<le> 5 - n" using Cons.prems(3) by (simp add: loop_count_def)
  show ?case
  proof (cases a)
    case (Failed e)
    show ?thesis
    proof (cases "n \<ge> loop_count")
      case True
      obtain w2 where "send_pool_event V (RpcError (''Web3 rpc call failed '' @ pe_error_text V e)) w1 = (Inr (), w2)"
        "pw_requests w2 = pw_requests w1" "pw_slept w2 = pw_slept w1" using event_run by blast
      moreover have "usable w2" using usable_steps [OF steps_event a(4) calculation(1)] .
      ultimately show ?thesis using a Failed True five by (simp add: bindM_def)
    next
      case False
      obtain w2 where w2: "sleep_ms V (sleep_times ! n) w1 = (Inr (), w2)" "indexes w1 \<subseteq> indexes w2"
        "pw_requests w2 = pw_requests w1" "pw_slept w2 = pw_slept w1 + sleep_times ! n" using sleep_run by blast
      have u2: "usable w2" using usable_steps [OF steps_sleep a(4) w2(1)] .
      have "call_endpoints V meth do_call n (i # rest) w = call_endpoints V meth do_call (Suc n) rest w2"
        using a(1) Failed False w2(1) by (simp add: bindM_def)
      moreover have "set rest \<subseteq> indexes w2" "Suc n \<le> loop_count" using Cons.prems(2) a(3) w2(2) False by auto
      moreover have "sleep_times ! n + sleep_left (Suc n) = sleep_left n" using False by (intro sleep_left_step) simp
      ultimately show ?thesis using Cons.IH [OF u2, of "Suc n"] a(5,6) w2(3,4) five
        by (fastforce split: sum.splits)
    qed
  qed (use a five in \<open>auto simp: bindM_def\<close>)
qed simp

lemma choose_run:
  assumes "usable w" and "0 < fuel"
  shows "\<exists>is b w'. choose_best_endpoints V fuel w = (Inr (is, b), w') \<and> set is \<subseteq> indexes w' \<and> usable w' \<and>
    pw_requests w' = pw_requests w \<and> pw_slept w' = pw_slept w"
proof -
  obtain b w2 where w2: "rp_verify_finished (pw_pool w2) = rp_verify_finished (pw_pool w)" "pw_requests w2 = pw_requests w"
    "pw_slept w2 = pw_slept w" "choose_best_endpoints V fuel w = (if best_first V (pw_pool w2) \<noteq> [] then (Inr (best_first V (pw_pool w2), b), w2)
       else bindM (poll_endpoints V (map fst (rp_endpoints (pw_pool w2))) fuel) (\<lambda>is. ret (is, b)) w2)"
    using choose_runs [of w V fuel] by auto
  have mem: "max_by_key f xs = Some x \<Longrightarrow> x \<in> set xs" for f and xs :: "(index \<times> web3_rpc_endpoint) list" and x
    by (induction xs arbitrary: x) (auto split: option.splits if_splits)
  obtain f where f: "fuel = Suc f" using assms(2) by (cases fuel) auto
  have poll: "\<exists>is. poll_endpoints V (map fst (rp_endpoints (pw_pool w2))) fuel w2 = (Inr is, w2) \<and> set is \<subseteq> indexes w2"
    using assms(1) w2(1) by (auto simp: f usable_def indexes_def allowed_of_def split: option.split dest!: mem)
  have "set (best_first V (pw_pool w2)) \<subseteq> indexes w2" by (auto simp: best_first_def indexes_def allowed_of_def)
  then have "\<exists>is. choose_best_endpoints V fuel w = (Inr (is, b), w2) \<and> set is \<subseteq> indexes w2"
    using w2(4) poll by (auto simp: bindM_def)
  then show ?thesis using usable_steps [OF steps_choose assms(1)] w2(2,3) by blast
qed

lemma loop_run:
  assumes "usable w" and "n \<le> loop_count" and "5 - n \<le> fuel" and "0 < poll_fuel"
  shows "\<exists>r w'. generic_call_loop V meth do_call poll_fuel fuel n w = (r, w') \<and> returns r \<and>
    length (pw_requests w') \<le> length (pw_requests w) + (5 - n) \<and> pw_slept w' \<le> pw_slept w + sleep_left n"
  using assms
proof (induction fuel arbitrary: w n)
  case 0
  then show ?case by (simp add: loop_count_def)
next
  case (Suc fuel)
  obtain "is" b w1 where c: "choose_best_endpoints V poll_fuel w = (Inr (is, b), w1)" "set is \<subseteq> indexes w1" "usable w1"
    "pw_requests w1 = pw_requests w" "pw_slept w1 = pw_slept w" using choose_run [OF Suc.prems(1,4)] by blast
  show ?case
  proof (cases "is")
    case Nil
    consider (unreachable) "\<not> b" | (failed) "b" "n \<ge> loop_count" | (wait) "b" "n < loop_count" by linarith
    then show ?thesis
    proof cases
      case failed
      obtain w2 where "send_pool_event V AllEndpointsFailed w1 = (Inr (), w2)" "pw_requests w2 = pw_requests w1" "pw_slept w2 = pw_slept w1"
        using event_run by blast
      then show ?thesis using c failed Nil by (simp add: bindM_def mark_first_chosen_def)
    next
      case wait
      obtain w2 where w2: "sleep_ms V (sleep_times ! n) w1 = (Inr (), w2)" "pw_requests w2 = pw_requests w1"
        "pw_slept w2 = pw_slept w1 + sleep_times ! n" using sleep_run by blast
      have "usable w2" using usable_steps [OF steps_sleep c(3) w2(1)] .
      moreover have "Suc n \<le> loop_count" "5 - Suc n \<le> fuel" using wait Suc.prems(3) by linarith+
      ultimately obtain r w3 where
        "generic_call_loop V meth do_call poll_fuel fuel (Suc n) w2 = (r, w3)" "returns r"
        "length (pw_requests w3) \<le> length (pw_requests w2) + (5 - Suc n)" "pw_slept w3 \<le> pw_slept w2 + sleep_left (Suc n)"
        using Suc.IH Suc.prems(4) by blast
      then show ?thesis using c wait Nil w2 sleep_left_step [OF wait(2)] by (simp add: bindM_def mark_first_chosen_def)
    qed (use c Nil in \<open>simp add: bindM_def\<close>)
  next
    case (Cons i rest)
    obtain w2 where w2: "mark_rpc_chosen V i w1 = (Inr (), w2)" "indexes w2 = indexes w1" "pw_requests w2 = pw_requests w1" "pw_slept w2 = pw_slept w1"
      using marks_run(1) [of i w1 V] c(2) Cons by auto
    have u2: "usable w2" using usable_steps [OF steps_marks(1) c(3) w2(1)] .
    obtain r w3 where r: "call_endpoints V meth do_call n is w2 = (r, w3)" "usable w3" "returns r" "case r of
        Inr (Inr n') \<Rightarrow> n' = n + length is \<and> n' \<le> loop_count \<and>
          length (pw_requests w3) = length (pw_requests w2) + length is \<and> pw_slept w3 + sleep_left n' = pw_slept w2 + sleep_left n
      | _ \<Rightarrow> length (pw_requests w3) \<le> length (pw_requests w2) + (5 - n) \<and> pw_slept w3 \<le> pw_slept w2 + sleep_left n"
      using call_run [OF u2 c(2) [folded w2(2)] Suc.prems(2), of meth do_call] by (elim exE conjE) (rule that)
    have run: "generic_call_loop V meth do_call poll_fuel (Suc fuel) n w = (case r of Inl e \<Rightarrow> (Inl e, w3) | Inr (Inl a) \<Rightarrow> (Inr a, w3)
        | Inr (Inr n') \<Rightarrow> generic_call_loop V meth do_call poll_fuel fuel n' w3)"
      using c(1) w2(1) r(1) Cons by (simp add: bindM_def mark_first_chosen_def split: sum.split)
    show ?thesis
    proof (cases "\<exists>n'. r = Inr (Inr n')")
      case True
      then obtain n' where n': "r = Inr (Inr n')" by blast
      have "n' \<le> loop_count" "n < n'" using r(4) n' Cons by simp_all
      moreover from this have "5 - n' \<le> fuel" using Suc.prems(3) by linarith
      ultimately obtain r4 w4 where
        "generic_call_loop V meth do_call poll_fuel fuel n' w3 = (r4, w4)" "returns r4"
        "length (pw_requests w4) \<le> length (pw_requests w3) + (5 - n')" "pw_slept w4 \<le> pw_slept w3 + sleep_left n'"
        using Suc.IH r(2) Suc.prems(4) by blast
      moreover have q: "n' = n + length is \<and> n' \<le> 4 \<and> length (pw_requests w3) = length (pw_requests w2) + length is \<and>
          pw_slept w3 + sleep_left n' = pw_slept w2 + sleep_left n"
        using r(4) unfolding n' sum.case loop_count_def .
      have "length (pw_requests w2) = length (pw_requests w)" "pw_slept w2 = pw_slept w" "length is > 0"
        using c(4,5) w2(3,4) Cons by simp_all
      then have "length (pw_requests w3) + (5 - n') = length (pw_requests w) + (5 - n)"
        "pw_slept w3 + sleep_left n' = pw_slept w + sleep_left n" using q by linarith+
      ultimately show ?thesis using run n' by (simp only: sum.case) auto
    next
      case False
      then show ?thesis using run r(3,4) c(4,5) w2(3,4) by (cases r) (auto split: sum.splits elim: returns.elims)
    qed
  qed
qed

end

text \<open>C24. On a pool whose first verification has finished, a call ends and is bounded: as long as no task
  sweeps endpoints out of the arena, a call makes at most five requests, sleeps for at most 6.8 seconds
  between them, and returns a value or an error; it never panics and five rounds are enough. The
  statement holds for every behaviour of the network and of the other tasks.\<close>

theorem call_is_bounded:
  assumes "lasting_pool V" and "pool_ok (pw_pool w)" and "rp_verify_finished (pw_pool w)" and "5 \<le> fuel" and "0 < poll_fuel"
  shows "\<exists>r w'. eth_generic_call V meth do_call poll_fuel fuel w = (r, w') \<and> returns r \<and>
    length (pw_requests w') \<le> length (pw_requests w) + 5 \<and> pw_slept w' \<le> pw_slept w + 6800"
  using lasting_pool.loop_run [OF assms(1), of w 0 fuel poll_fuel meth do_call] assms(2-5)
  by (auto simp: usable_def eth_generic_call_def sleep_left_def sleep_times_def)

section \<open>Verified endpoints\<close>

lemma ask_pool_done: "ask_pool f w = (Inr a, w') \<longleftrightarrow> a = f (pw_tick w) \<and> w' = w\<lparr>pw_tick := pw_tick w + 1\<rparr>"
  by (auto simp: ask_pool_def)

lemma duration_seconds_Some: "duration_seconds s = Some l \<Longrightarrow> l = s"
  by (simp add: duration_seconds_def split: if_splits)

text \<open>
  The answers of an endpoint to the questions of one verification, begun at time \<open>t\<close>: no timeout, the expected chain
  id, and a latest block whose date is readable and not further behind the clock than the limit. Each question and
  each wait takes one step of time.
\<close>

definition answers_current ::
    "pool_env \<Rightarrow> string \<Rightarrow> u64 \<Rightarrow> u64 option \<Rightarrow> nat \<Rightarrow> nat \<Rightarrow> bool" where
  "answers_current V web3 chain_id max_secs max_ms t \<longleftrightarrow> \<not> pe_verify_timeout V t max_ms \<and>
     pe_chain_id V (t + 2) web3 = Inr (ucast chain_id) \<and>
     (\<exists>b date. pe_latest_block V (t + 4) web3 = Inr (Some b) \<and>
       pe_from_timestamp V (as_i64 (of_nat (unat (bk_timestamp b)))) = Some date \<and>
       (case max_secs of None \<Rightarrow> True | Some s \<Rightarrow> pe_now V (t + 6) - date \<le> as_i64 s))"

lemma check_head_result:
  assumes "check_head V vep start date w = (Inr result, w')"
  shows "(\<exists>st. result = EndpointOk st) \<longleftrightarrow>
    (case vp_allow_max_head_behind_secs vep of None \<Rightarrow> True | Some s \<Rightarrow> pe_now V (pw_tick w) - date \<le> as_i64 s)"
  using assms
  by (auto simp: check_head_def bindM_eq_Inr_iff ask_pool_done head_too_far_behind_def bindE_Inr_iff ok_or_Inr_iff not_less
      split: option.splits if_splits dest!: duration_seconds_Some)

lemma await_step: "bindM (await V) f w = f () (w\<lparr>pw_pool := pe_others V (pw_tick w) (pw_pool w), pw_tick := Suc (pw_tick w)\<rparr>)"
  by (simp add: await_def bindM_def)

lemma ask_pool_step: "bindM (ask_pool g) f w = f (g (pw_tick w)) (w\<lparr>pw_tick := Suc (pw_tick w)\<rparr>)"
  by (simp add: ask_pool_def bindM_def)

lemma verify_int_result:
  assumes "verify_endpoint_int V web3 vep w = (Inr result, w')"
  shows "(\<exists>st. result = EndpointOk st) \<longleftrightarrow> answers_current V web3 (vp_chain_id vep) (vp_allow_max_head_behind_secs vep)
    (vp_allow_max_response_time_ms vep) (pw_tick w)"
proof -
  let ?t = "pw_tick w"
  consider (timeout) "pe_verify_timeout V ?t (vp_allow_max_response_time_ms vep)"
    | (chain) "\<not> pe_verify_timeout V ?t (vp_allow_max_response_time_ms vep)" "pe_chain_id V (?t + 2) web3 \<noteq> Inr (ucast (vp_chain_id vep))"
    | (block) "\<not> pe_verify_timeout V ?t (vp_allow_max_response_time_ms vep)" "pe_chain_id V (?t + 2) web3 = Inr (ucast (vp_chain_id vep))"
       "\<forall>b. pe_latest_block V (?t + 4) web3 \<noteq> Inr (Some b)"
    | (date) b where "\<not> pe_verify_timeout V ?t (vp_allow_max_response_time_ms vep)" "pe_chain_id V (?t + 2) web3 = Inr (ucast (vp_chain_id vep))"
       "pe_latest_block V (?t + 4) web3 = Inr (Some b)"
    by blast
  then show ?thesis
  proof cases
    case chain
    then show ?thesis using assms
      by (auto simp: answers_current_def verify_endpoint_int_def ask_pool_step await_step split: sum.splits if_splits)
  next
    case block
    then show ?thesis using assms
      by (auto simp: answers_current_def verify_endpoint_int_def ask_pool_step await_step eval_nat_numeral split: sum.splits option.splits)
  next
    case date
    let ?d = "pe_from_timestamp V (as_i64 (of_nat (unat (bk_timestamp b))))"
    obtain w1 start where w1: "pw_tick w1 = ?t + 6" and run: "bindM (liftR (pool_datetime V (bk_timestamp b)))
        (\<lambda>d. case d of None \<Rightarrow> ret NoBlockInfo | Some date \<Rightarrow> check_head V vep start date) w1 = (Inr result, w')"
      using assms date
      by (intro that [rotated]) (auto simp: verify_endpoint_int_def ask_pool_step await_step eval_nat_numeral)
    then have read: "pool_datetime V (bk_timestamp b) = Inr ?d"
      by (auto simp: bindM_eq_Inr_iff liftR_eq_Inr pool_datetime_def as_u64_def split: if_splits)
    show ?thesis
    proof (cases ?d)
      case None
      then show ?thesis using run read date by (auto simp: answers_current_def)
    next
      case (Some d)
      then have "check_head V vep start d w1 = (Inr result, w')" using run read by simp
      from check_head_result [OF this, unfolded w1] show ?thesis using date Some by (simp add: answers_current_def)
    qed
  qed (use assms in \<open>auto simp: answers_current_def verify_endpoint_int_def ask_pool_step await_step\<close>)
qed

lemma endpoint_at_update: "endpoint_at (update_endpoint i f p) i = map_option f (endpoint_at p i)"
proof -
  have "map_of (map (\<lambda>(j, e). (j, if j = i then f e else e)) es) i = map_option f (map_of es i)" for es
    by (induction es) auto
  then show ?thesis by (simp add: endpoint_at_def update_endpoint_def)
qed

definition recently_verified :: "web3_rpc_endpoint \<Rightarrow> timestamp \<Rightarrow> bool" where
  "recently_verified e t \<longleftrightarrow> (case wi_last_verified (ep_info e) of None \<Rightarrow> False
     | Some l \<Rightarrow> t - l < as_i64 (wp_verify_interval_secs (sp_endpoint_params (ep_params e))))"

lemma verification_skipped_iff:
  "verification_skipped t force e = Inr skip \<Longrightarrow> skip \<longleftrightarrow> \<not> force \<and> recently_verified e t"
  by (auto simp: verification_skipped_def recently_verified_def bindE_Inr_iff ok_or_Inr_iff
      split: option.splits if_splits dest!: duration_seconds_Some)

text \<open>C27. What it means that an endpoint is verified. A verification that is not forced and begins less than the verify
  interval of the endpoint after its last one changes nothing. After any other one the endpoint is marked as allowed exactly
  when it answered this verification with the id of the chain and with a latest block that is not further behind
  than its limit, within its time; the recorded result is Ok exactly then, and the time is recorded. (The choice
  of endpoints takes one that is set to skip the validation whatever its mark.)\<close>

theorem allowed_only_if_current:
  assumes "verify_endpoint V c i force w = (Inr (), w')" and "endpoint_at (pw_pool w) i = Some e"
    and "endpoint_at (pw_pool w') i = Some e'"
  shows "if \<not> force \<and> recently_verified e (pe_now V (pw_tick w)) then pw_pool w' = pw_pool w
    else \<exists>result web3 n. wi_verify_result (ep_info e') = Some result \<and> ep_web3 e = Some web3 \<and>
       wi_last_verified (ep_info e') = Some (pe_now V n) \<and>
       (wi_is_allowed (ep_info e') \<longleftrightarrow> (\<exists>st. result = EndpointOk st)) \<and>
       (wi_is_allowed (ep_info e') \<longleftrightarrow> answers_current V web3 c (wp_max_head_behind_secs (sp_endpoint_params (ep_params e)))
          (wp_max_response_time_ms (sp_endpoint_params (ep_params e))) (pw_tick w + 1))"
proof -
  let ?p = "sp_endpoint_params (ep_params e)" and ?w1 = "w\<lparr>pw_tick := Suc (pw_tick w)\<rparr>"
  let ?vep = "\<lparr>vp_chain_id = c, vp_allow_max_head_behind_secs = wp_max_head_behind_secs ?p,
     vp_allow_max_response_time_ms = wp_max_response_time_ms ?p\<rparr>"
  obtain web3 skip where web3: "ep_web3 e = Some web3"
    and skip: "verification_skipped (pe_now V (pw_tick w)) force e = Inr skip"
    and rest: "(if skip then ret () else bindM (verify_endpoint_int V web3 ?vep) (\<lambda>result.
           bindM (ask_pool (pe_now V)) (\<lambda>t. on_pool (verified_at i t result)))) ?w1 = (Inr (), w')"
    using assms(1,2) by (auto simp: verify_endpoint_def bindM_eq_Inr_iff [of "require _ _"] bindM_eq_Inr_iff [of "liftR _"]
        bindM_eq_Inr_iff [of "ask_pool _" "\<lambda>n. bindM (liftR (verification_skipped n _ _)) _"] ask_pool_done require_eq_Inr liftR_eq_Inr)
  show ?thesis
  proof (cases skip)
    case True
    then show ?thesis using verification_skipped_iff [OF skip] rest by auto
  next
    case False
    then obtain result w2 where int: "verify_endpoint_int V web3 ?vep ?w1 = (Inr result, w2)"
      and w': "pw_pool w' = verified_at i (pe_now V (pw_tick w2)) result (pw_pool w2)"
      using rest by (auto simp: bindM_eq_Inr_iff ask_pool_done on_pool_def)
    obtain e'' where "e' = set_info (verified_info (pe_now V (pw_tick w2)) result) e''"
      using assms(3) w' by (auto simp: verified_at_def endpoint_at_update)
    then have "wi_verify_result (ep_info e') = Some result" "wi_is_allowed (ep_info e') \<longleftrightarrow> (\<exists>st. result = EndpointOk st)"
      "wi_last_verified (ep_info e') = Some (pe_now V (pw_tick w2))"
      by (auto simp: set_info_def verified_info_def Let_def split: verify_endpoint_result.split)
    moreover note verify_int_result [OF int]
    ultimately show ?thesis using web3 False verification_skipped_iff [OF skip] by auto
  qed
qed

section \<open>Resolved sources\<close>

lemma known_url_mono:
  assumes "add_endpoint V params w = (Inr (), w')"
  shows "known_url (pw_pool w) u \<Longrightarrow> known_url (pw_pool w') u"
    and "sp_chain_id params = rp_chain_id (pw_pool w) \<Longrightarrow> known_url (pw_pool w') (sp_endpoint params)"
    and "rp_chain_id (pw_pool w') = rp_chain_id (pw_pool w)"
  using assms by (auto simp: add_endpoint_def new_insert_done Let_def simp flip: known_url_def split: if_splits)

lemma forM_known:
  assumes "\<And>x v v'. f x v = (Inr (), v') \<Longrightarrow> known_url (pw_pool v') (fst x) \<and>
      (\<forall>u. known_url (pw_pool v) u \<longrightarrow> known_url (pw_pool v') u)"
    and "forM xs f w = (Inr (), w')" and "u \<in> fst ` set xs \<or> known_url (pw_pool w) u"
  shows "known_url (pw_pool w') u"
  using assms(2,3)
proof (induction xs arbitrary: w)
  case (Cons x rest)
  then obtain w1 where w1: "f x w = (Inr (), w1)" "forM rest f w1 = (Inr (), w')" by (auto simp: bindM_eq_Inr_iff)
  have "u \<in> fst ` set rest \<or> known_url (pw_pool w1) u" using assms(1) [OF w1(1)] Cons.prems(2) by auto
  with Cons.IH w1(2) show ?case by blast
qed simp

text \<open>After a source is resolved the pool is in step with it: every URL that was resolved with a name is served
  by an endpoint that is not removed, and no endpoint of the source that is not removed has a URL the
  source no longer lists.\<close>

theorem source_in_step:
  assumes "sync_source V source params (zip urls names) urls w = (Inr (), w')"
  shows "(\<forall>u\<in>set (take (length names) urls). known_url (pw_pool w') u) \<and>
    (\<forall>e\<in>snd ` set (rp_endpoints (pw_pool w')). \<not> is_removed e \<and> sp_source_id (ep_params e) = Some source \<longrightarrow>
       sp_endpoint (ep_params e) \<in> set urls)"
proof -
  obtain w1 t where w1: "forM (zip urls names) (\<lambda>(url, name). bindM (gets pw_pool) (\<lambda>p. add_endpoint V \<lparr>sp_chain_id = rp_chain_id p,
       sp_name = name, sp_endpoint = url, sp_endpoint_params = params, sp_source_id = Some source\<rparr>)) w = (Inr (), w1)"
    and w': "pw_pool w' = withdraw_gone source urls t (pw_pool w1)"
    using assms by (auto simp: sync_source_def bindM_eq_Inr_iff ask_pool_done on_pool_def)
  have listed: "known_url (withdraw_gone source urls t p) u" if "known_url p u" "u \<in> set urls" for p u
    using that by (force simp: known_url_def withdraw_gone_def list_ex_iff same_live_endpoint_def gone_from_source_def)
  have "known_url (pw_pool w') u" if "u \<in> set (take (length names) urls)" for u
  proof -
    have "u \<in> fst ` set (zip urls names)" using that by (metis map_fst_zip_take set_map take_all_iff min.commute min.cobounded1 take_take length_take)
    moreover have "known_url (pw_pool v') (fst x) \<and> (\<forall>u. known_url (pw_pool v) u \<longrightarrow> known_url (pw_pool v') u)"
      if "(case x of (url, name) \<Rightarrow> bindM (gets pw_pool) (\<lambda>p. add_endpoint V \<lparr>sp_chain_id = rp_chain_id p,
        sp_name = name, sp_endpoint = url, sp_endpoint_params = params, sp_source_id = Some source\<rparr>)) v = (Inr (), v')" for x v v'
      using that known_url_mono [of V "\<lparr>sp_chain_id = rp_chain_id (pw_pool v), sp_name = snd x, sp_endpoint = fst x,
        sp_endpoint_params = params, sp_source_id = Some source\<rparr>" v v'] by (simp add: case_prod_unfold)
    ultimately have "known_url (pw_pool w1) u" using forM_known [OF _ w1] by blast
    then show ?thesis using listed in_set_takeD [OF that] unfolding w' by blast
  qed
  moreover have "sp_endpoint (ep_params e) \<in> set urls"
    if "(i, e) \<in> set (rp_endpoints (pw_pool w'))" "\<not> is_removed e" "sp_source_id (ep_params e) = Some source" for i e
    using that unfolding w'
    by (auto simp: withdraw_gone_def gone_from_source_def is_removed_def set_info_def split: if_splits)
  ultimately show ?thesis by force
qed

section \<open>Environments and instances\<close>

text \<open>
  A network in which all requests are answered, and the tasks of the model run beside a call: \<open>beside V m\<close>
  runs the program \<open>m\<close> on the pool at every await.
\<close>

definition calm_pool_env :: pool_env where
  "calm_pool_env = \<lparr>pe_now = (\<lambda>n. 1000 + int n), pe_instant = (\<lambda>n. n), pe_index = (\<lambda>is. Suc (fold max is 0)),
     pe_slot = length, pe_http = (\<lambda>u. True), pe_exp = (\<lambda>x. 1 / (1 - x)), pe_others = (\<lambda>n p. p),
     pe_dns = (\<lambda>n u. Inr [''b '', '' '', ''c'']), pe_json = (\<lambda>n u. Inl ()), pe_chain_id = (\<lambda>n u. Inr 5),
     pe_latest_block = (\<lambda>n u. Inr (Some \<lparr>bk_number = Some 7, bk_timestamp = 990, bk_base_fee_per_gas = None\<rparr>)),
     pe_verify_timeout = (\<lambda>n ms. False), pe_from_timestamp = Some, pe_error_text = (\<lambda>e. ''error''),
     pe_event_sender = True\<rparr>"

definition beside :: "pool_env \<Rightarrow> unit pool_prg \<Rightarrow> pool_env" where
  "beside V m = V\<lparr>pe_others := \<lambda>n p. pw_pool (snd (m \<lparr>pw_pool = p, pw_events = [], pw_tick = n, pw_requests = [], pw_slept = 0\<rparr>))\<rparr>"

lemma max_index_fresh: "Suc (fold max is 0) \<notin> set is"
proof -
  have "j \<le> fold max is m" if "j \<in> set is \<or> j \<le> m" for j m
    using that
  proof (induction "is" arbitrary: m)
    case (Cons x xs)
    from Cons.prems have "j \<in> set xs \<or> j \<le> max x m" by (auto simp: le_max_iff_disj)
    from Cons.IH [OF this] show ?case by simp
  qed simp
  then have "\<forall>j\<in>set is. j \<le> fold max is 0" by blast
  then show ?thesis using Suc_n_not_le_n by blast
qed

interpretation calm: lasting_pool calm_pool_env
  by unfold_locales (simp_all add: calm_pool_env_def max_index_fresh)

lemma shared_beside:
  assumes "shared_pool V" and "by_steps m"
  shows "shared_pool (beside V m)"
proof
  show "pe_index (beside V m) is \<notin> set is" for "is"
    using shared_pool.fresh_index [OF assms(1)] by (simp add: beside_def)
  show "pool_steps p (pe_others (beside V m) n p)" for p n
    using assms(2) by (auto simp: beside_def by_steps_def dest: spec [of _ "\<lparr>pw_pool = p, pw_events = [], pw_tick = n, pw_requests = [], pw_slept = 0\<rparr>"])
qed

text \<open>A verification leaves every endpoint in the arena, so calls may run beside it.\<close>

lemma index_update_endpoint [simp]: "fst ` set (rp_endpoints (update_endpoint i f p)) = fst ` set (rp_endpoints p)"
  by (simp add: update_endpoint_def image_image case_prod_unfold)

context lasting_pool
begin

lemma indexes_basic [preserves_intro]:
  "preserves (\<lambda>w. is \<subseteq> indexes w) (await V)" "preserves (\<lambda>w. is \<subseteq> indexes w) (ask_pool f)"
  using order_trans [OF _ lasting] by (simp_all add: preserves_def await_def ask_pool_def indexes_def)

lemma indexes_verify_task: "preserves (\<lambda>w. is \<subseteq> indexes w) (verify_task V force)"
proof -
  have head: "preserves (\<lambda>w. is \<subseteq> indexes w) (check_head V vep start date)" for vep start date
    unfolding check_head_def by (intro preserves_intro)
  have int: "preserves (\<lambda>w. is \<subseteq> indexes w) (verify_endpoint_int V web3 vep)" for web3 vep
    unfolding verify_endpoint_int_def by (intro preserves_intro) (auto split: sum.split option.split intro!: preserves_intro head)
  have store: "preserves (\<lambda>w. is \<subseteq> indexes w) (on_pool (verified_at i t r))"
    "preserves (\<lambda>w. is \<subseteq> indexes w) (on_pool (rp_verify_finished_update b))" for i t r b
    by (auto simp: on_pool_def verified_at_def indexes_def intro!: preserves_modify)
  have "preserves (\<lambda>w. is \<subseteq> indexes w) (verify_endpoint V chain_id i force)" for chain_id i
    unfolding verify_endpoint_def by (intro preserves_intro int store)
  then show ?thesis
    unfolding verify_task_def verify_unverified_endpoints_def case_prod_unfold by (intro preserves_intro store)
qed

end

lemma lasting_beside:
  assumes "lasting_pool V" and "by_steps m" and "\<And>is. preserves (\<lambda>w. is \<subseteq> indexes w) m"
  shows "lasting_pool (beside V m)"
proof (intro lasting_pool.intro lasting_pool_axioms.intro)
  show "shared_pool (beside V m)" using assms(1,2) by (simp add: lasting_pool_def shared_beside)
  show "fst ` set (rp_endpoints p) \<subseteq> fst ` set (rp_endpoints (pe_others (beside V m) n p))" for p n
    using assms(3) [of "fst ` set (rp_endpoints p)"] by (auto simp: beside_def preserves_def indexes_def)
qed

interpretation verifying: lasting_pool "beside calm_pool_env (verify_task calm_pool_env True)"
  by (rule lasting_beside [OF calm.lasting_pool_axioms calm.steps_verify_task calm.indexes_verify_task])

interpretation resolving: shared_pool "beside calm_pool_env (resolve_external_addresses_int calm_pool_env)"
  by (rule shared_beside [OF calm.shared_pool_axioms calm.steps_resolve])

definition sample_url :: "string \<Rightarrow> web3_rpc_single_params" where
  "sample_url u = (params_from_url 5 u)\<lparr>sp_endpoint_params := (sp_endpoint_params (params_from_url 5 u))\<lparr>wp_skip_validation := True\<rparr>,
     sp_source_id := Some 9\<rparr>"

definition empty_pool_world :: pool_world where
  "empty_pool_world = \<lparr>pw_pool = pool_blank 5 [] [] 0 0, pw_events = [], pw_tick = 0, pw_requests = [], pw_slept = 0\<rparr>"

definition two_endpoints :: pool_world where
  "two_endpoints = snd (pool_new calm_pool_env 5 [sample_url ''a'', sample_url ''b''] [] [] 0 0 empty_pool_world)"

lemmas pool_sample_defs = two_endpoints_def pool_new_def pool_blank_def empty_pool_world_def sample_url_def params_from_url_def
  new_endpoint_def arena_insert_def on_pool_def insert_endpoint_def calm_pool_env_def bindM_def

lemma two_endpoints_new:
  "pool_new calm_pool_env 5 [sample_url ''a'', sample_url ''b''] [] [] 0 0 empty_pool_world = (Inr (), two_endpoints)"
  by (simp add: pool_sample_defs)

lemma two_endpoints_eq:
  "two_endpoints = empty_pool_world\<lparr>pw_pool := (pool_blank 5 [] [] 0 0)\<lparr>rp_endpoints :=
     [(1, fresh_endpoint (sample_url ''a'')), (2, fresh_endpoint (sample_url ''b''))]\<rparr>\<rparr>"
  by (simp add: pool_sample_defs fresh_endpoint_def)

lemma two_endpoints_ok: "pool_ok (pw_pool two_endpoints)"
  by (rule pool_new_ok [OF calm.shared_pool_axioms two_endpoints_new]) (simp add: sample_url_def params_from_url_def)

theorem reachable_pool_ok_witness:
  "pool_ok (pw_pool (snd (eth_generic_call calm_pool_env ''balance'' (\<lambda>n u t. Answered (3 :: u256)) 1 5 two_endpoints)))"
  by (rule reachable_pool_ok [OF calm.shared_pool_axioms two_endpoints_new, of two_endpoints, THEN conjunct2, THEN conjunct1])
    (simp_all add: sample_url_def params_from_url_def)

text \<open>Two verified endpoints: the first without penalties, the second with 200 and the bonus of the last success.\<close>

definition verified_info_with :: "i64 \<Rightarrow> i64 \<Rightarrow> web3_rpc_info" where
  "verified_info_with ms errors = web3_rpc_info_default\<lparr>wi_is_allowed := True, wi_penalty_from_ms := ms, wi_penalty_from_errors := errors\<rparr>"

definition rated_endpoints :: pool_world where
  "rated_endpoints = two_endpoints\<lparr>pw_pool := (pw_pool two_endpoints)\<lparr>rp_last_success_endpoints := [2], rp_endpoints :=
     [(1, (fresh_endpoint (sample_url ''a''))\<lparr>ep_info := verified_info_with 0 0\<rparr>),
      (2, (fresh_endpoint (sample_url ''b''))\<lparr>ep_info := verified_info_with 50 150\<rparr>)]\<rparr>\<rparr>"

lemma rated_endpoints_ok: "pool_ok (pw_pool rated_endpoints)"
  by (simp add: rated_endpoints_def two_endpoints_eq pool_ok_def endpoint_ok_def fresh_endpoint_def verified_info_with_def live_urls_def
      is_removed_def stats_ok_def web3_rpc_info_default_def sample_url_def params_from_url_def pool_blank_def empty_pool_world_def)


definition verified_endpoints :: pool_world where
  "verified_endpoints = two_endpoints\<lparr>pw_pool := (pw_pool two_endpoints)\<lparr>rp_verify_finished := True\<rparr>\<rparr>"

theorem call_is_bounded_witness:
  "\<exists>r w'. eth_generic_call calm_pool_env ''balance'' (\<lambda>n u t. (TimedOut :: u256 call_answer)) 1 5 verified_endpoints = (r, w') \<and>
     returns r \<and> length (pw_requests w') \<le> 5 \<and> pw_slept w' \<le> 6800"
proof -
  have "length (pw_requests verified_endpoints) = 0" "pw_slept verified_endpoints = 0"
    by (simp_all add: verified_endpoints_def pool_sample_defs)
  moreover have "pool_ok (pw_pool verified_endpoints)" "rp_verify_finished (pw_pool verified_endpoints)"
    using two_endpoints_ok by (simp_all add: verified_endpoints_def)
  ultimately show ?thesis
    using call_is_bounded [OF calm.lasting_pool_axioms, of verified_endpoints 5 1 "''balance''" "\<lambda>n u t. (TimedOut :: u256 call_answer)"] by auto
qed

theorem allowed_only_if_current_witness:
  "\<exists>w' e'. verify_endpoint calm_pool_env 5 1 True two_endpoints = (Inr (), w') \<and> endpoint_at (pw_pool w') 1 = Some e' \<and>
     wi_is_allowed (ep_info e') \<and> answers_current calm_pool_env ''a'' 5 (Some 120) 5000 1"
proof -
  let ?w = "snd (verify_endpoint calm_pool_env 5 1 True two_endpoints)" and ?e = "fresh_endpoint (sample_url ''a'')"
  have e: "endpoint_at (pw_pool two_endpoints) 1 = Some ?e"
    by (simp add: pool_sample_defs endpoint_at_def fresh_endpoint_def)
  have skip: "verification_skipped n True ?e = Inr False" "ep_web3 ?e = Some ''a''"
    "wp_max_head_behind_secs (sp_endpoint_params (ep_params ?e)) = Some 120"
    "wp_max_response_time_ms (sp_endpoint_params (ep_params ?e)) = 5000" for n
    by (simp_all add: verification_skipped_def fresh_endpoint_def web3_rpc_info_default_def sample_url_def params_from_url_def)
  have tick: "pw_tick two_endpoints = 0" by (simp add: pool_sample_defs)
  have int: "\<exists>st n. verify_endpoint_int calm_pool_env ''a'' \<lparr>vp_chain_id = 5, vp_allow_max_head_behind_secs = Some 120,
      vp_allow_max_response_time_ms = t\<rparr> (two_endpoints\<lparr>pw_tick := 1\<rparr>) = (Inr (EndpointOk st), two_endpoints\<lparr>pw_tick := n\<rparr>)" for t
    by (simp add: verify_endpoint_int_def bindM_def ask_pool_def await_def check_head_def head_too_far_behind_def duration_seconds_def
        pool_datetime_def as_u64_def as_i64_def calm_pool_env_def) (rule exI, rule refl)
  obtain st m n where "verify_endpoint calm_pool_env 5 1 True two_endpoints =
      (Inr (), two_endpoints\<lparr>pw_tick := m, pw_pool := verified_at 1 n (EndpointOk st) (pw_pool two_endpoints)\<rparr>)"
    using int [of "wp_max_response_time_ms (sp_endpoint_params (ep_params ?e))"] e skip tick
    by (auto simp: verify_endpoint_def bindM_def ask_pool_def on_pool_def)
  then have v: "verify_endpoint calm_pool_env 5 1 True two_endpoints = (Inr (), ?w)"
    "map_option (wi_is_allowed \<circ> ep_info) (endpoint_at (pw_pool ?w) 1) = Some True"
    using e by (simp_all add: verified_at_def endpoint_at_update set_info_def verified_info_def Let_def)
  then obtain e' where e': "endpoint_at (pw_pool ?w) 1 = Some e'" "wi_is_allowed (ep_info e')" by auto
  with allowed_only_if_current [OF v(1) e e'(1)] v(1) skip tick show ?thesis by auto
qed

theorem source_in_step_witness:
  "\<exists>w'. sync_source calm_pool_env 9 (sp_endpoint_params (sample_url ''c'')) (zip [''b'', ''c''] [''b'', ''c'']) [''b'', ''c''] two_endpoints = (Inr (), w') \<and>
     known_url (pw_pool w') ''c'' \<and> (\<forall>e\<in>snd ` set (rp_endpoints (pw_pool w')). \<not> is_removed e \<and> sp_source_id (ep_params e) = Some 9 \<longrightarrow>
       sp_endpoint (ep_params e) \<in> {''b'', ''c''})"
proof -
  let ?r = "sync_source calm_pool_env 9 (sp_endpoint_params (sample_url ''c'')) (zip [''b'', ''c''] [''b'', ''c'']) [''b'', ''c''] two_endpoints"
  have "fst ?r = Inr ()"
    by (simp add: sync_source_def add_endpoint_def same_live_endpoint_def is_removed_def web3_rpc_info_default_def Let_def
        ask_pool_def bindM_def on_pool_def new_endpoint_def arena_insert_def insert_endpoint_def calm_pool_env_def
        two_endpoints_eq empty_pool_world_def pool_blank_def fresh_endpoint_def sample_url_def params_from_url_def)
  then have r: "?r = (Inr (), snd ?r)" by (metis prod.collapse)
  from r source_in_step [OF r] show ?thesis by auto
qed

end
