(* ===== verification/Stats.thy ===== *)
theory Stats imports Sample ChainTables begin

text \<open>
  The statistics of transfers (\<open>db/ops/token_transfer_ops.rs\<close>): for every sender, over all its transfers and
  per receiver, computed in one pass over the rows. A sorted map of
  the code is a partial function, a hash set a set. The reference \<open>summary\<close> says what the numbers
  mean in terms of the list of the transfers that were counted.
\<close>

record transfer_stats_part =
  st_transaction_ids :: "i64 set"
  st_queued_count :: nat
  st_processed_count :: nat
  st_done_count :: nat
  st_total_count :: nat
  st_fee_paid :: u256
  st_first_transfer_date :: "timestamp option"
  st_last_transfer_date :: "timestamp option"
  st_first_paid_date :: "timestamp option"
  st_last_paid_date :: "timestamp option"
  st_max_payment_delay :: "int option"
  st_erc20_token_transferred :: "address \<rightharpoonup> u256"
  st_native_token_transferred :: u256

definition transfer_stats_part_default :: transfer_stats_part where
  "transfer_stats_part_default = \<lparr>st_transaction_ids = {}, st_queued_count = 0, st_processed_count = 0,
     st_done_count = 0, st_total_count = 0, st_fee_paid = 0, st_first_transfer_date = None,
     st_last_transfer_date = None, st_first_paid_date = None, st_last_paid_date = None,
     st_max_payment_delay = None, st_erc20_token_transferred = Map.empty, st_native_token_transferred = 0\<rparr>"

record transfer_stats_base =
  sb_per_receiver :: "address \<rightharpoonup> transfer_stats_part"
  sb_all :: transfer_stats_part

definition transfer_stats_base_default :: transfer_stats_base where
  "transfer_stats_base_default = \<lparr>sb_per_receiver = Map.empty, sb_all = transfer_stats_part_default\<rparr>"

type_synonym transfer_stats = "address \<rightharpoonup> transfer_stats_base"

section \<open>Counting one transfer\<close>

definition lower_to :: "int \<Rightarrow> int option \<Rightarrow> int option" where
  "lower_to x d = (case d of None \<Rightarrow> Some x | Some y \<Rightarrow> if y > x then Some x else Some y)"

definition raise_to :: "int \<Rightarrow> int option \<Rightarrow> int option" where
  "raise_to x d = (case d of None \<Rightarrow> Some x | Some y \<Rightarrow> if y < x then Some x else Some y)"

definition entry_or :: "'b \<Rightarrow> ('a \<rightharpoonup> 'b) \<Rightarrow> 'a \<Rightarrow> 'b" where
  "entry_or v m k = (case m k of Some x \<Rightarrow> x | None \<Rightarrow> v)"

definition count_amount ::
    "externals \<Rightarrow> string option \<Rightarrow> string \<Rightarrow> transfer_stats_part \<Rightarrow> failure + transfer_stats_part" where
  "count_amount E token_addr token_amount p = (case token_addr of
       Some token \<Rightarrow>
         bindE (parse_address E token) (\<lambda>a.
         bindE (parse_dec E token_amount) (\<lambda>amount.
         bindE (u256_add (entry_or 0 (st_erc20_token_transferred p) a) amount) (\<lambda>sum.
           Inr (p\<lparr>st_erc20_token_transferred := (st_erc20_token_transferred p)(a \<mapsto> sum)\<rparr>))))
     | None \<Rightarrow>
         bindE (parse_dec E token_amount) (\<lambda>amount.
         bindE (u256_add (st_native_token_transferred p) amount) (\<lambda>sum.
           Inr (p\<lparr>st_native_token_transferred := sum\<rparr>))))"

definition count_fee :: "externals \<Rightarrow> string \<Rightarrow> transfer_stats_part \<Rightarrow> failure + transfer_stats_part" where
  "count_fee E fee_paid p =
     bindE (parse_dec E fee_paid) (\<lambda>fee. bindE (u256_add (st_fee_paid p) fee) (\<lambda>sum. Inr (p\<lparr>st_fee_paid := sum\<rparr>)))"

definition count_dates :: "token_transfer_db_obj \<Rightarrow> transfer_stats_part \<Rightarrow> transfer_stats_part" where
  "count_dates t p =
     (let p1 = (case tt_paid_date t of
            None \<Rightarrow> p
          | Some paid_date \<Rightarrow> p\<lparr>st_first_paid_date := lower_to paid_date (st_first_paid_date p),
              st_last_paid_date := raise_to paid_date (st_last_paid_date p),
              st_max_payment_delay := raise_to (paid_date - tt_create_date t) (st_max_payment_delay p)\<rparr>)
      in p1\<lparr>st_first_transfer_date := lower_to (tt_create_date t) (st_first_transfer_date p1),
           st_last_transfer_date := raise_to (tt_create_date t) (st_last_transfer_date p1)\<rparr>)"

definition count_state :: "token_transfer_db_obj \<Rightarrow> transfer_stats_part \<Rightarrow> transfer_stats_part" where
  "count_state t p = p\<lparr>
     st_transaction_ids := (case tt_tx_id t of Some i \<Rightarrow> insert i (st_transaction_ids p) | None \<Rightarrow> st_transaction_ids p),
     st_queued_count := st_queued_count p + (if tt_tx_id t = None \<and> tt_error t = None then 1 else 0),
     st_processed_count := st_processed_count p + (if tt_tx_id t \<noteq> None \<and> tt_fee_paid t = None then 1 else 0)\<rparr>"

definition count_transfer :: "externals \<Rightarrow> token_transfer_db_obj \<Rightarrow> transfer_stats_part \<Rightarrow> failure + transfer_stats_part" where
  "count_transfer E t p =
     (let p1 = count_state t (count_dates t (p\<lparr>st_total_count := st_total_count p + 1\<rparr>))
      in case (tt_tx_id t, tt_fee_paid t) of
           (Some _, Some fee) \<Rightarrow>
             bindE (count_fee E fee (p1\<lparr>st_done_count := st_done_count p1 + 1\<rparr>)) (\<lambda>p2.
               count_amount E (tt_token_addr t) (tt_token_amount t) p2)
         | _ \<Rightarrow> Inr p1)"

text \<open>A chain transfer counts as done; only its payment date is known.\<close>

definition count_chain_transfer ::
    "externals \<Rightarrow> chain_transfer_db_obj \<Rightarrow> transfer_stats_part \<Rightarrow> failure + transfer_stats_part" where
  "count_chain_transfer E t p =
     (let p1 = p\<lparr>st_total_count := st_total_count p + 1, st_done_count := st_done_count p + 1\<rparr>
      in bindE (case ct_fee_paid t of None \<Rightarrow> Inr p1 | Some fee \<Rightarrow> count_fee E fee p1) (\<lambda>p2.
         let p3 = (case ct_blockchain_date t of
               None \<Rightarrow> p2
             | Some paid_date \<Rightarrow> p2\<lparr>st_first_paid_date := lower_to paid_date (st_first_paid_date p2),
                 st_last_paid_date := raise_to paid_date (st_last_paid_date p2)\<rparr>)
         in count_amount E (ct_token_addr t) (ct_token_amount t)
              (p3\<lparr>st_transaction_ids := insert (ct_chain_tx_id t) (st_transaction_ids p3)\<rparr>)))"

text \<open>A transfer is counted in the statistics of its sender, over all and for its receiver.\<close>

definition count_for ::
    "externals \<Rightarrow> string \<Rightarrow> string \<Rightarrow> (transfer_stats_part \<Rightarrow> failure + transfer_stats_part) \<Rightarrow> transfer_stats \<Rightarrow>
     failure + transfer_stats" where
  "count_for E from_str to_str count st =
     bindE (parse_address E from_str) (\<lambda>from_addr.
     bindE (parse_address E to_str) (\<lambda>to_addr.
     let base = entry_or transfer_stats_base_default st from_addr in
     bindE (count (sb_all base)) (\<lambda>t1.
     bindE (count (entry_or transfer_stats_part_default (sb_per_receiver base) to_addr)) (\<lambda>t2.
       Inr (st(from_addr \<mapsto> \<lparr>sb_per_receiver = (sb_per_receiver base)(to_addr \<mapsto> t2), sb_all = t1\<rparr>))))))"

fun count_transfers :: "externals \<Rightarrow> token_transfer_db_obj list \<Rightarrow> transfer_stats \<Rightarrow> failure + transfer_stats" where
  "count_transfers E [] st = Inr st"
| "count_transfers E (t # ts) st =
     bindE (count_for E (tt_from_addr t) (tt_receiver_addr t) (count_transfer E t) st) (count_transfers E ts)"

fun count_chain_transfers :: "externals \<Rightarrow> chain_transfer_db_obj list \<Rightarrow> transfer_stats \<Rightarrow> failure + transfer_stats" where
  "count_chain_transfers E [] st = Inr st"
| "count_chain_transfers E (t # ts) st =
     bindE (count_for E (ct_from_addr t) (ct_receiver_addr t) (count_chain_transfer E t) st) (count_chain_transfers E ts)"

definition get_transfer_stats :: "externals \<Rightarrow> i64 \<Rightarrow> i64 option \<Rightarrow> (db, failure, transfer_stats) prog" where
  "get_transfer_stats E chain_id limit =
     bindM (sqlx (get_token_transfers_by_chain_id chain_id limit)) (\<lambda>tt. liftR (count_transfers E tt Map.empty))"

definition get_transfer_stats_from_blockchain ::
    "externals \<Rightarrow> i64 \<Rightarrow> i64 option \<Rightarrow> (db, failure, transfer_stats) prog" where
  "get_transfer_stats_from_blockchain E chain_id limit =
     bindM (sqlx (get_chain_transfers_by_chain_id chain_id limit)) (\<lambda>tt. liftR (count_chain_transfers E tt Map.empty))"

section \<open>What the statistics mean\<close>

definition least_of :: "int option \<Rightarrow> int set \<Rightarrow> bool" where
  "least_of d X \<longleftrightarrow> (case d of None \<Rightarrow> X = {} | Some m \<Rightarrow> m \<in> X \<and> (\<forall>x\<in>X. m \<le> x))"

definition greatest_of :: "int option \<Rightarrow> int set \<Rightarrow> bool" where
  "greatest_of d X \<longleftrightarrow> (case d of None \<Rightarrow> X = {} | Some m \<Rightarrow> m \<in> X \<and> (\<forall>x\<in>X. x \<le> m))"

definition dec_nat :: "externals \<Rightarrow> string \<Rightarrow> nat" where
  "dec_nat E s = (case u256_of_dec E s of Some v \<Rightarrow> unat v | None \<Rightarrow> 0)"

definition is_done :: "token_transfer_db_obj \<Rightarrow> bool" where
  "is_done t \<longleftrightarrow> tt_tx_id t \<noteq> None \<and> tt_fee_paid t \<noteq> None"

definition has_token :: "externals \<Rightarrow> address \<Rightarrow> token_transfer_db_obj \<Rightarrow> bool" where
  "has_token E a t \<longleftrightarrow> (\<exists>s. tt_token_addr t = Some s \<and> addr_of_str E s = Some a)"

definition paid_sum :: "externals \<Rightarrow> (token_transfer_db_obj \<Rightarrow> bool) \<Rightarrow> token_transfer_db_obj list \<Rightarrow> nat" where
  "paid_sum E P ts = sum_list (map (\<lambda>t. dec_nat E (tt_token_amount t)) (filter (\<lambda>t. is_done t \<and> P t) ts))"

definition summary :: "externals \<Rightarrow> token_transfer_db_obj list \<Rightarrow> transfer_stats_part \<Rightarrow> bool" where
  "summary E ts p \<longleftrightarrow>
     st_total_count p = length ts \<and>
     st_queued_count p = length (filter transfer_filter_queued ts) \<and>
     st_processed_count p = length (filter transfer_filter_processing ts) \<and>
     st_done_count p = length (filter is_done ts) \<and>
     st_transaction_ids p = {i. \<exists>t\<in>set ts. tt_tx_id t = Some i} \<and>
     least_of (st_first_transfer_date p) (tt_create_date ` set ts) \<and>
     greatest_of (st_last_transfer_date p) (tt_create_date ` set ts) \<and>
     least_of (st_first_paid_date p) {d. \<exists>t\<in>set ts. tt_paid_date t = Some d} \<and>
     greatest_of (st_last_paid_date p) {d. \<exists>t\<in>set ts. tt_paid_date t = Some d} \<and>
     greatest_of (st_max_payment_delay p) {d. \<exists>t\<in>set ts. \<exists>x. tt_paid_date t = Some x \<and> d = x - tt_create_date t} \<and>
     unat (st_fee_paid p) = sum_list (map (\<lambda>t. dec_nat E (the (tt_fee_paid t))) (filter is_done ts)) \<and>
     unat (st_native_token_transferred p) = paid_sum E (\<lambda>t. tt_token_addr t = None) ts \<and>
     (\<forall>a. (st_erc20_token_transferred p a = None \<longleftrightarrow> \<not> (\<exists>t\<in>set ts. is_done t \<and> has_token E a t)) \<and>
       unat (entry_or 0 (st_erc20_token_transferred p) a) = paid_sum E (has_token E a) ts)"

definition sent_by :: "externals \<Rightarrow> address \<Rightarrow> token_transfer_db_obj \<Rightarrow> bool" where
  "sent_by E a t \<longleftrightarrow> addr_of_str E (tt_from_addr t) = Some a"

definition sent_to :: "externals \<Rightarrow> address \<Rightarrow> token_transfer_db_obj \<Rightarrow> bool" where
  "sent_to E r t \<longleftrightarrow> addr_of_str E (tt_receiver_addr t) = Some r"

definition stats_mean :: "externals \<Rightarrow> token_transfer_db_obj list \<Rightarrow> transfer_stats \<Rightarrow> bool" where
  "stats_mean E ts st \<longleftrightarrow> (\<forall>a. case st a of
       None \<Rightarrow> filter (sent_by E a) ts = []
     | Some b \<Rightarrow> filter (sent_by E a) ts \<noteq> [] \<and> summary E (filter (sent_by E a) ts) (sb_all b) \<and>
         (\<forall>r. case sb_per_receiver b r of
             None \<Rightarrow> filter (\<lambda>t. sent_by E a t \<and> sent_to E r t) ts = []
           | Some p \<Rightarrow> filter (\<lambda>t. sent_by E a t \<and> sent_to E r t) ts \<noteq> [] \<and>
               summary E (filter (\<lambda>t. sent_by E a t \<and> sent_to E r t) ts) p))"

end
