(* ===== verification/StatsProofs.thy ===== *)
theory StatsProofs imports Stats begin

text \<open>
  The one-pass statistics are the reference summary: counting one more transfer turns the summary of a list
  into the summary of the longer list, and so does a whole pass, for every sender and receiver.
\<close>

section \<open>One transfer\<close>

lemma least_lower: "least_of d X \<Longrightarrow> least_of (lower_to x d) (insert x X)"
  by (auto simp: least_of_def lower_to_def split: option.splits)

lemma greatest_raise: "greatest_of d X \<Longrightarrow> greatest_of (raise_to x d) (insert x X)"
  by (auto simp: greatest_of_def raise_to_def split: option.splits)

lemma unat_add_checked: "u256_add a b = Inr c \<Longrightarrow> unat c = unat a + unat b"
  by (auto simp: u256_add_def unat_word_ariths split: if_splits)

lemma collect_append:
  "{d. \<exists>t\<in>set (ts @ [t]). P t d} = {d. P t d} \<union> {d. \<exists>t\<in>set ts. P t d}"
  by auto

text \<open>The part of the summary that does not speak of amounts.\<close>

definition counts_ok :: "token_transfer_db_obj list \<Rightarrow> transfer_stats_part \<Rightarrow> bool" where
  "counts_ok ts p \<longleftrightarrow>
     st_total_count p = length ts \<and>
     st_queued_count p = length (filter transfer_filter_queued ts) \<and>
     st_processed_count p = length (filter transfer_filter_processing ts) \<and>
     st_transaction_ids p = {i. \<exists>t\<in>set ts. tt_tx_id t = Some i} \<and>
     least_of (st_first_transfer_date p) (tt_create_date ` set ts) \<and>
     greatest_of (st_last_transfer_date p) (tt_create_date ` set ts) \<and>
     least_of (st_first_paid_date p) {d. \<exists>t\<in>set ts. tt_paid_date t = Some d} \<and>
     greatest_of (st_last_paid_date p) {d. \<exists>t\<in>set ts. tt_paid_date t = Some d} \<and>
     greatest_of (st_max_payment_delay p) {d. \<exists>t\<in>set ts. \<exists>x. tt_paid_date t = Some x \<and> d = x - tt_create_date t}"

definition amounts_ok :: "externals \<Rightarrow> token_transfer_db_obj list \<Rightarrow> transfer_stats_part \<Rightarrow> bool" where
  "amounts_ok E ts p \<longleftrightarrow>
     st_done_count p = length (filter is_done ts) \<and>
     unat (st_fee_paid p) = sum_list (map (\<lambda>t. dec_nat E (the (tt_fee_paid t))) (filter is_done ts)) \<and>
     unat (st_native_token_transferred p) = paid_sum E (\<lambda>t. tt_token_addr t = None) ts \<and>
     (\<forall>a. (st_erc20_token_transferred p a = None \<longleftrightarrow> \<not> (\<exists>t\<in>set ts. is_done t \<and> has_token E a t)) \<and>
       unat (entry_or 0 (st_erc20_token_transferred p) a) = paid_sum E (has_token E a) ts)"

lemma summary_parts: "summary E ts p \<longleftrightarrow> counts_ok ts p \<and> amounts_ok E ts p"
  unfolding summary_def counts_ok_def amounts_ok_def by blast

lemma counts_ok_step:
  assumes "counts_ok ts p"
  shows "counts_ok (ts @ [t]) (count_state t (count_dates t (p\<lparr>st_total_count := st_total_count p + 1\<rparr>)))"
  using assms unfolding counts_ok_def collect_append
  by (cases "tt_paid_date t"; cases "tt_tx_id t")
    (auto simp: count_state_def count_dates_def Let_def transfer_filter_queued_def transfer_filter_processing_def
      least_lower greatest_raise)

lemma counts_ok_cong:
  "count_amount E a s p = Inr p' \<Longrightarrow> counts_ok ts p' = counts_ok ts p"
  "count_fee E f p = Inr p' \<Longrightarrow> counts_ok ts p' = counts_ok ts p"
  "counts_ok ts (p\<lparr>st_done_count := n\<rparr>) = counts_ok ts p"
  by (auto simp: count_amount_def count_fee_def counts_ok_def bindE_Inr_iff split: option.splits)

lemma amounts_ok_cong: "amounts_ok E ts (count_state t (count_dates t (p\<lparr>st_total_count := n\<rparr>))) = amounts_ok E ts p"
  by (simp add: amounts_ok_def count_state_def count_dates_def Let_def split: option.split)

lemma paid_sum_append:
  "paid_sum E P (ts @ [t]) = paid_sum E P ts + (if is_done t \<and> P t then dec_nat E (tt_token_amount t) else 0)"
  by (simp add: paid_sum_def)

lemma amounts_ok_skip:
  "\<not> is_done t \<Longrightarrow> amounts_ok E (ts @ [t]) p = amounts_ok E ts p"
  by (simp add: amounts_ok_def paid_sum_append)

lemma count_amount_native:
  assumes "count_amount E None s p = Inr p'"
  obtains v where "unat v = unat (st_native_token_transferred p) + dec_nat E s"
    and "p' = p\<lparr>st_native_token_transferred := v\<rparr>"
proof -
  obtain m v where "u256_of_dec E s = Some m" "u256_add (st_native_token_transferred p) m = Inr v"
    "p' = p\<lparr>st_native_token_transferred := v\<rparr>"
    using assms by (auto simp: count_amount_def bindE_Inr_iff parse_dec_def ok_or_Inr_iff)
  with that [of v] show thesis by (simp add: dec_nat_def unat_add_checked)
qed

lemma count_amount_token:
  assumes "count_amount E (Some tok) s p = Inr p'"
  obtains a v where "addr_of_str E tok = Some a"
    and "unat v = unat (entry_or 0 (st_erc20_token_transferred p) a) + dec_nat E s"
    and "p' = p\<lparr>st_erc20_token_transferred := (st_erc20_token_transferred p)(a \<mapsto> v)\<rparr>"
proof -
  obtain a m v where "addr_of_str E tok = Some a" "u256_of_dec E s = Some m"
    "u256_add (entry_or 0 (st_erc20_token_transferred p) a) m = Inr v"
    "p' = p\<lparr>st_erc20_token_transferred := (st_erc20_token_transferred p)(a \<mapsto> v)\<rparr>"
    using assms by (auto simp: count_amount_def bindE_Inr_iff parse_dec_def parse_address_def ok_or_Inr_iff)
  with that [of a v] show thesis by (simp add: dec_nat_def unat_add_checked)
qed

lemma amounts_ok_step:
  assumes "amounts_ok E ts p" and "is_done t" and "tt_fee_paid t = Some fee"
    and fee: "count_fee E fee (p\<lparr>st_done_count := st_done_count p + 1\<rparr>) = Inr p2"
    and amount: "count_amount E (tt_token_addr t) (tt_token_amount t) p2 = Inr p3"
  shows "amounts_ok E (ts @ [t]) p3"
proof -
  obtain m v where "u256_of_dec E fee = Some m" "u256_add (st_fee_paid p) m = Inr v"
    and p2: "p2 = p\<lparr>st_done_count := st_done_count p + 1, st_fee_paid := v\<rparr>"
    using fee by (auto simp: count_fee_def bindE_Inr_iff parse_dec_def ok_or_Inr_iff)
  then have v: "unat v = unat (st_fee_paid p) + dec_nat E fee" by (simp add: dec_nat_def unat_add_checked)
  show ?thesis
  proof (cases "tt_token_addr t")
    case None
    obtain u where u: "unat u = unat (st_native_token_transferred p2) + dec_nat E (tt_token_amount t)"
      "p3 = p2\<lparr>st_native_token_transferred := u\<rparr>"
      by (rule count_amount_native [OF amount [unfolded None]])
    have none: "\<not> has_token E a t" for a using None by (simp add: has_token_def)
    show ?thesis
      using assms(1-3) v u(1) none unfolding amounts_ok_def u(2) p2 by (simp add: paid_sum_append None)
  next
    case (Some tok)
    obtain a u where a: "addr_of_str E tok = Some a" "unat u = unat (entry_or 0 (st_erc20_token_transferred p2) a) + dec_nat E (tt_token_amount t)"
      "p3 = p2\<lparr>st_erc20_token_transferred := (st_erc20_token_transferred p2)(a \<mapsto> u)\<rparr>"
      by (rule count_amount_token [OF amount [unfolded Some]])
    have tok: "has_token E b t \<longleftrightarrow> b = a" for b using Some a(1) by (auto simp: has_token_def)
    show ?thesis
      using assms(1-3) v a(2) unfolding amounts_ok_def a(3) p2
      by (auto simp: paid_sum_append tok Some entry_or_def)
  qed
qed

lemma summary_step:
  assumes "summary E ts p" and "count_transfer E t p = Inr p'"
  shows "summary E (ts @ [t]) p'"
proof -
  let ?p1 = "count_state t (count_dates t (p\<lparr>st_total_count := st_total_count p + 1\<rparr>))"
  have c: "counts_ok (ts @ [t]) ?p1" and a: "amounts_ok E ts ?p1"
    using assms(1) counts_ok_step by (simp_all add: summary_parts amounts_ok_cong)
  show ?thesis
  proof (cases "is_done t")
    case True
    then obtain i fee where t: "tt_tx_id t = Some i" "tt_fee_paid t = Some fee" by (auto simp: is_done_def)
    then obtain p2 where p2: "count_fee E fee (?p1\<lparr>st_done_count := st_done_count ?p1 + 1\<rparr>) = Inr p2"
      "count_amount E (tt_token_addr t) (tt_token_amount t) p2 = Inr p'"
      using assms(2) by (auto simp: count_transfer_def Let_def bindE_Inr_iff)
    show ?thesis
      using amounts_ok_step [OF a True t(2) p2] c counts_ok_cong(1) [OF p2(2)] counts_ok_cong(2) [OF p2(1)]
      by (simp add: summary_parts counts_ok_cong(3))
  next
    case False
    then have "p' = ?p1" using assms(2) by (auto simp: count_transfer_def is_done_def Let_def split: option.splits)
    then show ?thesis using c a amounts_ok_skip [OF False] by (simp add: summary_parts)
  qed
qed

lemma summary_default: "summary E [] transfer_stats_part_default"
  by (simp add: summary_def transfer_stats_part_default_def least_of_def greatest_of_def paid_sum_def entry_or_def)

section \<open>All senders and receivers\<close>

text \<open>Entries of a map that summarise the transfers selected by the key.\<close>

definition entry_means ::
    "externals \<Rightarrow> (address \<rightharpoonup> transfer_stats_part) \<Rightarrow> (address \<Rightarrow> token_transfer_db_obj list) \<Rightarrow> bool" where
  "entry_means E m sel \<longleftrightarrow> (\<forall>r. case m r of None \<Rightarrow> sel r = [] | Some p \<Rightarrow> sel r \<noteq> [] \<and> summary E (sel r) p)"

lemma stats_mean_alt:
  "stats_mean E ts st \<longleftrightarrow> (\<forall>a. case st a of
       None \<Rightarrow> filter (sent_by E a) ts = []
     | Some b \<Rightarrow> filter (sent_by E a) ts \<noteq> [] \<and> summary E (filter (sent_by E a) ts) (sb_all b) \<and>
         entry_means E (sb_per_receiver b) (\<lambda>r. filter (\<lambda>t. sent_by E a t \<and> sent_to E r t) ts))"
  unfolding stats_mean_def entry_means_def ..

lemma entry_means_step:
  assumes "entry_means E m sel" and "count_transfer E t (entry_or transfer_stats_part_default m r) = Inr p"
    and "\<And>s. sel' s = sel s @ (if s = r then [t] else [])"
  shows "entry_means E (m(r \<mapsto> p)) sel'"
proof -
  have "summary E (sel r) (entry_or transfer_stats_part_default m r)"
    using assms(1) summary_default by (cases "m r") (auto simp: entry_means_def entry_or_def dest: spec [of _ r])
  from summary_step [OF this assms(2)] have new: "summary E (sel' r) p" "sel' r \<noteq> []" using assms(3) by simp_all
  have other: "sel' s = sel s" if "s \<noteq> r" for s using assms(3) that by simp
  show ?thesis unfolding entry_means_def
  proof
    fix s
    show "case (m(r \<mapsto> p)) s of None \<Rightarrow> sel' s = [] | Some p \<Rightarrow> sel' s \<noteq> [] \<and> summary E (sel' s) p"
      using new other [of s] assms(1) [unfolded entry_means_def, THEN spec, of s] by (cases "s = r"; cases "m s") simp_all
  qed
qed

lemma stats_mean_step:
  assumes "stats_mean E ts st" and "count_for E (tt_from_addr t) (tt_receiver_addr t) (count_transfer E t) st = Inr st'"
  shows "stats_mean E (ts @ [t]) st'"
proof -
  obtain a r t1 t2 where a: "addr_of_str E (tt_from_addr t) = Some a" and r: "addr_of_str E (tt_receiver_addr t) = Some r"
    and t1: "count_transfer E t (sb_all (entry_or transfer_stats_base_default st a)) = Inr t1"
    and t2: "count_transfer E t (entry_or transfer_stats_part_default (sb_per_receiver (entry_or transfer_stats_base_default st a)) r) = Inr t2"
    and st': "st' = st(a \<mapsto> \<lparr>sb_per_receiver = (sb_per_receiver (entry_or transfer_stats_base_default st a))(r \<mapsto> t2), sb_all = t1\<rparr>)"
    using assms(2) by (auto simp: count_for_def bindE_Inr_iff parse_address_def ok_or_Inr_iff Let_def)
  have by_a: "sent_by E b t \<longleftrightarrow> b = a" and to_r: "sent_to E s t \<longleftrightarrow> s = r" for b s
    using a r by (auto simp: sent_by_def sent_to_def)
  let ?b = "entry_or transfer_stats_base_default st a"
  have base: "summary E (filter (sent_by E a) ts) (sb_all ?b) \<and>
      entry_means E (sb_per_receiver ?b) (\<lambda>s. filter (\<lambda>t. sent_by E a t \<and> sent_to E s t) ts)"
  proof (cases "st a")
    case None
    then have "filter (sent_by E a) ts = []" using assms(1) by (auto simp: stats_mean_alt dest: spec [of _ a])
    moreover then have "filter (\<lambda>t. sent_by E a t \<and> sent_to E s t) ts = []" for s by (auto simp: filter_empty_conv)
    ultimately show ?thesis using None summary_default
      by (simp add: entry_or_def transfer_stats_base_default_def entry_means_def)
  next
    case (Some b)
    then show ?thesis using assms(1) by (auto simp: stats_mean_alt entry_or_def dest: spec [of _ a])
  qed
  have all: "summary E (filter (sent_by E a) (ts @ [t])) t1" using summary_step [OF conjunct1 [OF base] t1] by_a by simp
  have per: "entry_means E ((sb_per_receiver ?b)(r \<mapsto> t2)) (\<lambda>s. filter (\<lambda>t. sent_by E a t \<and> sent_to E s t) (ts @ [t]))"
    by (rule entry_means_step [OF conjunct2 [OF base] t2]) (simp add: by_a to_r)
  show ?thesis unfolding stats_mean_alt
  proof
    fix c
    show "case st' c of None \<Rightarrow> filter (sent_by E c) (ts @ [t]) = []
     | Some b \<Rightarrow> filter (sent_by E c) (ts @ [t]) \<noteq> [] \<and> summary E (filter (sent_by E c) (ts @ [t])) (sb_all b) \<and>
         entry_means E (sb_per_receiver b) (\<lambda>r. filter (\<lambda>t. sent_by E c t \<and> sent_to E r t) (ts @ [t]))"
    proof (cases "c = a")
      case True
      then show ?thesis using all per by_a by (simp add: st')
    next
      case False
      then have "filter (sent_by E c) (ts @ [t]) = filter (sent_by E c) ts"
        "filter (\<lambda>t. sent_by E c t \<and> sent_to E s t) (ts @ [t]) = filter (\<lambda>t. sent_by E c t \<and> sent_to E s t) ts" for s
        using by_a by simp_all
      moreover have old: "st' c = st c" using False by (simp add: st')
      ultimately show ?thesis using assms(1) [unfolded stats_mean_alt, THEN spec, of c]
        by (simp only: old)
    qed
  qed
qed

lemma count_transfers_mean:
  "count_transfers E ts st = Inr st' \<Longrightarrow> stats_mean E done st \<Longrightarrow> stats_mean E (done @ ts) st'"
proof (induction ts arbitrary: st "done")
  case (Cons t ts)
  from Cons.prems(1) obtain st1 where st1: "count_for E (tt_from_addr t) (tt_receiver_addr t) (count_transfer E t) st = Inr st1"
    "count_transfers E ts st1 = Inr st'" by (auto simp: bindE_Inr_iff)
  from Cons.IH [OF st1(2) stats_mean_step [OF Cons.prems(2) st1(1)]] show ?case by simp
qed simp

lemma stats_mean_empty: "stats_mean E [] Map.empty"
  by (simp add: stats_mean_def)

lemma limit_none: "length xs < 2 ^ 63 \<Longrightarrow> limit_opt None xs = xs"
proof -
  assume "length xs < 2 ^ 63"
  then have "int (length xs) \<le> 2 ^ 63 - 1" by (simp only: of_nat_less_iff [where 'a = int, symmetric]) simp
  then have "length xs \<le> nat (2 ^ 63 - 1)" by (simp only: le_nat_iff)
  then show ?thesis by (simp only: limit_opt_def sql_limit_def option.case take_all if_cancel)
qed

text \<open>C28. The statistics are what they say: the one pass over the rows computes, for every sender and for every pair
  of sender and receiver, the same numbers as the reference does from the selected transfers: the counts
  of the states, the set of transactions, the extremes of the dates, the fees and, for every token, the sum of
  the amounts that are paid. Without a limit the rows are all the transfers of the chain.\<close>

theorem stats_equal_reference:
  assumes "get_transfer_stats E c limit d = (Inr st, d')"
  shows "d' = d \<and> (\<exists>ts. get_token_transfers_by_chain_id c limit d = (Inr ts, d) \<and> stats_mean E ts st \<and>
    (limit = None \<and> length (tb_rows (d_token_transfer d)) < 2 ^ 63 \<longrightarrow>
       set ts = {t \<in> set (tb_rows (d_token_transfer d)). tt_chain_id t = c}))"
proof -
  define ts where "ts = limit_opt limit (by_id_desc tt_id (tbl_select (\<lambda>t. tt_chain_id t = c) (d_token_transfer d)))"
  then have rows: "get_token_transfers_by_chain_id c limit d = (Inr ts, d)" by (simp add: get_token_transfers_by_chain_id_def)
  then have ts: "count_transfers E ts Map.empty = Inr st" "d' = d"
    using assms by (auto simp: get_transfer_stats_def bindM_def sqlx_def)
  have "stats_mean E ts st" using count_transfers_mean [OF ts(1) stats_mean_empty] by simp
  moreover have "set ts = {t \<in> set (tb_rows (d_token_transfer d)). tt_chain_id t = c}"
    if "limit = None" "length (tb_rows (d_token_transfer d)) < 2 ^ 63"
  proof -
    have "length (filter (\<lambda>t. tt_chain_id t = c) (tb_rows (d_token_transfer d))) < 2 ^ 63"
      using that(2) length_filter_le le_less_trans by blast
    then have "limit_opt None (by_id_desc tt_id (filter (\<lambda>t. tt_chain_id t = c) (tb_rows (d_token_transfer d)))) =
        by_id_desc tt_id (filter (\<lambda>t. tt_chain_id t = c) (tb_rows (d_token_transfer d)))"
      by (intro limit_none) (simp only: by_id_desc_def length_sort)
    then show ?thesis using that(1) by (simp only: ts_def tbl_select_def) (simp add: by_id_desc_def)
  qed
  ultimately show ?thesis using ts(2) rows by blast
qed

theorem stats_equal_reference_witness:
  "\<exists>st ts. get_transfer_stats unary 5 None (w_db (world_with [sample_transfer 1 None, (sample_transfer 2 None)\<lparr>tt_tx_id := Some 3, tt_fee_paid := Some ''11''\<rparr>])) =
       (Inr st, w_db (world_with [sample_transfer 1 None, (sample_transfer 2 None)\<lparr>tt_tx_id := Some 3, tt_fee_paid := Some ''11''\<rparr>])) \<and>
     stats_mean unary ts st \<and> set ts = {sample_transfer 1 None, (sample_transfer 2 None)\<lparr>tt_tx_id := Some 3, tt_fee_paid := Some ''11''\<rparr>} \<and>
     (\<exists>b. st 1 = Some b \<and> st_done_count (sb_all b) = 1 \<and> unat (st_fee_paid (sb_all b)) = 2)"
proof -
  let ?t2 = "(sample_transfer 2 None)\<lparr>tt_tx_id := Some 3, tt_fee_paid := Some ''11''\<rparr>"
  let ?d = "w_db (world_with [sample_transfer 1 None, ?t2])"
  have rows: "tb_rows (d_token_transfer ?d) = [sample_transfer 1 None, ?t2]" by (simp add: world_with_def)
  have "get_token_transfers_by_chain_id 5 None ?d = (Inr [?t2, sample_transfer 1 None], ?d)"
    using limit_none [of "[?t2, sample_transfer 1 None]"] rows
    by (simp add: get_token_transfers_by_chain_id_def by_id_desc_def tbl_select_def sample_transfer_def)
  moreover obtain st where "count_transfers unary [?t2, sample_transfer 1 None] Map.empty = Inr st"
    "\<exists>b. st 1 = Some b \<and> st_done_count (sb_all b) = 1 \<and> unat (st_fee_paid (sb_all b)) = 2"
    by (simp add: count_for_def count_transfer_def count_state_def count_dates_def count_fee_def count_amount_def u256_add_def
        parse_address_def parse_dec_def sample_transfer_def unary_def Let_def entry_or_def transfer_stats_base_default_def
        transfer_stats_part_default_def)
  ultimately have run: "get_transfer_stats unary 5 None ?d = (Inr st, ?d)"
    and st: "\<exists>b. st 1 = Some b \<and> st_done_count (sb_all b) = 1 \<and> unat (st_fee_paid (sb_all b)) = 2"
    by (simp_all add: get_transfer_stats_def bindM_def sqlx_def)
  have "set (tb_rows (d_token_transfer ?d)) = {sample_transfer 1 None, ?t2}" "length (tb_rows (d_token_transfer ?d)) < 2 ^ 63"
    "tt_chain_id (sample_transfer 1 None) = 5" "tt_chain_id ?t2 = 5"
    using rows by (simp_all add: sample_transfer_def)
  with stats_equal_reference [OF run] run st show ?thesis by auto
qed

end
