(* ===== verification/Setup.thy ===== *)
theory Setup imports RpcTasks Runtime begin

text \<open>
  From the configuration to the setup of the driver (\<open>PaymentSetup::new\<close> of \<open>setup.rs\<close>, the structures of
  \<open>config.rs\<close>, and the options that \<open>PaymentRuntime::new\<close> copies over it). Reading the TOML file is not
  modelled; its result, the chains in the order of their names, is the argument. Every chain gets a pool of its
  own, built by \<open>pool_new\<close>; unique source ids are a parameter, indexed by a counter.
\<close>

section \<open>The configuration\<close>

record engine =
  en_process_interval :: nat
  en_process_interval_after_error :: nat
  en_process_interval_after_no_gas_or_token_start :: nat
  en_process_interval_after_no_gas_or_token_max :: nat
  en_process_interval_after_no_gas_or_token_increase :: rat
  en_process_interval_after_send :: nat
  en_report_alive_interval :: nat
  en_gather_interval :: nat
  en_mark_as_unrecoverable_after_seconds :: "nat option"
  en_gather_at_start :: bool
  en_automatic_recover :: bool
  en_ignore_deadlines :: bool

record additional_options =
  ao_keep_running :: bool
  ao_skip_service_loop :: bool
  ao_generate_tx_only :: bool
  ao_skip_multi_contract_check :: bool
  ao_contract_use_direct_method :: bool
  ao_contract_use_unpacked_method :: bool
  ao_use_transfer_for_single_payment :: bool

definition additional_options_default :: additional_options where
  "additional_options_default = \<lparr>ao_keep_running = True, ao_skip_service_loop = False, ao_generate_tx_only = False,
     ao_skip_multi_contract_check = False, ao_contract_use_direct_method = False,
     ao_contract_use_unpacked_method = False, ao_use_transfer_for_single_payment = True\<rparr>"

record multi_contract_settings =
  mc_address :: address
  mc_max_at_once :: nat

record faucet_client_settings =
  fc_max_eth_allowed :: rat
  fc_faucet_srv :: string
  fc_faucet_host :: string
  fc_faucet_srv_port :: nat
  fc_faucet_lookup_domain :: string

record rpc_settings =
  rs_names :: "string option"
  rs_endpoints :: "string option"
  rs_dns_source :: "string option"
  rs_json_source :: "string option"
  rs_skip_validation :: "bool option"
  rs_backup_level :: "i64 option"
  rs_verify_interval_secs :: "u64 option"
  rs_min_interval_ms :: "nat option"
  rs_max_timeout_ms :: "nat option"
  rs_allowed_head_behind_secs :: "i64 option"
  rs_max_consecutive_errors :: "nat option"

text \<open>A chain of the configuration; \<open>chain_config\<close> is the part the runtime reads later.\<close>

record configured_chain = chain_config +
  cn_chain_name :: string
  cn_rpc_endpoints :: "rpc_settings list"
  cn_currency_symbol :: string
  cn_priority_fee :: rat
  cn_max_fee_per_gas :: rat
  cn_token_symbol :: string
  cn_multi_contract :: "multi_contract_settings option"
  cn_mint_max_glm_allowed :: rat
  cn_lock_contract :: "address option"
  cn_faucet_client :: "faucet_client_settings option"
  cn_transaction_timeout :: nat
  cn_confirmation_blocks :: nat
  cn_faucet_eth_amount :: "rat option"
  cn_faucet_glm_amount :: "rat option"
  cn_block_explorer_url :: "string option"
  cn_replacement_timeout :: "rat option"
  cn_external_source_check_interval :: "nat option"

section \<open>The endpoints of a chain\<close>

text \<open>\<open>str::split\<close>: there is always one part more than there are commas.\<close>

fun split_commas :: "string \<Rightarrow> string list" where
  "split_commas [] = [[]]"
| "split_commas (c # s) = (if c = CHR '','' then [] # split_commas s
     else (case split_commas s of p # ps \<Rightarrow> (c # p) # ps | [] \<Rightarrow> [[c]]))"

definition split_string_by_coma :: "string option \<Rightarrow> string list option" where
  "split_string_by_coma s = map_option (\<lambda>s. filter (\<lambda>p. p \<noteq> []) (map trim (split_commas s))) s"

definition or_default :: "'a \<Rightarrow> 'a option \<Rightarrow> 'a" where
  "or_default d x = (case x of Some v \<Rightarrow> v | None \<Rightarrow> d)"

definition head_limit :: "i64 option \<Rightarrow> u64 option" where
  "head_limit allowed = (let secs = or_default 120 allowed in if secs < 0 then None else Some (i64_as_u64 secs))"

definition endpoint_params_of :: "rpc_settings \<Rightarrow> web3_endpoint_params" where
  "endpoint_params_of s = \<lparr>wp_skip_validation = or_default False (rs_skip_validation s),
     wp_backup_level = or_default 0 (rs_backup_level s),
     wp_max_number_of_consecutive_errors = or_default 5 (rs_max_consecutive_errors s),
     wp_verify_interval_secs = or_default 120 (rs_verify_interval_secs s),
     wp_min_interval_requests_ms = rs_min_interval_ms s,
     wp_max_head_behind_secs = head_limit (rs_allowed_head_behind_secs s),
     wp_max_response_time_ms = or_default 10000 (rs_max_timeout_ms s)\<rparr>"

definition single_endpoints :: "u64 \<Rightarrow> rpc_settings \<Rightarrow> string list \<Rightarrow> web3_rpc_single_params list" where
  "single_endpoints chain_id s endpoints =
     (let names = or_default [] (split_string_by_coma (rs_names s)) in
      map (\<lambda>(idx, endpoint). \<lparr>sp_chain_id = chain_id, sp_name = (if idx < length names then names ! idx else endpoint),
        sp_endpoint = endpoint, sp_endpoint_params = endpoint_params_of s, sp_source_id = None\<rparr>)
      (enumerate 0 endpoints))"

type_synonym rpc_sources = "web3_rpc_single_params list \<times> web3_external_json_source list \<times> web3_external_dns_source list"

fun sources_of :: "(nat \<Rightarrow> nat) \<Rightarrow> u64 \<Rightarrow> rpc_settings list \<Rightarrow> nat \<Rightarrow> rpc_sources \<times> nat" where
  "sources_of uuid chain_id [] n = (([], [], []), n)"
| "sources_of uuid chain_id (s # ss) n = (case split_string_by_coma (rs_endpoints s) of
       Some endpoints \<Rightarrow> (case sources_of uuid chain_id ss n of ((single, json, dns), m) \<Rightarrow>
         ((single_endpoints chain_id s endpoints @ single, json, dns), m))
     | None \<Rightarrow> (case rs_dns_source s of
           Some dns_source \<Rightarrow> (case sources_of uuid chain_id ss (n + 1) of ((single, json, dns), m) \<Rightarrow>
             ((single, json, \<lparr>dn_chain_id = chain_id, dn_unique_source_id = uuid n, dn_dns_url = dns_source,
                dn_endpoint_params = endpoint_params_of s\<rparr> # dns), m))
         | None \<Rightarrow> (case rs_json_source s of
               Some json_source \<Rightarrow> (case sources_of uuid chain_id ss (n + 1) of ((single, json, dns), m) \<Rightarrow>
                 ((single, \<lparr>js_chain_id = chain_id, js_unique_source_id = uuid n, js_url = json_source,
                    js_endpoint_params = endpoint_params_of s\<rparr> # json, dns), m))
             | None \<Rightarrow> sources_of uuid chain_id ss n)))"

section \<open>The setup\<close>

record faucet_setup =
  fs_client_max_eth_allowed :: "rat option"
  fs_client_srv :: "string option"
  fs_client_host :: "string option"
  fs_srv_port :: "nat option"
  fs_lookup_domain :: "string option"
  fs_mint_glm_address :: "address option"
  fs_mint_max_glm_allowed :: "rat option"

text \<open>The fields of a \<open>ChainSetup\<close> that no modelled handler reads.\<close>

record chain_details =
  cd_network :: string
  cd_chain_name :: string
  cd_currency_gas_symbol :: string
  cd_currency_glm_symbol :: string
  cd_faucet_setup :: faucet_setup
  cd_skip_multi_contract_check :: bool
  cd_faucet_eth_amount :: "u256 option"
  cd_faucet_glm_amount :: "u256 option"
  cd_block_explorer_url :: "string option"
  cd_external_source_check_interval :: "nat option"

record driver_setup = payment_setup +
  ds_process_interval :: nat
  ds_process_interval_after_error :: nat
  ds_process_interval_after_send :: nat
  ds_report_alive_interval :: nat
  ds_details :: "i64 \<rightharpoonup> chain_details"
  ds_providers :: "i64 \<rightharpoonup> rpc_pool"

definition driver_setup_blank :: "engine \<Rightarrow> additional_options \<Rightarrow> driver_setup" where
  "driver_setup_blank en options = \<lparr>ps_chain_setup = Map.empty, ps_finish_when_done = (\<not> ao_keep_running options),
     ps_generate_tx_only = ao_generate_tx_only options,
     ps_skip_multi_contract_check = ao_skip_multi_contract_check options,
     ps_no_gas_or_token_start = en_process_interval_after_no_gas_or_token_start en,
     ps_no_gas_or_token_max = en_process_interval_after_no_gas_or_token_max en,
     ps_no_gas_or_token_increase = en_process_interval_after_no_gas_or_token_increase en,
     ps_gather_interval = en_gather_interval en, ps_gather_at_start = en_gather_at_start en,
     ps_mark_as_unrecoverable_after_seconds = or_default 300 (en_mark_as_unrecoverable_after_seconds en),
     ps_ignore_deadlines = en_ignore_deadlines en, ps_automatic_recover = en_automatic_recover en,
     ps_contract_use_direct_method = False, ps_contract_use_unpacked_method = False,
     ps_use_transfer_for_single_payment = True,
     ds_process_interval = en_process_interval en,
     ds_process_interval_after_error = en_process_interval_after_error en,
     ds_process_interval_after_send = en_process_interval_after_send en,
     ds_report_alive_interval = en_report_alive_interval en, ds_details = Map.empty, ds_providers = Map.empty\<rparr>"

definition faucet_amount :: "(rat \<Rightarrow> rat \<Rightarrow> rat option) \<Rightarrow> rat option \<Rightarrow> failure + u256 option" where
  "faucet_amount cm amount = (case amount of
       Some f \<Rightarrow> bindE (to_u256_from_eth cm f) (\<lambda>v. Inr (Some v)) | None \<Rightarrow> Inr None)"

definition faucet_setup_of :: "configured_chain \<Rightarrow> faucet_setup" where
  "faucet_setup_of c = \<lparr>
     fs_client_max_eth_allowed = map_option fc_max_eth_allowed (cn_faucet_client c),
     fs_client_srv = map_option fc_faucet_srv (cn_faucet_client c),
     fs_client_host = map_option fc_faucet_host (cn_faucet_client c),
     fs_srv_port = map_option fc_faucet_srv_port (cn_faucet_client c),
     fs_lookup_domain = map_option fc_faucet_lookup_domain (cn_faucet_client c),
     fs_mint_glm_address = cc_mint_contract c,
     fs_mint_max_glm_allowed = map_option (\<lambda>_. cn_mint_max_glm_allowed c) (cc_mint_contract c)\<rparr>"

definition chain_setup_of :: "configured_chain \<Rightarrow> u256 \<Rightarrow> u256 \<Rightarrow> chain_setup" where
  "chain_setup_of c max_fee_per_gas priority_fee = \<lparr>cs_chain_id = cc_chain_id c, cs_max_fee_per_gas = max_fee_per_gas,
     cs_priority_fee = priority_fee, cs_glm_address = cc_token_address c,
     cs_multi_contract_address = map_option mc_address (cn_multi_contract c),
     cs_lock_contract_address = cn_lock_contract c,
     cs_multi_contract_max_at_once = or_default 1 (map_option mc_max_at_once (cn_multi_contract c)),
     cs_transaction_timeout = cn_transaction_timeout c, cs_confirmation_blocks = cn_confirmation_blocks c,
     cs_replacement_timeout = cn_replacement_timeout c\<rparr>"

definition chain_details_of ::
    "additional_options \<Rightarrow> string \<Rightarrow> configured_chain \<Rightarrow> u256 option \<Rightarrow> u256 option \<Rightarrow> chain_details" where
  "chain_details_of options network c faucet_eth faucet_glm = \<lparr>cd_network = network, cd_chain_name = cn_chain_name c,
     cd_currency_gas_symbol = cn_currency_symbol c, cd_currency_glm_symbol = cn_token_symbol c,
     cd_faucet_setup = faucet_setup_of c, cd_skip_multi_contract_check = ao_skip_multi_contract_check options,
     cd_faucet_eth_amount = faucet_eth, cd_faucet_glm_amount = faucet_glm,
     cd_block_explorer_url = cn_block_explorer_url c,
     cd_external_source_check_interval = cn_external_source_check_interval c\<rparr>"

definition chain_pool :: "pool_env \<Rightarrow> configured_chain \<Rightarrow> rpc_sources \<Rightarrow> failure + rpc_pool" where
  "chain_pool V c sources = (case sources of (single, json, dns) \<Rightarrow>
     (case pool_new V (i64_as_u64 (cc_chain_id c)) single json dns 10000
         (or_default 300 (cn_external_source_check_interval c) * 1000)
         \<lparr>pw_pool = pool_blank 0 [] [] 0 0, pw_events = [], pw_tick = 0, pw_requests = [], pw_slept = 0\<rparr> of
       (Inl f, _) \<Rightarrow> Inl f | (Inr (), w) \<Rightarrow> Inr (pw_pool w)))"

definition add_chain ::
    "pool_env \<Rightarrow> (rat \<Rightarrow> rat \<Rightarrow> rat option) \<Rightarrow> (nat \<Rightarrow> nat) \<Rightarrow> additional_options \<Rightarrow> string \<times> configured_chain \<Rightarrow>
     driver_setup \<times> nat \<Rightarrow> failure + driver_setup \<times> nat" where
  "add_chain V cm uuid options nc acc = (case (nc, acc) of ((network, c), (ds, n)) \<Rightarrow>
     let (sources, n') = sources_of uuid (i64_as_u64 (cc_chain_id c)) (cn_rpc_endpoints c) n in
     bindE (chain_pool V c sources) (\<lambda>pool.
     bindE (faucet_amount cm (cn_faucet_eth_amount c)) (\<lambda>faucet_eth.
     bindE (faucet_amount cm (cn_faucet_glm_amount c)) (\<lambda>faucet_glm.
     bindE (to_u256_from_gwei cm (cn_max_fee_per_gas c)) (\<lambda>max_fee_per_gas.
     bindE (to_u256_from_gwei cm (cn_priority_fee c)) (\<lambda>priority_fee.
       Inr (ds\<lparr>
         ps_chain_setup := (ps_chain_setup ds)(cc_chain_id c \<mapsto> chain_setup_of c max_fee_per_gas priority_fee),
         ds_details := (ds_details ds)(cc_chain_id c \<mapsto> chain_details_of options network c faucet_eth faucet_glm),
         ds_providers := (ds_providers ds)(cc_chain_id c \<mapsto> pool)\<rparr>, n')))))))"

fun add_chains ::
    "pool_env \<Rightarrow> (rat \<Rightarrow> rat \<Rightarrow> rat option) \<Rightarrow> (nat \<Rightarrow> nat) \<Rightarrow> additional_options \<Rightarrow> (string \<times> configured_chain) list \<Rightarrow>
     driver_setup \<times> nat \<Rightarrow> failure + driver_setup \<times> nat" where
  "add_chains V cm uuid options [] acc = Inr acc"
| "add_chains V cm uuid options (c # cs) acc =
     bindE (add_chain V cm uuid options c acc) (add_chains V cm uuid options cs)"

definition payment_setup_new ::
    "pool_env \<Rightarrow> (rat \<Rightarrow> rat \<Rightarrow> rat option) \<Rightarrow> (nat \<Rightarrow> nat) \<Rightarrow> engine \<Rightarrow> (string \<times> configured_chain) list \<Rightarrow>
     additional_options \<Rightarrow> failure + driver_setup" where
  "payment_setup_new V cm uuid en chains_by_name options =
     bindE (add_chains V cm uuid options chains_by_name (driver_setup_blank en options, 0)) (\<lambda>(ds, _). Inr ds)"

definition payment_setup_new_empty ::
    "pool_env \<Rightarrow> (rat \<Rightarrow> rat \<Rightarrow> rat option) \<Rightarrow> (nat \<Rightarrow> nat) \<Rightarrow> engine \<Rightarrow> (string \<times> configured_chain) list \<Rightarrow>
     failure + driver_setup" where
  "payment_setup_new_empty V cm uuid en chains_by_name =
     payment_setup_new V cm uuid en chains_by_name additional_options_default"

text \<open>What \<open>PaymentRuntime::new\<close> takes from the options, and the setup its handlers read.\<close>

definition runtime_setup :: "additional_options \<Rightarrow> driver_setup \<Rightarrow> driver_setup" where
  "runtime_setup options ds = ds\<lparr>
     ps_use_transfer_for_single_payment := ao_use_transfer_for_single_payment options,
     ps_contract_use_direct_method := ao_contract_use_direct_method options,
     ps_contract_use_unpacked_method := ao_contract_use_unpacked_method options\<rparr>"

definition setup_of :: "driver_setup \<Rightarrow> payment_setup" where
  "setup_of ds = payment_setup.truncate ds"

text \<open>Changes of the configuration before the setup is built; the chain must be known.\<close>

definition change_chain ::
    "(configured_chain \<Rightarrow> configured_chain) \<Rightarrow> string \<Rightarrow> (string \<times> configured_chain) list \<Rightarrow>
     failure + (string \<times> configured_chain) list" where
  "change_chain f name cs = (if name \<in> fst ` set cs
     then Inr (map (\<lambda>(n, c). (n, if n = name then f c else c)) cs) else Inl (err_custom ''Chain not found''))"

definition change_rpc_endpoints ::
    "string \<Rightarrow> rpc_settings list \<Rightarrow> (string \<times> configured_chain) list \<Rightarrow> failure + (string \<times> configured_chain) list" where
  "change_rpc_endpoints name rpc_endpoints = change_chain (\<lambda>c. c\<lparr>cn_rpc_endpoints := rpc_endpoints\<rparr>) name"

definition change_max_fee ::
    "string \<Rightarrow> rat \<Rightarrow> (string \<times> configured_chain) list \<Rightarrow> failure + (string \<times> configured_chain) list" where
  "change_max_fee name max_fee_per_gas = change_chain (\<lambda>c. c\<lparr>cn_max_fee_per_gas := max_fee_per_gas\<rparr>) name"

end
