(* ===== verification/SetupProofs.thy ===== *)
theory SetupProofs imports Setup RpcProofs "HOL-Library.Multiset" begin

text \<open>
  What the setup guarantees to the handlers: every configured chain, and no other, has a setup under its
  own id with the amounts and addresses of the configuration, and a pool whose endpoints are those listed for it.
\<close>

section \<open>The pool of a chain\<close>

lemma step_chain_id: "pool_step p q \<Longrightarrow> rp_chain_id q = rp_chain_id p"
  by (induction rule: pool_step.induct)
    (simp_all add: sweep_removed_def withdraw_gone_def chosen_at_def succeeded_at_def failed_at_def
      verified_at_def update_endpoint_def set_bonus_def)

lemma steps_chain_id: "pool_steps p q \<Longrightarrow> rp_chain_id q = rp_chain_id p"
  by (induction rule: rtranclp_induct) (simp_all add: step_chain_id)

lemma forM_insert_chain_id:
  "forM ps (\<lambda>params. if sp_chain_id params \<noteq> c then ret () else bindM (new_endpoint V params) (arena_insert V)) w = (Inr (), w') \<Longrightarrow>
    rp_chain_id (pw_pool w') = rp_chain_id (pw_pool w)"
proof (induction ps arbitrary: w)
  case (Cons params ps)
  show ?case
  proof (cases "sp_chain_id params = c")
    case True
    let ?is = "map fst (rp_endpoints (pw_pool w))"
    let ?w1 = "w\<lparr>pw_pool := insert_endpoint (pe_slot V ?is) (pe_index V ?is) (fresh_endpoint params) (pw_pool w)\<rparr>"
    have "forM ps (\<lambda>params. if sp_chain_id params \<noteq> c then ret () else bindM (new_endpoint V params) (arena_insert V)) ?w1 = (Inr (), w')"
      using Cons.prems True by (auto simp: bindM_eq_Inr_iff [of _ "\<lambda>_. forM _ _"] new_insert_done Let_def)
    then show ?thesis using Cons.IH [of ?w1] by simp
  next
    case False
    then show ?thesis using Cons.prems Cons.IH by simp
  qed
qed simp

lemma pool_new_chain_id:
  assumes "shared_pool V" and "pool_new V c single js dns a b w = (Inr (), w')"
  shows "rp_chain_id (pw_pool w') = c"
proof -
  obtain w1 where w1: "forM single (\<lambda>params. if sp_chain_id params \<noteq> c then ret ()
        else bindM (new_endpoint V params) (arena_insert V)) (w\<lparr>pw_pool := pool_blank c js dns a b\<rparr>) = (Inr (), w1)"
    "whenM (js \<noteq> [] \<or> dns \<noteq> []) (bindM (start_resolve_if_needed V False) (\<lambda>_. ret ())) w1 = (Inr (), w')"
    using assms(2) by (auto simp: pool_new_def bindM_eq_Inr_iff on_pool_def)
  have steps: "by_steps (whenM (js \<noteq> [] \<or> dns \<noteq> []) (bindM (start_resolve_if_needed V False) (\<lambda>_. ret ())))"
    by (intro steps_intro shared_pool.steps_resolve_timer [OF assms(1)])
  have "pool_steps (pw_pool w1) (pw_pool w')" using steps w1(2) by (metis by_steps_def snd_conv)
  then show ?thesis using steps_chain_id forM_insert_chain_id [OF w1(1)] by (simp add: pool_blank_def)
qed

text \<open>Which URLs are in the pool: those of the parameters of its chain, in whatever slots the arena chose.\<close>

definition pool_urls :: "rpc_pool \<Rightarrow> string multiset" where
  "pool_urls p = mset (map (\<lambda>(i, e). sp_endpoint (ep_params e)) (rp_endpoints p))"

lemma pool_urls_insert:
  "pool_urls (insert_endpoint k i (fresh_endpoint params) p) = add_mset (sp_endpoint params) (pool_urls p)"
proof -
  let ?f = "\<lambda>(i, e). sp_endpoint (ep_params e)"
  have "mset (map ?f (take k (rp_endpoints p))) + mset (map ?f (drop k (rp_endpoints p))) = mset (map ?f (rp_endpoints p))"
    by (metis append_take_drop_id map_append mset_append)
  then show ?thesis by (simp add: pool_urls_def insert_endpoint_def fresh_endpoint_def)
qed

lemma forM_insert_urls:
  "forM ps (\<lambda>params. if sp_chain_id params \<noteq> c then ret () else bindM (new_endpoint V params) (arena_insert V)) w = (Inr (), w') \<Longrightarrow>
    pool_urls (pw_pool w') = pool_urls (pw_pool w) + mset (map sp_endpoint (filter (\<lambda>p. sp_chain_id p = c) ps))"
proof (induction ps arbitrary: w)
  case (Cons params ps)
  show ?case
  proof (cases "sp_chain_id params = c")
    case True
    let ?is = "map fst (rp_endpoints (pw_pool w))"
    let ?w1 = "w\<lparr>pw_pool := insert_endpoint (pe_slot V ?is) (pe_index V ?is) (fresh_endpoint params) (pw_pool w)\<rparr>"
    have "forM ps (\<lambda>params. if sp_chain_id params \<noteq> c then ret () else bindM (new_endpoint V params) (arena_insert V)) ?w1 = (Inr (), w')"
      using Cons.prems True by (auto simp: bindM_eq_Inr_iff [of _ "\<lambda>_. forM _ _"] new_insert_done Let_def)
    then show ?thesis using Cons.IH [of ?w1] True by (simp add: pool_urls_insert)
  next
    case False
    then show ?thesis using Cons.prems Cons.IH by simp
  qed
qed simp

lemma pool_new_urls:
  assumes "pool_new V c single js dns a b w = (Inr (), w')"
  shows "pool_urls (pw_pool w') = mset (map sp_endpoint (filter (\<lambda>p. sp_chain_id p = c) single))"
proof -
  obtain w1 where w1: "forM single (\<lambda>params. if sp_chain_id params \<noteq> c then ret ()
        else bindM (new_endpoint V params) (arena_insert V)) (w\<lparr>pw_pool := pool_blank c js dns a b\<rparr>) = (Inr (), w1)"
    "whenM (js \<noteq> [] \<or> dns \<noteq> []) (bindM (start_resolve_if_needed V False) (\<lambda>_. ret ())) w1 = (Inr (), w')"
    using assms by (auto simp: pool_new_def bindM_eq_Inr_iff on_pool_def)
  have "rp_endpoints (pw_pool w') = rp_endpoints (pw_pool w1)"
    using w1(2) timers_untouched(1) [of V False w1] by (auto simp: whenM_def bindM_def untouched_def split: if_splits)
  then show ?thesis using forM_insert_urls [OF w1(1)] by (simp add: pool_urls_def pool_blank_def)
qed

text \<open>The URLs that the configuration of a chain lists itself, in the order of the configuration.\<close>

definition listed_urls :: "configured_chain \<Rightarrow> string list" where
  "listed_urls c = concat (map (\<lambda>s. or_default [] (split_string_by_coma (rs_endpoints s))) (cn_rpc_endpoints c))"

lemma sources_single:
  "fst (fst (sources_of uuid i ss n)) = concat (map (\<lambda>s. single_endpoints i s (or_default [] (split_string_by_coma (rs_endpoints s)))) ss)"
proof (induction ss arbitrary: n)
  case (Cons s ss)
  have none: "single_endpoints i s [] = []" by (simp add: single_endpoints_def Let_def enumerate_eq_zip)
  show ?case using Cons.IH [of n] Cons.IH [of "n + 1"]
    by (auto simp: or_default_def none split: option.splits prod.splits)
qed simp

lemma single_endpoints_urls:
  "map sp_endpoint (single_endpoints i s us) = us" "p \<in> set (single_endpoints i s us) \<Longrightarrow> sp_chain_id p = i"
  by (auto simp: single_endpoints_def Let_def case_prod_unfold comp_def)

lemma sources_listed: "map sp_endpoint (fst (fst (sources_of uuid i (cn_rpc_endpoints c) n))) = listed_urls c"
  by (simp add: sources_single listed_urls_def map_concat comp_def single_endpoints_urls)

lemma sources_chain_id: "p \<in> set (fst (fst (sources_of uuid i ss n))) \<Longrightarrow> sp_chain_id p = i"
  by (auto simp: sources_single single_endpoints_urls)

lemma chain_pool_good:
  assumes "shared_pool V" and "chain_pool V c (fst (sources_of uuid (i64_as_u64 (cc_chain_id c)) ss n)) = Inr pool"
    and "ss = cn_rpc_endpoints c"
  shows "rp_chain_id pool = i64_as_u64 (cc_chain_id c)" and "distinct (listed_urls c) \<Longrightarrow> pool_ok pool"
    and "pool_urls pool = mset (listed_urls c)"
proof -
  obtain sources m where run: "sources_of uuid (i64_as_u64 (cc_chain_id c)) ss n = (sources, m)"
    by (cases "sources_of uuid (i64_as_u64 (cc_chain_id c)) ss n")
  obtain single json dns where parts: "sources = (single, json, dns)" by (cases sources)
  have s: "sources_of uuid (i64_as_u64 (cc_chain_id c)) ss n = ((single, json, dns), m)" using run parts by simp
  let ?new = "pool_new V (i64_as_u64 (cc_chain_id c)) single json dns 10000 (or_default 300 (cn_external_source_check_interval c) * 1000)
    \<lparr>pw_pool = pool_blank 0 [] [] 0 0, pw_events = [], pw_tick = 0, pw_requests = [], pw_slept = 0\<rparr>"
  obtain w' where new: "?new = (Inr (), w')" "pool = pw_pool w'"
    using assms(2) unfolding s fst_conv chain_pool_def prod.case by (cases ?new; cases "fst ?new") (simp_all split: unit.splits)
  show "rp_chain_id pool = i64_as_u64 (cc_chain_id c)" using pool_new_chain_id [OF assms(1) new(1)] new(2) by simp
  have "\<forall>p\<in>set single. sp_chain_id p = i64_as_u64 (cc_chain_id c)" using sources_chain_id [of _ uuid _ ss n] by (simp add: s)
  then have all: "filter (\<lambda>p. sp_chain_id p = i64_as_u64 (cc_chain_id c)) single = single" by (rule filter_True)
  have urls: "map sp_endpoint single = listed_urls c" using sources_listed [of uuid _ c n] by (metis s assms(3) fst_conv)
  show "pool_urls pool = mset (listed_urls c)"
    using pool_new_urls [OF new(1)] new(2) all urls by simp
  show "pool_ok pool" if "distinct (listed_urls c)"
    using pool_new_ok [OF assms(1) new(1)] new(2) all urls that by simp
qed

section \<open>The chains of the setup\<close>

lemma add_chain_result:
  assumes "add_chain V cm uuid options (network, c) (ds, n) = Inr (ds', n')"
  obtains mf pf pool details where "to_u256_from_gwei cm (cn_max_fee_per_gas c) = Inr mf"
    and "to_u256_from_gwei cm (cn_priority_fee c) = Inr pf"
    and "chain_pool V c (fst (sources_of uuid (i64_as_u64 (cc_chain_id c)) (cn_rpc_endpoints c) n)) = Inr pool"
    and "ds' = ds\<lparr>ps_chain_setup := (ps_chain_setup ds)(cc_chain_id c \<mapsto> chain_setup_of c mf pf),
         ds_details := (ds_details ds)(cc_chain_id c \<mapsto> details),
         ds_providers := (ds_providers ds)(cc_chain_id c \<mapsto> pool)\<rparr>"
  using assms by (auto simp: add_chain_def bindE_Inr_iff Let_def split: prod.splits)

text \<open>What is kept for a chain: its setup and its pool.\<close>

definition chain_in_setup :: "pool_env \<Rightarrow> (rat \<Rightarrow> rat \<Rightarrow> rat option) \<Rightarrow> (nat \<Rightarrow> nat) \<Rightarrow> configured_chain \<Rightarrow> driver_setup \<Rightarrow> bool" where
  "chain_in_setup V cm uuid c ds \<longleftrightarrow> (\<exists>mf pf pool n. to_u256_from_gwei cm (cn_max_fee_per_gas c) = Inr mf \<and>
     to_u256_from_gwei cm (cn_priority_fee c) = Inr pf \<and>
     ps_chain_setup ds (cc_chain_id c) = Some (chain_setup_of c mf pf) \<and> ds_providers ds (cc_chain_id c) = Some pool \<and>
     chain_pool V c (fst (sources_of uuid (i64_as_u64 (cc_chain_id c)) (cn_rpc_endpoints c) n)) = Inr pool)"

text \<open>The chain configured under an id: the last one, when several have the same id.\<close>

definition configured_as :: "(string \<times> configured_chain) list \<Rightarrow> i64 \<Rightarrow> configured_chain option" where
  "configured_as cfg i = map_of (rev (map (\<lambda>(name, c). (cc_chain_id c, c)) cfg)) i"

lemma configured_as_simps [simp]:
  "configured_as [] i = None"
  "configured_as ((name, c) # cfg) i = (case configured_as cfg i of Some c' \<Rightarrow> Some c'
     | None \<Rightarrow> if cc_chain_id c = i then Some c else None)"
  by (simp_all add: configured_as_def map_add_def split: option.split)

lemma add_chains_result:
  "add_chains V cm uuid options cfg (ds, n) = Inr (ds', n') \<Longrightarrow>
    (case configured_as cfg i of
       Some c \<Rightarrow> cc_chain_id c = i \<and> chain_in_setup V cm uuid c ds'
     | None \<Rightarrow> ps_chain_setup ds' i = ps_chain_setup ds i \<and> ds_providers ds' i = ds_providers ds i)"
proof (induction cfg arbitrary: ds n)
  case (Cons nc cfg)
  obtain network c where nc: "nc = (network, c)" by fastforce
  obtain ds1 n1 where step: "add_chain V cm uuid options (network, c) (ds, n) = Inr (ds1, n1)"
    and rest: "add_chains V cm uuid options cfg (ds1, n1) = Inr (ds', n')"
    using Cons.prems nc by (auto simp: bindE_Inr_iff)
  obtain mf pf pool details where parts: "to_u256_from_gwei cm (cn_max_fee_per_gas c) = Inr mf"
    "to_u256_from_gwei cm (cn_priority_fee c) = Inr pf"
    "chain_pool V c (fst (sources_of uuid (i64_as_u64 (cc_chain_id c)) (cn_rpc_endpoints c) n)) = Inr pool"
    and ds1: "ds1 = ds\<lparr>ps_chain_setup := (ps_chain_setup ds)(cc_chain_id c \<mapsto> chain_setup_of c mf pf),
         ds_details := (ds_details ds)(cc_chain_id c \<mapsto> details), ds_providers := (ds_providers ds)(cc_chain_id c \<mapsto> pool)\<rparr>"
    by (rule add_chain_result [OF step])
  note IH = Cons.IH [OF rest]
  have "chain_in_setup V cm uuid c ds'" if "configured_as cfg i = None" "cc_chain_id c = i"
    using parts IH that ds1 unfolding chain_in_setup_def by auto
  then show ?case using IH nc ds1 by (auto split: option.splits)
qed simp

text \<open>The setup of a chain agrees with its configuration in every field.\<close>

definition setup_agrees :: "(rat \<Rightarrow> rat \<Rightarrow> rat option) \<Rightarrow> configured_chain \<Rightarrow> chain_setup \<Rightarrow> bool" where
  "setup_agrees cm c cs \<longleftrightarrow> to_u256_from_gwei cm (cn_max_fee_per_gas c) = Inr (cs_max_fee_per_gas cs) \<and>
     to_u256_from_gwei cm (cn_priority_fee c) = Inr (cs_priority_fee cs) \<and>
     cs_chain_id cs = cc_chain_id c \<and> cs_glm_address cs = cc_token_address c \<and>
     cs_lock_contract_address cs = cn_lock_contract c \<and>
     (cs_multi_contract_address cs, cs_multi_contract_max_at_once cs) = (case cn_multi_contract c of
        None \<Rightarrow> (None, 1) | Some m \<Rightarrow> (Some (mc_address m), mc_max_at_once m)) \<and>
     cs_transaction_timeout cs = cn_transaction_timeout c \<and> cs_confirmation_blocks cs = cn_confirmation_blocks c \<and>
     cs_replacement_timeout cs = cn_replacement_timeout c"


section \<open>A configuration with one chain\<close>

definition sample_engine :: engine where
  "sample_engine = \<lparr>en_process_interval = 30, en_process_interval_after_error = 60,
     en_process_interval_after_no_gas_or_token_start = 60, en_process_interval_after_no_gas_or_token_max = 7200,
     en_process_interval_after_no_gas_or_token_increase = 2, en_process_interval_after_send = 5,
     en_report_alive_interval = 300, en_gather_interval = 600, en_mark_as_unrecoverable_after_seconds = None,
     en_gather_at_start = True, en_automatic_recover = False, en_ignore_deadlines = False\<rparr>"

definition sample_rpc :: rpc_settings where
  "sample_rpc = \<lparr>rs_names = None, rs_endpoints = Some ''a, b,'', rs_dns_source = None, rs_json_source = None,
     rs_skip_validation = None, rs_backup_level = None, rs_verify_interval_secs = None, rs_min_interval_ms = None,
     rs_max_timeout_ms = None, rs_allowed_head_behind_secs = None, rs_max_consecutive_errors = None\<rparr>"

definition sample_config :: configured_chain where
  "sample_config = \<lparr>cc_chain_id = 17000, cc_token_address = 4, cc_mint_contract = None, cn_chain_name = ''Holesky'',
     cn_rpc_endpoints = [sample_rpc], cn_currency_symbol = ''tETH'', cn_priority_fee = 1, cn_max_fee_per_gas = 20,
     cn_token_symbol = ''tGLM'', cn_multi_contract = Some \<lparr>mc_address = 6, mc_max_at_once = 10\<rparr>,
     cn_mint_max_glm_allowed = 400, cn_lock_contract = None, cn_faucet_client = None, cn_transaction_timeout = 100,
     cn_confirmation_blocks = 0, cn_faucet_eth_amount = None, cn_faucet_glm_amount = None, cn_block_explorer_url = None,
     cn_replacement_timeout = None, cn_external_source_check_interval = None\<rparr>"

lemma gwei_exact: "to_u256_from_gwei (\<lambda>a b. Some (a * b)) 20 = Inr 20000000000"
  "to_u256_from_gwei (\<lambda>a b. Some (a * b)) 1 = Inr 1000000000"
  by (simp_all add: to_u256_from_gwei_def rust_dec_to_u256_strict_def compute_base_def)

lemma sample_urls: "split_string_by_coma (rs_endpoints sample_rpc) = Some [''a'', ''b'']"
  by (simp add: split_string_by_coma_def sample_rpc_def trim_def is_whitespace_def)

lemma sample_pool_exists:
  "\<exists>pool. chain_pool calm_pool_env sample_config (fst (sources_of uuid (i64_as_u64 (cc_chain_id sample_config))
     (cn_rpc_endpoints sample_config) n)) = Inr pool"
proof -
  have "cn_rpc_endpoints sample_config = [sample_rpc]" by (simp add: sample_config_def)
  then have src: "fst (sources_of uuid (i64_as_u64 (cc_chain_id sample_config)) (cn_rpc_endpoints sample_config) n) =
      (single_endpoints (i64_as_u64 (cc_chain_id sample_config)) sample_rpc [''a'', ''b''], [], [])"
    by (simp add: sample_urls)
  show ?thesis unfolding src
    by (simp add: chain_pool_def single_endpoints_def Let_def or_default_def pool_new_def on_pool_def
        new_endpoint_def arena_insert_def calm_pool_env_def bindM_def sample_rpc_def split_string_by_coma_def split: unit.splits)
qed

lemma sample_setup_exists:
  "\<exists>ds. payment_setup_new calm_pool_env (\<lambda>a b. Some (a * b)) id sample_engine [(''holesky'', sample_config)]
     additional_options_default = Inr ds"
proof -
  obtain pool where "chain_pool calm_pool_env sample_config (fst (sources_of id (i64_as_u64 (cc_chain_id sample_config))
     (cn_rpc_endpoints sample_config) 0)) = Inr pool" using sample_pool_exists by blast
  moreover have "cn_faucet_eth_amount sample_config = None" "cn_faucet_glm_amount sample_config = None"
    "cn_max_fee_per_gas sample_config = 20" "cn_priority_fee sample_config = 1"
    by (simp_all add: sample_config_def)
  ultimately show ?thesis
    by (simp add: payment_setup_new_def add_chain_def faucet_amount_def gwei_exact bindE_def case_prod_unfold)
qed


end
