(* ===== verification/Http.thy ===== *)
theory Http imports External begin

text \<open>
  What the two HTTP servers of the repository share: numbers in paths and queries (\<open>i64::from_str\<close>,
  \<open>usize::from_str\<close>, \<open>to_string\<close>), requests and routes. The router (\<open>actix\<close>) is a parameter; all that is used of
  it is that a request reaches a registered route only.
\<close>

section \<open>Texts of numbers\<close>

definition decimal_digit :: "char \<Rightarrow> nat option" where
  "decimal_digit c = map_of (zip ''0123456789'' [0..<10]) c"

definition decimal_value :: "string \<Rightarrow> nat option" where
  "decimal_value s = (if s = [] \<or> list_ex (\<lambda>c. decimal_digit c = None) s then None
     else Some (of_base 10 (map (\<lambda>c. the (decimal_digit c)) s)))"

text \<open>\<open>i64::from_str\<close>: an optional sign, at least one digit, a value in range.\<close>

definition i64_from_str :: "string \<Rightarrow> i64 option" where
  "i64_from_str s = (case (case s of CHR ''-'' # r \<Rightarrow> map_option (\<lambda>n. - int n) (decimal_value r)
       | CHR ''+'' # r \<Rightarrow> map_option int (decimal_value r) | _ \<Rightarrow> map_option int (decimal_value s)) of
     Some v \<Rightarrow> if - (2 ^ 63) \<le> v \<and> v < 2 ^ 63 then Some v else None | None \<Rightarrow> None)"

definition int_text :: "int \<Rightarrow> string" where
  "int_text i = (if i < 0 then [CHR ''-''] else []) @ map digit_char (to_base 10 (nat \<bar>i\<bar>))"

text \<open>\<open>u64::from_str\<close>, and \<open>usize::from_str\<close> on a machine of 64 bits.\<close>

definition u64_from_str :: "string \<Rightarrow> nat option" where
  "u64_from_str s = (case (case s of CHR ''+'' # r \<Rightarrow> decimal_value r | _ \<Rightarrow> decimal_value s) of
     Some v \<Rightarrow> if v < 2 ^ 64 then Some v else None | None \<Rightarrow> None)"

text \<open>\<open>to_lowercase\<close> on ASCII texts.\<close>

definition to_lower :: "string \<Rightarrow> string" where
  "to_lower s = map (\<lambda>c. let n = of_char c :: nat in if 65 \<le> n \<and> n \<le> 90 then char_of (n + 32) else c) s"

section \<open>Requests and routes\<close>

record http_request =
  rq_match_info :: "string \<rightharpoonup> string"
  rq_uri :: string

datatype http_method = GET | POST

datatype segment = Lit string | Par string

type_synonym 'e route = "(http_method \<times> segment list) \<times> 'e"

type_synonym 'e router = "'e route list \<Rightarrow> http_method \<Rightarrow> string list \<Rightarrow> ('e \<times> (string \<times> string) list) option"

definition registered_only :: "'e router \<Rightarrow> bool" where
  "registered_only pick \<longleftrightarrow> (\<forall>rs m ss e ps. pick rs m ss = Some (e, ps) \<longrightarrow> e \<in> snd ` set rs)"

text \<open>An instance: a parameter takes one segment that is not empty, and the first route that fits is taken.\<close>

fun match_path :: "segment list \<Rightarrow> string list \<Rightarrow> (string \<times> string) list option" where
  "match_path [] [] = Some []"
| "match_path (Lit l # segs) (s # ss) = (if s = l then match_path segs ss else None)"
| "match_path (Par p # segs) (s # ss) = (if s = [] then None else map_option ((#) (p, s)) (match_path segs ss))"
| "match_path _ _ = None"

fun find_route :: "'e router" where
  "find_route [] m ss = None"
| "find_route (((m', segs), e) # rs) m ss = (case (if m' = m then match_path segs ss else None) of
       Some params \<Rightarrow> Some (e, params) | None \<Rightarrow> find_route rs m ss)"

lemma find_route_in: "find_route rs m ss = Some (e, ps) \<Longrightarrow> e \<in> snd ` set rs"
  by (induction rs) (auto split: option.splits if_splits)

lemma find_route_registered: "registered_only find_route"
  by (simp add: registered_only_def find_route_in)

end
