(* ===== verification/Web.thy ===== *)
theory Web imports Http Setup Service ChainTables Runtime begin

text \<open>
  The REST interface of the driver (\<open>server/web.rs\<close>). A handler works on the world of the driver, the accounts,
  the data of the faucet and the pools (\<open>api_world\<close>) and ends with a response, or early with one
  (\<open>return_on_error!\<close>, \<open>?\<close>), or with a panic. A JSON value keeps the rows it contains as they are: their
  texts are derived by \<open>serde\<close>. Texts of errors and numbers, random identifiers, the parser of dates and
  the metrics are parameters.
\<close>

section \<open>Requests, responses and the state\<close>

record faucet_data =
  fd_faucet_events :: "(string \<times> timestamp) list"
  fd_last_cleanup :: timestamp

record api_world =
  aw_world :: world
  aw_accounts :: "signer_account list"
  aw_faucet :: "faucet_data option"
  aw_pools :: "(i64 \<times> rpc_pool) list"

record chain_transfer_resp_obj =
  cr_id :: i64
  cr_from_addr :: string
  cr_receiver_addr :: string
  cr_chain_id :: i64
  cr_token_addr :: "string option"
  cr_token_amount :: string
  cr_tx_hash :: string
  cr_block_number :: i64
  cr_fee_paid :: "string option"
  cr_block_date :: timestamp
  cr_block_timestamp :: i64
  cr_to_addr :: string
  cr_caller_addr :: string

datatype json =
    JInt int
  | JNum rat
  | JStr string
  | JArr "json list"
  | JObj "(string \<times> json) list"
  | JTx tx_db_obj
  | JTransfer token_transfer_db_obj
  | JTransferIn transfer_in_db_obj
  | JAllowance allowance_db_obj
  | JChainTransfer chain_transfer_resp_obj
  | JEndpoint web3_rpc_endpoint
  | JCurrent "i64 \<rightharpoonup> shared_info_tx"
  | JConfig driver_setup
  | JShared shared_state "faucet_data option" "signer_account list"
  | JOpt "string option"

datatype response =
    Json json
  | Plain string
  | BadRequest string
  | InternalServerError string
  | PermanentRedirect string
  | Upgrade
  | NotFound

text \<open>What a handler stops with before its end.\<close>

datatype web_stop = Reply response | Stopped failure

type_synonym 'a web = "(api_world, web_stop, 'a) prog"

record transaction_request =
  nt_from :: string
  nt_to :: string
  nt_token :: "string option"
  nt_amount :: string
  nt_chain :: i64
  nt_due_date :: "string option"
  nt_payment_id :: "string option"
  nt_deposit_id :: "string option"

record stats_transfer_request =
  sr_receiver :: "string option"
  sr_from :: "string option"
  sr_to :: "string option"
  sr_chain :: "string option"

record web_env =
  we_env :: env
  we_pool :: pool_env
  we_setup :: driver_setup
  we_cfg :: chain_configs
  we_uuid :: "nat \<Rightarrow> string"
  we_elapsed :: "nat \<Rightarrow> rat"
  we_parse_rfc3339 :: "string \<Rightarrow> string + timestamp"
  we_metrics :: "nat \<Rightarrow> string + string"
  we_sql_text :: "sql_error \<Rightarrow> string"
  we_number_text :: "rat \<Rightarrow> string"
  we_header_value :: "string \<Rightarrow> bool"
  we_version :: string

section \<open>Steps of a handler\<close>

definition on_world :: "'a prg \<Rightarrow> (error_bag + 'a) web" where
  "on_world m a = (case m (aw_world a) of
       (Inl (Err e), w) \<Rightarrow> (Inr (Inl e), a\<lparr>aw_world := w\<rparr>)
     | (Inl f, w) \<Rightarrow> (Inl (Stopped f), a\<lparr>aw_world := w\<rparr>)
     | (Inr x, w) \<Rightarrow> (Inr (Inr x), a\<lparr>aw_world := w\<rparr>))"

definition query :: "'a dbp \<Rightarrow> (sql_error + 'a) web" where
  "query m a = (case m (w_db (aw_world a)) of (r, d) \<Rightarrow> (Inr r, a\<lparr>aw_world := (aw_world a)\<lparr>w_db := d\<rparr>\<rparr>))"

definition web_ask :: "(nat \<Rightarrow> 'a) \<Rightarrow> 'a web" where
  "web_ask f a = (Inr (f (w_tick (aw_world a))), a\<lparr>aw_world := (aw_world a)\<lparr>w_tick := w_tick (aw_world a) + 1\<rparr>\<rparr>)"

definition web_now :: "web_env \<Rightarrow> timestamp web" where
  "web_now V = web_ask (ev_now (we_env V))"

abbreviation stop_with :: "response \<Rightarrow> 'a web" where
  "stop_with r \<equiv> throw (Reply r)"

abbreviation panic :: "string \<Rightarrow> 'a web" where
  "panic s \<equiv> throw (Stopped (Panic s))"

definition error_json :: "string \<Rightarrow> response" where
  "error_json s = Json (JObj [(''error'', JStr s)])"

definition answer :: "(string \<times> json) list \<Rightarrow> response web" where
  "answer entries = ret (Json (JObj entries))"

text \<open>\<open>return_on_error!\<close> on a query, and on a value that may be missing.\<close>

definition query_or_error :: "web_env \<Rightarrow> 'a dbp \<Rightarrow> 'a web" where
  "query_or_error V m = bindM (query m) (\<lambda>r. case r of Inl e \<Rightarrow> stop_with (error_json (we_sql_text V e)) | Inr x \<Rightarrow> ret x)"

definition some_or_error :: "string \<Rightarrow> 'a option \<Rightarrow> 'a web" where
  "some_or_error s x = (case x of None \<Rightarrow> stop_with (error_json s) | Some v \<Rightarrow> ret v)"

definition some_or :: "response \<Rightarrow> 'a option \<Rightarrow> 'a web" where
  "some_or r x = (case x of None \<Rightarrow> stop_with r | Some v \<Rightarrow> ret v)"

definition unwrap :: "'a option \<Rightarrow> 'a web" where
  "unwrap x = (case x of None \<Rightarrow> panic ''called unwrap() on an Err value'' | Some v \<Rightarrow> ret v)"

definition update_shared :: "(shared_state \<Rightarrow> shared_state) \<Rightarrow> unit web" where
  "update_shared f = modify (\<lambda>a. a\<lparr>aw_world := (aw_world a)\<lparr>w_shared := f (w_shared (aw_world a))\<rparr>\<rparr>)"

definition path_i64 :: "http_request \<Rightarrow> string \<Rightarrow> i64 option" where
  "path_i64 req name = (case rq_match_info req name of Some s \<Rightarrow> i64_from_str s | None \<Rightarrow> None)"

text \<open>A limit: ten when it is not in the path, none when it is not a number.\<close>

definition path_limit :: "http_request \<Rightarrow> string \<Rightarrow> i64 option" where
  "path_limit req name = (case rq_match_info req name of Some s \<Rightarrow> i64_from_str s | None \<Rightarrow> Some 10)"

section \<open>Transactions\<close>

definition tx_details :: "web_env \<Rightarrow> http_request \<Rightarrow> response web" where
  "tx_details V req = (case path_i64 req ''tx_id'' of
       None \<Rightarrow> ret (error_json ''failed to parse tx_id'')
     | Some tx_id \<Rightarrow> bindM (query_or_error V (get_transaction tx_id)) (\<lambda>tx. answer [(''tx'', JTx tx)]))"

definition txs_by :: "web_env \<Rightarrow> (tx_db_obj \<Rightarrow> bool) option \<Rightarrow> i64 option \<Rightarrow> tx_order option \<Rightarrow> tx_db_obj list web" where
  "txs_by V flt limit ord = query_or_error V (get_transactions (ev_ext (we_env V)) None flt limit ord None)"

definition answer_txs :: "tx_db_obj list \<Rightarrow> response web" where
  "answer_txs txs = answer [(''txs'', JArr (map JTx txs))]"

definition transactions_handler :: "web_env \<Rightarrow> response web" where
  "transactions_handler V = bindM (txs_by V None None None) answer_txs"

definition transactions_next :: "web_env \<Rightarrow> http_request \<Rightarrow> response web" where
  "transactions_next V req = bindM (txs_by V (Some filter_queued) (path_limit req ''count'') (Some CreateDate)) answer_txs"

definition transactions_current :: "web_env \<Rightarrow> response web" where
  "transactions_current V = bindM (txs_by V (Some filter_processing) None (Some CreateDate)) answer_txs"

definition transactions_last_processed :: "web_env \<Rightarrow> http_request \<Rightarrow> response web" where
  "transactions_last_processed V req =
     bindM (txs_by V (Some filter_done) (path_limit req ''count'') (Some FirstProcessedDateDesc)) answer_txs"

text \<open>The engine's message and error are added to the transactions it works on.\<close>

definition annotate :: "(i64 \<rightharpoonup> shared_info_tx) \<Rightarrow> tx_db_obj \<Rightarrow> tx_db_obj" where
  "annotate current_tx tx = (case current_tx (t_id tx) of
       Some info \<Rightarrow> tx\<lparr>t_engine_error := si_error info, t_engine_message := Some (si_message info)\<rparr>
     | None \<Rightarrow> tx)"

definition feed_txs :: "web_env \<Rightarrow> i64 option \<Rightarrow> i64 option \<Rightarrow> tx_db_obj list web" where
  "feed_txs V limit_prev limit_next =
     bindM (txs_by V (Some filter_done) limit_prev (Some FirstProcessedDateDesc)) (\<lambda>txs.
     bindM (txs_by V (Some filter_processing) None (Some CreateDate)) (\<lambda>txs_current.
     bindM (txs_by V (Some filter_queued) limit_next (Some CreateDate)) (\<lambda>txs_next.
       ret (rev txs @ txs_current @ txs_next))))"

definition transactions_feed :: "web_env \<Rightarrow> http_request \<Rightarrow> response web" where
  "transactions_feed V req =
     bindM (feed_txs V (path_limit req ''prev'') (path_limit req ''next'')) (\<lambda>txs.
     bindM (gets (\<lambda>a. sh_current_tx_info (w_shared (aw_world a)))) (\<lambda>current_tx.
       answer [(''txs'', JArr (map (\<lambda>tx. JTx (annotate current_tx tx)) txs)), (''current'', JCurrent current_tx)]))"

definition transactions_count :: "web_env \<Rightarrow> response web" where
  "transactions_count V =
     bindM (query_or_error V (get_transaction_count (Some filter_queued))) (\<lambda>queued_tx_count.
     bindM (query_or_error V (get_transaction_count (Some filter_done))) (\<lambda>done_tx_count.
     bindM (query_or_error V (get_transfer_count (Some transfer_filter_queued) None None)) (\<lambda>queued.
     bindM (query_or_error V (get_transfer_count (Some transfer_filter_processing) None None)) (\<lambda>processed.
     bindM (query_or_error V (get_transfer_count (Some transfer_filter_done) None None)) (\<lambda>done_count.
       answer [(''transfersQueued'', JInt (int queued)), (''transfersProcessing'', JInt (int processed)),
         (''transfersDone'', JInt (int done_count)), (''txQueued'', JInt (int queued_tx_count)),
         (''txDone'', JInt (int done_tx_count))])))))"

definition skip_pending_operation :: "http_request \<Rightarrow> response web" where
  "skip_pending_operation req = (case path_i64 req ''tx_id'' of
       Some tx_id \<Rightarrow>
         bindM (gets (\<lambda>a. fst (skip_tx tx_id (w_shared (aw_world a))))) (\<lambda>found.
         bindM (update_shared (\<lambda>s. snd (skip_tx tx_id s))) (\<lambda>_.
           if found then answer [(''success'', JStr ''true'')] else ret (error_json ''Tx not found'')))
     | None \<Rightarrow> ret (error_json ''failed to parse tx_id''))"

section \<open>Pools, allowances and the state of the driver\<close>

definition network_of :: "web_env \<Rightarrow> i64 \<Rightarrow> string" where
  "network_of V chain_id = (case ds_details (we_setup V) chain_id of Some d \<Rightarrow> cd_network d | None \<Rightarrow> ''unknown'')"

definition rpc_pool_handler :: "web_env \<Rightarrow> response web" where
  "rpc_pool_handler V = bindM (gets aw_pools) (\<lambda>pools. answer [(''networks'', JArr (map (\<lambda>(chain_id, pool).
     JObj [(''chainId'', JInt chain_id), (''chainNetwork'', JStr (network_of V chain_id)),
       (''endpoints'', JArr (map (\<lambda>(i, e). JEndpoint e) (rp_endpoints pool)))]) pools))])"

record metric =
  me_name :: string
  me_params :: "(string \<times> string) list"
  me_value :: string

record metric_group =
  mg_help :: string
  mg_type :: string
  mg_metrics :: "metric list"

definition endpoint_metrics :: "web_env \<Rightarrow> web3_rpc_endpoint \<Rightarrow> metric list" where
  "endpoint_metrics V e =
     (let params = [(''chain_id'', int_text (uint (sp_chain_id (ep_params e)))), (''name'', sp_name (ep_params e))];
          stats = wi_web3_rpc_stats (ep_info e);
          (head_behind, check_time_ms) = (case wi_verify_result (ep_info e) of
              Some (EndpointOk res) \<Rightarrow> (as_i64 (vs_head_seconds_behind res), as_i64 (vs_check_time_ms res))
            | _ \<Rightarrow> (-1, -1))
      in map (\<lambda>(name, value). \<lparr>me_name = name, me_params = params, me_value = value\<rparr>)
        [(''rpc_endpoint_effective_score'', we_number_text V (get_score (we_pool V) e)),
         (''rpc_endpoint_score_validation'', we_number_text V (get_validation_score (we_pool V) e)),
         (''rpc_endpoint_error_count'', int_text (int (ws_request_count_total_error stats))),
         (''rpc_endpoint_success_count'', int_text (int (ws_request_count_total_succeeded stats))),
         (''rpc_endpoint_ms'', int_text check_time_ms),
         (''rpc_endpoint_block_delay'', int_text head_behind)])"

definition metric_heads :: "(string \<times> string) list" where
  "metric_heads =
     [(''# HELP rpc_endpoint_effective_score Effective score of selected rpc endpoint'',
       ''# TYPE rpc_endpoint_effective_score gauge''),
      (''# HELP rpc_endpoint_score_validation Score (from validation) of selected rpc endpoint'',
       ''# TYPE rpc_endpoint_score_validation gauge''),
      (''# HELP rpc_endpoint_error_count Number of error requests'', ''# TYPE rpc_endpoint_error_count counter''),
      (''# HELP rpc_endpoint_success_count Number of succeeded requests'',
       ''# TYPE rpc_endpoint_success_count counter''),
      (''# HELP rpc_endpoint_ms Endpoint validation time'', ''# TYPE rpc_endpoint_ms gauge''),
      (''# HELP rpc_endpoint_block_delay Time since last block head'', ''# TYPE rpc_endpoint_block_delay gauge'')]"

definition push_metric :: "nat \<Rightarrow> metric \<Rightarrow> metric_group list \<Rightarrow> metric_group list" where
  "push_metric i m groups = groups[i := (groups ! i)\<lparr>mg_metrics := mg_metrics (groups ! i) @ [m]\<rparr>]"

definition pool_metrics :: "web_env \<Rightarrow> (i64 \<times> rpc_pool) list \<Rightarrow> metric_group list" where
  "pool_metrics V pools = fold (\<lambda>e groups. fold (\<lambda>(i, m). push_metric i m) (enumerate 0 (endpoint_metrics V e)) groups)
     (concat (map (\<lambda>(_, pool). map snd (rp_endpoints pool)) pools))
     (map (\<lambda>(h, t). \<lparr>mg_help = h, mg_type = t, mg_metrics = []\<rparr>) metric_heads)"

fun param_texts :: "(string \<times> string) list \<Rightarrow> string" where
  "param_texts [] = []"
| "param_texts [(k, v)] = k @ ''=\"'' @ v @ ''\"''"
| "param_texts ((k, v) # ps) = k @ ''=\"'' @ v @ ''\",'' @ param_texts ps"

definition metric_text :: "metric \<Rightarrow> string" where
  "metric_text m = me_name m @ ''{'' @ param_texts (me_params m) @ ''} '' @ me_value m @ [CHR 0x0A]"

definition group_text :: "metric_group \<Rightarrow> string" where
  "group_text g = mg_help g @ [CHR 0x0A] @ mg_type g @ [CHR 0x0A] @ concat (map metric_text (mg_metrics g)) @ [CHR 0x0A]"

definition rpc_pool_metrics :: "web_env \<Rightarrow> response web" where
  "rpc_pool_metrics V = bindM (gets aw_pools) (\<lambda>pools. ret (Plain (concat (map group_text (pool_metrics V pools)))))"

definition allowances_handler :: "web_env \<Rightarrow> response web" where
  "allowances_handler V =
     bindM (update_shared (\<lambda>s. s\<lparr>sh_inserted := sh_inserted s + 1\<rparr>)) (\<lambda>_.
     bindM (query_or_error V get_all_allowances) (\<lambda>allowances.
       answer [(''allowances'', JArr (map JAllowance allowances))]))"

definition config_endpoint :: "web_env \<Rightarrow> response web" where
  "config_endpoint V = answer [(''config'', JConfig (we_setup V))]"

definition debug_endpoint :: "response web" where
  "debug_endpoint = bindM (gets (\<lambda>a. JShared (w_shared (aw_world a)) (aw_faucet a) (aw_accounts a)))
     (\<lambda>shared_state. answer [(''sharedState'', shared_state)])"

definition greet :: "web_env \<Rightarrow> response web" where
  "greet V = answer [(''name'', JStr ''erc20_payment_lib''), (''version'', JStr (we_version V))]"

definition metrics_handler :: "web_env \<Rightarrow> response web" where
  "metrics_handler V = bindM (web_ask (we_metrics V)) (\<lambda>r. case r of
       Inr text \<Rightarrow> ret (Plain text) | Inl err \<Rightarrow> ret (Plain (''Failed to export metrics: '' @ err)))"

definition redirect_to_slash :: "web_env \<Rightarrow> http_request \<Rightarrow> response web" where
  "redirect_to_slash V req = (if we_header_value V (rq_uri req @ ''/'') then ret (PermanentRedirect (rq_uri req @ ''/''))
     else ret (InternalServerError ''Failed to create redirect target''))"

section \<open>Accounts and transfers\<close>

definition transfers_handler :: "web_env \<Rightarrow> http_request \<Rightarrow> response web" where
  "transfers_handler V req =
     bindM (case path_i64 req ''tx_id'' of
         Some tx_id \<Rightarrow> query_or_error V (get_token_transfers_by_tx tx_id)
       | None \<Rightarrow> query_or_error V (get_all_token_transfers None)) (\<lambda>transfers.
       answer [(''transfers'', JArr (map JTransfer transfers))])"

definition accounts_handler :: "web_env \<Rightarrow> response web" where
  "accounts_handler V = bindM (gets aw_accounts) (\<lambda>accounts.
     answer [(''publicAddr'', JArr (map (\<lambda>sk. JStr (str_of_addr (ev_ext (we_env V)) (sa_address sk))) accounts))])"

definition path_account :: "web_env \<Rightarrow> http_request \<Rightarrow> string web" where
  "path_account V req =
     bindM (some_or_error ''No account provided'' (rq_match_info req ''account'')) (\<lambda>account.
     bindM (some_or_error ''Invalid address'' (addr_of_str (ev_ext (we_env V)) account)) (\<lambda>web3_account.
       ret (str_of_addr (ev_ext (we_env V)) web3_account)))"

definition account_payments_in :: "web_env \<Rightarrow> http_request \<Rightarrow> response web" where
  "account_payments_in V req =
     bindM (path_account V req) (\<lambda>account.
     bindM (query_or_error V (get_account_transfers_in account None)) (\<lambda>transfers_in.
       answer [(''transfersIn'', JArr (map JTransferIn transfers_in))]))"

definition account_details :: "web_env \<Rightarrow> http_request \<Rightarrow> response web" where
  "account_details V req =
     bindM (path_account V req) (\<lambda>account.
     bindM (gets (\<lambda>a. list_ex (\<lambda>acc. str_of_addr (ev_ext (we_env V)) (sa_address acc) = account) (aw_accounts a))) (\<lambda>is_sender.
     bindM (query_or_error V (get_allowances_by_owner account)) (\<lambda>allowances.
     let count = (\<lambda>flt. if is_sender then query_or_error V (get_transfer_count (Some flt) (Some account) None) else ret 0) in
     bindM (count transfer_filter_queued) (\<lambda>queued_transfer_count.
     bindM (count transfer_filter_processing) (\<lambda>processed_transfer_count.
     bindM (count transfer_filter_done) (\<lambda>done_transfer_count.
     bindM (query_or_error V (get_transfer_count (Some transfer_filter_all) None (Some account))) (\<lambda>received_transfer_count.
       answer [(''account'', JStr account), (''allowances'', JArr (map JAllowance allowances)),
         (''transfersQueued'', JInt (int queued_transfer_count)),
         (''transfersProcessing'', JInt (int processed_transfer_count)),
         (''transfersDone'', JInt (int done_transfer_count)),
         (''receivedTransfers'', JInt (int received_transfer_count))])))))))"

definition world_or :: "(error_bag \<Rightarrow> response) \<Rightarrow> 'a prg \<Rightarrow> 'a web" where
  "world_or err m = bindM (on_world m) (\<lambda>r. case r of Inl e \<Rightarrow> stop_with (err e) | Inr x \<Rightarrow> ret x)"

definition account_balance :: "web_env \<Rightarrow> http_request \<Rightarrow> response web" where
  "account_balance V req = (let E = ev_ext (we_env V); text = ev_bag_text (we_env V) in
     bindM (some_or (BadRequest ''account not found'') (rq_match_info req ''account'')) (\<lambda>account_str.
     bindM (some_or (BadRequest ''account has to be valid address'') (addr_of_str E account_str)) (\<lambda>account.
     bindM (some_or (BadRequest ''chain-id not found'') (rq_match_info req ''chain'')) (\<lambda>chain_str.
     bindM (some_or (BadRequest ''chain-id has to be int'') (i64_from_str chain_str)) (\<lambda>network_id.
     bindM (some_or (BadRequest ''No config found'') (ps_chain_setup (we_setup V) network_id)) (\<lambda>chain.
     bindM (world_or (\<lambda>e. InternalServerError (''Failed to get latest block '' @ text e))
       (rpc (\<lambda>n. ev_block (we_env V) n None))) (\<lambda>block.
     bindM (some_or (InternalServerError ''Failed to found block info'') block) (\<lambda>block_info.
     bindM (some_or (InternalServerError ''Failed to found block number in block info'') (bk_number block_info)) (\<lambda>block_number.
     bindM (world_or (\<lambda>e. InternalServerError (text e))
       (liftR (datetime_from_u256_timestamp (we_env V) (bk_timestamp block_info)))) (\<lambda>date.
     bindM (some_or (InternalServerError ''Failed to found block date in block info'') date) (\<lambda>block_date.
     bindM (world_or (\<lambda>e. InternalServerError (''Failed to get balance '' @ text e))
       (get_balance (we_env V) (Some (cs_glm_address chain)) account True (Some block_number))) (\<lambda>balance.
       answer [(''networkId'', JInt network_id), (''account'', JStr (str_of_addr E account)),
         (''gasBalance'', JStr (case gb_gas_balance balance of Some b \<Rightarrow> dec_of_u256 E b | None \<Rightarrow> ''0'')),
         (''tokenBalance'', JStr (case gb_token_balance balance of Some b \<Rightarrow> dec_of_u256 E b | None \<Rightarrow> ''0'')),
         (''blockNumber'', JInt (int block_number)), (''blockDate'', JInt block_date)]))))))))))))"

text \<open>A clone of an account shares its gather time with the account in the list.\<close>

fun set_account :: "signer_account \<Rightarrow> signer_account list \<Rightarrow> signer_account list" where
  "set_account account [] = []"
| "set_account account (a # as) = (if sa_address a = sa_address account then account # as else a # set_account account as)"

definition requested_args :: "web_env \<Rightarrow> transaction_request \<Rightarrow> transfer_args web" where
  "requested_args V nt = (let E = ev_ext (we_env V) in
     bindM (some_or (BadRequest ''No config found'') (ds_details (we_setup V) (nt_chain nt))) (\<lambda>chain.
     bindM (case nt_due_date nt of
         None \<Rightarrow> ret None
       | Some due_date \<Rightarrow> (case we_parse_rfc3339 V due_date of
             Inl err \<Rightarrow> stop_with (BadRequest (''Invalid due_date: '' @ err)) | Inr date \<Rightarrow> ret (Some date))) (\<lambda>due_date.
     bindM (case nt_payment_id nt of Some payment_id \<Rightarrow> ret payment_id | None \<Rightarrow> web_ask (we_uuid V)) (\<lambda>payment_id.
     bindM (unwrap (addr_of_str E (nt_from nt))) (\<lambda>from_a.
     bindM (unwrap (addr_of_str E (nt_to nt))) (\<lambda>receiver.
     bindM (unwrap (u256_of_dec E (nt_amount nt))) (\<lambda>amount.
       ret \<lparr>ta_network = cd_network chain, ta_from = from_a, ta_receiver = receiver,
         ta_tx_type = (if nt_token nt \<noteq> None then Token else Gas), ta_amount = amount, ta_payment_id = payment_id,
         ta_deadline = due_date, ta_deposit_id = nt_deposit_id nt\<rparr>)))))))"

definition submit_transfer :: "web_env \<Rightarrow> transfer_args \<Rightarrow> response web" where
  "submit_transfer V transfer_args =
     bindM (gets (\<lambda>a. find (\<lambda>acc. sa_address acc = ta_from transfer_args) (aw_accounts a))) (\<lambda>found.
     bindM (some_or (BadRequest (''Account not found: '' @ str_of_addr (ev_ext (we_env V)) (ta_from transfer_args))) found) (\<lambda>account.
     bindM (world_or (\<lambda>e. InternalServerError (''Failed to create transfer: '' @ ev_bag_text (we_env V) e))
       (transfer_with_account (we_env V) (setup_of (we_setup V)) (we_cfg V) account transfer_args)) (\<lambda>account'.
     bindM (modify (\<lambda>a. a\<lparr>aw_accounts := set_account account' (aw_accounts a)\<rparr>)) (\<lambda>_.
       ret (Plain ''success'')))))"

definition new_transfer :: "web_env \<Rightarrow> transaction_request \<Rightarrow> response web" where
  "new_transfer V nt = bindM (requested_args V nt) (submit_transfer V)"

definition chain_transfer_resp :: "chain_transfer_db_obj_ext \<Rightarrow> timestamp \<Rightarrow> chain_transfer_resp_obj" where
  "chain_transfer_resp t date = \<lparr>cr_id = ct_id t, cr_from_addr = ct_from_addr t, cr_receiver_addr = ct_receiver_addr t,
     cr_chain_id = ct_chain_id t, cr_token_addr = ct_token_addr t, cr_token_amount = ct_token_amount t,
     cr_tx_hash = cte_tx_hash t, cr_block_number = cte_block_number t, cr_fee_paid = ct_fee_paid t, cr_block_date = date,
     cr_block_timestamp = date, cr_to_addr = cte_to_addr t, cr_caller_addr = cte_caller_addr t\<rparr>"

definition resp_of :: "timestamp \<Rightarrow> string option \<Rightarrow> chain_transfer_db_obj_ext \<Rightarrow> chain_transfer_resp_obj option" where
  "resp_of from_date account_str t = (case ct_blockchain_date t of
       None \<Rightarrow> None
     | Some date \<Rightarrow>
         if date < from_date then None
         else if account_str \<noteq> None \<and> account_str \<noteq> Some (ct_receiver_addr t) then None
         else Some (chain_transfer_resp t date))"

definition timestamp_param :: "web_env \<Rightarrow> string \<Rightarrow> string option \<Rightarrow> timestamp web" where
  "timestamp_param V name x =
     bindM (some_or (BadRequest (name @ '' not found'')) x) (\<lambda>s.
     bindM (some_or (BadRequest (name @ '' is not a valid timestamp'')) (i64_from_str s)) (\<lambda>n.
       some_or (BadRequest (name @ '' is not a valid timestamp.'')) (ev_from_timestamp (we_env V) n)))"

definition stats_transfers :: "web_env \<Rightarrow> stats_transfer_request \<Rightarrow> response web" where
  "stats_transfers V info = (let E = ev_ext (we_env V) in
     bindM (if sr_receiver info = Some ''all'' then ret None
       else bindM (some_or (BadRequest ''account not found'') (sr_receiver info)) (\<lambda>s.
            bindM (some_or (BadRequest ''account has to be valid address'') (addr_of_str E s)) (\<lambda>account.
              ret (Some (str_of_addr E account))))) (\<lambda>account_str.
     bindM (timestamp_param V ''From'' (sr_from info)) (\<lambda>from_date.
     bindM (timestamp_param V ''To'' (sr_to info)) (\<lambda>to_date.
     bindM (some_or (BadRequest ''Chain id not found'') (sr_chain info)) (\<lambda>chain_str.
     bindM (some_or (BadRequest ''Chain id a valid'') (i64_from_str chain_str)) (\<lambda>chain_id.
     bindM (query (case account_str of
         Some receiver \<Rightarrow> get_all_chain_transfers_by_receiver_ext chain_id from_date to_date receiver None
       | None \<Rightarrow> get_all_chain_transfers_ext chain_id from_date to_date None)) (\<lambda>r.
     bindM (case r of Inl e \<Rightarrow> stop_with (BadRequest (''Unknown server error: '' @ we_sql_text V e)) | Inr ts \<Rightarrow> ret ts) (\<lambda>transf.
     bindM (web_ask (we_elapsed V)) (\<lambda>request_time.
       answer [(''request_time'', JNum request_time),
         (''transfers'', JArr (map JChainTransfer (List.map_filter (resp_of from_date account_str) transf)))])))))))))"

section \<open>The faucet\<close>

text \<open>
  The limiter compares times of day (\<open>DateTime::time\<close>), in whole seconds. The table of events is sorted by
  its key; keys are unique.
\<close>

definition time_of_day :: "timestamp \<Rightarrow> int" where
  "time_of_day t = t mod 86400"

definition ago :: "timestamp \<Rightarrow> timestamp \<Rightarrow> int" where
  "ago now_time event_time = time_of_day now_time - time_of_day event_time"

definition min_seconds :: int where
  "min_seconds = 120"

definition faucet_cleanup_after :: int where
  "faucet_cleanup_after = 120"

definition faucet_event_idx :: "web_env \<Rightarrow> address \<Rightarrow> i64 \<Rightarrow> string" where
  "faucet_event_idx V receiver_addr chain_id = str_of_addr (ev_ext (we_env V)) receiver_addr @ ''_'' @ int_text chain_id"

definition already_sent :: "int \<Rightarrow> response" where
  "already_sent seconds = error_json (''Already sent to this address '' @ int_text seconds @ '' seconds ago. Try again after '' @
     int_text min_seconds @ '' seconds'')"

definition set_faucet :: "faucet_data \<Rightarrow> unit web" where
  "set_faucet fd = modify (\<lambda>a. a\<lparr>aw_faucet := Some fd\<rparr>)"

definition faucet_data_of :: "web_env \<Rightarrow> faucet_data web" where
  "faucet_data_of V = bindM (gets aw_faucet) (\<lambda>f. case f of
       Some fd \<Rightarrow> ret fd
     | None \<Rightarrow> bindM (web_now V) (\<lambda>t. let fd = \<lparr>fd_faucet_events = [], fd_last_cleanup = t\<rparr> in
         bindM (set_faucet fd) (\<lambda>_. ret fd)))"

definition record_event :: "string \<Rightarrow> timestamp \<Rightarrow> faucet_data \<Rightarrow> faucet_data" where
  "record_event idx t fd = fd\<lparr>fd_faucet_events := AList.update idx t (fd_faucet_events fd)\<rparr>"

definition cleanup_events :: "timestamp \<Rightarrow> faucet_data \<Rightarrow> faucet_data" where
  "cleanup_events curr_time fd = (if ago curr_time (fd_last_cleanup fd) > faucet_cleanup_after
     then \<lparr>fd_faucet_events = filter (\<lambda>(_, v). ago curr_time v < min_seconds) (fd_faucet_events fd), fd_last_cleanup = curr_time\<rparr>
     else fd)"

definition faucet_limit :: "web_env \<Rightarrow> string \<Rightarrow> unit web" where
  "faucet_limit V idx =
     bindM (faucet_data_of V) (\<lambda>fd.
     bindM (case map_of (fd_faucet_events fd) idx of
         Some el \<Rightarrow> bindM (web_now V) (\<lambda>t. if ago t el < min_seconds then stop_with (already_sent (ago t el)) else ret ())
       | None \<Rightarrow> ret ()) (\<lambda>_.
     bindM (web_now V) (\<lambda>sent.
     bindM (web_now V) (\<lambda>curr_time.
       set_faucet (cleanup_events curr_time (record_event idx sent fd))))))"

definition first_account :: "address web" where
  "first_account = bindM (gets aw_accounts) (\<lambda>accounts. case accounts of
       [] \<Rightarrow> panic ''called Option::unwrap() on a None value'' | acc # _ \<Rightarrow> ret (sa_address acc))"

definition faucet_transfer :: "web_env \<Rightarrow> address \<Rightarrow> address \<Rightarrow> i64 \<Rightarrow> address option \<Rightarrow> u256 \<Rightarrow> token_transfer_db_obj web" where
  "faucet_transfer V from_a receiver chain_id token amount =
     bindM (web_ask (we_uuid V)) (\<lambda>payment_id.
     bindM (web_now V) (\<lambda>created.
     bindM (web_now V) (\<lambda>inserted.
       query_or_error V (insert_token_transfer inserted (create_token_transfer (ev_ext (we_env V)) created from_a receiver
         chain_id (Some payment_id) token amount None)))))"

definition faucet :: "web_env \<Rightarrow> http_request \<Rightarrow> response web" where
  "faucet V req = (let target_addr = (case rq_match_info req ''addr'' of Some s \<Rightarrow> s | None \<Rightarrow> '''');
       chain_str = (case rq_match_info req ''chain'' of Some s \<Rightarrow> s | None \<Rightarrow> '''') in
     if target_addr = [] then answer [(''status'', JStr ''faucet enabled'')] else
     bindM (some_or_error ''Invalid address'' (addr_of_str (ev_ext (we_env V)) target_addr)) (\<lambda>receiver_addr.
     bindM (some_or_error ''invalid digit found in string'' (i64_from_str chain_str)) (\<lambda>chain_id.
     bindM (some_or_error ''No config for given chain id'' (ps_chain_setup (we_setup V) chain_id)) (\<lambda>chain.
     bindM (some_or_error ''No config for given chain id'' (ds_details (we_setup V) chain_id)) (\<lambda>details.
     bindM (faucet_limit V (faucet_event_idx V receiver_addr chain_id)) (\<lambda>_.
     bindM first_account (\<lambda>from_a.
     bindM (some_or_error ''Faucet amount not set on chain'' (cd_faucet_eth_amount details)) (\<lambda>faucet_eth_amount.
     bindM (some_or_error ''Faucet GLM amount not set on chain'' (cd_faucet_glm_amount details)) (\<lambda>faucet_glm_amount.
     bindM (faucet_transfer V from_a receiver_addr chain_id None faucet_eth_amount) (\<lambda>transfer_eth.
     bindM (faucet_transfer V from_a receiver_addr chain_id (Some (cs_glm_address chain)) faucet_glm_amount) (\<lambda>transfer_glm.
       answer [(''transfer_gas_id'', JInt (tt_id transfer_eth)), (''transfer_gas_payment_id'', JOpt (tt_payment_id transfer_eth)),
         (''transfer_glm_id'', JInt (tt_id transfer_glm)),
         (''transfer_glm_payment_id'', JOpt (tt_payment_id transfer_glm))])))))))))))"

section \<open>Routing\<close>

datatype endpoint =
    Allowances | Balance | RpcPoolInfo | RpcPoolMetrics | ConfigInfo | StatsTransfers | Transactions | TransactionsCount
  | TransactionsNext | TransactionsFeed | TransactionsCurrent | TransactionsLast | SkipTx | TxDetails | Transfers
  | Accounts | AccountDetails | AccountIn | Metrics | Greet | EventStream | NewTransfer | Faucet | Debug | RedirectToSlash

text \<open>The routes under \<open>/api\<close> in the order of their registration, then the two of the outer scope.\<close>

definition api_routes :: "bool \<Rightarrow> bool \<Rightarrow> bool \<Rightarrow> endpoint route list" where
  "api_routes enable_faucet enable_transfers debug =
     [((GET, [Lit ''allowances'']), Allowances),
      ((GET, [Lit ''balance'', Par ''account'', Par ''chain'']), Balance),
      ((GET, [Lit ''rpc_pool'']), RpcPoolInfo),
      ((GET, [Lit ''rpc_pool'', Lit ''metrics'']), RpcPoolMetrics),
      ((GET, [Lit ''config'']), ConfigInfo),
      ((GET, [Lit ''stats'', Lit ''transfers'']), StatsTransfers),
      ((GET, [Lit ''transactions'']), Transactions),
      ((GET, [Lit ''transactions'', Lit ''count'']), TransactionsCount),
      ((GET, [Lit ''transactions'', Lit ''next'']), TransactionsNext),
      ((GET, [Lit ''transactions'', Lit ''feed'', Par ''prev'', Par ''next'']), TransactionsFeed),
      ((GET, [Lit ''transactions'', Lit ''next'', Par ''count'']), TransactionsNext),
      ((GET, [Lit ''transactions'', Lit ''current'']), TransactionsCurrent),
      ((GET, [Lit ''transactions'', Lit ''last'']), TransactionsLast),
      ((GET, [Lit ''transactions'', Lit ''last'', Par ''count'']), TransactionsLast),
      ((POST, [Lit ''tx'', Lit ''skip'', Par ''tx_id'']), SkipTx),
      ((GET, [Lit ''tx'', Par ''tx_id'']), TxDetails),
      ((GET, [Lit ''transfers'']), Transfers),
      ((GET, [Lit ''transfers'', Par ''tx_id'']), Transfers),
      ((GET, [Lit ''accounts'']), Accounts),
      ((GET, [Lit ''account'', Par ''account'']), AccountDetails),
      ((GET, [Lit ''account'', Par ''account'', Lit ''in'']), AccountIn),
      ((GET, [Lit ''metrics'']), Metrics),
      ((GET, [Lit '''']), Greet),
      ((GET, [Lit ''event_stream'']), EventStream),
      ((GET, [Lit ''version'']), Greet)]
     @ (if enable_transfers then [((POST, [Lit ''transfers'', Lit ''new'']), NewTransfer)] else [])
     @ (if enable_faucet then [((GET, [Lit ''faucet'']), Faucet),
          ((GET, [Lit ''faucet'', Par ''chain'', Par ''addr'']), Faucet)] else [])
     @ (if debug then [((GET, [Lit ''debug'']), Debug)] else [])"

definition in_scope :: "string \<Rightarrow> endpoint route \<Rightarrow> endpoint route" where
  "in_scope name r = (case r of ((m, segs), e) \<Rightarrow> ((m, Lit name # segs), e))"

definition runtime_web_scope :: "bool \<Rightarrow> bool \<Rightarrow> bool \<Rightarrow> bool \<Rightarrow> endpoint route list" where
  "runtime_web_scope enable_faucet enable_transfers debug frontend =
     [((GET, [Lit ''api'']), Greet)] @ map (in_scope ''api'') (api_routes enable_faucet enable_transfers debug)
     @ (if frontend then [((GET, [Lit ''frontend'']), RedirectToSlash)] else [])"

record http_call =
  hc_method :: http_method
  hc_path :: "string list"
  hc_uri :: string
  hc_transaction :: transaction_request
  hc_stats :: stats_transfer_request

fun handler :: "web_env \<Rightarrow> endpoint \<Rightarrow> http_request \<Rightarrow> http_call \<Rightarrow> response web" where
  "handler V Allowances req c = allowances_handler V"
| "handler V Balance req c = account_balance V req"
| "handler V RpcPoolInfo req c = rpc_pool_handler V"
| "handler V RpcPoolMetrics req c = rpc_pool_metrics V"
| "handler V ConfigInfo req c = config_endpoint V"
| "handler V StatsTransfers req c = stats_transfers V (hc_stats c)"
| "handler V Transactions req c = transactions_handler V"
| "handler V TransactionsCount req c = transactions_count V"
| "handler V TransactionsNext req c = transactions_next V req"
| "handler V TransactionsFeed req c = transactions_feed V req"
| "handler V TransactionsCurrent req c = transactions_current V"
| "handler V TransactionsLast req c = transactions_last_processed V req"
| "handler V SkipTx req c = skip_pending_operation req"
| "handler V TxDetails req c = tx_details V req"
| "handler V Transfers req c = transfers_handler V req"
| "handler V Accounts req c = accounts_handler V"
| "handler V AccountDetails req c = account_details V req"
| "handler V AccountIn req c = account_payments_in V req"
| "handler V Metrics req c = metrics_handler V"
| "handler V Greet req c = greet V"
| "handler V EventStream req c = ret Upgrade"
| "handler V NewTransfer req c = new_transfer V (hc_transaction c)"
| "handler V Faucet req c = faucet V req"
| "handler V Debug req c = debug_endpoint"
| "handler V RedirectToSlash req c = redirect_to_slash V req"

text \<open>A request is answered with the response of its handler, early or not; a panic is none.\<close>

definition respond :: "response web \<Rightarrow> api_world \<Rightarrow> (failure + response) \<times> api_world" where
  "respond m a = (case m a of
       (Inl (Reply r), a') \<Rightarrow> (Inr r, a') | (Inl (Stopped f), a') \<Rightarrow> (Inl f, a') | (Inr r, a') \<Rightarrow> (Inr r, a'))"

definition serve :: "endpoint router \<Rightarrow> web_env \<Rightarrow> endpoint route list \<Rightarrow> http_call \<Rightarrow> api_world \<Rightarrow> (failure + response) \<times> api_world" where
  "serve pick V routes c = (case pick routes (hc_method c) (hc_path c) of
       None \<Rightarrow> Pair (Inr NotFound)
     | Some (e, params) \<Rightarrow> respond (handler V e \<lparr>rq_match_info = map_of params, rq_uri = hc_uri c\<rparr> c))"

end
