(* ===== verification/WebProofs.thy ===== *)
theory WebProofs imports Web RuntimeProofs StatsProofs RpcProofs begin

text \<open>
  What a client of the REST interface can rely on: nothing but the transfer and faucet endpoints writes to the
  database, the feed lists every transaction once, a transfer is queued as requested or not at all, and when
  the faucet refuses.
\<close>

section \<open>Handlers that only read\<close>

text \<open>What no request for information changes: the database, the accounts, the faucet, the pools and all that is kept
  on the transactions the engine works on.\<close>

record api_state =
  as_db :: db
  as_accounts :: "signer_account list"
  as_faucet :: "faucet_data option"
  as_pools :: "(i64 \<times> rpc_pool) list"
  as_current :: "i64 \<rightharpoonup> shared_info_tx"

definition api_view :: "api_world \<Rightarrow> api_state" where
  "api_view a = \<lparr>as_db = w_db (aw_world a), as_accounts = aw_accounts a, as_faucet = aw_faucet a, as_pools = aw_pools a,
     as_current = sh_current_tx_info (w_shared (aw_world a))\<rparr>"

definition viewing :: "'a web \<Rightarrow> bool" where
  "viewing m \<longleftrightarrow> (\<forall>a. api_view (snd (m a)) = api_view a)"

named_theorems viewing_intro \<open>steps that keep the view\<close>

lemma viewingI: "(\<And>a. api_view (snd (m a)) = api_view a) \<Longrightarrow> viewing m"
  by (simp add: viewing_def)

lemma viewing_bindM [viewing_intro]: "viewing m \<Longrightarrow> (\<And>x. viewing (f x)) \<Longrightarrow> viewing (bindM m f)"
  unfolding viewing_def bindM_def by (simp split: prod.split sum.split) (metis snd_conv)

lemma viewing_basic [viewing_intro]: "viewing (ret x)" "viewing (throw e)" "viewing (gets f)"
  by (simp_all add: viewing_def)

lemma viewing_case_option [viewing_intro]:
  "(x = None \<Longrightarrow> viewing m) \<Longrightarrow> (\<And>y. x = Some y \<Longrightarrow> viewing (f y)) \<Longrightarrow> viewing (case x of None \<Rightarrow> m | Some y \<Rightarrow> f y)"
  by (cases x) simp_all

lemma viewing_case_sum [viewing_intro]:
  "(\<And>e. x = Inl e \<Longrightarrow> viewing (f e)) \<Longrightarrow> (\<And>y. x = Inr y \<Longrightarrow> viewing (g y)) \<Longrightarrow>
    viewing (case x of Inl e \<Rightarrow> f e | Inr y \<Rightarrow> g y)"
  by (cases x) simp_all

lemma viewing_if [viewing_intro]: "(c \<Longrightarrow> viewing m) \<Longrightarrow> (\<not> c \<Longrightarrow> viewing n) \<Longrightarrow> viewing (if c then m else n)"
  by simp

lemma viewing_ask [viewing_intro]: "viewing (web_ask f)"
  by (rule viewingI) (simp add: web_ask_def api_view_def)

lemma viewing_query [viewing_intro]: "reads m \<Longrightarrow> viewing (query m)"
  by (rule viewingI) (simp add: query_def api_view_def reads_def split: prod.split, metis snd_conv)

lemma viewing_query_or_error [viewing_intro]: "reads m \<Longrightarrow> viewing (query_or_error V m)"
  unfolding query_or_error_def by (intro viewing_intro)

lemma viewing_options [viewing_intro]: "viewing (some_or_error s x)" "viewing (some_or r x)" "viewing (unwrap x)" "viewing (answer es)"
  unfolding some_or_error_def some_or_def unwrap_def answer_def by (intro viewing_intro)+

lemma viewing_update_shared [viewing_intro]:
  "(\<And>s. sh_current_tx_info (f s) = sh_current_tx_info s) \<Longrightarrow> viewing (update_shared f)"
  by (rule viewingI) (simp add: update_shared_def api_view_def)

lemma viewing_on_world [viewing_intro]: "asks m \<Longrightarrow> viewing (on_world m)"
proof (rule viewingI)
  fix a :: api_world assume m: "asks m"
  obtain r w where run: "m (aw_world a) = (r, w)" by fastforce
  then obtain n where "w = (aw_world a)\<lparr>w_tick := n\<rparr>" using m asksD by blast
  then show "api_view (snd (on_world m a)) = api_view a"
    using run by (auto simp: on_world_def api_view_def split: sum.split failure.split)
qed

lemma viewing_world_or [viewing_intro]: "asks m \<Longrightarrow> viewing (world_or f m)"
  unfolding world_or_def by (intro viewing_intro)

lemmas reads_tables = get_transactions_def get_transaction_count_def get_transfer_count_def get_all_allowances_def
  get_token_transfers_by_tx_def get_all_token_transfers_def get_account_transfers_in_def get_allowances_by_owner_def
  get_all_chain_transfers_ext_def get_all_chain_transfers_by_receiver_ext_def

lemma reads_queries [viewing_intro]:
  "reads (get_transactions E acc flt lmt ord c)" "reads (get_transaction_count flt)" "reads (get_transfer_count tf s r)"
  "reads get_all_allowances" "reads (get_token_transfers_by_tx i)" "reads (get_all_token_transfers lmt)"
  "reads (get_account_transfers_in u lmt)" "reads (get_allowances_by_owner u)"
  "reads (get_all_chain_transfers_ext ch t1 t2 lmt)" "reads (get_all_chain_transfers_by_receiver_ext ch t1 t2 u lmt)"
  unfolding reads_tables by (rule reads_gets)+

lemma reads_get_transaction [viewing_intro]: "reads (get_transaction i)"
  unfolding get_transaction_def by (intro reads_bindM reads_gets reads_fetch_one)

lemma viewing_txs [viewing_intro]: "viewing (txs_by V flt lmt ord)" "viewing (answer_txs txs)"
  unfolding txs_by_def answer_txs_def by (intro viewing_intro)+

lemma viewing_feed [viewing_intro]: "viewing (feed_txs V p n)"
  unfolding feed_txs_def by (intro viewing_intro)

lemma viewing_path_account [viewing_intro]: "viewing (path_account V req)"
  unfolding path_account_def by (intro viewing_intro)

lemma viewing_timestamp_param [viewing_intro]: "viewing (timestamp_param V s x)"
  unfolding timestamp_param_def by (intro viewing_intro)

lemma viewing_transaction_handlers [viewing_intro]: "viewing (tx_details V req)" "viewing (transactions_handler V)"
  "viewing (transactions_next V req)" "viewing (transactions_current V)" "viewing (transactions_last_processed V req)"
  "viewing (transactions_feed V req)" "viewing (transactions_count V)"
  unfolding tx_details_def transactions_handler_def transactions_next_def transactions_current_def
    transactions_last_processed_def transactions_feed_def transactions_count_def error_json_def
  by (intro viewing_intro)+

text \<open>A request to skip marks the transaction it names, when the engine works on it, and nothing else.\<close>

definition marked_skipped :: "i64 \<Rightarrow> api_state \<Rightarrow> api_state" where
  "marked_skipped i v = v\<lparr>as_current := \<lambda>j. if j = i then map_option (si_skip_update (\<lambda>_. True)) (as_current v j) else as_current v j\<rparr>"

lemma skip_marks:
  "api_view (snd (skip_pending_operation req a)) =
    (case path_i64 req ''tx_id'' of Some i \<Rightarrow> marked_skipped i (api_view a) | None \<Rightarrow> api_view a)"
  by (auto simp: skip_pending_operation_def bindM_def update_shared_def skip_tx_def api_view_def marked_skipped_def error_json_def
      answer_def fun_eq_iff split: option.splits)

lemma viewing_pool_handlers [viewing_intro]: "viewing (rpc_pool_handler V)" "viewing (rpc_pool_metrics V)"
  "viewing (config_endpoint V)" "viewing debug_endpoint" "viewing (greet V)" "viewing (metrics_handler V)"
  "viewing (redirect_to_slash V req)"
  unfolding rpc_pool_handler_def rpc_pool_metrics_def config_endpoint_def debug_endpoint_def greet_def
    metrics_handler_def redirect_to_slash_def by (intro viewing_intro)+

lemma viewing_allowances [viewing_intro]: "viewing (allowances_handler V)"
  unfolding allowances_handler_def by (intro viewing_intro) simp

lemma viewing_account_handlers [viewing_intro]: "viewing (transfers_handler V req)" "viewing (accounts_handler V)"
  "viewing (account_payments_in V req)" "viewing (account_details V req)"
  unfolding transfers_handler_def accounts_handler_def account_payments_in_def account_details_def Let_def
  by (intro viewing_intro)+

lemma viewing_balance [viewing_intro]: "viewing (account_balance V req)"
  unfolding account_balance_def Let_def by (intro viewing_intro asks_intro)

lemma reads_case_option [viewing_intro]: "reads m \<Longrightarrow> (\<And>y. reads (f y)) \<Longrightarrow> reads (case x of None \<Rightarrow> m | Some y \<Rightarrow> f y)"
  by (cases x) simp_all

lemma viewing_stats [viewing_intro]: "viewing (stats_transfers V info)"
  unfolding stats_transfers_def Let_def by (intro viewing_intro)

lemma viewing_handler: "e \<noteq> NewTransfer \<Longrightarrow> e \<noteq> Faucet \<Longrightarrow> e \<noteq> SkipTx \<Longrightarrow> viewing (handler V e req c)"
  by (cases e) (simp_all only: handler.simps viewing_intro simp_thms)

lemma respond_state: "snd (respond m a) = snd (m a)"
  by (auto simp: respond_def split: prod.split sum.split web_stop.split)


section \<open>The feed\<close>

lemma txs_by_eq: "txs_by V (Some flt) lmt (Some ord) a =
    (Inr (limit_opt lmt (order_by ord (filter flt (tb_rows (d_tx (w_db (aw_world a))))))), a)"
  by (simp add: txs_by_def query_or_error_def bindM_def query_def get_transactions_def tbl_select_def)

lemma limit_opt_prefix: "\<exists>n. limit_opt lmt xs = take n xs"
  by (auto simp: limit_opt_def sql_limit_def split: option.split intro: exI [of _ "length xs"])

text \<open>How many of some rows a limit lets through; a negative limit is none.\<close>

definition shown :: "i64 option \<Rightarrow> nat \<Rightarrow> nat" where
  "shown lmt n = (case lmt of Some k \<Rightarrow> if 0 \<le> k then min (nat k) n else n | None \<Rightarrow> n)"

text \<open>Of two processed transactions the feed lists the one first that was processed first.\<close>

definition processed_before :: "tx_db_obj \<Rightarrow> tx_db_obj \<Rightarrow> bool" where
  "processed_before x y \<longleftrightarrow> (case t_first_processed y of None \<Rightarrow> t_first_processed x = None
     | Some q \<Rightarrow> (case t_first_processed x of None \<Rightarrow> True | Some p \<Rightarrow> p \<le> q))"

lemma limit_opt_rows:
  assumes "limit_opt lmt (order_by ord (filter flt rows)) = txs" and "distinct (map t_id rows)"
  shows "set txs \<subseteq> set (filter flt rows)" and "distinct (map t_id txs)" and "sorted (map (order_key ord) txs)"
    and "length rows < 2 ^ 63 \<Longrightarrow> length txs = shown lmt (length (filter flt rows))"
    and "x \<in> set txs \<Longrightarrow> y \<in> set (filter flt rows) - set txs \<Longrightarrow> order_key ord x \<le> order_key ord y"
proof -
  obtain n where txs: "txs = take n (order_by ord (filter flt rows))" using limit_opt_prefix assms(1) by metis
  show "set txs \<subseteq> set (filter flt rows)"
    using set_take_subset [of n "order_by ord (filter flt rows)"] by (simp add: txs order_by_def)
  have "distinct (map t_id (order_by ord (filter flt rows)))"
    using distinct_map_filter_neq [OF assms(2), of flt] by (simp add: distinct_map order_by_def)
  then show "distinct (map t_id txs)" by (simp add: txs take_map [symmetric])
  show "sorted (map (order_key ord) txs)" by (simp add: txs order_by_def take_map [symmetric] sorted_wrt_take)
  show "length txs = shown lmt (length (filter flt rows))" if "length rows < 2 ^ 63"
  proof -
    have "length (order_by ord (filter flt rows)) < 2 ^ 63"
      using length_filter_le [of flt rows] that unfolding order_by_def length_sort by linarith
    then have "lmt = None \<Longrightarrow> length txs = length (filter flt rows)" using assms(1) by (auto simp: limit_none order_by_def)
    moreover have "lmt = Some k \<Longrightarrow> length txs = shown (Some k) (length (filter flt rows))" for k
      using assms(1) by (auto simp: limit_opt_def sql_limit_def order_by_def shown_def)
    ultimately show ?thesis by (cases lmt) (simp_all add: shown_def)
  qed
  show "order_key ord x \<le> order_key ord y" if "x \<in> set txs" "y \<in> set (filter flt rows) - set txs"
  proof -
    let ?L = "order_by ord (filter flt rows)"
    have "y \<in> set (take n ?L @ drop n ?L)" using that(2) by (simp add: order_by_def)
    then have "y \<in> set (drop n ?L)" using that(2) by (auto simp: txs simp del: append_take_drop_id)
    moreover have "sorted (map (order_key ord) (take n ?L @ drop n ?L))" by (simp add: order_by_def)
    ultimately show ?thesis using that(1) by (auto simp: txs sorted_append simp del: append_take_drop_id)
  qed
qed

lemma created_le: "order_key CreateDate x \<le> order_key CreateDate y \<longleftrightarrow> t_created_date x \<le> t_created_date y"
  by (auto simp: order_key_def less_eq_prod_def)

lemma processed_le: "order_key FirstProcessedDateDesc x \<le> order_key FirstProcessedDateDesc y \<longleftrightarrow> processed_before y x"
  by (auto simp: order_key_def processed_before_def desc_key_def less_eq_prod_def split: option.splits)

lemma created_sorted: "sorted (map (order_key CreateDate) txs) \<Longrightarrow> sorted (map t_created_date txs)"
  unfolding sorted_map order_key_def by (erule sorted_wrt_mono_rel [rotated]) (auto simp: less_eq_prod_def)

lemma distinct_mapI: "distinct (map f xs) \<Longrightarrow> distinct xs"
  by (simp add: distinct_map)

lemma distinct_filter_rows: "distinct (map t_id rows) \<Longrightarrow> distinct (filter P rows)"
  by (simp add: distinct_map)

lemma processed_sorted:
  "sorted (map (order_key FirstProcessedDateDesc) txs) \<Longrightarrow> sorted_wrt processed_before (rev txs)"
  unfolding sorted_map sorted_wrt_rev order_key_def
  by (erule sorted_wrt_mono_rel [rotated])
    (auto simp: processed_before_def desc_key_def less_eq_prod_def split: option.splits)

lemma filters_disjoint: "\<not> (filter_done t \<and> filter_processing t)" "\<not> (filter_done t \<and> filter_queued t)"
  "\<not> (filter_processing t \<and> filter_queued t)"
  by (auto simp: filter_done_def filter_processing_def filter_queued_def)

lemma distinct_ids_append:
  assumes "distinct (map t_id rows)" and "set xs \<subseteq> set (filter P rows)" and "set ys \<subseteq> set (filter Q rows)"
    and "\<And>t. \<not> (P t \<and> Q t)" and "distinct (map t_id xs)" and "distinct (map t_id ys)"
  shows "distinct (map t_id (xs @ ys))"
proof -
  have "t_id x \<noteq> t_id y" if "x \<in> set xs" "y \<in> set ys" for x y
    using that assms(1-4) by (auto simp: distinct_map inj_on_def dest!: subsetD)
  then show ?thesis using assms(5,6) by auto
qed

text \<open>C40. The feed lists the processed transactions, the oldest first, then those the engine works on, then the
  queued ones in the order of their creation; no transaction is listed twice and none the engine works on is
  missing. Of the processed ones it lists as many as the limit allows, and those are the ones processed
  last; of the queued ones as many as the limit allows, and those are the ones created first.\<close>

theorem feed_lists_each_once:
  assumes "world_ok (aw_world a)" and "rows = tb_rows (d_tx (w_db (aw_world a)))" and "length rows < 2 ^ 63"
    and "info = sh_current_tx_info (w_shared (aw_world a))"
  shows "\<exists>prev cur queued. respond (transactions_feed V req) a = (Inr (Json (JObj
        [(''txs'', JArr (map (\<lambda>tx. JTx (annotate info tx)) (prev @ cur @ queued))), (''current'', JCurrent info)])), a) \<and>
    distinct (map t_id (prev @ cur @ queued)) \<and> set cur = set (filter filter_processing rows) \<and>
    set prev \<subseteq> set (filter filter_done rows) \<and> set queued \<subseteq> set (filter filter_queued rows) \<and>
    length prev = shown (path_limit req ''prev'') (length (filter filter_done rows)) \<and>
    length queued = shown (path_limit req ''next'') (length (filter filter_queued rows)) \<and>
    sorted_wrt processed_before prev \<and> sorted (map t_created_date cur) \<and> sorted (map t_created_date queued) \<and>
    (\<forall>x\<in>set prev. \<forall>y\<in>set (filter filter_done rows) - set prev. processed_before y x) \<and>
    (\<forall>x\<in>set queued. \<forall>y\<in>set (filter filter_queued rows) - set queued. t_created_date x \<le> t_created_date y)"
proof -
  have rows: "distinct (map t_id rows)" using assms(1,2) by (simp add: world_ok_def db_ok_def keys_ok_def tbl_wf_def)
  define done' where "done' = limit_opt (path_limit req ''prev'') (order_by FirstProcessedDateDesc (filter filter_done rows))"
  define cur where "cur = limit_opt None (order_by CreateDate (filter filter_processing rows))"
  define queued where "queued = limit_opt (path_limit req ''next'') (order_by CreateDate (filter filter_queued rows))"
  note d = limit_opt_rows [OF done'_def [symmetric] rows] and c = limit_opt_rows [OF cur_def [symmetric] rows]
    and q = limit_opt_rows [OF queued_def [symmetric] rows]
  have run: "respond (transactions_feed V req) a = (Inr (Json (JObj
      [(''txs'', JArr (map (\<lambda>tx. JTx (annotate info tx)) (rev done' @ cur @ queued))), (''current'', JCurrent info)])), a)"
    by (simp add: respond_def transactions_feed_def feed_txs_def bindM_def txs_by_eq answer_def done'_def cur_def queued_def
        assms(2,4))
  have cq: "distinct (map t_id (cur @ queued))" "set (cur @ queued) \<subseteq> set (filter filter_to_process rows)"
    using distinct_ids_append [OF rows c(1) q(1) filters_disjoint(3) c(2) q(2)] c(1) q(1)
    by (auto simp: filter_to_process_def filter_processing_def filter_queued_def)
  have "distinct (map t_id (rev done' @ cur @ queued))"
    using d(1,2) by (intro distinct_ids_append [OF rows _ cq(2) _ _ cq(1), of _ filter_done])
      (auto simp: filter_done_def filter_to_process_def rev_map [symmetric])
  moreover have "set cur = set (filter filter_processing rows)"
    using c(2) c(4) [OF assms(3)]
    by (intro card_subset_eq c(1))
      (simp_all only: shown_def option.case distinct_card [OF distinct_mapI [OF c(2)]] distinct_card [OF distinct_filter_rows [OF rows]]
        finite_set)
  ultimately show ?thesis
    using run d(1) d(4) [OF assms(3)] d(5) q(1) q(4) [OF assms(3)] q(5) processed_sorted [OF d(3)] created_sorted [OF c(3)]
      created_sorted [OF q(3)]
    by (intro exI [of _ "rev done'"] exI [of _ cur] exI [of _ queued])
      (simp add: processed_le [symmetric] created_le [symmetric])
qed

section \<open>Requested transfers\<close>

text \<open>The row of a transfer that was asked for.\<close>

definition requested_row :: "externals \<Rightarrow> chain_config \<Rightarrow> transfer_args \<Rightarrow> token_transfer_db_obj \<Rightarrow> bool" where
  "requested_row E chain args row \<longleftrightarrow> tt_from_addr row = str_of_addr E (ta_from args) \<and>
     tt_receiver_addr row = str_of_addr E (ta_receiver args) \<and> tt_token_amount row = dec_of_u256 E (ta_amount args) \<and>
     tt_chain_id row = cc_chain_id chain \<and> tt_payment_id row = Some (ta_payment_id args) \<and>
     tt_deposit_id row = ta_deposit_id args \<and> tt_deposit_finish row = 0 \<and> tt_tx_id row = None \<and>
     tt_paid_date row = None \<and> tt_fee_paid row = None \<and> tt_error row = None \<and>
     tt_token_addr row = (if ta_tx_type args = Token then Some (str_of_addr E (cc_token_address chain)) else None)"

lemma transfer_with_account_cases:
  assumes "transfer_with_account V S cfg account args w = (r, w')"
  shows "(\<exists>e. r = Inl (Err e) \<and> w_db w' = w_db w) \<or>
    (\<exists>account' chain row. r = Inr account' \<and> sa_address account' = sa_address account \<and>
       cfg (ta_network args) = Some chain \<and> added_transfer row (w_db w) (w_db w') \<and>
       requested_row (ev_ext V) chain args row)"
proof (cases "cfg (ta_network args)")
  case None
  then show ?thesis using assms by (auto simp: transfer_with_account_def bindM_def chain_named_def)
next
  case (Some chain)
  let ?tt = "create_token_transfer (ev_ext V) (ev_now V (w_tick w)) (ta_from args) (ta_receiver args) (cc_chain_id chain)
    (Some (ta_payment_id args)) (case ta_tx_type args of Token \<Rightarrow> Some (cc_token_address chain) | Gas \<Rightarrow> None)
    (ta_amount args) (ta_deposit_id args)"
  obtain q d where ins: "insert_token_transfer_with_deposit_check (ev_now V (w_tick w + 1)) ?tt (w_db w) = (q, d)" by fastforce
  have tt: "tt_tx_id ?tt = None" by (simp add: create_token_transfer_def)
  have "r = (case q of Inl f \<Rightarrow> Inl f | Inr _ \<Rightarrow> Inr (account\<lparr>sa_external_gather_time :=
      new_gather_time S (ta_deadline args) (sa_external_gather_time account)\<rparr>)) \<and> w_db w' = d"
    using assms Some ins by (auto simp: transfer_with_account_def bindM_def chain_named_def Let_def now_def ask_def on_db_def
        zoom_def split: sum.splits transfer_type.splits)
  note run = this
  have req: "requested_row (ev_ext V) chain args row" if "row = ?tt\<lparr>tt_id := tt_id row, tt_create_date := x\<rparr>" for row x
    by (subst that) (simp add: requested_row_def create_token_transfer_def split: transfer_type.split)
  from insert_checked_cases [OF ins tt] show ?thesis
  proof
    assume "\<exists>e. q = Inl (Err e) \<and> d = w_db w"
    then show ?thesis using run by auto
  next
    assume "\<exists>row. q = Inr row \<and> added_transfer row (w_db w) d \<and> row = ?tt\<lparr>tt_id := tt_id row, tt_create_date := ev_now V (w_tick w + 1)\<rparr>"
    then obtain row where row: "q = Inr row" "added_transfer row (w_db w) d"
      "row = ?tt\<lparr>tt_id := tt_id row, tt_create_date := ev_now V (w_tick w + 1)\<rparr>" by blast
    then show ?thesis using run Some req [OF row(3)] by auto
  qed
qed

lemma set_account_addresses: "map sa_address (set_account account as) = map sa_address as"
  by (induction as) auto

lemma viewing_requested_args: "viewing (requested_args V nt)"
  unfolding requested_args_def Let_def by (intro viewing_intro)

lemma requested_args_done:
  assumes "requested_args V nt a = (Inr args, a')"
  shows "(\<exists>details. ds_details (we_setup V) (nt_chain nt) = Some details \<and> ta_network args = cd_network details) \<and>
    addr_of_str (ev_ext (we_env V)) (nt_from nt) = Some (ta_from args) \<and>
    addr_of_str (ev_ext (we_env V)) (nt_to nt) = Some (ta_receiver args) \<and>
    u256_of_dec (ev_ext (we_env V)) (nt_amount nt) = Some (ta_amount args) \<and>
    (nt_payment_id nt \<noteq> None \<longrightarrow> nt_payment_id nt = Some (ta_payment_id args)) \<and> ta_deposit_id args = nt_deposit_id nt \<and>
    ta_tx_type args = (if nt_token nt \<noteq> None then Token else Gas)"
  using assms by (auto simp: requested_args_def bindM_eq_Inr_iff some_or_def unwrap_def Let_def split: option.splits)

lemma submit_transfer_cases:
  assumes "submit_transfer V args a = (r, a')"
  shows "(r \<noteq> Inr (Plain ''success'') \<and> r \<noteq> Inl (Reply (Plain ''success'')) \<and> w_db (aw_world a') = w_db (aw_world a)) \<or>
    (r = Inr (Plain ''success'') \<and> (\<exists>chain row. added_transfer row (w_db (aw_world a)) (w_db (aw_world a')) \<and>
       requested_row (ev_ext (we_env V)) chain args row \<and> we_cfg V (ta_network args) = Some chain \<and>
       ta_from args \<in> sa_address ` set (aw_accounts a) \<and> map sa_address (aw_accounts a') = map sa_address (aw_accounts a)))"
proof (cases "find (\<lambda>acc. sa_address acc = ta_from args) (aw_accounts a)")
  case None
  then show ?thesis using assms by (auto simp: submit_transfer_def some_or_def bindM_def)
next
  case (Some account)
  then have sender: "ta_from args \<in> sa_address ` set (aw_accounts a)" by (auto simp: find_Some_iff image_iff intro!: bexI [OF sym nth_mem])
  obtain q w where run: "transfer_with_account (we_env V) (setup_of (we_setup V)) (we_cfg V) account args (aw_world a) = (q, w)"
    by fastforce
  then show ?thesis using assms Some sender transfer_with_account_cases [OF run]
    by (auto simp: submit_transfer_def some_or_def bindM_def world_or_def on_world_def set_account_addresses)
qed

text \<open>C39. A request for a transfer that is answered with success has queued exactly one transfer, from the requested
  sender, which is an account of the driver, to the requested receiver, of the requested amount on the chain
  of the requested network, in the token of that chain when the request names any token and in gas otherwise;
  every other answer, and every panic, leaves the database unchanged.\<close>

theorem new_transfer_queues:
  assumes "respond (new_transfer V nt) a = (r, a')"
  shows "if r = Inr (Plain ''success'')
    then \<exists>details chain row args. added_transfer row (w_db (aw_world a)) (w_db (aw_world a')) \<and>
      requested_row (ev_ext (we_env V)) chain args row \<and> ds_details (we_setup V) (nt_chain nt) = Some details \<and>
      we_cfg V (cd_network details) = Some chain \<and> addr_of_str (ev_ext (we_env V)) (nt_from nt) = Some (ta_from args) \<and>
      addr_of_str (ev_ext (we_env V)) (nt_to nt) = Some (ta_receiver args) \<and>
      u256_of_dec (ev_ext (we_env V)) (nt_amount nt) = Some (ta_amount args) \<and> ta_from args \<in> sa_address ` set (aw_accounts a) \<and>
      (nt_payment_id nt \<noteq> None \<longrightarrow> nt_payment_id nt = Some (ta_payment_id args)) \<and> ta_deposit_id args = nt_deposit_id nt \<and>
      ta_tx_type args = (if nt_token nt \<noteq> None then Token else Gas) \<and>
      map sa_address (aw_accounts a') = map sa_address (aw_accounts a)
    else w_db (aw_world a') = w_db (aw_world a)"
proof -
  obtain q b where args: "requested_args V nt a = (q, b)" by fastforce
  have same: "api_view b = api_view a" using viewing_requested_args [of V nt] args by (metis viewing_def snd_conv)
  show ?thesis
  proof (cases q)
    case (Inl e)
    then have "e \<noteq> Reply (Plain ''success'')" using args
      by (auto simp: requested_args_def bindM_def some_or_def unwrap_def Let_def web_ask_def
          split: option.splits prod.splits sum.splits)
    then show ?thesis using assms args Inl same
      by (auto simp: respond_def new_transfer_def bindM_def api_view_def split: web_stop.splits)
  next
    case (Inr args')
    obtain s where sub: "submit_transfer V args' b = (s, a')"
      using assms args Inr by (auto simp: respond_def new_transfer_def bindM_def split: sum.splits web_stop.splits prod.splits)
    have r: "r = Inr (Plain ''success'') \<longleftrightarrow> s = Inr (Plain ''success'') \<or> s = Inl (Reply (Plain ''success''))"
      using assms args Inr sub by (auto simp: respond_def new_transfer_def bindM_def split: sum.splits web_stop.splits)
    have b: "w_db (aw_world b) = w_db (aw_world a)" "aw_accounts b = aw_accounts a" using same by (simp_all add: api_view_def)
    have ran: "requested_args V nt a = (Inr args', b)" using args Inr by simp
    obtain details where details: "ds_details (we_setup V) (nt_chain nt) = Some details" "ta_network args' = cd_network details"
      using requested_args_done [OF ran] by blast
    from submit_transfer_cases [OF sub] show ?thesis
    proof
      assume "s \<noteq> Inr (Plain ''success'') \<and> s \<noteq> Inl (Reply (Plain ''success'')) \<and> w_db (aw_world a') = w_db (aw_world b)"
      then show ?thesis using r b by simp
    next
      assume sent: "s = Inr (Plain ''success'') \<and> (\<exists>chain row. added_transfer row (w_db (aw_world b)) (w_db (aw_world a')) \<and>
        requested_row (ev_ext (we_env V)) chain args' row \<and> we_cfg V (ta_network args') = Some chain \<and>
        ta_from args' \<in> sa_address ` set (aw_accounts b) \<and> map sa_address (aw_accounts a') = map sa_address (aw_accounts b))"
      then obtain chain row where "added_transfer row (w_db (aw_world a)) (w_db (aw_world a'))"
        "requested_row (ev_ext (we_env V)) chain args' row" "we_cfg V (cd_network details) = Some chain"
        "ta_from args' \<in> sa_address ` set (aw_accounts a)" "map sa_address (aw_accounts a') = map sa_address (aw_accounts a)"
        using b details(2) by auto
      moreover have "r = Inr (Plain ''success'')" using r sent by blast
      ultimately show ?thesis using requested_args_done [OF ran] details(1)
        by (simp only: if_True refl) (intro exI [of _ details] exI [of _ chain] exI [of _ row] exI [of _ args'] conjI; simp)
    qed
  qed
qed

section \<open>The faucet\<close>

lemma ago_within:
  assumes "e \<le> t" and "t - e < min_seconds"
  shows "ago t e < min_seconds"
proof -
  have "t mod 86400 = (e mod 86400 + (t - e)) mod 86400" by (simp add: mod_simps)
  also have "\<dots> \<le> e mod 86400 + (t - e)" using assms(1) by (intro zmod_le_nonneg_dividend) simp
  finally show ?thesis using assms(2) by (simp add: ago_def time_of_day_def)
qed

lemma ago_next_day: "86280 \<le> time_of_day e \<Longrightarrow> ago t e < min_seconds"
  using pos_mod_bound [of 86400 t] by (simp add: ago_def time_of_day_def min_seconds_def)

text \<open>A request to the faucet that is well formed and for a configured chain.\<close>

definition faucet_request :: "web_env \<Rightarrow> http_request \<Rightarrow> address \<Rightarrow> i64 \<Rightarrow> chain_setup \<Rightarrow> chain_details \<Rightarrow> bool" where
  "faucet_request V req receiver chain_id chain details \<longleftrightarrow> (\<exists>addr c. rq_match_info req ''addr'' = Some addr \<and> addr \<noteq> [] \<and>
     addr_of_str (ev_ext (we_env V)) addr = Some receiver \<and> rq_match_info req ''chain'' = Some c \<and>
     i64_from_str c = Some chain_id \<and> ps_chain_setup (we_setup V) chain_id = Some chain \<and>
     ds_details (we_setup V) chain_id = Some details)"

definition last_request :: "web_env \<Rightarrow> address \<Rightarrow> i64 \<Rightarrow> api_world \<Rightarrow> timestamp option" where
  "last_request V receiver chain_id a = (case aw_faucet a of
     None \<Rightarrow> None | Some fd \<Rightarrow> map_of (fd_faucet_events fd) (faucet_event_idx V receiver chain_id))"

definition tick :: "nat \<Rightarrow> api_world \<Rightarrow> api_world" where
  "tick n a = a\<lparr>aw_world := (aw_world a)\<lparr>w_tick := w_tick (aw_world a) + n\<rparr>\<rparr>"

lemma web_now_eq: "web_now V a = (Inr (ev_now (we_env V) (w_tick (aw_world a))), tick 1 a)"
  by (simp add: web_now_def web_ask_def tick_def)

lemma faucet_refused:
  assumes "faucet_request V req receiver chain_id chain details" and "last_request V receiver chain_id a = Some e"
    and "ago (ev_now (we_env V) (w_tick (aw_world a))) e < min_seconds"
  shows "respond (faucet V req) a = (Inr (already_sent (ago (ev_now (we_env V) (w_tick (aw_world a))) e)), tick 1 a)"
proof -
  obtain fd where fd: "aw_faucet a = Some fd" "map_of (fd_faucet_events fd) (faucet_event_idx V receiver chain_id) = Some e"
    using assms(2) by (auto simp: last_request_def split: option.splits)
  have "faucet_limit V (faucet_event_idx V receiver chain_id) a =
      (Inl (Reply (already_sent (ago (ev_now (we_env V) (w_tick (aw_world a))) e))), tick 1 a)"
    using assms(3) by (simp add: faucet_limit_def faucet_data_of_def bindM_def fd web_now_eq)
  then show ?thesis using assms(1)
    by (auto simp: faucet_request_def faucet_def some_or_error_def bindM_def respond_def Let_def)
qed

text \<open>Between two questions the clock goes forward, and by less than two minutes.\<close>

definition steady :: "env \<Rightarrow> bool" where
  "steady V \<longleftrightarrow> (\<forall>n. ev_now V n \<le> ev_now V (n + 1) \<and> ev_now V (n + 1) - ev_now V n < 120)"

lemma map_of_filter_keep: "map_of xs k = Some v \<Longrightarrow> P (k, v) \<Longrightarrow> distinct (map fst xs) \<Longrightarrow> map_of (filter P xs) k = Some v"
  by (induction xs) (auto split: if_splits)

definition faucet_ok :: "api_world \<Rightarrow> bool" where
  "faucet_ok a \<longleftrightarrow> (\<forall>fd. aw_faucet a = Some fd \<longrightarrow> distinct (map fst (fd_faucet_events fd)))"

lemma recorded_kept:
  assumes "distinct (map fst (fd_faucet_events fd))" and "t \<le> u" and "u - t < 120"
  shows "map_of (fd_faucet_events (cleanup_events u (record_event idx t fd))) idx = Some t"
proof -
  have "map_of (AList.update idx t (fd_faucet_events fd)) idx = Some t" by (simp add: update_conv')
  moreover have "distinct (map fst (AList.update idx t (fd_faucet_events fd)))" using assms(1) by (rule distinct_update)
  ultimately show ?thesis using ago_within [OF assms(2)] assms(3)
    by (simp add: cleanup_events_def record_event_def min_seconds_def map_of_filter_keep)
qed

lemma recorded_distinct:
  "distinct (map fst (fd_faucet_events fd)) \<Longrightarrow> distinct (map fst (fd_faucet_events (cleanup_events u (record_event idx t fd))))"
  by (simp add: cleanup_events_def record_event_def distinct_update distinct_map_filter)

lemma faucet_limit_passes:
  assumes "steady (we_env V)" and "faucet_ok a" and "aw_faucet a = Some fd"
    and "\<And>e. map_of (fd_faucet_events fd) idx = Some e \<Longrightarrow> \<not> ago (ev_now (we_env V) (w_tick (aw_world a))) e < min_seconds"
  shows "\<exists>fd' n k. faucet_limit V idx a = (Inr (), (tick n a)\<lparr>aw_faucet := Some fd'\<rparr>) \<and>
    map_of (fd_faucet_events fd') idx = Some (ev_now (we_env V) k) \<and> distinct (map fst (fd_faucet_events fd')) \<and>
    w_tick (aw_world a) \<le> k \<and> k < w_tick (aw_world a) + n"
proof -
  let ?now = "\<lambda>i. ev_now (we_env V) (w_tick (aw_world a) + i)"
  have kept: "map_of (fd_faucet_events (cleanup_events (?now (i + 1)) (record_event idx (?now i) fd))) idx = Some (?now i)" for i
    using assms(1-3) by (intro recorded_kept) (auto simp: faucet_ok_def steady_def add.assoc [symmetric])
  have dist: "distinct (map fst (fd_faucet_events (cleanup_events u (record_event idx t fd))))" for u t
    using assms(2,3) by (intro recorded_distinct) (simp add: faucet_ok_def)
  show ?thesis
  proof (cases "map_of (fd_faucet_events fd) idx")
    case None
    then have "faucet_limit V idx a = (Inr (), (tick 2 a)\<lparr>aw_faucet := Some (cleanup_events (?now 1) (record_event idx (?now 0) fd))\<rparr>)"
      by (simp add: faucet_limit_def faucet_data_of_def bindM_def assms(3) web_now_eq set_faucet_def tick_def)
    then show ?thesis using kept [of 0] dist by fastforce
  next
    case (Some e)
    then have "faucet_limit V idx a = (Inr (), (tick 3 a)\<lparr>aw_faucet := Some (cleanup_events (?now 2) (record_event idx (?now 1) fd))\<rparr>)"
      using assms(4) by (simp add: faucet_limit_def faucet_data_of_def bindM_def assms(3) web_now_eq set_faucet_def tick_def)
    then show ?thesis using kept [of 1] dist by fastforce
  qed
qed

lemma faucet_limit_first:
  assumes "aw_faucet a = None"
  shows "faucet_limit V idx a = faucet_limit V idx ((tick 1 a)\<lparr>aw_faucet := Some \<lparr>fd_faucet_events = [],
    fd_last_cleanup = ev_now (we_env V) (w_tick (aw_world a))\<rparr>\<rparr>)"
  by (simp add: faucet_limit_def faucet_data_of_def bindM_def assms web_now_eq set_faucet_def Let_def)

lemma faucet_transfer_eq:
  "\<exists>row. faucet_transfer V from_a receiver chain_id token amount a = (Inr row, (tick 3 a)\<lparr>aw_world := (aw_world (tick 3 a))\<lparr>w_db :=
      (w_db (aw_world a))\<lparr>d_token_transfer := \<lparr>tb_rows = tb_rows (d_token_transfer (w_db (aw_world a))) @ [row],
        tb_seq = tb_seq (d_token_transfer (w_db (aw_world a))) + 1\<rparr>\<rparr>\<rparr>\<rparr>) \<and>
    tt_from_addr row = str_of_addr (ev_ext (we_env V)) from_a \<and> tt_receiver_addr row = str_of_addr (ev_ext (we_env V)) receiver \<and>
    tt_chain_id row = chain_id \<and> tt_token_addr row = map_option (str_of_addr (ev_ext (we_env V))) token \<and>
    tt_token_amount row = dec_of_u256 (ev_ext (we_env V)) amount \<and> tt_tx_id row = None"
  by (simp add: faucet_transfer_def bindM_def web_ask_def web_now_eq tick_def query_or_error_def query_def
      insert_unassigned create_token_transfer_def Let_def)

lemma faucet_limit_recorded:
  assumes "steady (we_env V)" and "faucet_ok a"
    and "\<And>e. last_request V receiver chain_id a = Some e \<Longrightarrow> \<not> ago (ev_now (we_env V) (w_tick (aw_world a))) e < min_seconds"
  shows "\<exists>fd' n k. faucet_limit V (faucet_event_idx V receiver chain_id) a = (Inr (), (tick n a)\<lparr>aw_faucet := Some fd'\<rparr>) \<and>
    map_of (fd_faucet_events fd') (faucet_event_idx V receiver chain_id) = Some (ev_now (we_env V) k) \<and>
    distinct (map fst (fd_faucet_events fd')) \<and> w_tick (aw_world a) \<le> k \<and> k < w_tick (aw_world a) + n"
proof (cases "aw_faucet a")
  case None
  let ?a = "(tick 1 a)\<lparr>aw_faucet := Some \<lparr>fd_faucet_events = [], fd_last_cleanup = ev_now (we_env V) (w_tick (aw_world a))\<rparr>\<rparr>"
  have "faucet_ok ?a" by (simp add: faucet_ok_def)
  from faucet_limit_passes [OF assms(1) this, of _ "faucet_event_idx V receiver chain_id"] obtain fd' n k
    where lim: "faucet_limit V (faucet_event_idx V receiver chain_id) ?a = (Inr (), (tick n ?a)\<lparr>aw_faucet := Some fd'\<rparr>)"
      "map_of (fd_faucet_events fd') (faucet_event_idx V receiver chain_id) = Some (ev_now (we_env V) k)"
      "distinct (map fst (fd_faucet_events fd'))" "w_tick (aw_world a) + 1 \<le> k" "k < w_tick (aw_world a) + 1 + n" by (auto simp: tick_def)
  have "(tick n ?a)\<lparr>aw_faucet := Some fd'\<rparr> = (tick (n + 1) a)\<lparr>aw_faucet := Some fd'\<rparr>" by (simp add: tick_def)
  with lim show ?thesis unfolding faucet_limit_first [OF None]
    by (intro exI [of _ fd'] exI [of _ "n + 1"] exI [of _ k]) simp
next
  case (Some fd)
  then show ?thesis using faucet_limit_passes [OF assms(1,2) Some] assms(3) by (simp add: last_request_def)
qed

text \<open>The steps of a request to the faucet other than the limiter do not touch what it keeps.\<close>

definition beside_limit :: "'a web \<Rightarrow> bool" where
  "beside_limit m \<longleftrightarrow> (\<forall>a. aw_faucet (snd (m a)) = aw_faucet a \<and> w_tick (aw_world a) \<le> w_tick (aw_world (snd (m a))))"

lemma beside_limitI:
  "(\<And>a. aw_faucet (snd (m a)) = aw_faucet a \<and> w_tick (aw_world a) \<le> w_tick (aw_world (snd (m a)))) \<Longrightarrow> beside_limit m"
  by (simp add: beside_limit_def)

lemma beside_limit_bindM [viewing_intro]: "beside_limit m \<Longrightarrow> (\<And>x. beside_limit (f x)) \<Longrightarrow> beside_limit (bindM m f)"
  unfolding beside_limit_def bindM_def by (simp split: prod.split sum.split) (metis order_trans snd_conv)

lemma beside_limit_basic [viewing_intro]: "beside_limit (ret x)" "beside_limit (throw e)" "beside_limit (gets g)"
  "beside_limit (web_ask h)" "beside_limit (query q)"
  by (auto simp: beside_limit_def web_ask_def query_def split: prod.splits)

lemma beside_limit_case [viewing_intro]:
  "(\<And>e. beside_limit (f e)) \<Longrightarrow> (\<And>y. beside_limit (g y)) \<Longrightarrow> beside_limit (case x of Inl e \<Rightarrow> f e | Inr y \<Rightarrow> g y)"
  "beside_limit m \<Longrightarrow> (\<And>y. beside_limit (h y)) \<Longrightarrow> beside_limit (case z of None \<Rightarrow> m | Some y \<Rightarrow> h y)"
  "beside_limit m \<Longrightarrow> (\<And>y ys. beside_limit (k y ys)) \<Longrightarrow> beside_limit (case l of [] \<Rightarrow> m | y # ys \<Rightarrow> k y ys)"
  by (auto split: sum.split option.split list.split)

lemma beside_limit_some [viewing_intro]: "beside_limit (some_or_error s x)" "beside_limit (query_or_error V q)"
  "beside_limit (answer es)" "beside_limit first_account" "beside_limit (faucet_transfer V f r i t n)"
  unfolding some_or_error_def query_or_error_def answer_def first_account_def faucet_transfer_def web_now_def
  by (intro viewing_intro)+

definition grant :: "web_env \<Rightarrow> address \<Rightarrow> i64 \<Rightarrow> chain_setup \<Rightarrow> chain_details \<Rightarrow> response web" where
  "grant V receiver chain_id chain details = bindM first_account (\<lambda>from_a.
     bindM (some_or_error ''Faucet amount not set on chain'' (cd_faucet_eth_amount details)) (\<lambda>faucet_eth_amount.
     bindM (some_or_error ''Faucet GLM amount not set on chain'' (cd_faucet_glm_amount details)) (\<lambda>faucet_glm_amount.
     bindM (faucet_transfer V from_a receiver chain_id None faucet_eth_amount) (\<lambda>transfer_eth.
     bindM (faucet_transfer V from_a receiver chain_id (Some (cs_glm_address chain)) faucet_glm_amount) (\<lambda>transfer_glm.
       answer [(''transfer_gas_id'', JInt (tt_id transfer_eth)), (''transfer_gas_payment_id'', JOpt (tt_payment_id transfer_eth)),
         (''transfer_glm_id'', JInt (tt_id transfer_glm)), (''transfer_glm_payment_id'', JOpt (tt_payment_id transfer_glm))])))))"

lemma beside_limit_grant: "beside_limit (grant V receiver chain_id chain details)"
  unfolding grant_def by (intro viewing_intro)

lemma faucet_limited:
  assumes "faucet_request V req receiver chain_id chain details"
  shows "faucet V req = bindM (faucet_limit V (faucet_event_idx V receiver chain_id)) (\<lambda>_. grant V receiver chain_id chain details)"
  using assms by (auto simp: faucet_request_def faucet_def some_or_error_def Let_def grant_def)

text \<open>A request is a question to the limiter for one address and chain, then other steps; or has no such question.\<close>

lemma faucet_parts:
  obtains (limited) receiver chain_id rest where "faucet V req = bindM (faucet_limit V (faucet_event_idx V receiver chain_id)) (\<lambda>_. rest)"
      "beside_limit rest"
  | (malformed) "beside_limit (faucet V req)"
proof -
  let ?addr = "case rq_match_info req ''addr'' of Some s \<Rightarrow> s | None \<Rightarrow> []"
    and ?chain = "case rq_match_info req ''chain'' of Some s \<Rightarrow> s | None \<Rightarrow> []"
  have pair: "beside_limit (Pair x)" for x :: "web_stop + response" by (simp add: beside_limit_def)
  consider (good) receiver chain_id chain details where "?addr \<noteq> []" "addr_of_str (ev_ext (we_env V)) ?addr = Some receiver"
      "i64_from_str ?chain = Some chain_id" "ps_chain_setup (we_setup V) chain_id = Some chain" "ds_details (we_setup V) chain_id = Some details"
    | (bad) "?addr = [] \<or> addr_of_str (ev_ext (we_env V)) ?addr = None \<or> i64_from_str ?chain = None \<or>
        (\<exists>i. i64_from_str ?chain = Some i \<and> (ps_chain_setup (we_setup V) i = None \<or> ds_details (we_setup V) i = None))"
    by (metis not_None_eq)
  then show thesis
  proof cases
    case (good receiver chain_id chain details)
    then show thesis
      by (intro limited [of receiver chain_id "grant V receiver chain_id chain details"] beside_limit_grant)
        (simp add: faucet_def some_or_error_def Let_def grant_def)
  next
    case bad
    then have "beside_limit (faucet V req)"
      by (auto simp: faucet_def some_or_error_def Let_def pair split: option.split intro!: viewing_intro)
    then show thesis by (rule malformed)
  qed
qed

text \<open>While a recorded request still counts, every other request to the faucet keeps its record.\<close>

definition on_record :: "string \<Rightarrow> timestamp \<Rightarrow> api_world \<Rightarrow> bool" where
  "on_record idx e a \<longleftrightarrow> (\<exists>fd. aw_faucet a = Some fd \<and> map_of (fd_faucet_events fd) idx = Some e \<and> distinct (map fst (fd_faucet_events fd)))"

definition still_counts :: "env \<Rightarrow> timestamp \<Rightarrow> nat \<Rightarrow> nat \<Rightarrow> bool" where
  "still_counts V e i j \<longleftrightarrow> (\<forall>n. i \<le> n \<and> n < j \<longrightarrow> ago (ev_now V n) e < min_seconds)"

lemma limit_ticks: "w_tick (aw_world a) \<le> w_tick (aw_world (snd (faucet_limit V idx a)))"
  by (simp add: faucet_limit_def faucet_data_of_def bindM_def web_now_eq set_faucet_def tick_def Let_def split: option.split)

lemma limit_keeps_record:
  assumes "faucet_limit V idx' a = (r, a')" and "on_record idx e a"
    and "still_counts (we_env V) e (w_tick (aw_world a)) (w_tick (aw_world a'))"
  shows "on_record idx e a'"
proof -
  let ?now = "\<lambda>i. ev_now (we_env V) (w_tick (aw_world a) + i)"
  obtain fd where fd: "aw_faucet a = Some fd" "map_of (fd_faucet_events fd) idx = Some e" "distinct (map fst (fd_faucet_events fd))"
    using assms(2) by (auto simp: on_record_def)
  have kept: "on_record idx e (x\<lparr>aw_faucet := Some (cleanup_events u (record_event idx' t fd))\<rparr>)"
    if "ago u e < min_seconds" "idx' \<noteq> idx" for x u t
  proof -
    have "map_of (AList.update idx' t (fd_faucet_events fd)) idx = Some e" using fd(2) that(2) by (simp add: update_conv')
    moreover have "distinct (map fst (AList.update idx' t (fd_faucet_events fd)))" using fd(3) by (rule distinct_update)
    ultimately show ?thesis using that(1) recorded_distinct [OF fd(3), of u idx' t]
      by (simp add: on_record_def cleanup_events_def record_event_def map_of_filter_keep)
  qed
  have run: "faucet_limit V idx' a = (case map_of (fd_faucet_events fd) idx' of
      None \<Rightarrow> (Inr (), (tick 2 a)\<lparr>aw_faucet := Some (cleanup_events (?now 1) (record_event idx' (?now 0) fd))\<rparr>)
    | Some el \<Rightarrow> if ago (?now 0) el < min_seconds then (Inl (Reply (already_sent (ago (?now 0) el))), tick 1 a)
        else (Inr (), (tick 3 a)\<lparr>aw_faucet := Some (cleanup_events (?now 2) (record_event idx' (?now 1) fd))\<rparr>))"
    by (simp add: faucet_limit_def faucet_data_of_def bindM_def fd(1) web_now_eq set_faucet_def tick_def split: option.split)
  show ?thesis
  proof (cases "map_of (fd_faucet_events fd) idx'")
    case None
    then have "idx' \<noteq> idx" using fd(2) by auto
    then show ?thesis using run None assms(1,3) kept [of "?now 1" "?now 0" "tick 2 a"]
      by (auto simp: tick_def still_counts_def)
  next
    case (Some el)
    show ?thesis
    proof (cases "ago (?now 0) el < min_seconds")
      case True
      then have "a' = tick 1 a" using run Some assms(1) by simp
      then show ?thesis using assms(2) by (simp add: tick_def on_record_def)
    next
      case False
      then have a': "a' = (tick 3 a)\<lparr>aw_faucet := Some (cleanup_events (?now 2) (record_event idx' (?now 1) fd))\<rparr>"
        using run Some assms(1) by simp
      have counts: "ago (?now 0) e < min_seconds" "ago (?now 2) e < min_seconds"
        using assms(3) by (auto simp: still_counts_def a' tick_def)
      then have "idx' \<noteq> idx" using False Some fd(2) by auto
      then show ?thesis using kept [OF counts(2)] by (simp add: a')
    qed
  qed
qed

lemma faucet_ticks: "w_tick (aw_world a) \<le> w_tick (aw_world (snd (faucet V req a)))"
proof (cases rule: faucet_parts [of V req])
  case (limited receiver chain_id rest)
  obtain q b where q: "faucet_limit V (faucet_event_idx V receiver chain_id) a = (q, b)" by fastforce
  then have "w_tick (aw_world a) \<le> w_tick (aw_world b)" using limit_ticks by (metis snd_conv)
  then show ?thesis using limited q by (cases q) (auto simp: bindM_def beside_limit_def intro: order_trans)
qed (simp add: beside_limit_def)

lemma faucet_keeps_record:
  assumes "on_record idx e a" and "b = snd (faucet V req a)"
    and "still_counts (we_env V) e (w_tick (aw_world a)) (w_tick (aw_world b))"
  shows "on_record idx e b"
proof (cases rule: faucet_parts [of V req])
  case (limited receiver chain_id rest)
  obtain q c where q: "faucet_limit V (faucet_event_idx V receiver chain_id) a = (q, c)" by fastforce
  have b: "b = (case q of Inl _ \<Rightarrow> c | Inr _ \<Rightarrow> snd (rest c))"
    using q limited(1) assms(2) by (simp add: bindM_def split: sum.split)
  then have "aw_faucet b = aw_faucet c" "w_tick (aw_world c) \<le> w_tick (aw_world b)"
    using limited(2) by (auto simp: beside_limit_def split: sum.splits)
  moreover from this have "still_counts (we_env V) e (w_tick (aw_world a)) (w_tick (aw_world c))"
    using assms(3) by (auto simp: still_counts_def)
  ultimately show ?thesis using limit_keeps_record [OF q assms(1)] by (simp add: on_record_def)
next
  case malformed
  then show ?thesis using assms(1,2) by (simp add: beside_limit_def on_record_def)
qed

text \<open>Any number of requests, of any clients.\<close>

fun faucet_requests :: "web_env \<Rightarrow> http_request list \<Rightarrow> api_world \<Rightarrow> api_world" where
  "faucet_requests V [] a = a"
| "faucet_requests V (q # qs) a = faucet_requests V qs (snd (respond (faucet V q) a))"

lemma requests_keep_record:
  "w_tick (aw_world a) \<le> w_tick (aw_world (faucet_requests V qs a)) \<and> (on_record idx e a \<longrightarrow>
    still_counts (we_env V) e (w_tick (aw_world a)) (w_tick (aw_world (faucet_requests V qs a))) \<longrightarrow>
    on_record idx e (faucet_requests V qs a))"
proof (induction qs arbitrary: a)
  case (Cons q qs)
  let ?b = "snd (faucet V q a)"
  have ticks: "w_tick (aw_world a) \<le> w_tick (aw_world ?b)" by (rule faucet_ticks)
  show ?case
    using ticks Cons.IH [of ?b] faucet_keeps_record [of idx e a ?b V q]
    by (auto simp: respond_state still_counts_def)
qed simp

lemma clock_forward: "steady V \<Longrightarrow> i \<le> j \<Longrightarrow> ev_now V i \<le> ev_now V j"
  by (rule lift_Suc_mono_le [of "ev_now V"]) (simp_all add: steady_def)

lemma first_request_recorded:
  assumes "faucet_request V req receiver chain_id chain details" and "steady (we_env V)" and "faucet_ok a"
    and "\<And>e. last_request V receiver chain_id a = Some e \<Longrightarrow> \<not> ago (ev_now (we_env V) (w_tick (aw_world a))) e < 120"
    and "respond (faucet V req) a = (r, b)"
  obtains k where "w_tick (aw_world a) \<le> k" "k < w_tick (aw_world b)"
    "on_record (faucet_event_idx V receiver chain_id) (ev_now (we_env V) k) b"
proof -
  let ?idx = "faucet_event_idx V receiver chain_id"
  obtain fd n k where lim: "faucet_limit V ?idx a = (Inr (), (tick n a)\<lparr>aw_faucet := Some fd\<rparr>)"
    "map_of (fd_faucet_events fd) ?idx = Some (ev_now (we_env V) k)" "distinct (map fst (fd_faucet_events fd))"
    "w_tick (aw_world a) \<le> k" "k < w_tick (aw_world a) + n"
    using faucet_limit_recorded [OF assms(2,3), of receiver chain_id] assms(4) by (auto simp: min_seconds_def)
  have "b = snd (grant V receiver chain_id chain details ((tick n a)\<lparr>aw_faucet := Some fd\<rparr>))"
    using respond_state [of "faucet V req" a] assms(5) faucet_limited [OF assms(1)] lim(1) by (simp add: bindM_def)
  then have "aw_faucet b = Some fd" "w_tick (aw_world a) + n \<le> w_tick (aw_world b)"
    using beside_limit_grant [of V receiver chain_id chain details, unfolded beside_limit_def, THEN spec, of "(tick n a)\<lparr>aw_faucet := Some fd\<rparr>"] by (simp_all add: tick_def)
  then show thesis using lim by (intro that [of k]) (simp_all add: on_record_def)
qed


text \<open>The two transfers of a grant.\<close>

definition grant_row :: "web_env \<Rightarrow> address \<Rightarrow> address \<Rightarrow> i64 \<Rightarrow> address option \<Rightarrow> u256 \<Rightarrow> token_transfer_db_obj \<Rightarrow> bool" where
  "grant_row V from_a receiver chain_id token amount row \<longleftrightarrow> tt_from_addr row = str_of_addr (ev_ext (we_env V)) from_a \<and>
     tt_receiver_addr row = str_of_addr (ev_ext (we_env V)) receiver \<and> tt_chain_id row = chain_id \<and>
     tt_token_addr row = map_option (str_of_addr (ev_ext (we_env V))) token \<and>
     tt_token_amount row = dec_of_u256 (ev_ext (we_env V)) amount \<and> tt_tx_id row = None"

text \<open>A request to the faucet that is not refused queues one transfer of gas and one of tokens, of the configured
  amounts, from the first account to the address, and is recorded with the time it was made, so that a next
  request within two minutes is refused. Between two questions the clock goes forward by less than two minutes.\<close>

theorem faucet_pays:
  assumes "faucet_request V req receiver chain_id chain details" and "steady (we_env V)" and "faucet_ok a"
    and "\<And>e. last_request V receiver chain_id a = Some e \<Longrightarrow> \<not> ago (ev_now (we_env V) (w_tick (aw_world a))) e < 120"
    and "aw_accounts a = acc # accs" and "cd_faucet_eth_amount details = Some eth" and "cd_faucet_glm_amount details = Some glm"
  shows "\<exists>gas token r a' k. respond (faucet V req) a = (Inr r, a') \<and>
    tb_rows (d_token_transfer (w_db (aw_world a'))) = tb_rows (d_token_transfer (w_db (aw_world a))) @ [gas, token] \<and>
    grant_row V (sa_address acc) receiver chain_id None eth gas \<and>
    grant_row V (sa_address acc) receiver chain_id (Some (cs_glm_address chain)) glm token \<and>
    last_request V receiver chain_id a' = Some (ev_now (we_env V) k) \<and>
    w_tick (aw_world a) \<le> k \<and> k < w_tick (aw_world a') \<and> faucet_ok a'"
proof -
  let ?idx = "faucet_event_idx V receiver chain_id"
  obtain fd n k where lim: "faucet_limit V ?idx a = (Inr (), (tick n a)\<lparr>aw_faucet := Some fd\<rparr>)"
    "map_of (fd_faucet_events fd) ?idx = Some (ev_now (we_env V) k)" "distinct (map fst (fd_faucet_events fd))" "w_tick (aw_world a) \<le> k" "k < w_tick (aw_world a) + n"
    using faucet_limit_recorded [OF assms(2,3), of receiver chain_id] assms(4) by (auto simp: min_seconds_def)
  let ?b = "(tick n a)\<lparr>aw_faucet := Some fd\<rparr>"
  obtain gas b where gas: "faucet_transfer V (sa_address acc) receiver chain_id None eth ?b = (Inr gas, b)"
    "grant_row V (sa_address acc) receiver chain_id None eth gas"
    "tb_rows (d_token_transfer (w_db (aw_world b))) = tb_rows (d_token_transfer (w_db (aw_world a))) @ [gas]"
    "aw_faucet b = Some fd" "w_tick (aw_world b) = w_tick (aw_world a) + n + 3"
    using faucet_transfer_eq [of V "sa_address acc" receiver chain_id None eth ?b] by (auto simp: grant_row_def tick_def)
  obtain token c where token: "faucet_transfer V (sa_address acc) receiver chain_id (Some (cs_glm_address chain)) glm b = (Inr token, c)"
    "grant_row V (sa_address acc) receiver chain_id (Some (cs_glm_address chain)) glm token"
    "tb_rows (d_token_transfer (w_db (aw_world c))) = tb_rows (d_token_transfer (w_db (aw_world b))) @ [token]"
    "aw_faucet c = Some fd" "w_tick (aw_world c) = w_tick (aw_world a) + n + 6"
    using faucet_transfer_eq [of V "sa_address acc" receiver chain_id "Some (cs_glm_address chain)" glm b] gas(4,5)
    by (auto simp: grant_row_def tick_def)
  have "\<exists>r. respond (faucet V req) a = (Inr r, c)"
    using assms(1,5-7) lim(1) gas(1) token(1)
    by (auto simp: faucet_request_def faucet_def some_or_error_def bindM_def respond_def Let_def first_account_def answer_def tick_def)
  moreover have "faucet_ok c" using lim(3) token(4) by (simp add: faucet_ok_def)
  moreover have "last_request V receiver chain_id c = Some (ev_now (we_env V) k)" using lim(2) token(4) by (simp add: last_request_def)
  moreover have "k < w_tick (aw_world c)" using lim(5) token(5) by simp
  moreover have "tb_rows (d_token_transfer (w_db (aw_world c))) = tb_rows (d_token_transfer (w_db (aw_world a))) @ [gas, token]"
    using gas(3) token(3) by simp
  ultimately show ?thesis using gas(2) token(2) lim(4) by blast
qed

section \<open>An example\<close>

definition sample_driver :: driver_setup where
  "sample_driver = payment_setup.extend sample_setup (driver_setup.fields 30 60 5 300
     [5 \<mapsto> \<lparr>cd_network = ''goerli'', cd_chain_name = ''Goerli'', cd_currency_gas_symbol = ''ETH'',
       cd_currency_glm_symbol = ''GLM'', cd_faucet_setup = \<lparr>fs_client_max_eth_allowed = None, fs_client_srv = None,
         fs_client_host = None, fs_srv_port = None, fs_lookup_domain = None, fs_mint_glm_address = None,
         fs_mint_max_glm_allowed = None\<rparr>, cd_skip_multi_contract_check = False, cd_faucet_eth_amount = Some 2,
       cd_faucet_glm_amount = Some 3, cd_block_explorer_url = None, cd_external_source_check_interval = None\<rparr>]
     Map.empty)"

definition sample_web :: web_env where
  "sample_web = \<lparr>we_env = quiet_env, we_pool = calm_pool_env, we_setup = sample_driver,
     we_cfg = [''goerli'' \<mapsto> \<lparr>cc_chain_id = 5, cc_token_address = 4, cc_mint_contract = None\<rparr>],
     we_uuid = (\<lambda>n. ''u''), we_elapsed = (\<lambda>n. 0), we_parse_rfc3339 = (\<lambda>s. Inr 7), we_metrics = (\<lambda>n. Inr ''''),
     we_sql_text = (\<lambda>e. ''error''), we_number_text = (\<lambda>q. ''0''), we_header_value = (\<lambda>s. True), we_version = ''1''\<rparr>"

definition sample_api :: api_world where
  "sample_api = \<lparr>aw_world = world_initial, aw_accounts = [\<lparr>sa_address = 1, sa_external_gather_time = None\<rparr>],
     aw_faucet = None, aw_pools = []\<rparr>"

definition sample_faucet_call :: http_request where
  "sample_faucet_call = \<lparr>rq_match_info = map_of [(''chain'', ''5''), (''addr'', ''xx'')], rq_uri = ''''\<rparr>"

lemma five: "i64_from_str ''5'' = Some 5"
  by (simp add: i64_from_str_def decimal_value_def decimal_digit_def of_base_def upt_rec)

lemma sample_faucet_request:
  "\<exists>chain details. faucet_request sample_web sample_faucet_call 2 5 chain details \<and>
    cd_faucet_eth_amount details = Some 2 \<and> cd_faucet_glm_amount details = Some 3"
  by (simp add: faucet_request_def sample_faucet_call_def sample_web_def quiet_env_def unary_def sample_driver_def sample_setup_def
      payment_setup.defs driver_setup.defs five sample_chain_def)

lemma sample_texts: "str_of_addr (ev_ext (we_env sample_web)) 2 = ''aa''" "dec_of_u256 (ev_ext (we_env sample_web)) 3 = ''111''"
proof -
  have "unat (2 :: address) = 2" "unat (3 :: u256) = 3" "replicate 2 x = [x, x]" "replicate 3 x = [x, x, x]" for x :: char
    by (simp, simp, simp only: numeral_2_eq_2 replicate.simps, simp only: numeral_3_eq_3 replicate.simps)
  then show "str_of_addr (ev_ext (we_env sample_web)) 2 = ''aa''" "dec_of_u256 (ev_ext (we_env sample_web)) 3 = ''111''"
    by (simp_all add: sample_web_def quiet_env_def unary_def)
qed

theorem faucet_pays_witness:
  "\<exists>gas token r a'. respond (faucet sample_web sample_faucet_call) sample_api = (Inr r, a') \<and>
    tb_rows (d_token_transfer (w_db (aw_world a'))) = [gas, token] \<and> tt_receiver_addr gas = ''aa'' \<and> tt_token_amount token = ''111''"
proof -
  obtain chain details where call: "faucet_request sample_web sample_faucet_call 2 5 chain details"
    "cd_faucet_eth_amount details = Some 2" "cd_faucet_glm_amount details = Some 3" using sample_faucet_request by blast
  have clock: "steady (we_env sample_web)" by (simp add: steady_def sample_web_def quiet_env_def)
  have fresh: "faucet_ok sample_api" "last_request sample_web 2 5 sample_api = None"
    by (simp_all add: faucet_ok_def sample_api_def last_request_def)
  have acc: "aw_accounts sample_api = \<lparr>sa_address = 1, sa_external_gather_time = None\<rparr> # []"
    "tb_rows (d_token_transfer (w_db (aw_world sample_api))) = []"
    by (simp_all add: sample_api_def world_initial_def db_empty_def tbl_empty_def)
  from faucet_pays [OF call(1) clock fresh(1) _ acc(1) call(2,3)] fresh(2) obtain gas token r a' where
    "respond (faucet sample_web sample_faucet_call) sample_api = (Inr r, a')"
    "tb_rows (d_token_transfer (w_db (aw_world a'))) = [gas, token]"
    "grant_row sample_web 1 2 5 None 2 gas" "grant_row sample_web 1 2 5 (Some (cs_glm_address chain)) 3 token"
    using acc(2) by auto
  then show ?thesis unfolding grant_row_def sample_texts by blast
qed


definition sample_request :: transaction_request where
  "sample_request = \<lparr>nt_from = ''x'', nt_to = ''xx'', nt_token = None, nt_amount = ''111'', nt_chain = 5, nt_due_date = None,
     nt_payment_id = Some ''p'', nt_deposit_id = None\<rparr>"

theorem new_transfer_queues_witness:
  "\<exists>a' row. respond (new_transfer sample_web sample_request) sample_api = (Inr (Plain ''success''), a') \<and>
    added_transfer row (w_db (aw_world sample_api)) (w_db (aw_world a')) \<and> tt_payment_id row = Some ''p''"
proof -
  have "\<exists>a'. respond (new_transfer sample_web sample_request) sample_api = (Inr (Plain ''success''), a')"
    by (simp add: new_transfer_def requested_args_def submit_transfer_def some_or_def unwrap_def sample_request_def sample_web_def
        sample_driver_def sample_setup_def payment_setup.defs driver_setup.defs sample_api_def bindM_def respond_def Let_def
        world_or_def on_world_def transfer_with_account_def chain_named_def now_def ask_def on_db_def zoom_def quiet_env_def
        unary_def create_token_transfer_def insert_token_transfer_with_deposit_check_def sqlx_def insert_unassigned)
  then obtain a' where run: "respond (new_transfer sample_web sample_request) sample_api = (Inr (Plain ''success''), a')" by blast
  from new_transfer_queues [OF run] show ?thesis using run by (auto simp: requested_row_def sample_request_def)
qed

definition sample_txs :: "tx_db_obj list" where
  "sample_txs = [(tx_default 10)\<lparr>t_id := 1\<rparr>, (tx_default 11)\<lparr>t_id := 2, t_processing := 0\<rparr>,
     (tx_default 12)\<lparr>t_id := 3, t_first_processed := Some 20\<rparr>]"

theorem feed_lists_each_once_witness:
  "\<exists>prev cur queued. respond (transactions_feed sample_web sample_faucet_call)
      (sample_api\<lparr>aw_world := world_initial\<lparr>w_db := db_empty\<lparr>d_tx := \<lparr>tb_rows = sample_txs, tb_seq = 3\<rparr>\<rparr>\<rparr>\<rparr>) =
      (Inr (Json (JObj [(''txs'', JArr (map (\<lambda>tx. JTx (annotate Map.empty tx)) (prev @ cur @ queued))), (''current'', JCurrent Map.empty)])),
       sample_api\<lparr>aw_world := world_initial\<lparr>w_db := db_empty\<lparr>d_tx := \<lparr>tb_rows = sample_txs, tb_seq = 3\<rparr>\<rparr>\<rparr>\<rparr>) \<and>
    t_id ` set prev = {2} \<and> t_id ` set cur = {3} \<and> t_id ` set queued = {1}"
proof -
  let ?a = "sample_api\<lparr>aw_world := world_initial\<lparr>w_db := db_empty\<lparr>d_tx := \<lparr>tb_rows = sample_txs, tb_seq = 3\<rparr>\<rparr>\<rparr>\<rparr>"
  have ok: "world_ok (aw_world ?a)" using db_ok_empty
    by (simp add: sample_txs_def world_ok_def db_ok_def keys_ok_def fk_ok_def tbl_wf_def tx_default_def db_empty_def tbl_empty_def)
  have rows: "sample_txs = tb_rows (d_tx (w_db (aw_world ?a)))" "length sample_txs < 2 ^ 63"
    "Map.empty = sh_current_tx_info (w_shared (aw_world ?a))"
    by (simp_all add: sample_txs_def world_initial_def shared_initial_def)
  obtain prev cur queued where feed: "respond (transactions_feed sample_web sample_faucet_call) ?a = (Inr (Json (JObj
      [(''txs'', JArr (map (\<lambda>tx. JTx (annotate Map.empty tx)) (prev @ cur @ queued))), (''current'', JCurrent Map.empty)])), ?a)"
    "set cur = set (filter filter_processing sample_txs)" "set prev \<subseteq> set (filter filter_done sample_txs)"
    "set queued \<subseteq> set (filter filter_queued sample_txs)"
    "length prev = shown (path_limit sample_faucet_call ''prev'') (length (filter filter_done sample_txs))"
    "length queued = shown (path_limit sample_faucet_call ''next'') (length (filter filter_queued sample_txs))"
    using feed_lists_each_once [OF ok rows, of sample_web sample_faucet_call] by (elim exE conjE) (rule that; assumption)
  have filters: "filter filter_done sample_txs = [sample_txs ! 1]" "filter filter_processing sample_txs = [sample_txs ! 2]"
    "filter filter_queued sample_txs = [sample_txs ! 0]"
    by (simp_all add: sample_txs_def filter_processing_def filter_done_def filter_queued_def tx_default_def)
  have "length prev = 1" "length queued = 1" using feed(5,6) by (simp_all add: filters shown_def path_limit_def sample_faucet_call_def)
  then have "set prev = {sample_txs ! 1}" "set queued = {sample_txs ! 0}" using feed(3,4) by (auto simp: filters length_Suc_conv)
  then have "t_id ` set prev = {2} \<and> t_id ` set cur = {3} \<and> t_id ` set queued = {1}"
    by (simp add: feed(2) filters) (simp add: sample_txs_def)
  with feed(1) show ?thesis by blast
qed

definition posted :: "string list \<Rightarrow> http_call" where
  "posted path = \<lparr>hc_method = POST, hc_path = path, hc_uri = '''', hc_transaction = sample_request,
     hc_stats = \<lparr>sr_receiver = None, sr_from = None, sr_to = None, sr_chain = None\<rparr>\<rparr>"

text \<open>The engine works on the transactions 1 and 2; the first is skipped.\<close>

definition working_api :: api_world where
  "working_api = sample_api\<lparr>aw_world := world_initial\<lparr>w_shared := set_tx_message 2 ''b'' (set_tx_message 1 ''a'' shared_initial)\<rparr>\<rparr>"


end
