(* ===== verification/Proxy.thy ===== *)
theory Proxy imports Http Complex_Main begin

text \<open>
  The test proxy (\<open>web3_test_proxy\<close>): it forwards JSON-RPC calls to a node, keeps a bounded history of the
  calls of every key, and simulates problems, set by hand or by a plan (\<open>main.rs\<close>, \<open>problems.rs\<close>, \<open>plan.rs\<close>).
  A call holds the lock of the shared data at its begin and at its end only; between the two, other requests
  run. Random numbers, the clock and the answers of the node are parameters; chances and delays are
  rationals. Texts are lists of bytes;
  \<open>px_parse_json\<close> refuses what is not UTF-8 or not JSON, and lower case is that of ASCII letters.
\<close>

section \<open>Problems (\<open>problems.rs\<close>)\<close>

record endpoint_simulate_problems =
  sp_timeout_chance :: rat
  sp_min_timeout_ms :: rat
  sp_max_timeout_ms :: rat
  sp_error_chance :: rat
  sp_malformed_response_chance :: rat
  sp_skip_sending_raw_transaction_chance :: rat
  sp_send_transaction_but_report_failure_chance :: rat
  sp_allow_only_parsed_calls :: bool
  sp_allow_only_single_calls :: bool

record values_change_options =
  vc_timeout_chance :: "rat option"
  vc_min_timeout_ms :: "rat option"
  vc_max_timeout_ms :: "rat option"
  vc_error_chance :: "rat option"
  vc_malformed_response_chance :: "rat option"
  vc_skip_sending_raw_transaction_chance :: "rat option"
  vc_send_transaction_but_report_failure_chance :: "rat option"
  vc_allow_only_parsed_calls :: "bool option"
  vc_allow_only_single_calls :: "bool option"

definition problems_default :: endpoint_simulate_problems where
  "problems_default = \<lparr>sp_timeout_chance = 0, sp_min_timeout_ms = 0, sp_max_timeout_ms = 0, sp_error_chance = 0,
     sp_malformed_response_chance = 0, sp_skip_sending_raw_transaction_chance = 0,
     sp_send_transaction_but_report_failure_chance = 0, sp_allow_only_parsed_calls = True,
     sp_allow_only_single_calls = True\<rparr>"

definition changed :: "'a option \<Rightarrow> 'a \<Rightarrow> 'a" where
  "changed x old = (case x of Some v \<Rightarrow> v | None \<Rightarrow> old)"

definition apply_change :: "values_change_options \<Rightarrow> endpoint_simulate_problems \<Rightarrow> endpoint_simulate_problems" where
  "apply_change c p = \<lparr>sp_timeout_chance = changed (vc_timeout_chance c) (sp_timeout_chance p),
     sp_min_timeout_ms = changed (vc_min_timeout_ms c) (sp_min_timeout_ms p),
     sp_max_timeout_ms = changed (vc_max_timeout_ms c) (sp_max_timeout_ms p),
     sp_error_chance = changed (vc_error_chance c) (sp_error_chance p),
     sp_malformed_response_chance = changed (vc_malformed_response_chance c) (sp_malformed_response_chance p),
     sp_skip_sending_raw_transaction_chance =
       changed (vc_skip_sending_raw_transaction_chance c) (sp_skip_sending_raw_transaction_chance p),
     sp_send_transaction_but_report_failure_chance =
       changed (vc_send_transaction_but_report_failure_chance c) (sp_send_transaction_but_report_failure_chance p),
     sp_allow_only_parsed_calls = changed (vc_allow_only_parsed_calls c) (sp_allow_only_parsed_calls p),
     sp_allow_only_single_calls = changed (vc_allow_only_single_calls c) (sp_allow_only_single_calls p)\<rparr>"

section \<open>Requests\<close>

datatype json_value =
    VNull | VBool bool | VNum rat | VStr string | VArr "json_value list" | VObj "(string \<times> json_value) list"

text \<open>Indexing with a name gives null when there is no such member.\<close>

definition member_of :: "json_value \<Rightarrow> string \<Rightarrow> json_value" where
  "member_of v k = (case v of VObj kvs \<Rightarrow> (case map_of kvs k of Some x \<Rightarrow> x | None \<Rightarrow> VNull) | _ \<Rightarrow> VNull)"

definition as_str :: "json_value \<Rightarrow> string option" where
  "as_str v = (case v of VStr s \<Rightarrow> Some s | _ \<Rightarrow> None)"

definition as_array :: "json_value \<Rightarrow> json_value list" where
  "as_array v = (case v of VArr vs \<Rightarrow> vs | _ \<Rightarrow> [])"

record parsed_eth_call_request =
  pc_method :: string
  pc_address :: "string option"
  pc_to :: "string option"

record parsed_request =
  pr_id :: json_value
  pr_method :: string
  pr_parsed_call :: "parsed_eth_call_request option"
  pr_params :: "json_value list"

text \<open>An index inside a character is not a place where a text can be cut.\<close>

definition char_boundary :: "nat \<Rightarrow> string \<Rightarrow> bool" where
  "char_boundary n s \<longleftrightarrow> n = length s \<or> (n < length s \<and> \<not> (128 \<le> (of_char (s ! n) :: nat) \<and> (of_char (s ! n) :: nat) < 192))"

definition parse_eth_call :: "json_value \<Rightarrow> failure + parsed_eth_call_request option" where
  "parse_eth_call p = (case p of
       VObj kvs \<Rightarrow> (case map_of kvs ''data'' of
           Some (VStr d) \<Rightarrow> (let data = to_lower d in
               if length data = 74 \<and> take 10 data = ''0x70a08231''
               then if char_boundary 34 data
                 then Inr (Some \<lparr>pc_method = ''balanceOf'', pc_address = Some (''0x'' @ drop 34 data), pc_to = as_str (member_of p ''to'')\<rparr>)
                 else Inl (Panic ''failed to slice string'')
               else Inr None)
         | _ \<Rightarrow> Inr None)
     | _ \<Rightarrow> Inr None)"

definition parse_call :: "string \<Rightarrow> json_value list \<Rightarrow> failure + parsed_eth_call_request option" where
  "parse_call meth params =
     (if meth = ''eth_getBalance'' then
        (case params of
           [] \<Rightarrow> Inl (err_custom ''params field is empty'')
         | p # _ \<Rightarrow> (case as_str p of
               None \<Rightarrow> Inl (Panic ''called Option::unwrap() on a None value'')
             | Some a \<Rightarrow> Inr (Some \<lparr>pc_method = ''get_balance'', pc_address = Some a, pc_to = None\<rparr>)))
      else if meth = ''eth_call'' then
        (case params of [] \<Rightarrow> Inl (err_custom ''params field is empty'') | p # _ \<Rightarrow> parse_eth_call p)
      else Inr None)"

text \<open>A batch is accepted and yields no request.\<close>

definition parse_request :: "json_value \<Rightarrow> failure + parsed_request list" where
  "parse_request body = (case body of
       VArr _ \<Rightarrow> Inr []
     | _ \<Rightarrow>
         bindE (ok_or (err_custom ''jsonrpc field is missing'') (as_str (member_of body ''jsonrpc''))) (\<lambda>jsonrpc.
         if jsonrpc \<noteq> ''2.0'' then Inl (err_custom ''jsonrpc field is not 2.0'')
         else
         bindE (ok_or (err_custom ''method field is missing'') (as_str (member_of body ''method''))) (\<lambda>meth.
         let params = as_array (member_of body ''params'') in
         bindE (parse_call meth params) (\<lambda>parsed_call.
           Inr [\<lparr>pr_id = member_of body ''id'', pr_method = meth, pr_parsed_call = parsed_call, pr_params = params\<rparr>]))))"

section \<open>The shared data\<close>

record call_info =
  ci_id :: nat
  ci_request :: "string option"
  ci_response :: "string option"
  ci_parsed_request :: "parsed_request list"
  ci_date :: timestamp
  ci_response_time :: rat
  ci_status_code :: nat

record key_data =
  kd_key :: string
  kd_value :: string
  kd_total_calls :: nat
  kd_total_requests :: nat
  kd_calls :: "call_info list"
  kd_problems :: endpoint_simulate_problems

text \<open>The hash map of the keys is a partial function.\<close>

type_synonym shared_data = "string \<rightharpoonup> key_data"

definition key_data_new :: "string \<Rightarrow> key_data" where
  "key_data_new key = \<lparr>kd_key = key, kd_value = ''1'', kd_total_calls = 0, kd_total_requests = 0, kd_calls = [],
     kd_problems = problems_default\<rparr>"

definition begin_call :: "string \<Rightarrow> shared_data \<Rightarrow> endpoint_simulate_problems \<times> shared_data" where
  "begin_call key keys = (case keys key of
       Some kd \<Rightarrow> (kd_problems kd, keys(key \<mapsto> kd\<lparr>kd_value := ''test'', kd_total_requests := kd_total_requests kd + 1\<rparr>))
     | None \<Rightarrow> (problems_default, keys(key \<mapsto> key_data_new key)))"

definition push_call :: "nat \<Rightarrow> call_info \<Rightarrow> key_data \<Rightarrow> key_data" where
  "push_call request_queue_size info kd =
     (let info = (if kd_calls kd \<noteq> [] then info\<lparr>ci_id := ci_id (last (kd_calls kd)) + 1\<rparr> else info);
          calls = kd_calls kd @ [info]
      in kd\<lparr>kd_total_calls := kd_total_calls kd + 1,
            kd_calls := (if length calls > request_queue_size then tl calls else calls)\<rparr>)"

definition finish_call :: "nat \<Rightarrow> string \<Rightarrow> call_info \<Rightarrow> shared_data \<Rightarrow> shared_data option" where
  "finish_call request_queue_size key info keys = (case keys key of
       None \<Rightarrow> None | Some kd \<Rightarrow> Some (keys(key \<mapsto> push_call request_queue_size (info\<lparr>ci_id := 0\<rparr>) kd)))"

definition set_problems :: "string \<Rightarrow> endpoint_simulate_problems \<Rightarrow> shared_data \<Rightarrow> shared_data" where
  "set_problems key problems keys =
     (let kd = (case keys key of Some kd \<Rightarrow> kd | None \<Rightarrow> key_data_new key) in keys(key \<mapsto> kd\<lparr>kd_problems := problems\<rparr>))"

definition remove_endpoint_history :: "string \<Rightarrow> shared_data \<Rightarrow> shared_data" where
  "remove_endpoint_history key keys = keys(key := None)"

definition remove_all_history :: "shared_data \<Rightarrow> shared_data" where
  "remove_all_history keys = Map.empty"

section \<open>Reading the history\<close>

datatype lookup =
    CallFound nat call_info
  | KeyNotFound
  | NoCallsForKey
  | CallDeleted
  | CallNotThereYet

text \<open>The position of a call is computed from the id of the oldest one that is kept.\<close>

definition get_call :: "string \<Rightarrow> nat \<Rightarrow> shared_data \<Rightarrow> failure + lookup" where
  "get_call key call_no keys = (case keys key of
       None \<Rightarrow> Inr KeyNotFound
     | Some kd \<Rightarrow> (case kd_calls kd of
           [] \<Rightarrow> Inr NoCallsForKey
         | c # cs \<Rightarrow>
             let first_key_no = ci_id c; last_key_no = first_key_no + length (c # cs) - 1 in
             if call_no < first_key_no then Inr CallDeleted
             else if call_no > last_key_no then Inr CallNotThereYet
             else if call_no - first_key_no < length (c # cs) then Inr (CallFound call_no ((c # cs) ! (call_no - first_key_no)))
             else Inl (Panic ''Out of bounds access'')))"

definition call_limit :: "http_request \<Rightarrow> nat option" where
  "call_limit req = map_option (\<lambda>s. case u64_from_str s of Some n \<Rightarrow> n | None \<Rightarrow> 0) (rq_match_info req ''limit'')"

definition get_calls :: "string \<Rightarrow> nat option \<Rightarrow> shared_data \<Rightarrow> call_info list option" where
  "get_calls key limit keys = map_option (\<lambda>kd.
     let limit = min (case limit of Some n \<Rightarrow> n | None \<Rightarrow> length (kd_calls kd)) (length (kd_calls kd))
     in take limit (rev (kd_calls kd))) (keys key)"

record method_info =
  mi_id :: string
  mi_method :: string
  mi_parsed_call :: "parsed_eth_call_request option"
  mi_date :: timestamp
  mi_response_time :: rat

definition method_info_of :: "(json_value \<Rightarrow> string) \<Rightarrow> call_info \<Rightarrow> parsed_request \<Rightarrow> method_info" where
  "method_info_of json_text call req = \<lparr>mi_id = json_text (pr_id req), mi_method = pr_method req, mi_parsed_call = pr_parsed_call req,
     mi_date = ci_date call, mi_response_time = ci_response_time call\<rparr>"

definition get_methods :: "(json_value \<Rightarrow> string) \<Rightarrow> string \<Rightarrow> nat option \<Rightarrow> shared_data \<Rightarrow> method_info list option" where
  "get_methods json_text key limit keys = map_option (\<lambda>calls.
     concat (map (\<lambda>call. map (method_info_of json_text call) (ci_parsed_request call)) calls)) (get_calls key limit keys)"

definition get_problems :: "string \<Rightarrow> shared_data \<Rightarrow> endpoint_simulate_problems option" where
  "get_problems key keys = map_option kd_problems (keys key)"

definition get_keys :: "shared_data \<Rightarrow> string set" where
  "get_keys keys = dom keys"

definition active_seconds :: "http_request \<Rightarrow> i64" where
  "active_seconds req = (case i64_from_str (case rq_match_info req ''seconds'' of Some s \<Rightarrow> s | None \<Rightarrow> ''3600'') of
     Some n \<Rightarrow> n | None \<Rightarrow> 3600)"

definition get_active_keys :: "timestamp \<Rightarrow> i64 \<Rightarrow> shared_data \<Rightarrow> string set" where
  "get_active_keys now_time last_seconds keys = {key. case keys key of
       None \<Rightarrow> False
     | Some kd \<Rightarrow> kd_calls kd \<noteq> [] \<and> now_time - ci_date (last (kd_calls kd)) \<le> last_seconds}"

section \<open>Forwarding a call (\<open>web3\<close>)\<close>

datatype target_answer = NoAnswer | NoBody | NotText | AnswerText nat string

record proxy_env =
  px_request_queue_size :: nat
  px_parse_json :: "string \<Rightarrow> string + json_value"
  px_error_text :: "error_bag \<Rightarrow> string"
  px_json_text :: "json_value \<Rightarrow> string"
  px_date :: "nat \<Rightarrow> timestamp"
  px_elapsed :: "nat \<Rightarrow> rat"
  px_draw :: "nat \<Rightarrow> rat"
  px_range :: "nat \<Rightarrow> rat \<Rightarrow> rat \<Rightarrow> rat"
  px_hash :: "nat \<Rightarrow> string"
  px_target :: "nat \<Rightarrow> json_value \<Rightarrow> target_answer"
  px_others :: "nat \<Rightarrow> shared_data \<Rightarrow> shared_data"

record proxy_world =
  pw_keys :: shared_data
  pw_count :: nat
  pw_forwarded :: "json_value list"

record proxy_response =
  re_status :: nat
  re_is_json :: bool
  re_body :: "string option"

datatype proxy_stop = Respond proxy_response | Broken failure

type_synonym 'a proxy = "(proxy_world, proxy_stop, 'a) prog"

definition px_ask :: "(nat \<Rightarrow> 'a) \<Rightarrow> 'a proxy" where
  "px_ask f w = (Inr (f (pw_count w)), w\<lparr>pw_count := pw_count w + 1\<rparr>)"

definition px_respond :: "nat \<Rightarrow> string \<Rightarrow> 'a proxy" where
  "px_respond status text = throw (Respond \<lparr>re_status = status, re_is_json = False, re_body = Some text\<rparr>)"

text \<open>A number is drawn only for a chance above zero.\<close>

definition hit :: "proxy_env \<Rightarrow> rat \<Rightarrow> bool proxy" where
  "hit V chance = (if chance > 0 then bindM (px_ask (px_draw V)) (\<lambda>x. ret (x < chance)) else ret False)"

definition sends_transaction :: "parsed_request list \<Rightarrow> bool" where
  "sends_transaction rs = (case rs of r # _ \<Rightarrow> pr_method r = ''eth_sendRawTransaction'' | [] \<Rightarrow> False)"

text \<open>Status, body and whether the body is marked as JSON.\<close>

type_synonym outcome = "nat \<times> string option \<times> bool"

definition skipped_answer :: "proxy_env \<Rightarrow> parsed_request list \<Rightarrow> string \<Rightarrow> string" where
  "skipped_answer V rs hash = px_json_text V (VObj [(''jsonrpc'', VStr ''2.0''),
     (''id'', (case rs of r # _ \<Rightarrow> pr_id r | [] \<Rightarrow> VNull)), (''result'', VStr (''0x'' @ hash))])"

definition answer_of_target :: "proxy_env \<Rightarrow> endpoint_simulate_problems \<Rightarrow> parsed_request list \<Rightarrow> target_answer \<Rightarrow> outcome proxy" where
  "answer_of_target V problems rs res = (case res of
       AnswerText status body \<Rightarrow>
         bindM (if sp_send_transaction_but_report_failure_chance problems > 0 \<and> sends_transaction rs
                then hit V (sp_send_transaction_but_report_failure_chance problems) else ret False) (\<lambda>report.
         if report then ret (500, None, False)
         else bindM (hit V (sp_malformed_response_chance problems)) (\<lambda>malformed.
           if malformed then
             if char_boundary (length body div 2) body then ret (status, Some (take (length body div 2) body), False)
             else throw (Broken (Panic ''byte index is not a char boundary''))
           else ret (status, Some body, False)))
     | _ \<Rightarrow> ret (500, None, False))"

definition forward :: "proxy_env \<Rightarrow> json_value \<Rightarrow> target_answer proxy" where
  "forward V body = bindM (modify (\<lambda>w. w\<lparr>pw_forwarded := pw_forwarded w @ [body]\<rparr>)) (\<lambda>_. px_ask (\<lambda>n. px_target V n body))"

definition simulate :: "proxy_env \<Rightarrow> endpoint_simulate_problems \<Rightarrow> parsed_request list \<Rightarrow> json_value \<Rightarrow> outcome proxy" where
  "simulate V problems rs body =
     bindM (hit V (sp_error_chance problems)) (\<lambda>e.
     if e then ret (500, Some ''simulated 500 error'', False)
     else bindM (hit V (sp_timeout_chance problems)) (\<lambda>t.
     if t then ret (504, Some ''simulated 500 error'', False)
     else bindM (if sends_transaction rs then hit V (sp_skip_sending_raw_transaction_chance problems) else ret False) (\<lambda>s.
     if s then bindM (px_ask (px_hash V)) (\<lambda>h. ret (200, Some (skipped_answer V rs h), True))
     else bindM (forward V body) (answer_of_target V problems rs))))"

text \<open>The delay of the answer: an empty range and a negative duration panic.\<close>

definition delay :: "proxy_env \<Rightarrow> endpoint_simulate_problems \<Rightarrow> unit proxy" where
  "delay V problems =
     bindM (if sp_min_timeout_ms problems = sp_max_timeout_ms problems then ret (sp_min_timeout_ms problems)
            else if sp_min_timeout_ms problems < sp_max_timeout_ms problems
            then px_ask (\<lambda>n. px_range V n (sp_min_timeout_ms problems) (sp_max_timeout_ms problems))
            else throw (Broken (Panic ''cannot sample empty range''))) (\<lambda>target_ms.
       if target_ms < 0 then throw (Broken (Panic ''can not convert float seconds to Duration: value is negative'')) else ret ())"

definition others_run :: "proxy_env \<Rightarrow> unit proxy" where
  "others_run V w = (Inr (), w\<lparr>pw_keys := px_others V (pw_count w) (pw_keys w), pw_count := pw_count w + 1\<rparr>)"

definition record_call :: "proxy_env \<Rightarrow> string \<Rightarrow> call_info \<Rightarrow> unit proxy" where
  "record_call V key info w = (case finish_call (px_request_queue_size V) key info (pw_keys w) of
       None \<Rightarrow> (Inl (Respond \<lparr>re_status = 500, re_is_json = False,
           re_body = Some ''Key not found - something went really wrong, because it should be here''\<rparr>), w)
     | Some keys \<Rightarrow> (Inr (), w\<lparr>pw_keys := keys\<rparr>))"

definition parsed_or_refused :: "proxy_env \<Rightarrow> endpoint_simulate_problems \<Rightarrow> json_value \<Rightarrow> parsed_request list proxy" where
  "parsed_or_refused V problems body = (case parse_request body of
       Inr rs \<Rightarrow> ret rs
     | Inl (Err e) \<Rightarrow> if sp_allow_only_parsed_calls problems then px_respond 400 (px_error_text V e) else ret []
     | Inl f \<Rightarrow> throw (Broken f))"

definition web3 :: "proxy_env \<Rightarrow> string \<Rightarrow> string \<Rightarrow> proxy_response proxy" where
  "web3 V key body_str = (case px_parse_json V body_str of
       Inl e \<Rightarrow> px_respond 500 e
     | Inr body \<Rightarrow>
         bindM (gets (\<lambda>w. fst (begin_call key (pw_keys w)))) (\<lambda>problems.
         bindM (modify (\<lambda>w. w\<lparr>pw_keys := snd (begin_call key (pw_keys w))\<rparr>)) (\<lambda>_.
         bindM (parsed_or_refused V problems body) (\<lambda>rs.
         if length rs \<ge> 2 \<and> sp_allow_only_single_calls problems then px_respond 400 ''Only single rpc call allowed at once''
         else
         bindM (px_ask (px_date V)) (\<lambda>call_date.
         bindM (simulate V problems rs body) (\<lambda>(status, response, is_json).
         bindM (delay V problems) (\<lambda>_.
         bindM (others_run V) (\<lambda>_.
         bindM (px_ask (px_elapsed V)) (\<lambda>response_time.
         bindM (record_call V key \<lparr>ci_id = 0, ci_request = Some body_str, ci_response = response, ci_parsed_request = rs,
           ci_date = call_date, ci_response_time = response_time, ci_status_code = status\<rparr>) (\<lambda>_.
           ret \<lparr>re_status = status, re_is_json = is_json, re_body = response\<rparr>))))))))))"

section \<open>Plans of problems (\<open>plan.rs\<close>)\<close>

record problem_entry =
  pe_frames :: "nat list"
  pe_keys :: "string list"
  pe_values :: values_change_options

record problem_project =
  pp_name :: string
  pp_plan_type :: string
  pp_frame_interval :: rat
  pp_frame_cycle :: "nat option"
  pp_entries :: "problem_entry list"

record sorted_problem_entry =
  so_frame :: nat
  so_keys :: "string list"
  so_values :: values_change_options

record sorted_problem_iterator =
  si_sorted_entries :: "sorted_problem_entry list"
  si_current_index :: nat

definition entries_by_frame :: "problem_project \<Rightarrow> sorted_problem_entry list" where
  "entries_by_frame project = sort_key so_frame (concat (map (\<lambda>entry.
     map (\<lambda>frame. \<lparr>so_frame = frame, so_keys = pe_keys entry, so_values = pe_values entry\<rparr>) (pe_frames entry)) (pp_entries project)))"

text \<open>A key must not be listed twice for a frame.\<close>

definition key_frames :: "sorted_problem_entry list \<Rightarrow> (string \<times> nat) list" where
  "key_frames es = concat (map (\<lambda>e. map (\<lambda>k. (k, so_frame e)) (so_keys e)) es)"

definition from_problem_project :: "problem_project \<Rightarrow> failure + sorted_problem_iterator" where
  "from_problem_project project = (let es = entries_by_frame project in
     if distinct (key_frames es) then Inr \<lparr>si_sorted_entries = es, si_current_index = 0\<rparr>
     else Inl (Panic ''Duplicate key frame''))"

definition get_next_entry :: "nat \<Rightarrow> sorted_problem_iterator \<Rightarrow> sorted_problem_entry option \<times> sorted_problem_iterator" where
  "get_next_entry current_frame it =
     (if si_current_index it < length (si_sorted_entries it)
      then let e = si_sorted_entries it ! si_current_index it in
        if so_frame e \<le> current_frame then (Some e, it\<lparr>si_current_index := si_current_index it + 1\<rparr>) else (None, it)
      else (None, it))"

definition apply_to_key :: "values_change_options \<Rightarrow> string \<Rightarrow> shared_data \<Rightarrow> shared_data" where
  "apply_to_key values key keys = (let kd = (case keys key of Some kd \<Rightarrow> kd | None \<Rightarrow> key_data_new key)
     in keys(key \<mapsto> kd\<lparr>kd_problems := apply_change values (kd_problems kd)\<rparr>))"

definition apply_entry :: "sorted_problem_entry \<Rightarrow> shared_data \<Rightarrow> shared_data" where
  "apply_entry e keys = fold (apply_to_key (so_values e)) (so_keys e) keys"

function play_frame :: "nat \<Rightarrow> sorted_problem_iterator \<Rightarrow> shared_data \<Rightarrow> sorted_problem_iterator \<times> shared_data" where
  "play_frame frame_no it keys = (case get_next_entry frame_no it of
       (Some e, it') \<Rightarrow> play_frame frame_no it' (apply_entry e keys) | (None, it') \<Rightarrow> (it', keys))"
  by pat_completeness auto
termination
  by (relation "measure (\<lambda>(n, it, keys). length (si_sorted_entries it) - si_current_index it)")
    (auto simp: get_next_entry_def Let_def split: if_splits)

declare play_frame.simps [simp del]

text \<open>One turn of the loop: the frame number and the iterator start over when a cycle is finished.\<close>

definition play_turn ::
    "problem_project \<Rightarrow> nat \<times> sorted_problem_iterator \<times> shared_data \<Rightarrow> failure + nat \<times> sorted_problem_iterator \<times> shared_data" where
  "play_turn project st = (case st of (frame_no, it, keys) \<Rightarrow>
     bindE (case pp_frame_cycle project of
         Some frame_cycle \<Rightarrow> if frame_no \<ge> frame_cycle then bindE (from_problem_project project) (\<lambda>it'. Inr (0, it'))
           else Inr (frame_no, it)
       | None \<Rightarrow> Inr (frame_no, it)) (\<lambda>(frame, it1).
       case play_frame frame it1 keys of (it2, keys') \<Rightarrow> Inr (frame + 1, it2, keys')))"

section \<open>Routes\<close>

datatype proxy_endpoint =
    Web3 | ProxyGreet | ProxyConfig | GetCall | GetCalls | GetMethods | SetProblems | GetProblems | GetKeys
  | GetActiveKeys | DeleteAll | DeleteKey | RedirectToFrontend | FrontendServe

definition proxy_routes :: "proxy_endpoint route list" where
  "proxy_routes =
     [((GET, [Lit ''web3'', Par ''key'']), Web3), ((POST, [Lit ''web3'', Par ''key'']), Web3), ((GET, [Lit ''api'']), ProxyGreet),
      ((GET, [Lit '''']), RedirectToFrontend), ((GET, [Lit ''frontend'']), RedirectToFrontend)]
     @ map (\<lambda>((m, segs), e). ((m, Lit ''api'' # segs), e))
     [((GET, [Lit '''']), ProxyGreet), ((GET, [Lit ''config'']), ProxyConfig),
      ((GET, [Lit ''call'', Par ''key'', Par ''call_no'']), GetCall), ((GET, [Lit ''calls'', Par ''key'']), GetCalls),
      ((GET, [Lit ''calls'', Par ''key'', Par ''limit'']), GetCalls), ((GET, [Lit ''methods'', Par ''key'']), GetMethods),
      ((GET, [Lit ''methods'', Par ''key'', Par ''limit'']), GetMethods), ((GET, [Lit ''version'']), ProxyGreet),
      ((POST, [Lit ''problems'', Lit ''set'', Par ''key'']), SetProblems), ((GET, [Lit ''problems'', Par ''key'']), GetProblems),
      ((GET, [Lit ''keys'']), GetKeys), ((GET, [Lit ''keys'', Lit ''active'', Par ''seconds'']), GetActiveKeys),
      ((GET, [Lit ''keys'', Lit ''active'']), GetActiveKeys), ((POST, [Lit ''keys'', Lit ''delete_all'']), DeleteAll),
      ((POST, [Lit ''keys'', Lit ''delete'', Par ''key'']), DeleteKey)]"

end
