(* ===== verification/ProxyProofs.thy ===== *)
theory ProxyProofs imports Proxy begin

text \<open>
  The history of the test proxy under every interleaving of its requests, what of a call reaches the node, and
  the meaning of a plan of problems.
\<close>

section \<open>The history of calls\<close>

text \<open>The atomic sections of the requests: what happens while the lock is held.\<close>

inductive proxy_step :: "nat \<Rightarrow> shared_data \<Rightarrow> shared_data \<Rightarrow> bool" for Q where
  start: "proxy_step Q keys (snd (begin_call key keys))"
| finish: "finish_call Q key info keys = Some keys' \<Longrightarrow> proxy_step Q keys keys'"
| set_problems: "proxy_step Q keys (set_problems key problems keys)"
| remove: "proxy_step Q keys (remove_endpoint_history key keys)"
| remove_all: "proxy_step Q keys (remove_all_history keys)"
| plan: "proxy_step Q keys (apply_to_key values key keys)"

abbreviation proxy_steps :: "nat \<Rightarrow> shared_data \<Rightarrow> shared_data \<Rightarrow> bool" where
  "proxy_steps Q \<equiv> (proxy_step Q)\<^sup>*\<^sup>*"

text \<open>The calls of a key have consecutive ids and are not more than the queue holds.\<close>

definition calls_ok :: "nat \<Rightarrow> key_data \<Rightarrow> bool" where
  "calls_ok Q kd \<longleftrightarrow> length (kd_calls kd) \<le> Q \<and>
     (\<exists>first. map ci_id (kd_calls kd) = [first..<first + length (kd_calls kd)])"

definition history_ok :: "nat \<Rightarrow> shared_data \<Rightarrow> bool" where
  "history_ok Q keys \<longleftrightarrow> (\<forall>kd\<in>ran keys. calls_ok Q kd)"

lemma calls_ok_cong: "kd_calls kd = kd_calls kd' \<Longrightarrow> calls_ok Q kd = calls_ok Q kd'"
  by (simp add: calls_ok_def)

lemma calls_ok_new: "calls_ok Q (key_data_new key)"
  by (simp add: calls_ok_def key_data_new_def)

lemma tl_upt: "tl [a..<b] = [Suc a..<b]"
  by (cases "a < b") (simp_all add: upt_conv_Cons del: upt_Suc)

lemma calls_ok_push:
  assumes "calls_ok Q kd" and "ci_id info = 0"
  shows "calls_ok Q (push_call Q info kd)"
proof -
  let ?calls = "kd_calls kd @ [if kd_calls kd \<noteq> [] then info\<lparr>ci_id := ci_id (last (kd_calls kd)) + 1\<rparr> else info]"
  obtain first where first: "map ci_id (kd_calls kd) = [first..<first + length (kd_calls kd)]" using assms(1) by (auto simp: calls_ok_def)
  obtain start where start: "map ci_id ?calls = [start..<start + length ?calls]"
  proof (cases "kd_calls kd = []")
    case True
    then show ?thesis using assms(2) that [of 0] by simp
  next
    case False
    then have "ci_id (last (kd_calls kd)) + 1 = first + length (kd_calls kd)"
      using first by (simp add: last_map [symmetric])
    then show ?thesis using first False that [of first] by simp
  qed
  have "map ci_id (tl ?calls) = tl (map ci_id ?calls)" by (rule map_tl)
  also have "\<dots> = [Suc start..<Suc start + length (tl ?calls)]"
    by (subst start) (simp add: tl_upt del: upt_Suc)
  finally have "map ci_id (tl ?calls) = [Suc start..<Suc start + length (tl ?calls)]" .
  with start show ?thesis using assms(1)
    by (auto simp: calls_ok_def push_call_def Let_def simp del: map_append intro: exI [of _ start] exI [of _ "Suc start"])
qed

lemma calls_ok_edit: "calls_ok Q kd \<Longrightarrow> kd_calls kd' = kd_calls kd \<Longrightarrow> calls_ok Q kd'"
  using calls_ok_cong by blast

lemma history_ok_upd: "history_ok Q keys \<Longrightarrow> calls_ok Q kd \<Longrightarrow> history_ok Q (keys(key \<mapsto> kd))"
  by (auto simp: history_ok_def ran_def)

lemma history_ok_at: "history_ok Q keys \<Longrightarrow> keys key = Some kd \<Longrightarrow> calls_ok Q kd"
  by (auto simp: history_ok_def ran_def)

lemma step_history_ok: "proxy_step Q keys keys' \<Longrightarrow> history_ok Q keys \<Longrightarrow> history_ok Q keys'"
proof (induction rule: proxy_step.induct)
  case (start keys key)
  then show ?case
    by (cases "keys key") (auto simp: begin_call_def simp del: fun_upd_apply
        intro!: history_ok_upd calls_ok_new intro: calls_ok_edit [OF history_ok_at])
next
  case (finish key info keys keys')
  then show ?case
    by (auto simp: finish_call_def split: option.splits intro!: history_ok_upd calls_ok_push dest: history_ok_at)
next
  case (set_problems keys key problems)
  then show ?case
    by (cases "keys key") (auto simp: set_problems_def Let_def simp del: fun_upd_apply
        intro!: history_ok_upd intro: calls_ok_edit [OF history_ok_at] calls_ok_edit [OF calls_ok_new])
next
  case (remove keys key)
  then show ?case by (auto simp: remove_endpoint_history_def history_ok_def ran_def)
next
  case (remove_all keys)
  then show ?case by (simp add: remove_all_history_def history_ok_def)
next
  case (plan keys "values" key)
  then show ?case
    by (cases "keys key") (auto simp: apply_to_key_def Let_def simp del: fun_upd_apply
        intro!: history_ok_upd intro: calls_ok_edit [OF history_ok_at] calls_ok_edit [OF calls_ok_new])
qed

lemma steps_history_ok: "proxy_steps Q keys keys' \<Longrightarrow> history_ok Q keys \<Longrightarrow> history_ok Q keys'"
  by (induction rule: rtranclp_induct) (auto intro: step_history_ok)

text \<open>The reference: search the queue for the id.\<close>

definition search_call :: "nat \<Rightarrow> call_info list \<Rightarrow> lookup" where
  "search_call call_no calls = (case calls of
       [] \<Rightarrow> NoCallsForKey
     | c # _ \<Rightarrow> (case find (\<lambda>c. ci_id c = call_no) calls of
           Some call \<Rightarrow> CallFound call_no call
         | None \<Rightarrow> if call_no < ci_id c then CallDeleted else CallNotThereYet))"

lemma find_consecutive:
  assumes "map ci_id calls = [first..<first + length calls]"
  shows "find (\<lambda>c. ci_id c = n) calls =
    (if first \<le> n \<and> n < first + length calls then Some (calls ! (n - first)) else None)"
  using assms
proof (induction calls arbitrary: first)
  case (Cons c calls)
  have c: "ci_id c = first" "map ci_id calls = [Suc first..<Suc first + length calls]"
    using Cons.prems by (simp_all add: upt_conv_Cons del: upt_Suc)
  show ?case using Cons.IH [OF c(2)] c(1) by (auto simp: nth_Cons' Suc_le_eq)
qed simp

lemma get_call_search:
  assumes "calls_ok Q kd" and "keys key = Some kd"
  shows "get_call key n keys = Inr (search_call n (kd_calls kd))"
proof (cases "kd_calls kd")
  case Nil
  then show ?thesis using assms(2) by (simp add: get_call_def search_call_def)
next
  case (Cons c cs)
  obtain first where first: "map ci_id (c # cs) = [first..<first + length (c # cs)]" using assms(1) Cons by (auto simp: calls_ok_def)
  then have "ci_id c = first" by (simp add: upt_conv_Cons del: upt_Suc)
  then show ?thesis using assms(2) Cons find_consecutive [OF first, of n]
    by (auto simp: get_call_def search_call_def Let_def)
qed
section \<open>A call next to other requests\<close>

text \<open>While a call waits, the others change the data by steps only.\<close>

locale shared_history =
  fixes V :: proxy_env
  assumes others: "proxy_steps (px_request_queue_size V) keys (px_others V n keys)"
begin

definition by_calls :: "'a proxy \<Rightarrow> bool" where
  "by_calls m \<longleftrightarrow> (\<forall>w. proxy_steps (px_request_queue_size V) (pw_keys w) (pw_keys (snd (m w))))"

lemma by_calls_basic:
  "by_calls (ret a)" "by_calls (throw e)" "by_calls (gets f)" "by_calls (px_ask g)" "by_calls (px_respond n t)"
  "by_calls (others_run V)" "by_calls (forward V body)"
  using others by (simp_all add: by_calls_def px_ask_def px_respond_def others_run_def forward_def)

lemma by_calls_bindM: "by_calls m \<Longrightarrow> (\<And>a. by_calls (f a)) \<Longrightarrow> by_calls (bindM m f)"
  by (fastforce simp: by_calls_def bindM_def split: prod.splits sum.splits intro: rtranclp_trans dest: spec)

lemma by_calls_begin: "by_calls (modify (\<lambda>w. w\<lparr>pw_keys := snd (begin_call key (pw_keys w))\<rparr>))"
  by (simp add: by_calls_def r_into_rtranclp proxy_step.start)

lemma by_calls_record: "by_calls (record_call V key info)"
  by (auto simp: by_calls_def record_call_def split: option.split intro: r_into_rtranclp proxy_step.finish)

lemma by_calls_hit: "by_calls (hit V chance)"
  unfolding hit_def by (auto intro!: by_calls_bindM by_calls_basic)

lemma by_calls_if: "by_calls m \<Longrightarrow> by_calls m' \<Longrightarrow> by_calls (if c then m else m')"
  by simp

lemma by_calls_answer: "by_calls (answer_of_target V problems rs res)"
  unfolding answer_of_target_def
  by (cases res; simp only: target_answer.case; intro by_calls_bindM by_calls_if by_calls_hit by_calls_basic)

lemma by_calls_simulate: "by_calls (simulate V problems rs body)"
  unfolding simulate_def by (intro by_calls_bindM by_calls_if by_calls_hit by_calls_basic by_calls_answer)

lemma by_calls_web3: "by_calls (web3 V key body_str)"
  unfolding web3_def delay_def parsed_or_refused_def
  by (auto intro!: by_calls_bindM by_calls_basic by_calls_begin by_calls_record by_calls_simulate
      split: sum.split failure.split simp: by_calls_basic by_calls_simulate)

lemma web3_steps:
  "proxy_steps (px_request_queue_size V) keys (pw_keys w) \<Longrightarrow>
   proxy_steps (px_request_queue_size V) keys (pw_keys (snd (web3 V key body_str w)))"
  using by_calls_web3 unfolding by_calls_def by (meson rtranclp_trans)

end

text \<open>The instances: a call alone, and a call that another one overtakes.\<close>

definition other_call :: "proxy_env \<Rightarrow> string \<Rightarrow> string \<Rightarrow> proxy_env" where
  "other_call V key body_str = V\<lparr>px_others := \<lambda>n keys.
     pw_keys (snd (web3 V key body_str \<lparr>pw_keys = keys, pw_count = n, pw_forwarded = []\<rparr>))\<rparr>"

definition quiet_proxy :: proxy_env where
  "quiet_proxy = \<lparr>px_request_queue_size = 2,
     px_parse_json = (\<lambda>s. if s = '''' then Inl ''EOF while parsing a value at line 1 column 0''
       else Inr (VObj [(''jsonrpc'', VStr ''2.0''), (''id'', VNum 1), (''method'', VStr s), (''params'', VArr [])])),
     px_error_text = (\<lambda>_. ''refused''), px_json_text = (\<lambda>_. ''{}''), px_date = int, px_elapsed = (\<lambda>_. 0),
     px_draw = (\<lambda>_. 0), px_range = (\<lambda>_ lo _. lo), px_hash = (\<lambda>_. ''00''),
     px_target = (\<lambda>_ _. AnswerText 200 ''ok''), px_others = (\<lambda>_ keys. keys)\<rparr>"

lemma queue_of_other_call [simp]: "px_request_queue_size (other_call V key body_str) = px_request_queue_size V"
  by (simp add: other_call_def)

interpretation alone: shared_history quiet_proxy
  by unfold_locales (simp add: quiet_proxy_def)

interpretation overtaken: shared_history "other_call quiet_proxy key body_str" for key body_str
proof (unfold_locales, goal_cases)
  case (1 keys n)
  show ?case
    using alone.by_calls_web3 [of key body_str]
    unfolding alone.by_calls_def queue_of_other_call
    by (auto simp: other_call_def dest: spec [of _ "\<lparr>pw_keys = keys, pw_count = n, pw_forwarded = []\<rparr>"])
qed

text \<open>C32. Whatever requests, plans and deletions run and however they interleave, a call is looked up by its number
  exactly as a search of the history would find it, without a panic, and no history is longer than the queue. A
  call that is running keeps this, on every path.\<close>

theorem call_lookup_is_search:
  assumes "shared_history V" and "proxy_steps (px_request_queue_size V) Map.empty (pw_keys w)"
    and "w' = w \<or> w' = snd (web3 V caller body_str w)"
  shows "get_call key n (pw_keys w') =
      Inr (case pw_keys w' key of None \<Rightarrow> KeyNotFound | Some kd \<Rightarrow> search_call n (kd_calls kd)) \<and>
    (\<forall>kd. pw_keys w' key = Some kd \<longrightarrow>
      length (kd_calls kd) \<le> px_request_queue_size V \<and> distinct (map ci_id (kd_calls kd)))"
proof -
  have "proxy_steps (px_request_queue_size V) Map.empty (pw_keys w')"
    using assms shared_history.web3_steps by blast
  then have ok: "history_ok (px_request_queue_size V) (pw_keys w')"
    by (rule steps_history_ok) (simp add: history_ok_def)
  show ?thesis
  proof (cases "pw_keys w' key")
    case None
    then show ?thesis by (simp add: get_call_def)
  next
    case (Some kd)
    then have kd: "calls_ok (px_request_queue_size V) kd" using history_ok_at ok by blast
    then have "length (kd_calls kd) \<le> px_request_queue_size V" "distinct (map ci_id (kd_calls kd))"
      by (auto simp: calls_ok_def)
    then show ?thesis using get_call_search [of _ kd "pw_keys w'" key n, OF kd Some] Some by simp
  qed
qed

definition no_calls :: proxy_world where
  "no_calls = \<lparr>pw_keys = Map.empty, pw_count = 0, pw_forwarded = []\<rparr>"

lemma call_lookup_is_search_witness:
  "get_call ''k'' 0 (pw_keys (snd (web3 quiet_proxy ''k'' ''eth_blockNumber'' no_calls))) = Inr (CallFound 0
     \<lparr>ci_id = 0, ci_request = Some ''eth_blockNumber'', ci_response = Some ''ok'',
      ci_parsed_request = [\<lparr>pr_id = VNum 1, pr_method = ''eth_blockNumber'', pr_parsed_call = None, pr_params = []\<rparr>],
      ci_date = 0, ci_response_time = 0, ci_status_code = 200\<rparr>)"
proof -
  have run: "pw_keys (snd (web3 quiet_proxy ''k'' ''eth_blockNumber'' no_calls)) = [''k'' \<mapsto> (key_data_new ''k'')\<lparr>
      kd_total_calls := 1, kd_calls := [\<lparr>ci_id = 0, ci_request = Some ''eth_blockNumber'', ci_response = Some ''ok'',
      ci_parsed_request = [\<lparr>pr_id = VNum 1, pr_method = ''eth_blockNumber'', pr_parsed_call = None, pr_params = []\<rparr>],
      ci_date = 0, ci_response_time = 0, ci_status_code = 200\<rparr>]\<rparr>]"
    by (simp add: web3_def quiet_proxy_def no_calls_def begin_call_def parsed_or_refused_def parse_request_def as_str_def
        member_of_def ok_or_def parse_call_def as_array_def problems_default_def simulate_def hit_def sends_transaction_def
        forward_def answer_of_target_def delay_def px_ask_def others_run_def record_call_def finish_call_def
        push_call_def key_data_new_def bindM_def)
  show ?thesis
    using call_lookup_is_search [of quiet_proxy no_calls "snd (web3 quiet_proxy ''k'' ''eth_blockNumber'' no_calls)" "''k''"
        "''eth_blockNumber''" "''k''" 0, OF alone.shared_history_axioms]
    unfolding run by (simp add: no_calls_def search_call_def)
qed

section \<open>Plans\<close>

text \<open>The loop of a plan, as many turns as it is given.\<close>

primrec play_turns ::
    "problem_project \<Rightarrow> nat \<Rightarrow> nat \<times> sorted_problem_iterator \<times> shared_data \<Rightarrow>
     failure + nat \<times> sorted_problem_iterator \<times> shared_data" where
  "play_turns project 0 st = Inr st"
| "play_turns project (Suc n) st = bindE (play_turns project n st) (play_turn project)"

definition iterator_at :: "sorted_problem_entry list \<Rightarrow> nat \<Rightarrow> sorted_problem_iterator" where
  "iterator_at es n = \<lparr>si_sorted_entries = es, si_current_index = length (filter (\<lambda>e. so_frame e < n) es)\<rparr>"

definition played_before :: "nat \<Rightarrow> sorted_problem_entry list \<Rightarrow> shared_data \<Rightarrow> shared_data" where
  "played_before n es = fold apply_entry (filter (\<lambda>e. so_frame e < n) es)"

lemma play_frame_drop:
  assumes "si_sorted_entries it = es" and "si_current_index it \<le> length es"
  shows "play_frame n it keys =
    (it\<lparr>si_current_index := si_current_index it + length (takeWhile (\<lambda>e. so_frame e \<le> n) (drop (si_current_index it) es))\<rparr>,
     fold apply_entry (takeWhile (\<lambda>e. so_frame e \<le> n) (drop (si_current_index it) es)) keys)"
  using assms
proof (induction n it keys rule: play_frame.induct)
  case (1 n it keys)
  show ?case
  proof (cases "si_current_index it < length es")
    case True
    note d = Cons_nth_drop_Suc [OF True, symmetric]
    show ?thesis
    proof (cases "so_frame (es ! si_current_index it) \<le> n")
      case le: True
      let ?it = "it\<lparr>si_current_index := Suc (si_current_index it)\<rparr>"
      have next_entry: "get_next_entry n it = (Some (es ! si_current_index it), ?it)"
        using le True "1.prems" by (simp add: get_next_entry_def)
      show ?thesis
        using "1.IH" [OF next_entry [symmetric], of "es ! si_current_index it"] le True "1.prems"
        by (subst play_frame.simps) (simp add: next_entry d)
    next
      case False
      then show ?thesis using True "1.prems" by (subst play_frame.simps) (simp add: get_next_entry_def d)
    qed
  next
    case False
    then show ?thesis using "1.prems" by (subst play_frame.simps) (simp add: get_next_entry_def)
  qed
qed

lemma takeWhile_sorted_key:
  "sorted (map so_frame es) \<Longrightarrow> takeWhile (\<lambda>e. so_frame e < n) es = filter (\<lambda>e. so_frame e < n) es"
  by (induction es) (auto simp: eq_commute [of "[]"] filter_empty_conv dest: le_less_trans)

lemma play_frame_sorted:
  assumes "sorted (map so_frame es)"
  shows "play_frame n (iterator_at es n) (played_before n es keys) = (iterator_at es (Suc n), played_before (Suc n) es keys)"
proof -
  let ?k = "length (filter (\<lambda>e. so_frame e < n) es)"
  have less: "filter (\<lambda>e. so_frame e < m) es = takeWhile (\<lambda>e. so_frame e < m) es" for m
    using takeWhile_sorted_key [OF assms] by simp
  have split: "filter (\<lambda>e. so_frame e < Suc n) es =
      filter (\<lambda>e. so_frame e < n) es @ takeWhile (\<lambda>e. so_frame e \<le> n) (drop ?k es)"
    using assms
  proof (induction es)
    case (Cons e es)
    show ?case
    proof (cases "so_frame e < n")
      case True
      then show ?thesis using Cons by simp
    next
      case False
      then have "filter (\<lambda>e. so_frame e < n) (e # es) = []" using Cons.prems by (auto simp: filter_empty_conv)
      then show ?thesis
        using takeWhile_sorted_key [OF Cons.prems, of "Suc n"] by (simp add: less_Suc_eq_le del: filter.simps takeWhile.simps)
    qed
  qed simp
  show ?thesis
    by (subst play_frame_drop [where es = es])
      (simp_all add: iterator_at_def played_before_def split length_filter_le)
qed

lemma fresh_iterator:
  assumes "from_problem_project project = Inr it"
  shows "it = iterator_at (entries_by_frame project) 0" and "sorted (map so_frame (entries_by_frame project))"
  using assms by (auto simp: from_problem_project_def Let_def iterator_at_def entries_by_frame_def split: if_splits)

lemma turn_within:
  assumes "sorted (map so_frame (entries_by_frame project))" and "\<forall>c. pp_frame_cycle project = Some c \<longrightarrow> n < c"
  shows "play_turn project (n, iterator_at (entries_by_frame project) n, played_before n (entries_by_frame project) keys) =
    Inr (Suc n, iterator_at (entries_by_frame project) (Suc n), played_before (Suc n) (entries_by_frame project) keys)"
  using assms play_frame_sorted [OF assms(1), of n keys] by (auto simp: play_turn_def split: option.split)

lemma played_before_0: "played_before 0 es keys = keys"
  by (simp add: played_before_def)

lemma turn_over:
  assumes "from_problem_project project = Inr it" and "pp_frame_cycle project = Some c" and "0 < c"
  shows "play_turn project (c, it', keys) = Inr (1, iterator_at (entries_by_frame project) 1, played_before 1 (entries_by_frame project) keys)"
  using assms(2,3) play_frame_sorted [OF fresh_iterator(2) [OF assms(1)], of 0 keys] fresh_iterator(1) [OF assms(1)] assms(1)
  by (simp add: play_turn_def played_before_0)

lemma turns_add: "play_turns project (m + n) st = bindE (play_turns project m st) (play_turns project n)"
proof (induction n)
  case 0
  show ?case by (cases "play_turns project m st") (simp_all add: bindE_def)
next
  case (Suc n)
  then show ?case by (cases "play_turns project m st") (simp_all add: bindE_def)
qed

lemma turns_within:
  assumes "sorted (map so_frame (entries_by_frame project))" and "\<forall>c. pp_frame_cycle project = Some c \<longrightarrow> m + n \<le> c"
  shows "play_turns project n (m, iterator_at (entries_by_frame project) m, played_before m (entries_by_frame project) keys) =
    Inr (m + n, iterator_at (entries_by_frame project) (m + n), played_before (m + n) (entries_by_frame project) keys)"
  using assms(2)
proof (induction n)
  case (Suc n)
  have less: "m + n < c" if "pp_frame_cycle project = Some c" for c using Suc.prems that by auto
  then have "\<forall>c. pp_frame_cycle project = Some c \<longrightarrow> m + n \<le> c" by (auto dest: less_imp_le)
  from Suc.IH [OF this] show ?case using turn_within [OF assms(1), of "m + n" keys] less by simp
qed simp

lemma turns_from_over:
  assumes "from_problem_project project = Inr it" and "pp_frame_cycle project = Some c" and "1 \<le> r" and "r \<le> c"
  shows "play_turns project r (c, it', keys) =
    Inr (r, iterator_at (entries_by_frame project) r, played_before r (entries_by_frame project) keys)"
  using turns_add [of project 1 "r - 1" "(c, it', keys)"] turn_over [OF assms(1,2), of it' keys] assms(3,4)
    turns_within [OF fresh_iterator(2) [OF assms(1)], of 1 "r - 1" keys] assms(2) by simp

text \<open>
  The plan read directly: what the entries that list a frame say for a key, and the data after that frame. A key is
  named at most once for a frame.
\<close>

definition planned :: "problem_project \<Rightarrow> nat \<Rightarrow> string \<Rightarrow> values_change_options option" where
  "planned project n key = map_option pe_values
     (find (\<lambda>entry. n \<in> set (pe_frames entry) \<and> key \<in> set (pe_keys entry)) (pp_entries project))"

definition changed_by :: "string \<Rightarrow> values_change_options \<Rightarrow> key_data option \<Rightarrow> key_data" where
  "changed_by key values x = (let kd = (case x of Some kd \<Rightarrow> kd | None \<Rightarrow> key_data_new key)
     in kd\<lparr>kd_problems := apply_change values (kd_problems kd)\<rparr>)"

definition frame_applied :: "problem_project \<Rightarrow> nat \<Rightarrow> shared_data \<Rightarrow> shared_data" where
  "frame_applied project n keys = (\<lambda>key. case planned project n key of
       None \<Rightarrow> keys key | Some values \<Rightarrow> Some (changed_by key values (keys key)))"

definition frames_applied :: "problem_project \<Rightarrow> nat \<Rightarrow> shared_data \<Rightarrow> shared_data" where
  "frames_applied project n = fold (frame_applied project) [0..<n]"

lemma apply_to_keys:
  "distinct ks \<Longrightarrow> fold (apply_to_key v) ks keys key = (if key \<in> set ks then Some (changed_by key v (keys key)) else keys key)"
  by (induction ks arbitrary: keys) (auto simp: apply_to_key_def changed_by_def Let_def)

lemma apply_entries:
  "distinct (concat (map so_keys es)) \<Longrightarrow> fold apply_entry es keys key =
    (case find (\<lambda>e. key \<in> set (so_keys e)) es of None \<Rightarrow> keys key | Some e \<Rightarrow> Some (changed_by key (so_values e) (keys key)))"
proof (induction es arbitrary: keys)
  case (Cons e es)
  have "find (\<lambda>e. key \<in> set (so_keys e)) es = None" if "key \<in> set (so_keys e)"
    using Cons.prems that by (auto simp: find_None_iff)
  then show ?case using Cons by (auto simp: apply_entry_def apply_to_keys split: option.split)
qed simp

definition entries_of :: "problem_entry \<Rightarrow> sorted_problem_entry list" where
  "entries_of entry = map (\<lambda>frame. \<lparr>so_frame = frame, so_keys = pe_keys entry, so_values = pe_values entry\<rparr>) (pe_frames entry)"

lemma find_frame:
  "map_option so_values (find (\<lambda>e. key \<in> set (so_keys e)) (filter (\<lambda>e. so_frame e = n) (entries_of entry))) =
    (if n \<in> set (pe_frames entry) \<and> key \<in> set (pe_keys entry) then Some (pe_values entry) else None)"
proof -
  have "map_option so_values (find (\<lambda>e. key \<in> set (so_keys e)) (filter (\<lambda>e. so_frame e = n)
      (map (\<lambda>frame. \<lparr>so_frame = frame, so_keys = ks, so_values = v\<rparr>) fs))) = (if n \<in> set fs \<and> key \<in> set ks then Some v else None)"
    for fs ks v by (induction fs) auto
  then show ?thesis by (simp add: entries_of_def)
qed

lemma find_planned:
  "map_option so_values (find (\<lambda>e. key \<in> set (so_keys e)) (filter (\<lambda>e. so_frame e = n) (entries_by_frame project))) =
    planned project n key"
proof -
  have "map_option so_values (find (\<lambda>e. key \<in> set (so_keys e)) (filter (\<lambda>e. so_frame e = n) (concat (map entries_of es)))) =
      map_option pe_values (find (\<lambda>entry. n \<in> set (pe_frames entry) \<and> key \<in> set (pe_keys entry)) es)" for es
  proof (induction es)
    case (Cons entry es)
    show ?case
      using Cons find_frame [of key n entry]
      by (cases "find (\<lambda>e. key \<in> set (so_keys e)) (filter (\<lambda>e. so_frame e = n) (entries_of entry))")
        (auto simp: find_append split: if_splits)
  qed simp
  moreover have "filter (\<lambda>e. so_frame e = n) (entries_by_frame project) =
      filter (\<lambda>e. so_frame e = n) (concat (map entries_of (pp_entries project)))"
    by (simp add: entries_by_frame_def entries_of_def [abs_def] sort_key_stable)
  ultimately show ?thesis by (simp add: planned_def)
qed

lemma frame_keys_distinct:
  assumes "from_problem_project project = Inr it"
  shows "distinct (concat (map so_keys (filter (\<lambda>e. so_frame e = n) (entries_by_frame project))))"
proof -
  have "map fst (filter (\<lambda>(k, f). f = n) (key_frames es)) = concat (map so_keys (filter (\<lambda>e. so_frame e = n) es))" for es
    by (induction es) (auto simp: key_frames_def filter_map comp_def)
  moreover have "distinct (key_frames (entries_by_frame project))"
    using assms by (auto simp: from_problem_project_def Let_def split: if_splits)
  then have "distinct (map fst (filter (\<lambda>(k, f). f = n) (key_frames (entries_by_frame project))))"
    by (auto simp: distinct_map inj_on_def)
  ultimately show ?thesis by simp
qed

lemma filter_below_Suc:
  "sorted (map so_frame es) \<Longrightarrow>
    filter (\<lambda>e. so_frame e < Suc n) es = filter (\<lambda>e. so_frame e < n) es @ filter (\<lambda>e. so_frame e = n) es"
proof (induction es)
  case (Cons e es)
  have none: "filter (\<lambda>e. so_frame e < n) es = []" if "n \<le> so_frame e" using Cons.prems that by (auto simp: filter_empty_conv)
  then show ?case using Cons none by (cases "so_frame e" n rule: linorder_cases) (auto simp: less_Suc_eq)
qed simp

lemma played_frames:
  assumes "from_problem_project project = Inr it"
  shows "played_before n (entries_by_frame project) keys = frames_applied project n keys"
proof (induction n)
  case (Suc n)
  let ?at = "filter (\<lambda>e. so_frame e = n) (entries_by_frame project)"
  have "fold apply_entry ?at ks key = frame_applied project n ks key" for ks key
    using apply_entries [OF frame_keys_distinct [OF assms, of n], of ks key] find_planned [of key n project]
    by (auto simp: frame_applied_def split: option.splits)
  then have "fold apply_entry ?at ks = frame_applied project n ks" for ks by (simp add: fun_eq_iff)
  then show ?case using Suc filter_below_Suc [OF fresh_iterator(2) [OF assms], of n]
    by (simp add: played_before_def frames_applied_def)
qed (simp add: played_before_def frames_applied_def)

text \<open>C33. A plan is played in the order of its frames, cycle after cycle: after \<open>q\<close> full cycles of \<open>c\<close> turns and
  \<open>r\<close> more (or after \<open>r\<close> turns without a cycle), the problems of the keys are what \<open>q\<close> times the frames below \<open>c\<close> and
  then the frames below \<open>r\<close> make of them, one after the other, where a frame changes every key named by an entry
  that lists it, by the values of that entry, and no other key. The loop never fails.\<close>

theorem plan_plays_in_order:
  assumes "from_problem_project project = Inr it"
  shows "case pp_frame_cycle project of
      Some c \<Rightarrow> 1 \<le> r \<and> r \<le> c \<longrightarrow> (\<exists>it'. play_turns project (q * c + r) (0, it, keys) =
        Inr (r, it', frames_applied project r ((frames_applied project c ^^ q) keys)))
    | None \<Rightarrow> \<exists>it'. play_turns project r (0, it, keys) = Inr (r, it', frames_applied project r keys)"
proof (cases "pp_frame_cycle project")
  case None
  then show ?thesis using turns_within [OF fresh_iterator(2) [OF assms], of 0 r keys] fresh_iterator(1) [OF assms]
    by (simp add: played_before_0 played_frames [OF assms] frames_applied_def)
next
  case cycle: (Some c)
  let ?es = "entries_by_frame project"
  note it = fresh_iterator [OF assms]
  have turns: "play_turns project (q * c + r) (0, it, keys) =
      Inr (r, iterator_at ?es r, played_before r ?es ((played_before c ?es ^^ q) keys))" if "1 \<le> r" "r \<le> c" for r
    using that
  proof (induction q arbitrary: r)
    case 0
    then show ?case using turns_within [OF it(2), of 0 r keys] it(1) cycle by (simp add: played_before_0)
  next
    case (Suc q)
    have c: "1 \<le> c" using Suc.prems by simp
    have "play_turns project (q * c + c + r) (0, it, keys) =
        play_turns project r (c, iterator_at ?es c, played_before c ?es ((played_before c ?es ^^ q) keys))"
      by (simp add: turns_add [of project "q * c + c"] Suc.IH [OF c order_refl] del: play_turns.simps)
    then show ?case using turns_from_over [OF assms cycle Suc.prems] by (simp add: add.commute add.left_commute)
  qed
  have "played_before n ?es = frames_applied project n" for n by (rule ext) (rule played_frames [OF assms])
  then show ?thesis using turns [of r] cycle by auto
qed

text \<open>Two keys fail at the frames 0 and 2; in between the first of them does not.\<close>

definition two_step_plan :: problem_project where
  "two_step_plan = (let c = \<lparr>vc_timeout_chance = None, vc_min_timeout_ms = None, vc_max_timeout_ms = None,
       vc_error_chance = Some 1, vc_malformed_response_chance = None, vc_skip_sending_raw_transaction_chance = None,
       vc_send_transaction_but_report_failure_chance = None, vc_allow_only_parsed_calls = None,
       vc_allow_only_single_calls = None\<rparr>
     in \<lparr>pp_name = ''plan'', pp_plan_type = ''frames'', pp_frame_interval = 1, pp_frame_cycle = Some 3, pp_entries =
       [\<lparr>pe_frames = [1], pe_keys = [''a''], pe_values = c\<lparr>vc_error_chance := Some 0\<rparr>\<rparr>,
        \<lparr>pe_frames = [0, 2], pe_keys = [''a'', ''b''], pe_values = c\<rparr>]\<rparr>)"

lemma plan_plays_in_order_witness:
  "\<exists>it it2 it3 keys2 keys3. from_problem_project two_step_plan = Inr it \<and>
     play_turns two_step_plan (1 * 3 + 2) (0, it, Map.empty) = Inr (2, it2, keys2) \<and>
     map_option (sp_error_chance \<circ> kd_problems) (keys2 ''a'') = Some 0 \<and>
     play_turns two_step_plan (1 * 3 + 3) (0, it, Map.empty) = Inr (3, it3, keys3) \<and>
     map_option (sp_error_chance \<circ> kd_problems) (keys3 ''a'') = Some 1"
proof -
  have es: "entries_by_frame two_step_plan = (let c = pe_values (pp_entries two_step_plan ! 1) in
      [\<lparr>so_frame = 0, so_keys = [''a'', ''b''], so_values = c\<rparr>,
       \<lparr>so_frame = 1, so_keys = [''a''], so_values = c\<lparr>vc_error_chance := Some 0\<rparr>\<rparr>,
       \<lparr>so_frame = 2, so_keys = [''a'', ''b''], so_values = c\<rparr>])"
    by (simp add: entries_by_frame_def two_step_plan_def Let_def)
  have fresh: "from_problem_project two_step_plan = Inr \<lparr>si_sorted_entries = entries_by_frame two_step_plan, si_current_index = 0\<rparr>"
    by (simp add: from_problem_project_def es Let_def key_frames_def)
  have cycle: "pp_frame_cycle two_step_plan = Some 3" by (simp add: two_step_plan_def Let_def)
  have planned: "planned two_step_plan 0 ''a'' = Some v0" "planned two_step_plan 1 ''a'' = Some v1" "planned two_step_plan 2 ''a'' = Some v0"
    if "v0 = pe_values (pp_entries two_step_plan ! 1)" "v1 = pe_values (pp_entries two_step_plan ! 0)" for v0 v1
    using that by (simp_all add: planned_def two_step_plan_def Let_def)
  have chances: "sp_error_chance (apply_change (pe_values (pp_entries two_step_plan ! 1)) p) = 1"
    "sp_error_chance (apply_change (pe_values (pp_entries two_step_plan ! 0)) p) = 0" for p
    by (simp_all add: two_step_plan_def Let_def apply_change_def changed_def)
  have final: "map_option (sp_error_chance \<circ> kd_problems) (frame_applied two_step_plan 1 ks ''a'') = Some 0"
    "map_option (sp_error_chance \<circ> kd_problems) (frame_applied two_step_plan 2 ks ''a'') = Some 1" for ks
    by (simp_all add: frame_applied_def planned changed_by_def Let_def chances del: One_nat_def)
  have "frames_applied two_step_plan 2 ks = frame_applied two_step_plan 1 (frames_applied two_step_plan 1 ks)"
    "frames_applied two_step_plan 3 ks = frame_applied two_step_plan 2 (frames_applied two_step_plan 2 ks)" for ks
    by (simp_all add: frames_applied_def eval_nat_numeral)
  with final plan_plays_in_order [OF fresh, where r = 2 and q = 1 and keys = Map.empty]
    plan_plays_in_order [OF fresh, where r = 3 and q = 1 and keys = Map.empty] fresh cycle
  show ?thesis by fastforce
qed

end
