(* ===== verification/Scan.thy ===== *)
theory Scan imports ChainImport Runtime begin

text \<open>
  Scanning a chain for the transactions of a token (\<open>src/actions/scan_chain.rs\<close>): one range of blocks at a
  time, forward and backward, with the range that was scanned kept in the table scan_info. Printing and
  sleeping are not modelled. The automatic scan has no end in the code; it is run for a number of turns.
\<close>

record scan_blockchain_options =
  sb_chain_name :: string
  sb_from_block :: "u64 option"
  sb_start_new_scan :: bool
  sb_max_block_range :: "u64 option"
  sb_blocks_behind :: "u64 option"
  sb_forward_scan_buffer :: u64
  sb_blocks_at_once :: u64
  sb_scan_interval :: u64
  sb_import_balances :: bool
  sb_sender :: "string option"
  sb_auto :: bool

text \<open>A transaction that cannot be imported is logged and left out.\<close>

definition import_found :: "env \<Rightarrow> nat \<Rightarrow> scan_blockchain_options \<Rightarrow> chain_config \<Rightarrow> h256 list \<Rightarrow> unit prg" where
  "import_found V fuel opt chain_cfg txs =
     forM txs (\<lambda>tx. bindM (catch_err (transaction_from_chain_and_into_db V fuel (cc_chain_id chain_cfg)
       (str_of_h256 (ev_ext V) tx) (cc_token_address chain_cfg) (sb_import_balances opt))) (\<lambda>_. ret ()))"

definition scan_int ::
    "((h256 \<times> nat) list \<Rightarrow> (h256 \<times> nat) list) \<Rightarrow> env \<Rightarrow> nat \<Rightarrow> scan_blockchain_options \<Rightarrow> chain_config \<Rightarrow> i64 \<Rightarrow> i64 \<Rightarrow>
     address option \<Rightarrow> unit prg" where
  "scan_int visit V fuel opt chain_cfg start_block end_block sender =
     bindM (import_erc20_txs visit V \<lparr>ia_erc20_address = cc_token_address chain_cfg, ia_chain_id = cc_chain_id chain_cfg,
       ia_filter_by_senders = map_option (\<lambda>s. [s]) sender, ia_filter_by_receivers = None, ia_start_block = start_block,
       ia_scan_end_block = end_block, ia_blocks_at_once = sb_blocks_at_once opt\<rparr>)
       (import_found V fuel opt chain_cfg)"

text \<open>The next range and its direction; none when there is nothing to scan yet.\<close>

datatype scan_range = NoNewerData | ScanRange i64 i64 bool

definition or_u64 :: "i64 \<Rightarrow> u64 option \<Rightarrow> i64" where
  "or_u64 d x = (case x of Some v \<Rightarrow> as_i64 v | None \<Rightarrow> d)"

definition behind_range :: "scan_blockchain_options \<Rightarrow> scan_dao_db_obj \<Rightarrow> i64 \<Rightarrow> scan_range" where
  "behind_range opt scan_info current_block =
     (if current_block - sc_last_block scan_info \<ge> or_u64 100 (sb_blocks_behind opt) + as_i64 (sb_forward_scan_buffer opt)
      then (let start_block = sc_last_block scan_info + 1 in
        if start_block > current_block then NoNewerData
        else ScanRange start_block (min (start_block + as_i64 (sb_blocks_at_once opt)) current_block) True)
      else (let end_block = sc_start_block scan_info; start_block = max (end_block - as_i64 (sb_blocks_at_once opt)) 1 in
        if end_block - start_block > 0 then ScanRange start_block end_block False else NoNewerData))"

definition ahead_range :: "scan_blockchain_options \<Rightarrow> scan_dao_db_obj \<Rightarrow> i64 \<Rightarrow> scan_range" where
  "ahead_range opt scan_info current_block =
     (let start_block = sc_last_block scan_info - 100 in
      if start_block > current_block then NoNewerData
      else ScanRange start_block (min (start_block + as_i64 (sb_blocks_at_once opt)) (current_block + 1)) True)"

definition next_range :: "scan_blockchain_options \<Rightarrow> scan_dao_db_obj \<Rightarrow> i64 \<Rightarrow> scan_range" where
  "next_range opt scan_info current_block =
     (if sc_start_block scan_info < or_u64 1 (sb_from_block opt) then behind_range opt scan_info current_block
      else ahead_range opt scan_info current_block)"

definition scanned_info ::
    "scan_blockchain_options \<Rightarrow> i64 \<Rightarrow> i64 \<Rightarrow> i64 \<Rightarrow> bool \<Rightarrow> scan_dao_db_obj \<Rightarrow> scan_dao_db_obj" where
  "scanned_info opt current_block start_block end_block is_forward scan_info =
     (let scan_info = (if sc_start_block scan_info = -1 then scan_info\<lparr>sc_start_block := start_block\<rparr> else scan_info)
      in if is_forward
         then scan_info\<lparr>sc_last_block := min end_block (current_block - or_u64 100 (sb_blocks_behind opt))\<rparr>
         else scan_info\<lparr>sc_start_block := start_block\<rparr>)"

text \<open>Whether to wait before the next step, and the changed \<open>scan_info\<close>.\<close>

definition scan_auto_step ::
    "((h256 \<times> nat) list \<Rightarrow> (h256 \<times> nat) list) \<Rightarrow> env \<Rightarrow> nat \<Rightarrow> scan_blockchain_options \<Rightarrow> chain_config \<Rightarrow> address option \<Rightarrow>
     scan_dao_db_obj \<Rightarrow> (bool \<times> scan_dao_db_obj) prg" where
  "scan_auto_step visit V fuel opt chain_cfg sender scan_info =
     bindM (rpc (ev_block_number V)) (\<lambda>b. let current_block = as_i64 (of_nat b) in
     case next_range opt scan_info current_block of
       NoNewerData \<Rightarrow> ret (True, scan_info)
     | ScanRange start_block end_block is_forward \<Rightarrow>
         bindM (scan_int visit V fuel opt chain_cfg start_block end_block sender) (\<lambda>_.
         let scan_info' = scanned_info opt current_block start_block end_block is_forward scan_info in
         bindM (db_run (upsert_scan_info scan_info')) (\<lambda>_. ret (is_forward, scan_info'))))"

text \<open>A failed step is tried again. The result of the turns is the last \<open>scan_info\<close>.\<close>

primrec scan_auto ::
    "((h256 \<times> nat) list \<Rightarrow> (h256 \<times> nat) list) \<Rightarrow> env \<Rightarrow> nat \<Rightarrow> scan_blockchain_options \<Rightarrow> chain_config \<Rightarrow> address option \<Rightarrow>
     nat \<Rightarrow> scan_dao_db_obj \<Rightarrow> scan_dao_db_obj prg" where
  "scan_auto visit V fuel opt chain_cfg sender 0 scan_info = ret scan_info"
| "scan_auto visit V fuel opt chain_cfg sender (Suc turns) scan_info =
     bindM (catch_err (scan_auto_step visit V fuel opt chain_cfg sender scan_info)) (\<lambda>r.
       scan_auto visit V fuel opt chain_cfg sender turns (case r of Inr (_, info) \<Rightarrow> info | Inl _ \<Rightarrow> scan_info))"

definition initial_scan_info :: "env \<Rightarrow> chain_config \<Rightarrow> address option \<Rightarrow> scan_dao_db_obj" where
  "initial_scan_info V chain_cfg sender = \<lparr>sc_id = 0, sc_chain_id = cc_chain_id chain_cfg,
     sc_filter = (case sender of Some f \<Rightarrow> str_of_addr (ev_ext V) f | None \<Rightarrow> ''all''), sc_start_block = -1, sc_last_block = -1\<rparr>"

definition scan_info_to_use :: "scan_blockchain_options \<Rightarrow> scan_dao_db_obj \<Rightarrow> scan_dao_db_obj prg" where
  "scan_info_to_use opt scan_info =
     bindM (db_run (get_scan_info (sc_chain_id scan_info) (sc_filter scan_info))) (\<lambda>from_db.
     if sb_start_new_scan opt
     then bindM (db_run (delete_scan_info (sc_chain_id scan_info) (sc_filter scan_info))) (\<lambda>_. ret scan_info)
     else ret (case from_db of Some info \<Rightarrow> info | None \<Rightarrow> scan_info))"

text \<open>The range of a single scan: it starts where the last one ended, and an old entry must not lie before it.\<close>

definition single_range :: "scan_blockchain_options \<Rightarrow> scan_dao_db_obj \<Rightarrow> i64 \<Rightarrow> i64 \<Rightarrow> failure + i64 \<times> i64" where
  "single_range opt scan_info current_block start_block =
     bindE (if sc_last_block scan_info > start_block then Inr (sc_last_block scan_info)
            else if sc_last_block scan_info \<noteq> -1
            then Inl (err_custom ''There is old entry in db, remove it to start new scan or give proper block range'')
            else Inr start_block) (\<lambda>start_block.
     let end_block = (case sb_max_block_range opt of Some r \<Rightarrow> start_block + as_i64 r | None \<Rightarrow> current_block)
     in Inr (start_block, case sb_blocks_behind opt of
          Some b \<Rightarrow> if end_block > current_block - as_i64 b then current_block - as_i64 b else end_block
        | None \<Rightarrow> end_block))"

definition scan_once ::
    "((h256 \<times> nat) list \<Rightarrow> (h256 \<times> nat) list) \<Rightarrow> env \<Rightarrow> nat \<Rightarrow> scan_blockchain_options \<Rightarrow> chain_config \<Rightarrow> address option \<Rightarrow>
     scan_dao_db_obj \<Rightarrow> i64 \<Rightarrow> i64 \<Rightarrow> unit prg" where
  "scan_once visit V fuel opt chain_cfg sender scan_info current_block start_block =
     (if current_block < sc_last_block scan_info then ret ()
      else bindM (liftR (single_range opt scan_info current_block start_block)) (\<lambda>(start_block, end_block).
        scan_int visit V fuel opt chain_cfg start_block end_block sender))"

definition scan_blockchain_local ::
    "((h256 \<times> nat) list \<Rightarrow> (h256 \<times> nat) list) \<Rightarrow> env \<Rightarrow> nat \<Rightarrow> nat \<Rightarrow> failure + payment_setup \<Rightarrow> chain_configs \<Rightarrow>
     scan_blockchain_options \<Rightarrow> unit prg" where
  "scan_blockchain_local visit V fuel turns setup cfg opt =
     bindM (liftR setup) (\<lambda>payment_setup.
     bindM (liftR (chain_named cfg (sb_chain_name opt))) (\<lambda>chain_cfg.
     bindM (liftR (get_provider payment_setup (cc_chain_id chain_cfg))) (\<lambda>_.
     bindM (case sb_sender opt of
         None \<Rightarrow> ret None
       | Some s \<Rightarrow> bindM (require (Panic ''called unwrap on an Err value'') (addr_of_str (ev_ext V) s)) (\<lambda>a. ret (Some a))) (\<lambda>sender.
     bindM (scan_info_to_use opt (initial_scan_info V chain_cfg sender)) (\<lambda>scan_info.
     bindM (rpc (ev_block_number V)) (\<lambda>b.
     let current_block = as_i64 (of_nat b); start_block = max 1 (or_u64 (current_block - 100) (sb_from_block opt)) in
     if (case sb_from_block opt of Some f \<Rightarrow> unat f > unat (i64_as_u64 current_block) | None \<Rightarrow> False) then ret ()
     else if sb_auto opt then bindM (scan_auto visit V fuel opt chain_cfg sender turns scan_info) (\<lambda>_. throw OutOfFuel)
     else scan_once visit V fuel opt chain_cfg sender scan_info current_block start_block))))))"

end
