(* ===== verification/ScanProofs.thy ===== *)
theory ScanProofs imports Scan ChainProofs begin

text \<open>
  What the scanner guarantees: the range of blocks it records has no gap. Every transaction with a log in a
  recorded range is in the table of chain transactions, if it can be imported; one that cannot is left out.
\<close>

section \<open>Steps that only add\<close>

definition chain_hashes :: "world \<Rightarrow> string set" where
  "chain_hashes w = ctx_tx_hash ` set (chain_rows w)"

definition later :: "world \<Rightarrow> world \<Rightarrow> bool" where
  "later w w' \<longleftrightarrow> w_tick w \<le> w_tick w' \<and> chain_hashes w \<subseteq> chain_hashes w' \<and> d_scan_info (w_db w') = d_scan_info (w_db w)"

definition onward :: "'a prg \<Rightarrow> bool" where
  "onward m \<longleftrightarrow> (\<forall>w. later w (snd (m w)))"

named_theorems onward_intro \<open>computations that only add\<close>

lemma later_refl [simp]: "later w w"
  by (simp add: later_def)

lemma later_trans: "later w w' \<Longrightarrow> later w' w'' \<Longrightarrow> later w w''"
  by (auto simp: later_def)

lemma onwardD: "onward m \<Longrightarrow> m w = (r, w') \<Longrightarrow> later w w'"
  by (metis onward_def snd_conv)

lemma onward_basic [onward_intro]: "onward (ret a)" "onward (throw e)" "onward (liftR r)" "onward (require e x)" "onward (ask f)" "onward (now V)"
  by (simp_all add: onward_def require_def ask_def now_def later_def chain_hashes_def split: option.split)

lemma onward_Pair [onward_intro]: "onward (Pair r)"
  by (simp add: onward_def)

lemma onward_bindM [onward_intro]: "onward m \<Longrightarrow> (\<And>a. onward (f a)) \<Longrightarrow> onward (bindM m f)"
  by (fastforce simp: onward_def bindM_def split: prod.splits sum.splits intro: later_trans dest: spec)

lemma onward_cases [onward_intro]:
  "(x = None \<Longrightarrow> onward m) \<Longrightarrow> (\<And>y. x = Some y \<Longrightarrow> onward (f y)) \<Longrightarrow> onward (case x of None \<Rightarrow> m | Some y \<Rightarrow> f y)"
  "(\<And>e. s = Inl e \<Longrightarrow> onward (g e)) \<Longrightarrow> (\<And>y. s = Inr y \<Longrightarrow> onward (h y)) \<Longrightarrow> onward (case s of Inl e \<Rightarrow> g e | Inr y \<Rightarrow> h y)"
  "(c \<Longrightarrow> onward m1) \<Longrightarrow> (\<not> c \<Longrightarrow> onward m2) \<Longrightarrow> onward (if c then m1 else m2)"
  subgoal by (cases x) simp_all
  subgoal by (cases s) simp_all
  subgoal by simp
  done

lemma onward_rpc [onward_intro]: "onward (rpc f)"
  unfolding rpc_def by (intro onward_intro)

lemma onward_catch [onward_intro]: "onward m \<Longrightarrow> onward (catch_err m)"
  by (auto simp: onward_def catch_err_def split: prod.split sum.split failure.split) (metis snd_conv)+

lemma onward_forM [onward_intro]: "(\<And>x. onward (f x)) \<Longrightarrow> onward (forM xs f)"
  by (induction xs) (auto intro!: onward_intro)

lemma onward_find_receipt [onward_intro]: "onward (find_receipt_extended V h c g)"
  unfolding find_receipt_extended_def Let_def by (intro onward_intro) (auto split: prod.split intro: onward_intro)

lemma onward_balance [onward_intro]: "onward (balance_attempts V a b n)"
  by (induction V a b n rule: balance_attempts.induct) (auto intro!: onward_intro)

lemma onward_token_balance [onward_intro]: "onward (token_balance_attempts V g a b n)"
  by (induction V g a b n rule: token_balance_attempts.induct) (auto intro!: onward_intro)

lemma onward_with_balances [onward_intro]: "onward (with_balances V n g t)"
  unfolding with_balances_def Let_def by (intro onward_intro)

lemma onward_import_erc20 [onward_intro]: "onward (import_erc20_txs visit V args)"
  unfolding import_erc20_txs_def get_erc20_logs_def Let_def by (intro onward_intro)

lemma store_chain_tx_scan: "store_chain_tx E ct ts d = (Inr row, d') \<Longrightarrow> d_scan_info d' = d_scan_info d"
proof -
  have one: "insert_chain_tx x e = (r, e') \<Longrightarrow> d_scan_info e' = d_scan_info e"
    "insert_chain_transfer y e = (r', e') \<Longrightarrow> d_scan_info e' = d_scan_info e" for x y e r r' e'
    by (auto simp: insert_chain_tx_def insert_chain_transfer_def constrained_def tbl_insert_def Let_def split: if_splits)
  have many: "forM zs (\<lambda>(t, fee). bindM (sqlx (insert_chain_transfer (t\<lparr>ct_chain_tx_id := i, ct_fee_paid := fee\<rparr>))) (\<lambda>_. ret ())) e = (r, e')
      \<Longrightarrow> d_scan_info e' = d_scan_info e" for zs i e r e'
  proof (induction zs arbitrary: e r)
    case (Cons z zs)
    obtain t fee where z: "z = (t, fee)" by (cases z)
    obtain r1 e1 where e1: "insert_chain_transfer (t\<lparr>ct_chain_tx_id := i, ct_fee_paid := fee\<rparr>) e = (r1, e1)" by fastforce
    then show ?case
      using Cons.prems Cons.IH [of e1] one(2) [OF e1] by (cases r1) (auto simp: z bindM_def sqlx_def)
  qed simp
  assume "store_chain_tx E ct ts d = (Inr row, d')"
  then show ?thesis
    by (auto simp: store_chain_tx_def bindM_eq_Inr_iff sqlx_Inr_iff liftR_eq_Inr ret_eq_Inr split: if_splits dest!: one many)
qed

lemma onward_store [onward_intro]: "onward (db_transaction (store_chain_tx E ct ts))"
proof -
  have "later w (w\<lparr>w_db := d\<rparr>)" if "store_chain_tx E ct ts (w_db w) = (Inr row, d)" for w row d
    using that store_chain_tx_scan [OF that] by (auto simp: later_def chain_hashes_def elim!: store_chain_tx_done)
  then show ?thesis by (auto simp: onward_def db_transaction_eq split: prod.split sum.split)
qed

lemma onward_import [onward_intro]: "onward (transaction_from_chain_and_into_db V n c h g b)"
proof -
  have "onward (db_run (get_chain_tx_hash s))" for s
    by (simp add: onward_def db_run_eq get_chain_tx_hash_def)
  then show ?thesis
    unfolding transaction_from_chain_and_into_db_def
    by (intro onward_intro) (auto split: find_receipt_parse_result.split intro!: onward_intro)
qed

lemma onward_scan_int [onward_intro]: "onward (scan_int visit V fuel opt cfg a b s)"
  unfolding scan_int_def import_found_def by (intro onward_intro)

section \<open>The chain that is scanned\<close>

definition logged_in :: "eth_log \<Rightarrow> h256 \<Rightarrow> nat \<Rightarrow> bool" where
  "logged_in l h b \<longleftrightarrow> lg_transaction_hash l = Some h \<and> lg_block_number l = Some b"

text \<open>Every logged transaction of a range is imported, and the range does not reach above the head.\<close>

definition imported_tx :: "env \<Rightarrow> world \<Rightarrow> h256 \<Rightarrow> bool" where
  "imported_tx V w h \<longleftrightarrow> str_of_h256 (ev_ext V) h \<in> chain_hashes w"

definition range_complete ::
    "env \<Rightarrow> (nat \<Rightarrow> nat) \<Rightarrow> eth_log set \<Rightarrow> (h256 \<Rightarrow> bool) \<Rightarrow> scan_dao_db_obj \<Rightarrow> world \<Rightarrow> bool" where
  "range_complete V head L P info w \<longleftrightarrow> sc_last_block info \<le> int (head (w_tick w)) \<and>
     (\<forall>l\<in>L. \<forall>h b. logged_in l h b \<and> sc_start_block info \<le> int b \<and> int b \<le> sc_last_block info \<longrightarrow> P h \<longrightarrow> imported_tx V w h)"

text \<open>A transaction whose import succeeds whenever it is tried: its receipt is found, parsed and stored.\<close>

definition importable :: "env \<Rightarrow> nat \<Rightarrow> scan_blockchain_options \<Rightarrow> chain_config \<Rightarrow> h256 \<Rightarrow> bool" where
  "importable V fuel opt cfg h \<longleftrightarrow> (\<forall>w. \<exists>row w'. transaction_from_chain_and_into_db V fuel (cc_chain_id cfg)
     (str_of_h256 (ev_ext V) h) (cc_token_address cfg) (sb_import_balances opt) w = (Inr (Some row), w'))"

text \<open>The rows of scan_info for the chain and the sender, and the options that ask for this scan.\<close>

definition recorded_rows :: "env \<Rightarrow> chain_config \<Rightarrow> address option \<Rightarrow> world \<Rightarrow> scan_dao_db_obj list" where
  "recorded_rows V cfg sender w = filter (\<lambda>s. sc_chain_id s = cc_chain_id cfg \<and> sc_filter s = sc_filter (initial_scan_info V cfg sender))
     (tb_rows (d_scan_info (w_db w)))"

definition scan_asked_for ::
    "env \<Rightarrow> scan_blockchain_options \<Rightarrow> chain_config \<Rightarrow> address option \<Rightarrow> chain_configs \<Rightarrow> bool" where
  "scan_asked_for V opt cfg sender cfgs \<longleftrightarrow> cfgs (sb_chain_name opt) = Some cfg \<and>
     (case sb_sender opt of None \<Rightarrow> sender = None | Some s \<Rightarrow> addr_of_str (ev_ext V) s = sender \<and> sender \<noteq> None)"

text \<open>
  A chain whose head only grows, with the logs \<open>L\<close> of the token (and the sender). A node answers with the logs of
  the range that are not above its head, or with an error.
\<close>

locale scanned_chain =
  fixes visit :: "(h256 \<times> nat) list \<Rightarrow> (h256 \<times> nat) list" and V :: env and fuel :: nat
    and opt :: scan_blockchain_options and cfg :: chain_config and sender :: "address option"
    and head :: "nat \<Rightarrow> nat" and L :: "eth_log set"
  assumes texts: "external (ev_ext V)"
    and visit: "set (visit txs) = set txs"
    and head_mono: "m \<le> n \<Longrightarrow> head m \<le> head n"
    and head_small: "head n < 2 ^ 63"
    and number: "ev_block_number V n = Inr b \<Longrightarrow> b = head n"
    and logs: "ev_logs V n (cc_token_address cfg) (map_option (map address_topic) (map_option (\<lambda>s. [s]) sender)) None from_b to_b = Inr ls \<Longrightarrow>
      set ls = {l\<in>L. \<exists>h b. logged_in l h b \<and> from_b \<le> int b \<and> int b \<le> to_b \<and> b \<le> head n}"
    and depth: "0 \<le> or_u64 100 (sb_blocks_behind opt)"
begin

abbreviation imported :: "world \<Rightarrow> h256 \<Rightarrow> bool" where
  "imported w h \<equiv> importable V fuel opt cfg h \<longrightarrow> imported_tx V w h"

abbreviation complete :: "scan_dao_db_obj \<Rightarrow> world \<Rightarrow> bool" where
  "complete \<equiv> range_complete V head L (importable V fuel opt cfg)"

abbreviation recorded_complete :: "world \<Rightarrow> bool" where
  "recorded_complete w \<equiv> \<forall>info\<in>set (recorded_rows V cfg sender w). complete info w"

lemma imported_later: "later w w' \<Longrightarrow> imported w h \<Longrightarrow> imported w' h"
  by (auto simp: imported_tx_def later_def)

lemma complete_later: "later w w' \<Longrightarrow> complete info w \<Longrightarrow> complete info w'"
  using head_mono [of "w_tick w" "w_tick w'"] imported_later by (force simp: range_complete_def later_def)

lemma recorded_later: "later w w' \<Longrightarrow> recorded_complete w \<Longrightarrow> recorded_complete w'"
  using complete_later by (auto simp: recorded_rows_def later_def)

lemma import_imported:
  assumes "transaction_from_chain_and_into_db V n c (str_of_h256 (ev_ext V) h) g b w = (Inr (Some row), w')"
  shows "imported_tx V w' h"
  using assms
proof (cases rule: import_cases)
  case (known hash)
  then have "hash = h" using external.h256_law [OF texts] by simp
  then show ?thesis using known by (auto simp: imported_tx_def chain_hashes_def find_Some_iff intro!: image_eqI [OF sym nth_mem])
next
  case (stored hash ct ts d)
  then have hash: "hash = h" using external.h256_law [OF texts] by simp
  from stored(3) have "tb_rows (d_chain_tx d) = chain_rows w @ [row]" "ctx_tx_hash row = ctx_tx_hash ct"
    by (rule store_chain_tx_done, simp)+
  then show ?thesis by (simp add: imported_tx_def chain_hashes_def stored(2,4) hash)
qed

lemma forM_imports:
  "import_found V fuel opt cfg txs w = (Inr (), w') \<Longrightarrow> later w w' \<and> (\<forall>h\<in>set txs. imported w' h)"
proof (induction txs arbitrary: w)
  case (Cons h txs)
  obtain r w1 where one: "transaction_from_chain_and_into_db V fuel (cc_chain_id cfg) (str_of_h256 (ev_ext V) h)
      (cc_token_address cfg) (sb_import_balances opt) w = (r, w1)" by fastforce
  have w1: "later w w1" using onwardD [OF onward_import one] .
  have "import_found V fuel opt cfg txs w1 = (Inr (), w')"
    using Cons.prems by (auto simp: import_found_def bindM_def catch_err_def one split: sum.splits failure.splits)
  from Cons.IH [OF this] have w': "later w1 w'" "\<forall>h\<in>set txs. imported w' h" by auto
  have "imported w1 h"
  proof
    assume "importable V fuel opt cfg h"
    then obtain row where "r = Inr (Some row)" using one unfolding importable_def by (metis prod.inject)
    then show "imported_tx V w1 h" using import_imported one by blast
  qed
  then have "imported w' h" using imported_later [OF w'(1)] by blast
  then show ?case using w' later_trans [OF w1 w'(1)] by simp
qed (simp add: import_found_def)

lemma collect_txs_set:
  "collect_txs txs ls = Inr res \<Longrightarrow> fst ` set res = fst ` set txs \<union> {h. \<exists>l\<in>set ls. \<exists>b. logged_in l h b}"
proof (induction ls arbitrary: txs)
  case (Cons l ls)
  have ins: "fst ` set (map_insert h b m) = insert h (fst ` set m)" for h :: h256 and b :: nat and m
    by (induction h b m rule: map_insert.induct) (simp_all add: insert_commute)
  from Cons.prems obtain h b where l: "lg_transaction_hash l = Some h" "lg_block_number l = Some b"
    "collect_txs (map_insert h b txs) ls = Inr res" by (auto simp: bindE_Inr_iff ok_or_Inr_iff)
  show ?case using Cons.IH [OF l(3)] l(1,2) by (auto simp: ins logged_in_def)
qed simp

lemma import_range:
  assumes "import_erc20_txs visit V \<lparr>ia_erc20_address = cc_token_address cfg, ia_chain_id = c,
       ia_filter_by_senders = map_option (\<lambda>s. [s]) sender, ia_filter_by_receivers = None, ia_start_block = from_b,
       ia_scan_end_block = to_b, ia_blocks_at_once = k\<rparr> w = (Inr txs, w')"
  shows "l \<in> L \<Longrightarrow> logged_in l h b \<Longrightarrow> from_b \<le> int b \<Longrightarrow> int b \<le> to_b \<Longrightarrow> b \<le> head (w_tick w) \<Longrightarrow> h \<in> set txs"
proof -
  obtain ls res n where ls: "ev_logs V n (cc_token_address cfg) (map_option (map address_topic) (map_option (\<lambda>s. [s]) sender)) None from_b to_b = Inr ls"
    and n: "w_tick w \<le> n" and res: "collect_txs [] ls = Inr res" "set txs = fst ` set (visit res)"
    using assms
    by (auto simp: import_erc20_txs_def get_erc20_logs_def Let_def rpc_def ask_def bindM_def split: sum.splits if_splits prod.splits)
  have h: "set txs = {h. \<exists>l\<in>set ls. \<exists>b. logged_in l h b}"
    using collect_txs_set [OF res(1)] res(2) visit by simp
  show "h \<in> set txs" if "l \<in> L" "logged_in l h b" "from_b \<le> int b" "int b \<le> to_b" "b \<le> head (w_tick w)"
    using that head_mono [OF n] unfolding h logs [OF ls] by (auto intro: le_trans)
qed

lemma scan_int_complete:
  assumes "scan_int visit V fuel opt cfg from_b to_b sender w = (Inr u, w')"
    and "l \<in> L" and "logged_in l h b" and "from_b \<le> int b" and "int b \<le> to_b" and "b \<le> head (w_tick w)"
  shows "imported w' h"
proof -
  obtain txs w1 where imp: "import_erc20_txs visit V \<lparr>ia_erc20_address = cc_token_address cfg, ia_chain_id = cc_chain_id cfg,
       ia_filter_by_senders = map_option (\<lambda>s. [s]) sender, ia_filter_by_receivers = None, ia_start_block = from_b,
       ia_scan_end_block = to_b, ia_blocks_at_once = sb_blocks_at_once opt\<rparr> w = (Inr txs, w1)"
    and rest: "import_found V fuel opt cfg txs w1 = (Inr u, w')"
    using assms(1) by (auto simp: scan_int_def bindM_eq_Inr_iff)
  from forM_imports rest have "\<forall>h\<in>set txs. imported w' h" by auto
  then show ?thesis using import_range [OF imp assms(2-6)] by blast
qed

end

section \<open>The steps of the automatic scan\<close>

context scanned_chain
begin

lemma number_i64: "ev_block_number V n = Inr b \<Longrightarrow> as_i64 (of_nat b) = int (head n)"
  using number [of n b] head_small [of n] by (simp add: as_i64_def unat_of_nat sint_uint uint_nat take_bit_nat_eq_self signed_take_bit_int_eq_self)

lemma next_range_complete:
  assumes old: "complete info w" and range: "next_range opt info current = ScanRange from_b to_b fwd"
    and now: "current = int (head n)" "n \<le> w_tick w1" "later w w1"
    and scanned: "\<And>l h b. l \<in> L \<Longrightarrow> logged_in l h b \<Longrightarrow> from_b \<le> int b \<Longrightarrow> int b \<le> to_b \<Longrightarrow> b \<le> head n \<Longrightarrow> imported w1 h"
    and n: "w_tick w \<le> n"
  shows "complete (scanned_info opt current from_b to_b fwd info) w1"
proof -
  let ?new = "scanned_info opt current from_b to_b fwd info"
  have head: "head (w_tick w) \<le> head n" "head n \<le> head (w_tick w1)" using head_mono n now(2) by auto
  have last: "sc_last_block info \<le> int (head n)" using old head by (auto simp: range_complete_def)
  have new_last: "sc_last_block ?new \<le> int (head n)"
    using last depth now(1) by (auto simp: scanned_info_def Let_def)
  have "imported w1 h" if l: "l \<in> L" "logged_in l h b" and b: "sc_start_block ?new \<le> int b" "int b \<le> sc_last_block ?new" for l h b
  proof (cases "sc_start_block info \<le> int b \<and> int b \<le> sc_last_block info")
    case True
    then show ?thesis using old l imported_later [OF now(3)] by (auto simp: range_complete_def)
  next
    case False
    have "from_b \<le> int b \<and> int b \<le> to_b"
      using range b False
      by (auto simp: next_range_def behind_range_def ahead_range_def scanned_info_def Let_def split: if_splits)
    moreover have "b \<le> head n" using b new_last by linarith
    ultimately show ?thesis using scanned l by blast
  qed
  then show ?thesis using new_last head by (auto simp: range_complete_def)
qed

lemma scan_rows_upsert:
  assumes "upsert_scan_info info (w_db w) = (r, d)" and "recorded_rows V cfg sender (w\<lparr>w_db := d\<rparr>) = rows"
  shows "set rows \<subseteq> set (recorded_rows V cfg sender w) \<union> {set_sc_id (tb_seq (d_scan_info (w_db w)) + 1) info}"
proof -
  have "set (tb_rows (d_scan_info d)) \<subseteq> set (tb_rows (d_scan_info (w_db w))) \<union> {set_sc_id (tb_seq (d_scan_info (w_db w)) + 1) info}"
    using assms(1) by (auto simp: upsert_scan_info_def tbl_insert_def tbl_delete_where_def Let_def)
  then show ?thesis unfolding assms(2) [symmetric] recorded_rows_def by auto
qed

lemma complete_upsert:
  assumes "upsert_scan_info info (w_db w) = (r, d)"
  shows "complete i (w\<lparr>w_db := d\<rparr>) = complete i w"
proof -
  have "d_chain_tx d = d_chain_tx (w_db w)" using assms by (auto simp: upsert_scan_info_def split: prod.splits)
  then show ?thesis by (simp add: range_complete_def imported_tx_def chain_hashes_def)
qed

lemma complete_set_id: "complete (set_sc_id k i) w = complete i w"
  by (simp add: range_complete_def set_sc_id_def)

lemma recorded_upsert:
  assumes "upsert_scan_info info (w_db w) = (r, d)" and "complete info w" and "recorded_complete w"
  shows "recorded_complete (w\<lparr>w_db := d\<rparr>)"
  using assms scan_rows_upsert [OF assms(1) refl] complete_upsert [OF assms(1)] complete_set_id
  by (fastforce simp: recorded_rows_def)

lemma auto_step_complete:
  assumes "scan_auto_step visit V fuel opt cfg sender info w = (r, w')" and "complete info w" and "recorded_complete w"
  shows "recorded_complete w'" and "complete (case r of Inr (_, i) \<Rightarrow> i | Inl _ \<Rightarrow> info) w'"
proof -
  let ?w0 = "w\<lparr>w_tick := w_tick w + 1\<rparr>"
  have w0: "later w ?w0" by (simp add: later_def chain_hashes_def)
  have start: "complete info ?w0" "recorded_complete ?w0" using complete_later [OF w0] recorded_later [OF w0] assms(2,3) by auto
  have "recorded_complete w' \<and> complete (case r of Inr (_, i) \<Rightarrow> i | Inl _ \<Rightarrow> info) w'"
  proof (cases "ev_block_number V (w_tick w)")
    case (Inl e)
    then show ?thesis using assms(1) start by (auto simp: scan_auto_step_def bindM_def rpc_def ask_def)
  next
    case (Inr b)
    let ?cur = "int (head (w_tick w))"
    note cur = number_i64 [OF Inr]
    have step: "scan_auto_step visit V fuel opt cfg sender info w = (case next_range opt info ?cur of
       NoNewerData \<Rightarrow> ret (True, info)
     | ScanRange start_block end_block is_forward \<Rightarrow>
         bindM (scan_int visit V fuel opt cfg start_block end_block sender) (\<lambda>_.
         let info' = scanned_info opt ?cur start_block end_block is_forward info in
         bindM (db_run (upsert_scan_info info')) (\<lambda>_. ret (is_forward, info')))) ?w0"
      using cur by (simp only: scan_auto_step_def bindM_def rpc_def ask_def Inr Let_def prod.case sum.case ret_def)
    show ?thesis
    proof (cases "next_range opt info ?cur")
      case NoNewerData
      then show ?thesis using step assms(1) start by auto
    next
      case (ScanRange from_b to_b fwd)
      obtain s w1 where s: "scan_int visit V fuel opt cfg from_b to_b sender ?w0 = (s, w1)" by fastforce
      have w1: "later ?w0 w1" using onwardD [OF onward_scan_int s] .
      show ?thesis
      proof (cases s)
        case (Inl e)
        then have "w' = w1" "r = Inl e" using step assms(1) s by (auto simp: ScanRange bindM_def)
        then show ?thesis using complete_later [OF w1] recorded_later [OF w1] start by simp
      next
        case (Inr u)
        let ?new = "scanned_info opt ?cur from_b to_b fwd info"
        have new: "complete ?new w1"
        proof (rule next_range_complete [OF assms(2) ScanRange refl _ later_trans [OF w0 w1] _ le_refl])
          show "w_tick w \<le> w_tick w1" using w1 by (simp add: later_def)
          show "imported w1 h" if "l \<in> L" "logged_in l h b" "from_b \<le> int b" "int b \<le> to_b" "b \<le> head (w_tick w)" for l h b
            using scan_int_complete [OF s [unfolded Inr] that(1-4)] that(5) head_mono [of "w_tick w" "w_tick ?w0"] by simp
        qed
        obtain r1 d where up: "upsert_scan_info ?new (w_db w1) = (r1, d)" by fastforce
        then have r1: "\<exists>row. r1 = Inr row" by (auto simp: upsert_scan_info_def split: prod.splits)
        then have "w' = w1\<lparr>w_db := d\<rparr>" "r = Inr (fwd, ?new)"
          using step assms(1) s up by (auto simp: ScanRange Inr bindM_def db_run_eq Let_def)
        then show ?thesis
          using recorded_upsert [OF up new recorded_later [OF w1 start(2)]] new complete_upsert [OF up] by simp
      qed
    qed
  qed
  then show "recorded_complete w'" and "complete (case r of Inr (_, i) \<Rightarrow> i | Inl _ \<Rightarrow> info) w'" by auto
qed

end

context scanned_chain
begin

lemma bindM_Pair: "bindM (Pair (Inr a)) f = f a"
  by (rule ext) (simp add: bindM_def)

lemma auto_complete:
  assumes "scan_auto visit V fuel opt cfg sender turns info w = (r, w')" and "complete info w" and "recorded_complete w"
  shows "recorded_complete w'"
  using assms
proof (induction turns arbitrary: info w)
  case (Suc turns)
  obtain s w1 where s: "scan_auto_step visit V fuel opt cfg sender info w = (s, w1)" by fastforce
  note step = auto_step_complete [OF s Suc.prems(2,3)]
  show ?case
  proof (cases s)
    case (Inr p)
    then obtain b i where p: "s = Inr (b, i)" by (cases p) simp
    then have "scan_auto visit V fuel opt cfg sender turns i w1 = (r, w')"
      using Suc.prems(1) s by (simp add: bindM_def catch_err_def)
    then show ?thesis using Suc.IH step p by simp
  next
    case (Inl f)
    show ?thesis
    proof (cases f)
      case (Err e)
      then have "scan_auto visit V fuel opt cfg sender turns info w1 = (r, w')"
        using Suc.prems(1) s Inl by (simp add: bindM_def catch_err_def)
      then show ?thesis using Suc.IH step Inl by simp
    qed (insert Suc.prems(1) s Inl step, auto simp: bindM_def catch_err_def)
  qed
qed simp

lemma initial_complete: "complete (initial_scan_info V cfg sender) w"
  by (simp add: range_complete_def initial_scan_info_def)

lemma info_to_use_complete:
  assumes "scan_info_to_use opt (initial_scan_info V cfg sender) w = (r, w')" and "recorded_complete w"
  shows "recorded_complete w'" and "r = Inr info \<Longrightarrow> complete info w'"
proof -
  let ?i = "initial_scan_info V cfg sender"
  let ?del = "w\<lparr>w_db := (w_db w)\<lparr>d_scan_info := tbl_delete_where
      (\<lambda>s. sc_chain_id s = sc_chain_id ?i \<and> sc_filter s = sc_filter ?i) (d_scan_info (w_db w))\<rparr>\<rparr>"
  let ?row = "find (\<lambda>s. sc_chain_id s = sc_chain_id ?i \<and> sc_filter s = sc_filter ?i) (tb_rows (d_scan_info (w_db w)))"
  have run: "(r, w') = (if sb_start_new_scan opt then (Inr ?i, ?del) else (Inr (case ?row of Some i \<Rightarrow> i | None \<Rightarrow> ?i), w))"
    using assms(1) by (auto simp: scan_info_to_use_def bindM_def db_run_eq get_scan_info_def delete_scan_info_def split: if_splits)
  have "complete row ?del = complete row w" for row by (simp add: range_complete_def imported_tx_def chain_hashes_def)
  then have "recorded_complete ?del" using assms(2) by (simp add: recorded_rows_def tbl_delete_where_def)
  then show "recorded_complete w'" using run assms(2) by (auto split: if_splits)
  have "complete row w" if "?row = Some row" for row
    using that assms(2) nth_mem unfolding find_Some_iff recorded_rows_def
    by (auto simp: initial_scan_info_def)
  then show "complete info w'" if "r = Inr info"
    using that run initial_complete by (auto split: if_splits option.splits)
qed

abbreviation asked_for :: "chain_configs \<Rightarrow> bool" where
  "asked_for \<equiv> scan_asked_for V opt cfg sender"

lemma local_complete:
  assumes "scan_blockchain_local visit V fuel turns setup cfgs opt w = (r, w')" and "asked_for cfgs" and "recorded_complete w"
  shows "recorded_complete w'"
proof (cases "\<exists>S. setup = Inr S \<and> get_provider S (cc_chain_id cfg) = Inr ()")
  case False
  then have "w' = w" using assms(1,2)
    by (cases "setup"; cases "get_provider (projr setup) (cc_chain_id cfg)")
      (auto simp: scan_blockchain_local_def bindM_def scan_asked_for_def chain_named_def ok_or_def)
  then show ?thesis using assms(3) by simp
next
  case True
  then obtain S where S: "setup = Inr S" "get_provider S (cc_chain_id cfg) = Inr ()" by blast
  obtain i w1 where i: "scan_info_to_use opt (initial_scan_info V cfg sender) w = (i, w1)" by fastforce
  note i1 = info_to_use_complete [OF i assms(3)]
  have run: "scan_blockchain_local visit V fuel turns setup cfgs opt w =
     bindM (scan_info_to_use opt (initial_scan_info V cfg sender)) (\<lambda>scan_info.
     bindM (rpc (ev_block_number V)) (\<lambda>b.
     let current_block = as_i64 (of_nat b); start_block = max 1 (or_u64 (current_block - 100) (sb_from_block opt)) in
     if (case sb_from_block opt of Some f \<Rightarrow> unat f > unat (i64_as_u64 current_block) | None \<Rightarrow> False) then ret ()
     else if sb_auto opt then bindM (scan_auto visit V fuel opt cfg sender turns scan_info) (\<lambda>_. throw OutOfFuel)
     else scan_once visit V fuel opt cfg sender scan_info current_block start_block)) w"
  proof (cases "sb_sender opt")
    case None
    then have a: "cfgs (sb_chain_name opt) = Some cfg" "sender = None" using assms(2) by (simp_all add: scan_asked_for_def)
    show ?thesis using S None a(1) unfolding a(2) by (simp add: scan_blockchain_local_def chain_named_def ok_or_def)
  next
    case (Some s)
    then obtain a where a: "addr_of_str (ev_ext V) s = Some a" "sender = Some a" using assms(2) by (auto simp: scan_asked_for_def)
    have "cfgs (sb_chain_name opt) = Some cfg" using assms(2) by (simp add: scan_asked_for_def)
    then show ?thesis using S Some a(1) unfolding a(2) by (simp add: scan_blockchain_local_def chain_named_def ok_or_def bindM_Pair)
  qed
  show ?thesis
  proof (cases i)
    case (Inl e)
    then show ?thesis using run assms(1) i i1(1) by (simp add: bindM_def)
  next
    case (Inr info)
    let ?w2 = "w1\<lparr>w_tick := w_tick w1 + 1\<rparr>"
    have w2: "later w1 ?w2" by (simp add: later_def chain_hashes_def)
    note info = complete_later [OF w2 i1(2) [OF Inr]] recorded_later [OF w2 i1(1)]
    have scan: "onward (scan_once visit V fuel opt cfg sender info a b)" for a b
      unfolding scan_once_def by (intro onward_intro) (auto split: prod.split intro: onward_intro)
    show ?thesis
    proof (cases "ev_block_number V (w_tick w1)")
      case (Inl e)
      then have "w' = ?w2" using run assms(1) i by (simp add: bindM_def Inr rpc_def ask_def)
      then show ?thesis using info by simp
    next
      case num: (Inr b)
      let ?cur = "as_i64 (of_nat b)"
      consider "w' = ?w2" | s where "scan_auto visit V fuel opt cfg sender turns info ?w2 = (s, w')"
        | s where "scan_once visit V fuel opt cfg sender info ?cur (max 1 (or_u64 (?cur - 100) (sb_from_block opt))) ?w2 = (s, w')"
        using run assms(1) i num by (auto simp: bindM_def Inr rpc_def ask_def Let_def split: if_splits prod.splits sum.splits) metis
      then show ?thesis
        using info auto_complete recorded_later [OF onwardD [OF scan]] by cases blast+
    qed
  qed
qed

end

section \<open>A chain with one payment\<close>

definition scan_log :: eth_log where
  "scan_log = \<lparr>lg_address = 4, lg_topics = [], lg_data = [], lg_transaction_hash = Some 9, lg_block_number = Some 100\<rparr>"

definition scan_env :: env where
  "scan_env = paying_env\<lparr>ev_block_number := \<lambda>_. Inr 300,
     ev_logs := \<lambda>n a s r from_b to_b. Inr (if from_b \<le> 100 \<and> 100 \<le> to_b then [scan_log] else [])\<rparr>"

definition scan_options :: scan_blockchain_options where
  "scan_options = \<lparr>sb_chain_name = ''dev'', sb_from_block = Some 1, sb_start_new_scan = False, sb_max_block_range = None,
     sb_blocks_behind = None, sb_forward_scan_buffer = 40, sb_blocks_at_once = 1000, sb_scan_interval = 2,
     sb_import_balances = False, sb_sender = None, sb_auto = True\<rparr>"

definition scan_cfg :: chain_config where
  "scan_cfg = \<lparr>cc_chain_id = 5, cc_token_address = 4, cc_mint_contract = None\<rparr>"

lemma scan_ext [simp]: "ev_ext scan_env = ref_externals"
  by (simp add: scan_env_def paying_env_def)

lemma scan_receipt: "find_receipt_extended scan_env h c g = find_receipt_extended paying_env h c g"
  by (simp add: find_receipt_extended_def scan_env_def now_def datetime_from_u256_timestamp_def)

lemma scan_imports:
  "\<exists>row w'. transaction_from_chain_and_into_db scan_env 0 5 (str_of_h256 ref_externals 9) 4 False w = (Inr (Some row), w')"
proof (cases "find (\<lambda>t. ctx_tx_hash t = str_of_h256 ref_externals 9) (chain_rows w)")
  case (Some row)
  then show ?thesis
    using import_known [of scan_env "str_of_h256 ref_externals 9" 9 w row] external.h256_law [OF ref.external_axioms] by auto
next
  case None
  let ?w = "w\<lparr>w_tick := w_tick w + 4\<rparr>"
  note laws = external.h256_law [OF ref.external_axioms] external.dec_parse_law [OF ref.external_axioms]
  obtain ct where r: "find_receipt_extended paying_env 9 5 4 w =
      (Inr (ParseSuccess ct [chain_transfer ref_externals ct 1 2 None 7]), ?w)" "ctx_chain_status ct = 1"
    and fee: "ctx_fee_paid ct = dec_of_u256 ref_externals 63000" and hash: "ctx_tx_hash ct = str_of_h256 ref_externals 9"
    by (rule paying_receipt)
  obtain f where f: "distribute_fee 63000 (Suc 0) = Inr [f]"
    using distribute_fee_result [of 1 63000] by (auto simp: length_Suc_conv)
  have new: "\<not> list_ex (\<lambda>t. ctx_tx_hash t = str_of_h256 ref_externals 9) (chain_rows w)"
    using None by (auto simp: find_None_iff list_ex_iff)
  have "\<exists>row d. store_chain_tx ref_externals ct [chain_transfer ref_externals ct 1 2 None 7] (w_db ?w) = (Inr row, d)"
    using new by (simp add: store_chain_tx_def bindM_def sqlx_def insert_chain_tx_def constrained_def hash
        tbl_insert_def Let_def set_ctx_id_def chain_tx_row_def chain_transfer_fees_def fee laws f insert_chain_transfer_def
        chain_transfer_def fk_chain_tx_def)
  then obtain row d where st: "store_chain_tx ref_externals ct [chain_transfer ref_externals ct 1 2 None 7] (w_db ?w) = (Inr row, d)" by blast
  have "transaction_from_chain_and_into_db scan_env 0 5 (str_of_h256 ref_externals 9) 4 False w = (Inr (Some row), ?w\<lparr>w_db := d\<rparr>)"
    using st None by (simp add: transaction_from_chain_and_into_db_def bindM_def laws db_run_eq get_chain_tx_hash_def scan_receipt r db_transaction_eq)
  then show ?thesis by blast
qed

lemma scan_importable: "importable scan_env 0 scan_options scan_cfg 9"
  using scan_imports by (simp add: importable_def scan_cfg_def scan_options_def)

interpretation one_payment: scanned_chain id scan_env 0 scan_options scan_cfg None "\<lambda>_. 300" "{scan_log}"
proof (rule scanned_chain.intro, goal_cases)
  case 1
  show ?case using ref.external_axioms by simp
next
  case (6 n from_b to_b ls)
  then show ?case by (auto simp: scan_env_def logged_in_def scan_log_def)
qed (simp_all add: scan_env_def scan_options_def or_u64_def)

section \<open>No gap in what is recorded\<close>

text \<open>C34. The range of blocks that the scanner records is complete, on every path and after any number of turns of
  the automatic scan, forward or backward and over restarts: every transaction with a log in the range whose import
  succeeds when it is tried is in the table of chain transactions, whatever becomes of the others (which are left out
  of a range that is recorded all the same), and the range ends below the head of the chain.\<close>

theorem recorded_range_complete:
  assumes "scanned_chain visit V opt cfg sender head L" and "scan_asked_for V opt cfg sender cfgs"
    and "scan_blockchain_local visit V fuel turns initial_setup cfgs opt w = (r, w')"
    and "\<forall>info\<in>set (recorded_rows V cfg sender w). range_complete V head L (importable V fuel opt cfg) info w"
  shows "\<forall>info\<in>set (recorded_rows V cfg sender w'). range_complete V head L (importable V fuel opt cfg) info w'"
  using scanned_chain.local_complete [OF assms(1,3,2,4)] .

theorem recorded_range_complete_witness:
  "\<exists>r w' info. scan_blockchain_local id scan_env 0 1 (Inr sample_setup) [''dev'' \<mapsto> scan_cfg] scan_options world_initial = (r, w') \<and>
     info \<in> set (recorded_rows scan_env scan_cfg None w') \<and> sc_start_block info = 0 \<and> sc_last_block info = 200 \<and>
     imported_tx scan_env w' 9"
proof -
  let ?i = "initial_scan_info scan_env scan_cfg None"
  let ?w2 = "world_initial\<lparr>w_tick := 2\<rparr>"
  have range: "next_range scan_options ?i 300 = ScanRange 0 300 True"
    by (simp add: next_range_def behind_range_def initial_scan_info_def scan_options_def or_u64_def as_i64_def)
  obtain w3 where found: "import_found scan_env 0 scan_options scan_cfg [9] (?w2\<lparr>w_tick := 4\<rparr>) = (Inr (), w3)"
    using scan_imports [of "?w2\<lparr>w_tick := 4\<rparr>"]
    by (auto simp: import_found_def bindM_def catch_err_def scan_cfg_def scan_options_def)
  have int: "scan_int id scan_env 0 scan_options scan_cfg 0 300 None ?w2 = (Inr (), w3)"
    using found by (simp add: scan_int_def import_erc20_txs_def get_erc20_logs_def bindM_def rpc_def ask_def Let_def
        scan_env_def scan_log_def scan_options_def as_i64_def ok_or_def)
  let ?new = "?i\<lparr>sc_start_block := 0, sc_last_block := 200\<rparr>"
  have new: "scanned_info scan_options 300 0 300 True ?i = ?new"
    by (simp add: scanned_info_def Let_def initial_scan_info_def or_u64_def scan_options_def)
  obtain r0 d where up0: "upsert_scan_info ?new (w_db w3) = (r0, d)" by fastforce
  then obtain row where up: "upsert_scan_info ?new (w_db w3) = (Inr row, d)" by (auto simp: upsert_scan_info_def split: prod.splits)
  have rows: "set_sc_id (tb_seq (d_scan_info (w_db w3)) + 1) ?new \<in> set (recorded_rows scan_env scan_cfg None (w3\<lparr>w_db := d\<rparr>))"
    using up by (auto simp: recorded_rows_def upsert_scan_info_def tbl_insert_def tbl_delete_where_def Let_def set_sc_id_def initial_scan_info_def)
  have run: "scan_blockchain_local id scan_env 0 1 (Inr sample_setup) [''dev'' \<mapsto> scan_cfg] scan_options world_initial =
      (Inl OutOfFuel, w3\<lparr>w_db := d\<rparr>)"
  proof -
    have n: "ev_block_number scan_env n = Inr 300" for n by (simp add: scan_env_def)
    have none: "get_scan_info c f (w_db world_initial) = (Inr None, w_db world_initial)" for c f
      by (simp add: get_scan_info_def world_initial_def db_empty_def tbl_empty_def)
    have step: "scan_auto_step id scan_env 0 scan_options scan_cfg None ?i (world_initial\<lparr>w_tick := Suc 0\<rparr>) =
        (Inr (True, ?new), w3\<lparr>w_db := d\<rparr>)"
      using int by (simp add: scan_auto_step_def bindM_def rpc_def ask_def n range new up db_run_eq as_i64_def numeral_2_eq_2 Let_def)
    have info: "scan_info_to_use scan_options ?i world_initial = (Inr ?i, world_initial)"
      by (simp add: scan_info_to_use_def bindM_def db_run_eq none scan_options_def)
    have auto: "scan_auto id scan_env 0 scan_options scan_cfg None 1 ?i (world_initial\<lparr>w_tick := 1\<rparr>) = (Inr ?new, w3\<lparr>w_db := d\<rparr>)"
      by (simp add: bindM_def catch_err_def step)
    have tick: "w_tick world_initial = 0" by (simp add: world_initial_def)
    have opt: "sb_chain_name scan_options = ''dev''" "sb_sender scan_options = None" "sb_from_block scan_options = Some 1"
        "sb_auto scan_options" "cc_chain_id scan_cfg = 5"
      by (simp_all add: scan_options_def scan_cfg_def)
    show ?thesis
      by (simp add: scan_blockchain_local_def chain_named_def ok_or_def get_provider_def sample_setup_def opt bindM_def
          info rpc_def ask_def n auto tick Let_def as_i64_def i64_as_u64_def del: scan_auto.simps One_nat_def)
  qed
  have "\<forall>info\<in>set (recorded_rows scan_env scan_cfg None (w3\<lparr>w_db := d\<rparr>)). range_complete scan_env (\<lambda>_. 300) {scan_log}
      (importable scan_env 0 scan_options scan_cfg) info (w3\<lparr>w_db := d\<rparr>)"
    by (rule recorded_range_complete [OF one_payment.scanned_chain_axioms _ run])
      (simp_all add: scan_asked_for_def scan_options_def recorded_rows_def world_initial_def db_empty_def tbl_empty_def)
  then have "range_complete scan_env (\<lambda>_. 300) {scan_log} (importable scan_env 0 scan_options scan_cfg) (set_sc_id (tb_seq (d_scan_info (w_db w3)) + 1) ?new) (w3\<lparr>w_db := d\<rparr>)"
    using rows by blast
  then have "imported_tx scan_env (w3\<lparr>w_db := d\<rparr>) 9"
    using scan_importable by (simp add: range_complete_def logged_in_def scan_log_def set_sc_id_def)
  with run rows show ?thesis by (intro exI conjI) (auto simp: set_sc_id_def)
qed

end
