(* ===== verification/Cli.thy ===== *)
theory Cli imports Setup Allowance Http begin

text \<open>
  The command line tool: the subcommands of \<open>src/main.rs\<close> that queue work or clean up, with their actions
  (\<open>src/actions\<close>) and options (\<open>src/options.rs\<close>, already parsed). The configuration is the engine and the
  chains in the order of their names. Random values are answers of the environment; what is printed is not
  modelled, nor is closing the connection.
\<close>

record cli_config =
  cg_engine :: engine
  cg_chain :: "(string \<times> configured_chain) list"

record cli_env =
  ce_env :: env
  ce_pool :: pool_env
  ce_uuid :: "nat \<Rightarrow> nat"
  ce_random_address :: "nat \<Rightarrow> address"
  ce_random_u64 :: "nat \<Rightarrow> u64"
  ce_decimal_add :: "rat \<Rightarrow> rat \<Rightarrow> rat option"
  ce_decimal_from_str :: "string \<Rightarrow> rat option"
  ce_readonly_error :: sql_error

text \<open>\<open>unwrap\<close> and \<open>expect\<close>: a returned error becomes a panic.\<close>

definition unwrapped :: "failure + 'a \<Rightarrow> failure + 'a" where
  "unwrapped r = (case r of Inl (Err e) \<Rightarrow> Inl (Panic ''called unwrap on an Err value'') | _ \<Rightarrow> r)"

definition or_panic :: "'a prg \<Rightarrow> 'a prg" where
  "or_panic m w = (case m w of (r, w') \<Rightarrow> (unwrapped r, w'))"

section \<open>What the commands share\<close>

definition configured :: "cli_config \<Rightarrow> string \<Rightarrow> failure + configured_chain" where
  "configured cfg chain_name = ok_or (err_custom ''Chain not found in config file'') (map_of (cg_chain cfg) chain_name)"

definition new_empty_setup :: "cli_env \<Rightarrow> cli_config \<Rightarrow> failure + payment_setup" where
  "new_empty_setup C cfg = bindE (payment_setup_new_empty (ce_pool C) (ev_checked_mul (ce_env C)) (ce_uuid C)
     (cg_engine cfg) (cg_chain cfg)) (\<lambda>ds. Inr (setup_of ds))"

definition connect :: "cli_env \<Rightarrow> cli_config \<Rightarrow> configured_chain \<Rightarrow> payment_setup prg" where
  "connect C cfg chain_cfg =
     bindM (liftR (new_empty_setup C cfg)) (\<lambda>S.
     bindM (liftR (get_provider S (cc_chain_id chain_cfg))) (\<lambda>_. ret S))"

definition check_address_name :: "cli_env \<Rightarrow> string \<Rightarrow> address option prg" where
  "check_address_name C n = (let parse = addr_of_str (ev_ext (ce_env C)) in
     if n = ''funds'' then ret (parse ''0x333dFEa0C940Dc9971C32C69837aBE14207F9097'')
     else if n = ''dead'' then ret (parse ''0x000000000000000000000000000000000000dEaD'')
     else if n = ''null'' then ret (parse ''0x0000000000000000000000000000000000000000'')
     else if n = ''random'' then bindM (ask (ce_random_address C)) (\<lambda>a. ret (Some a))
     else ret (parse n))"

text \<open>The account of a command: given, or by its number, or the first one.\<close>

record account_choice =
  ac_address :: "address option"
  ac_account_no :: "nat option"

definition choose_account :: "'a account_choice_scheme \<Rightarrow> address list \<Rightarrow> failure + address" where
  "choose_account opt public_addrs = (case ac_address opt of
       Some a \<Rightarrow> Inr a
     | None \<Rightarrow> (case ac_account_no opt of
           Some n \<Rightarrow> if n < length public_addrs then Inr (public_addrs ! n)
             else Inl (Panic ''No public adss found with specified account_no'')
         | None \<Rightarrow> (case public_addrs of a # _ \<Rightarrow> Inr a | [] \<Rightarrow> Inl (Panic ''No public adss found''))))"

section \<open>Transfer\<close>

record transfer_options = account_choice +
  tr_chain_name :: string
  tr_recipient :: string
  tr_token :: string
  tr_all :: bool
  tr_amount :: "rat option"
  tr_deposit_id :: "string option"

definition token_column :: "externals \<Rightarrow> configured_chain \<Rightarrow> string \<Rightarrow> failure + string option" where
  "token_column E chain_cfg token = (if token = ''glm'' then Inr (Some (str_of_addr E (cc_token_address chain_cfg)))
     else if token = ''eth'' \<or> token = ''matic'' then Inr None else Inl (err_custom ''Unknown token''))"

definition whole_balance :: "env \<Rightarrow> configured_chain \<Rightarrow> string \<Rightarrow> address \<Rightarrow> u256 prg" where
  "whole_balance V chain_cfg token public_addr =
     (if token = ''glm'' then get_token_balance V (cc_token_address chain_cfg) public_addr None
      else if token = ''eth'' \<or> token = ''matic'' then
        bindM (rpc (\<lambda>n. ev_balance V n public_addr None)) (\<lambda>val.
        bindM (require (Panic ''Multiplication overflowed'') (ev_checked_mul V (cn_max_fee_per_gas chain_cfg) 21500)) (\<lambda>gas.
        bindM (liftR (to_u256_from_gwei (ev_checked_mul V) gas)) (\<lambda>gas_val.
          if gas_val > val then throw (err_custom ''Not enough eth to pay for gas'') else ret (val - gas_val))))
      else throw (err_custom ''Unknown token''))"

definition transfer_amount ::
    "cli_env \<Rightarrow> cli_config \<Rightarrow> configured_chain \<Rightarrow> transfer_options \<Rightarrow> address \<Rightarrow> u256 prg" where
  "transfer_amount C cfg chain_cfg opt public_addr = (case tr_amount opt of
       Some amount \<Rightarrow> liftR (unwrapped (to_u256_from_eth (ev_checked_mul (ce_env C)) amount))
     | None \<Rightarrow> if tr_all opt
         then bindM (connect C cfg chain_cfg) (\<lambda>_. whole_balance (ce_env C) chain_cfg (tr_token opt) public_addr)
         else throw (err_custom ''No amount specified''))"

definition transfer_row ::
    "externals \<Rightarrow> configured_chain \<Rightarrow> transfer_options \<Rightarrow> string option \<Rightarrow> address \<Rightarrow> address \<Rightarrow> string \<Rightarrow> token_transfer_db_obj" where
  "transfer_row E chain_cfg opt token public_addr recipient amount_str = \<lparr>tt_id = 0, tt_payment_id = None,
     tt_from_addr = str_of_addr E public_addr, tt_receiver_addr = str_of_addr E recipient,
     tt_chain_id = cc_chain_id chain_cfg, tt_token_addr = token, tt_token_amount = amount_str,
     tt_deposit_id = tr_deposit_id opt, tt_deposit_finish = 0, tt_create_date = 0, tt_tx_id = None,
     tt_paid_date = None, tt_fee_paid = None, tt_error = None\<rparr>"

definition transfer_asked_for ::
    "cli_env \<Rightarrow> cli_config \<Rightarrow> address list \<Rightarrow> transfer_options \<Rightarrow> token_transfer_db_obj prg" where
  "transfer_asked_for C cfg public_addrs opt = (let V = ce_env C; E = ev_ext V in
     bindM (liftR (configured cfg (tr_chain_name opt))) (\<lambda>chain_cfg.
     bindM (liftR (token_column E chain_cfg (tr_token opt))) (\<lambda>token.
     bindM (check_address_name C (tr_recipient opt)) (\<lambda>named.
     bindM (require (Panic ''called unwrap on an Err value'') named) (\<lambda>recipient.
     bindM (liftR (choose_account opt public_addrs)) (\<lambda>public_addr.
     bindM (transfer_amount C cfg chain_cfg opt public_addr) (\<lambda>amount.
     let amount_str = dec_of_u256 E amount in
     bindM (liftR (unwrapped (str_to_eth E amount_str))) (\<lambda>_.
       ret (transfer_row E chain_cfg opt token public_addr recipient amount_str)))))))))"

definition single_transfer :: "cli_env \<Rightarrow> cli_config \<Rightarrow> address list \<Rightarrow> transfer_options \<Rightarrow> token_transfer_db_obj prg" where
  "single_transfer C cfg public_addrs opt =
     bindM (transfer_asked_for C cfg public_addrs opt) (\<lambda>row.
     bindM (now (ce_env C)) (\<lambda>inserted.
     bindM (or_panic (on_db (insert_token_transfer_with_deposit_check inserted row))) (\<lambda>tt.
       or_panic (db_run (update_token_transfer
         (tt\<lparr>tt_payment_id := Some (tr_token opt @ ''_transfer_'' @ int_text (tt_id tt))\<rparr>))))))"

section \<open>Minting and deposits\<close>

record mint_options = account_choice +
  mi_chain_name :: string

definition mint_test_tokens :: "cli_env \<Rightarrow> cli_config \<Rightarrow> address list \<Rightarrow> mint_options \<Rightarrow> unit prg" where
  "mint_test_tokens C cfg public_addrs opt =
     bindM (liftR (choose_account opt public_addrs)) (\<lambda>public_addr.
     bindM (liftR (configured cfg (mi_chain_name opt))) (\<lambda>chain_cfg.
     bindM (connect C cfg chain_cfg) (\<lambda>_.
       mint_golem_token (ce_env C) (i64_as_u64 (cc_chain_id chain_cfg)) public_addr (cc_token_address chain_cfg)
         (cc_mint_contract chain_cfg) True)))"

definition lock_contract :: "configured_chain \<Rightarrow> failure + address" where
  "lock_contract chain_cfg = ok_or (Panic ''No lock contract found'') (cn_lock_contract chain_cfg)"

definition deposit_id_arg :: "env \<Rightarrow> string \<Rightarrow> failure + u256" where
  "deposit_id_arg V s = ok_or (err_custom ''Invalid deposit id'') (u256_of_hex (ev_ext V) s)"

record make_deposit_options = account_choice +
  mk_chain_name :: string
  mk_spender :: string
  mk_amount :: "rat option"
  mk_fee_amount :: "rat option"
  mk_skip_balance_check :: bool
  mk_block_until :: "timestamp option"
  mk_block_for :: "u64 option"
  mk_deposit_nonce :: "u64 option"
  mk_skip_allowance :: bool

text \<open>Until when the deposit is blocked: a date too far away for a number of milliseconds, or for a date, is a panic.\<close>

definition deposit_timestamp :: "env \<Rightarrow> make_deposit_options \<Rightarrow> u64 prg" where
  "deposit_timestamp V opt = (case mk_block_for opt of
       Some block_for \<Rightarrow> bindM (now V) (\<lambda>t. let s = as_i64 block_for in
         if \<bar>s\<bar> > 9223372036854775 then throw (Panic ''Invalid value block_for'')
         else bindM (require (Panic ''DateTime + TimeDelta overflowed'') (ev_from_timestamp V (t + s))) (\<lambda>date_fut.
           ret (i64_as_u64 date_fut)))
     | None \<Rightarrow> (case mk_block_until opt of
           Some block_until \<Rightarrow> ret (i64_as_u64 block_until)
         | None \<Rightarrow> bindM (now V) (\<lambda>t. ret (i64_as_u64 t))))"

definition deposit_sum :: "cli_env \<Rightarrow> make_deposit_options \<Rightarrow> failure + u256" where
  "deposit_sum C opt =
     bindE (ok_or (Panic ''Addition overflowed'') (ce_decimal_add C (or_default 0 (mk_fee_amount opt)) (or_default 0 (mk_amount opt))))
       (to_u256_from_eth (ev_checked_mul (ce_env C)))"

definition lock_approval :: "externals \<Rightarrow> configured_chain \<Rightarrow> address \<Rightarrow> address \<Rightarrow> allowance_request" where
  "lock_approval E chain_cfg public_addr lock = \<lparr>ar_owner = str_of_addr E public_addr,
     ar_token_addr = str_of_addr E (cc_token_address chain_cfg), ar_spender_addr = str_of_addr E lock,
     ar_chain_id = cc_chain_id chain_cfg, ar_amount = - 1\<rparr>"

text \<open>The result of the approval is not looked at.\<close>

definition approve_deposit ::
    "cli_env \<Rightarrow> payment_setup \<Rightarrow> configured_chain \<Rightarrow> address \<Rightarrow> make_deposit_options \<Rightarrow> unit prg" where
  "approve_deposit C S chain_cfg public_addr opt = (let V = ce_env C in
     bindM (liftR (lock_contract chain_cfg)) (\<lambda>lock.
     bindM (check_allowance V public_addr (cc_token_address chain_cfg) lock) (\<lambda>allowance.
     bindM (liftR (deposit_sum C opt)) (\<lambda>needed.
       if needed > allowance
       then bindM (catch_err (process_allowance V S (lock_approval (ev_ext V) chain_cfg public_addr lock))) (\<lambda>_. ret ())
       else ret ()))))"

definition make_deposit_local ::
    "cli_env \<Rightarrow> cli_config \<Rightarrow> address list \<Rightarrow> make_deposit_options \<Rightarrow> unit prg" where
  "make_deposit_local C cfg public_addrs opt = (let V = ce_env C in
     bindM (liftR (choose_account opt public_addrs)) (\<lambda>public_addr.
     bindM (liftR (configured cfg (mk_chain_name opt))) (\<lambda>chain_cfg.
     if mk_block_for opt \<noteq> None \<and> mk_block_until opt \<noteq> None
     then throw (err_custom ''Cannot specify both block-for and block-until'')
     else bindM (deposit_timestamp V opt) (\<lambda>timestamp.
     bindM (connect C cfg chain_cfg) (\<lambda>S.
     bindM (whenM (\<not> mk_skip_allowance opt) (approve_deposit C S chain_cfg public_addr opt)) (\<lambda>_.
     bindM (case mk_deposit_nonce opt of Some n \<Rightarrow> ret n | None \<Rightarrow> ask (ce_random_u64 C)) (\<lambda>deposit_nonce.
     bindM (check_address_name C (mk_spender opt)) (\<lambda>named.
     bindM (require (err_custom ''Cannot parse spender address'') named) (\<lambda>spender.
     bindM (liftR (lock_contract chain_cfg)) (\<lambda>lock.
       make_deposit V (i64_as_u64 (cc_chain_id chain_cfg)) public_addr (cc_token_address chain_cfg)
         \<lparr>no_lock_contract_address = lock, no_spender = spender, no_skip_balance_check = mk_skip_balance_check opt,
          no_amount = mk_amount opt, no_fee_amount = mk_fee_amount opt, no_deposit_nonce = deposit_nonce,
          no_timestamp = timestamp\<rparr>))))))))))"

record close_local_options = account_choice +
  cl_chain_name :: string
  cl_skip_check :: bool
  cl_deposit_id :: string

definition close_deposit_local ::
    "cli_env \<Rightarrow> cli_config \<Rightarrow> address list \<Rightarrow> close_local_options \<Rightarrow> unit prg" where
  "close_deposit_local C cfg public_addrs opt = (let V = ce_env C in
     bindM (liftR (choose_account opt public_addrs)) (\<lambda>public_addr.
     bindM (liftR (configured cfg (cl_chain_name opt))) (\<lambda>chain_cfg.
     bindM (connect C cfg chain_cfg) (\<lambda>_.
     bindM (liftR (deposit_id_arg V (cl_deposit_id opt))) (\<lambda>deposit_id.
     bindM (liftR (lock_contract chain_cfg)) (\<lambda>lock.
       close_deposit V (i64_as_u64 (cc_chain_id chain_cfg)) public_addr
         \<lparr>co_lock_contract_address = lock, co_skip_deposit_check = cl_skip_check opt, co_deposit_id = deposit_id,
          co_token_address = cc_token_address chain_cfg\<rparr>))))))"

record terminate_local_options = account_choice +
  te_chain_name :: string
  te_skip_check :: bool
  te_deposit_id :: "string option"
  te_deposit_nonce :: "u64 option"

text \<open>A deposit is named by its id, or by its nonce and its funder.\<close>

definition named_deposit :: "env \<Rightarrow> address option \<Rightarrow> string option \<Rightarrow> u64 option \<Rightarrow> failure + u256" where
  "named_deposit V funder deposit_id deposit_nonce = (case (deposit_id, deposit_nonce) of
       (Some i, None) \<Rightarrow> deposit_id_arg V i
     | (None, Some n) \<Rightarrow> (case funder of
           Some f \<Rightarrow> Inr (deposit_id_from_nonce f n)
         | None \<Rightarrow> Inl (err_custom ''Missing required parameter: deposit_funder''))
     | (Some _, Some _) \<Rightarrow> Inl (err_custom ''Invalid parameters: only one of deposit_id or deposit_nonce'')
     | (None, None) \<Rightarrow> Inl (err_custom ''Missing required parameters: either deposit_id or deposit_nonce''))"

definition terminate_deposit_local ::
    "cli_env \<Rightarrow> cli_config \<Rightarrow> address list \<Rightarrow> terminate_local_options \<Rightarrow> unit prg" where
  "terminate_deposit_local C cfg public_addrs opt = (let V = ce_env C in
     bindM (liftR (choose_account opt public_addrs)) (\<lambda>public_addr.
     bindM (liftR (configured cfg (te_chain_name opt))) (\<lambda>chain_cfg.
     bindM (connect C cfg chain_cfg) (\<lambda>_.
     bindM (liftR (named_deposit V (Some public_addr) (te_deposit_id opt) (te_deposit_nonce opt))) (\<lambda>deposit_id.
     bindM (liftR (lock_contract chain_cfg)) (\<lambda>lock.
       terminate_deposit V (i64_as_u64 (cc_chain_id chain_cfg)) public_addr
         \<lparr>to_lock_contract_address = lock, to_skip_deposit_check = te_skip_check opt, to_deposit_id = deposit_id\<rparr>))))))"

record check_deposit_options =
  ck_chain_name :: string
  ck_deposit_id :: "string option"
  ck_deposit_nonce :: "u64 option"
  ck_deposit_funder :: "address option"

definition deposit_details_local :: "cli_env \<Rightarrow> cli_config \<Rightarrow> check_deposit_options \<Rightarrow> deposit_details prg" where
  "deposit_details_local C cfg opt = (let V = ce_env C in
     bindM (liftR (configured cfg (ck_chain_name opt))) (\<lambda>chain_cfg.
     bindM (connect C cfg chain_cfg) (\<lambda>_.
     bindM (liftR (named_deposit V (ck_deposit_funder opt) (ck_deposit_id opt) (ck_deposit_nonce opt))) (\<lambda>deposit_id.
     bindM (liftR (lock_contract chain_cfg)) (\<lambda>lock.
       runtime_deposit_details V deposit_id lock)))))"

section \<open>Importing payments\<close>

text \<open>The records of the file: a record that cannot be read ends the list.\<close>

definition check_imported :: "externals \<Rightarrow> cli_config \<Rightarrow> token_transfer_db_obj \<Rightarrow> failure + unit" where
  "check_imported E cfg tt =
     bindE (ok_or (err_custom ''Chain id not found in config file'')
       (find (\<lambda>c. cc_chain_id c = tt_chain_id tt) (map snd (cg_chain cfg)))) (\<lambda>chain_cfg.
     case tt_token_addr tt of
       None \<Rightarrow> Inr ()
     | Some token_addr \<Rightarrow> if str_of_addr E (cc_token_address chain_cfg) \<noteq> to_lower token_addr
         then Inl (err_custom ''Token address is different from default token address'') else Inr ())"

fun read_records ::
    "externals \<Rightarrow> cli_config \<Rightarrow> (unit + token_transfer_db_obj) list \<Rightarrow> failure + token_transfer_db_obj list" where
  "read_records E cfg [] = Inr []"
| "read_records E cfg (Inl e # records) = Inr []"
| "read_records E cfg (Inr tt # records) =
     bindE (check_imported E cfg tt) (\<lambda>_. bindE (read_records E cfg records) (\<lambda>tts. Inr (tt # tts)))"

text \<open>A statement on a connection that may be read only.\<close>

definition write_on :: "cli_env \<Rightarrow> bool \<Rightarrow> 'a dbp \<Rightarrow> 'a prg" where
  "write_on C read_only m = (if read_only then throw (Err (SQLxError (ce_readonly_error C))) else db_run m)"

definition import_payments ::
    "cli_env \<Rightarrow> cli_config \<Rightarrow> bool \<Rightarrow> (unit + token_transfer_db_obj) list option \<Rightarrow> unit prg" where
  "import_payments C cfg sqlite_read_only file =
     (if \<not> sqlite_read_only then throw (err_custom ''Cannot import payments in read-only mode'')
      else bindM (require (Err IoError) file) (\<lambda>records.
      bindM (liftR (read_records (ev_ext (ce_env C)) cfg records)) (\<lambda>token_transfer_list.
        forM token_transfer_list (\<lambda>tt. bindM (now (ce_env C)) (\<lambda>inserted.
          bindM (write_on C sqlite_read_only (insert_token_transfer inserted tt)) (\<lambda>_. ret ()))))))"

section \<open>Cleaning up\<close>

record cleanup_options =
  cu_remove_unsent_tx :: bool
  cu_remove_tx_stuck :: bool
  cu_remove_tx_unsafe :: bool
  cu_chain_id :: "i64 option"

text \<open>The loop removes one unsent transaction a turn and counts them.\<close>

fun remove_unsent :: "nat \<Rightarrow> nat \<Rightarrow> nat prg" where
  "remove_unsent 0 removed_so_far = throw OutOfFuel"
| "remove_unsent (Suc fuel) removed_so_far =
     bindM (catch_err remove_last_unsent_transactions) (\<lambda>r. case r of
       Inr (Some tx_id) \<Rightarrow> remove_unsent fuel (removed_so_far + 1)
     | Inr None \<Rightarrow> ret removed_so_far
     | Inl e \<Rightarrow> throw (err_custom ''Error when removing unsent transaction''))"

definition next_to_process :: "cli_env \<Rightarrow> i64 option \<Rightarrow> tx_db_obj option prg" where
  "next_to_process C chain_id =
     bindM (require (err_custom ''Chain id not specified for tx removal'') chain_id) (\<lambda>c.
     bindM (db_run (get_next_transactions_to_process (ev_ext (ce_env C)) None 1 c)) (\<lambda>transactions.
       ret (case transactions of tx # _ \<Rightarrow> Some tx | [] \<Rightarrow> None)))"

definition remove_forced :: "tx_db_obj \<Rightarrow> unit prg" where
  "remove_forced tx = bindM (catch_err (remove_transaction_force (t_id tx))) (\<lambda>r. case r of
       Inr _ \<Rightarrow> ret () | Inl e \<Rightarrow> throw (err_custom ''Error when removing transaction''))"

text \<open>The result says whether the command goes on; without a transaction it returns.\<close>

definition remove_stuck :: "cli_env \<Rightarrow> i64 option \<Rightarrow> bool prg" where
  "remove_stuck C chain_id = bindM (next_to_process C chain_id) (\<lambda>next. case next of
       None \<Rightarrow> ret False
     | Some tx \<Rightarrow> bindM (if t_first_stuck_date tx \<noteq> None then remove_forced tx else ret ()) (\<lambda>_. ret True))"

definition remove_unsafe :: "cli_env \<Rightarrow> i64 option \<Rightarrow> unit prg" where
  "remove_unsafe C chain_id = bindM (next_to_process C chain_id) (\<lambda>next. case next of
       None \<Rightarrow> ret () | Some tx \<Rightarrow> remove_forced tx)"

definition cleanup :: "cli_env \<Rightarrow> nat \<Rightarrow> cleanup_options \<Rightarrow> unit prg" where
  "cleanup C fuel opt =
     bindM (if cu_remove_unsent_tx opt then bindM (remove_unsent fuel 0) (\<lambda>_. ret ()) else ret ()) (\<lambda>_.
     bindM (if cu_remove_tx_stuck opt then remove_stuck C (cu_chain_id opt) else ret True) (\<lambda>go_on.
       whenM (go_on \<and> cu_remove_tx_unsafe opt) (remove_unsafe C (cu_chain_id opt))))"

section \<open>Overriding the configuration\<close>

definition rpc_endpoints_from_env :: "(string \<times> string) list" where
  "rpc_endpoints_from_env = [(''POLYGON_GETH_ADDR'', ''polygon''), (''GOERLI_GETH_ADDR'', ''goerli''),
     (''MUMBAI_GETH_ADDR'', ''mumbai''), (''DEV_GETH_ADDR'', ''dev'')]"

definition env_rpc :: "string \<Rightarrow> rpc_settings" where
  "env_rpc s = \<lparr>rs_names = Some ''ENV_RPC'', rs_endpoints = Some s, rs_dns_source = None, rs_json_source = None,
     rs_skip_validation = None, rs_backup_level = None, rs_verify_interval_secs = None, rs_min_interval_ms = None,
     rs_max_timeout_ms = None, rs_allowed_head_behind_secs = None, rs_max_consecutive_errors = None\<rparr>"

definition override_rpc :: "cli_env \<Rightarrow> string \<times> string \<Rightarrow> cli_config \<Rightarrow> failure + cli_config" where
  "override_rpc C f cfg = (case ev_getenv (ce_env C) (fst f) of
       None \<Rightarrow> Inr cfg
     | Some addrs \<Rightarrow> bindE (change_rpc_endpoints (snd f) (map env_rpc (split_commas addrs)) (cg_chain cfg))
         (\<lambda>cs. Inr (cfg\<lparr>cg_chain := cs\<rparr>)))"

definition max_fee_from_env :: "(string \<times> string) list" where
  "max_fee_from_env = [(''POLYGON_MAX_BASE_FEE'', ''polygon''), (''GOERLI_MAX_BASE_FEE'', ''goerli''),
     (''MUMBAI_MAX_BASE_FEE'', ''mumbai''), (''DEV_MAX_BASE_FEE'', ''dev'')]"

definition override_max_fee :: "cli_env \<Rightarrow> string \<times> string \<Rightarrow> cli_config \<Rightarrow> failure + cli_config" where
  "override_max_fee C f cfg = (case ev_getenv (ce_env C) (fst f) of
       None \<Rightarrow> Inr cfg
     | Some base_fee \<Rightarrow>
         bindE (ok_or (err_custom ''Failed to parse max base fee'') (ce_decimal_from_str C base_fee)) (\<lambda>fee_per_gas.
         bindE (change_max_fee (snd f) fee_per_gas (cg_chain cfg)) (\<lambda>cs. Inr (cfg\<lparr>cg_chain := cs\<rparr>))))"

fun override_all :: "('a \<Rightarrow> cli_config \<Rightarrow> failure + cli_config) \<Rightarrow> 'a list \<Rightarrow> cli_config \<Rightarrow> failure + cli_config" where
  "override_all f [] cfg = Inr cfg"
| "override_all f (x # xs) cfg = bindE (f x cfg) (override_all f xs)"

definition config_with_env :: "cli_env \<Rightarrow> cli_config \<Rightarrow> failure + cli_config" where
  "config_with_env C cfg = bindE (override_all (override_rpc C) rpc_endpoints_from_env cfg)
     (override_all (override_max_fee C) max_fee_from_env)"

section \<open>Invariants\<close>

lemma preserves_or_panic [preserves_intro]: "preserves I m \<Longrightarrow> preserves I (or_panic m)"
  by (auto simp: preserves_def or_panic_def split: prod.split)

lemma asks_connect [asks_intro]: "asks (connect C cfg chain_cfg)"
  unfolding connect_def by (intro asks_intro)

lemma asks_check_address_name [asks_intro]: "asks (check_address_name C n)"
  unfolding check_address_name_def Let_def by (intro asks_intro)

lemma asks_whole_balance [asks_intro]: "asks (whole_balance V chain_cfg token a)"
  unfolding whole_balance_def by (intro asks_intro)

lemma asks_transfer_asked_for [asks_intro]: "asks (transfer_asked_for C cfg addrs opt)"
  unfolding transfer_asked_for_def transfer_amount_def Let_def by (intro asks_intro)

lemmas asking_preserves [preserves_intro] = asks_connect [THEN asks_preserves]
  asks_check_address_name [THEN asks_preserves] asks_transfer_asked_for [THEN asks_preserves]
  asks_check_allowance [THEN asks_preserves] asks_runtime_deposit_details [THEN asks_preserves] asks_get_balance [THEN asks_preserves]

lemma preserves_single_transfer [preserves_intro]: "preserves world_ok (single_transfer C cfg addrs opt)"
  unfolding single_transfer_def by (intro preserves_intro preserves_insert_with_check ok_update_token_transfer)

lemma preserves_mint_test_tokens [preserves_intro]: "preserves world_ok (mint_test_tokens C cfg addrs opt)"
  unfolding mint_test_tokens_def by (intro preserves_intro)

lemma preserves_make_deposit_local [preserves_intro]: "preserves world_ok (make_deposit_local C cfg addrs opt)"
  unfolding make_deposit_local_def approve_deposit_def deposit_timestamp_def Let_def by (intro preserves_intro)

lemma preserves_close_deposit_local [preserves_intro]: "preserves world_ok (close_deposit_local C cfg addrs opt)"
  unfolding close_deposit_local_def Let_def by (intro preserves_intro)

lemma preserves_terminate_deposit_local [preserves_intro]: "preserves world_ok (terminate_deposit_local C cfg addrs opt)"
  unfolding terminate_deposit_local_def Let_def by (intro preserves_intro)

lemma preserves_deposit_details_local [preserves_intro]: "preserves world_ok (deposit_details_local C cfg opt)"
  unfolding deposit_details_local_def Let_def by (intro preserves_intro)

lemma preserves_import_payments [preserves_intro]: "preserves world_ok (import_payments C cfg ro file)"
  unfolding import_payments_def write_on_def by (intro preserves_intro ok_insert_token_transfer)

lemma preserves_remove_unsent [preserves_intro]: "preserves world_ok (remove_unsent fuel n)"
  by (induction fuel n rule: remove_unsent.induct) (auto intro!: preserves_intro)

lemma preserves_next_txs [preserves_intro]: "preserves I (get_next_transactions_to_process E a l c)"
  unfolding get_next_transactions_to_process_def get_transactions_def by (rule preserves_gets)

lemma preserves_cleanup [preserves_intro]: "preserves world_ok (cleanup C fuel opt)"
  unfolding cleanup_def remove_stuck_def remove_unsafe_def remove_forced_def next_to_process_def by (intro preserves_intro)

end
