(* ===== verification/CliProofs.thy ===== *)
theory CliProofs imports Cli SetupProofs TransferRows begin

text \<open>
  What the command line tool guarantees: cleaning up ends and removes exactly the unsent transactions that can be
  removed, a transfer queues one row or nothing, and an import never writes.
\<close>

section \<open>Removing the unsent transactions\<close>

definition unsent :: "db \<Rightarrow> tx_db_obj list" where
  "unsent d = tbl_select (\<lambda>t. t_broadcast_date t = None \<and> t_signed_date t = None) (d_tx d)"

definition unsent_ids :: "db \<Rightarrow> i64 set" where
  "unsent_ids d = t_id ` set (unsent d)"

text \<open>The unsent transactions an allowance refers to, and those above the last of them.\<close>

definition held_ids :: "db \<Rightarrow> i64 set" where
  "held_ids d = {i \<in> unsent_ids d. Some i \<in> al_tx_id ` set (tb_rows (d_allowance d))}"

definition removable_ids :: "db \<Rightarrow> i64 set" where
  "removable_ids d = {i \<in> unsent_ids d. \<forall>j\<in>held_ids d. j < i}"

lemma last_unsent_max:
  assumes "get_last_unsent_tx 0 d = (Inr (Some tx), d')"
  shows "t_id tx \<in> unsent_ids d \<and> (\<forall>i\<in>unsent_ids d. i \<le> t_id tx)"
proof -
  obtain rest where s: "sort_key (\<lambda>t. - t_id t) (unsent d) = tx # rest"
    using assms by (auto simp: get_last_unsent_tx_def unsent_def split: list.splits)
  then have set: "set (unsent d) = set (tx # rest)" by (metis set_sort)
  have "sorted (map (\<lambda>t. - t_id t) (tx # rest))" unfolding s [symmetric] by (rule sorted_sort_key)
  then show ?thesis by (auto simp: unsent_ids_def set)
qed

lemma last_unsent_cases:
  obtains (some) tx where "get_last_unsent_tx 0 d = (Inr (Some tx), d)" and "unsent d \<noteq> []"
  | (none) "get_last_unsent_tx 0 d = (Inr None, d)" and "unsent d = []"
proof (cases "sort_key (\<lambda>t. - t_id t) (unsent d)")
  case Nil
  then have "set (unsent d) = {}" by (metis set_sort list.set(1))
  with Nil show ?thesis using none by (simp add: get_last_unsent_tx_def unsent_def)
next
  case (Cons tx rest)
  then have "unsent d \<noteq> []" by auto
  with Cons show ?thesis using some by (simp add: get_last_unsent_tx_def unsent_def)
qed

lemma unsent_after:
  assumes "Some i \<notin> al_tx_id ` set (tb_rows (d_allowance d))"
  shows "unsent (removed {i} d) = filter (\<lambda>t. t_id t \<noteq> i) (unsent d)"
    and "unsent_ids (removed {i} d) = unsent_ids d - {i}"
    and "held_ids (removed {i} d) = held_ids d"
proof -
  show u: "unsent (removed {i} d) = filter (\<lambda>t. t_id t \<noteq> i) (unsent d)"
    by (simp add: unsent_def tbl_select_def removed_rows conj_commute)
  show ids: "unsent_ids (removed {i} d) = unsent_ids d - {i}" by (auto simp: unsent_ids_def u)
  have "al_tx_id (freed_allowance {i} a) = al_tx_id a" if "a \<in> set (tb_rows (d_allowance d))" for a
    using assms that by (auto simp: freed_allowance_def image_iff)
  then have "al_tx_id ` set (tb_rows (d_allowance (removed {i} d))) = al_tx_id ` set (tb_rows (d_allowance d))"
    by (simp add: removed_rows image_image cong: image_cong)
  then show "held_ids (removed {i} d) = held_ids d" using assms by (auto simp: held_ids_def ids)
qed

lemma removable_after:
  assumes "get_last_unsent_tx 0 d = (Inr (Some tx), d')" and free: "Some (t_id tx) \<notin> al_tx_id ` set (tb_rows (d_allowance d))"
  shows "removable_ids d = insert (t_id tx) (removable_ids (removed {t_id tx} d))"
proof -
  have "j < t_id tx" if "j \<in> held_ids d" for j
    using that last_unsent_max [OF assms(1)] free by (auto simp: held_ids_def order.strict_iff_order)
  then show ?thesis
    using last_unsent_max [OF assms(1)] unsent_after [OF free] by (auto simp: removable_ids_def)
qed

lemma removed_fewer:
  assumes "i \<in> unsent_ids d"
  shows "length (filter (\<lambda>t. t_id t \<noteq> i) (unsent d)) < length (unsent d)"
  using assms by (auto simp: unsent_ids_def intro: length_filter_less)

lemma remove_unsent_runs:
  assumes "world_ok w" and "length (unsent (w_db w)) < fuel"
  shows "remove_unsent fuel n w =
    (if held_ids (w_db w) = {} then Inr (n + card (removable_ids (w_db w)))
     else Inl (err_custom ''Error when removing unsent transaction''),
     w\<lparr>w_db := removed (removable_ids (w_db w)) (w_db w)\<rparr>)"
  using assms
proof (induction fuel arbitrary: n w)
  case (Suc fuel)
  let ?d = "w_db w"
  show ?case
  proof (cases rule: last_unsent_cases [of ?d])
    case none
    then have "unsent_ids ?d = {}" by (simp add: unsent_ids_def)
    moreover have "remove_last_unsent_transactions w = (Inr None, w)"
      using none by (simp add: remove_last_unsent_transactions_def db_transaction_eq bindM_def sqlx_def)
    ultimately show ?thesis by (simp add: removable_ids_def held_ids_def bindM_def catch_err_def)
  next
    case (some tx)
    note max = last_unsent_max [OF some(1)] and step = remove_last_unsent_result [OF Suc.prems(1) some(1)]
    show ?thesis
    proof (cases "Some (t_id tx) \<in> al_tx_id ` set (tb_rows (d_allowance ?d))")
      case True
      then have held: "t_id tx \<in> held_ids ?d" using max by (simp add: held_ids_def)
      have "removable_ids ?d = {}"
        using max held by (auto simp: removable_ids_def) (meson leD)
      then show ?thesis using step True held by (auto simp: bindM_def catch_err_def)
    next
      case False
      let ?w1 = "w\<lparr>w_db := removed {t_id tx} ?d\<rparr>"
      have run: "remove_last_unsent_transactions w = (Inr (Some (t_id tx)), ?w1)" using step False by simp
      have ok: "world_ok ?w1" using preservesD [OF preserves_remove_last_unsent Suc.prems(1) run] .
      have fuel: "length (unsent (w_db ?w1)) < fuel"
        using unsent_after(1) [OF False] removed_fewer [of "t_id tx" ?d] max Suc.prems(2) by simp
      have ids: "removable_ids ?d = insert (t_id tx) (removable_ids (w_db ?w1))"
        using removable_after [OF some(1) False] by simp
      have "finite (removable_ids (w_db ?w1))" "t_id tx \<notin> removable_ids (w_db ?w1)"
        using unsent_after(2) [OF False] by (simp_all add: removable_ids_def unsent_ids_def)
      then have card: "card (removable_ids ?d) = Suc (card (removable_ids (w_db ?w1)))" by (simp add: ids)
      have "remove_unsent (Suc fuel) n w = remove_unsent fuel (n + 1) ?w1"
        by (simp add: bindM_def catch_err_def run)
      also have "\<dots> = (if held_ids ?d = {} then Inr (n + card (removable_ids ?d))
          else Inl (err_custom ''Error when removing unsent transaction''), w\<lparr>w_db := removed (removable_ids ?d) ?d\<rparr>)"
        using Suc.IH [OF ok fuel, of "n + 1"] unsent_after(3) [OF False] card by (simp add: removed_comp ids)
      finally show ?thesis .
    qed
  qed
qed simp

text \<open>C35. The loop that removes the unsent transactions ends within as many turns as there are of them and one more.
  It removes exactly the unsent transactions above the last one an allowance refers to, and frees their transfers;
  without such an allowance it returns their number, otherwise it stops with an error.\<close>

theorem cleanup_removes_unsent:
  assumes "world_ok w" and "length (unsent (w_db w)) < fuel"
  shows "cleanup C fuel \<lparr>cu_remove_unsent_tx = True, cu_remove_tx_stuck = False, cu_remove_tx_unsafe = False, cu_chain_id = c\<rparr> w =
    (if held_ids (w_db w) = {} then Inr () else Inl (err_custom ''Error when removing unsent transaction''),
     w\<lparr>w_db := removed (removable_ids (w_db w)) (w_db w)\<rparr>)"
  using remove_unsent_runs [OF assms, of 0] by (simp add: cleanup_def bindM_def)

theorem cleanup_removes_unsent_witness:
  "\<forall>C. \<exists>w. cleanup C 2 \<lparr>cu_remove_unsent_tx = True, cu_remove_tx_stuck = False, cu_remove_tx_unsafe = False, cu_chain_id = None\<rparr>
     (one_tx_world []) = (Inr (), w) \<and> tb_rows (d_tx (w_db w)) = [] \<and>
     tb_rows (d_token_transfer (w_db w)) = [sample_transfer 1 None]"
proof
  fix C
  let ?w = "one_tx_world []"
  have "world_ok ?w"
    using db_ok_empty
    by (simp add: world_ok_def db_ok_def keys_ok_def fk_ok_def one_tx_world_def db_empty_def tbl_wf_def tbl_ids_def
        sample_transfer_def tx_default_def)
  moreover have "length (unsent (w_db ?w)) < 2" "unsent_ids (w_db ?w) = {1}" "held_ids (w_db ?w) = {}"
    by (simp_all add: unsent_def unsent_ids_def held_ids_def one_tx_world_def tbl_select_def tx_default_def)
  moreover from this have "removable_ids (w_db ?w) = {1}" by (simp add: removable_ids_def)
  ultimately show "\<exists>w. cleanup C 2 \<lparr>cu_remove_unsent_tx = True, cu_remove_tx_stuck = False, cu_remove_tx_unsafe = False,
      cu_chain_id = None\<rparr> ?w = (Inr (), w) \<and> tb_rows (d_tx (w_db w)) = [] \<and>
     tb_rows (d_token_transfer (w_db w)) = [sample_transfer 1 None]"
    using cleanup_removes_unsent [of ?w 2 C None]
    by (simp add: removed_rows one_tx_world_def freed_transfer_def sample_transfer_def tx_default_def)
qed

section \<open>A single transfer\<close>

text \<open>
  What a transfer command asks for, read from its options at time \<open>t\<close> without the code's own helpers: the sender,
  the recipient (three names stand for an address, one for a random address, any other text is an address), the
  amount (given, the answered balance of the token contract, or the answered balance of gas less the greatest fee
  of 21500 units), and every field of the row but its number, date and payment id.
\<close>

definition asked_sender :: "transfer_options \<Rightarrow> address list \<Rightarrow> address \<Rightarrow> bool" where
  "asked_sender opt addrs sender \<longleftrightarrow> (case (ac_address opt, ac_account_no opt) of
       (Some a, _) \<Rightarrow> sender = a
     | (None, Some n) \<Rightarrow> n < length addrs \<and> addrs ! n = sender
     | (None, None) \<Rightarrow> addrs \<noteq> [] \<and> hd addrs = sender)"

definition named_addresses :: "(string \<times> string) list" where
  "named_addresses = [(''funds'', ''0x333dFEa0C940Dc9971C32C69837aBE14207F9097''),
     (''dead'', ''0x000000000000000000000000000000000000dEaD''), (''null'', ''0x0000000000000000000000000000000000000000'')]"

definition asked_recipient :: "cli_env \<Rightarrow> transfer_options \<Rightarrow> nat \<Rightarrow> address \<Rightarrow> bool" where
  "asked_recipient C opt t a \<longleftrightarrow> (let n = tr_recipient opt in
     if n = ''random'' then a = ce_random_address C t
     else addr_of_str (ev_ext (ce_env C)) (case map_of named_addresses n of Some s \<Rightarrow> s | None \<Rightarrow> n) = Some a)"

definition after_recipient :: "transfer_options \<Rightarrow> nat \<Rightarrow> nat" where
  "after_recipient opt t = (if tr_recipient opt = ''random'' then Suc t else t)"

definition answered_token_balance :: "env \<Rightarrow> address \<Rightarrow> address \<Rightarrow> nat \<Rightarrow> u256 \<Rightarrow> bool" where
  "answered_token_balance V token holder t amount \<longleftrightarrow> (\<exists>block data res.
     ev_block_number V t = Inr block \<and> encode_erc20_balance_of (ev_ext V) holder = Inr data \<and>
     ev_call V (t + 2) (call_default\<lparr>cr_to := Some token, cr_data := Some data\<rparr>) (Some block) = Inr res \<and>
     length res = 32 \<and> amount = from_big_endian res)"

definition asked_amount :: "cli_env \<Rightarrow> configured_chain \<Rightarrow> transfer_options \<Rightarrow> nat \<Rightarrow> address \<Rightarrow> u256 \<Rightarrow> bool" where
  "asked_amount C chain_cfg opt t sender amount \<longleftrightarrow> (let V = ce_env C; cm = ev_checked_mul V in
     case tr_amount opt of
       Some a \<Rightarrow> to_u256_from_eth cm a = Inr amount
     | None \<Rightarrow> tr_all opt \<and>
         (if tr_token opt = ''glm'' then answered_token_balance V (cc_token_address chain_cfg) sender t amount
          else \<exists>gas fee balance.
            cm (cn_max_fee_per_gas chain_cfg) 21500 = Some gas \<and> to_u256_from_gwei cm gas = Inr fee \<and>
            ev_balance V t sender None = Inr balance \<and> unat amount + unat fee = unat balance))"

definition asked_row ::
    "cli_env \<Rightarrow> configured_chain \<Rightarrow> transfer_options \<Rightarrow> address \<Rightarrow> address \<Rightarrow> u256 \<Rightarrow> token_transfer_db_obj \<Rightarrow> bool" where
  "asked_row C chain_cfg opt sender recipient amount row \<longleftrightarrow> (let E = ev_ext (ce_env C) in
     tt_from_addr row = str_of_addr E sender \<and> tt_receiver_addr row = str_of_addr E recipient \<and>
     tt_token_amount row = dec_of_u256 E amount \<and>
     tt_chain_id row = cc_chain_id chain_cfg \<and> tt_deposit_id row = tr_deposit_id opt \<and> tt_deposit_finish row = 0 \<and>
     tr_token opt \<in> {''glm'', ''eth'', ''matic''} \<and>
     tt_token_addr row = (if tr_token opt = ''glm'' then Some (str_of_addr E (cc_token_address chain_cfg)) else None) \<and>
     tt_tx_id row = None \<and> tt_fee_paid row = None \<and> tt_paid_date row = None \<and> tt_error row = None)"

lemma update_unassigned:
  "tt_tx_id t = None \<Longrightarrow> update_token_transfer t d =
    (Inr t, update_tt_where (\<lambda>u. tt_id u = tt_id t) (\<lambda>u. t\<lparr>tt_create_date := tt_create_date u\<rparr>) d)"
  by (simp add: update_token_transfer_def constrained_def fk_tx_def bindM_def)

lemma update_added:
  assumes "tbl_wf tt_id (d_token_transfer d)" and "added_transfer row d d'"
  shows "added_transfer (row\<lparr>tt_payment_id := p\<rparr>) d
    (update_tt_where (\<lambda>u. tt_id u = tt_id row) (\<lambda>u. row\<lparr>tt_payment_id := p, tt_create_date := tt_create_date u\<rparr>) d')"
proof -
  let ?t = "d_token_transfer d"
  have "tt_id u \<noteq> tt_id row" if "u \<in> set (tb_rows ?t)" for u
    using assms that by (auto simp: tbl_wf_def added_transfer_def list_all_iff)
  then have "map (\<lambda>u. if tt_id u = tt_id row then row\<lparr>tt_payment_id := p, tt_create_date := tt_create_date u\<rparr> else u) (tb_rows ?t @ [row])
      = tb_rows ?t @ [row\<lparr>tt_payment_id := p\<rparr>]"
    by (auto intro: map_idI)
  then show ?thesis using assms(2) by (simp add: added_transfer_def update_tt_where_def tbl_update_where_def)
qed

lemma unwrapped_Inr: "unwrapped r = Inr a \<longleftrightarrow> r = Inr a"
  by (simp add: unwrapped_def split: sum.split failure.split)

lemma whole_balance_gas:
  assumes "whole_balance V chain_cfg token a w = (Inr amount, w')" and "token \<noteq> ''glm''"
  shows "\<exists>gas fee balance. ev_checked_mul V (cn_max_fee_per_gas chain_cfg) 21500 = Some gas \<and>
    to_u256_from_gwei (ev_checked_mul V) gas = Inr fee \<and>
    ev_balance V (w_tick w) a None = Inr balance \<and> unat amount + unat fee = unat balance"
proof -
  obtain b gas fee where "ev_balance V (w_tick w) a None = Inr b" "ev_checked_mul V (cn_max_fee_per_gas chain_cfg) 21500 = Some gas"
    "to_u256_from_gwei (ev_checked_mul V) gas = Inr fee" and fee: "\<not> fee > b" "amount = b - fee"
    using assms by (auto simp: whole_balance_def bindM_eq_Inr_iff rpc_done monad_simps split: if_splits)
  moreover have "unat amount + unat fee = unat b"
    using fee by (simp add: unat_sub not_less word_le_nat_alt)
  ultimately show ?thesis by blast
qed

lemma whole_balance_token:
  assumes "whole_balance V chain_cfg ''glm'' a w = (Inr amount, w')"
  shows "answered_token_balance V (cc_token_address chain_cfg) a (w_tick w) amount"
  using assms
  by (auto simp: whole_balance_def get_token_balance_def get_balance_def block_number_or_latest_def answered_token_balance_def
      bindM_eq_Inr_iff rpc_done monad_simps split: if_splits)

lemma transfer_amount_asked:
  assumes "transfer_amount C cfg chain_cfg opt sender w = (Inr amount, w')"
  shows "asked_amount C chain_cfg opt (w_tick w) sender amount"
proof (cases "tr_amount opt")
  case (Some a)
  then show ?thesis using assms by (simp add: transfer_amount_def asked_amount_def unwrapped_Inr)
next
  case None
  then have all: "tr_all opt" and bal: "whole_balance (ce_env C) chain_cfg (tr_token opt) sender w = (Inr amount, w')"
    using assms by (auto simp: transfer_amount_def connect_def bindM_eq_Inr_iff monad_simps split: if_splits)
  show ?thesis
  proof (cases "tr_token opt = ''glm''")
    case True
    with bal have "whole_balance (ce_env C) chain_cfg ''glm'' sender w = (Inr amount, w')" by simp
    from whole_balance_token [OF this] show ?thesis using True None all by (simp add: asked_amount_def Let_def)
  next
    case False
    from whole_balance_gas [OF bal this] show ?thesis using False None all by (simp add: asked_amount_def Let_def)
  qed
qed

lemma check_address_name_asked:
  assumes "check_address_name C (tr_recipient opt) w = (Inr (Some a), w')"
  shows "asked_recipient C opt (w_tick w) a" and "w_tick w' = after_recipient opt (w_tick w)"
  using assms
  by (auto simp: check_address_name_def Let_def asked_recipient_def after_recipient_def named_addresses_def ask_def bindM_def ret_def
      split: if_splits)

lemma choose_account_asked: "choose_account opt addrs = Inr sender \<Longrightarrow> asked_sender opt addrs sender"
  by (auto simp: choose_account_def asked_sender_def split: option.splits if_splits list.splits)

lemma transfer_asked_for_row:
  assumes "transfer_asked_for C cfg addrs opt w = (Inr row, w')"
  shows "\<exists>chain_cfg sender recipient amount. map_of (cg_chain cfg) (tr_chain_name opt) = Some chain_cfg \<and>
    asked_sender opt addrs sender \<and> asked_recipient C opt (w_tick w) recipient \<and>
    asked_amount C chain_cfg opt (after_recipient opt (w_tick w)) sender amount \<and>
    asked_row C chain_cfg opt sender recipient amount row"
proof -
  let ?E = "ev_ext (ce_env C)"
  obtain chain_cfg token sender amount recipient w1 w2 where
    c: "map_of (cg_chain cfg) (tr_chain_name opt) = Some chain_cfg" "choose_account opt addrs = Inr sender"
    and token: "token_column ?E chain_cfg (tr_token opt) = Inr token"
    and named: "check_address_name C (tr_recipient opt) w = (Inr (Some recipient), w1)"
    and amount: "transfer_amount C cfg chain_cfg opt sender w1 = (Inr amount, w2)"
    and row: "row = transfer_row ?E chain_cfg opt token sender recipient (dec_of_u256 ?E amount)"
    using assms by (auto simp: transfer_asked_for_def Let_def bindM_eq_Inr_iff configured_def monad_simps)
  have "asked_row C chain_cfg opt sender recipient amount row"
    using token by (auto simp: asked_row_def Let_def row transfer_row_def token_column_def split: if_splits)
  then show ?thesis
    using c(1) choose_account_asked [OF c(2)] check_address_name_asked [OF named] transfer_amount_asked [OF amount] by auto
qed

lemma queue_row_cases:
  assumes "bindM (now V) (\<lambda>inserted. bindM (or_panic (on_db (insert_token_transfer_with_deposit_check inserted row))) (\<lambda>tt.
      or_panic (db_run (update_token_transfer (tt\<lparr>tt_payment_id := Some (name (tt_id tt))\<rparr>))))) w = (r, w')"
    and "world_ok w" and "tt_tx_id row = None"
  shows "(\<exists>e. r = Inl e) \<and> w_db w' = w_db w \<or>
    (\<exists>row'. r = Inr row' \<and> added_transfer row' (w_db w) (w_db w') \<and>
      row' = row\<lparr>tt_id := tt_id row', tt_create_date := tt_create_date row', tt_payment_id := Some (name (tt_id row'))\<rparr>)"
proof -
  let ?d = "w_db w" and ?t = "ev_now V (w_tick w)"
  have wf: "tbl_wf tt_id (d_token_transfer ?d)" using assms(2) by (simp add: world_ok_def db_ok_def keys_ok_def)
  obtain q d where q: "insert_token_transfer_with_deposit_check ?t row ?d = (q, d)" by fastforce
  from insert_checked_cases [OF q assms(3)] show ?thesis
  proof (elim disjE exE conjE)
    fix e assume "q = Inl (Err e)" "d = ?d"
    then show ?thesis using assms(1) q
      by (auto simp: bindM_def now_def ask_def or_panic_def unwrapped_def on_db_def zoom_def)
  next
    fix row1 assume row1: "q = Inr row1" "added_transfer row1 ?d d" "row1 = row\<lparr>tt_id := tt_id row1, tt_create_date := ?t\<rparr>"
    let ?row = "row1\<lparr>tt_payment_id := Some (name (tt_id row1))\<rparr>"
    have fields: "tt_tx_id row1 = None" "tt_create_date row1 = ?t" using row1(3) assms(3) by (metis token_transfer_db_obj.select_convs token_transfer_db_obj.surjective token_transfer_db_obj.update_convs(1,10))+
    have "tt_tx_id ?row = None" using fields by simp
    note upd = update_unassigned [OF this]
    have "r = Inr ?row" "w_db w' = update_tt_where (\<lambda>u. tt_id u = tt_id row1) (\<lambda>u. ?row\<lparr>tt_create_date := tt_create_date u\<rparr>) d"
      using assms(1) q row1(1) upd
      by (auto simp: bindM_def now_def ask_def or_panic_def unwrapped_def on_db_def zoom_def db_run_eq)
    moreover have "added_transfer ?row ?d (w_db w')"
      using update_added [OF wf row1(2), of "Some (name (tt_id row1))"] calculation(2) by simp
    moreover have "?row = row\<lparr>tt_id := tt_id ?row, tt_create_date := tt_create_date ?row, tt_payment_id := Some (name (tt_id ?row))\<rparr>"
      by (subst row1(3)) (simp add: fields)
    ultimately show ?thesis by blast
  qed
qed

text \<open>C36. A transfer command that fails, or panics, leaves the database as it was. One that succeeds queues exactly one
  row: from the chosen account to the named recipient on the configured chain, of the token named, over the amount
  asked for (with all, the token balance the chain answered, and of gas the answered balance less the greatest
  fee), with the payment id made of the token and the number of the row.\<close>

theorem transfer_queues_once:
  assumes "world_ok w" and "single_transfer C cfg addrs opt w = (r, w')"
  shows "(\<exists>e. r = Inl e) \<and> w_db w' = w_db w \<or>
    (\<exists>row chain_cfg sender recipient amount. r = Inr row \<and> added_transfer row (w_db w) (w_db w') \<and>
       map_of (cg_chain cfg) (tr_chain_name opt) = Some chain_cfg \<and>
       asked_sender opt addrs sender \<and> asked_recipient C opt (w_tick w) recipient \<and>
       asked_amount C chain_cfg opt (after_recipient opt (w_tick w)) sender amount \<and>
       asked_row C chain_cfg opt sender recipient amount row \<and>
       tt_payment_id row = Some (tr_token opt @ ''_transfer_'' @ int_text (tt_id row)))"
proof -
  obtain q w1 where q: "transfer_asked_for C cfg addrs opt w = (q, w1)" by fastforce
  from asksD [OF asks_transfer_asked_for this] obtain n where w1: "w1 = w\<lparr>w_tick := n\<rparr>" ..
  show ?thesis
  proof (cases q)
    case (Inl e)
    then show ?thesis using assms(2) q w1 by (auto simp: single_transfer_def bindM_def)
  next
    case (Inr row)
    note asked = q [unfolded Inr]
    from transfer_asked_for_row [OF asked] obtain chain_cfg sender recipient amount where c:
      "map_of (cg_chain cfg) (tr_chain_name opt) = Some chain_cfg" "asked_sender opt addrs sender"
      "asked_recipient C opt (w_tick w) recipient"
      "asked_amount C chain_cfg opt (after_recipient opt (w_tick w)) sender amount"
      and row: "asked_row C chain_cfg opt sender recipient amount row" by blast
    have "world_ok w1" "tt_tx_id row = None" using assms(1) row by (simp_all add: w1 asked_row_def Let_def)
    note cases = queue_row_cases [of "ce_env C" row "\<lambda>i. tr_token opt @ ''_transfer_'' @ int_text i" w1 r w', OF _ this]
    have "bindM (now (ce_env C)) (\<lambda>inserted. bindM (or_panic (on_db (insert_token_transfer_with_deposit_check inserted row))) (\<lambda>tt.
      or_panic (db_run (update_token_transfer (tt\<lparr>tt_payment_id := Some (tr_token opt @ ''_transfer_'' @ int_text (tt_id tt))\<rparr>))))) w1 = (r, w')"
      using assms(2) by (simp add: single_transfer_def bindM_step [where m = "transfer_asked_for C cfg addrs opt" and s = w, OF asked])
    from cases [OF this] show ?thesis
    proof (elim disjE exE conjE)
      fix row' assume row': "r = Inr row'" "added_transfer row' (w_db w1) (w_db w')"
        "row' = row\<lparr>tt_id := tt_id row', tt_create_date := tt_create_date row',
          tt_payment_id := Some (tr_token opt @ ''_transfer_'' @ int_text (tt_id row'))\<rparr>"
      have "asked_row C chain_cfg opt sender recipient amount row'" using row by (subst row'(3)) (simp add: asked_row_def)
      moreover have "tt_payment_id row' = Some (tr_token opt @ ''_transfer_'' @ int_text (tt_id row'))"
        by (subst row'(3)) simp
      ultimately have "r = Inr row' \<and> added_transfer row' (w_db w) (w_db w') \<and>
          map_of (cg_chain cfg) (tr_chain_name opt) = Some chain_cfg \<and>
          asked_sender opt addrs sender \<and> asked_recipient C opt (w_tick w) recipient \<and>
          asked_amount C chain_cfg opt (after_recipient opt (w_tick w)) sender amount \<and>
          asked_row C chain_cfg opt sender recipient amount row' \<and>
          tt_payment_id row' = Some (tr_token opt @ ''_transfer_'' @ int_text (tt_id row'))"
        using c row'(1,2) by (simp add: w1)
      then show ?thesis by blast
    qed (auto simp: w1)
  qed
qed

definition sample_cli :: cli_env where
  "sample_cli = \<lparr>ce_env = quiet_env, ce_pool = calm_pool_env, ce_uuid = id, ce_random_address = (\<lambda>n. 7), ce_random_u64 = (\<lambda>n. 9),
     ce_decimal_add = (\<lambda>a b. Some (a + b)), ce_decimal_from_str = (\<lambda>s. None), ce_readonly_error = SqlSyntaxError\<rparr>"

definition sample_cli_config :: cli_config where
  "sample_cli_config = \<lparr>cg_engine = sample_engine, cg_chain = [(''holesky'', sample_config)]\<rparr>"

definition sample_order :: transfer_options where
  "sample_order = \<lparr>ac_address = None, ac_account_no = Some 1, tr_chain_name = ''holesky'', tr_recipient = ''aaa'',
     tr_token = ''eth'', tr_all = False, tr_amount = Some (2 / 1000000000000000000), tr_deposit_id = None\<rparr>"

theorem transfer_queues_once_witness:
  "\<exists>row w. single_transfer sample_cli sample_cli_config [1, 2] sample_order (world_with []) = (Inr row, w) \<and>
     tb_rows (d_token_transfer (w_db w)) = [row] \<and> tt_from_addr row = ''aa'' \<and> tt_receiver_addr row = ''aaa'' \<and> tt_token_amount row = ''11'' \<and>
     tt_payment_id row = Some ''eth_transfer_1''"
proof -
  let ?w = "world_with []"
  have amount: "to_u256_from_eth (\<lambda>a b. Some (a * b)) (2 / 1000000000000000000) = Inr 2"
    by (simp add: to_u256_from_eth_def rust_dec_to_u256_strict_def compute_base_def)
  have eth: "str_to_eth unary ''11'' = Inr (2 / 1000000000000000000)"
    by (simp add: str_to_eth_def str_to_u256_def unary_def u256_to_eth_def u256_to_rust_dec_def max_rust_decimal_def compute_base_def)
  have two: "replicate (unat (2::256 word)) c = [c, c]" "replicate (unat (2::160 word)) c = [c, c]" for c :: char
  proof -
    have "replicate 2 c = [c, c]" by (simp add: numeral_2_eq_2)
    then show "replicate (unat (2::256 word)) c = [c, c]" "replicate (unat (2::160 word)) c = [c, c]" by simp_all
  qed
  have three: "replicate (unat (3::160 word)) c = [c, c, c]" for c :: char
  proof -
    have "replicate 3 c = [c, c, c]" by (simp add: numeral_3_eq_3)
    then show ?thesis by simp
  qed
  have dec: "dec_of_u256 unary 2 = ''11''" and from_a: "str_of_addr unary 2 = ''aa''" and to_a: "str_of_addr unary 3 = ''aaa''"
    by (simp_all only: unary_def externals.simps two three)
  obtain row where asked: "transfer_asked_for sample_cli sample_cli_config [1, 2] sample_order ?w = (Inr row, ?w)"
    and free: "tt_tx_id row = None" "tt_deposit_id row = None"
    using amount eth dec
    by (simp add: transfer_asked_for_def Let_def sample_cli_def sample_cli_config_def sample_order_def quiet_env_def configured_def
        token_column_def check_address_name_def choose_account_def transfer_amount_def unwrapped_def transfer_row_def)
      (simp add: unary_def)
  have "\<exists>row' w'. single_transfer sample_cli sample_cli_config [1, 2] sample_order ?w = (Inr row', w')"
    using free
    by (simp add: single_transfer_def bindM_def asked now_def ask_def or_panic_def unwrapped_def on_db_def zoom_def db_run_eq
        insert_token_transfer_with_deposit_check_def sqlx_def insert_unassigned update_unassigned Let_def)
  then obtain row' w' where run: "single_transfer sample_cli sample_cli_config [1, 2] sample_order ?w = (Inr row', w')" by blast
  have "world_ok ?w" by (rule world_ok_with) simp_all
  from transfer_queues_once [OF this run] obtain chain_cfg sender recipient amt where
    added: "added_transfer row' (w_db ?w) (w_db w')" and s: "asked_sender sample_order [1, 2] sender"
    and rec: "asked_recipient sample_cli sample_order (w_tick ?w) recipient"
    and amt: "asked_amount sample_cli chain_cfg sample_order (after_recipient sample_order (w_tick ?w)) sender amt"
    and r: "asked_row sample_cli chain_cfg sample_order sender recipient amt row'"
    and pid: "tt_payment_id row' = Some (tr_token sample_order @ ''_transfer_'' @ int_text (tt_id row'))" by auto
  have "sender = 2" using s by (simp add: asked_sender_def sample_order_def)
  moreover have "recipient = 3"
    using rec by (simp add: asked_recipient_def Let_def named_addresses_def sample_cli_def quiet_env_def sample_order_def unary_def)
  moreover have "amt = 2" using amt amount by (simp add: asked_amount_def Let_def sample_cli_def quiet_env_def sample_order_def)
  moreover have rows: "tt_id row' = 1" "tb_rows (d_token_transfer (w_db w')) = [row']"
    using added by (simp_all add: added_transfer_def world_with_def)
  moreover have "int_text 1 = ''1''" by (simp add: int_text_def to_base.simps digit_char_def digit_chars_def)
  ultimately show ?thesis
    using run r dec from_a to_a pid rows by (simp add: asked_row_def Let_def sample_cli_def quiet_env_def sample_order_def)
qed

section \<open>Importing payments\<close>

text \<open>An import is refused on a connection that can write, and fails on one that cannot: it never writes anything.\<close>

theorem import_never_writes: "w_db (snd (import_payments C cfg read_only file w)) = w_db w"
proof (cases "read_only \<and> (\<exists>records tts. file = Some records \<and> read_records (ev_ext (ce_env C)) cfg records = Inr tts)")
  case True
  then obtain records tts where "read_only" "file = Some records" "read_records (ev_ext (ce_env C)) cfg records = Inr tts" by blast
  then show ?thesis by (cases tts) (simp_all add: import_payments_def bindM_def write_on_def now_def ask_def)
next
  case False
  then show ?thesis
    by (auto simp: import_payments_def bindM_def require_def split: option.splits sum.splits)
qed

end
