(* ===== verification/Driver.thy ===== *)
theory Driver imports Setup Service Removal ChainImport begin

text \<open>
  The running driver (\<open>PaymentRuntime\<close> of \<open>runtime.rs\<close>, \<open>account_balance.rs\<close>, \<open>signer/account.rs\<close>): its
  construction from the configuration, one task per account and chain, joining and aborting them, and the
  operations that look a chain up before they ask. A task is known by its number in the order of starting; an
  account keeps the numbers of its tasks until they are taken to be awaited or aborted. Which tasks have ended,
  and how, is an answer of the executor.
\<close>

section \<open>Accounts and tasks\<close>

record extra_options_for_testing =
  xo_balance_check_loop :: "u64 option"
  xo_erc20_lib_test_replacement_timeout :: "rat option"

record driver_account = signer_account +
  da_jh :: "nat option list"

datatype task = BalanceLoop u64 | IdleLoop | ServiceLoop address i64

record driver =
  dr_setup :: driver_setup
  dr_extra :: "extra_options_for_testing option"
  dr_chain :: "(string \<times> configured_chain) list"
  dr_accounts :: "driver_account list"
  dr_tasks :: "task list"
  dr_status :: "status_property list"

definition signer_account_new :: "address \<Rightarrow> driver_account" where
  "signer_account_new address = \<lparr>sa_address = address, sa_external_gather_time = None, da_jh = []\<rparr>"

definition is_active :: "(nat \<Rightarrow> bool) \<Rightarrow> driver_account \<Rightarrow> bool" where
  "is_active finished account = list_ex (\<lambda>jh. case jh of Some h \<Rightarrow> \<not> finished h | None \<Rightarrow> False) (da_jh account)"

definition service_task :: "extra_options_for_testing option \<Rightarrow> additional_options \<Rightarrow> address \<Rightarrow> i64 \<Rightarrow> task" where
  "service_task extra_testing options signer_address chain_id =
     (case Option.bind extra_testing xo_balance_check_loop of
        Some n \<Rightarrow> BalanceLoop n
      | None \<Rightarrow> if ao_skip_service_loop options \<and> ao_keep_running options then IdleLoop
          else ServiceLoop signer_address chain_id)"

definition chains :: "driver \<Rightarrow> i64 list" where
  "chains dr = sorted_list_of_set (dom (ps_chain_setup (dr_setup dr)))"

definition start_service_loop ::
    "extra_options_for_testing option \<Rightarrow> additional_options \<Rightarrow> address \<Rightarrow> i64 \<Rightarrow> driver \<Rightarrow> nat \<times> driver" where
  "start_service_loop extra_testing options signer_address chain_id dr =
     (length (dr_tasks dr), dr\<lparr>dr_tasks := dr_tasks dr @ [service_task extra_testing options signer_address chain_id]\<rparr>)"

fun start_loops ::
    "extra_options_for_testing option \<Rightarrow> additional_options \<Rightarrow> i64 list \<Rightarrow> driver_account \<times> driver \<Rightarrow> driver_account \<times> driver" where
  "start_loops extra_testing options [] acc = acc"
| "start_loops extra_testing options (chain_id # chain_ids) (account, dr) =
     (case start_service_loop extra_testing options (sa_address account) chain_id dr of (jh, dr') \<Rightarrow>
        start_loops extra_testing options chain_ids (account\<lparr>da_jh := da_jh account @ [Some jh]\<rparr>, dr'))"

definition add_account ::
    "driver_account \<Rightarrow> extra_options_for_testing option \<Rightarrow> additional_options \<Rightarrow> driver \<Rightarrow> bool \<times> driver" where
  "add_account payment_account extra_testing options dr =
     (if list_ex (\<lambda>a. sa_address a = sa_address payment_account) (dr_accounts dr) then (False, dr)
      else (case start_loops extra_testing options (chains dr) (payment_account, dr) of (account, dr') \<Rightarrow>
        (True, dr'\<lparr>dr_accounts := dr_accounts dr' @ [account]\<rparr>)))"

record runtime_args =
  pa_secret_keys :: "u256 list"
  pa_engine :: engine
  pa_chain :: "(string \<times> configured_chain) list"
  pa_options :: "additional_options option"
  pa_extra_testing :: "extra_options_for_testing option"

fun add_accounts ::
    "extra_options_for_testing option \<Rightarrow> additional_options \<Rightarrow> driver_account list \<Rightarrow> driver \<Rightarrow> driver" where
  "add_accounts extra_testing options [] dr = dr"
| "add_accounts extra_testing options (a # as) dr =
     add_accounts extra_testing options as (snd (add_account a extra_testing options dr))"

text \<open>The connection is given, or opened with the result \<open>conn\<close>; \<open>addr\<close> is the address of a secret key.\<close>

definition payment_runtime_new ::
    "pool_env \<Rightarrow> (rat \<Rightarrow> rat \<Rightarrow> rat option) \<Rightarrow> (nat \<Rightarrow> nat) \<Rightarrow> (u256 \<Rightarrow> address) \<Rightarrow> failure + unit \<Rightarrow> runtime_args \<Rightarrow>
     failure + driver" where
  "payment_runtime_new V cm uuid addr conn args =
     (let options = or_default additional_options_default (pa_options args) in
     bindE (payment_setup_new V cm uuid (pa_engine args) (pa_chain args) options) (\<lambda>ds.
     bindE conn (\<lambda>_.
       Inr (add_accounts (pa_extra_testing args) options (map (signer_account_new \<circ> addr) (pa_secret_keys args))
         \<lparr>dr_setup = runtime_setup options ds, dr_extra = pa_extra_testing args, dr_chain = pa_chain args,
          dr_accounts = [], dr_tasks = [], dr_status = []\<rparr>))))"

section \<open>Waiting for tasks\<close>

definition handles :: "driver_account \<Rightarrow> nat list" where
  "handles account = map the (filter (\<lambda>jh. jh \<noteq> None) (da_jh account))"

definition get_and_remove_tasks :: "driver \<Rightarrow> nat list \<times> driver" where
  "get_and_remove_tasks dr = (concat (map handles (dr_accounts dr)),
     dr\<lparr>dr_accounts := map (\<lambda>a. a\<lparr>da_jh := map (\<lambda>_. None) (da_jh a)\<rparr>) (dr_accounts dr)\<rparr>)"

definition is_any_task_running :: "(nat \<Rightarrow> bool) \<Rightarrow> driver \<Rightarrow> bool" where
  "is_any_task_running finished dr = list_ex (\<lambda>a. list_ex (\<lambda>h. \<not> finished h) (handles a)) (dr_accounts dr)"

definition is_any_task_finished :: "(nat \<Rightarrow> bool) \<Rightarrow> driver \<Rightarrow> bool" where
  "is_any_task_finished finished dr = list_ex (\<lambda>a. list_ex finished (handles a)) (dr_accounts dr)"

text \<open>Awaiting stops at the first task that panicked or was cancelled.\<close>

fun join_handles :: "(nat \<Rightarrow> 'e + unit) \<Rightarrow> nat list \<Rightarrow> 'e + unit" where
  "join_handles outcome [] = Inr ()"
| "join_handles outcome (h # hs) = (case outcome h of Inr _ \<Rightarrow> join_handles outcome hs | Inl e \<Rightarrow> Inl e)"

definition join_tasks :: "(nat \<Rightarrow> 'e + unit) \<Rightarrow> driver \<Rightarrow> ('e + unit) \<times> driver" where
  "join_tasks outcome dr = (case get_and_remove_tasks dr of (hs, dr') \<Rightarrow> (join_handles outcome hs, dr'))"

text \<open>The tasks that are told to stop.\<close>

definition abort_tasks :: "driver \<Rightarrow> nat list \<times> driver" where
  "abort_tasks dr = get_and_remove_tasks dr"

section \<open>What a task does\<close>

text \<open>
  The loop that asks for the balance of made-up addresses: a failed request is repeated without counting it, so
  the loop is given fuel. \<open>{:#018x}\<close> without its prefix is 16 digits.
\<close>

definition job_address :: "externals \<Rightarrow> u64 \<Rightarrow> address option" where
  "job_address E job_no = addr_of_str E (''0x200000000000000000000000'' @ fixed_hex 16 (unat job_no))"

fun balance_loop :: "env \<Rightarrow> nat \<Rightarrow> u64 \<Rightarrow> u64 \<Rightarrow> unit prg" where
  "balance_loop V 0 number_of_loops job_no = throw OutOfFuel"
| "balance_loop V (Suc fuel) number_of_loops job_no =
     (if unat job_no \<ge> unat number_of_loops then ret ()
      else bindM (require (Err FromHexError) (job_address (ev_ext V) job_no)) (\<lambda>address.
        bindM (catch_err (rpc (\<lambda>n. ev_balance V n address None))) (\<lambda>r. case r of
            Inr balance \<Rightarrow> balance_loop V fuel number_of_loops (job_no + 1)
          | Inl err \<Rightarrow> balance_loop V fuel number_of_loops job_no)))"

definition test_balance_loop :: "env \<Rightarrow> payment_setup \<Rightarrow> nat \<Rightarrow> i64 \<Rightarrow> u64 \<Rightarrow> unit prg" where
  "test_balance_loop V S fuel chain_id debug_loop =
     (case get_provider S chain_id of
        Inl e \<Rightarrow> throw (Panic ''called unwrap on an Err value'')
      | Inr _ \<Rightarrow> balance_loop V fuel (if debug_loop = 0 then - 1 else debug_loop) 0)"

text \<open>A task that idles never ends; a task of the service ends as its loop does.\<close>

definition run_task ::
    "(multi_key_map \<Rightarrow> multi_key_map) \<Rightarrow> (nat \<Rightarrow> bool) \<Rightarrow> env \<Rightarrow> nat \<Rightarrow> nat \<Rightarrow> timestamp option \<Rightarrow> driver \<Rightarrow> task \<Rightarrow>
     unit prg" where
  "run_task visit registered V tx_fuel fuel external_gather_time dr task = (let S = setup_of (dr_setup dr) in
     case task of
       BalanceLoop n \<Rightarrow> (case dr_chain dr of
           [(_, c)] \<Rightarrow> bindM (catch_err (test_balance_loop V S fuel (cc_chain_id c) n)) (\<lambda>r. case r of
               Inr _ \<Rightarrow> ret () | Inl e \<Rightarrow> throw (Panic ''Balance debug loop finished with error''))
         | _ \<Rightarrow> throw (Panic ''balance_check_loop can be used only with single chain''))
     | IdleLoop \<Rightarrow> throw OutOfFuel
     | ServiceLoop address chain_id \<Rightarrow>
         bindM (service_loop visit registered V S address chain_id tx_fuel fuel external_gather_time) (\<lambda>_. ret ()))"

section \<open>Operations on a chain\<close>

definition chain_of_driver :: "driver \<Rightarrow> string \<Rightarrow> failure + configured_chain" where
  "chain_of_driver dr chain_name = ok_or (err_custom ''Chain not found in config file'') (map_of (dr_chain dr) chain_name)"

text \<open>A chain by its name, with a provider for it.\<close>

definition chain_and_provider :: "driver \<Rightarrow> string \<Rightarrow> failure + configured_chain" where
  "chain_and_provider dr chain_name =
     bindE (chain_of_driver dr chain_name) (\<lambda>chain_cfg.
     bindE (get_provider (setup_of (dr_setup dr)) (cc_chain_id chain_cfg)) (\<lambda>_. Inr chain_cfg))"

definition driver_unpaid_token_amount :: "env \<Rightarrow> driver \<Rightarrow> string \<Rightarrow> address \<Rightarrow> u256 prg" where
  "driver_unpaid_token_amount V dr chain_name sender =
     bindM (liftR (chain_of_driver dr chain_name)) (\<lambda>chain_cfg.
       get_unpaid_token_amount V (cc_chain_id chain_cfg) (cc_token_address chain_cfg) sender)"

definition driver_deposit_details :: "env \<Rightarrow> driver \<Rightarrow> string \<Rightarrow> u256 \<Rightarrow> address \<Rightarrow> deposit_details prg" where
  "driver_deposit_details V dr chain_name deposit_id lock_contract_address =
     bindM (liftR (chain_and_provider dr chain_name)) (\<lambda>_.
       runtime_deposit_details V deposit_id lock_contract_address)"

definition driver_token_balance :: "env \<Rightarrow> driver \<Rightarrow> string \<Rightarrow> address \<Rightarrow> u256 prg" where
  "driver_token_balance V dr chain_name address =
     bindM (liftR (chain_and_provider dr chain_name)) (\<lambda>chain_cfg.
       get_token_balance V (cc_token_address chain_cfg) address None)"

definition driver_gas_balance :: "env \<Rightarrow> driver \<Rightarrow> string \<Rightarrow> address \<Rightarrow> u256 prg" where
  "driver_gas_balance V dr chain_name address =
     bindM (liftR (chain_and_provider dr chain_name)) (\<lambda>_.
     bindM (get_balance V None address True None) (\<lambda>balance_result.
       require (err_custom ''get_balance didn't yield gas_balance'') (gb_gas_balance balance_result)))"

definition get_chain :: "driver \<Rightarrow> i64 \<Rightarrow> chain_setup option" where
  "get_chain dr chain_id = ps_chain_setup (dr_setup dr) chain_id"

definition network_name :: "driver \<Rightarrow> i64 \<Rightarrow> string option" where
  "network_name dr chain_id = map_option cd_network (ds_details (dr_setup dr) chain_id)"

definition get_status :: "driver \<Rightarrow> status_property list" where
  "get_status dr = dr_status dr"

definition verified :: "verify_transaction_result \<Rightarrow> bool" where
  "verified r = (case r of Verified _ \<Rightarrow> True | Rejected _ \<Rightarrow> False)"

definition rejected :: "verify_transaction_result \<Rightarrow> bool" where
  "rejected r = (case r of Rejected _ \<Rightarrow> True | Verified _ \<Rightarrow> False)"

section \<open>Sources and endpoints\<close>

text \<open>The chains of a request: the named one, or all.\<close>

definition chosen_chains :: "driver \<Rightarrow> string option \<Rightarrow> failure + (string \<times> configured_chain) list" where
  "chosen_chains dr network = (case network of
       Some name \<Rightarrow> bindE (chain_of_driver dr name) (\<lambda>c. Inr [(name, c)])
     | None \<Rightarrow> Inr (dr_chain dr))"

type_synonym external_sources = "web3_external_json_source list \<times> web3_external_dns_source list"

fun sources_by_name ::
    "driver \<Rightarrow> (string \<times> configured_chain) list \<Rightarrow> failure + (string \<rightharpoonup> external_sources)" where
  "sources_by_name dr [] = Inr Map.empty"
| "sources_by_name dr ((name, c) # cs) =
     bindE (ok_or (err_custom ''No chain setup for chain id'') (ds_providers (dr_setup dr) (cc_chain_id c))) (\<lambda>pool.
     bindE (sources_by_name dr cs) (\<lambda>res.
       Inr ([name \<mapsto> (rp_external_json_sources pool, rp_external_dns_sources pool)] ++ res)))"

definition get_rpc_sources :: "driver \<Rightarrow> string option \<Rightarrow> failure + (string \<rightharpoonup> external_sources)" where
  "get_rpc_sources dr network = bindE (chosen_chains dr network) (sources_by_name dr)"

text \<open>\<open>pools\<close> is the state of the pools by chain id; of two chains with one name the later one stays.\<close>

definition get_rpc_endpoints ::
    "(i64 \<times> rpc_pool) list \<Rightarrow> driver \<Rightarrow> string option \<Rightarrow> (string \<times> (web3_rpc_single_params \<times> web3_rpc_info) list) list" where
  "get_rpc_endpoints pools dr network =
     map (\<lambda>(k, pool). (or_default ''unknown'' (network_name dr k),
        map (\<lambda>(i, e). (ep_params e, ep_info e)) (rp_endpoints pool)))
       (filter (\<lambda>(k, _). network = None \<or> network_name dr k = network) pools)"

type_synonym 'a pools_prg = "(i64 \<rightharpoonup> pool_world, failure, 'a) prog"

definition on_pool_of :: "i64 \<Rightarrow> 'a pool_prg \<Rightarrow> 'a pools_prg" where
  "on_pool_of chain_id m pools = (case pools chain_id of
       None \<Rightarrow> (Inl (err_custom ''No chain setup for chain id''), pools)
     | Some w \<Rightarrow> (case m w of (r, w') \<Rightarrow> (r, pools(chain_id \<mapsto> w'))))"

text \<open>Awaiting the handle of a task: its panic is an error of the one who waits.\<close>

definition joined :: "string \<Rightarrow> unit pool_prg \<Rightarrow> unit pool_prg" where
  "joined msg m w = (case m w of (Inl f, w') \<Rightarrow> (Inl (case f of Panic _ \<Rightarrow> err_custom msg | _ \<Rightarrow> f), w') | r \<Rightarrow> r)"

definition force_check_pool :: "pool_env \<Rightarrow> bool \<Rightarrow> bool \<Rightarrow> bool \<Rightarrow> unit pool_prg" where
  "force_check_pool V resolve verify wait =
     bindM (whenM resolve (bindM (start_resolve_if_needed V True) (\<lambda>started.
       whenM wait (if started then joined ''Error waiting for external resolver'' (resolve_external_addresses_int V)
         else throw (Panic ''called Option::unwrap() on a None value''))))) (\<lambda>_.
     whenM verify (bindM (start_verify_if_needed V True) (\<lambda>started.
       whenM (wait \<and> started) (joined ''Error waiting for endpoint verifier'' (verify_task V True)))))"

definition force_check_endpoint_info ::
    "pool_env \<Rightarrow> driver \<Rightarrow> string option \<Rightarrow> bool \<Rightarrow> bool \<Rightarrow> bool \<Rightarrow> unit pools_prg" where
  "force_check_endpoint_info V dr network resolve verify wait =
     bindM (liftR (chosen_chains dr network)) (\<lambda>chain_cfgs.
       forM chain_cfgs (\<lambda>(_, c). on_pool_of (cc_chain_id c) (force_check_pool V resolve verify wait)))"

end
