(* ===== verification/DriverProofs.thy ===== *)
theory DriverProofs imports Driver SetupProofs begin

text \<open>
  What starting the driver gives: one task for every account and every configured chain, no more and no less, of
  the kind the options ask for, and every task is handed out exactly once to be awaited or aborted.
\<close>

section \<open>Adding accounts\<close>

text \<open>
  The task of an account on a chain, read from the arguments: the loop over balances when the test options ask for
  it, none that does anything when the service loop is to be skipped and the driver to keep running, else the
  service loop. Without options the service runs.
\<close>

definition plain_tasks :: "runtime_args \<Rightarrow> bool" where
  "plain_tasks args \<longleftrightarrow> (\<forall>x. pa_extra_testing args = Some x \<longrightarrow> xo_balance_check_loop x = None) \<and>
     (\<forall>o'. pa_options args = Some o' \<longrightarrow> \<not> (ao_skip_service_loop o' \<and> ao_keep_running o'))"

definition configured_task :: "runtime_args \<Rightarrow> address \<Rightarrow> i64 \<Rightarrow> task" where
  "configured_task args a c = (if plain_tasks args then ServiceLoop a c
     else (case pa_extra_testing args of
         Some x \<Rightarrow> (case xo_balance_check_loop x of Some n \<Rightarrow> BalanceLoop n | None \<Rightarrow> IdleLoop)
       | None \<Rightarrow> IdleLoop))"

lemma service_task_configured:
  "service_task (pa_extra_testing args) (or_default additional_options_default (pa_options args)) a c = configured_task args a c"
  by (auto simp: service_task_def configured_task_def plain_tasks_def or_default_def additional_options_default_def
      split: option.split)

lemma start_loops_result:
  "start_loops x options cs (a, dr) =
    (a\<lparr>da_jh := da_jh a @ map Some [length (dr_tasks dr)..<length (dr_tasks dr) + length cs]\<rparr>,
     dr\<lparr>dr_tasks := dr_tasks dr @ map (service_task x options (sa_address a)) cs\<rparr>)"
proof (induction cs arbitrary: a dr)
  case (Cons c cs)
  have "[n..<n + length (c # cs)] = n # [Suc n..<Suc n + length cs]" for n by (simp add: upt_conv_Cons del: upt_Suc)
  then show ?case using Cons.IH by (simp add: start_service_loop_def del: upt_Suc)
qed (simp add: start_loops.simps)

text \<open>
  The tasks of a driver: those of its accounts, in their order, on the chains \<open>cs\<close>; the handles count them. The
  accounts are the addresses \<open>as\<close> without repetitions.
\<close>

definition loops_started :: "(address \<Rightarrow> i64 \<Rightarrow> task) \<Rightarrow> i64 list \<Rightarrow> address set \<Rightarrow> driver \<Rightarrow> bool" where
  "loops_started f cs as dr \<longleftrightarrow> chains dr = cs \<and> sa_address ` set (dr_accounts dr) = as \<and> distinct (map sa_address (dr_accounts dr)) \<and>
     dr_tasks dr = concat (map (\<lambda>a. map (f (sa_address a)) cs) (dr_accounts dr)) \<and>
     concat (map handles (dr_accounts dr)) = [0..<length (dr_tasks dr)]"

lemma handles_started: "handles (a\<lparr>da_jh := map Some hs\<rparr>) = hs"
  by (induction hs) (simp_all add: handles_def)

lemma add_account_started:
  assumes "loops_started (service_task x options) cs as dr"
  shows "loops_started (service_task x options) cs (insert addr as) (snd (add_account (signer_account_new addr) x options dr))"
proof (cases "addr \<in> as")
  case True
  then have "list_ex (\<lambda>a. sa_address a = addr) (dr_accounts dr)" using assms by (auto simp: loops_started_def list_ex_iff)
  then show ?thesis using assms True by (simp add: add_account_def signer_account_new_def insert_absorb)
next
  case False
  let ?n = "length (dr_tasks dr)" and ?acc = "signer_account_new addr"
  let ?acc' = "?acc\<lparr>da_jh := map Some [?n..<?n + length cs]\<rparr>"
  have no: "\<not> list_ex (\<lambda>a. sa_address a = addr) (dr_accounts dr)" and cs: "chains dr = cs"
    using assms False by (auto simp: loops_started_def list_ex_iff)
  have new: "sa_address ?acc = addr" "da_jh ?acc = []" by (simp_all add: signer_account_new_def)
  have res: "snd (add_account ?acc x options dr) = dr\<lparr>dr_tasks := dr_tasks dr @ map (service_task x options addr) cs,
      dr_accounts := dr_accounts dr @ [?acc']\<rparr>" (is "_ = ?dr'")
    using no by (simp add: add_account_def start_loops_result cs new del: upt_Suc)
  note old = assms [unfolded loops_started_def]
  have "concat (map handles (dr_accounts dr @ [?acc'])) = [0..<?n] @ [?n..<?n + length cs]"
    using old by (simp add: handles_started del: upt_Suc)
  also have "\<dots> = [0..<?n + length cs]" by (rule upt_add_eq_append [OF le0, symmetric])
  finally have count: "concat (map handles (dr_accounts ?dr')) = [0..<length (dr_tasks ?dr')]" by simp
  have "dr_tasks ?dr' = concat (map (\<lambda>a. map (service_task x options (sa_address a)) cs) (dr_accounts ?dr'))"
    using old by (simp add: new)
  moreover have "sa_address ` set (dr_accounts ?dr') = insert addr as" "distinct (map sa_address (dr_accounts ?dr'))"
    using old False by (auto simp: new)
  moreover have "chains ?dr' = cs" using cs by (simp add: chains_def)
  ultimately show ?thesis using count unfolding res loops_started_def by blast
qed

lemma add_accounts_started:
  "loops_started (service_task x options) cs as dr \<Longrightarrow>
    loops_started (service_task x options) cs (as \<union> set addrs) (add_accounts x options (map signer_account_new addrs) dr)"
proof (induction addrs arbitrary: as dr)
  case (Cons addr addrs)
  show ?case using Cons.IH [OF add_account_started [OF Cons.prems, of addr]] by simp
qed simp

section \<open>The chains of the driver\<close>

lemma add_chains_dom:
  "add_chains V cm uuid options cfg acc = Inr acc' \<Longrightarrow>
    dom (ps_chain_setup (fst acc')) = dom (ps_chain_setup (fst acc)) \<union> (cc_chain_id \<circ> snd) ` set cfg"
proof (induction cfg arbitrary: acc)
  case (Cons nc cfg)
  obtain network c ds n where nc: "nc = (network, c)" "acc = (ds, n)" by (cases nc, cases acc) auto
  then obtain ds1 n1 where step: "add_chain V cm uuid options (network, c) (ds, n) = Inr (ds1, n1)"
    and rest: "add_chains V cm uuid options cfg (ds1, n1) = Inr acc'"
    using Cons.prems by (auto simp: bindE_Inr_iff)
  from step have "dom (ps_chain_setup ds1) = insert (cc_chain_id c) (dom (ps_chain_setup ds))"
    by (rule add_chain_result) simp
  then show ?case using Cons.IH [OF rest] nc by auto
qed simp

lemma configured_chain_ids:
  assumes "payment_setup_new V cm uuid en cfg options = Inr ds"
  shows "dom (ps_chain_setup ds) = (cc_chain_id \<circ> snd) ` set cfg"
proof -
  obtain n where run: "add_chains V cm uuid options cfg (driver_setup_blank en options, 0) = Inr (ds, n)"
    using assms by (auto simp: payment_setup_new_def bindE_Inr_iff)
  have "dom (ps_chain_setup (driver_setup_blank en options)) = {}" by (simp add: driver_setup_blank_def)
  then show ?thesis using add_chains_dom [OF run] by simp
qed

text \<open>C37. A driver that starts runs exactly one task for every address of its keys and every configured chain, keys
  of one address counting once: the service loop, unless the test options ask for the loop over balances, or the
  options to keep running without a service. Each of these tasks is handed out once, in order, to be joined or
  aborted, and none after that.\<close>

theorem each_loop_started_once:
  assumes "payment_runtime_new V cm uuid addr conn args = Inr dr"
  shows "set (chains dr) = (cc_chain_id \<circ> snd) ` set (pa_chain args) \<and> distinct (chains dr) \<and>
    sa_address ` set (dr_accounts dr) = addr ` set (pa_secret_keys args) \<and> distinct (map sa_address (dr_accounts dr)) \<and>
    dr_tasks dr = [configured_task args (sa_address a) c. a \<leftarrow> dr_accounts dr, c \<leftarrow> chains dr] \<and>
    fst (get_and_remove_tasks dr) = [0..<length (dr_tasks dr)] \<and>
    fst (get_and_remove_tasks (snd (get_and_remove_tasks dr))) = []"
proof -
  let ?options = "or_default additional_options_default (pa_options args)" and ?x = "pa_extra_testing args"
  let ?f = "service_task ?x ?options"
  obtain ds where ds: "payment_setup_new V cm uuid (pa_engine args) (pa_chain args) ?options = Inr ds"
    and dr: "dr = add_accounts ?x ?options (map signer_account_new (map addr (pa_secret_keys args)))
         \<lparr>dr_setup = runtime_setup ?options ds, dr_extra = ?x, dr_chain = pa_chain args, dr_accounts = [], dr_tasks = [], dr_status = []\<rparr>"
    using assms by (auto simp: payment_runtime_new_def Let_def bindE_Inr_iff)
  let ?cs = "sorted_list_of_set (dom (ps_chain_setup ds))"
  have dom: "dom (ps_chain_setup ds) = (cc_chain_id \<circ> snd) ` set (pa_chain args)" by (rule configured_chain_ids [OF ds])
  have "loops_started ?f ?cs {} \<lparr>dr_setup = runtime_setup ?options ds, dr_extra = ?x, dr_chain = pa_chain args, dr_accounts = [],
      dr_tasks = [], dr_status = []\<rparr>"
    by (simp add: loops_started_def chains_def runtime_setup_def)
  from add_accounts_started [OF this, of "map addr (pa_secret_keys args)"]
  have started: "loops_started ?f ?cs (addr ` set (pa_secret_keys args)) dr" by (simp add: dr)
  have "?f = configured_task args" by (intro ext) (rule service_task_configured)
  with started have tasks: "dr_tasks dr = concat (map (\<lambda>a. map (configured_task args (sa_address a)) ?cs) (dr_accounts dr))"
    and cs: "chains dr = ?cs" by (simp_all add: loops_started_def)
  have "handles (a\<lparr>da_jh := map (\<lambda>_. None) (da_jh a)\<rparr>) = []" for a by (simp add: handles_def)
  then show ?thesis
    using started dom tasks cs by (auto simp: loops_started_def get_and_remove_tasks_def comp_def)
qed

definition two_keys :: runtime_args where
  "two_keys = \<lparr>pa_secret_keys = [1, 2, 1], pa_engine = sample_engine, pa_chain = [(''holesky'', sample_config)], pa_options = None,
     pa_extra_testing = None\<rparr>"

theorem each_loop_started_once_witness:
  "\<exists>dr. payment_runtime_new calm_pool_env (\<lambda>a b. Some (a * b)) id ucast (Inr ()) two_keys = Inr dr \<and>
     sa_address ` set (dr_accounts dr) = {1, 2} \<and> set (chains dr) = {17000} \<and>
     set (dr_tasks dr) = {ServiceLoop 1 17000, ServiceLoop 2 17000} \<and> length (dr_tasks dr) = 2"
proof -
  obtain ds where "payment_setup_new calm_pool_env (\<lambda>a b. Some (a * b)) id sample_engine [(''holesky'', sample_config)]
     additional_options_default = Inr ds" using sample_setup_exists by blast
  then have "\<exists>dr. payment_runtime_new calm_pool_env (\<lambda>a b. Some (a * b)) id ucast (Inr ()) two_keys = Inr dr"
    by (simp add: payment_runtime_new_def two_keys_def or_default_def Let_def)
  then obtain dr where dr: "payment_runtime_new calm_pool_env (\<lambda>a b. Some (a * b)) id ucast (Inr ()) two_keys = Inr dr" by blast
  note started = each_loop_started_once [OF dr]
  have plain: "plain_tasks two_keys" by (simp add: plain_tasks_def two_keys_def)
  have accs: "sa_address ` set (dr_accounts dr) = {1, 2}" and chain: "set (chains dr) = {17000}"
    using started by (simp_all add: two_keys_def sample_config_def) auto
  have "distinct (chains dr)" "distinct (map sa_address (dr_accounts dr))" using started by blast+
  then have "length (chains dr) = 1" "length (dr_accounts dr) = 2"
    using accs chain distinct_card [of "chains dr"] distinct_card [of "map sa_address (dr_accounts dr)"]
    by (simp_all only: set_map length_map) simp_all
  then have "length (dr_tasks dr) = 2" using started by (simp add: length_concat comp_def sum_list_triv)
  moreover have "dr_tasks dr = concat (map (\<lambda>a. map (ServiceLoop (sa_address a)) (chains dr)) (dr_accounts dr))"
    using started plain by (simp add: configured_task_def)
  then have "set (dr_tasks dr) = (\<Union>a\<in>sa_address ` set (dr_accounts dr). ServiceLoop a ` set (chains dr))" by simp
  ultimately show ?thesis using dr accs chain by auto
qed

end
