(* ===== verification/Generate.thy ===== *)
theory Generate imports Cli begin

text \<open>
  Keys, address pools and made-up payments (\<open>misc.rs\<close>, \<open>generate_transactions.rs\<close>). Secret keys are numbers; how
  a text or bytes become one, and its address, is a parameter, and so is every random draw. The rows that go to a
  file are not modelled, only whether writing one succeeds; delays between payments are left out.
\<close>

section \<open>Keys and addresses\<close>

record key_env =
  ke_secret_of_str :: "string \<Rightarrow> u256 option"
  ke_secret_of_slice :: "bytes \<Rightarrow> u256 option"
  ke_addr_of_secret :: "u256 \<Rightarrow> address"
  ke_random_key :: "nat \<Rightarrow> bytes"

fun load_keys :: "key_env \<Rightarrow> string list \<Rightarrow> failure + (u256 \<times> address) list" where
  "load_keys K [] = Inr []"
| "load_keys K (key # keys) =
     bindE (ok_or (err_custom ''Failed to parse private key'') (ke_secret_of_str K key)) (\<lambda>secret.
     bindE (load_keys K keys) (\<lambda>rest. Inr ((secret, ke_addr_of_secret K secret) # rest)))"

definition load_private_keys :: "key_env \<Rightarrow> string \<Rightarrow> failure + u256 list \<times> address list" where
  "load_private_keys K s = (if s = [] then Inr ([], [])
     else bindE (load_keys K (split_commas s)) (\<lambda>pairs. Inr (map fst pairs, map snd pairs)))"

fun load_addresses :: "externals \<Rightarrow> string list \<Rightarrow> failure + address list" where
  "load_addresses E [] = Inr []"
| "load_addresses E (s # ss) =
     bindE (ok_or (Err FromHexError) (addr_of_str E s)) (\<lambda>a. bindE (load_addresses E ss) (\<lambda>rest. Inr (a # rest)))"

definition load_public_addresses :: "externals \<Rightarrow> string \<Rightarrow> failure + address list" where
  "load_public_addresses E s = (if s = [] then Inr [] else load_addresses E (split_commas s))"

text \<open>A number padded with zeros to a width; a longer one is not cut.\<close>

definition padded :: "nat \<Rightarrow> nat \<Rightarrow> string" where
  "padded width i = (let s = int_text (int i) in replicate (width - length s) (CHR ''0'') @ s)"

definition key_prefix :: "nat \<Rightarrow> string" where
  "key_prefix i = ''0x'' @ padded 2 i"

definition starts_with :: "string \<Rightarrow> string \<Rightarrow> bool" where
  "starts_with s p \<longleftrightarrow> take (length p) s = p"

text \<open>Keys are drawn until the address of the next one starts with its number; \<open>k\<close> counts the draws.\<close>

fun gen_keys :: "key_env \<Rightarrow> externals \<Rightarrow> nat \<Rightarrow> nat \<Rightarrow> nat \<Rightarrow> nat \<Rightarrow> failure + (string \<times> address) list" where
  "gen_keys K E n 0 k i = (if i \<ge> n then Inr [] else Inl OutOfFuel)"
| "gen_keys K E n (Suc fuel) k i = (if i \<ge> n then Inr [] else
     let key = ke_random_key K k in
     bindE (ok_or (err_custom ''Failed to parse private key'') (ke_secret_of_slice K key)) (\<lambda>secret.
     let public_addr = ke_addr_of_secret K secret in
     if \<not> starts_with (str_of_addr E public_addr) (key_prefix i) then gen_keys K E n fuel (k + 1) i
     else bindE (gen_keys K E n fuel (k + 1) (i + 1)) (\<lambda>rest. Inr ((hex_encode E key, public_addr) # rest))))"

definition gen_private_keys :: "key_env \<Rightarrow> externals \<Rightarrow> nat \<Rightarrow> nat \<Rightarrow> failure + string list \<times> address list" where
  "gen_private_keys K E fuel n =
     (if n > 100 then Inl (err_custom ''Number of keys cannot be greater than 100'')
      else bindE (gen_keys K E n fuel 0 0) (\<lambda>pairs. Inr (map fst pairs, map snd pairs)))"

section \<open>Pools\<close>

text \<open>A draw below a bound; an empty range panics.\<close>

definition draw :: "(nat \<Rightarrow> nat \<Rightarrow> nat) \<Rightarrow> nat \<Rightarrow> nat prg" where
  "draw rng bound = (if bound = 0 then throw (Panic ''empty range'') else ask (\<lambda>n. rng n bound))"

definition generate_unique_random_addr :: "externals \<Rightarrow> (nat \<Rightarrow> nat \<Rightarrow> nat) \<Rightarrow> address prg" where
  "generate_unique_random_addr E rng =
     bindM (draw rng (2 ^ 40)) (\<lambda>a. bindM (draw rng (2 ^ 40)) (\<lambda>b. bindM (draw rng (2 ^ 40)) (\<lambda>c. bindM (draw rng (2 ^ 40)) (\<lambda>d.
       require (Panic ''called unwrap on an Err value'')
         (addr_of_str E (''0x'' @ fixed_hex 10 a @ fixed_hex 10 b @ fixed_hex 10 c @ fixed_hex 10 d))))))"

definition ordered_addr_text :: "nat \<Rightarrow> string" where
  "ordered_addr_text i = ''0x'' @ concat (replicate 5 (padded 8 i))"

definition ordered_address_pool :: "externals \<Rightarrow> nat \<Rightarrow> bool \<Rightarrow> failure + address list" where
  "ordered_address_pool E size_of_pool include_null_address = load_addresses E (map ordered_addr_text
     (if include_null_address then [0..<size_of_pool] else [1..<size_of_pool + 1]))"

definition null_address_pool :: "externals \<Rightarrow> failure + address list" where
  "null_address_pool E = ordered_address_pool E 1 True"

fun random_address_pool :: "externals \<Rightarrow> (nat \<Rightarrow> nat \<Rightarrow> nat) \<Rightarrow> nat \<Rightarrow> address list prg" where
  "random_address_pool E rng 0 = ret []"
| "random_address_pool E rng (Suc n) =
     bindM (generate_unique_random_addr E rng) (\<lambda>a. bindM (random_address_pool E rng n) (\<lambda>as. ret (a # as)))"

definition create_test_amount_pool :: "nat \<Rightarrow> u256 list" where
  "create_test_amount_pool size_of_pool = map (\<lambda>i. of_nat (i + 100)) [0..<size_of_pool]"

section \<open>Payments\<close>

record generator =
  ge_rng :: "nat \<Rightarrow> nat \<Rightarrow> nat"
  ge_uuid :: "nat \<Rightarrow> string"
  ge_elapsed :: "nat \<Rightarrow> rat"
  ge_file_created :: bool
  ge_row_written :: "nat \<Rightarrow> bool"

record pools =
  po_from :: "address list"
  po_receivers :: "address list"
  po_amounts :: "u256 list"
  po_random_target :: bool

definition pick :: "(nat \<Rightarrow> nat \<Rightarrow> nat) \<Rightarrow> 'a list \<Rightarrow> 'a prg" where
  "pick rng xs = bindM (draw rng (length xs)) (\<lambda>i. ret (xs ! i))"

definition generated_transfer ::
    "cli_env \<Rightarrow> generator \<Rightarrow> i64 \<Rightarrow> address option \<Rightarrow> pools \<Rightarrow> token_transfer_db_obj prg" where
  "generated_transfer C G chain_id token_addr P = (let E = ev_ext (ce_env C) in
     bindM (if po_random_target P then generate_unique_random_addr E (ge_rng G) else pick (ge_rng G) (po_receivers P)) (\<lambda>receiver.
     bindM (pick (ge_rng G) (po_amounts P)) (\<lambda>amount.
     bindM (pick (ge_rng G) (po_from P)) (\<lambda>from_a.
     bindM (ask (ge_uuid G)) (\<lambda>payment_id.
     bindM (now (ce_env C)) (\<lambda>t.
       ret (create_token_transfer E t from_a receiver chain_id (Some payment_id) token_addr amount None)))))))"

record generate_options =
  go_chain_name :: string
  go_generate_count :: nat
  go_random_receivers :: bool
  go_receivers_ordered_pool :: nat
  go_receivers_random_pool :: "nat option"
  go_amounts_pool_size :: nat
  go_append_to_db :: bool
  go_file :: bool
  go_limit_time :: "rat option"

definition store_generated ::
    "cli_env \<Rightarrow> generator \<Rightarrow> generate_options \<Rightarrow> nat \<Rightarrow> token_transfer_db_obj \<Rightarrow> unit prg" where
  "store_generated C G opt transfer_no token_transfer =
     bindM (case go_limit_time opt of
         Some limit_time \<Rightarrow> bindM (ask (ge_elapsed G)) (\<lambda>elapsed.
           if elapsed > limit_time then throw (Err (TimeLimitReached (nat \<lfloor>elapsed\<rfloor>))) else ret ())
       | None \<Rightarrow> ret ()) (\<lambda>_.
     bindM (if go_append_to_db opt
         then bindM (now (ce_env C)) (\<lambda>inserted.
           bindM (catch_err (db_transaction (sqlx (insert_token_transfer inserted token_transfer)))) (\<lambda>r. case r of
             Inr _ \<Rightarrow> ret () | Inl _ \<Rightarrow> throw (err_custom ''Error writing record to db'')))
         else ret ()) (\<lambda>_.
       if go_file opt \<and> \<not> ge_row_written G transfer_no then throw (err_custom ''error writing csv record'') else ret ()))"

fun generate_batch ::
    "cli_env \<Rightarrow> generator \<Rightarrow> generate_options \<Rightarrow> i64 \<Rightarrow> address option \<Rightarrow> pools \<Rightarrow> nat \<Rightarrow> nat \<Rightarrow> unit prg" where
  "generate_batch C G opt chain_id token_addr P 0 transfer_no = ret ()"
| "generate_batch C G opt chain_id token_addr P (Suc left) transfer_no =
     bindM (generated_transfer C G chain_id token_addr P) (\<lambda>token_transfer.
     bindM (store_generated C G opt transfer_no token_transfer) (\<lambda>_.
       generate_batch C G opt chain_id token_addr P left (transfer_no + 1)))"

text \<open>Reaching the time limit is no error of the command.\<close>

definition generate_test_payments ::
    "cli_env \<Rightarrow> generator \<Rightarrow> cli_config \<Rightarrow> generate_options \<Rightarrow> address list \<Rightarrow> unit prg" where
  "generate_test_payments C G cfg opt from_addrs = (let E = ev_ext (ce_env C) in
     bindM (liftR (configured cfg (go_chain_name opt))) (\<lambda>chain_cfg.
     bindM (case go_receivers_random_pool opt of
         Some n \<Rightarrow> random_address_pool E (ge_rng G) n
       | None \<Rightarrow> liftR (ordered_address_pool E (go_receivers_ordered_pool opt) False)) (\<lambda>addr_pool.
     if go_file opt \<and> \<not> ge_file_created G then throw (Err IoError)
     else bindM (catch_err (generate_batch C G opt (cc_chain_id chain_cfg) (Some (cc_token_address chain_cfg))
           \<lparr>po_from = from_addrs, po_receivers = addr_pool, po_amounts = create_test_amount_pool (go_amounts_pool_size opt),
            po_random_target = go_random_receivers opt\<rparr> (go_generate_count opt) 0)) (\<lambda>r. case r of
         Inr _ \<Rightarrow> ret ()
       | Inl (TimeLimitReached d) \<Rightarrow> ret ()
       | Inl e \<Rightarrow> throw (Err e)))))"

end
