(* ===== verification/Lookups.thy ===== *)
theory Lookups imports Cli RpcTasks begin

text \<open>
  The commands that ask and show: balances of accounts (\<open>account_balance.rs\<close> of the extra crate), a donation of the
  faucet (\<open>faucet_client.rs\<close>) and the check of the endpoints of a chain (\<open>check_rpc.rs\<close>). Answers of name servers
  and of HTTP requests are parameters. Requests the code runs concurrently are made one after the other here.
\<close>

section \<open>Balances\<close>

record balance_options =
  bo_chain_name :: string
  bo_accounts :: "string option"
  bo_hide_gas :: bool
  bo_hide_token :: bool

text \<open>The balance for people is cut to three decimals and followed by the symbol.\<close>

record balance_result =
  br_gas :: "string option"
  br_gas_decimal :: "rat option"
  br_gas_human :: "(rat \<times> string) option"
  br_token :: "string option"
  br_token_decimal :: "rat option"
  br_token_human :: "(rat \<times> string) option"

definition decimal_or_zero :: "u256 \<Rightarrow> rat" where
  "decimal_or_zero v = (case u256_to_eth v of Inr d \<Rightarrow> d | Inl _ \<Rightarrow> 0)"

definition three_decimals :: "rat \<Rightarrow> rat" where
  "three_decimals q = of_int \<lfloor>q * 1000\<rfloor> / 1000"

definition balance_result_of :: "externals \<Rightarrow> configured_chain \<Rightarrow> get_balance_result \<Rightarrow> balance_result" where
  "balance_result_of E chain_cfg balance = (let gas = gb_gas_balance balance; token = gb_token_balance balance in
     \<lparr>br_gas = map_option (dec_of_u256 E) gas, br_gas_decimal = map_option decimal_or_zero gas,
      br_gas_human = map_option (\<lambda>v. (three_decimals (decimal_or_zero v), cn_currency_symbol chain_cfg)) gas,
      br_token = map_option (dec_of_u256 E) token, br_token_decimal = map_option decimal_or_zero token,
      br_token_human = map_option (\<lambda>v. (three_decimals (decimal_or_zero v), cn_token_symbol chain_cfg)) token\<rparr>)"

text \<open>\<open>visit\<close> is the order in which the hash set of the texts is iterated; the addresses are checked before any is asked about.\<close>

definition account_texts :: "(string list \<Rightarrow> string list) \<Rightarrow> string \<Rightarrow> string list" where
  "account_texts visit s = visit (remdups (map (\<lambda>p. to_lower (trim p)) (split_commas s)))"

fun parse_accounts :: "externals \<Rightarrow> string list \<Rightarrow> failure + address list" where
  "parse_accounts E [] = Inr []"
| "parse_accounts E (s # ss) = bindE (ok_or (err_custom ''Invalid account address'') (addr_of_str E s)) (\<lambda>a.
     bindE (parse_accounts E ss) (\<lambda>as. Inr (a # as)))"

fun collect_balances ::
    "env \<Rightarrow> configured_chain \<Rightarrow> balance_options \<Rightarrow> address list \<Rightarrow> (string \<rightharpoonup> balance_result) \<Rightarrow> (string \<rightharpoonup> balance_result) prg" where
  "collect_balances V chain_cfg opt [] result_map = ret result_map"
| "collect_balances V chain_cfg opt (job # jobs) result_map =
     bindM (or_panic (get_balance V (if bo_hide_token opt then None else Some (cc_token_address chain_cfg)) job
         (\<not> bo_hide_gas opt) None)) (\<lambda>balance.
       collect_balances V chain_cfg opt jobs
         (result_map(str_of_addr (ev_ext V) job \<mapsto> balance_result_of (ev_ext V) chain_cfg balance)))"

definition balances_of_accounts ::
    "(string list \<Rightarrow> string list) \<Rightarrow> cli_env \<Rightarrow> cli_config \<Rightarrow> balance_options \<Rightarrow> (string \<rightharpoonup> balance_result) prg" where
  "balances_of_accounts visit C cfg opt = (let V = ce_env C in
     bindM (liftR (configured cfg (bo_chain_name opt))) (\<lambda>chain_cfg.
     bindM (connect C cfg chain_cfg) (\<lambda>_.
     bindM (require (Panic ''called unwrap on a None value'') (bo_accounts opt)) (\<lambda>accounts.
     bindM (liftR (parse_accounts (ev_ext V) (account_texts visit accounts))) (\<lambda>jobs.
       collect_balances V chain_cfg opt jobs Map.empty)))))"

text \<open>Without accounts the command asks about the accounts of the tool.\<close>

definition join_commas :: "string list \<Rightarrow> string" where
  "join_commas ss = (case ss of [] \<Rightarrow> [] | s # rest \<Rightarrow> s @ concat (map (\<lambda>t. CHR '','' # t) rest))"

definition balance_command ::
    "(string list \<Rightarrow> string list) \<Rightarrow> cli_env \<Rightarrow> cli_config \<Rightarrow> address list \<Rightarrow> balance_options \<Rightarrow> (string \<rightharpoonup> balance_result) prg" where
  "balance_command visit C cfg public_addrs opt = balances_of_accounts visit C cfg
     (opt\<lparr>bo_accounts := Some (or_default (join_commas (map (str_of_addr (ev_ext (ce_env C))) public_addrs)) (bo_accounts opt))\<rparr>)"

section \<open>The faucet\<close>

record faucet_env =
  fe_srv_lookup :: "string \<Rightarrow> (string \<times> nat) list option"
  fe_lookup_ip :: "string \<Rightarrow> string list option"
  fe_url_host :: "string \<Rightarrow> string option option"
  fe_has_scheme :: "string \<Rightarrow> bool"
  fe_get :: "string \<Rightarrow> failure + string"

definition trim_dots :: "string \<Rightarrow> string" where
  "trim_dots s = trim_end CHR ''.'' s"

definition resolve_srv_record :: "faucet_env \<Rightarrow> string \<Rightarrow> string option" where
  "resolve_srv_record F rcd = (case fe_srv_lookup F rcd of
       Some ((target, port) # _) \<Rightarrow> Some (trim_dots target @ '':'' @ int_text (int port)) | _ \<Rightarrow> None)"

definition resolve_yagna_srv_record :: "faucet_env \<Rightarrow> string \<Rightarrow> string \<Rightarrow> string option" where
  "resolve_yagna_srv_record F default_lookup_domain prefix_text =
     resolve_srv_record F (trim_dots prefix_text @ ''.'' @ default_lookup_domain)"

definition resolve_faucet_url :: "faucet_env \<Rightarrow> string \<Rightarrow> string \<Rightarrow> string \<Rightarrow> nat \<Rightarrow> string" where
  "resolve_faucet_url F faucet_srv_prefix default_lookup_domain default_faucet_host port =
     ''http://'' @ (case resolve_yagna_srv_record F default_lookup_domain faucet_srv_prefix of
        Some host \<Rightarrow> host | None \<Rightarrow> default_faucet_host @ '':'' @ int_text (int port)) @ ''/donate''"

text \<open>\<open>str::replace\<close>: every occurrence, from the left; the pattern is the host of a URL, which is not empty.\<close>

function replace_text :: "string \<Rightarrow> string \<Rightarrow> string \<Rightarrow> string" where
  "replace_text [] p r = []"
| "replace_text (c # s) p r = (if p \<noteq> [] \<and> take (length p) (c # s) = p then r @ replace_text (drop (length p) (c # s)) p r
     else c # replace_text s p r)"
  by pat_completeness auto
termination
  by (relation "measure (\<lambda>(s, p, r). length s)") (auto simp: neq_Nil_conv)

definition resolve_dns_record_host :: "faucet_env \<Rightarrow> string \<Rightarrow> string option" where
  "resolve_dns_record_host F host = (case fe_lookup_ip F host of Some (address # _) \<Rightarrow> Some address | _ \<Rightarrow> None)"

definition resolve_dns_record :: "faucet_env \<Rightarrow> string \<Rightarrow> string option" where
  "resolve_dns_record F request_url = (case fe_url_host F request_url of
       Some (Some request_host) \<Rightarrow>
         map_option (\<lambda>address. replace_text request_url request_host address) (resolve_dns_record_host F request_host)
     | _ \<Rightarrow> None)"

definition try_resolve_dns_record :: "faucet_env \<Rightarrow> string \<Rightarrow> string" where
  "try_resolve_dns_record F request_url_or_host = or_default request_url_or_host
     (if fe_has_scheme F request_url_or_host then resolve_dns_record F request_url_or_host
      else resolve_dns_record_host F request_url_or_host)"

definition faucet_donate :: "faucet_env \<Rightarrow> externals \<Rightarrow> string \<Rightarrow> string \<Rightarrow> string \<Rightarrow> nat \<Rightarrow> address \<Rightarrow> failure + unit" where
  "faucet_donate F E faucet_srv_prefix default_lookup_domain default_faucet_host port address =
     (let faucet_url = resolve_faucet_url F faucet_srv_prefix default_lookup_domain default_faucet_host port;
          request_url = try_resolve_dns_record F (faucet_url @ ''/'' @ str_of_addr E address)
      in bindE (fe_get F request_url) (\<lambda>_. Inr ()))"

record get_dev_eth_options = account_choice +
  gd_chain_name :: string

definition get_dev_eth :: "faucet_env \<Rightarrow> cli_env \<Rightarrow> cli_config \<Rightarrow> address list \<Rightarrow> get_dev_eth_options \<Rightarrow> failure + unit" where
  "get_dev_eth F C cfg public_addrs opt =
     bindE (choose_account opt public_addrs) (\<lambda>public_addr.
     bindE (configured cfg (gd_chain_name opt)) (\<lambda>chain_cfg.
     bindE (ok_or (Panic ''No faucet client config found'') (cn_faucet_client chain_cfg)) (\<lambda>fc.
       faucet_donate F (ev_ext (ce_env C)) (fc_faucet_srv fc) (fc_faucet_lookup_domain fc) (fc_faucet_host fc)
         (fc_faucet_srv_port fc) public_addr)))"

section \<open>Checking the endpoints of a chain\<close>

text \<open>The endpoints listed in the configuration; an entry without any source panics.\<close>

fun listed_endpoints :: "u64 \<Rightarrow> rpc_settings list \<Rightarrow> failure + web3_rpc_single_params list" where
  "listed_endpoints chain_id [] = Inr []"
| "listed_endpoints chain_id (s # ss) =
     bindE (case split_string_by_coma (rs_endpoints s) of
         Some endpoints \<Rightarrow> Inr (single_endpoints chain_id s endpoints)
       | None \<Rightarrow> if rs_dns_source s \<noteq> None \<or> rs_json_source s \<noteq> None then Inr []
           else Inl (Panic ''Endpoint has to have endpoints or dns_source or json_source'')) (\<lambda>es.
     bindE (listed_endpoints chain_id ss) (\<lambda>rest. Inr (es @ rest)))"

definition add_found :: "pool_env \<Rightarrow> u64 \<Rightarrow> rpc_settings \<Rightarrow> (string \<times> string) list \<Rightarrow> unit pool_prg" where
  "add_found V chain_id s url_names = forM url_names (\<lambda>(url, name). add_endpoint V \<lparr>sp_chain_id = chain_id, sp_name = name,
     sp_endpoint = url, sp_endpoint_params = endpoint_params_of s, sp_source_id = None\<rparr>)"

definition add_external :: "pool_env \<Rightarrow> u64 \<Rightarrow> rpc_settings \<Rightarrow> unit pool_prg" where
  "add_external V chain_id s =
     (if split_string_by_coma (rs_endpoints s) \<noteq> None then ret ()
      else (case rs_dns_source s of
          Some dns_source \<Rightarrow> bindM (ask_pool (\<lambda>n. pe_dns V n dns_source)) (\<lambda>r. case r of
              Inl _ \<Rightarrow> throw (err_custom ''Error resolving dns entry'')
            | Inr entries \<Rightarrow> let urls = resolve_txt_record_to_string_array entries in add_found V chain_id s (zip urls urls))
        | None \<Rightarrow> (case rs_json_source s of
              Some json_source \<Rightarrow> bindM (ask_pool (\<lambda>n. pe_json V n json_source)) (\<lambda>r. case r of
                  Inl _ \<Rightarrow> throw (err_custom ''Error getting response'')
                | Inr (names, urls) \<Rightarrow> if length names \<noteq> length urls
                    then throw (err_custom ''Endpoint names and endpoints have to have same length'')
                    else add_found V chain_id s (zip urls names))
            | None \<Rightarrow> throw (Panic ''Endpoint has to have endpoints or dns_source''))))"

definition check_penalty :: "index \<times> web3_rpc_single_params \<times> web3_rpc_info \<Rightarrow> i64" where
  "check_penalty e = wi_penalty_from_ms (snd (snd e)) + wi_penalty_from_head_behind (snd (snd e))"

text \<open>The end of a task that nobody awaits is seen, its panic is not.\<close>

definition detached :: "unit pool_prg \<Rightarrow> unit pool_prg" where
  "detached m w = (Inr (), snd (m w))"

text \<open>The command waits for the verification and shows the endpoints, the least penalty first.\<close>

definition check_rpc_local ::
    "pool_env \<Rightarrow> cli_config \<Rightarrow> string \<Rightarrow> (nat \<times> web3_rpc_single_params \<times> web3_rpc_info) list pool_prg" where
  "check_rpc_local V cfg chain_name =
     bindM (liftR (configured cfg chain_name)) (\<lambda>chain_cfg.
     let chain_id = i64_as_u64 (cc_chain_id chain_cfg); settings = cn_rpc_endpoints chain_cfg in
     bindM (liftR (listed_endpoints chain_id settings)) (\<lambda>single.
     bindM (pool_new V chain_id single [] [] 10000 300000) (\<lambda>_.
     bindM (forM settings (add_external V chain_id)) (\<lambda>_.
     bindM (start_verify_if_needed V False) (\<lambda>started.
     if \<not> started then throw (Panic ''called unwrap on a None value'')
     else bindM (detached (verify_task V False)) (\<lambda>_.
     bindM (gets pw_pool) (\<lambda>p.
       ret (enumerate 0 (map snd (sort_key check_penalty (get_endpoints_info p)))))))))))"

end
