(* ===== verification/Reports.thy ===== *)
theory Reports imports Cli Stats begin

text \<open>
  The reports of the command line tool (\<open>src/stats.rs\<close>): the statistics of the transfers of a chain, with the
  receivers of the first sender in a chosen order, and the export of the fees paid over time. What is printed and
  what goes into the file of metrics is kept as values, not as text. Sets and maps that the code keeps sorted are
  read in the order of their keys.
\<close>

section \<open>Statistics\<close>

record payment_stats_options =
  so_chain_name :: string
  so_show_receiver_count :: nat
  so_order_by :: string
  so_order_by_dir :: string
  so_from_blockchain :: bool

record stats_metric =
  sm_name :: string
  sm_sender :: address
  sm_value :: rat

record stats_report =
  sr_main_sender :: address
  sr_metrics :: "stats_metric list"
  sr_receivers :: "(address \<times> transfer_stats_part) list"
  sr_more :: bool

definition in_key_order :: "('k::linorder \<rightharpoonup> 'v) \<Rightarrow> ('k \<times> 'v) list" where
  "in_key_order m = map (\<lambda>k. (k, the (m k))) (sorted_list_of_set (dom m))"

definition shown_eth :: "u256 \<Rightarrow> failure + rat" where
  "shown_eth v = unwrapped (u256_to_eth v)"

definition eth_or_zero :: "u256 \<Rightarrow> rat" where
  "eth_or_zero v = (case u256_to_eth v of Inr d \<Rightarrow> d | Inl _ \<Rightarrow> 0)"

definition sender_metrics :: "configured_chain \<Rightarrow> address \<times> transfer_stats_base \<Rightarrow> failure + stats_metric list" where
  "sender_metrics chain_cfg sender_stats = (case sender_stats of (sender, stats) \<Rightarrow>
     let all = sb_all stats; metric = (\<lambda>name v. \<lparr>sm_name = name, sm_sender = sender, sm_value = v\<rparr>) in
     bindE (shown_eth (entry_or 0 (st_erc20_token_transferred all) (cc_token_address chain_cfg))) (\<lambda>token.
       Inr [metric ''receivers_count'' (of_nat (card (dom (sb_per_receiver stats)))),
            metric ''erc20_transferred'' token,
            metric ''payment_count'' (of_nat (st_done_count all)),
            metric ''transaction_count'' (of_nat (card (st_transaction_ids all))),
            metric ''fee_paid'' (eth_or_zero (st_fee_paid all))]))"

fun all_metrics :: "configured_chain \<Rightarrow> (address \<times> transfer_stats_base) list \<Rightarrow> failure + stats_metric list" where
  "all_metrics chain_cfg [] = Inr []"
| "all_metrics chain_cfg (s # ss) =
     bindE (sender_metrics chain_cfg s) (\<lambda>m. bindE (all_metrics chain_cfg ss) (\<lambda>ms. Inr (m @ ms)))"

text \<open>A receiver that was not paid yet has the longest delay. The token of the code is the first one of the map.\<close>

definition delay_of :: "transfer_stats_part \<Rightarrow> int" where
  "delay_of p = (case st_max_payment_delay p of Some d \<Rightarrow> d | None \<Rightarrow> 9223372036854775)"

definition first_token :: "transfer_stats_part \<Rightarrow> u256 option" where
  "first_token p = (case in_key_order (st_erc20_token_transferred p) of (_, v) # _ \<Rightarrow> Some v | [] \<Rightarrow> None)"

text \<open>Two receivers are compared when there are two; the greatest comes first.\<close>

definition ordered_receivers ::
    "string \<Rightarrow> (address \<times> transfer_stats_part) list \<Rightarrow> failure + (address \<times> transfer_stats_part) list" where
  "ordered_receivers by per_receiver =
     (if by = ''payment_delay'' then Inr (sort_key (\<lambda>r. - delay_of (snd r)) per_receiver)
      else if by = ''token_sent'' then
        (if length per_receiver > 1 \<and> list_ex (\<lambda>r. first_token (snd r) = None) per_receiver
         then Inl (Panic ''called Option::unwrap() on a None value'')
         else Inr (sort_key (\<lambda>r. - int (unat (or_default 0 (first_token (snd r))))) per_receiver))
      else if by = ''gas_paid'' \<or> by = ''fee_paid''
      then Inr (sort_key (\<lambda>r. - int (unat (st_fee_paid (snd r)))) per_receiver)
      else Inl (err_custom ''Unknown order_by option''))"

definition directed :: "string \<Rightarrow> 'a list \<Rightarrow> 'a list" where
  "directed dir rs = (if dir = ''asc'' then rev rs else rs)"

fun check_shown :: "(address \<times> transfer_stats_part) list \<Rightarrow> failure + unit" where
  "check_shown [] = Inr ()"
| "check_shown ((receiver, p) # rs) =
     bindE (shown_eth (st_fee_paid p)) (\<lambda>_.
     bindE (shown_eth (st_native_token_transferred p)) (\<lambda>_.
     bindE (shown_eth (or_default 0 (first_token p))) (\<lambda>_. check_shown rs)))"

definition report_of ::
    "configured_chain \<Rightarrow> payment_stats_options \<Rightarrow> (address \<times> transfer_stats_base) list \<Rightarrow> failure + stats_report option" where
  "report_of chain_cfg opt per_sender = (case per_sender of
       [] \<Rightarrow> Inr None
     | (main_sender, main_stats) # _ \<Rightarrow>
         bindE (shown_eth (st_fee_paid (sb_all main_stats))) (\<lambda>_.
         bindE (all_metrics chain_cfg per_sender) (\<lambda>metrics.
         bindE (shown_eth (st_native_token_transferred (sb_all main_stats))) (\<lambda>_.
         bindE (shown_eth (entry_or 0 (st_erc20_token_transferred (sb_all main_stats)) (cc_token_address chain_cfg))) (\<lambda>_.
         bindE (ordered_receivers (so_order_by opt) (in_key_order (sb_per_receiver main_stats))) (\<lambda>ordered.
         let per_receiver = directed (so_order_by_dir opt) ordered;
             shown = take (so_show_receiver_count opt) per_receiver in
         bindE (check_shown shown) (\<lambda>_.
           Inr (Some \<lparr>sr_main_sender = main_sender, sr_metrics = metrics, sr_receivers = shown,
             sr_more = (length per_receiver > so_show_receiver_count opt)\<rparr>))))))))"

definition run_stats :: "cli_env \<Rightarrow> cli_config \<Rightarrow> payment_stats_options \<Rightarrow> stats_report option prg" where
  "run_stats C cfg opt = (let E = ev_ext (ce_env C) in
     bindM (liftR (configured cfg (so_chain_name opt))) (\<lambda>chain_cfg.
     bindM (or_panic (on_db (if so_from_blockchain opt
         then get_transfer_stats_from_blockchain E (cc_chain_id chain_cfg) None
         else get_transfer_stats E (cc_chain_id chain_cfg) None))) (\<lambda>transfer_stats.
       liftR (report_of chain_cfg opt (in_key_order transfer_stats)))))"

section \<open>Export of the history\<close>

record stats_row =
  ex_time :: timestamp
  ex_fee_paid :: rat
  ex_fee_paid_total :: rat
  ex_tx_count :: nat
  ex_payment_count :: nat

definition payments_of :: "chain_transfer_db_obj list \<Rightarrow> chain_tx_db_obj \<Rightarrow> nat" where
  "payments_of tchains tx = length (filter (\<lambda>t. ct_chain_tx_id t = ctx_id tx) tchains)"

text \<open>
  \<open>fmt\<close> is the number with six decimals. The rows written before a panic stay. A transaction without transfers
  is not in the map of the code, and the lookup panics.
\<close>

fun export_rows ::
    "cli_env \<Rightarrow> (rat \<Rightarrow> rat) \<Rightarrow> chain_transfer_db_obj list \<Rightarrow> chain_tx_db_obj list \<Rightarrow> rat \<Rightarrow> stats_row list \<times> failure option" where
  "export_rows C fmt tchains [] fee_paid_total = ([], None)"
| "export_rows C fmt tchains (tx # txs) fee_paid_total =
     (case unwrapped (u256_eth_from_str (ev_ext (ce_env C)) (ctx_fee_paid tx)) of
        Inl e \<Rightarrow> ([], Some e)
      | Inr (_, fee_paid) \<Rightarrow> (case ce_decimal_add C fee_paid_total fee_paid of
            None \<Rightarrow> ([], Some (Panic ''Addition overflowed''))
          | Some new_total \<Rightarrow>
              (if payments_of tchains tx = 0 then ([], Some (Panic ''called Option::unwrap() on a None value''))
               else (case export_rows C fmt tchains txs new_total of (rows, e) \<Rightarrow>
                 (\<lparr>ex_time = ctx_blockchain_date tx, ex_fee_paid = fmt fee_paid, ex_fee_paid_total = fmt new_total,
                   ex_tx_count = 1, ex_payment_count = payments_of tchains tx\<rparr> # rows, e)))))"

definition export_stats :: "cli_env \<Rightarrow> (rat \<Rightarrow> rat) \<Rightarrow> cli_config \<Rightarrow> string \<Rightarrow> (stats_row list \<times> failure option) prg" where
  "export_stats C fmt cfg chain_name =
     bindM (liftR (configured cfg chain_name)) (\<lambda>chain_cfg.
     bindM (or_panic (db_run (get_chain_transfers_by_chain_id (cc_chain_id chain_cfg) None))) (\<lambda>tchains.
     bindM (or_panic (db_run (get_chain_txs_by_chain_id (cc_chain_id chain_cfg) None))) (\<lambda>txs.
       ret (export_rows C fmt tchains (sort_key ctx_blockchain_date txs) 0))))"

section \<open>What the export contains\<close>

text \<open>The rows of an export that ran to its end: one per transaction, with running totals.\<close>

lemma export_rows_totals:
  assumes "export_rows C fmt tchains txs start = (rows, None)"
    and "\<And>a b c. ce_decimal_add C a b = Some c \<Longrightarrow> c = a + b"
  shows "\<exists>fees. map (\<lambda>tx. u256_eth_from_str (ev_ext (ce_env C)) (ctx_fee_paid tx)) txs = map Inr fees \<and>
    rows = map (\<lambda>i. \<lparr>ex_time = ctx_blockchain_date (txs ! i), ex_fee_paid = fmt (snd (fees ! i)),
      ex_fee_paid_total = fmt (start + sum_list (map snd (take (Suc i) fees))), ex_tx_count = 1,
      ex_payment_count = payments_of tchains (txs ! i)\<rparr>) [0..<length txs] \<and>
    (\<forall>tx\<in>set txs. 0 < payments_of tchains tx)"
  using assms(1)
proof (induction txs arbitrary: start rows)
  case (Cons tx txs)
  let ?fee = "u256_eth_from_str (ev_ext (ce_env C)) (ctx_fee_paid tx)"
  obtain v fee t rest where step: "unwrapped ?fee = Inr (v, fee)" "ce_decimal_add C start fee = Some t"
    "payments_of tchains tx \<noteq> 0" "export_rows C fmt tchains txs t = (rest, None)"
    and rows: "rows = \<lparr>ex_time = ctx_blockchain_date tx, ex_fee_paid = fmt fee, ex_fee_paid_total = fmt t,
      ex_tx_count = 1, ex_payment_count = payments_of tchains tx\<rparr> # rest"
    using Cons.prems by (auto split: sum.splits option.splits if_splits prod.splits)
  have fee: "?fee = Inr (v, fee)" using step(1) by (simp add: unwrapped_def split: sum.splits failure.splits)
  have t: "t = start + fee" using assms(2) step(2) by blast
  from Cons.IH [OF step(4)] obtain fees where
    fees: "map (\<lambda>tx. u256_eth_from_str (ev_ext (ce_env C)) (ctx_fee_paid tx)) txs = map Inr fees"
    and rest: "rest = map (\<lambda>i. \<lparr>ex_time = ctx_blockchain_date (txs ! i), ex_fee_paid = fmt (snd (fees ! i)),
      ex_fee_paid_total = fmt (t + sum_list (map snd (take (Suc i) fees))), ex_tx_count = 1,
      ex_payment_count = payments_of tchains (txs ! i)\<rparr>) [0..<length txs]"
    and pos: "\<forall>tx\<in>set txs. 0 < payments_of tchains tx" by blast
  have "[0..<length (tx # txs)] = 0 # map Suc [0..<length txs]" by (simp add: upt_conv_Cons map_Suc_upt del: upt_Suc)
  then have "rows = map (\<lambda>i. \<lparr>ex_time = ctx_blockchain_date ((tx # txs) ! i), ex_fee_paid = fmt (snd (((v, fee) # fees) ! i)),
      ex_fee_paid_total = fmt (start + sum_list (map snd (take (Suc i) ((v, fee) # fees)))), ex_tx_count = 1,
      ex_payment_count = payments_of tchains ((tx # txs) ! i)\<rparr>) [0..<length (tx # txs)]"
    by (simp add: rows rest t add.assoc)
  moreover have "map (\<lambda>tx. u256_eth_from_str (ev_ext (ce_env C)) (ctx_fee_paid tx)) (tx # txs) = map Inr ((v, fee) # fees)"
    using fee fees by simp
  moreover have "\<forall>u\<in>set (tx # txs). 0 < payments_of tchains u" using pos step(3) by simp
  ultimately show ?case by (intro exI [of _ "(v, fee) # fees"] conjI)
qed simp

end
