(* ===== verification/Tool.thy ===== *)
theory Tool imports Driver Web Scan Generate Lookups Reports begin

text \<open>
  The main function of the command line tool (\<open>main_internal\<close> of \<open>src/main.rs\<close>): keys, configuration and
  connection, then one subcommand. Its result is what the command shows or starts. Files, the database file and
  decryption are parameters. A server that was started runs with the routes in the result.
\<close>

section \<open>Reading the configuration\<close>

datatype file_content = NoSuchFile | Unreadable | Content string

definition load_config :: "(string \<Rightarrow> cli_config option) \<Rightarrow> file_content \<Rightarrow> failure + cli_config" where
  "load_config toml file = (case file of
       NoSuchFile \<Rightarrow> Inl (Err IoError)
     | Unreadable \<Rightarrow> Inl (err_custom ''Failed to read config file'')
     | Content s \<Rightarrow> ok_or (err_custom ''Failed to parse toml'') (toml s))"

definition load_from_str :: "(string \<Rightarrow> cli_config option) \<Rightarrow> string \<Rightarrow> failure + cli_config" where
  "load_from_str toml s = ok_or (err_custom ''Failed to parse toml'') (toml s)"

definition default_config :: "(string \<Rightarrow> cli_config option) \<Rightarrow> string \<Rightarrow> failure + cli_config" where
  "default_config toml default_config_str = unwrapped (load_from_str toml default_config_str)"

definition config_or_default :: "(string \<Rightarrow> cli_config option) \<Rightarrow> file_content \<Rightarrow> string \<Rightarrow> failure + cli_config" where
  "config_or_default toml file default_config_str = (case load_config toml file of
       Inl (Err IoError) \<Rightarrow> default_config toml default_config_str | r \<Rightarrow> r)"

section \<open>The subcommands\<close>

record run_options =
  ro_keep_running :: bool
  ro_skip_service_loop :: bool
  ro_generate_tx_only :: bool
  ro_skip_multi_contract_check :: bool
  ro_http :: bool
  ro_faucet :: bool
  ro_debug :: bool
  ro_transfers :: bool
  ro_frontend :: bool
  ro_balance_check_loop :: "u64 option"

datatype deposit_commands =
    CreateDeposit make_deposit_options
  | CloseDeposit close_local_options
  | TerminateDeposit terminate_local_options
  | CheckDeposit check_deposit_options

datatype payment_commands =
    RunService run_options
  | GeneratePayments generate_options
  | GenerateKey nat
  | CheckRpc string
  | GetDevEth get_dev_eth_options
  | MintTestTokens mint_options
  | DepositCommand deposit_commands
  | SingleTransfer transfer_options
  | BalanceCommand balance_options
  | ImportPayments "(unit + token_transfer_db_obj) list option"
  | ScanBlockchain scan_blockchain_options
  | PaymentStats payment_stats_options
  | ExportHistory string
  | DecryptKeyStore string string
  | Cleanup cleanup_options

record payment_options =
  pq_sqlite_read_only :: bool
  pq_commands :: payment_commands

record tool_env =
  to_cli :: cli_env
  to_keys :: key_env
  to_faucet :: faucet_env
  to_generator :: generator
  to_toml :: "string \<Rightarrow> cli_config option"
  to_config_file :: file_content
  to_default_config :: string
  to_connection :: "failure + unit"
  to_pool_start :: pool_world
  to_fmt :: "rat \<Rightarrow> rat"
  to_visit_texts :: "string list \<Rightarrow> string list"
  to_visit_txs :: "(h256 \<times> nat) list \<Rightarrow> (h256 \<times> nat) list"
  to_decrypt :: "string \<Rightarrow> string \<Rightarrow> bytes option"
  to_fuel :: nat

datatype command_result =
    NothingShown
  | DriverStarted driver "endpoint route list option"
  | KeysShown "string list" "address list"
  | EndpointsShown "(nat \<times> web3_rpc_single_params \<times> web3_rpc_info) list"
  | DetailsShown deposit_details
  | TransferQueued token_transfer_db_obj
  | BalancesShown "string \<rightharpoonup> balance_result"
  | StatsShown "stats_report option"
  | ExportDone "stats_row list" "failure option"
  | KeyShown string

definition key_load_needed :: "payment_commands \<Rightarrow> bool" where
  "key_load_needed c = (case c of GenerateKey _ \<Rightarrow> False | _ \<Rightarrow> True)"

definition connection_needed :: "payment_commands \<Rightarrow> bool" where
  "connection_needed c = (case c of GenerateKey _ \<Rightarrow> False | _ \<Rightarrow> True)"

definition run_additional_options :: "run_options \<Rightarrow> additional_options" where
  "run_additional_options opt = additional_options_default\<lparr>ao_keep_running := ro_keep_running opt,
     ao_skip_service_loop := ro_skip_service_loop opt, ao_generate_tx_only := ro_generate_tx_only opt,
     ao_skip_multi_contract_check := ro_skip_multi_contract_check opt\<rparr>"

text \<open>The driver, and the routes of its server when there is one; without a server its tasks are joined.\<close>

definition run_service :: "tool_env \<Rightarrow> cli_config \<Rightarrow> u256 list \<Rightarrow> run_options \<Rightarrow> failure + command_result" where
  "run_service T cfg private_keys opt =
     (if ro_http opt \<and> \<not> ro_keep_running opt then Inl (err_custom ''http mode requires keep-running option'')
      else let C = to_cli T in
        bindE (payment_runtime_new (ce_pool C) (ev_checked_mul (ce_env C)) (ce_uuid C) (ke_addr_of_secret (to_keys T)) (Inr ())
          \<lparr>pa_secret_keys = private_keys, pa_engine = cg_engine cfg, pa_chain = cg_chain cfg,
           pa_options = Some (run_additional_options opt),
           pa_extra_testing = map_option (\<lambda>n. \<lparr>xo_balance_check_loop = Some n, xo_erc20_lib_test_replacement_timeout = None\<rparr>)
             (ro_balance_check_loop opt)\<rparr>) (\<lambda>dr.
          Inr (DriverStarted dr (if ro_http opt
            then Some (map (in_scope ''erc20'') (runtime_web_scope (ro_faucet opt) (ro_transfers opt) (ro_debug opt) (ro_frontend opt)))
            else None))))"

definition nothing :: "'a prg \<Rightarrow> command_result prg" where
  "nothing m = bindM m (\<lambda>_. ret NothingShown)"

definition showing :: "('a \<Rightarrow> command_result) \<Rightarrow> 'a prg \<Rightarrow> command_result prg" where
  "showing f m = bindM m (\<lambda>a. ret (f a))"

fun deposit_command :: "tool_env \<Rightarrow> cli_config \<Rightarrow> address list \<Rightarrow> deposit_commands \<Rightarrow> command_result prg" where
  "deposit_command T cfg public_addrs (CreateDeposit opt) = nothing (make_deposit_local (to_cli T) cfg public_addrs opt)"
| "deposit_command T cfg public_addrs (CloseDeposit opt) = nothing (close_deposit_local (to_cli T) cfg public_addrs opt)"
| "deposit_command T cfg public_addrs (TerminateDeposit opt) = nothing (terminate_deposit_local (to_cli T) cfg public_addrs opt)"
| "deposit_command T cfg public_addrs (CheckDeposit opt) = showing DetailsShown (deposit_details_local (to_cli T) cfg opt)"

definition generate_command :: "tool_env \<Rightarrow> cli_config \<Rightarrow> bool \<Rightarrow> address list \<Rightarrow> generate_options \<Rightarrow> command_result prg" where
  "generate_command T cfg read_only public_addrs opt =
     (if go_append_to_db opt \<and> read_only then throw (err_custom ''Cannot append to db in read-only mode'')
      else nothing (generate_test_payments (to_cli T) (to_generator T) cfg opt public_addrs))"

fun subcommand ::
    "tool_env \<Rightarrow> cli_config \<Rightarrow> bool \<Rightarrow> u256 list \<Rightarrow> address list \<Rightarrow> payment_commands \<Rightarrow> command_result prg" where
  "subcommand T cfg ro keys addrs (RunService opt) = liftR (run_service T cfg keys opt)"
| "subcommand T cfg ro keys addrs (CheckRpc chain_name) = liftR (bindE (fst (check_rpc_local (ce_pool (to_cli T)) cfg chain_name
     (to_pool_start T))) (\<lambda>es. Inr (EndpointsShown es)))"
| "subcommand T cfg ro keys addrs (GetDevEth opt) = nothing (liftR (get_dev_eth (to_faucet T) (to_cli T) cfg addrs opt))"
| "subcommand T cfg ro keys addrs (MintTestTokens opt) = nothing (mint_test_tokens (to_cli T) cfg addrs opt)"
| "subcommand T cfg ro keys addrs (DepositCommand c) = deposit_command T cfg addrs c"
| "subcommand T cfg ro keys addrs (GenerateKey n) = liftR (bindE (gen_private_keys (to_keys T) (ev_ext (ce_env (to_cli T)))
     (to_fuel T) n) (\<lambda>(ks, as). Inr (KeysShown ks as)))"
| "subcommand T cfg ro keys addrs (SingleTransfer opt) = showing TransferQueued (single_transfer (to_cli T) cfg addrs opt)"
| "subcommand T cfg ro keys addrs (BalanceCommand opt) =
     showing BalancesShown (balance_command (to_visit_texts T) (to_cli T) cfg addrs opt)"
| "subcommand T cfg ro keys addrs (GeneratePayments opt) = generate_command T cfg ro addrs opt"
| "subcommand T cfg ro keys addrs (ExportHistory chain_name) =
     showing (\<lambda>(rows, e). ExportDone rows e) (export_stats (to_cli T) (to_fmt T) cfg chain_name)"
| "subcommand T cfg ro keys addrs (PaymentStats opt) = showing StatsShown (run_stats (to_cli T) cfg opt)"
| "subcommand T cfg ro keys addrs (ScanBlockchain opt) = nothing (scan_blockchain_local (to_visit_txs T) (ce_env (to_cli T))
     (to_fuel T) (to_fuel T) (new_empty_setup (to_cli T) cfg) (\<lambda>name. map_option chain_config.truncate (map_of (cg_chain cfg) name)) opt)"
| "subcommand T cfg ro keys addrs (ImportPayments file) = nothing (import_payments (to_cli T) cfg ro file)"
| "subcommand T cfg ro keys addrs (DecryptKeyStore file password) = (case to_decrypt T file password of
     Some pkey \<Rightarrow> ret (KeyShown (hex_encode (ev_ext (ce_env (to_cli T))) pkey))
   | None \<Rightarrow> throw (Panic ''called unwrap on an Err value''))"
| "subcommand T cfg ro keys addrs (Cleanup opt) = nothing (cleanup (to_cli T) (to_fuel T) opt)"

definition main_internal :: "tool_env \<Rightarrow> payment_options \<Rightarrow> command_result prg" where
  "main_internal T cli = (let command = pq_commands cli; C = to_cli T in
     bindM (liftR (if key_load_needed command
         then load_private_keys (to_keys T) (or_default [] (ev_getenv (ce_env C) ''ETH_PRIVATE_KEYS'')) else Inr ([], [])))
       (\<lambda>(private_keys, public_addrs).
     bindM (liftR (config_or_default (to_toml T) (to_config_file T) (to_default_config T))) (\<lambda>loaded.
     bindM (liftR (config_with_env C loaded)) (\<lambda>cfg.
     bindM (liftR (if connection_needed command then to_connection T else Inr ())) (\<lambda>_.
       subcommand T cfg (pq_sqlite_read_only cli) private_keys public_addrs command)))))"

end
