(* ===== verification/ToolProofs.thy ===== *)
theory ToolProofs imports Tool SetupProofs begin

text \<open>What holds for every command of the tool: the keys and references of the database stay intact.\<close>

section \<open>Scanning\<close>

lemma ok_scan_info: "db_ok d \<Longrightarrow> tbl_wf sc_id t \<Longrightarrow> db_ok (d\<lparr>d_scan_info := t\<rparr>)"
  by (simp add: db_ok_def keys_ok_def fk_ok_def)

lemma preserves_upsert_scan_info [preserves_intro]: "preserves db_ok (upsert_scan_info s)"
proof (rule preservesI)
  fix d assume d: "db_ok d"
  then have "tbl_wf sc_id (d_scan_info d)" by (simp add: db_ok_def keys_ok_def)
  then have "tbl_wf sc_id (snd (tbl_insert set_sc_id s (tbl_delete_where P (d_scan_info d))))" for P
    by (intro scans.wf_insert scans.wf_delete)
  then show "db_ok (snd (upsert_scan_info s d))"
    using ok_scan_info [OF d] by (simp add: upsert_scan_info_def case_prod_unfold)
qed

lemma preserves_delete_scan_info [preserves_intro]: "preserves db_ok (delete_scan_info c f)"
proof (rule preservesI)
  fix d assume d: "db_ok d"
  then have "tbl_wf sc_id (tbl_delete_where P (d_scan_info d))" for P
    by (intro scans.wf_delete) (simp add: db_ok_def keys_ok_def)
  then show "db_ok (snd (delete_scan_info c f d))"
    using ok_scan_info [OF d] by (simp add: delete_scan_info_def)
qed

lemma asks_import_erc20 [asks_intro]: "asks (import_erc20_txs visit V args)"
  unfolding import_erc20_txs_def get_erc20_logs_def Let_def by (intro asks_intro)

lemma preserves_scan_int [preserves_intro]: "preserves world_ok (scan_int visit V n opt c a b s)"
  unfolding scan_int_def import_found_def by (intro preserves_intro asks_import_erc20 [THEN asks_preserves])

lemma preserves_scan_auto_step [preserves_intro]: "preserves world_ok (scan_auto_step visit V n opt c s info)"
  unfolding scan_auto_step_def Let_def by (intro preserves_intro) (auto split: scan_range.split intro!: preserves_intro)

lemma preserves_scan_auto [preserves_intro]: "preserves world_ok (scan_auto visit V n opt c s turns info)"
  by (induction turns arbitrary: info) (auto intro!: preserves_intro)

lemma preserves_get_scan_info [preserves_intro]: "preserves I (get_scan_info c f)"
  unfolding get_scan_info_def by (rule preserves_gets)

lemma preserves_scan_blockchain [preserves_intro]: "preserves world_ok (scan_blockchain_local visit V n turns S cfg opt)"
  unfolding scan_blockchain_local_def scan_info_to_use_def scan_once_def Let_def
  by (intro preserves_intro)

section \<open>Generating and showing\<close>

lemma preserves_random_addr [preserves_intro]: "preserves world_ok (generate_unique_random_addr E rng)"
  unfolding generate_unique_random_addr_def draw_def by (intro preserves_intro)

lemma preserves_random_pool [preserves_intro]: "preserves world_ok (random_address_pool E rng n)"
  by (induction n) (auto intro!: preserves_intro)

lemma preserves_generated [preserves_intro]: "preserves world_ok (generated_transfer C G c t P)"
  unfolding generated_transfer_def pick_def draw_def Let_def by (intro preserves_intro)

lemma preserves_store_generated [preserves_intro]: "preserves world_ok (store_generated C G opt n tt)"
  unfolding store_generated_def by (intro preserves_intro ok_insert_token_transfer)

lemma preserves_generate_batch [preserves_intro]: "preserves world_ok (generate_batch C G opt c t P n k)"
  by (induction n arbitrary: k) (auto intro!: preserves_intro)

lemma preserves_generate [preserves_intro]: "preserves world_ok (generate_test_payments C G cfg opt addrs)"
  unfolding generate_test_payments_def Let_def by (intro preserves_intro) (auto split: error_bag.split intro!: preserves_intro)

lemma preserves_collect_balances [preserves_intro]: "preserves world_ok (collect_balances V c opt jobs m)"
  by (induction jobs arbitrary: m) (auto intro!: preserves_intro)

lemma preserves_balance_command [preserves_intro]: "preserves world_ok (balance_command visit C cfg addrs opt)"
  unfolding balance_command_def balances_of_accounts_def Let_def by (intro preserves_intro)

lemma preserves_run_stats [preserves_intro]: "preserves world_ok (run_stats C cfg opt)"
  unfolding run_stats_def get_transfer_stats_def get_transfer_stats_from_blockchain_def get_token_transfers_by_chain_id_def
    get_chain_transfers_by_chain_id_def Let_def
  by (intro preserves_intro)

lemma preserves_export_stats [preserves_intro]: "preserves world_ok (export_stats C fmt cfg n)"
  unfolding export_stats_def get_chain_transfers_by_chain_id_def get_chain_txs_by_chain_id_def by (intro preserves_intro)

section \<open>Every command\<close>

lemma preserves_showing [preserves_intro]: "preserves I m \<Longrightarrow> preserves I (nothing m)" "preserves I m' \<Longrightarrow> preserves I (showing f m')"
  unfolding nothing_def showing_def by (intro preserves_intro; assumption)+

lemma preserves_deposit_command [preserves_intro]: "preserves world_ok (deposit_command T cfg addrs c)"
  by (cases c) (auto intro!: preserves_intro)

lemma preserves_generate_command [preserves_intro]: "preserves world_ok (generate_command T cfg ro addrs opt)"
  unfolding generate_command_def by (intro preserves_intro)

lemma preserves_subcommand [preserves_intro]: "preserves world_ok (subcommand T cfg ro keys addrs c)"
  by (cases c) (auto intro!: preserves_intro split: option.split)

lemma preserves_balance_loop [preserves_intro]: "preserves world_ok (balance_loop V fuel n k)"
  by (induction V fuel n k rule: balance_loop.induct) (auto intro!: preserves_intro)

lemma preserves_run_task [preserves_intro]: "preserves world_ok (run_task visit reg V n m t dr k)"
  unfolding run_task_def test_balance_loop_def Let_def
  by (auto split: task.split list.split sum.split intro!: preserves_intro preserves_service_loop)

text \<open>Whatever command the tool runs, with whatever options and answers, and also when it fails or panics midway,
  it leaves the database with distinct keys and with references to existing rows only; and so does every task of a
  driver it starts.\<close>

theorem tool_keeps_integrity:
  "preserves world_ok (main_internal T cli) \<and> preserves world_ok (run_task visit registered V tx_fuel fuel t dr k)"
proof
  show "preserves world_ok (main_internal T cli)" unfolding main_internal_def Let_def by (intro preserves_intro)
qed (rule preserves_run_task)

end
