(* ===== verification/Signing.thy ===== *)
theory Signing imports ConfirmProofs Http begin

text \<open>
  Who signs (\<open>signer/private.rs\<close>, \<open>signer/external.rs\<close>, \<open>signer/account.rs\<close>): the signer that holds private keys,
  the time limit an account puts on its signer, and the old way of signing. Keys are numbers; the address of a
  key and the signature are parameters. The interface of a signer is a locale, with the law the driver relies on:
  an address it refuses at the check is refused at signing as well.
\<close>

section \<open>Signers\<close>

record crypto =
  cy_addr_of_secret :: "u256 \<Rightarrow> address"
  cy_sign_transaction :: "u256 \<Rightarrow> transaction_parameters \<Rightarrow> string + bytes \<times> h256"

text \<open>The message is no format string in the code either.\<close>

definition get_private_key :: "crypto \<Rightarrow> u256 list \<Rightarrow> address \<Rightarrow> string + u256" where
  "get_private_key K secret_keys pub_address = ok_or ''Failed to find private key for address: {from_addr}''
     (find (\<lambda>sk. cy_addr_of_secret K sk = pub_address) secret_keys)"

definition private_check_if_sign_possible :: "crypto \<Rightarrow> u256 list \<Rightarrow> address \<Rightarrow> string + unit" where
  "private_check_if_sign_possible K secret_keys pub_address =
     bindE (get_private_key K secret_keys pub_address) (\<lambda>_. Inr ())"

definition private_sign :: "crypto \<Rightarrow> u256 list \<Rightarrow> address \<Rightarrow> transaction_parameters \<Rightarrow> string + bytes \<times> h256" where
  "private_sign K secret_keys pub_address tp =
     bindE (get_private_key K secret_keys pub_address) (\<lambda>secret_key.
       (case cy_sign_transaction K secret_key tp of
          Inl err \<Rightarrow> Inl (''Error when signing transaction in PrivateKeySigner '' @ err)
        | Inr s \<Rightarrow> Inr s))"

text \<open>The account waits five seconds for its signer; \<open>None\<close> is a signer that did not answer.\<close>

definition account_answer :: "(string + 'a) option \<Rightarrow> failure + 'a" where
  "account_answer answer = (case answer of
       Some (Inr a) \<Rightarrow> Inr a
     | Some (Inl err) \<Rightarrow> Inl (err_custom ''Sign returned error'')
     | None \<Rightarrow> Inl (err_custom ''Sign check timed out''))"

definition account_check_if_sign_possible :: "(string + unit) option \<Rightarrow> failure + unit" where
  "account_check_if_sign_possible answer = account_answer answer"

definition account_sign :: "(string + bytes \<times> h256) option \<Rightarrow> failure + bytes \<times> h256" where
  "account_sign answer = account_answer answer"

text \<open>Signing with a key at hand; a failure of the library is an error of web3.\<close>

definition sign_transaction_deprecated ::
    "env \<Rightarrow> crypto \<Rightarrow> (string \<Rightarrow> web3_error) \<Rightarrow> tx_db_obj \<Rightarrow> u256 \<Rightarrow> tx_db_obj prg" where
  "sign_transaction_deprecated V K web3_err tx secret_key = (let public_addr = cy_addr_of_secret K secret_key in
     if to_lower (t_from_addr tx) \<noteq> str_of_addr (ev_ext V) public_addr
     then throw (err_custom ''From addr not match with secret key'')
     else
       bindM (liftR (dao_to_transaction (ev_ext V) tx)) (\<lambda>tx_object.
       case cy_sign_transaction K secret_key tx_object of
         Inl err \<Rightarrow> throw (Err (Web3Error (web3_err err)))
       | Inr (raw_transaction, transaction_hash) \<Rightarrow> bindM (now V) (\<lambda>date.
           ret (tx\<lparr>t_signed_raw_data := Some (hex_encode (ev_ext V) raw_transaction), t_signed_date := Some date,
             t_tx_hash := Some (str_of_h256 (ev_ext V) transaction_hash)\<rparr>))))"

definition with_signer ::
    "(address \<Rightarrow> string + unit) \<Rightarrow> (address \<Rightarrow> transaction_parameters \<Rightarrow> string + bytes \<times> h256) \<Rightarrow> env \<Rightarrow> env" where
  "with_signer possible sign V = V\<lparr>ev_sign_possible := \<lambda>n. possible, ev_sign := \<lambda>n. sign\<rparr>"

section \<open>What the driver relies on\<close>

locale signer =
  fixes possible :: "address \<Rightarrow> string + unit"
    and sign :: "address \<Rightarrow> transaction_parameters \<Rightarrow> string + bytes \<times> h256"
  assumes refused: "possible a = Inl err \<Longrightarrow> \<exists>err'. sign a tp = Inl err'"
begin

lemma refused_before_work:
  assumes "possible a = Inl err" and "ps_chain_setup S (t_chain_id tx) = Some cs"
    and "addr_of_str (ev_ext V) (t_from_addr tx) = Some a"
  shows "\<exists>w'. process_transaction (with_signer possible sign V) S fuel tx wait w =
    (Inl (err_tx_failed ''Sign won't be possible for given address''), w') \<and> w_db w' = w_db w \<and> w_shared w' = w_shared w"
  using assms by (simp add: process_transaction_def with_signer_def require_def bindM_def ask_def send_driver_event_def
      ret_def throw_def modify_def)

lemma signed_by_signer:
  assumes "sign_transaction_with_callback (with_signer possible sign V) tx a w = (Inr tx', w')"
  obtains params raw hash date where "dao_to_transaction (ev_ext V) tx = Inr params" "sign a params = Inr (raw, hash)"
    "possible a = Inr ()" "w_db w' = w_db w"
    "tx' = tx\<lparr>t_signed_raw_data := Some (hex_encode (ev_ext V) raw), t_signed_date := Some date,
      t_tx_hash := Some (str_of_h256 (ev_ext V) hash)\<rparr>"
proof -
  have ext: "ev_ext (with_signer possible sign V) = ev_ext V" by (simp add: with_signer_def)
  from sign_done [OF assms] obtain params raw hash date where s: "dao_to_transaction (ev_ext V) tx = Inr params"
    "ev_sign (with_signer possible sign V) (w_tick w) a params = Inr (raw, hash)" "w_db w' = w_db w"
    "tx' = tx\<lparr>t_signed_raw_data := Some (hex_encode (ev_ext V) raw), t_signed_date := Some date,
      t_tx_hash := Some (str_of_h256 (ev_ext V) hash)\<rparr>"
    unfolding ext by blast
  from s(2) have signed: "sign a params = Inr (raw, hash)" by (simp add: with_signer_def)
  then have "possible a = Inr ()" using refused [of a _ params] by (cases "possible a") auto
  with s signed that show thesis by blast
qed

end

lemma get_private_key_cases:
  "get_private_key K keys a = Inr sk \<Longrightarrow> sk \<in> set keys \<and> cy_addr_of_secret K sk = a"
  "get_private_key K keys a = Inl e \<longleftrightarrow> e = ''Failed to find private key for address: {from_addr}'' \<and>
     a \<notin> cy_addr_of_secret K ` set keys"
  by (auto simp: get_private_key_def ok_or_def find_Some_iff find_None_iff split: option.splits)

interpretation private_keys: signer "private_check_if_sign_possible K keys" "private_sign K keys" for K keys
  by unfold_locales (auto simp: private_check_if_sign_possible_def private_sign_def bindE_def split: sum.splits)

text \<open>C14. With private keys in memory a transaction is signed with a key of its own sender or not at all: without
  a key of the sender the processing fails before any work, with the database and the shared state as they were;
  and what is stored as signed was made from the transaction of the row by a key whose address is the sender.\<close>

theorem signed_with_own_key:
  assumes "ps_chain_setup S (t_chain_id tx) = Some cs" and "addr_of_str (ev_ext V) (t_from_addr tx) = Some a"
    and "V' = with_signer (private_check_if_sign_possible K keys) (private_sign K keys) V"
  shows "(a \<notin> cy_addr_of_secret K ` set keys \<longrightarrow>
      (\<exists>w'. process_transaction V' S fuel tx wait w =
        (Inl (err_tx_failed ''Sign won't be possible for given address''), w') \<and> w_db w' = w_db w \<and> w_shared w' = w_shared w)) \<and>
    (\<forall>tx' w'. sign_transaction_with_callback V' tx a w = (Inr tx', w') \<longrightarrow>
      (\<exists>sk params raw hash date. sk \<in> set keys \<and> cy_addr_of_secret K sk = a \<and>
        dao_to_transaction (ev_ext V) tx = Inr params \<and> cy_sign_transaction K sk params = Inr (raw, hash) \<and>
        w_db w' = w_db w \<and> tx' = tx\<lparr>t_signed_raw_data := Some (hex_encode (ev_ext V) raw),
          t_signed_date := Some date, t_tx_hash := Some (str_of_h256 (ev_ext V) hash)\<rparr>))"
proof (intro conjI impI allI)
  assume "a \<notin> cy_addr_of_secret K ` set keys"
  then have "private_check_if_sign_possible K keys a = Inl ''Failed to find private key for address: {from_addr}''"
    by (simp add: private_check_if_sign_possible_def get_private_key_cases(2) [THEN iffD2])
  from private_keys.refused_before_work [OF this assms(1,2)]
  show "\<exists>w'. process_transaction V' S fuel tx wait w =
      (Inl (err_tx_failed ''Sign won't be possible for given address''), w') \<and> w_db w' = w_db w \<and> w_shared w' = w_shared w"
    by (simp add: assms(3))
next
  fix tx' w'
  assume run: "sign_transaction_with_callback V' tx a w = (Inr tx', w')"
  show "\<exists>sk params raw hash date. sk \<in> set keys \<and> cy_addr_of_secret K sk = a \<and>
      dao_to_transaction (ev_ext V) tx = Inr params \<and> cy_sign_transaction K sk params = Inr (raw, hash) \<and>
      w_db w' = w_db w \<and> tx' = tx\<lparr>t_signed_raw_data := Some (hex_encode (ev_ext V) raw),
        t_signed_date := Some date, t_tx_hash := Some (str_of_h256 (ev_ext V) hash)\<rparr>"
  proof (rule private_keys.signed_by_signer [OF run [unfolded assms(3)]])
    fix params raw hash date
    assume p: "dao_to_transaction (ev_ext V) tx = Inr params" "private_sign K keys a params = Inr (raw, hash)"
      "w_db w' = w_db w" "tx' = tx\<lparr>t_signed_raw_data := Some (hex_encode (ev_ext V) raw), t_signed_date := Some date,
        t_tx_hash := Some (str_of_h256 (ev_ext V) hash)\<rparr>"
    from p(2) obtain sk where "get_private_key K keys a = Inr sk" "cy_sign_transaction K sk params = Inr (raw, hash)"
      by (auto simp: private_sign_def bindE_def split: sum.splits)
    with p get_private_key_cases(1) show ?thesis by blast
  qed
qed

text \<open>Keys 5 and 6 with the addresses 1 and 2.\<close>

definition sample_crypto :: crypto where
  "sample_crypto = \<lparr>cy_addr_of_secret = (\<lambda>sk. ucast (sk - 4)), cy_sign_transaction = (\<lambda>sk tp. Inr ([of_nat (unat sk)], 9))\<rparr>"

definition priced_tx :: tx_db_obj where
  "priced_tx = payment_tx\<lparr>t_gas_limit := Some 21000\<rparr>"

theorem signed_with_own_key_witness:
  "\<exists>tx' w'. sign_transaction_with_callback (with_signer (private_check_if_sign_possible sample_crypto [6, 5])
       (private_sign sample_crypto [6, 5]) quiet_env) priced_tx 1 world_initial = (Inr tx', w') \<and>
     t_signed_raw_data tx' = Some (hex_encode unary [5])"
proof -
  let ?V = "with_signer (private_check_if_sign_possible sample_crypto [6, 5]) (private_sign sample_crypto [6, 5]) quiet_env"
  have "\<exists>tx' w'. sign_transaction_with_callback ?V priced_tx 1 world_initial = (Inr tx', w')"
    by (simp add: sign_transaction_with_callback_def with_signer_def private_sign_def get_private_key_def sample_crypto_def
        priced_tx_def payment_tx_def tx_default_def dao_to_transaction_def quiet_env_def unary_def decode_data_to_bytes_def
        tx_max_fee_def tx_priority_fee_def Let_def bindM_def ask_def now_def u256_from_i64_def as_i64_def parse_address_def
        parse_dec_def ok_or_def)
  then obtain tx' w' where run: "sign_transaction_with_callback ?V priced_tx 1 world_initial = (Inr tx', w')" by blast
  have "ps_chain_setup sample_setup (t_chain_id priced_tx) = Some sample_chain"
    "addr_of_str (ev_ext quiet_env) (t_from_addr priced_tx) = Some 1" "ev_ext quiet_env = unary"
    by (simp_all add: sample_setup_def priced_tx_def payment_tx_def tx_default_def quiet_env_def unary_def)
  note known = this
  from signed_with_own_key [OF known(1,2) refl, THEN conjunct2, rule_format, OF run]
  obtain sk raw date hash where "sk \<in> set [6, 5]" "cy_addr_of_secret sample_crypto sk = 1"
    "cy_sign_transaction sample_crypto sk params = Inr (raw, hash)"
    "tx' = priced_tx\<lparr>t_signed_raw_data := Some (hex_encode unary raw), t_signed_date := Some date,
      t_tx_hash := Some (str_of_h256 unary hash)\<rparr>" for params
    unfolding known(3) by (auto simp: sample_crypto_def)
  then have "t_signed_raw_data tx' = Some (hex_encode unary [5])" by (auto simp: sample_crypto_def)
  with run show ?thesis by blast
qed

end
