(* ===== verification/Feed.thy ===== *)
theory Feed imports Status "HOL-Library.Sublist" begin

text \<open>
  The feed of driver events over a websocket (\<open>server/ws.rs\<close>): one actor per connection, which writes every event
  it receives from the broadcast channel as a text and answers pings. The channel is a crate: what is used of it is
  that a receiver gets the events sent after it subscribed in their order, and is told how many it missed when it
  was too slow. \<open>to_text\<close> is the serialisation.
\<close>

section \<open>The channel\<close>

datatype 'e received = Received 'e | Lagged nat

inductive delivers :: "'e list \<Rightarrow> 'e received list \<Rightarrow> bool" where
  Nothing_yet: "delivers es []"
| In_order: "delivers es rs \<Longrightarrow> delivers (e # es) (Received e # rs)"
| Missed: "delivers es rs \<Longrightarrow> delivers (xs @ es) (Lagged (length xs) # rs)"

inductive_cases delivers_ReceivedE: "delivers es (Received e # rs)"
inductive_cases delivers_LaggedE: "delivers es (Lagged n # rs)"

section \<open>The actor\<close>

datatype ws_message = Ping bytes | TextMessage string | Binary bytes | OtherMessage

datatype ws_input = FromDriver "driver_event_content received" | FromClient "unit + ws_message"

datatype ws_output = SendText string | SendPong bytes

fun ws_handle :: "(driver_event_content \<Rightarrow> string) \<Rightarrow> ws_input \<Rightarrow> ws_output list" where
  "ws_handle to_text (FromDriver (Received event)) = [SendText (to_text event)]"
| "ws_handle to_text (FromDriver (Lagged n)) = []"
| "ws_handle to_text (FromClient (Inr (Ping msg))) = [SendPong msg]"
| "ws_handle to_text (FromClient _) = []"

definition ws_session :: "(driver_event_content \<Rightarrow> string) \<Rightarrow> ws_input list \<Rightarrow> ws_output list" where
  "ws_session to_text inputs = concat (map (ws_handle to_text) inputs)"

definition event_stream_websocket_endpoint ::
    "bool \<Rightarrow> (driver_event_content \<Rightarrow> string) \<Rightarrow> ws_input list \<Rightarrow> string + ws_output list" where
  "event_stream_websocket_endpoint driver_broadcast_sender to_text inputs =
     (if driver_broadcast_sender then Inr (ws_session to_text inputs) else Inl ''Driver event sender not available'')"

section \<open>What a client sees\<close>

fun events_of :: "'e received list \<Rightarrow> 'e list" where
  "events_of [] = []"
| "events_of (Received e # rs) = e # events_of rs"
| "events_of (Lagged n # rs) = events_of rs"

fun from_driver :: "ws_input list \<Rightarrow> driver_event_content received list" where
  "from_driver [] = []"
| "from_driver (FromDriver r # inputs) = r # from_driver inputs"
| "from_driver (FromClient m # inputs) = from_driver inputs"

fun texts_of :: "ws_output list \<Rightarrow> string list" where
  "texts_of [] = []"
| "texts_of (SendText s # outputs) = s # texts_of outputs"
| "texts_of (SendPong m # outputs) = texts_of outputs"

lemma texts_of_append [simp]: "texts_of (xs @ ys) = texts_of xs @ texts_of ys"
  by (induction xs rule: texts_of.induct) simp_all

lemma texts_of_handle: "texts_of (ws_handle to_text (FromClient m)) = []"
  by (cases "(to_text, FromClient m)" rule: ws_handle.cases) simp_all

lemma session_texts: "texts_of (ws_session to_text inputs) = map to_text (events_of (from_driver inputs))"
proof (induction inputs)
  case (Cons input inputs)
  show ?case
  proof (cases input)
    case (FromDriver r)
    with Cons.IH show ?thesis by (cases r) (simp_all add: ws_session_def)
  next
    case (FromClient m)
    with Cons.IH texts_of_handle show ?thesis by (simp add: ws_session_def)
  qed
qed (simp add: ws_session_def)

lemma delivers_subseq: "delivers es rs \<Longrightarrow> subseq (events_of rs) es"
  by (induction rule: delivers.induct) (auto simp: list_emb_append2)

text \<open>A client that reads the messages on the status keeps the last one.\<close>

fun read_status :: "status_property list \<Rightarrow> driver_event_content list \<Rightarrow> status_property list" where
  "read_status st [] = st"
| "read_status st (StatusChanged s # es) = read_status s es"
| "read_status st (e # es) = read_status st es"

lemma read_status_append: "read_status st (xs @ ys) = read_status (read_status st xs) ys"
  by (induction st xs rule: read_status.induct) simp_all

lemma read_status_other: "\<not> is_status_changed e \<Longrightarrow> read_status st (e # es) = read_status st es"
  by (cases e) simp_all

lemma update_status_unchanged: "update_status props p = (False, props') \<Longrightarrow> props' = props"
  by (induction props p arbitrary: props' rule: update_status.induct)
    (auto split: status_property.splits if_splits prod.splits)

lemma clear_issues_unchanged: "clear_issues props c = (False, props') \<Longrightarrow> props' = props"
  by (auto simp: clear_issues_def Let_def) (metis filter_True length_filter_less less_irrefl)

lemma handle_event_unchanged: "handle_event ev st = (False, pass, st') \<Longrightarrow> st' = st"
  by (cases "(ev, st)" rule: handle_event.cases)
    (auto simp: Let_def dest: update_status_unchanged clear_issues_unchanged split: prod.splits web3_rpc_pool_content.splits)

lemma handle_event_passes: "handle_event ev st = (True, pass, st') \<Longrightarrow> pass"
  by (cases "(ev, st)" rule: handle_event.cases)
    (auto simp: Let_def split: prod.splits web3_rpc_pool_content.splits)

lemma feed_has_status:
  "\<forall>e\<in>set evs. \<not> is_status_changed e \<Longrightarrow> read_status [] (snd (run_tracker evs)) = fst (run_tracker evs)"
proof (induction evs rule: rev_induct)
  case (snoc ev evs)
  obtain changed pass st' where step: "handle_event ev (fst (run_tracker evs)) = (changed, pass, st')"
    by (cases "handle_event ev (fst (run_tracker evs))") auto
  have IH: "read_status [] (snd (run_tracker evs)) = fst (run_tracker evs)" and ev: "\<not> is_status_changed ev"
    using snoc by auto
  have "pass" if changed using handle_event_passes step that by auto
  moreover have "st' = fst (run_tracker evs)" if "\<not> changed" using handle_event_unchanged step that by auto
  ultimately show ?case
    using IH step by (auto simp: run_tracker_snoc tracker_step_def split_beta read_status_append read_status_other [OF ev])
qed (simp add: run_tracker_def)

text \<open>C38. Whatever a client sends and however slow it is, it sees events the tracker has sent, in their order; and a client
  that was there from the start and missed nothing has read exactly the status of the driver.
\<close>

theorem client_in_step:
  assumes "\<forall>e\<in>set evs. \<not> is_status_changed e" and "delivers (snd (run_tracker evs)) (from_driver inputs)"
  shows "texts_of (ws_session to_text inputs) = map to_text (events_of (from_driver inputs)) \<and>
    subseq (events_of (from_driver inputs)) (snd (run_tracker evs)) \<and>
    (length (texts_of (ws_session to_text inputs)) = length (snd (run_tracker evs)) \<longrightarrow>
      read_status [] (events_of (from_driver inputs)) = fst (run_tracker evs))"
proof (intro conjI impI)
  let ?es = "events_of (from_driver inputs)"
  show texts: "texts_of (ws_session to_text inputs) = map to_text ?es" by (rule session_texts)
  show sub: "subseq ?es (snd (run_tracker evs))" by (rule delivers_subseq [OF assms(2)])
  assume "length (texts_of (ws_session to_text inputs)) = length (snd (run_tracker evs))"
  then have "length ?es = length (snd (run_tracker evs))" by (simp add: texts)
  from subseq_same_length [OF sub this] feed_has_status [OF assms(1)]
  show "read_status [] ?es = fst (run_tracker evs)" by simp
qed

theorem client_in_step_witness:
  "texts_of (ws_session (\<lambda>e. ''event'') [FromClient (Inr (Ping [1])), FromDriver (Received Alive)]) = [''event''] \<and>
     read_status [] [Alive] = fst (run_tracker [Alive])"
proof -
  let ?inputs = "[FromClient (Inr (Ping [1])), FromDriver (Received Alive)]"
  have sent: "run_tracker [Alive] = ([], [Alive])" by (simp add: run_tracker_def tracker_step_def)
  have no_status: "\<forall>e\<in>set [Alive]. \<not> is_status_changed e" by simp
  have "delivers (snd (run_tracker [Alive])) (from_driver ?inputs)" by (simp add: sent delivers.intros)
  from client_in_step [OF no_status this, of "\<lambda>e. ''event''"] show ?thesis by (simp add: sent)
qed

end
