(* ===== verification/Harness.thy ===== *)
theory Harness imports Lookups begin

text \<open>
  The support of the integration tests (\<open>erc20_payment_lib_test\<close>, \<open>web3_test_proxy_client\<close>): names of docker images, the
  search for a free pair of ports, the shared container that the last test stops, and the list of the calls the
  test proxy has captured in readable form. Docker itself, which ports are free and the texts of the proxy are
  parameters; strings are ASCII.
\<close>

section \<open>Names of images\<close>

datatype image_error =
    HasWhitespace | InvalidCharacter char nat | NoAlphanumeric | StartsWithColon | StartsWithSlash
  | ManyColons | ManySlashes | EmptyTag

record image_name =
  im_user :: "string option"
  im_repository :: string
  im_tag :: string

definition alphanumeric :: "char \<Rightarrow> bool" where
  "alphanumeric c = (let n = of_char c :: nat in
     48 \<le> n \<and> n \<le> 57 \<or> 65 \<le> n \<and> n \<le> 90 \<or> 97 \<le> n \<and> n \<le> 122)"

fun check_characters :: "nat \<Rightarrow> bool \<Rightarrow> string \<Rightarrow> image_error + bool" where
  "check_characters pos contains_alpha [] = Inr contains_alpha"
| "check_characters pos contains_alpha (c # s) =
     (if is_whitespace c then Inl HasWhitespace
      else if alphanumeric c then check_characters (pos + 1) True s
      else if c \<in> set ''-_./:'' then check_characters (pos + 1) contains_alpha s
      else Inl (InvalidCharacter c pos))"

text \<open>A text cut at the first occurrence of a character.\<close>

definition before_char :: "char \<Rightarrow> string \<Rightarrow> string" where
  "before_char c s = takeWhile (\<lambda>d. d \<noteq> c) s"

definition after_char :: "char \<Rightarrow> string \<Rightarrow> string" where
  "after_char c s = tl (dropWhile (\<lambda>d. d \<noteq> c) s)"

definition from_str_name :: "string \<Rightarrow> image_error + image_name" where
  "from_str_name image_name =
     bindE (check_characters 0 False image_name) (\<lambda>contains_alpha.
     if \<not> contains_alpha then Inl NoAlphanumeric
     else if take 1 image_name = '':'' then Inl StartsWithColon
     else if take 1 image_name = ''/'' then Inl StartsWithSlash
     else if count_list image_name CHR '':'' > 1 then Inl ManyColons
     else if count_list image_name CHR ''/'' > 1 then Inl ManySlashes
     else
       let (base_part, tag_part) = (if CHR '':'' \<in> set image_name
             then (before_char CHR '':'' image_name, after_char CHR '':'' image_name) else (image_name, ''latest''))
       in if tag_part = [] then Inl EmptyTag
       else Inr (if CHR ''/'' \<in> set base_part
         then \<lparr>im_user = Some (before_char CHR ''/'' base_part), im_repository = after_char CHR ''/'' base_part, im_tag = tag_part\<rparr>
         else \<lparr>im_user = None, im_repository = base_part, im_tag = tag_part\<rparr>))"

definition to_base_name :: "image_name \<Rightarrow> string" where
  "to_base_name im = (case im_user im of Some user \<Rightarrow> user @ ''/'' | None \<Rightarrow> []) @ im_repository im"

definition to_normalized_name :: "image_name \<Rightarrow> string" where
  "to_normalized_name im = (case im_user im of Some user \<Rightarrow> user @ ''/'' | None \<Rightarrow> []) @ im_repository im @ '':'' @ im_tag im"

section \<open>Ports\<close>

text \<open>The pair found and the ports in use afterwards. The first port is recorded twice, the second never.\<close>

definition ports_of :: "nat \<Rightarrow> nat \<times> nat" where
  "ports_of draw_value = (let random_skew = draw_value mod 1000 * 2 in (8544 + random_skew, 8545 + random_skew))"

fun find_port_pair :: "(nat \<Rightarrow> nat) \<Rightarrow> (nat \<Rightarrow> nat \<Rightarrow> bool) \<Rightarrow> nat \<Rightarrow> nat \<Rightarrow> nat set \<Rightarrow> (nat \<times> nat) option \<times> nat set" where
  "find_port_pair random_value available 0 n used = (None, used)"
| "find_port_pair random_value available (Suc left) n used = (case ports_of (random_value n) of (port1, port2) \<Rightarrow>
     if port1 \<in> used \<or> port2 \<in> used \<or> \<not> (available n port1 \<and> available n port2)
     then find_port_pair random_value available left (n + 1) used
     else (Some (port1, port2), insert port1 (insert port1 used)))"

definition get_available_port_pair :: "(nat \<Rightarrow> nat) \<Rightarrow> (nat \<Rightarrow> nat \<Rightarrow> bool) \<Rightarrow> nat \<Rightarrow> nat set \<Rightarrow> (nat \<times> nat) option \<times> nat set" where
  "get_available_port_pair random_value available n used = find_port_pair random_value available 100 n used"

text \<open>A series of calls, each with draws and ports of its own.\<close>

fun port_pairs :: "((nat \<Rightarrow> nat) \<times> (nat \<Rightarrow> nat \<Rightarrow> bool)) list \<Rightarrow> nat set \<Rightarrow> (nat \<times> nat) list" where
  "port_pairs [] used = []"
| "port_pairs ((random_value, available) # calls) used =
     (case get_available_port_pair random_value available 0 used of
        (Some pair, used') \<Rightarrow> pair # port_pairs calls used'
      | (None, used') \<Rightarrow> port_pairs calls used')"

section \<open>The shared container\<close>

datatype container = NotStarted | Running | Stopped

text \<open>The order of its life.\<close>

instantiation container :: linorder
begin

fun rank_container :: "container \<Rightarrow> nat" where
  "rank_container NotStarted = 0"
| "rank_container Running = 1"
| "rank_container Stopped = 2"

definition less_eq_container :: "container \<Rightarrow> container \<Rightarrow> bool" where
  "less_eq_container c d \<longleftrightarrow> rank_container c \<le> rank_container d"

definition less_container :: "container \<Rightarrow> container \<Rightarrow> bool" where
  "less_container c d \<longleftrightarrow> rank_container c < rank_container d"

instance
proof
  show "c = d" if "c \<le> d" "d \<le> c" for c d :: container
    using that by (cases c; cases d) (simp_all add: less_eq_container_def)
qed (auto simp: less_eq_container_def less_container_def)

end

record test_state =
  th_container :: container
  th_test_count :: nat
  th_deinit_count :: nat
  th_panicked :: bool

definition init_once :: "test_state \<Rightarrow> test_state" where
  "init_once s = (if th_container s = NotStarted then s\<lparr>th_container := Running\<rparr> else s)"

definition teardown_once :: "test_state \<Rightarrow> test_state" where
  "teardown_once s = (init_once s)\<lparr>th_container := Stopped\<rparr>"

definition common_geth_init :: "test_state \<Rightarrow> test_state" where
  "common_geth_init s = (let s' = init_once s in s'\<lparr>th_test_count := th_test_count s' + 1\<rparr>)"

definition drop_helper :: "test_state \<Rightarrow> test_state" where
  "drop_helper s = (let f = th_test_count s; s' = s\<lparr>th_test_count := f - 1\<rparr> in
     if f = 1 then
       let last_res = th_deinit_count s'; s'' = s'\<lparr>th_deinit_count := last_res + 1\<rparr>
       in if last_res \<noteq> 0 then s''\<lparr>th_panicked := True\<rparr> else teardown_once s''
     else s')"

text \<open>Tests begin and end in any order; only a helper that exists is dropped.\<close>

inductive test_step :: "test_state \<Rightarrow> test_state \<Rightarrow> bool" where
  Begins: "test_step s (common_geth_init s)"
| Ends: "th_test_count s > 0 \<Longrightarrow> test_step s (drop_helper s)"

definition no_tests :: test_state where
  "no_tests = \<lparr>th_container = NotStarted, th_test_count = 0, th_deinit_count = 0, th_panicked = False\<rparr>"

section \<open>The calls of the proxy\<close>

record client_request =
  cq_method :: string
  cq_params :: "string option list"
  cq_parsed_method :: "string option"

record client_call =
  cl_requests :: "client_request list"
  cl_response :: "string option"
  cl_date :: int
  cl_status_code :: nat

text \<open>A response is parsed to its result: \<open>None\<close> when it is no such JSON, \<open>Some None\<close> when there is no result.\<close>

record client_env =
  cx_result :: "string \<Rightarrow> string option option"
  cx_u256_from_hex :: "string \<Rightarrow> u256 option"
  cx_eth_text :: "rat \<Rightarrow> string"
  cx_seconds_text :: "int \<Rightarrow> string"

definition hex_digit :: "char \<Rightarrow> nat option" where
  "hex_digit c = map_of (zip ''0123456789abcdef'' [0..<16]) c"

definition u64_from_hex :: "string \<Rightarrow> nat option" where
  "u64_from_hex s = (let ds = map hex_digit (to_lower (case s of CHR ''+'' # r \<Rightarrow> r | _ \<Rightarrow> s)) in
     if ds = [] \<or> None \<in> set ds then None
     else let v = of_base 16 (map the ds) in if v < 2 ^ 64 then Some v else None)"

definition method_human :: "client_request \<Rightarrow> failure + string" where
  "method_human c = (let m = cq_method c in
     if m = ''eth_call'' then Inr (or_default ''unknown method'' (cq_parsed_method c))
     else if m = ''eth_getTransactionCount'' then
       (if length (cq_params c) < 2 then Inl (Panic ''called unwrap on a None value'')
        else if cq_params c ! 1 = Some ''pending'' then Inr ''eth_getTransactionCount (pending)''
        else if cq_params c ! 1 = Some ''latest'' then Inr ''eth_getTransactionCount (latest)''
        else Inl (Panic ''Unexpected eth_getTransactionCount param''))
     else Inr m)"

text \<open>The digits of the result; \<open>missing\<close> stands for a response without one.\<close>

definition result_digits :: "client_env \<Rightarrow> string \<Rightarrow> client_call \<Rightarrow> failure + string" where
  "result_digits X missing call =
     bindE (ok_or (Panic ''called unwrap on a None value'') (cl_response call)) (\<lambda>response.
       Inr (case cx_result X response of
          Some r \<Rightarrow> replace_text (or_default missing r) ''0x'' [] | None \<Rightarrow> ''baad''))"

definition result_int :: "client_env \<Rightarrow> client_request \<Rightarrow> client_call \<Rightarrow> failure + nat option" where
  "result_int X c call =
     (if cq_method c \<in> {''eth_getTransactionCount'', ''eth_estimateGas'', ''eth_blockNumber''} \<and> cl_status_code call = 200
      then bindE (result_digits X ''baad'' call) (\<lambda>s.
        bindE (ok_or (Panic ''called unwrap on an Err value'') (u64_from_hex s)) (\<lambda>v. Inr (Some v)))
      else Inr None)"

definition result_balance :: "client_env \<Rightarrow> client_request \<Rightarrow> client_call \<Rightarrow> failure + u256 option" where
  "result_balance X c call =
     (if cq_method c = ''eth_getBalance'' \<and> cl_status_code call = 200
      then bindE (result_digits X ''-1'' call) (\<lambda>s.
        bindE (ok_or (Panic ''called unwrap on an Err value'') (cx_u256_from_hex X s)) (\<lambda>v. Inr (Some v)))
      else Inr None)"

definition result_text :: "client_env \<Rightarrow> client_request \<Rightarrow> client_call \<Rightarrow> failure + string" where
  "result_text X c call =
     bindE (result_int X c call) (\<lambda>i. bindE (result_balance X c call) (\<lambda>b. case i of
       Some v \<Rightarrow> Inr (int_text (int v))
     | None \<Rightarrow> (case b of
         Some v \<Rightarrow> bindE (unwrapped (u256_to_eth v)) (\<lambda>d. Inr (cx_eth_text X d))
       | None \<Rightarrow>
           if cq_method c = ''eth_getTransactionReceipt'' then Inr ''details?''
           else if cl_status_code call \<noteq> 200 then Inr (''failed: '' @ int_text (int (cl_status_code call)))
           else bindE (ok_or (Panic ''called unwrap on a None value'') (cl_response call)) (\<lambda>response.
             Inr (or_default ''failed_to_parse'' (or_default None (cx_result X response)))))))"

definition call_line :: "client_env \<Rightarrow> int \<Rightarrow> nat \<Rightarrow> client_call \<Rightarrow> failure + string" where
  "call_line X first_time no call =
     bindE (ok_or (Panic ''Expected parsed request'') (case cl_requests call of c # _ \<Rightarrow> Some c | [] \<Rightarrow> None)) (\<lambda>c.
     bindE (method_human c) (\<lambda>human.
     bindE (result_text X c call) (\<lambda>result_str.
       Inr (''web3 call no. '' @ int_text (int no) @ '' '' @ cx_seconds_text X (cl_date call - first_time) @ ''s : '' @
         human @ '' -> '' @ result_str))))"

fun call_lines :: "client_env \<Rightarrow> int \<Rightarrow> nat \<Rightarrow> client_call list \<Rightarrow> failure + string list" where
  "call_lines X first_time no [] = Inr []"
| "call_lines X first_time no (call # calls) =
     bindE (call_line X first_time no call) (\<lambda>line.
     bindE (call_lines X first_time (no + 1) calls) (\<lambda>rest. Inr (line # rest)))"

definition list_transactions_human :: "client_env \<Rightarrow> client_call list \<Rightarrow> failure + string list" where
  "list_transactions_human X calls = (case sort_key cl_date calls of
       [] \<Rightarrow> Inl (Panic ''called unwrap on a None value'')
     | first # rest \<Rightarrow> call_lines X (cl_date first) 0 (first # rest))"

end
