(* ===== verification/HarnessProofs.thy ===== *)
theory HarnessProofs imports Harness begin

text \<open>
  What the support of the tests gives: names of images survive printing and parsing, the pairs of ports handed out
  do not overlap although only one port of each is recorded, and when the shared container is stopped.
\<close>

section \<open>Names of images\<close>

lemma split_at_char: "c \<in> set s \<Longrightarrow> s = before_char c s @ c # after_char c s"
  by (induction s) (auto simp: before_char_def after_char_def)

lemma cut_append [simp]:
  "c \<notin> set s \<Longrightarrow> before_char c (s @ c # t) = s" "c \<notin> set s \<Longrightarrow> after_char c (s @ c # t) = t"
  by (induction s) (auto simp: before_char_def after_char_def)

lemma check_characters_append:
  "check_characters pos b (s @ t) = bindE (check_characters pos b s) (\<lambda>b'. check_characters (pos + length s) b' t)"
  by (induction pos b s rule: check_characters.induct) simp_all

lemma check_characters_nonempty: "check_characters pos False s = Inr True \<Longrightarrow> s \<noteq> []"
  by auto

text \<open>A name that was accepted prints to itself, with the tag it got when it had none, and parses to itself.\<close>

theorem image_name_roundtrip:
  assumes "from_str_name s = Inr im"
  shows "to_normalized_name im = (if CHR '':'' \<in> set s then s else s @ '':latest'')"
    and "from_str_name (to_normalized_name im) = Inr im"
proof -
  let ?base = "if CHR '':'' \<in> set s then before_char CHR '':'' s else s"
  let ?tag = "if CHR '':'' \<in> set s then after_char CHR '':'' s else ''latest''"
  have checks: "check_characters 0 False s = Inr True" "take 1 s \<noteq> '':''" "take 1 s \<noteq> ''/''"
    "count_list s CHR '':'' \<le> 1" "count_list s CHR ''/'' \<le> 1"
    and im: "im = (if CHR ''/'' \<in> set ?base
         then \<lparr>im_user = Some (before_char CHR ''/'' ?base), im_repository = after_char CHR ''/'' ?base, im_tag = ?tag\<rparr>
         else \<lparr>im_user = None, im_repository = ?base, im_tag = ?tag\<rparr>)"
    using assms by (auto simp: from_str_name_def bindE_def Let_def split: sum.splits if_splits)
  have "to_normalized_name im = ?base @ '':'' @ ?tag"
  proof (cases "CHR ''/'' \<in> set ?base")
    case True
    with split_at_char [OF True] show ?thesis by (simp add: im to_normalized_name_def)
  qed (simp add: im to_normalized_name_def)
  then show printed: "to_normalized_name im = (if CHR '':'' \<in> set s then s else s @ '':latest'')"
    using split_at_char [of "CHR '':''" s] by simp
  show "from_str_name (to_normalized_name im) = Inr im"
  proof (cases "CHR '':'' \<in> set s")
    case False
    have "check_characters 0 False (s @ '':latest'') = Inr True"
      by (simp add: check_characters_append checks(1) is_whitespace_def alphanumeric_def)
    moreover have "take 1 (s @ '':latest'') = take 1 s" using check_characters_nonempty [OF checks(1)] by (cases s) simp_all
    moreover have "count_list s CHR '':'' = 0" using False by (rule count_notin)
    ultimately have "from_str_name (s @ '':latest'') = Inr im"
      using checks False cut_append [OF False, of "''latest''"] by (simp add: from_str_name_def im)
    with printed False show ?thesis by simp
  qed (use assms printed in simp)
qed

section \<open>Ports\<close>

text \<open>Ports in use are the first ports of pairs, which are even; so no port of a new pair is one of an old one.\<close>

lemma find_port_pair_found:
  assumes "find_port_pair random_value available left n used = (r, used')"
  shows "case r of None \<Rightarrow> used' = used
    | Some (p, q) \<Rightarrow> even p \<and> q = p + 1 \<and> 8544 \<le> p \<and> p \<le> 10542 \<and> p \<notin> used \<and> used' = insert p used"
  using assms
proof (induction left arbitrary: n)
  case (Suc left)
  let ?skew = "random_value n mod 1000 * 2"
  show ?case
  proof (cases "8544 + ?skew \<in> used \<or> 8545 + ?skew \<in> used \<or> \<not> (available n (8544 + ?skew) \<and> available n (8545 + ?skew))")
    case True
    with Suc.prems have "find_port_pair random_value available left (n + 1) used = (r, used')"
      by (simp add: ports_of_def Let_def)
    then show ?thesis by (rule Suc.IH)
  next
    case False
    with Suc.prems have "r = Some (8544 + ?skew, 8545 + ?skew)" "used' = insert (8544 + ?skew) used"
      by (simp_all add: ports_of_def Let_def)
    moreover have "random_value n mod 1000 < 1000" by simp
    ultimately show ?thesis using False by simp
  qed
qed simp

lemma port_pairs_from:
  assumes "\<forall>p\<in>used. even p"
  shows "distinct (map fst (port_pairs calls used)) \<and>
    (\<forall>(p, q)\<in>set (port_pairs calls used). even p \<and> q = p + 1 \<and> 8544 \<le> p \<and> p \<le> 10542 \<and> p \<notin> used)"
  using assms
proof (induction calls used rule: port_pairs.induct)
  case (2 random_value available calls used)
  obtain r used' where step: "get_available_port_pair random_value available 0 used = (r, used')" by fastforce
  note found = find_port_pair_found [OF step [unfolded get_available_port_pair_def]]
  show ?case
  proof (cases r)
    case None
    with 2(1) [OF step [symmetric] None] found 2(3) show ?thesis by (simp add: step)
  next
    case (Some pair)
    obtain p q where pair: "pair = (p, q)" by fastforce
    have "distinct (map fst (port_pairs calls used')) \<and>
        (\<forall>(p, q)\<in>set (port_pairs calls used'). even p \<and> q = p + 1 \<and> 8544 \<le> p \<and> p \<le> 10542 \<and> p \<notin> used')"
      using 2(2) [OF step [symmetric] Some] found 2(3) by (simp add: Some pair)
    then show ?thesis using found by (auto simp: step Some pair)
  qed
qed simp

theorem port_pairs_disjoint:
  assumes "i < j" and "j < length (port_pairs calls {})"
    and "port_pairs calls {} ! i = (p, p')" and "port_pairs calls {} ! j = (q, q')"
  shows "{p, p'} \<inter> {q, q'} = {}"
proof -
  let ?ps = "port_pairs calls {}"
  have d: "distinct (map fst ?ps)" and e: "\<forall>(p, q)\<in>set ?ps. even p \<and> q = p + 1"
    using port_pairs_from [of "{}" calls] by auto
  have "(p, p') \<in> set ?ps" "(q, q') \<in> set ?ps" using assms by (metis nth_mem order_less_trans)+
  then have "even p" "p' = p + 1" "even q" "q' = q + 1" using e by auto
  moreover have "p \<noteq> q" using nth_eq_iff_index_eq [OF d, of i j] assms by simp
  ultimately show ?thesis by (auto elim!: evenE) presburger+
qed

lemma first_draw:
  assumes "ports_of (random_value n) = (p, q)" "p \<notin> used" "q \<notin> used" "available n p" "available n q"
  shows "get_available_port_pair random_value available n used = (Some (p, q), insert p used)"
proof -
  have "find_port_pair random_value available (Suc 99) n used = (Some (p, q), insert p used)"
    using assms by (simp del: One_nat_def add: find_port_pair.simps(2) del: Suc_numeral)
  then show ?thesis by (simp add: get_available_port_pair_def)
qed

theorem port_pairs_disjoint_witness:
  "port_pairs [(\<lambda>n. n, \<lambda>n p. True), (\<lambda>n. 3 + n, \<lambda>n p. True)] {} = [(8544, 8545), (8550, 8551)] \<and>
     {8544, 8545} \<inter> {8550, 8551 :: nat} = {}"
proof -
  have r: "port_pairs [(\<lambda>n. n, \<lambda>n p. True), (\<lambda>n. 3 + n, \<lambda>n p. True)] {} = [(8544, 8545), (8550, 8551)]"
    by (simp add: first_draw ports_of_def)
  have "{8544, 8545} \<inter> {8550, 8551 :: nat} = {}"
    by (rule port_pairs_disjoint [of 0 1 "[(\<lambda>n. n, \<lambda>n p. True), (\<lambda>n. 3 + n, \<lambda>n p. True)]"])
       (simp_all only: r, simp_all)
  with r show ?thesis by blast
qed

section \<open>The shared container\<close>

text \<open>
  The container runs as long as the number of helpers has not come back to zero; from then on it is stopped, and
  when the number comes back to zero a second time the process panics.
\<close>

definition container_ok :: "test_state \<Rightarrow> bool" where
  "container_ok s \<longleftrightarrow> (th_deinit_count s = 0 \<longrightarrow> th_container s = (if th_test_count s = 0 then NotStarted else Running)) \<and>
     (th_deinit_count s > 0 \<longrightarrow> th_container s = Stopped) \<and> (th_panicked s \<longleftrightarrow> th_deinit_count s > 1)"

inductive_cases test_stepE: "test_step s t"

lemmas test_step_defs = common_geth_init_def drop_helper_def init_once_def teardown_once_def Let_def

lemma test_step_ok: "test_step s t \<Longrightarrow> container_ok s \<Longrightarrow> container_ok t"
  by (erule test_stepE) (auto simp: container_ok_def test_step_defs split: if_splits)

theorem shared_container_lifetime: "test_step\<^sup>*\<^sup>* no_tests s \<Longrightarrow> container_ok s"
proof (induction rule: rtranclp_induct)
  case base
  show ?case by (simp add: container_ok_def no_tests_def)
qed (rule test_step_ok)

text \<open>No test starts a container that was stopped.\<close>

lemma container_onward: "test_step s t \<Longrightarrow> th_container s \<le> th_container t"
  by (erule test_stepE; cases "th_container s") (simp_all add: test_step_defs less_eq_container_def)

theorem container_never_restarted: "test_step\<^sup>*\<^sup>* s t \<Longrightarrow> th_container s \<le> th_container t"
  by (induction rule: rtranclp_induct) (auto dest: container_onward)

end
