(* ===== verification/Spec2Isabelle.thy ===== *)
theory Spec2Isabelle
  imports Amounts Packing Contracts Integrity ChainTables TxBuild Status BatchProofs ResultProofs ConfirmProofs
    AllowanceProofs ServiceProofs RuntimeProofs ChainProofs RpcProofs StatsProofs SetupProofs WebProofs ProxyProofs ScanProofs CliProofs DriverProofs ToolProofs Signing Feed HarnessProofs
begin

text \<open>
  Verification of the ERC20 payment driver (repository \<open>erc20_payment_lib\<close>).

  \<^bold>\<open>The program.\<close> The driver keeps a queue of token transfers in an SQLite database, batches them into transactions,
  signs and sends them through a pool of RPC endpoints, replaces stuck transactions and records what was paid and
  what it cost. A command line tool, a REST server with a websocket and a test proxy are built around it.

  \<^bold>\<open>How the model is built.\<close> A function of the code that can fail or change state is a computation
  \<open>('s, failure, 'a) prog\<close> of \<open>Prelude\<close>: a function from a state to a result and the state afterwards. A
  \<open>failure\<close> (\<open>Errors\<close>) is an error of the code, a panic, or exhausted fuel; so every \<open>?\<close>, \<open>unwrap\<close> and early return
  is a branch. The handlers work on a \<open>world\<close> (\<open>World\<close>): the database, the shared state, the events sent and a
  counter of the questions asked. What the driver asks of the outside (clock, chain, signer, environment
  variables, crates) is the record \<open>env\<close>, functions of that counter; every theorem holds for all such answers, with
  laws of crates as named hypotheses only where it needs them (locale \<open>external\<close>: addresses, numbers and bytes read
  back what was printed). Integers are words of their width where the code computes with wrap-around or checks an
  overflow (\<open>U256\<close>, addresses, hashes, \<open>u64\<close>), and integers where they are columns of SQLite or counters. Decimals
  and floating point numbers are rationals, and the range of a Decimal is the parameter \<open>ev_checked_mul\<close>.

  \<^bold>\<open>Theories and code.\<close>
  \<^item> \<open>Amounts\<close>, \<open>Packing\<close>, \<open>Contracts\<close>: \<open>utils.rs\<close> of the common crate, \<open>multi.rs\<close>, \<open>contracts.rs\<close>: conversions of
    amounts, packed lists of transfers, encoders of contract calls. Round trips and bounds.
  \<^item> \<open>Rows\<close>, \<open>Tables\<close>, \<open>Database\<close>, \<open>ChainTables\<close>, \<open>Integrity\<close>: \<open>db/model\<close> and \<open>db/ops\<close>: records for the rows, a
    table as the list of its rows with the last id, one function per SQL statement. \<open>db_ok\<close> is the invariant (unique
    ids, references to existing rows); every operation and every handler keeps it. The locale \<open>entity\<close> states
    what a table needs of its rows and is interpreted for all seven tables.
  \<^item> \<open>TxBuild\<close>, \<open>Receipts\<close>, \<open>Process\<close>, \<open>Signing\<close> with \<open>ConfirmProofs\<close>, \<open>ProcessProofs\<close>: \<open>transaction.rs\<close>, \<open>sender/process.rs\<close>,
    \<open>signer\<close>: the life of a transaction from its row over nonce, check, signature and replacement to its receipt. The
    locale \<open>signer\<close> is the contract of a signer, interpreted on the signer with private keys.
  \<^item> \<open>Batching\<close>, \<open>Allowance\<close>, \<open>Results\<close>, \<open>Service\<close> with their proofs: \<open>sender/batching.rs\<close>, \<open>allowance.rs\<close>, \<open>service.rs\<close>:
    grouping and batching of transfers, approvals, payment of transfers with their share of the fee, and the loop
    of an account on a chain. \<open>Payments\<close> states what the call of a transaction pays, from the interfaces of the token,
    multi and lock contracts alone, and the batches are measured against it. \<open>TransferRows\<close> holds the lemmas they share.
  \<^item> \<open>Eth\<close>, \<open>ChainScan\<close>, \<open>ChainImport\<close>, \<open>Stats\<close> with their proofs: \<open>eth.rs\<close>, the readers of \<open>transaction.rs\<close> and \<open>service.rs\<close>,
    verification of payments, import of transactions, statistics. The statistics equal a reference definition.
  \<^item> \<open>Events\<close>, \<open>Status\<close>, \<open>Feed\<close>: \<open>events.rs\<close>, the status tracker of \<open>runtime.rs\<close>, \<open>server/ws.rs\<close>: the tracker refines a map,
    and a client of the websocket that misses nothing reads the same status.
  \<^item> \<open>RpcPool\<close>, \<open>RpcCall\<close>, \<open>RpcTasks\<close>, \<open>RpcSteps\<close>, \<open>RpcProofs\<close>: the crate \<open>erc20_rpc_pool\<close>: endpoints and scores, calls,
    verification, external sources. The pool is a step relation; at every await the other tasks of the program take
    any number of steps (\<open>pe_others\<close>). The locales \<open>shared_pool\<close> and \<open>lasting_pool\<close> hold what a task may rely
    on, and are interpreted beside the verifier and the resolver of the code.
  \<^item> \<open>Setup\<close>, \<open>Runtime\<close>, \<open>Removal\<close>, \<open>Driver\<close> with their proofs: \<open>setup.rs\<close>, \<open>config.rs\<close>, \<open>runtime.rs\<close>: configuration, operations
    of the driver, its tasks. A task is known by its number.
  \<^item> \<open>Http\<close>, \<open>Web\<close>, \<open>WebProofs\<close>: \<open>server/web.rs\<close>: handlers, routes, faucet. Responses are values, their JSON texts are
    those of serde, and the router is a parameter that picks a registered route.
  \<^item> \<open>Proxy\<close>, \<open>ProxyProofs\<close>: \<open>web3_test_proxy\<close>: simulated problems, the bounded history under every interleaving of
    requests (the state changes where the code holds its lock), plans of problems.
  \<^item> \<open>Cli\<close>, \<open>Scan\<close>, \<open>Generate\<close>, \<open>Lookups\<close>, \<open>Reports\<close>, \<open>Tool\<close> with their proofs: \<open>src/main.rs\<close>, \<open>src/actions\<close>, \<open>src/stats.rs\<close>, \<open>misc.rs\<close>
    and the extra crate: the subcommands and the main function. Arguments are already parsed; files, keys and
    random draws are parameters.
  \<^item> \<open>Harness\<close>, \<open>HarnessProofs\<close>: \<open>erc20_payment_lib_test\<close>, \<open>web3_test_proxy_client\<close>: what of the support of the tests
    is more than a call of docker.
  \<^item> \<open>Sample\<close>, and the small instances in the proof theories, only serve the theorems that end in \<open>_witness\<close>.

  \<^bold>\<open>What is shown.\<close> Nothing is lost or paid twice: transfers are grouped, batched, linked and paid exactly once, each
  call queued pays its receivers exactly the sums of their transfers (other than 2^96 in packed calls, which the packing
  loses), fees are kept to the last wei, and references survive replacement, confirmation and removal. The
  database invariant holds after every command and task, also after a failure in the middle (\<open>tool_keeps_integrity\<close>,
  as every statement checks keys and references like SQLite does). A new transaction is
  signed only when it is affordable, with a key of its sender and a nonce above the confirmed ones; a replacement
  is signed with higher fees and without asking for the balance. Calls through the
  pool are bounded, its invariant holds in every reachable state, and the endpoints are tried in the order of a rating
  that is written out from their data. The setup, the transfer command and the REST interface
  are stated against the configuration, the options and the request, field by field. The REST interface writes only where
  it was enabled; a request to skip marks the one transaction it names. Where the code does not do what it means to, the theorem states what it does, and the list of findings
  that goes with the development says so.

  \<^bold>\<open>Loops.\<close> A loop that may run for ever takes fuel, and running out of it is the failure \<open>OutOfFuel\<close>, never a result.
  Walks along replacement chains take two steps more than there are rows (\<open>walk_fuel\<close>), which is shown to be
  enough when every transaction is newer than the one it replaces. A call of the pool needs five rounds
  (\<open>call_is_bounded\<close>). The queue of skipped transactions is empty after one round for each. The removal of unsent
  transactions needs one turn more than there are transactions. Two searches of the code never return (\<open>find_in_chain\<close> on a
  replaced transaction without a receipt, \<open>token_balance_attempts\<close> on a contract that fails); that no fuel is enough for them is a theorem. The
  service loop, the confirmation loop and the automatic scan are meant to run for ever, and are run for any
  number of rounds.

  \<^bold>\<open>Abstractions.\<close> Timestamps count seconds, except where milliseconds are compared; so the times of day that the
  faucet compares are whole seconds, where the code subtracts times with fractions and truncates the difference. The
  result of a verification is stored in one step, where the code reads the entry of the endpoint, changes the copy and
  writes it back under a lock of its own. Sleeping changes
  nothing but the later answers of the clock. Log messages are left out, and the texts of errors are shortened
  where no code reads them. The order in which a hash map is iterated is an argument (\<open>visit\<close>). Statements of one
  handler are not interleaved with those of another except in the pool and in the proxy; the database serialises
  transactions. Characters are ASCII.

  \<^bold>\<open>Not modelled.\<close> Opening of the database (\<open>db/connection.rs\<close>, calls of sqlx only); metrics, a wrapper of a crate; the
  macros of the errors; parsing of arguments and TOML, which the derive macros generate; the frontend files;
  docker, the HTTP client of the proxy and the constant tables in the support of the tests; the integration
  tests, which are scenarios over what is modelled; \<open>find_tx\<close>, which nothing calls. The cryptography, the ABI
  encoder and the decimal library are crates, hence parameters.
\<close>

end
